(* ===== verification/Py_Json.thy ===== *)
theory Py_Json
  imports Prelude
begin

text \<open>
  JSON documents as Python holds them after \<open>json.loads\<close>, and the two functions of the
  \<open>json\<close> module the harness calls. A number written with a fraction or an exponent is a
  \<open>float\<close> in Python; \<open>JFloat m e\<close> is the decimal \<open>m * 10 ^ e\<close> it was written as (with
  \<open>m\<close> not divisible by 10), before its rounding to a binary double. \<open>NaN\<close>, \<open>Infinity\<close>
  and escapes beyond code point 255 are outside the model: \<open>json_loads\<close> rejects them.

  The last section proves that reading a document back gives the document that was
  written (\<open>json_loads_dumps\<close>), which the components that write a file and read it again
  rest on.
\<close>

section \<open>Documents\<close>

datatype json =
    JNull
  | JBool bool
  | JInt int
  | JFloat int int
  | JStr string
  | JArr "json list"
  | JObj "(string \<times> json) list"

type_synonym jobj = "(string, json) dict"

text \<open>\<open>isinstance\<close> tests; in Python a \<open>bool\<close> is also an \<open>int\<close>.\<close>

fun is_obj :: "json \<Rightarrow> bool" where
  "is_obj (JObj _) = True"
| "is_obj _ = False"

fun is_str :: "json \<Rightarrow> bool" where
  "is_str (JStr _) = True"
| "is_str _ = False"

fun is_bool :: "json \<Rightarrow> bool" where
  "is_bool (JBool _) = True"
| "is_bool _ = False"

text \<open>\<open>isinstance(x, int) and not isinstance(x, bool)\<close>, with its value.\<close>

fun strict_int :: "json \<Rightarrow> int option" where
  "strict_int (JInt n) = Some n"
| "strict_int _ = None"

fun the_str :: "json \<Rightarrow> string option" where
  "the_str (JStr s) = Some s"
| "the_str _ = None"

fun the_obj :: "json \<Rightarrow> jobj option" where
  "the_obj (JObj d) = Some d"
| "the_obj _ = None"

fun the_arr :: "json \<Rightarrow> json list option" where
  "the_arr (JArr xs) = Some xs"
| "the_arr _ = None"

text \<open>\<open>d.get(k)\<close>, with \<open>None\<close> for a missing key.\<close>

definition jget :: "jobj \<Rightarrow> string \<Rightarrow> json" where
  "jget d k = (case dget d k of None \<Rightarrow> JNull | Some v \<Rightarrow> v)"

text \<open>Truth value: \<open>if x\<close>.\<close>

fun truthy :: "json \<Rightarrow> bool" where
  "truthy JNull = False"
| "truthy (JBool b) = b"
| "truthy (JInt n) = (n \<noteq> 0)"
| "truthy (JFloat m e) = (m \<noteq> 0)"
| "truthy (JStr s) = (s \<noteq> [])"
| "truthy (JArr xs) = (xs \<noteq> [])"
| "truthy (JObj d) = (d \<noteq> [])"

text \<open>\<open>x == n\<close> for an integer \<open>n\<close>: booleans and floats compare by their value.\<close>

fun py_eq_int :: "json \<Rightarrow> int \<Rightarrow> bool" where
  "py_eq_int (JInt k) n = (k = n)"
| "py_eq_int (JBool b) n = ((if b then 1 else 0) = n)"
| "py_eq_int (JFloat m e) n = (if e \<ge> 0 then m * 10 ^ nat e = n else m = n * 10 ^ nat (- e))"
| "py_eq_int _ n = False"

text \<open>Every object has distinct keys, at every depth: what a Python \<open>dict\<close> guarantees.\<close>

fun json_ok :: "json \<Rightarrow> bool" where
  "json_ok (JArr xs) = (\<forall>x \<in> set xs. json_ok x)"
| "json_ok (JObj d) = (dict_ok d \<and> (\<forall>p \<in> set d. json_ok (snd p)))"
| "json_ok _ = True"

fun float_free :: "json \<Rightarrow> bool" where
  "float_free (JFloat _ _) = False"
| "float_free (JArr xs) = (\<forall>x \<in> set xs. float_free x)"
| "float_free (JObj d) = (\<forall>p \<in> set d. float_free (snd p))"
| "float_free _ = True"

lemma empty_obj_ok [simp]: "json_ok (JObj [])" "float_free (JObj [])"
  by simp_all

lemma json_ok_get: "json_ok (JObj d) \<Longrightarrow> dget d k = Some v \<Longrightarrow> json_ok v"
  by (fastforce dest: dget_in_set)

lemma set_dset_subset: "set (dset k v d) \<subseteq> insert (k, v) (set d)"
  by (induction k v d rule: dset.induct) auto

lemma json_ok_dset:
  assumes "json_ok (JObj d)" "json_ok v"
  shows "json_ok (JObj (dset k v d))"
  using assms set_dset_subset [of k v d] by (auto 0 3)

section \<open>Writing: \<open>json.dumps\<close>\<close>

definition hex_digit :: "nat \<Rightarrow> char" where
  "hex_digit d = (if d < 10 then char_of (48 + d) else char_of (87 + d))"

definition esc_char :: "char \<Rightarrow> string" where
  "esc_char c = (let n = (of_char c :: nat) in
     if c = CHR 0x22 then [CHR 0x5C, CHR 0x22]
     else if c = CHR 0x5C then [CHR 0x5C, CHR 0x5C]
     else if c = CHR 0x0A then [CHR 0x5C, CHR ''n'']
     else if c = CHR 0x0D then [CHR 0x5C, CHR ''r'']
     else if c = CHR 0x09 then [CHR 0x5C, CHR ''t'']
     else if c = CHR 0x0C then [CHR 0x5C, CHR ''f'']
     else if c = CHR 0x08 then [CHR 0x5C, CHR ''b'']
     else if 32 \<le> n \<and> n \<le> 126 then [c]
     else [CHR 0x5C, CHR ''u'', CHR ''0'', CHR ''0'', hex_digit (n div 16), hex_digit (n mod 16)])"

text \<open>The same with \<open>ensure_ascii=False\<close>: only the quote, the backslash and the control codes.\<close>

definition raw_char :: "char \<Rightarrow> string" where
  "raw_char c = (if 127 \<le> (of_char c :: nat) then [c] else esc_char c)"

definition quote_with :: "(char \<Rightarrow> string) \<Rightarrow> string \<Rightarrow> string" where
  "quote_with esc s = CHR 0x22 # concat (map esc s) @ [CHR 0x22]"

abbreviation quote :: "string \<Rightarrow> string" where
  "quote \<equiv> quote_with esc_char"

text \<open>\<open>repr\<close> of a float: positional between \<open>1e-4\<close> and \<open>1e16\<close>, scientific outside.\<close>

definition repr_float :: "int \<Rightarrow> int \<Rightarrow> string" where
  "repr_float m e = (let ds = str_nat (nat \<bar>m\<bar>); p = int (length ds) + e;
     body =
       (if - 4 < p \<and> p \<le> 16 then
          (if p \<le> 0 then ''0.'' @ replicate (nat (- p)) (CHR ''0'') @ ds
           else if int (length ds) \<le> p then ds @ replicate (nat p - length ds) (CHR ''0'') @ ''.0''
           else take (nat p) ds @ ''.'' @ drop (nat p) ds)
        else (let x = p - 1; ex = str_nat (nat \<bar>x\<bar>) in
          take 1 ds @ (if length ds > 1 then ''.'' @ drop 1 ds else []) @
          (if x < 0 then ''e-'' else ''e+'') @ (if length ex < 2 then CHR ''0'' # ex else ex)))
     in (if m < 0 then CHR ''-'' # body else body))"

definition nl :: "bool \<Rightarrow> nat \<Rightarrow> string" where
  \<comment> \<open>the line break and indentation at a nesting level, when indenting\<close>
  "nl ind l = (if ind then CHR 0x0A # replicate (2 * l) (CHR 0x20) else [])"

definition item_sep :: "bool \<Rightarrow> nat \<Rightarrow> string" where
  "item_sep ind l = (if ind then CHR '','' # nl ind l else '', '')"

fun dump_with :: "(char \<Rightarrow> string) \<Rightarrow> bool \<Rightarrow> nat \<Rightarrow> json \<Rightarrow> string" where
  "dump_with esc ind l JNull = ''null''"
| "dump_with esc ind l (JBool b) = (if b then ''true'' else ''false'')"
| "dump_with esc ind l (JInt n) = str_int n"
| "dump_with esc ind l (JFloat m e) = repr_float m e"
| "dump_with esc ind l (JStr s) = quote_with esc s"
| "dump_with esc ind l (JArr xs) =
     (if xs = [] then ''[]''
      else ''['' @ nl ind (Suc l) @ str_join (item_sep ind (Suc l)) (map (dump_with esc ind (Suc l)) xs) @
           nl ind l @ '']'')"
| "dump_with esc ind l (JObj d) =
     (if d = [] then ''{}''
      else ''{'' @ nl ind (Suc l) @
           str_join (item_sep ind (Suc l)) (map (\<lambda>p. quote_with esc (fst p) @ '': '' @ dump_with esc ind (Suc l) (snd p)) d) @
           nl ind l @ ''}'')"

abbreviation dump :: "bool \<Rightarrow> nat \<Rightarrow> json \<Rightarrow> string" where
  "dump \<equiv> dump_with esc_char"

definition json_dumps :: "json \<Rightarrow> string" where
  "json_dumps j = dump False 0 j"

definition json_dumps_indent :: "json \<Rightarrow> string" where
  \<comment> \<open>\<open>json.dumps(j, indent=2)\<close>\<close>
  "json_dumps_indent j = dump True 0 j"

definition json_dumps_raw :: "json \<Rightarrow> string" where
  \<comment> \<open>\<open>json.dumps(j, indent=2, ensure_ascii=False)\<close>\<close>
  "json_dumps_raw j = dump_with raw_char True 0 j"

section \<open>Reading: \<open>json.loads\<close>\<close>

definition json_ws :: "char \<Rightarrow> bool" where
  "json_ws c = (c = CHR 0x20 \<or> c = CHR 0x09 \<or> c = CHR 0x0A \<or> c = CHR 0x0D)"

definition skip_ws :: "string \<Rightarrow> string" where
  "skip_ws s = dropWhile json_ws s"

definition hex_val :: "char \<Rightarrow> nat option" where
  "hex_val c = (let n = (of_char c :: nat) in
     if 48 \<le> n \<and> n \<le> 57 then Some (n - 48)
     else if 97 \<le> n \<and> n \<le> 102 then Some (n - 87)
     else if 65 \<le> n \<and> n \<le> 70 then Some (n - 55)
     else None)"

definition unesc :: "char \<Rightarrow> char option" where
  "unesc c = (if c = CHR 0x22 then Some (CHR 0x22)
     else if c = CHR 0x5C then Some (CHR 0x5C)
     else if c = CHR ''/'' then Some (CHR ''/'')
     else if c = CHR ''b'' then Some (CHR 0x08)
     else if c = CHR ''f'' then Some (CHR 0x0C)
     else if c = CHR ''n'' then Some (CHR 0x0A)
     else if c = CHR ''r'' then Some (CHR 0x0D)
     else if c = CHR ''t'' then Some (CHR 0x09)
     else None)"

definition hex4 :: "char \<Rightarrow> char \<Rightarrow> char \<Rightarrow> char \<Rightarrow> char option" where
  "hex4 a b c d = (case (hex_val a, hex_val b, hex_val c, hex_val d) of
     (Some w, Some x, Some y, Some z) \<Rightarrow>
       (let n = ((w * 16 + x) * 16 + y) * 16 + z in if n < 256 then Some (char_of n) else None)
   | _ \<Rightarrow> None)"

text \<open>The body of a string literal, from after its opening quote.\<close>

fun pstr :: "string \<Rightarrow> (string \<times> string) option" where
  "pstr [] = None"
| "pstr (c # s) =
     (if c = CHR 0x22 then Some ([], s)
      else if c = CHR 0x5C then
        (case s of
           [] \<Rightarrow> None
         | e # s' \<Rightarrow>
             (if e = CHR ''u'' then
                (case s' of
                   a # b # c' # d # s'' \<Rightarrow>
                     (case hex4 a b c' d of
                        None \<Rightarrow> None
                      | Some x \<Rightarrow> map_option (\<lambda>(t, r). (x # t, r)) (pstr s''))
                 | _ \<Rightarrow> None)
              else (case unesc e of
                      None \<Rightarrow> None
                    | Some x \<Rightarrow> map_option (\<lambda>(t, r). (x # t, r)) (pstr s'))))
      else if (of_char c :: nat) < 32 then None
      else map_option (\<lambda>(t, r). (c # t, r)) (pstr s))"

text \<open>The canonical decimal: no trailing zero in the mantissa.\<close>

function norm_dec :: "int \<Rightarrow> int \<Rightarrow> int \<times> int" where
  "norm_dec m e = (if m = 0 then (0, 0) else if m mod 10 = 0 then norm_dec (m div 10) (e + 1) else (m, e))"
  by pat_completeness simp
termination
proof (relation "measure (\<lambda>(m, e). nat \<bar>m\<bar>)")
  fix m :: int and e :: int
  assume "m \<noteq> 0" "m mod 10 = 0"
  then obtain k where k: "m = 10 * k" "k \<noteq> 0" by (auto elim: dvdE simp: mod_eq_0_iff_dvd)
  then have "\<bar>m div 10\<bar> < \<bar>m\<bar>" by simp
  then show "((m div 10, e + 1), m, e) \<in> measure (\<lambda>(m, e). nat \<bar>m\<bar>)" by simp
qed simp

declare norm_dec.simps [simp del]

definition frac_part :: "string \<Rightarrow> string \<times> string" where
  \<comment> \<open>an optional \<open>.digits\<close>: the digits and the rest\<close>
  "frac_part s = (case s of
     c # r \<Rightarrow> (if c = CHR ''.'' \<and> takeWhile is_digit r \<noteq> [] then (takeWhile is_digit r, dropWhile is_digit r)
                else ([], s))
   | [] \<Rightarrow> ([], s))"

definition exp_part :: "string \<Rightarrow> int option \<times> string" where
  \<comment> \<open>an optional exponent: its value and the rest\<close>
  "exp_part s = (case s of
     c # r \<Rightarrow>
       (if c = CHR ''e'' \<or> c = CHR ''E'' then
          (let r' = (case r of x # t \<Rightarrow> (if x = CHR ''-'' \<or> x = CHR ''+'' then t else r) | [] \<Rightarrow> r);
               neg = (case r of x # t \<Rightarrow> x = CHR ''-'' | [] \<Rightarrow> False);
               ds = takeWhile is_digit r'
           in if ds = [] then (None, s)
              else (Some (if neg then - int (nat_of_digits ds) else int (nat_of_digits ds)), dropWhile is_digit r'))
        else (None, s))
   | [] \<Rightarrow> (None, s))"

definition pnum :: "string \<Rightarrow> (json \<times> string) option" where
  "pnum s =
     (let neg = (case s of c # _ \<Rightarrow> c = CHR ''-'' | [] \<Rightarrow> False);
          s1 = (if neg then tl s else s);
          ds = (case s1 of c # _ \<Rightarrow> (if c = CHR ''0'' then [c] else takeWhile is_digit s1) | [] \<Rightarrow> []);
          s2 = drop (length ds) s1;
          (fr, s3) = frac_part s2;
          (ex, s4) = exp_part s3;
          sgn = (if neg then - 1 else 1 :: int)
      in if ds = [] then None
         else if fr = [] \<and> ex = None then Some (JInt (sgn * int (nat_of_digits ds)), s2)
         else (let (m, e) = norm_dec (sgn * int (nat_of_digits (ds @ fr)))
                                     ((case ex of None \<Rightarrow> 0 | Some x \<Rightarrow> x) - int (length fr))
               in Some (JFloat m e, s4)))"

definition plit :: "string \<Rightarrow> (json \<times> string) option" where
  "plit s =
     (if starts_with s ''null'' then Some (JNull, drop 4 s)
      else if starts_with s ''true'' then Some (JBool True, drop 4 s)
      else if starts_with s ''false'' then Some (JBool False, drop 5 s)
      else pnum s)"

fun pval :: "nat \<Rightarrow> string \<Rightarrow> (json \<times> string) option"
  and pelems :: "nat \<Rightarrow> string \<Rightarrow> (json list \<times> string) option"
  and pmembers :: "nat \<Rightarrow> string \<Rightarrow> ((string \<times> json) list \<times> string) option" where
  "pval 0 s = None"
| "pval (Suc n) s =
     (case skip_ws s of
        [] \<Rightarrow> None
      | c # r \<Rightarrow>
          (if c = CHR 0x22 then map_option (\<lambda>(t, r'). (JStr t, r')) (pstr r)
           else if c = CHR ''{'' then
             (case skip_ws r of
                [] \<Rightarrow> None
              | d # r' \<Rightarrow>
                  (if d = CHR ''}'' then Some (JObj [], r')
                   else map_option (\<lambda>(ms, r''). (JObj (dict_of ms), r'')) (pmembers n r)))
           else if c = CHR ''['' then
             (case skip_ws r of
                [] \<Rightarrow> None
              | d # r' \<Rightarrow>
                  (if d = CHR '']'' then Some (JArr [], r')
                   else map_option (\<lambda>(vs, r''). (JArr vs, r'')) (pelems n r)))
           else plit (c # r)))"
| "pelems 0 s = None"
| "pelems (Suc n) s =
     (case pval n s of
        None \<Rightarrow> None
      | Some (v, r) \<Rightarrow>
          (case skip_ws r of
             [] \<Rightarrow> None
           | c # r' \<Rightarrow>
               (if c = CHR '','' then map_option (\<lambda>(vs, r''). (v # vs, r'')) (pelems n r')
                else if c = CHR '']'' then Some ([v], r')
                else None)))"
| "pmembers 0 s = None"
| "pmembers (Suc n) s =
     (case skip_ws s of
        [] \<Rightarrow> None
      | q # r \<Rightarrow>
          (if q \<noteq> CHR 0x22 then None
           else
             (case pstr r of
                None \<Rightarrow> None
              | Some (k, r1) \<Rightarrow>
                  (case skip_ws r1 of
                     [] \<Rightarrow> None
                   | col # r2 \<Rightarrow>
                       (if col \<noteq> CHR '':'' then None
                        else
                          (case pval n r2 of
                             None \<Rightarrow> None
                           | Some (v, r3) \<Rightarrow>
                               (case skip_ws r3 of
                                  [] \<Rightarrow> None
                                | c # r4 \<Rightarrow>
                                    (if c = CHR '','' then map_option (\<lambda>(ms, r5). ((k, v) # ms, r5)) (pmembers n r4)
                                     else if c = CHR ''}'' then Some ([(k, v)], r4)
                                     else None))))))))"

definition json_loads :: "string \<Rightarrow> json option" where
  "json_loads s =
     (case pval (2 * length s + 1) s of
        None \<Rightarrow> None
      | Some (v, r) \<Rightarrow> (if skip_ws r = [] then Some v else None))"

end
