(* ===== verification/Json_Roundtrip.thy ===== *)
theory Json_Roundtrip
  imports Py_Json
begin

text \<open>
  The reader and writer of JSON text agree. \<open>pval_stable\<close> shows that the fuel
  \<open>json_loads\<close> gives its reader is enough: any larger amount reads the same value.
  \<open>json_loads_dump\<close> and \<open>json_loads_dumps_indent\<close> show that a document without floats
  whose objects have distinct keys is read back as itself.
\<close>

section \<open>Every reader consumes input\<close>

lemma skip_ws_length [simp]: "length (skip_ws s) \<le> length s"
  by (simp add: skip_ws_def length_dropWhile_le)

lemma skip_ws_Cons_less: "skip_ws s = c # r \<Longrightarrow> length r < length s"
  by (metis Suc_le_lessD length_Cons skip_ws_length)

lemma pstr_progress: "pstr s = Some (t, r) \<Longrightarrow> length r < length s"
proof (induction s arbitrary: t r rule: pstr.induct)
  case (2 c s)
  then show ?case
    by (fastforce split: if_splits list.splits option.splits)
qed simp

lemma frac_part_length: "frac_part s = (f, r) \<Longrightarrow> length r \<le> length s"
  by (auto simp: frac_part_def length_dropWhile_le le_SucI split: list.splits if_splits)

lemma exp_part_length: "exp_part s = (x, r) \<Longrightarrow> length r \<le> length s"
  by (auto simp: exp_part_def Let_def length_dropWhile_le le_SucI split: list.splits if_splits)

lemma pnum_progress: 
  assumes "pnum s = Some (v, r)"
  shows "length r < length s"
proof -
  define neg where "neg = (case s of c # _ \<Rightarrow> c = CHR ''-'' | [] \<Rightarrow> False)"
  define s1 where "s1 = (if neg then tl s else s)"
  define ds where "ds = (case s1 of c # _ \<Rightarrow> (if c = CHR ''0'' then [c] else takeWhile is_digit s1) | [] \<Rightarrow> [])"
  define s2 where "s2 = drop (length ds) s1"
  obtain fr s3 where f: "frac_part s2 = (fr, s3)" by fastforce
  obtain ex s4 where e: "exp_part s3 = (ex, s4)" by fastforce
  have ds: "ds \<noteq> []" and r: "r = s2 \<or> r = s4"
    using assms f e unfolding pnum_def Let_def neg_def [symmetric] s1_def [symmetric] ds_def [symmetric] s2_def [symmetric]
    by (auto split: if_splits prod.splits)
  have "length s2 < length s1"
    using ds by (cases s1) (auto simp: s2_def ds_def split: if_splits)
  moreover have "length s1 \<le> length s" by (simp add: s1_def)
  moreover have "length s4 \<le> length s2"
    using frac_part_length [OF f] exp_part_length [OF e] by simp
  ultimately show ?thesis using r by auto
qed

lemma plit_progress: "plit s = Some (v, r) \<Longrightarrow> length r < length s"
  by (auto simp: plit_def starts_with_iff dest: pnum_progress split: if_splits)

lemma pval_progress:
  "pval n s = Some (v, r) \<Longrightarrow> length r < length s"
  "pelems n s = Some (vs, r) \<Longrightarrow> length r < length s"
  "pmembers n s = Some (ms, r) \<Longrightarrow> length r < length s"
proof (induction n s and n s and n s arbitrary: v r and vs r and ms r rule: pval_pelems_pmembers.induct)
  case (2 n s)
  from "2.prems" obtain c t where s: "skip_ws s = c # t" by (auto split: list.splits)
  note less = skip_ws_Cons_less [OF s]
  show ?case
    using "2.prems" "2.IH" less s
    by (auto dest!: pstr_progress plit_progress skip_ws_Cons_less split: if_splits list.splits)
      (metis less_trans)+
next
  case (4 n s)
  from "4.prems" obtain v t where v: "pval n s = Some (v, t)" by (auto split: option.splits)
  from "4.prems" v obtain c u where c: "skip_ws t = c # u" by (auto split: list.splits)
  have "length u < length s" using "4.IH"(1) [OF v] skip_ws_Cons_less [OF c] by simp
  then show ?case
    using "4.prems" v c "4.IH"(2) [OF v] by (fastforce split: if_splits)
next
  case (6 n s)
  from "6.prems" obtain t where s: "skip_ws s = CHR 0x22 # t" 
    by (auto split: list.splits if_splits)
  from "6.prems" s obtain k r1 where k: "pstr t = Some (k, r1)" by (auto split: option.splits)
  from "6.prems" s k obtain r2 where c: "skip_ws r1 = CHR '':'' # r2" by (auto split: list.splits if_splits)
  from "6.prems" s k c obtain v r3 where v: "pval n r2 = Some (v, r3)" by (auto split: option.splits)
  from "6.prems" s k c v obtain d r4 where d: "skip_ws r3 = d # r4" by (auto split: list.splits)
  have less: "length r4 < length s" "length r2 < length s"
    using skip_ws_Cons_less [OF s] pstr_progress [OF k] skip_ws_Cons_less [OF c] 
      "6.IH"(1) [OF s _ k _ c _ v] skip_ws_Cons_less [OF d] by simp_all
  show ?case
    using "6.prems" s k c v d less "6.IH"(2) [OF s _ k _ c _ v _ d] by (fastforce split: if_splits)
qed simp_all

section \<open>The fuel given is enough\<close>

lemma skip_ws_idem [simp]: "skip_ws (skip_ws s) = skip_ws s"
  by (induction s) (auto simp: skip_ws_def)

lemma pval_stable:
  "2 * length s + 1 \<le> f \<Longrightarrow> 2 * length s + 1 \<le> g \<Longrightarrow> pval f s = pval g s"
  "2 * length s + 2 \<le> f \<Longrightarrow> 2 * length s + 2 \<le> g \<Longrightarrow> pelems f s = pelems g s"
  "2 * length s + 2 \<le> f \<Longrightarrow> 2 * length s + 2 \<le> g \<Longrightarrow> pmembers f s = pmembers g s"
proof (induction f s and f s and f s arbitrary: g and g and g rule: pval_pelems_pmembers.induct)
  case (2 n s)
  from "2.prems" obtain g' where g: "g = Suc g'" by (cases g) auto
  show ?case
  proof (cases "skip_ws s")
    case (Cons c r)
    have "length r < length s" using skip_ws_Cons_less [OF Cons] .
    then have fuel: "2 * length r + 2 \<le> n" "2 * length r + 2 \<le> g'"
      using "2.prems" g by simp_all
    show ?thesis
    proof (cases "c = CHR ''{'' \<or> c = CHR ''[''")
      case False
      then show ?thesis using Cons g by simp
    next
      case True
      show ?thesis
      proof (cases "skip_ws r")
        case Nil
        then show ?thesis using \<open>skip_ws s = c # r\<close> True by (simp only: g pval.simps list.case)
      next
        case (Cons d r')
        note sr = \<open>skip_ws s = c # r\<close> and srd = Cons
        have m: "pmembers n r = pmembers g' r" if "c = CHR ''{''" "d \<noteq> CHR ''}''"
          using "2.IH"(1) [OF sr _ _ srd _ fuel] that by simp
        have e: "pelems n r = pelems g' r" if "c = CHR ''[''" "d \<noteq> CHR '']''"
          using "2.IH"(2) [OF sr _ _ _ srd _ fuel] that by simp
        from True show ?thesis
        proof
          assume "c = CHR ''{''"
          then show ?thesis using sr srd g m by (cases "d = CHR ''}''") simp_all
        next
          assume "c = CHR ''[''"
          then show ?thesis using sr srd g e by (cases "d = CHR '']''") simp_all
        qed
      qed
    qed
  next
    case Nil
    then show ?thesis by (simp only: g pval.simps list.case)
  qed
next
  case (4 n s)
  from "4.prems" obtain g' where g: "g = Suc g'" by (cases g) auto
  have fuel: "2 * length s + 1 \<le> n" "2 * length s + 1 \<le> g'" using "4.prems" g by simp_all
  have eq: "pval g' s = pval n s" using "4.IH"(1) [OF fuel] by simp
  show ?case
  proof (cases "pval n s")
    case (Some p)
    then obtain v r where v: "pval n s = Some (v, r)" by (cases p) auto
    have less: "length r < length s" using pval_progress(1) [OF v] .
    show ?thesis
    proof (cases "skip_ws r")
      case (Cons c r')
      have "length r' < length s" using skip_ws_Cons_less [OF Cons] less by simp
      then have "2 * length r' + 2 \<le> n" "2 * length r' + 2 \<le> g'" using fuel by simp_all
      then have "pelems n r' = pelems g' r'" if "c = CHR '',''"
        using "4.IH"(2) [OF v refl Cons that, where g = g'] by simp
      then show ?thesis using v Cons eq g by (cases "c = CHR '',''") simp_all
    qed (simp add: v eq g)
  qed (simp add: eq g)
next
  case (6 n s)
  from "6.prems" obtain g' where g: "g = Suc g'" by (cases g) auto
  show ?case
  proof (cases "\<exists>r k r1 r2. skip_ws s = CHR 0x22 # r \<and> pstr r = Some (k, r1) \<and> skip_ws r1 = CHR '':'' # r2")
    case False
    then show ?thesis by (auto simp: g split: list.splits option.splits)
  next
    case True
    then obtain r k r1 r2 where s: "skip_ws s = CHR 0x22 # r" and k: "pstr r = Some (k, r1)"
      and c: "skip_ws r1 = CHR '':'' # r2" by blast
    have less: "length r2 < length s"
      using skip_ws_Cons_less [OF s] pstr_progress [OF k] skip_ws_Cons_less [OF c] by simp
    then have fuel: "2 * length r2 + 1 \<le> n" "2 * length r2 + 1 \<le> g'" using "6.prems" g by simp_all
    have eq: "pval g' r2 = pval n r2" using "6.IH"(1) [OF s _ k _ c _ fuel] by simp
    show ?thesis
    proof (cases "pval n r2")
      case (Some p)
      then obtain v r3 where v: "pval n r2 = Some (v, r3)" by (cases p) auto
      have less3: "length r3 < length s" using pval_progress(1) [OF v] less by simp
      show ?thesis
      proof (cases "skip_ws r3")
        case (Cons d r4)
        have "length r4 < length s" using skip_ws_Cons_less [OF Cons] less3 by simp
        then have "2 * length r4 + 2 \<le> n" "2 * length r4 + 2 \<le> g'" using "6.prems" g by simp_all
        then have "pmembers n r4 = pmembers g' r4" if "d = CHR '',''"
          using "6.IH"(2) [OF s _ k _ c _ v _ Cons that, where g = g'] by simp
        then show ?thesis using s k c v Cons eq g by (cases "d = CHR '',''") simp_all
      qed (simp add: s k c v eq g)
    qed (simp add: s k c eq g)
  qed
qed simp_all

section \<open>Reading back what was written\<close>

lemma hex_val_hex_digit [simp]: "d < 16 \<Longrightarrow> hex_val (hex_digit d) = Some d"
  by (simp add: hex_val_def hex_digit_def Let_def)

lemma hex4_esc [simp]:
  "hex4 (CHR ''0'') (CHR ''0'') (hex_digit (of_char c div 16)) (hex_digit (of_char c mod 16)) = Some c"
proof -
  have c: "(of_char c :: nat) < 256" by (rule nat_of_char_less_256)
  have z: "hex_val (CHR ''0'') = Some 0" by (simp add: hex_val_def)
  have "(of_char c :: nat) div 16 < 16" using c by (simp add: less_mult_imp_div_less)
  then show ?thesis using c by (simp add: hex4_def z)
qed

lemma pstr_esc_char: "pstr (esc_char c @ s) = map_option (\<lambda>(t, r). (c # t, r)) (pstr s)"
proof (cases "c \<in> {CHR 0x22, CHR 0x5C, CHR 0x0A, CHR 0x0D, CHR 0x09, CHR 0x0C, CHR 0x08}")
  case True
  then show ?thesis by (elim insertE) (simp_all add: esc_char_def unesc_def)
next
  case False
  show ?thesis
  proof (cases "32 \<le> (of_char c :: nat) \<and> (of_char c :: nat) \<le> 126")
    case True
    with False show ?thesis by (simp add: esc_char_def)
  next
    case nonprint: False
    with False have "esc_char c = [CHR 0x5C, CHR ''u'', CHR ''0'', CHR ''0'',
        hex_digit (of_char c div 16), hex_digit (of_char c mod 16)]"
      by (simp add: esc_char_def Let_def)
    then show ?thesis by simp
  qed
qed


lemma str_nat_hd: "0 < n \<Longrightarrow> hd (str_nat n) \<noteq> CHR ''0''"
proof (induction n rule: str_nat.induct)
  case (1 n)
  show ?case
  proof (cases "n < 10")
    case True
    then have "digit_val (digit_char n) = n" by simp
    moreover have "digit_val (CHR ''0'') = 0" by (simp add: digit_val_def)
    ultimately have "digit_char n \<noteq> CHR ''0''" using "1.prems" by (metis less_numeral_extra(3))
    then show ?thesis using True by (simp add: str_nat.simps [of n])
  next
    case False
    then have "0 < n div 10" by simp
    then show ?thesis using "1.IH" False by (simp add: str_nat.simps [of n])
  qed
qed

lemma str_nat_0: "str_nat 0 = ''0''"
proof -
  have "(of_char (CHR ''0'') :: nat) = 48" by simp
  then have "char_of (48 :: nat) = CHR ''0''" by (metis char_of_char)
  then show ?thesis by (simp add: str_nat.simps digit_char_def)
qed

text \<open>What may follow a number without being read into it.\<close>

definition num_end :: "string \<Rightarrow> bool" where
  "num_end r = (case r of [] \<Rightarrow> True | c # _ \<Rightarrow> \<not> is_digit c \<and> c \<notin> {CHR ''.'', CHR ''e'', CHR ''E''})"

lemma num_end_Nil [simp]: "num_end []"
  by (simp add: num_end_def)

lemma takeWhile_digits: "num_end r \<Longrightarrow> takeWhile is_digit (str_nat n @ r) = str_nat n"
  using str_nat_digits [of _ n]
  by (cases r) (simp_all add: num_end_def takeWhile_append2 takeWhile_eq_all_conv)

lemma num_end_frac: "num_end r \<Longrightarrow> frac_part r = ([], r)"
  by (auto simp: num_end_def frac_part_def split: list.splits)

lemma num_end_exp: "num_end r \<Longrightarrow> exp_part r = (None, r)"
  by (auto simp: num_end_def exp_part_def split: list.splits)

lemma digits_of_str_nat:
  assumes "num_end r"
  shows "(case str_nat n @ r of c # _ \<Rightarrow> (if c = CHR ''0'' then [c] else takeWhile is_digit (str_nat n @ r)) | [] \<Rightarrow> [])
    = str_nat n"
proof (cases "n = 0")
  case True
  then show ?thesis by (simp add: str_nat_0)
next
  case False
  then obtain c t where "str_nat n = c # t" by (cases "str_nat n") auto
  with False assms str_nat_hd [of n] takeWhile_digits [OF assms, of n] show ?thesis by simp
qed

lemma pnum_nat: "num_end r \<Longrightarrow> pnum (str_nat n @ r) = Some (JInt (int n), r)"
proof -
  assume r: "num_end r"
  obtain c t where ct: "str_nat n = c # t" by (cases "str_nat n") auto
  then have "is_digit c" using str_nat_digits [of c n] by simp
  then have "c \<noteq> CHR ''-''" using not_digit_minus by metis
  then have neg: "(case str_nat n @ r of c # _ \<Rightarrow> c = CHR ''-'' | [] \<Rightarrow> False) = False"
    by (simp add: ct)
  show ?thesis
    unfolding pnum_def Let_def neg if_False digits_of_str_nat [OF r]
    by (simp add: num_end_frac [OF r] num_end_exp [OF r])
qed

lemma pnum_int: "num_end r \<Longrightarrow> pnum (str_int i @ r) = Some (JInt i, r)"
proof (cases "i < 0")
  case False
  assume "num_end r"
  with False pnum_nat [of r "nat i"] show ?thesis by (simp add: str_int_def)
next
  case True
  assume r: "num_end r"
  have s: "str_int i @ r = CHR ''-'' # (str_nat (nat (- i)) @ r)" using True by (simp add: str_int_def)
  show ?thesis
    unfolding pnum_def s Let_def list.case list.sel simp_thms if_True digits_of_str_nat [OF r]
    using True by (simp add: num_end_frac [OF r] num_end_exp [OF r])
qed

lemma foldl_dset_append:
  "dict_ok (d0 @ ps) \<Longrightarrow> foldl (\<lambda>d (k, v). dset k v d) d0 ps = d0 @ ps"
proof (induction ps arbitrary: d0)
  case (Cons p ps)
  obtain k v where p: "p = (k, v)" by (cases p)
  have "k \<notin> fst ` set d0" using Cons.prems by (auto simp: dict_ok_def p)
  then have "dset k v d0 = d0 @ [(k, v)]" by (rule dset_new)
  then show ?case using Cons.IH [of "d0 @ [(k, v)]"] Cons.prems by (simp add: p)
qed simp

lemma dict_of_id [simp]: "dict_ok d \<Longrightarrow> dict_of d = d"
  using foldl_dset_append [of "[]" d] by (simp add: dict_of_def)

definition sep_ws :: "bool \<Rightarrow> nat \<Rightarrow> string" where
  "sep_ws ind l = (if ind then nl ind l else '' '')"

lemma item_sep_eq: "item_sep ind l = CHR '','' # sep_ws ind l"
  by (simp add: item_sep_def sep_ws_def)

definition all_ws :: "string \<Rightarrow> bool" where
  "all_ws w = (\<forall>c \<in> set w. json_ws c)"

lemma all_ws_simps [simp]: "all_ws []" "all_ws (nl ind l)" "all_ws (sep_ws ind l)" "all_ws '' ''"
  by (auto simp: all_ws_def nl_def sep_ws_def json_ws_def)

lemma skip_ws_all [simp]: "all_ws w \<Longrightarrow> skip_ws (w @ s) = skip_ws s"
  unfolding all_ws_def skip_ws_def by (induction w) auto

lemma skip_ws_tok [simp]: "\<not> json_ws c \<Longrightarrow> skip_ws (c # s) = c # s"
  by (simp add: skip_ws_def)

lemma not_ws_tok [simp]:
  "\<not> json_ws (CHR 0x22)" "\<not> json_ws (CHR '','')" "\<not> json_ws (CHR '']'')" "\<not> json_ws (CHR ''}'')"
  "\<not> json_ws (CHR ''['')" "\<not> json_ws (CHR ''{'')" "\<not> json_ws (CHR '':'')"
  "\<not> json_ws (CHR ''-'')"
  by (simp_all add: json_ws_def)

lemma num_end_tok [simp]:
  "num_end (CHR '','' # s)" "num_end (CHR '']'' # s)" "num_end (CHR ''}'' # s)"
  by (simp_all add: num_end_def is_digit_def)

lemma num_end_nl [simp]: "num_end s \<Longrightarrow> num_end (nl ind l @ s)"
  by (auto simp: num_end_def nl_def is_digit_def)

fun jsz :: "json \<Rightarrow> nat" where
  "jsz (JArr xs) = Suc (Suc (sum_list (map (\<lambda>x. Suc (jsz x)) xs)))"
| "jsz (JObj d) = Suc (Suc (sum_list (map (\<lambda>p. Suc (jsz (snd p))) d)))"
| "jsz _ = 1"

lemma not_digit_tok [simp]:
  "\<not> is_digit (CHR 0x22)" "\<not> is_digit (CHR ''{'')" "\<not> is_digit (CHR ''['')" "\<not> is_digit (CHR '']'')"
  "\<not> is_digit (CHR ''n'')" "\<not> is_digit (CHR ''t'')" "\<not> is_digit (CHR ''f'')"
  by (simp_all add: is_digit_def)

lemma digit_not_ws [simp]: "is_digit c \<Longrightarrow> \<not> json_ws c"
  by (auto simp: is_digit_def json_ws_def)

lemma str_int_Cons: "\<exists>c t. str_int i = c # t \<and> (is_digit c \<or> c = CHR ''-'')"
proof -
  obtain c t where "str_int i = c # t" by (cases "str_int i") auto
  then show ?thesis using str_int_chars [of c i] by auto
qed

lemma pval_int:
  assumes "num_end r" "all_ws w"
  shows "pval (Suc n) (w @ str_int i @ r) = Some (JInt i, r)"
proof -
  obtain c t where ct: "str_int i = c # t" "is_digit c \<or> c = CHR ''-''" using str_int_Cons by blast
  have "skip_ws (w @ str_int i @ r) = c # t @ r"
    using ct assms(2) by auto
  moreover have "plit (c # t @ r) = pnum (str_int i @ r)"
    using ct by (auto simp: plit_def starts_with_def)
  ultimately show ?thesis using pnum_int [OF assms(1), of i] ct(2) by auto
qed

text \<open>
  What the reader needs of the writer's escapes: each gives its character back. The two writers
  the harness uses, ASCII only and not, are the interpretations.
\<close>

abbreviation member_text :: "(char \<Rightarrow> string) \<Rightarrow> bool \<Rightarrow> nat \<Rightarrow> string \<times> json \<Rightarrow> string" where
  "member_text esc ind l p \<equiv> quote_with esc (fst p) @ '': '' @ dump_with esc ind l (snd p)"

locale json_writer =
  fixes esc :: "char \<Rightarrow> string"
  assumes pstr_esc: "pstr (esc c @ s) = map_option (\<lambda>(t, r). (c # t, r)) (pstr s)"
begin

lemma pstr_body: "pstr (concat (map esc s) @ CHR 0x22 # r) = Some (s, r)"
  by (induction s) (simp_all add: pstr_esc)

lemma dump_Cons:
  "float_free j \<Longrightarrow> \<exists>c t. dump_with esc ind l j = c # t \<and> \<not> json_ws c \<and> c \<noteq> CHR '']''"
proof (cases j)
  case (JInt i)
  obtain c t where "str_int i = c # t" "is_digit c \<or> c = CHR ''-''" using str_int_Cons by blast
  then show ?thesis using JInt by auto
qed (auto simp: quote_with_def json_ws_def)

lemma pelems_dump:
  assumes "xs \<noteq> []"
    and "\<And>x r w n. x \<in> set xs \<Longrightarrow> num_end r \<Longrightarrow> all_ws w \<Longrightarrow> jsz x \<le> n \<Longrightarrow> pval n (w @ dump_with esc ind l x @ r) = Some (x, r)"
    and "Suc (sum_list (map (\<lambda>x. Suc (jsz x)) xs)) \<le> n" and "all_ws w"
  shows "pelems n (w @ str_join (item_sep ind l) (map (dump_with esc ind l) xs) @ nl ind l' @ CHR '']'' # r) = Some (xs, r)"
  using assms
proof (induction xs arbitrary: n w rule: induct_list012)
  case (2 x)
  then obtain n' where n: "n = Suc n'" "jsz x \<le> n'" by (cases n) auto
  have "pval n' (w @ dump_with esc ind l x @ (nl ind l' @ CHR '']'' # r)) = Some (x, nl ind l' @ CHR '']'' # r)"
    using "2.prems"(2,4) n(2) by simp
  then show ?case by (simp add: n(1))
next
  case (3 x y zs)
  then obtain n' where n: "n = Suc n'" "jsz x \<le> n'" by (cases n) auto
  define rest where "rest = str_join (item_sep ind l) (map (dump_with esc ind l) (y # zs)) @ nl ind l' @ CHR '']'' # r"
  have "pval n' (w @ dump_with esc ind l x @ (CHR '','' # sep_ws ind l @ rest)) = Some (x, CHR '','' # sep_ws ind l @ rest)"
    using "3.prems"(2,4) n(2) by simp
  moreover have "pelems n' (sep_ws ind l @ rest) = Some (y # zs, r)"
    unfolding rest_def by (rule "3.IH"(2)) (use "3.prems" n in auto)
  ultimately show ?case by (simp add: n(1) item_sep_eq rest_def)
qed simp

lemma pmembers_dump:
  assumes "d \<noteq> []"
    and "\<And>p r w n. p \<in> set d \<Longrightarrow> num_end r \<Longrightarrow> all_ws w \<Longrightarrow> jsz (snd p) \<le> n \<Longrightarrow>
          pval n (w @ dump_with esc ind l (snd p) @ r) = Some (snd p, r)"
    and "Suc (sum_list (map (\<lambda>p. Suc (jsz (snd p))) d)) \<le> n" and "all_ws w"
  shows "pmembers n (w @ str_join (item_sep ind l) (map (member_text esc ind l) d) @ nl ind l' @ CHR ''}'' # r) = Some (d, r)"
  using assms
proof (induction d arbitrary: n w rule: induct_list012)
  case (2 p)
  then obtain n' where n: "n = Suc n'" "jsz (snd p) \<le> n'" by (cases n) auto
  have "pval n' ('' '' @ dump_with esc ind l (snd p) @ (nl ind l' @ CHR ''}'' # r)) = Some (snd p, nl ind l' @ CHR ''}'' # r)"
    by (rule "2.prems"(2)) (use n in simp_all)
  then show ?case using "2.prems"(4) by (simp add: n(1) quote_with_def pstr_body)
next
  case (3 p q zs)
  then obtain n' where n: "n = Suc n'" "jsz (snd p) \<le> n'" by (cases n) auto
  define rest where "rest = str_join (item_sep ind l) (map (member_text esc ind l) (q # zs)) @ nl ind l' @ CHR ''}'' # r"
  have "pval n' ('' '' @ dump_with esc ind l (snd p) @ (CHR '','' # sep_ws ind l @ rest)) = Some (snd p, CHR '','' # sep_ws ind l @ rest)"
    by (rule "3.prems"(2)) (use n in simp_all)
  moreover have "pmembers n' (sep_ws ind l @ rest) = Some (q # zs, r)"
    unfolding rest_def by (rule "3.IH"(2)) (use "3.prems" n in auto)
  ultimately show ?case using "3.prems"(4) by (simp add: n(1) item_sep_eq rest_def quote_with_def pstr_body)
qed simp

text \<open>An object ends itself: whatever follows its brace is left over.\<close>

lemma pval_obj:
  assumes vals: "\<And>p r' w' m. p \<in> set d \<Longrightarrow> num_end r' \<Longrightarrow> all_ws w' \<Longrightarrow> jsz (snd p) \<le> m \<Longrightarrow>
      pval m (w' @ dump_with esc ind (Suc l) (snd p) @ r') = Some (snd p, r')"
    and ok: "json_ok (JObj d)" and w: "all_ws w" and fuel: "jsz (JObj d) \<le> n"
  shows "pval n (w @ dump_with esc ind l (JObj d) @ r) = Some (JObj d, r)"
proof -
  obtain n' where n: "n = Suc n'" using fuel by (cases n) auto
  show ?thesis
  proof (cases "d = []")
    case True
    then show ?thesis using w n by simp
  next
    case False
    define body where "body = str_join (item_sep ind (Suc l)) (map (member_text esc ind (Suc l)) d) @ nl ind l @ CHR ''}'' # r"
    have mems: "pmembers n' (nl ind (Suc l) @ body) = Some (d, r)"
      unfolding body_def by (rule pmembers_dump [OF False]) (use vals fuel n in auto)
    obtain t where "skip_ws (nl ind (Suc l) @ body) = CHR 0x22 # t"
    proof -
      obtain x ys where "d = x # ys" using False by (cases d) auto
      then show thesis using that by (cases ys) (auto simp: body_def quote_with_def)
    qed
    moreover have shape: "w @ dump_with esc ind l (JObj d) @ r = w @ CHR ''{'' # nl ind (Suc l) @ body"
      using False by (simp add: body_def)
    ultimately show ?thesis unfolding n shape using mems ok w by simp
  qed
qed

lemma pval_dump:
  "float_free j \<Longrightarrow> json_ok j \<Longrightarrow> num_end r \<Longrightarrow> all_ws w \<Longrightarrow> jsz j \<le> n \<Longrightarrow>
   pval n (w @ dump_with esc ind l j @ r) = Some (j, r)"
proof (induction j arbitrary: l r w n)
  case JNull
  then show ?case by (cases n) (auto simp: plit_def starts_with_def json_ws_def)
next
  case (JBool b)
  then show ?case by (cases n) (auto simp: plit_def starts_with_def json_ws_def)
next
  case (JInt i)
  then show ?case by (cases n) (simp_all add: pval_int del: pval.simps)
next
  case (JStr s)
  then show ?case by (cases n) (auto simp: quote_with_def pstr_body)
next
  case (JFloat m e)
  then show ?case by simp
next
  case (JArr xs)
  then obtain n' where n: "n = Suc n'" by (cases n) auto
  show ?case
  proof (cases "xs = []")
    case True
    then show ?thesis using JArr.prems n by simp
  next
    case False
    define body where "body = str_join (item_sep ind (Suc l)) (map (dump_with esc ind (Suc l)) xs) @ nl ind l @ CHR '']'' # r"
    have elems: "pelems n' (nl ind (Suc l) @ body) = Some (xs, r)"
      unfolding body_def by (rule pelems_dump [OF False]) (use JArr n in auto)
    obtain c t where "skip_ws (nl ind (Suc l) @ body) = c # t" "c \<noteq> CHR '']''"
    proof -
      obtain x ys where xs: "xs = x # ys" using False by (cases xs) auto
      then obtain c t where "dump_with esc ind (Suc l) x = c # t" "\<not> json_ws c" "c \<noteq> CHR '']''"
        using dump_Cons [of x ind "Suc l"] JArr.prems(1) by auto
      then show thesis using that xs by (cases ys) (auto simp: body_def)
    qed
    then show ?thesis using elems n False JArr.prems(4) by (simp add: body_def [symmetric])
  qed
next
  case (JObj d)
  show ?case
    by (rule pval_obj) (use JObj.IH JObj.prems in \<open>auto simp: snds.simps\<close>)
qed

lemma pval_dump_obj:
  assumes "float_free (JObj d)" "json_ok (JObj d)" "all_ws w" "jsz (JObj d) \<le> n"
  shows "pval n (w @ dump_with esc ind l (JObj d) @ r) = Some (JObj d, r)"
  by (rule pval_obj) (use assms in \<open>auto intro!: pval_dump\<close>)

lemma loads_dump:
  assumes "float_free j" "json_ok j"
  shows "json_loads (dump_with esc ind l j) = Some j"
proof -
  let ?s = "dump_with esc ind l j"
  let ?f = "2 * length ?s + 1"
  have "pval ?f ?s = pval (max ?f (jsz j)) ?s" by (rule pval_stable(1)) simp_all
  also have "\<dots> = Some (j, [])"
    using pval_dump [OF assms, of "[]" "[]" "max ?f (jsz j)" ind l] by simp
  finally show ?thesis by (simp add: json_loads_def skip_ws_def)
qed

lemma loads_dump_line: "float_free j \<Longrightarrow> json_ok j \<Longrightarrow> json_loads (dump_with esc ind l j @ [CHR 0x0A]) = Some j"
proof -
  assume j: "float_free j" "json_ok j"
  let ?s = "dump_with esc ind l j @ [CHR 0x0A]"
  let ?f = "2 * length ?s + 1"
  have e: "num_end [CHR 0x0A]" by (simp add: num_end_def is_digit_def)
  have "pval ?f ?s = pval (max ?f (jsz j)) ?s" by (rule pval_stable(1)) simp_all
  also have "\<dots> = Some (j, [CHR 0x0A])"
    using pval_dump [OF j e, of "[]" "max ?f (jsz j)" ind l] by simp
  finally show ?thesis by (simp add: json_loads_def skip_ws_def json_ws_def)
qed

end

lemma pstr_raw_char: "pstr (raw_char c @ s) = map_option (\<lambda>(t, r). (c # t, r)) (pstr s)"
proof (cases "127 \<le> (of_char c :: nat)")
  case True
  then have "c \<noteq> CHR 0x22" "c \<noteq> CHR 0x5C" "32 \<le> (of_char c :: nat)" by auto
  with True show ?thesis by (simp add: raw_char_def)
qed (simp add: raw_char_def pstr_esc_char)

interpretation ascii_writer: json_writer esc_char
  by unfold_locales (rule pstr_esc_char)

interpretation raw_writer: json_writer raw_char
  by unfold_locales (rule pstr_raw_char)

theorem json_loads_dump: "float_free j \<Longrightarrow> json_ok j \<Longrightarrow> json_loads (dump ind l j) = Some j"
  by (rule ascii_writer.loads_dump)

lemma json_loads_dumps_indent: "float_free j \<Longrightarrow> json_ok j \<Longrightarrow> json_loads (json_dumps_indent j @ [CHR 0x0A]) = Some j"
  unfolding json_dumps_indent_def by (rule ascii_writer.loads_dump_line)

lemma json_loads_dumps_raw: "float_free j \<Longrightarrow> json_ok j \<Longrightarrow> json_loads (json_dumps_raw j @ [CHR 0x0A]) = Some j"
  unfolding json_dumps_raw_def by (rule raw_writer.loads_dump_line)

section \<open>Whatever is read is well formed\<close>

text \<open>A later member for a key replaces the earlier one, so a document that was read has distinct keys.\<close>

lemma json_ok_foldl_dset:
  "json_ok (JObj d) \<Longrightarrow> \<forall>p \<in> set ms. json_ok (snd p) \<Longrightarrow>
   json_ok (JObj (foldl (\<lambda>d (k, v). dset k v d) d ms))"
proof (induction ms arbitrary: d)
  case (Cons p ms)
  obtain k v where p: "p = (k, v)" by (cases p)
  have "json_ok (JObj (dset k v d))" using Cons.prems by (intro json_ok_dset) (simp_all add: p)
  then show ?case using Cons.IH Cons.prems(2) by (simp add: p del: json_ok.simps)
qed simp

lemma json_ok_dict_of: "\<forall>p \<in> set ms. json_ok (snd p) \<Longrightarrow> json_ok (JObj (dict_of ms))"
  unfolding dict_of_def by (rule json_ok_foldl_dset) simp_all

lemma pnum_ok: "pnum s = Some (v, r) \<Longrightarrow> json_ok v"
  by (auto simp: pnum_def Let_def split: if_splits prod.splits option.splits)

lemma plit_ok: "plit s = Some (v, r) \<Longrightarrow> json_ok v"
  by (auto simp: plit_def pnum_ok split: if_splits)

lemma reader_ok:
  "pval n s = Some (v, r) \<Longrightarrow> json_ok v"
  "pelems n s = Some (vs, r) \<Longrightarrow> \<forall>v \<in> set vs. json_ok v"
  "pmembers n s = Some (ms, r) \<Longrightarrow> (k, w) \<in> set ms \<Longrightarrow> json_ok w"
proof (induction n s and n s and n s arbitrary: v r and vs r and ms r k w rule: pval_pelems_pmembers.induct)
  case (2 n s)
  from "2.prems" obtain c t where ct: "skip_ws s = c # t" by (auto split: list.splits)
  show ?case
    using "2.prems" "2.IH" ct
    by (auto simp: plit_ok intro!: json_ok_dict_of simp del: json_ok.simps(2) split: if_splits list.splits)
next
  case (4 n s)
  then show ?case by (auto split: option.splits list.splits if_splits)
next
  case (6 n s)
  show ?case
    using "6.prems" "6.IH" by (auto split: option.splits list.splits if_splits)
qed simp_all

lemma json_loads_ok: "json_loads s = Some j \<Longrightarrow> json_ok j"
  by (auto simp: json_loads_def reader_ok simp del: pval.simps split: option.splits if_splits)

end
