(* ===== verification/Config_Merge.thy ===== *)
theory Config_Merge
  imports Py_Json
begin

text \<open>
  The document operations of \<open>scripts/conductor_wiring.py\<close>: the deep merge that overlays
  one configuration on another (\<open>_deep_merge\<close>) and reads and writes at a path of keys
  (\<open>_get_path\<close>, \<open>_set_path\<close>), with the laws their clients use: what a merged document
  holds at a key and at a path, that merging keeps well-formedness and key order, and that
  merging the same overlay again changes nothing.
\<close>

section \<open>Deep merge\<close>

fun deep_merge :: "jobj \<Rightarrow> jobj \<Rightarrow> jobj"
  and merge_val :: "json option \<Rightarrow> json \<Rightarrow> json" where
  "deep_merge t [] = t"
| "deep_merge t ((k, v) # ov) = deep_merge (dset k (merge_val (dget t k) v) t) ov"
| "merge_val (Some (JObj cur)) (JObj inc) = JObj (deep_merge cur inc)"
| "merge_val _ v = v"

lemma merge_val_not_obj [simp]: "\<not> is_obj v \<Longrightarrow> merge_val c v = v"
  by (cases v; cases c) auto

lemma merge_val_onto_non_obj [simp]: "(\<And>d. c \<noteq> Some (JObj d)) \<Longrightarrow> merge_val c v = v"
  by (cases "(c, v)" rule: merge_val.cases) auto

lemma keys_deep_merge: "fst ` set (deep_merge t ov) = fst ` set t \<union> fst ` set ov"
proof (induction ov arbitrary: t)
  case (Cons p ov)
  then show ?case by (cases p) simp
qed simp

lemma dict_ok_deep_merge [simp]: "dict_ok t \<Longrightarrow> dict_ok (deep_merge t ov)"
proof (induction ov arbitrary: t)
  case (Cons p ov)
  then show ?case by (cases p) simp
qed simp

lemma dget_deep_merge:
  "dict_ok ov \<Longrightarrow>
   dget (deep_merge t ov) k =
     (case dget ov k of None \<Rightarrow> dget t k | Some v \<Rightarrow> Some (merge_val (dget t k) v))"
proof (induction ov arbitrary: t)
  case (Cons p ov)
  obtain k' v where p: "p = (k', v)" by (cases p)
  have fresh: "dget ov k' = None" using Cons.prems by (simp add: p map_of_eq_None_iff)
  show ?case using Cons fresh by (auto simp: p split: option.splits)
qed simp

lemma map_fst_deep_merge_old:
  "fst ` set ov \<subseteq> fst ` set t \<Longrightarrow> map fst (deep_merge t ov) = map fst t"
proof (induction ov arbitrary: t)
  case (Cons p ov)
  obtain k v where p: "p = (k, v)" by (cases p)
  let ?t = "dset k (merge_val (dget t k) v) t"
  have k: "k \<in> fst ` set t" "fst ` set ov \<subseteq> fst ` set t" using Cons.prems by (auto simp: p)
  then have "fst ` set ov \<subseteq> fst ` set ?t" by auto
  then have "map fst (deep_merge ?t ov) = map fst ?t" by (rule Cons.IH)
  with k(1) show ?case by (simp add: p dkeys_dset_old)
qed simp

lemma deep_merge_fresh:
  "dict_ok (t @ ov) \<Longrightarrow> deep_merge t ov = t @ ov"
proof (induction ov arbitrary: t)
  case (Cons p ov)
  obtain k v where p: "p = (k, v)" by (cases p)
  have k: "k \<notin> fst ` set t" using Cons.prems by (auto simp: dict_ok_def p)
  then have "dget t k = None" by (simp add: map_of_eq_None_iff)
  then show ?case using Cons.IH [of "t @ [(k, v)]"] Cons.prems k by (simp add: p dset_new)
qed simp

lemma deep_merge_Nil [simp]: "dict_ok ov \<Longrightarrow> deep_merge [] ov = ov"
  using deep_merge_fresh [of "[]" ov] by simp

text \<open>Overlaying onto a value that already holds the overlay changes nothing.\<close>

lemma deep_merge_absorbed:
  "(\<forall>p \<in> set ov. \<exists>w. dget t (fst p) = Some w \<and> merge_val (Some w) (snd p) = w) \<Longrightarrow> deep_merge t ov = t"
proof (induction ov arbitrary: t)
  case (Cons p ov)
  obtain k v where p: "p = (k, v)" by (cases p)
  from Cons.prems have "dset k (merge_val (dget t k) v) t = t"
    by (auto simp: p dset_same)
  with Cons show ?case by (simp add: p)
qed simp

lemma merge_val_self: "json_ok v \<Longrightarrow> merge_val (Some v) v = v"
proof (induction v)
  case (JObj d)
  have "deep_merge d d = d"
  proof (rule deep_merge_absorbed, rule ballI)
    fix p assume p: "p \<in> set d"
    then have "dget d (fst p) = Some (snd p)"
      using JObj.prems by (cases p) (auto intro: dict_ok_dget)
    moreover have "merge_val (Some (snd p)) (snd p) = snd p"
      using JObj.IH [OF p, of "snd p"] JObj.prems p by (auto simp: snds.simps)
    ultimately show "\<exists>w. dget d (fst p) = Some w \<and> merge_val (Some w) (snd p) = w" by blast
  qed
  then show ?case by simp
qed simp_all

lemma merge_val_idem: "json_ok v \<Longrightarrow> merge_val (Some (merge_val c v)) v = merge_val c v"
proof (induction v arbitrary: c)
  case (JObj ov)
  show ?case
  proof (cases "\<exists>cur. c = Some (JObj cur)")
    case True
    then obtain cur where c: "c = Some (JObj cur)" by blast
    have "deep_merge (deep_merge cur ov) ov = deep_merge cur ov"
    proof (rule deep_merge_absorbed, rule ballI)
      fix p assume p: "p \<in> set ov"
      then have "dget ov (fst p) = Some (snd p)"
        using JObj.prems by (cases p) (auto intro: dict_ok_dget)
      moreover have "merge_val (Some (merge_val (dget cur (fst p)) (snd p))) (snd p) = merge_val (dget cur (fst p)) (snd p)"
        using JObj.IH [OF p, of "snd p"] JObj.prems p by (auto simp: snds.simps)
      ultimately show "\<exists>w. dget (deep_merge cur ov) (fst p) = Some w \<and> merge_val (Some w) (snd p) = w"
        using JObj.prems by (simp add: dget_deep_merge)
    qed
    then show ?thesis by (simp add: c)
  next
    case False
    then show ?thesis using merge_val_self [OF JObj.prems] by simp
  qed
qed simp_all

lemma deep_merge_idem:
  "json_ok (JObj ov) \<Longrightarrow> deep_merge (deep_merge t ov) ov = deep_merge t ov"
  using merge_val_idem [of "JObj ov" "Some (JObj t)"] by simp

lemma deep_merge_json_ok:
  "json_ok (JObj t) \<Longrightarrow> json_ok (JObj ov) \<Longrightarrow> json_ok (JObj (deep_merge t ov))"
  and merge_val_json_ok:
  "\<forall>w. c = Some w \<longrightarrow> json_ok w \<Longrightarrow> json_ok v \<Longrightarrow> json_ok (merge_val c v)"
proof (induction t ov and c v rule: deep_merge_merge_val.induct)
  case (2 t k v ov)
  have "json_ok (merge_val (dget t k) v)"
    by (rule "2.IH"(1)) (use "2.prems" json_ok_get in auto)
  then have "json_ok (JObj (dset k (merge_val (dget t k) v) t))"
    using "2.prems"(1) by (rule json_ok_dset [rotated])
  then show ?case using "2.IH"(2) "2.prems"(2) by simp
qed simp_all

lemma float_free_dset: "float_free (JObj d) \<Longrightarrow> float_free v \<Longrightarrow> float_free (JObj (dset k v d))"
  using set_dset_subset [of k v d] by (auto 0 3)

lemma float_free_get: "float_free (JObj d) \<Longrightarrow> dget d k = Some v \<Longrightarrow> float_free v"
  by (fastforce dest: dget_in_set)

lemma deep_merge_float_free:
  "float_free (JObj t) \<Longrightarrow> float_free (JObj ov) \<Longrightarrow> float_free (JObj (deep_merge t ov))"
  and merge_val_float_free:
  "\<forall>w. c = Some w \<longrightarrow> float_free w \<Longrightarrow> float_free v \<Longrightarrow> float_free (merge_val c v)"
proof (induction t ov and c v rule: deep_merge_merge_val.induct)
  case (2 t k v ov)
  have "float_free (merge_val (dget t k) v)"
    by (rule "2.IH"(1)) (use "2.prems" float_free_get in auto)
  then have "float_free (JObj (dset k (merge_val (dget t k) v) t))"
    using "2.prems"(1) by (rule float_free_dset [rotated])
  then show ?case using "2.IH"(2) "2.prems"(2) by simp
qed simp_all

section \<open>Paths of keys\<close>

fun get_path :: "json \<Rightarrow> string list \<Rightarrow> json option" where
  \<comment> \<open>\<open>None\<close> where \<open>node[name]\<close> raises\<close>
  "get_path j [] = Some j"
| "get_path (JObj d) (k # ks) = (case dget d k of None \<Rightarrow> None | Some v \<Rightarrow> get_path v ks)"
| "get_path _ (k # ks) = None"

fun set_path :: "jobj \<Rightarrow> string list \<Rightarrow> json \<Rightarrow> jobj" where
  "set_path d [] v = d"
| "set_path d [k] v = dset k v d"
| "set_path d (k # k' # ks) v =
     dset k (JObj (set_path (case dget d k of Some (JObj c) \<Rightarrow> c | _ \<Rightarrow> []) (k' # ks) v)) d"

lemma get_set_path_same: "p \<noteq> [] \<Longrightarrow> get_path (JObj (set_path d p v)) p = Some v"
  by (induction d p v rule: set_path.induct) auto

text \<open>A write does not disturb what is read at a path neither above nor below it.\<close>

fun diverge :: "'a list \<Rightarrow> 'a list \<Rightarrow> bool" where
  "diverge (x # xs) (y # ys) = (x \<noteq> y \<or> diverge xs ys)"
| "diverge _ _ = False"

lemma get_set_path_other:
  "diverge p q \<Longrightarrow> get_path (JObj d) q = Some x \<Longrightarrow> get_path (JObj (set_path d p v)) q = Some x"
proof (induction d p v arbitrary: q rule: set_path.induct)
  case (2 d k v)
  then show ?case by (cases q) auto
next
  case (3 d k k' ks v)
  obtain l ls where q: "q = l # ls" using "3.prems" by (cases q) auto
  show ?case
  proof (cases "k = l")
    case False
    then show ?thesis using "3.prems" q by simp
  next
    case True
    then have div: "diverge (k' # ks) ls" using "3.prems"(1) q by simp
    then obtain m ms where ls: "ls = m # ms" by (cases ls) auto
    obtain c where c: "dget d k = Some (JObj c)" "get_path (JObj c) ls = Some x"
    proof -
      from "3.prems"(2) q True obtain w where "dget d k = Some w" "get_path w ls = Some x"
        by (auto split: option.splits)
      then show thesis using that ls by (cases w) auto
    qed
    then show ?thesis using "3.IH" [of ls] div q True by simp
  qed
qed simp

lemma set_path_json_ok: "json_ok (JObj d) \<Longrightarrow> json_ok v \<Longrightarrow> json_ok (JObj (set_path d p v))"
proof (induction d p v rule: set_path.induct)
  case (2 d k v)
  then show ?case unfolding set_path.simps by (intro json_ok_dset)
next
  case (3 d k k' ks v)
  have "json_ok (JObj (case dget d k of Some (JObj c) \<Rightarrow> c | _ \<Rightarrow> []))"
    using json_ok_get [OF "3.prems"(1), of k] by (auto simp del: json_ok.simps(2) split: option.split json.split)
  then have "json_ok (JObj (set_path (case dget d k of Some (JObj c) \<Rightarrow> c | _ \<Rightarrow> []) (k' # ks) v))"
    by (rule "3.IH") (rule "3.prems"(2))
  then show ?case unfolding set_path.simps by (intro json_ok_dset "3.prems"(1))
qed simp

lemma set_path_float_free: "float_free (JObj d) \<Longrightarrow> float_free v \<Longrightarrow> float_free (JObj (set_path d p v))"
proof (induction d p v rule: set_path.induct)
  case (2 d k v)
  then show ?case unfolding set_path.simps by (intro float_free_dset)
next
  case (3 d k k' ks v)
  have "float_free (JObj (case dget d k of Some (JObj c) \<Rightarrow> c | _ \<Rightarrow> []))"
    using float_free_get [OF "3.prems"(1), of k] by (auto simp del: float_free.simps(3) split: option.split json.split)
  then have "float_free (JObj (set_path (case dget d k of Some (JObj c) \<Rightarrow> c | _ \<Rightarrow> []) (k' # ks) v))"
    by (rule "3.IH") (rule "3.prems"(2))
  then show ?case unfolding set_path.simps by (intro float_free_dset "3.prems"(1))
qed simp

text \<open>The overlay wins at every path where it holds something other than an object.\<close>

lemma get_path_merge:
  "json_ok v \<Longrightarrow> get_path v p = Some x \<Longrightarrow> \<not> is_obj x \<Longrightarrow> get_path (merge_val c v) p = Some x"
proof (induction p arbitrary: c v)
  case Nil
  then show ?case by simp
next
  case (Cons k ks)
  then obtain ov w where v: "v = JObj ov" "dget ov k = Some w" "get_path w ks = Some x"
    by (cases v) (auto split: option.splits)
  show ?case
  proof (cases "\<exists>cur. c = Some (JObj cur)")
    case True
    then obtain cur where c: "c = Some (JObj cur)" by blast
    have "json_ok w" using Cons.prems(1) v json_ok_get by blast
    then have "get_path (merge_val (dget cur k) w) ks = Some x"
      using Cons.IH v(3) Cons.prems(3) by blast
    then show ?thesis using Cons.prems(1) v by (simp add: c dget_deep_merge)
  next
    case False
    then show ?thesis using Cons.prems by simp
  qed
qed

lemma get_path_deep_merge:
  "json_ok (JObj ov) \<Longrightarrow> get_path (JObj ov) p = Some x \<Longrightarrow> \<not> is_obj x \<Longrightarrow>
   get_path (JObj (deep_merge t ov)) p = Some x"
  using get_path_merge [of "JObj ov" p x "Some (JObj t)"] by simp

text \<open>Two dictionaries with the same keys in the same order and the same lookups are equal.\<close>

lemma dict_eqI:
  "map fst d = map fst d' \<Longrightarrow> dict_ok d \<Longrightarrow> (\<And>k. dget d k = dget d' k) \<Longrightarrow> d = d'"
proof (induction d arbitrary: d')
  case (Cons p d)
  obtain k v where p: "p = (k, v)" by (cases p)
  with Cons.prems(1) obtain v' e where d': "d' = (k, v') # e" by (cases d') auto
  have "v' = v" using Cons.prems(3) [of k] by (simp add: p d')
  moreover have "d = e"
  proof (rule Cons.IH)
    show "map fst d = map fst e" "dict_ok d" using Cons.prems by (simp_all add: p d')
    fix l
    show "dget d l = dget e l"
    proof (cases "l = k")
      case True
      have "k \<notin> set (map fst d)" using Cons.prems(2) by (simp add: p)
      moreover have "k \<notin> set (map fst e)" using calculation Cons.prems(1) by (simp add: p d' del: set_map)
      ultimately show ?thesis using True by (metis list.set_map map_of_eq_None_iff)
    next
      case False
      then show ?thesis using Cons.prems(3) [of l] by (simp add: p d')
    qed
  qed
  ultimately show ?case by (simp add: p d')
qed simp

end
