(* ===== verification/Py_Bytes.thy ===== *)
theory Py_Bytes
  imports Prelude "HOL-Library.Word"
begin

text \<open>
  Python's \<open>bytes\<close>: the little-endian integers of \<open>struct.unpack\<close> and the UTF-8 codec. Text that
  comes out of a file of bytes is a list of code points (\<open>ustr\<close>), because a decoder that replaces
  what it cannot read writes U+FFFD, which no \<open>char\<close> is.
\<close>

type_synonym bytes = "8 word list"

section \<open>Integers\<close>

primrec le_nat :: "bytes \<Rightarrow> nat" where
  \<comment> \<open>\<open>struct.unpack("<B"/"<H"/"<I"/"<Q", bs)\<close>\<close>
  "le_nat [] = 0"
| "le_nat (b # bs) = unat b + 256 * le_nat bs"

definition le_int :: "bytes \<Rightarrow> int" where
  \<comment> \<open>\<open>struct.unpack("<b"/"<h"/"<i"/"<q", bs)\<close>\<close>
  "le_int bs = (let n = int (le_nat bs) in
     if 2 * n < 256 ^ length bs then n else n - 256 ^ length bs)"

definition byte :: "nat \<Rightarrow> 8 word" where
  "byte n = word_of_nat n"

lemma unat_byte [simp]: "n < 256 \<Longrightarrow> unat (byte n) = n"
  by (simp add: byte_def unat_of_nat)

primrec to_le :: "nat \<Rightarrow> nat \<Rightarrow> bytes" where
  \<comment> \<open>\<open>struct.pack\<close> of a natural number at a width in bytes\<close>
  "to_le 0 n = []"
| "to_le (Suc k) n = byte (n mod 256) # to_le k (n div 256)"

lemma length_to_le [simp]: "length (to_le k n) = k"
  by (induction k arbitrary: n) auto

lemma le_nat_to_le: "n < 256 ^ k \<Longrightarrow> le_nat (to_le k n) = n"
proof (induction k arbitrary: n)
  case (Suc k)
  then have "n div 256 < 256 ^ k" by (simp add: less_mult_imp_div_less)
  then show ?case using Suc.IH by simp
qed simp

lemma le_nat_bound: "le_nat bs < 256 ^ length bs"
proof (induction bs)
  case (Cons b bs)
  have "unat b < 256" using unsigned_less [of b] by simp
  then show ?case using Cons by simp
qed simp

text \<open>Two's complement: the value lies in the range of its width and is congruent to the bits.\<close>

lemma le_int_range:
  shows "- (256 ^ length bs) \<le> 2 * le_int bs \<and> 2 * le_int bs < 256 ^ length bs"
proof -
  have "int (le_nat bs) < 256 ^ length bs"
    using le_nat_bound [of bs] by (metis of_nat_less_iff of_nat_numeral of_nat_power)
  moreover have "(0 :: int) \<le> int (le_nat bs)" by simp
  moreover have "le_int bs = (if 2 * int (le_nat bs) < 256 ^ length bs then int (le_nat bs)
      else int (le_nat bs) - 256 ^ length bs)"
    by (simp only: le_int_def Let_def)
  ultimately show ?thesis by (smt (verit))
qed

section \<open>UTF-8\<close>

type_synonym ustr = "nat list"

definition ustr_of :: "string \<Rightarrow> ustr" where
  "ustr_of s = map of_char s"

definition utf8_lead :: "nat \<Rightarrow> (nat \<times> nat \<times> nat \<times> nat) option" where
  \<comment> \<open>how many bytes follow, the range of the first of them, the bits of the lead byte\<close>
  "utf8_lead b =
     (if 0xC2 \<le> b \<and> b \<le> 0xDF then Some (1, 0x80, 0xBF, b - 0xC0)
      else if b = 0xE0 then Some (2, 0xA0, 0xBF, 0)
      else if b = 0xED then Some (2, 0x80, 0x9F, 13)
      else if 0xE1 \<le> b \<and> b \<le> 0xEF then Some (2, 0x80, 0xBF, b - 0xE0)
      else if b = 0xF0 then Some (3, 0x90, 0xBF, 0)
      else if 0xF1 \<le> b \<and> b \<le> 0xF3 then Some (3, 0x80, 0xBF, b - 0xF0)
      else if b = 0xF4 then Some (3, 0x80, 0x8F, 4)
      else None)"

fun utf8_tail :: "nat \<Rightarrow> nat \<Rightarrow> nat \<Rightarrow> nat \<Rightarrow> bytes \<Rightarrow> nat option \<times> bytes" where
  "utf8_tail 0 lo hi acc bs = (Some acc, bs)"
| "utf8_tail (Suc n) lo hi acc [] = (None, [])"
| "utf8_tail (Suc n) lo hi acc (b # bs) =
     (if lo \<le> unat b \<and> unat b \<le> hi then utf8_tail n 0x80 0xBF (64 * acc + (unat b - 0x80)) bs
      else (None, b # bs))"

lemma utf8_tail_shorter: "(u, r) = utf8_tail n lo hi acc bs \<Longrightarrow> length r \<le> length bs"
  by (induction n lo hi acc bs rule: utf8_tail.induct) (auto split: if_splits)

text \<open>The decoder: \<open>None\<close> for each maximal part that is no character.\<close>

function utf8_units :: "bytes \<Rightarrow> nat option list" where
  "utf8_units bs =
     (case bs of [] \<Rightarrow> []
      | b # t \<Rightarrow>
          if unat b < 0x80 then Some (unat b) # utf8_units t
          else (case utf8_lead (unat b) of
              None \<Rightarrow> None # utf8_units t
            | Some (n, lo, hi, acc) \<Rightarrow>
                (case utf8_tail n lo hi acc t of (u, r) \<Rightarrow> u # utf8_units r)))"
  by pat_completeness auto
termination
  by (relation "measure length") (auto simp: less_Suc_eq_le dest: utf8_tail_shorter)

declare utf8_units.simps [simp del]

definition REPLACEMENT :: nat where "REPLACEMENT = 0xFFFD"

definition decode_replace :: "bytes \<Rightarrow> ustr" where
  \<comment> \<open>\<open>bs.decode("utf-8", "replace")\<close>\<close>
  "decode_replace bs = map (\<lambda>u. case u of None \<Rightarrow> REPLACEMENT | Some c \<Rightarrow> c) (utf8_units bs)"

definition scalar :: "nat \<Rightarrow> bool" where
  "scalar c = (c < 0x110000 \<and> \<not> (0xD800 \<le> c \<and> c \<le> 0xDFFF))"

lemma utf8_units_Nil [simp]: "utf8_units [] = []"
  by (simp add: utf8_units.simps)

lemma utf8_units_ascii: "unat b < 0x80 \<Longrightarrow> utf8_units (b # t) = Some (unat b) # utf8_units t"
  by (simp add: utf8_units.simps [of "b # t"])

lemma utf8_units_lead:
  "0x80 \<le> unat b \<Longrightarrow> utf8_lead (unat b) = Some (n, lo, hi, acc) \<Longrightarrow> utf8_tail n lo hi acc t = (u, r) \<Longrightarrow>
   utf8_units (b # t) = u # utf8_units r"
  by (simp add: utf8_units.simps [of "b # t"])

text \<open>One encoded character is read back, whatever follows it.\<close>

definition utf8_char :: "nat \<Rightarrow> bytes" where
  "utf8_char c =
     (if c < 0x80 then [byte c]
      else if c < 0x800 then [byte (0xC0 + c div 64), byte (0x80 + c mod 64)]
      else if c < 0x10000 then
        [byte (0xE0 + c div 4096), byte (0x80 + c div 64 mod 64), byte (0x80 + c mod 64)]
      else [byte (0xF0 + c div 262144), byte (0x80 + c div 4096 mod 64),
        byte (0x80 + c div 64 mod 64), byte (0x80 + c mod 64)])"

definition utf8_encode :: "ustr \<Rightarrow> bytes" where
  \<comment> \<open>\<open>s.encode("utf-8")\<close>\<close>
  "utf8_encode s = concat (map utf8_char s)"

lemma utf8_char_two:
  assumes "0x80 \<le> c" "c < 0x800"
  shows "utf8_units (utf8_char c @ t) = Some c # utf8_units t"
proof -
  have *: "c div 64 \<le> 31" "2 \<le> c div 64" "c mod 64 < 64" using assms by auto
  show ?thesis
    using assms * by (simp add: utf8_char_def utf8_units_lead utf8_lead_def)
qed

lemma base64_three: "(c :: nat) = 4096 * (c div 4096) + 64 * (c div 64 mod 64) + c mod 64"
proof -
  have "c = 64 * (c div 64) + c mod 64" "c div 64 = 64 * (c div 64 div 64) + c div 64 mod 64" by simp_all
  moreover have "c div 4096 = c div 64 div 64" using div_mult2_eq [of c 64 64] by simp
  ultimately show ?thesis by linarith
qed

lemma base64_four:
  "(c :: nat) = 262144 * (c div 262144) + 4096 * (c div 4096 mod 64) + 64 * (c div 64 mod 64) + c mod 64"
proof -
  have "c div 4096 = 64 * (c div 4096 div 64) + c div 4096 mod 64" by simp
  moreover have "c div 262144 = c div 4096 div 64" using div_mult2_eq [of c 4096 64] by simp
  ultimately show ?thesis using base64_three [of c] by linarith
qed

lemma utf8_char_three:
  assumes "0x800 \<le> c" "c < 0x10000" "scalar c"
  shows "utf8_units (utf8_char c @ t) = Some c # utf8_units t"
proof -
  define a m l where "a = c div 4096" and "m = c div 64 mod 64" and "l = c mod 64"
  have c: "c = 4096 * a + 64 * m + l" and b: "a < 16" "m < 64" "l < 64"
    using assms base64_three [of c] by (auto simp: a_def m_def l_def)
  have lead: "\<exists>lo hi. utf8_lead (0xE0 + a) = Some (2, lo, hi, a) \<and> lo \<le> 0x80 + m \<and> 0x80 + m \<le> hi"
  proof (cases "a = 0")
    case True
    then have "32 \<le> m" using assms c b by simp
    then show ?thesis using True b by (simp add: utf8_lead_def)
  next
    case False
    show ?thesis
    proof (cases "a = 13")
      case True
      then have "m < 32" using assms c b by (simp add: scalar_def)
      then show ?thesis using True b by (simp add: utf8_lead_def)
    next
      case False
      then show ?thesis using \<open>a \<noteq> 0\<close> b by (simp add: utf8_lead_def)
    qed
  qed
  have "utf8_char c = [byte (0xE0 + a), byte (0x80 + m), byte (0x80 + l)]"
    using assms by (simp add: utf8_char_def a_def m_def l_def)
  then show ?thesis
    using lead b by (auto simp: utf8_units_lead numeral_2_eq_2 c)
qed

lemma utf8_char_four:
  assumes "0x10000 \<le> c" "scalar c"
  shows "utf8_units (utf8_char c @ t) = Some c # utf8_units t"
proof -
  define a m l k where "a = c div 262144" and "m = c div 4096 mod 64" and "l = c div 64 mod 64" and "k = c mod 64"
  have c: "c = 262144 * a + 4096 * m + 64 * l + k" and b: "a < 5" "m < 64" "l < 64" "k < 64"
    using assms base64_four [of c] by (auto simp: a_def m_def l_def k_def scalar_def)
  have lead: "\<exists>lo hi. utf8_lead (0xF0 + a) = Some (3, lo, hi, a) \<and> lo \<le> 0x80 + m \<and> 0x80 + m \<le> hi"
  proof (cases "a = 0")
    case True
    then have "16 \<le> m" using assms c b by simp
    then show ?thesis using True b by (simp add: utf8_lead_def)
  next
    case False
    show ?thesis
    proof (cases "a = 4")
      case True
      then have "m < 16" using assms c b by (simp add: scalar_def)
      then show ?thesis using True b by (simp add: utf8_lead_def)
    next
      case False
      then show ?thesis using \<open>a \<noteq> 0\<close> b by (simp add: utf8_lead_def)
    qed
  qed
  have "utf8_char c = [byte (0xF0 + a), byte (0x80 + m), byte (0x80 + l), byte (0x80 + k)]"
    using assms by (simp add: utf8_char_def a_def m_def l_def k_def)
  then show ?thesis
    using lead b by (auto simp: utf8_units_lead numeral_3_eq_3 c)
qed

lemma utf8_units_char: "scalar c \<Longrightarrow> utf8_units (utf8_char c @ t) = Some c # utf8_units t"
proof -
  assume c: "scalar c"
  consider "c < 0x80" | "0x80 \<le> c \<and> c < 0x800" | "0x800 \<le> c \<and> c < 0x10000" | "0x10000 \<le> c" by linarith
  then show ?thesis
  proof cases
    case 1
    then show ?thesis by (simp add: utf8_char_def utf8_units_ascii)
  qed (simp_all add: utf8_char_two utf8_char_three utf8_char_four c)
qed

lemma utf8_units_encode: "\<forall>c \<in> set s. scalar c \<Longrightarrow> utf8_units (utf8_encode s) = map Some s"
proof (induction s)
  case (Cons c s)
  then show ?case by (simp add: utf8_encode_def utf8_units_char)
qed (simp add: utf8_encode_def)

text \<open>Text written as UTF-8 is decoded to itself: nothing is replaced.\<close>

lemma decode_encode: "\<forall>c \<in> set s. scalar c \<Longrightarrow> decode_replace (utf8_encode s) = s"
  by (simp add: decode_replace_def utf8_units_encode comp_def)

lemma scalar_chars [simp]: "c \<in> set (ustr_of s) \<Longrightarrow> scalar c"
proof -
  assume "c \<in> set (ustr_of s)"
  then obtain k :: char where "c = of_char k" by (auto simp: ustr_of_def)
  then have "c < 256" using nat_of_char_less_256 [of k] by simp
  then show ?thesis by (simp add: scalar_def)
qed

definition text_bytes :: "string \<Rightarrow> bytes" where
  \<comment> \<open>the bytes \<open>write_text\<close> puts into the file\<close>
  "text_bytes s = utf8_encode (ustr_of s)"

lemma decode_text_bytes: "decode_replace (text_bytes s) = ustr_of s"
  by (simp add: text_bytes_def decode_encode)

end
