(* ===== verification/Py_Path.thy ===== *)
theory Py_Path
  imports Py_Bytes "HOL-Library.Sublist"
begin

text \<open>
  \<open>pathlib\<close> for POSIX paths, and the file tree the harness reads and writes. A path is its
  root (empty, \<open>/\<close> or \<open>//\<close>) and its parts; a file tree is a dictionary from paths to
  nodes, whose order is the order a directory listing returns. Only what the harness does
  with the tree is here: tests, reading and writing text, \<open>mkdir\<close> with parents, \<open>rmtree\<close>.
\<close>

section \<open>Paths\<close>

datatype path = Path (path_root: string) (path_parts: "string list")

definition path_of :: "string \<Rightarrow> path" where
  "path_of s = Path
     (if starts_with s ''//'' \<and> \<not> starts_with s ''///'' then ''//''
      else if starts_with s ''/'' then ''/'' else [])
     (filter (\<lambda>p. p \<noteq> [] \<and> p \<noteq> ''.'') (str_split (CHR ''/'') s))"

definition path_str :: "path \<Rightarrow> string" where
  "path_str p = (if path_root p = [] \<and> path_parts p = [] then ''.''
                 else path_root p @ str_join ''/'' (path_parts p))"

definition path_join :: "path \<Rightarrow> string \<Rightarrow> path" where
  \<comment> \<open>\<open>p / s\<close>: an absolute right-hand side replaces the left\<close>
  "path_join p s = (let q = path_of s in
     if path_root q \<noteq> [] then q else Path (path_root p) (path_parts p @ path_parts q))"

definition path_parent :: "path \<Rightarrow> path" where
  "path_parent p = Path (path_root p) (butlast (path_parts p))"

definition path_name :: "path \<Rightarrow> string" where
  "path_name p = (if path_parts p = [] then [] else last (path_parts p))"

definition is_abs :: "path \<Rightarrow> bool" where
  "is_abs p = (path_root p \<noteq> [])"

text \<open>\<open>candidate.relative_to(base)\<close> succeeds; it is also \<open>base == candidate or base in candidate.parents\<close>.\<close>

definition within :: "path \<Rightarrow> path \<Rightarrow> bool" where
  "within c b = (path_root c = path_root b \<and> prefix (path_parts b) (path_parts c))"

definition relparts :: "path \<Rightarrow> path \<Rightarrow> string list" where
  \<comment> \<open>\<open>c.relative_to(b).parts\<close> for a \<open>c\<close> within \<open>b\<close>\<close>
  "relparts c b = drop (length (path_parts b)) (path_parts c)"

lemma within_refl [simp]: "within p p"
  by (simp add: within_def)

lemma within_trans: "within a b \<Longrightarrow> within b c \<Longrightarrow> within a c"
  by (auto simp: within_def intro: prefix_order.trans)

lemma path_eqI: "path_root p = path_root q \<Longrightarrow> path_parts p = path_parts q \<Longrightarrow> p = q"
  by (cases p; cases q) simp

lemma within_antisym: "within a b \<Longrightarrow> within b a \<Longrightarrow> a = b"
  by (auto simp: within_def intro: path_eqI prefix_order.antisym)

lemma relparts_inj: "within a b \<Longrightarrow> within c b \<Longrightarrow> relparts a b = relparts c b \<Longrightarrow> a = c"
  by (auto simp: within_def relparts_def prefix_def intro: path_eqI)

text \<open>The path some parts below another.\<close>

definition below :: "path \<Rightarrow> string list \<Rightarrow> path" where
  "below p ps = Path (path_root p) (path_parts p @ ps)"

lemma below_inj [simp]: "below p ps = below p qs \<longleftrightarrow> ps = qs"
  by (simp add: below_def)

lemma within_below [simp]: "within (below p ps) p"
  by (simp add: below_def within_def)

lemma within_below_iff: "within q p \<longleftrightarrow> (\<exists>ps. q = below p ps)"
  by (cases q) (auto simp: within_def below_def prefix_def)

lemma relparts_below [simp]: "relparts (below p ps) p = ps"
  by (simp add: relparts_def below_def)

lemma below_below [simp]: "below (below p ps) qs = below p (ps @ qs)"
  by (simp add: below_def)

lemma below_Nil [simp]: "below p [] = p"
  by (simp add: below_def)

lemma within_below_below [simp]: "within (below p ps) (below p qs) \<longleftrightarrow> prefix qs ps"
  by (simp add: within_def below_def)

lemma below_eq_self [simp]: "below p ps = p \<longleftrightarrow> ps = []"
  by (cases p) (simp add: below_def)

text \<open>A relative path without a parent step stays below the path it is joined to.\<close>

lemma path_join_within: "path_root (path_of s) = [] \<Longrightarrow> within (path_join p s) p"
  by (simp add: path_join_def within_def Let_def)

lemma path_join_rel:
  "path_root (path_of s) = [] \<Longrightarrow> path_join p s = Path (path_root p) (path_parts p @ path_parts (path_of s))"
  by (simp add: path_join_def Let_def)

definition simple_part :: "string \<Rightarrow> bool" where
  "simple_part s = (s \<noteq> [] \<and> s \<noteq> ''.'' \<and> CHR ''/'' \<notin> set s)"

lemma path_of_simple: "simple_part s \<Longrightarrow> path_of s = Path [] [s]"
  by (cases s) (auto simp: simple_part_def path_of_def starts_with_def str_split_no_sep)

lemma path_join_simple: "simple_part s \<Longrightarrow> path_join p s = Path (path_root p) (path_parts p @ [s])"
  by (simp add: path_join_def path_of_simple)

text \<open>
  Python compares paths by the list of their parts, the root first when there is one. The
  root again as a tie-break makes the order total on the whole type.
\<close>

definition path_key :: "path \<Rightarrow> string list" where
  "path_key p = (if path_root p = [] then path_parts p else path_root p # path_parts p)"

definition path_ord :: "path \<Rightarrow> string list \<times> string" where
  "path_ord p = (path_key p, path_root p)"

lemma path_ord_inj: "path_ord p = path_ord q \<Longrightarrow> p = q"
  by (auto simp: path_ord_def path_key_def intro: path_eqI split: if_splits)

instantiation path :: linorder
begin

definition less_eq_path :: "path \<Rightarrow> path \<Rightarrow> bool" where
  "less_eq_path p q = (path_ord p \<le> path_ord q)"

definition less_path :: "path \<Rightarrow> path \<Rightarrow> bool" where
  "less_path p q = (path_ord p < path_ord q)"

instance
  by standard (auto simp: less_eq_path_def less_path_def intro: path_ord_inj)

end

section \<open>File trees\<close>

text \<open>A file of text, a file of bytes that are not text, a directory, a symbolic link, and
  anything else (a socket, a device).\<close>

datatype node = NFile string | NBin bytes | NDir | NLink | NOther

type_synonym fs = "(path, node) dict"

definition fs_exists :: "fs \<Rightarrow> path \<Rightarrow> bool" where
  "fs_exists t p = dhas t p"

definition fs_is_file :: "fs \<Rightarrow> path \<Rightarrow> bool" where
  "fs_is_file t p = (case dget t p of Some (NFile _) \<Rightarrow> True | Some (NBin _) \<Rightarrow> True | _ \<Rightarrow> False)"

definition fs_is_dir :: "fs \<Rightarrow> path \<Rightarrow> bool" where
  "fs_is_dir t p = (dget t p = Some NDir)"

definition fs_is_link :: "fs \<Rightarrow> path \<Rightarrow> bool" where
  "fs_is_link t p = (dget t p = Some NLink)"

definition utf8_size :: "string \<Rightarrow> nat" where
  "utf8_size s = sum_list (map (\<lambda>c. if (of_char c :: nat) < 128 then 1 else 2) s)"

definition fs_size :: "fs \<Rightarrow> path \<Rightarrow> nat" where
  \<comment> \<open>\<open>stat().st_size\<close> of a regular file\<close>
  "fs_size t p = (case dget t p of Some (NFile s) \<Rightarrow> utf8_size s | Some (NBin b) \<Rightarrow> length b | _ \<Rightarrow> 0)"

definition fs_read :: "fs \<Rightarrow> path \<Rightarrow> string option" where
  \<comment> \<open>\<open>read_text\<close>: \<open>None\<close> where it raises \<open>OSError\<close> or \<open>UnicodeDecodeError\<close>\<close>
  "fs_read t p = (case dget t p of Some (NFile s) \<Rightarrow> Some s | _ \<Rightarrow> None)"

definition fs_write :: "path \<Rightarrow> string \<Rightarrow> fs \<Rightarrow> fs" where
  "fs_write p s t = dset p (NFile s) t"

definition path_prefixes :: "path \<Rightarrow> path list" where
  \<comment> \<open>the path and every ancestor of it, outermost first\<close>
  "path_prefixes p = map (Path (path_root p)) (prefixes (path_parts p))"

definition fs_mkdir :: "path \<Rightarrow> fs \<Rightarrow> fs" where
  \<comment> \<open>\<open>mkdir(parents=True, exist_ok=True)\<close>\<close>
  "fs_mkdir p t = foldl (\<lambda>t q. if dhas t q then t else dset q NDir t) t (path_prefixes p)"

definition fs_rmtree :: "path \<Rightarrow> fs \<Rightarrow> fs" where
  "fs_rmtree p t = filter (\<lambda>e. \<not> within (fst e) p) t"

definition fs_children :: "fs \<Rightarrow> path \<Rightarrow> path list" where
  \<comment> \<open>\<open>iterdir\<close>\<close>
  "fs_children t p = filter (\<lambda>q. path_parts q \<noteq> [] \<and> path_parent q = p) (map fst t)"

definition fs_below :: "fs \<Rightarrow> path \<Rightarrow> path list" where
  \<comment> \<open>\<open>rglob("*")\<close>\<close>
  "fs_below t p = filter (\<lambda>q. within q p \<and> q \<noteq> p) (map fst t)"

text \<open>The files below a directory, as relative parts and text: what the tree there holds.\<close>

definition fs_tree :: "fs \<Rightarrow> path \<Rightarrow> (string list \<rightharpoonup> string)" where
  "fs_tree t p = (\<lambda>ps. fs_read t (Path (path_root p) (path_parts p @ ps)))"

named_theorems fs_simps \<open>what each file operation reads back\<close>

lemma fs_read_write [simp, fs_simps]: "fs_read (fs_write p s t) q = (if q = p then Some s else fs_read t q)"
  by (simp add: fs_read_def fs_write_def)

lemma fs_read_is_file: "fs_read t p = Some s \<Longrightarrow> fs_is_file t p"
  by (auto simp: fs_is_file_def fs_read_def split: option.splits node.splits)

lemma dget_mkdir_fold:
  "dget (foldl (\<lambda>t q. if dhas t q then t else dset q NDir t) t qs) p =
     (if dget t p = None \<and> p \<in> set qs then Some NDir else dget t p)"
  by (induction qs arbitrary: t) (auto simp: dict_simps)

lemma fs_read_mkdir [simp, fs_simps]: "fs_read (fs_mkdir q t) p = fs_read t p"
  by (simp add: fs_mkdir_def fs_read_def dget_mkdir_fold)

lemma dget_filter_keys: "dget (filter (\<lambda>e. P (fst e)) t) k = (if P k then dget t k else None)"
  by (induction t) auto

lemma dget_rmtree [fs_simps]: "dget (fs_rmtree p t) q = (if within q p then None else dget t q)"
  using dget_filter_keys [of "\<lambda>q. \<not> within q p" t q] by (simp add: fs_rmtree_def)

lemma fs_read_rmtree [simp, fs_simps]: "fs_read (fs_rmtree p t) q = (if within q p then None else fs_read t q)"
  by (simp add: fs_read_def dget_rmtree)

lemma fs_exists_rmtree [simp, fs_simps]: "fs_exists (fs_rmtree p t) q \<longleftrightarrow> \<not> within q p \<and> fs_exists t q"
  by (auto simp: fs_exists_def dict_simps dget_rmtree)

lemma dict_ok_fs_write [simp]: "dict_ok t \<Longrightarrow> dict_ok (fs_write p s t)"
  by (simp add: fs_write_def)

lemma fs_children_iff: "q \<in> set (fs_children t p) \<longleftrightarrow> fs_exists t q \<and> path_parts q \<noteq> [] \<and> path_parent q = p"
  by (auto simp: fs_children_def fs_exists_def dhas_def)

end
