(* ===== verification/Text_Store.thy ===== *)
theory Text_Store
  imports Json_Roundtrip Config_Merge Py_Path
begin

text \<open>
  The contract between the documents the harness writes and the files it reads them back
  from: a text codec. Every file the harness owns (router configuration, result record,
  plan, manifest) is written as indented JSON and a newline and read with \<open>json.loads\<close>; the
  interpretation discharges the contract for that pair.
\<close>

locale text_codec =
  fixes enc :: "'a \<Rightarrow> string"
    and dec :: "string \<Rightarrow> 'a option"
    and good :: "'a \<Rightarrow> bool"
  assumes dec_enc: "good x \<Longrightarrow> dec (enc x) = Some x"
begin

definition store :: "path \<Rightarrow> 'a \<Rightarrow> fs \<Rightarrow> fs" where
  "store p x t = fs_write p (enc x) (fs_mkdir (path_parent p) t)"

definition fetch :: "fs \<Rightarrow> path \<Rightarrow> 'a option" where
  "fetch t p = (case fs_read t p of None \<Rightarrow> None | Some s \<Rightarrow> dec s)"

lemma fetch_store: "good x \<Longrightarrow> fetch (store p x t) p = Some x"
  by (simp add: fetch_def store_def dec_enc)

lemma fetch_store_other: "q \<noteq> p \<Longrightarrow> fetch (store p x t) q = fetch t q"
  by (simp add: fetch_def store_def)

lemma enc_inj: "good x \<Longrightarrow> good y \<Longrightarrow> enc x = enc y \<Longrightarrow> x = y"
  using dec_enc by (metis option.inject)

text \<open>Storing a second document leaves nothing of the first.\<close>

lemma store_twice: "good y \<Longrightarrow> fetch (store p y (store p x t)) p = Some y"
  by (rule fetch_store)

end

definition json_file :: "json \<Rightarrow> string" where
  "json_file j = json_dumps_indent j @ [CHR 0x0A]"

definition plain_json :: "json \<Rightarrow> bool" where
  "plain_json j = (float_free j \<and> json_ok j)"

interpretation doc: text_codec json_file json_loads plain_json
  by unfold_locales (simp add: json_file_def plain_json_def json_loads_dumps_indent)

lemma plain_dset: "plain_json (JObj d) \<Longrightarrow> plain_json v \<Longrightarrow> plain_json (JObj (dset k v d))"
  unfolding plain_json_def by (meson float_free_dset json_ok_dset)

end
