(* ===== verification/Wiring_Config.thy ===== *)
theory Wiring_Config
  imports Config_Merge Json_Roundtrip Py_Path
begin

text \<open>
  \<open>scripts/conductor_wiring.py\<close>, the configuration half: the slot derivation both sides of
  the concurrency contract share, the router configuration (generated, merged over hand
  edits, verified, written and read back), and the opencode configuration (fragment merged
  over a base, harness root substituted, agents replaced, limits set, file references
  checked). A \<open>raise\<close> is an \<open>Inl\<close> of \<open>wiring_error\<close>.
\<close>

section \<open>Constants\<close>

definition OPENAI_PATH :: string where "OPENAI_PATH = ''/v1''"
definition PROVIDER_ID :: string where "PROVIDER_ID = ''llamacpp''"
definition HARNESS_ROOT_TOKEN :: string where "HARNESS_ROOT_TOKEN = ''${LLAMA_HARNESS_ROOT}''"
definition FRAGMENT_RELPATH :: string where "FRAGMENT_RELPATH = ''conductor/opencode-fragment.json''"
definition ROUTER_LEDGER_RELPATH :: string where "ROUTER_LEDGER_RELPATH = ''.data/router/metrics.jsonl''"
definition DEFAULT_MAX_READERS :: int where "DEFAULT_MAX_READERS = 6"
definition SUB_SESSION_TIMEOUT_MS :: int where "SUB_SESSION_TIMEOUT_MS = 21600000"
definition ROLE_TIMEOUT_MS :: jobj where
  "ROLE_TIMEOUT_MS = [(''mechanical'', JInt 21600000), (''skeptic'', JInt 21600000), (''planner'', JInt 21600000)]"
definition ROUTER_CONFIG_VERSION :: int where "ROUTER_CONFIG_VERSION = 1"
definition ROUTER_MAX_QUEUED :: int where "ROUTER_MAX_QUEUED = 64"
definition ROUTER_QUEUE_TIMEOUT_MS :: int where "ROUTER_QUEUE_TIMEOUT_MS = 7200000"
definition ROUTER_AFFINITY_HEADER :: string where "ROUTER_AFFINITY_HEADER = ''X-Conductor-Group''"
definition ROUTER_SCHEMA_HEADER :: string where "ROUTER_SCHEMA_HEADER = ''X-Conductor-Schema''"
definition ROUTER_LOG_LEVEL :: string where "ROUTER_LOG_LEVEL = ''info''"
definition ROUTER_MACHINE_KEYS :: "string list list" where
  "ROUTER_MACHINE_KEYS =
     [[''version''], [''listen'', ''host''], [''listen'', ''port''], [''upstream'', ''host''],
      [''upstream'', ''port''], [''admission'', ''maxInflightPerModel''],
      [''admission'', ''queueTimeoutMs''], [''metrics'', ''ledgerPath'']]"
definition PER_SLOT_CONTEXT_TOKENS :: int where "PER_SLOT_CONTEXT_TOKENS = 65536"
definition OPENCODE_COMPACTION_BUFFER :: int where "OPENCODE_COMPACTION_BUFFER = 20000"
definition OPENCODE_OUTPUT_TOKEN_MAX :: int where "OPENCODE_OUTPUT_TOKEN_MAX = 32000"
definition PROMPT_CACHE_RAM_MIB :: int where "PROMPT_CACHE_RAM_MIB = 4096"

lemmas wiring_consts =
  OPENAI_PATH_def PROVIDER_ID_def HARNESS_ROOT_TOKEN_def ROUTER_CONFIG_VERSION_def
  ROUTER_MAX_QUEUED_def ROUTER_QUEUE_TIMEOUT_MS_def PER_SLOT_CONTEXT_TOKENS_def
  OPENCODE_COMPACTION_BUFFER_def OPENCODE_OUTPUT_TOKEN_MAX_def PROMPT_CACHE_RAM_MIB_def

datatype wiring_error =
    MaxReadersNotInt json
  | PerSlotNotPositive json
  | AdmissionInflight json int
  | AdmissionTimeout json
  | MissingKey "string list"
  | UnreadableAfterWrite path
  | NotObjectAfterWrite path
  | FragmentUnreadable path
  | FragmentNotJson path
  | FragmentNotObject path
  | MissingReferences "string list"
  | NoGetAttribute json

section \<open>Slots and windows\<close>

definition openai_base_url :: "string \<Rightarrow> int \<Rightarrow> string" where
  "openai_base_url host port = ''http://'' @ host @ '':'' @ str_int port @ OPENAI_PATH"

definition origin_of :: "string \<Rightarrow> string" where
  "origin_of base_url =
     (if ends_with base_url OPENAI_PATH then take (length base_url - length OPENAI_PATH) base_url
      else base_url)"

definition derive_slots :: "json \<Rightarrow> (wiring_error, int) res" where
  "derive_slots max_readers =
     (case strict_int max_readers of
        None \<Rightarrow> Inl (MaxReadersNotInt max_readers)
      | Some n \<Rightarrow> Inr (if n > 1 then n else 1))"

definition parallel_server_args :: "json \<Rightarrow> int option \<Rightarrow> (wiring_error, string list) res" where
  "parallel_server_args slots ctx =
     bindE (derive_slots slots) (\<lambda>count.
       let per_slot = (case ctx of None \<Rightarrow> PER_SLOT_CONTEXT_TOKENS | Some c \<Rightarrow> c);
           args = [''--parallel'', str_int count];
           args = (if count > 1 then args @ [''--ctx-size'', str_int (per_slot * count)]
                   else if ctx \<noteq> None then args @ [''--ctx-size'', str_int per_slot]
                   else args)
       in Inr (if ''--ctx-size'' \<in> set args then args @ [''--cache-ram'', str_int PROMPT_CACHE_RAM_MIB]
               else args))"

definition opencode_model_limit :: "json \<Rightarrow> (wiring_error, jobj) res" where
  "opencode_model_limit per_slot_ctx =
     (case strict_int per_slot_ctx of
        None \<Rightarrow> Inl (PerSlotNotPositive per_slot_ctx)
      | Some n \<Rightarrow>
          (if n \<le> 0 then Inl (PerSlotNotPositive per_slot_ctx)
           else Inr [(''context'', JInt n), (''output'', JInt (n div 4))]))"

definition limit_int :: "jobj \<Rightarrow> string \<Rightarrow> int" where
  \<comment> \<open>\<open>limit[k]\<close> on the block above, whose two values are integers\<close>
  "limit_int limit k = (case strict_int (jget limit k) of None \<Rightarrow> 0 | Some n \<Rightarrow> n)"

definition opencode_usable_window :: "json \<Rightarrow> (wiring_error, int) res" where
  "opencode_usable_window per_slot_ctx =
     bindE (opencode_model_limit per_slot_ctx) (\<lambda>limit.
       let m = min (limit_int limit ''output'') OPENCODE_OUTPUT_TOKEN_MAX;
           reserve = (if m = 0 then OPENCODE_OUTPUT_TOKEN_MAX else m)
       in Inr (limit_int limit ''context'' - min OPENCODE_COMPACTION_BUFFER reserve))"

section \<open>The router configuration\<close>

definition generate_router_config ::
  "string \<Rightarrow> int \<Rightarrow> string \<Rightarrow> int \<Rightarrow> int \<Rightarrow> path \<Rightarrow> (wiring_error, jobj) res" where
  "generate_router_config listen_host listen_port upstream_host upstream_port slots base =
     bindE (derive_slots (JInt slots)) (\<lambda>inflight. Inr
       [(''version'', JInt ROUTER_CONFIG_VERSION),
        (''listen'', JObj [(''host'', JStr listen_host), (''port'', JInt listen_port)]),
        (''upstream'', JObj [(''host'', JStr upstream_host), (''port'', JInt upstream_port)]),
        (''admission'', JObj
           [(''maxInflightPerModel'', JInt inflight),
            (''maxQueued'', JInt ROUTER_MAX_QUEUED),
            (''queueTimeoutMs'', JInt ROUTER_QUEUE_TIMEOUT_MS)]),
        (''priorities'', JObj [(''interactive'', JInt 0), (''review'', JInt 1), (''batch'', JInt 2)]),
        (''affinity'', JObj [(''header'', JStr ROUTER_AFFINITY_HEADER), (''contiguousDequeue'', JBool True)]),
        (''schema'', JObj
           [(''observeHeader'', JStr ROUTER_SCHEMA_HEADER),
            (''validateResponses'', JBool True),
            (''rejectOnMissing'', JBool False)]),
        (''metrics'', JObj [(''ledgerPath'', JStr (path_str (path_join base ROUTER_LEDGER_RELPATH)))]),
        (''logging'', JObj [(''level'', JStr ROUTER_LOG_LEVEL)])])"

definition set_machine_key :: "jobj \<Rightarrow> jobj \<Rightarrow> string list \<Rightarrow> (wiring_error, jobj) res" where
  "set_machine_key generated merged p =
     (case get_path (JObj generated) p of
        None \<Rightarrow> Inl (MissingKey p)
      | Some v \<Rightarrow> Inr (set_path merged p v))"

definition merge_router_config :: "json \<Rightarrow> jobj \<Rightarrow> bool \<Rightarrow> (wiring_error, jobj) res" where
  "merge_router_config existing generated fresh =
     (case existing of
        JObj ex \<Rightarrow>
          (if fresh \<or> ex = [] then Inr generated
           else foldE (set_machine_key generated) (deep_merge generated ex) ROUTER_MACHINE_KEYS)
      | _ \<Rightarrow> Inr generated)"

definition verify_router_admission :: "jobj \<Rightarrow> int \<Rightarrow> (wiring_error, unit) res" where
  "verify_router_admission config slots =
     (let admission = (case jget config ''admission'' of JObj a \<Rightarrow> a | _ \<Rightarrow> []) in
      bindE (derive_slots (JInt slots)) (\<lambda>expected_inflight.
        let got_inflight = jget admission ''maxInflightPerModel'' in
        if \<not> py_eq_int got_inflight expected_inflight then Inl (AdmissionInflight got_inflight slots)
        else
          (let got_timeout = jget admission ''queueTimeoutMs'' in
           if \<not> py_eq_int got_timeout ROUTER_QUEUE_TIMEOUT_MS then Inl (AdmissionTimeout got_timeout)
           else Inr ())))"

definition load_existing :: "fs \<Rightarrow> path \<Rightarrow> json" where
  \<comment> \<open>the object in the file, or \<open>None\<close> when there is no file or it holds none\<close>
  "load_existing t p =
     (case fs_read t p of
        None \<Rightarrow> JNull
      | Some raw \<Rightarrow> (case json_loads raw of Some (JObj d) \<Rightarrow> JObj d | _ \<Rightarrow> JNull))"

text \<open>The file tree after the write, and the read-back document or the refusal.\<close>

definition refresh_router_config ::
  "path \<Rightarrow> string \<Rightarrow> int \<Rightarrow> string \<Rightarrow> int \<Rightarrow> int \<Rightarrow> path \<Rightarrow> fs \<Rightarrow> fs \<times> (wiring_error, jobj) res" where
  "refresh_router_config p listen_host listen_port upstream_host upstream_port slots base t =
     (case bindE (generate_router_config listen_host listen_port upstream_host upstream_port slots base)
             (\<lambda>generated. merge_router_config (load_existing t p) generated False) of
        Inl e \<Rightarrow> (t, Inl e)
      | Inr merged \<Rightarrow>
          (let t = fs_mkdir (path_parent p) t;
               t = fs_write p (json_dumps_indent (JObj merged) @ [CHR 0x0A]) t
           in (t,
               case fs_read t p of
                 None \<Rightarrow> Inl (UnreadableAfterWrite p)
               | Some raw \<Rightarrow>
                   (case json_loads raw of
                      None \<Rightarrow> Inl (UnreadableAfterWrite p)
                    | Some (JObj handed) \<Rightarrow> bindE (verify_router_admission handed slots) (\<lambda>_. Inr handed)
                    | Some _ \<Rightarrow> Inl (NotObjectAfterWrite p)))))"

section \<open>The opencode configuration\<close>

definition load_fragment :: "path \<Rightarrow> fs \<Rightarrow> (wiring_error, jobj) res" where
  "load_fragment root t =
     (let p = path_join root FRAGMENT_RELPATH in
      case fs_read t p of
        None \<Rightarrow> Inl (FragmentUnreadable p)
      | Some raw \<Rightarrow>
          (case json_loads raw of
             None \<Rightarrow> Inl (FragmentNotJson p)
           | Some (JObj d) \<Rightarrow> Inr d
           | Some _ \<Rightarrow> Inl (FragmentNotObject p)))"

fun substitute_harness_root :: "string \<Rightarrow> json \<Rightarrow> json" where
  "substitute_harness_root text_root (JObj d) =
     JObj (map (\<lambda>p. (fst p, substitute_harness_root text_root (snd p))) d)"
| "substitute_harness_root text_root (JArr xs) = JArr (map (substitute_harness_root text_root) xs)"
| "substitute_harness_root text_root (JStr s) = JStr (str_replace HARNESS_ROOT_TOKEN text_root s)"
| "substitute_harness_root text_root j = j"

definition merge_opencode_fragment :: "jobj \<Rightarrow> jobj \<Rightarrow> jobj" where
  "merge_opencode_fragment base fragment = deep_merge base fragment"

text \<open>\<open>re.compile(r"\{file:([^}]+)\}").findall\<close>\<close>

function find_file_refs :: "string \<Rightarrow> string list" where
  "find_file_refs s =
     (case s of [] \<Rightarrow> []
      | c # s' \<Rightarrow>
          (let r = drop 6 s; ref = takeWhile (\<lambda>x. x \<noteq> CHR ''}'') r; rest = dropWhile (\<lambda>x. x \<noteq> CHR ''}'') r in
           if starts_with s ''{file:'' \<and> ref \<noteq> [] \<and> rest \<noteq> [] then ref # find_file_refs (tl rest)
           else find_file_refs s'))"
  by pat_completeness auto
termination
proof (relation "measure length", goal_cases)
  case (2 s c s' r ref rest)
  have "length rest \<le> length r" using 2(4) by (simp add: length_dropWhile_le)
  also have "\<dots> \<le> length s" using 2(2) by simp
  finally show ?case using 2 by (cases rest) auto
qed auto

declare find_file_refs.simps [simp del]

definition absolute_ref :: "path \<Rightarrow> string \<Rightarrow> string" where
  "absolute_ref root reference =
     (if is_abs (path_of reference) then path_str (path_of reference) else path_str (path_join root reference))"

fun referenced_paths :: "path \<Rightarrow> string option \<Rightarrow> json \<Rightarrow> string list" where
  "referenced_paths root key (JObj d) = concat (map (\<lambda>p. referenced_paths root (Some (fst p)) (snd p)) d)"
| "referenced_paths root key (JArr xs) = concat (map (referenced_paths root key) xs)"
| "referenced_paths root key (JStr s) =
     map (\<lambda>r. absolute_ref root (strip r)) (find_file_refs s) @
     (if key = Some ''plugin'' \<and> starts_with s ''/'' then [absolute_ref root s] else [])"
| "referenced_paths root key _ = []"

definition verify_file_references :: "path \<Rightarrow> fs \<Rightarrow> jobj \<Rightarrow> (wiring_error, unit) res" where
  "verify_file_references root t config =
     (let missing = dedup (filter (\<lambda>r. \<not> fs_is_file t (path_of r)) (referenced_paths root None (JObj config))) in
      if missing = [] then Inr () else Inl (MissingReferences missing))"

text \<open>The fragment's agent definitions replace the merged ones outright.\<close>

definition replace_agents :: "jobj \<Rightarrow> jobj \<Rightarrow> jobj" where
  "replace_agents resolved config =
     (case (dget resolved ''agent'', dget config ''agent'') of
        (Some (JObj fragment_agents), Some (JObj merged_agents)) \<Rightarrow>
          dset ''agent'' (JObj (foldl (\<lambda>d (name, entry). dset name entry d) merged_agents fragment_agents)) config
      | _ \<Rightarrow> config)"

definition limit_model :: "jobj \<Rightarrow> json \<Rightarrow> json" where
  "limit_model limit entry = JObj (dset ''limit'' (JObj limit) (case entry of JObj e \<Rightarrow> e | _ \<Rightarrow> []))"

definition point_provider :: "string \<Rightarrow> jobj \<Rightarrow> jobj \<Rightarrow> jobj" where
  "point_provider base_url limit provider =
     (let options = (case jget provider ''options'' of JObj o' \<Rightarrow> o' | _ \<Rightarrow> []);
          provider = dset ''options'' (JObj (dset ''baseURL'' (JStr base_url) options)) provider
      in case dget provider ''models'' of
           Some (JObj models) \<Rightarrow>
             dset ''models'' (JObj (map (\<lambda>p. (fst p, limit_model limit (snd p))) models)) provider
         | _ \<Rightarrow> provider)"

text \<open>\<open>(config.get("provider") or {}).get(PROVIDER_ID)\<close>, and the changes to the block found there.\<close>

definition point_config :: "string \<Rightarrow> jobj \<Rightarrow> jobj \<Rightarrow> (wiring_error, jobj) res" where
  "point_config base_url limit config =
     (let providers = jget config ''provider'' in
      if \<not> truthy providers then Inr config
      else
        (case providers of
           JObj ps \<Rightarrow>
             (case dget ps PROVIDER_ID of
                Some (JObj provider) \<Rightarrow>
                  Inr (dset ''provider'' (JObj (dset PROVIDER_ID (JObj (point_provider base_url limit provider)) ps)) config)
              | _ \<Rightarrow> Inr config)
         | _ \<Rightarrow> Inl (NoGetAttribute providers)))"

definition apply_conductor_wiring ::
  "jobj \<Rightarrow> string \<Rightarrow> path \<Rightarrow> jobj option \<Rightarrow> json option \<Rightarrow> fs \<Rightarrow> (wiring_error, jobj) res" where
  "apply_conductor_wiring base base_url where' fragment per_slot_ctx t =
     bindE (case fragment of None \<Rightarrow> load_fragment where' t | Some f \<Rightarrow> Inr f) (\<lambda>raw.
       case substitute_harness_root (path_str where') (JObj raw) of
         JObj resolved \<Rightarrow>
           (let config = replace_agents resolved (merge_opencode_fragment base resolved) in
            bindE (opencode_model_limit
                     (case per_slot_ctx of None \<Rightarrow> JInt PER_SLOT_CONTEXT_TOKENS | Some c \<Rightarrow> c)) (\<lambda>limit.
            bindE (point_config base_url limit config) (\<lambda>config.
              let config = dset ''autoupdate'' (JBool False) config in
              bindE (verify_file_references where' t config) (\<lambda>_. Inr config))))
       | other \<Rightarrow> Inl (NoGetAttribute other))"

end
