(* ===== verification/Wiring_Config_Laws.thy ===== *)
theory Wiring_Config_Laws
  imports Wiring_Config Text_Store
begin

text \<open>
  What the configuration half promises: the window left to a session is most of its slot,
  a merged router configuration has the generated value at every machine key and the hand
  edit everywhere else, and a refreshed file reads back as the document that was admitted.
\<close>

section \<open>Slots and windows\<close>

lemma derive_slots_int: "derive_slots (JInt n) = Inr (max n 1)"
  by (simp add: derive_slots_def max_def)

lemma derive_slots_Inr: "derive_slots j = Inr n \<Longrightarrow> n \<ge> 1"
  by (auto simp: derive_slots_def split: option.splits if_splits)

lemma usable_window_eq:
  "0 < n \<Longrightarrow> opencode_usable_window (JInt n) =
     Inr (n - min 20000 (if n < 4 then 32000 else min (n div 4) 32000))"
  by (auto simp: opencode_usable_window_def opencode_model_limit_def limit_int_def jget_def
      wiring_consts Let_def min_def)

text \<open>at every slot of four tokens or more, the window opencode lets a session fill before it
  compacts keeps at least three quarters of the slot, is at most 20000 tokens short of it,
  and is strictly inside it.\<close>

theorem usable_window_bounds:
  assumes "4 \<le> n"
  shows "\<exists>w. opencode_usable_window (JInt n) = Inr w \<and> 3 * n \<le> 4 * w \<and> n - 20000 \<le> w \<and> w < n"
proof -
  have "n - min 20000 (min (n div 4) 32000) < n" using assms by (auto simp: min_def)
  moreover have "3 * n \<le> 4 * (n - min 20000 (min (n div 4) 32000))" using assms unfolding min_def by presburger
  ultimately show ?thesis using assms by (auto simp: usable_window_eq)
qed

theorem usable_window_bounds_witness:
  "\<exists>w. opencode_usable_window (JInt 65536) = Inr w \<and> 3 * 65536 \<le> 4 * w \<and> 65536 - 20000 \<le> w \<and> w < 65536"
  using usable_window_bounds [of 65536] by simp

text \<open>the server's total context is the per-slot window times the slots the router admits,
  whenever a total is passed at all; one slot without an explicit window passes none.\<close>

theorem parallel_server_args_budget:
  "parallel_server_args (JInt n) ctx =
     Inr ([''--parallel'', str_int (max n 1)] @
       (if n \<le> 1 \<and> ctx = None then []
        else [''--ctx-size'', str_int ((case ctx of None \<Rightarrow> 65536 | Some c \<Rightarrow> c) * max n 1), ''--cache-ram'', str_int 4096]))"
proof -
  have "str_int k \<noteq> ''--ctx-size''" for k
    using str_int_chars [of "CHR ''c''" k] by (auto simp: is_digit_def)
  then show ?thesis
    by (cases "n > 1"; cases ctx)
      (simp_all add: parallel_server_args_def derive_slots_int wiring_consts Let_def max_def
        not_sym [OF \<open>str_int _ \<noteq> _\<close>])
qed

section \<open>Machine keys\<close>

lemma diverge_sym: "diverge p q \<Longrightarrow> diverge q p"
  by (induction p q rule: diverge.induct) auto

lemma set_machine_key_Inr:
  "set_machine_key g m p = Inr m' \<longleftrightarrow> (\<exists>v. get_path (JObj g) p = Some v \<and> m' = set_path m p v)"
  by (auto simp: set_machine_key_def split: option.splits)

lemma machine_keys_other:
  "foldE (set_machine_key g) m ks = Inr m' \<Longrightarrow> (\<forall>p \<in> set ks. diverge p q) \<Longrightarrow>
   get_path (JObj m) q = Some x \<Longrightarrow> get_path (JObj m') q = Some x"
  by (induction ks arbitrary: m) (auto simp: err_simps set_machine_key_Inr get_set_path_other)

lemma machine_keys_set:
  "foldE (set_machine_key g) m ks = Inr m' \<Longrightarrow> sorted_wrt diverge ks \<Longrightarrow> [] \<notin> set ks \<Longrightarrow>
   p \<in> set ks \<Longrightarrow> get_path (JObj m') p = get_path (JObj g) p"
proof (induction ks arbitrary: m)
  case (Cons k ks)
  from Cons.prems(1) obtain v where v: "get_path (JObj g) k = Some v"
    and m': "foldE (set_machine_key g) (set_path m k v) ks = Inr m'"
    by (auto simp: err_simps set_machine_key_Inr)
  show ?case
  proof (cases "p \<in> set ks")
    case True
    then show ?thesis using Cons.IH [OF m'] Cons.prems by simp
  next
    case False
    then have p: "p = k" using Cons.prems by simp
    have "\<forall>q \<in> set ks. diverge q k" using Cons.prems(2) diverge_sym by auto
    moreover have "get_path (JObj (set_path m k v)) k = Some v"
      using Cons.prems(3) by (intro get_set_path_same) auto
    ultimately show ?thesis using machine_keys_other [OF m'] v p by simp
  qed
qed simp

lemma machine_keys_total:
  "(\<forall>p \<in> set ks. get_path (JObj g) p \<noteq> None) \<Longrightarrow> \<exists>m'. foldE (set_machine_key g) m ks = Inr m'"
  by (induction ks arbitrary: m) (auto simp: set_machine_key_def)

lemma ROUTER_MACHINE_KEYS_diverge: "sorted_wrt diverge ROUTER_MACHINE_KEYS" "[] \<notin> set ROUTER_MACHINE_KEYS"
  by (simp_all add: ROUTER_MACHINE_KEYS_def)

lemma generated_Inr:
  "\<exists>g. generate_router_config lh lp uh up n base = Inr g \<and> g \<noteq> [] \<and> plain_json (JObj g) \<and>
       (\<forall>p \<in> set ROUTER_MACHINE_KEYS. \<exists>v. get_path (JObj g) p = Some v \<and> \<not> is_obj v \<and> plain_json v) \<and>
       get_path (JObj g) [''admission'', ''maxInflightPerModel''] = Some (JInt (max n 1)) \<and>
       get_path (JObj g) [''admission'', ''queueTimeoutMs''] = Some (JInt 7200000)"
  by (simp add: generate_router_config_def derive_slots_int plain_json_def ROUTER_MACHINE_KEYS_def
      ROUTER_QUEUE_TIMEOUT_MS_def)

lemma machine_keys_plain:
  "foldE (set_machine_key g) m ks = Inr m' \<Longrightarrow> plain_json (JObj m) \<Longrightarrow>
   (\<forall>p \<in> set ks. \<forall>v. get_path (JObj g) p = Some v \<longrightarrow> plain_json v) \<Longrightarrow> plain_json (JObj m')"
  unfolding plain_json_def
  by (erule foldE_invariant)
    (auto simp: set_machine_key_Inr simp del: json_ok.simps float_free.simps
      intro: set_path_json_ok set_path_float_free)

lemma merge_router_machine_keys_aux:
  assumes "generate_router_config lh lp uh up n base = Inr g"
  shows "\<exists>m. merge_router_config existing g fresh = Inr m \<and>
           (\<forall>p \<in> set ROUTER_MACHINE_KEYS. get_path (JObj m) p = get_path (JObj g) p)"
proof (cases "\<exists>ex. existing = JObj ex \<and> \<not> fresh \<and> ex \<noteq> []")
  case True
  then obtain ex where ex: "existing = JObj ex" "\<not> fresh" "ex \<noteq> []" by blast
  have "\<forall>p \<in> set ROUTER_MACHINE_KEYS. get_path (JObj g) p \<noteq> None"
    using generated_Inr [of lh lp uh up n base] assms by auto
  then obtain m where "foldE (set_machine_key g) (deep_merge g ex) ROUTER_MACHINE_KEYS = Inr m"
    using machine_keys_total by blast
  then show ?thesis
    using ex machine_keys_set ROUTER_MACHINE_KEYS_diverge by (auto simp: merge_router_config_def)
next
  case False
  then show ?thesis by (cases existing) (auto simp: merge_router_config_def)
qed

text \<open>a merge over the generated configuration always returns, and the result has the generated
  value at every machine key whatever the file on disk held.\<close>

theorem merge_router_machine_keys:
  assumes "generate_router_config lh lp uh up n base = Inr g"
  shows "\<exists>m. merge_router_config existing g fresh = Inr m \<and>
           (\<forall>p \<in> set ROUTER_MACHINE_KEYS. get_path (JObj m) p = get_path (JObj g) p)"
  using assms by (rule merge_router_machine_keys_aux)

theorem merge_router_machine_keys_witness:
  "\<exists>g m. generate_router_config ''127.0.0.1'' 8088 ''127.0.0.1'' 8080 6 (Path ''/'' [''srv'']) = Inr g \<and>
     merge_router_config (JObj [(''admission'', JObj [(''maxInflightPerModel'', JInt 99)])]) g False = Inr m \<and>
     get_path (JObj m) [''admission'', ''maxInflightPerModel''] = Some (JInt 6)"
proof -
  obtain g where g: "generate_router_config ''127.0.0.1'' 8088 ''127.0.0.1'' 8080 6 (Path ''/'' [''srv'']) = Inr g"
    "get_path (JObj g) [''admission'', ''maxInflightPerModel''] = Some (JInt 6)"
    using generated_Inr [of "''127.0.0.1''" 8088 "''127.0.0.1''" 8080 6 "Path ''/'' [''srv'']"] by auto
  then show ?thesis
    using merge_router_machine_keys [OF g(1), of "JObj [(''admission'', JObj [(''maxInflightPerModel'', JInt 99)])]" False]
    by (auto simp: ROUTER_MACHINE_KEYS_def)
qed

text \<open>a hand edit at any path that is neither a machine key nor above or below one survives
  the merge, whatever else the file held.\<close>

theorem merge_router_keeps_hand_edits:
  assumes "generate_router_config lh lp uh up n base = Inr g"
    and "merge_router_config (JObj ex) g False = Inr m"
    and "json_ok (JObj ex)" "get_path (JObj ex) q = Some x" "\<not> is_obj x"
    and "\<forall>p \<in> set ROUTER_MACHINE_KEYS. diverge p q"
  shows "get_path (JObj m) q = Some x"
proof -
  have "ex \<noteq> []" using assms(4,5) by (cases q) auto
  then have "foldE (set_machine_key g) (deep_merge g ex) ROUTER_MACHINE_KEYS = Inr m"
    using assms(2) by (simp add: merge_router_config_def)
  moreover have "get_path (JObj (deep_merge g ex)) q = Some x"
    using assms(3-5) by (rule get_path_deep_merge)
  ultimately show ?thesis using assms(6) machine_keys_other by blast
qed

theorem merge_router_keeps_hand_edits_witness:
  "\<exists>g m. generate_router_config ''h'' 1 ''u'' 2 6 (Path ''/'' [''srv'']) = Inr g \<and>
     merge_router_config (JObj [(''logging'', JObj [(''level'', JStr ''debug'')])]) g False = Inr m \<and>
     get_path (JObj m) [''logging'', ''level''] = Some (JStr ''debug'')"
proof -
  let ?ex = "[(''logging'', JObj [(''level'', JStr ''debug'')])]"
  obtain g m where g: "generate_router_config ''h'' 1 ''u'' 2 6 (Path ''/'' [''srv'']) = Inr g"
    and m: "merge_router_config (JObj ?ex) g False = Inr m"
    by (simp add: generate_router_config_def derive_slots_int merge_router_config_def
        ROUTER_MACHINE_KEYS_def set_machine_key_def)
  have "get_path (JObj m) [''logging'', ''level''] = Some (JStr ''debug'')"
    by (rule merge_router_keeps_hand_edits [OF g m]) (simp_all add: ROUTER_MACHINE_KEYS_def)
  then show ?thesis using g m by blast
qed

section \<open>The file\<close>

lemma load_existing_ok: "json_ok (load_existing t p)"
  by (auto simp: load_existing_def simp del: json_ok.simps split: option.splits json.splits dest: json_loads_ok)
    (simp_all)

lemma merged_plain:
  assumes g: "generate_router_config lh lp uh up n base = Inr g"
    and m: "merge_router_config existing g False = Inr m" and e: "plain_json existing"
  shows "plain_json (JObj m)"
proof -
  have pg: "plain_json (JObj g)"
    and pk: "\<forall>p \<in> set ROUTER_MACHINE_KEYS. \<forall>v. get_path (JObj g) p = Some v \<longrightarrow> plain_json v"
    using generated_Inr [of lh lp uh up n base] g by auto
  show ?thesis
  proof (cases "\<exists>ex. existing = JObj ex \<and> ex \<noteq> []")
    case True
    then obtain ex where ex: "existing = JObj ex" "ex \<noteq> []" by blast
    have "plain_json (JObj (deep_merge g ex))"
      using pg e deep_merge_json_ok deep_merge_float_free by (auto simp: plain_json_def ex(1) simp del: json_ok.simps float_free.simps)
    then show ?thesis using m ex pk machine_keys_plain by (auto simp: merge_router_config_def)
  next
    case False
    then show ?thesis using m pg by (cases existing) (auto simp: merge_router_config_def)
  qed
qed

lemma get_path_two:
  "get_path (JObj m) [k, l] = Some v \<Longrightarrow> \<exists>a. dget m k = Some (JObj a) \<and> dget a l = Some v"
  by (auto split: option.splits elim!: get_path.elims)

lemma verify_admission_machine:
  assumes "get_path (JObj m) [''admission'', ''maxInflightPerModel''] = Some (JInt (max n 1))"
    and "get_path (JObj m) [''admission'', ''queueTimeoutMs''] = Some (JInt 7200000)"
  shows "verify_router_admission m n = Inr ()"
  using get_path_two [OF assms(1)] get_path_two [OF assms(2)]
  by (auto simp: verify_router_admission_def jget_def derive_slots_int ROUTER_QUEUE_TIMEOUT_MS_def Let_def)

text \<open>C34: refreshing the router file never refuses when the file on disk holds no decimal number:
  it writes one document, returns exactly that document read back, the document passes the
  admission check and has the run's generated value at every machine key, and no other file
  changes.\<close>

theorem refresh_router_config_admits:
  assumes "float_free (load_existing t p)"
  shows "\<exists>t' m g. refresh_router_config p lh lp uh up n base t = (t', Inr m) \<and>
     generate_router_config lh lp uh up n base = Inr g \<and>
     load_existing t' p = JObj m \<and> verify_router_admission m n = Inr () \<and>
     (\<forall>k \<in> set ROUTER_MACHINE_KEYS. get_path (JObj m) k = get_path (JObj g) k) \<and>
     (\<forall>q. q \<noteq> p \<longrightarrow> fs_read t' q = fs_read t q)"
proof -
  obtain g where g: "generate_router_config lh lp uh up n base = Inr g"
    and adm: "get_path (JObj g) [''admission'', ''maxInflightPerModel''] = Some (JInt (max n 1))"
      "get_path (JObj g) [''admission'', ''queueTimeoutMs''] = Some (JInt 7200000)"
    using generated_Inr [of lh lp uh up n base] by blast
  obtain m where m: "merge_router_config (load_existing t p) g False = Inr m"
    and mk: "\<forall>k \<in> set ROUTER_MACHINE_KEYS. get_path (JObj m) k = get_path (JObj g) k"
    using merge_router_machine_keys_aux [OF g] by blast
  have "plain_json (JObj m)"
    using merged_plain [OF g m] assms load_existing_ok by (simp add: plain_json_def)
  then have rd: "json_loads (json_dumps_indent (JObj m) @ [CHR 0x0A]) = Some (JObj m)"
    using doc.dec_enc by (simp add: json_file_def)
  have v: "verify_router_admission m n = Inr ()"
    using mk adm by (intro verify_admission_machine) (simp_all add: ROUTER_MACHINE_KEYS_def)
  show ?thesis
    using g m mk rd v
    by (auto simp: refresh_router_config_def load_existing_def Let_def)
qed

theorem refresh_router_config_admits_witness:
  "\<exists>t' m. refresh_router_config (path_of ''/srv/router.json'') ''h'' 1 ''u'' 2 6 (path_of ''/srv'')
     [(path_of ''/srv/router.json'', NFile (json_file (JObj [(''admission'', JObj [(''maxInflightPerModel'', JInt 99)])])))]
     = (t', Inr m) \<and> verify_router_admission m 6 = Inr ()"
proof -
  let ?j = "JObj [(''admission'', JObj [(''maxInflightPerModel'', JInt 99)])]"
  have "json_loads (json_file ?j) = Some ?j"
    by (rule doc.dec_enc) (simp add: plain_json_def)
  then have "float_free (load_existing [(path_of ''/srv/router.json'', NFile (json_file ?j))] (path_of ''/srv/router.json''))"
    by (simp add: load_existing_def fs_read_def)
  from refresh_router_config_admits [OF this] show ?thesis by blast
qed

end
