(* ===== verification/Wiring_Apply.thy ===== *)
theory Wiring_Apply
  imports Wiring_Config Text_Store
begin

text \<open>
  What the opencode half promises: no harness-root token survives the substitution, and the
  whole wiring is idempotent. The idempotence is proved valuewise: a change of an object
  that acts on each key by itself (\<open>acts\<close>) is stable under a second overlay when the action
  on each key is.
\<close>

section \<open>The harness root\<close>

lemma str_in_append_new:
  assumes "CHR ''/'' \<notin> set old" "CHR ''$'' \<notin> set new" "new = CHR ''/'' # w" "old = CHR ''$'' # u"
  shows "starts_with (new @ s) old \<Longrightarrow> False"
  using assms by (auto simp: starts_with_def)

lemma starts_with_replace:
  assumes old: "CHR ''/'' \<notin> set old" and new: "new = CHR ''/'' # w"
    and u: "CHR ''/'' \<notin> set u"
  shows "starts_with (str_replace old new s) u \<Longrightarrow> starts_with s u"
  using u
proof (induction s arbitrary: u)
  case (Cons c s)
  show ?case
  proof (cases u)
    case Nil
    then show ?thesis by (simp add: starts_with_def)
  next
    case (Cons d u')
    show ?thesis
    proof (cases "old \<noteq> [] \<and> starts_with (c # s) old")
      case True
      then show ?thesis
        using Cons.prems new by (simp add: str_replace_Cons starts_with_def Cons)
    next
      case False
      then have "starts_with (str_replace old new s) u'" "c = d"
        using Cons.prems by (auto simp: str_replace_Cons starts_with_def Cons)
      then show ?thesis using Cons.IH [of u'] Cons.prems by (simp add: starts_with_def Cons)
    qed
  qed
qed simp

lemma str_in_no_dollar:
  "CHR ''$'' \<notin> set new \<Longrightarrow> str_in (CHR ''$'' # u) (new @ s) \<Longrightarrow> str_in (CHR ''$'' # u) s"
  by (induction new) (auto simp: starts_with_def)

lemma replace_leaves_none:
  assumes old: "old = CHR ''$'' # u" "CHR ''/'' \<notin> set old"
    and new: "new = CHR ''/'' # w" "CHR ''$'' \<notin> set new"
  shows "\<not> str_in old (str_replace old new s)"
proof (induction s rule: length_induct)
  case (1 s)
  show ?case
  proof (cases s)
    case Nil
    then show ?thesis using old by simp
  next
    case (Cons c s')
    show ?thesis
    proof (cases "starts_with s old")
      case True
      have "length (drop (length old) s) < length s" using Cons old by simp
      then have "\<not> str_in old (str_replace old new (drop (length old) s))" using 1 by blast
      then show ?thesis
        using True str_in_no_dollar [OF new(2)] old(1) by (auto simp: Cons str_replace_Cons)
    next
      case False
      have "\<not> starts_with (str_replace old new s) old"
        using False starts_with_replace [OF old(2) new(1) old(2)] by blast
      moreover have "\<not> str_in old (str_replace old new s')" using 1 Cons by simp
      ultimately show ?thesis using False by (simp add: Cons str_replace_Cons)
    qed
  qed
qed

fun all_strings :: "(string \<Rightarrow> bool) \<Rightarrow> json \<Rightarrow> bool" where
  "all_strings P (JObj d) = (\<forall>p \<in> set d. all_strings P (snd p))"
| "all_strings P (JArr xs) = (\<forall>x \<in> set xs. all_strings P x)"
| "all_strings P (JStr s) = P s"
| "all_strings P _ = True"

text \<open>with an absolute harness root that holds no dollar sign, no string at any depth of the
  substituted document still holds the harness-root token.\<close>

theorem substitute_leaves_no_token:
  assumes "text_root = CHR ''/'' # w" "CHR ''$'' \<notin> set text_root"
  shows "all_strings (\<lambda>s. \<not> str_in HARNESS_ROOT_TOKEN s) (substitute_harness_root text_root j)"
proof (induction j)
  case (JStr s)
  have "\<not> str_in HARNESS_ROOT_TOKEN (str_replace HARNESS_ROOT_TOKEN text_root s)"
    by (rule replace_leaves_none [OF _ _ assms]) (simp_all add: HARNESS_ROOT_TOKEN_def)
  then show ?case by simp
next
  case (JObj d)
  then show ?case by (force simp: snds.simps)
qed (auto simp: HARNESS_ROOT_TOKEN_def)

theorem substitute_leaves_no_token_witness:
  "all_strings (\<lambda>s. \<not> str_in HARNESS_ROOT_TOKEN s)
     (substitute_harness_root ''/srv/leash'' (JArr [JStr ''file://${LLAMA_HARNESS_ROOT}/conductor/x.ts'']))"
  by (rule substitute_leaves_no_token [of _ "''srv/leash''"]) simp_all

lemma json_ok_map_values:
  "json_ok (JObj d) \<Longrightarrow> (\<And>p. p \<in> set d \<Longrightarrow> json_ok (f (snd p))) \<Longrightarrow>
   json_ok (JObj (map (\<lambda>p. (fst p, f (snd p))) d))"
  by (auto simp: dict_ok_def comp_def)

lemma substitute_json_ok: "json_ok j \<Longrightarrow> json_ok (substitute_harness_root r j)"
proof (induction j)
  case (JObj d)
  have "json_ok (JObj (map (\<lambda>p. (fst p, substitute_harness_root r (snd p))) d))"
    by (rule json_ok_map_values [OF JObj.prems]) (use JObj in \<open>auto simp: snds.simps\<close>)
  then show ?case by simp
qed auto

section \<open>Changes that act on each key by itself\<close>

definition ok_opt :: "json option \<Rightarrow> bool" where
  "ok_opt x = (\<forall>w. x = Some w \<longrightarrow> json_ok w)"

lemma ok_opt_simps [simp]: "ok_opt None" "ok_opt (Some w) = json_ok w"
  by (simp_all add: ok_opt_def)

definition acts :: "(jobj \<Rightarrow> jobj) \<Rightarrow> (string \<Rightarrow> json option \<Rightarrow> json option) \<Rightarrow> bool" where
  "acts G H =
     ((\<forall>k v. H k (Some v) \<noteq> None) \<and>
      (\<forall>d. json_ok (JObj d) \<longrightarrow>
         json_ok (JObj (G d)) \<and> (\<forall>k. dget (G d) k = H k (dget d k)) \<and>
         ((\<forall>k. H k None \<noteq> None \<longrightarrow> dget d k \<noteq> None) \<longrightarrow> map fst (G d) = map fst d)))"

lemma actsD:
  assumes "acts G H" "json_ok (JObj d)"
  shows "json_ok (JObj (G d))" "dget (G d) k = H k (dget d k)"
    "(\<And>k. H k None \<noteq> None \<Longrightarrow> dget d k \<noteq> None) \<Longrightarrow> map fst (G d) = map fst d"
  using assms unfolding acts_def by blast+

lemma acts_comp:
  assumes "acts G H" "acts G' H'"
  shows "acts (\<lambda>d. G' (G d)) (\<lambda>k x. H' k (H k x))"
  unfolding acts_def
proof (intro conjI allI impI)
  fix k v
  show "H' k (H k (Some v)) \<noteq> None"
    using assms unfolding acts_def by (metis option.exhaust)
next
  fix d assume d: "json_ok (JObj d)"
  note G = actsD [OF assms(1) d]
  note G' = actsD [OF assms(2) G(1)]
  show "json_ok (JObj (G' (G d)))" by (rule G'(1))
  show "dget (G' (G d)) k = H' k (H k (dget d k))" for k by (simp add: G'(2) G(2))
  assume keys: "\<forall>k. H' k (H k None) \<noteq> None \<longrightarrow> dget d k \<noteq> None"
  have H'_some: "H' k (Some v) \<noteq> None" for k v using assms(2) by (simp add: acts_def)
  have "H k None \<noteq> None \<Longrightarrow> dget d k \<noteq> None" for k using keys H'_some by (metis option.exhaust)
  then have m: "map fst (G d) = map fst d" by (rule G(3))
  have "H' k None \<noteq> None \<Longrightarrow> dget (G d) k \<noteq> None" for k
  proof
    assume "H' k None \<noteq> None" "dget (G d) k = None"
    moreover have "fst ` set (G d) = fst ` set d" using m by (metis list.set_map)
    ultimately show False using keys G(2) [of k] by (metis in_keys_iff)
  qed
  then show "map fst (G' (G d)) = map fst d" using G'(3) m by simp
qed

text \<open>The overlay \<open>vo\<close> is \<open>None\<close> where the overlaying object has no such key.\<close>

definition over :: "json option \<Rightarrow> json option \<Rightarrow> json option" where
  "over x vo = (case vo of None \<Rightarrow> x | Some v \<Rightarrow> Some (merge_val x v))"

lemma over_simps [simp]: "over x None = x" "over x (Some v) = Some (merge_val x v)"
  by (simp_all add: over_def)

lemma over_ok: "ok_opt x \<Longrightarrow> ok_opt vo \<Longrightarrow> ok_opt (over x vo)"
  by (cases vo) (auto simp: ok_opt_def intro!: merge_val_json_ok)

definition stable :: "(json option \<Rightarrow> json option) \<Rightarrow> json option \<Rightarrow> bool" where
  "stable h vo = (\<forall>x. ok_opt x \<longrightarrow> h (over (h (over x vo)) vo) = h (over x vo))"

lemma stable_id: "ok_opt vo \<Longrightarrow> stable (\<lambda>x. x) vo"
  by (cases vo) (simp_all add: stable_def merge_val_idem)

lemma stable_const: "stable (\<lambda>x. Some v) vo"
  by (simp add: stable_def)

theorem acts_stable:
  assumes acts: "acts G H" and ov: "json_ok (JObj ov)"
    and st: "\<And>k. stable (H k) (dget ov k)" and c: "json_ok (JObj c)"
  shows "G (deep_merge (G (deep_merge c ov)) ov) = G (deep_merge c ov)"
proof -
  let ?m = "deep_merge c ov"
  let ?n = "deep_merge (G ?m) ov"
  have dov: "dict_ok ov" using ov by simp
  have m: "json_ok (JObj ?m)" using c ov by (rule deep_merge_json_ok)
  note Gm = actsD [OF acts m]
  have n: "json_ok (JObj ?n)" using Gm(1) ov by (rule deep_merge_json_ok)
  note Gn = actsD [OF acts n]
  have get_m: "dget ?m k = over (dget c k) (dget ov k)" for k
    using dov by (simp add: dget_deep_merge over_def)
  have get_n: "dget ?n k = over (H k (dget ?m k)) (dget ov k)" for k
    using dov by (simp add: dget_deep_merge over_def Gm(2) split: option.split)
  have some: "H k (Some v) \<noteq> None" for k v using acts by (simp add: acts_def)
  have in_Gm: "dget ?m k \<noteq> None \<or> H k None \<noteq> None \<Longrightarrow> dget (G ?m) k \<noteq> None" for k
    using some Gm(2) [of k] by (cases "dget ?m k") auto
  have "fst ` set ov \<subseteq> fst ` set (G ?m)"
  proof
    fix k assume "k \<in> fst ` set ov"
    then have "dget ?m k \<noteq> None" by (auto simp: get_m in_keys_iff over_def)
    then show "k \<in> fst ` set (G ?m)" using in_Gm by (simp add: in_keys_iff)
  qed
  then have kn: "map fst ?n = map fst (G ?m)" by (rule map_fst_deep_merge_old)
  have "H k None \<noteq> None \<Longrightarrow> dget ?n k \<noteq> None" for k
    using in_Gm [of k] kn by (metis in_keys_iff list.set_map)
  then have keys: "map fst (G ?n) = map fst (G ?m)" using Gn(3) kn by simp
  show ?thesis
  proof (rule dict_eqI [OF keys])
    show "dict_ok (G ?n)" using Gn(1) by simp
    show "dget (G ?n) k = dget (G ?m) k" for k
    proof -
      have "ok_opt (dget c k)" using c json_ok_get by (auto simp: ok_opt_def)
      then show ?thesis
        using st [of k] by (simp add: Gn(2) Gm(2) get_n get_m stable_def)
    qed
  qed
qed

text \<open>The same change applied inside a value: an object is changed, anything else is left.\<close>

definition inside :: "(jobj \<Rightarrow> jobj) \<Rightarrow> json option \<Rightarrow> json option" where
  "inside G x = (case x of Some (JObj d) \<Rightarrow> Some (JObj (G d)) | _ \<Rightarrow> x)"

lemma inside_simps [simp]:
  "inside G None = None" "inside G (Some (JObj d)) = Some (JObj (G d))"
  "\<not> is_obj v \<Longrightarrow> inside G (Some v) = Some v"
  by (auto simp: inside_def split: json.splits)

lemma inside_some [simp]: "inside G (Some v) \<noteq> None" "\<exists>w. inside G (Some v) = Some w"
  by (cases v; auto)+

lemma inside_not_obj: "(\<And>d. x \<noteq> Some (JObj d)) \<Longrightarrow> inside G x = x"
  by (auto simp: inside_def split: option.splits json.splits)

lemma acts_idem:
  assumes "acts G H" "\<And>k. stable (H k) None" "json_ok (JObj d)"
  shows "G (G d) = G d"
  using acts_stable [OF assms(1), of "[]" d] assms(2,3) by simp

lemma stable_inside:
  assumes acts: "acts G H" and vo: "ok_opt vo"
    and idem: "\<And>k. stable (H k) None"
    and st: "\<And>ov k. vo = Some (JObj ov) \<Longrightarrow> stable (H k) (dget ov k)"
  shows "stable (inside G) vo"
  unfolding stable_def
proof (intro allI impI)
  fix x assume x: "ok_opt x"
  note idemG = acts_idem [OF acts idem]
  show "inside G (over (inside G (over x vo)) vo) = inside G (over x vo)"
  proof (cases "\<exists>ov. vo = Some (JObj ov)")
    case True
    then obtain ov where ov: "vo = Some (JObj ov)" by blast
    have jov: "json_ok (JObj ov)" using vo by (simp add: ov)
    define c where "c = (case x of Some (JObj c) \<Rightarrow> c | _ \<Rightarrow> [])"
    have jc: "json_ok (JObj c)"
      using x by (auto simp: c_def ok_opt_def simp del: json_ok.simps(2) split: option.splits json.splits)
    have "merge_val x (JObj ov) = JObj (deep_merge c ov)"
      using jov by (auto simp: c_def split: option.splits json.splits)
    then show ?thesis
      using acts_stable [OF acts jov st [OF ov] jc] by (simp add: ov)
  next
    case False
    show ?thesis
    proof (cases vo)
      case None
      show ?thesis
      proof (cases "\<exists>d. x = Some (JObj d)")
        case True
        then show ?thesis using x idemG by (auto simp: None simp del: json_ok.simps)
      next
        case False
        then show ?thesis by (simp add: None inside_not_obj)
      qed
    next
      case (Some v)
      then have "\<not> is_obj v" using False by (cases v) auto
      then show ?thesis by (simp add: Some)
    qed
  qed
qed

text \<open>Two ways to act on each key: one key is rewritten, or every value is.\<close>

definition alter :: "string \<Rightarrow> (json option \<Rightarrow> json option) \<Rightarrow> jobj \<Rightarrow> jobj" where
  "alter k h d = (case h (dget d k) of None \<Rightarrow> d | Some v \<Rightarrow> dset k v d)"

lemma acts_alter:
  assumes some: "\<And>v. h (Some v) \<noteq> None" and ok: "\<And>x. ok_opt x \<Longrightarrow> ok_opt (h x)"
  shows "acts (alter k h) (\<lambda>l x. if l = k then h x else x)"
  unfolding acts_def
proof (intro conjI allI impI)
  fix l v show "(if l = k then h (Some v) else Some v) \<noteq> None" using some by simp
next
  fix d assume d: "json_ok (JObj d)"
  have x: "ok_opt (dget d k)" using d json_ok_get by (auto simp: ok_opt_def)
  show "json_ok (JObj (alter k h d))"
    using d ok [OF x] unfolding alter_def by (cases "h (dget d k)") (auto simp del: json_ok.simps intro: json_ok_dset)
  show "dget (alter k h d) l = (if l = k then h (dget d l) else dget d l)" for l
  proof (cases "h (dget d k)")
    case None
    then have "dget d k = None" using some by (metis option.exhaust)
    then show ?thesis using None by (simp add: alter_def)
  qed (simp add: alter_def)
  assume keys: "\<forall>l. (if l = k then h None else None) \<noteq> None \<longrightarrow> dget d l \<noteq> None"
  show "map fst (alter k h d) = map fst d"
  proof (cases "dget d k")
    case None
    then have "h None = None" using keys by (metis (full_types))
    then show ?thesis by (simp add: alter_def None)
  next
    case (Some v)
    then have "k \<in> fst ` set d" by (simp add: in_keys_iff)
    then show ?thesis by (simp add: alter_def dkeys_dset_old split: option.split)
  qed
qed

lemma acts_map:
  assumes ok: "\<And>v. json_ok v \<Longrightarrow> json_ok (f v)"
  shows "acts (map (\<lambda>p. (fst p, f (snd p)))) (\<lambda>l. map_option f)"
  unfolding acts_def
proof (intro conjI allI impI)
  fix d :: jobj assume d: "json_ok (JObj d)"
  show "json_ok (JObj (map (\<lambda>p. (fst p, f (snd p))) d))"
    using d by (intro json_ok_map_values) (auto intro: ok)
  show "dget (map (\<lambda>p. (fst p, f (snd p))) d) k = map_option f (dget d k)" for k
    by (induction d) auto
qed simp_all

text \<open>A value made into an object and changed; an absent one is made too when \<open>b\<close>.\<close>

definition forced :: "bool \<Rightarrow> (jobj \<Rightarrow> jobj) \<Rightarrow> json option \<Rightarrow> json option" where
  "forced b G x = (case x of
     None \<Rightarrow> (if b then Some (JObj (G [])) else None)
   | Some (JObj d) \<Rightarrow> Some (JObj (G d))
   | Some _ \<Rightarrow> Some (JObj (G [])))"

lemma forced_simps [simp]:
  "forced b G (Some (JObj d)) = Some (JObj (G d))"
  "\<not> is_obj v \<Longrightarrow> forced b G (Some v) = Some (JObj (G []))"
  "forced False G None = None" "forced True G None = Some (JObj (G []))"
  by (auto simp: forced_def split: json.splits)

lemma forced_some [simp]: "forced b G (Some v) \<noteq> None"
  by (cases v) auto

lemma forced_Nil:
  "(x = None \<and> \<not> b) \<or> (\<exists>d. forced b G x = Some (JObj (G d)) \<and> (ok_opt x \<longrightarrow> json_ok (JObj d)))"
proof (cases x)
  case None
  then show ?thesis by (cases b) (auto intro!: exI [of _ "[]"])
next
  case (Some v)
  show ?thesis
  proof (cases "is_obj v")
    case True
    then show ?thesis by (cases v) (auto simp: Some simp del: json_ok.simps)
  next
    case False
    then show ?thesis by (auto simp: Some intro!: exI [of _ "[]"])
  qed
qed

lemma stable_forced:
  assumes acts: "acts G H" and vo: "ok_opt vo" and st: "\<And>k vo. ok_opt vo \<Longrightarrow> stable (H k) vo"
  shows "stable (forced b G) vo"
  unfolding stable_def
proof (intro allI impI)
  fix x assume x: "ok_opt x"
  have idemG: "json_ok (JObj d) \<Longrightarrow> G (G d) = G d" for d
    using acts_idem [OF acts] st by simp
  show "forced b G (over (forced b G (over x vo)) vo) = forced b G (over x vo)"
  proof (cases vo)
    case None
    then show ?thesis using forced_Nil [of x b G] x idemG by (auto simp del: json_ok.simps)
  next
    case (Some v)
    show ?thesis
    proof (cases v)
      case (JObj ov)
      have jov: "json_ok (JObj ov)" using vo by (simp add: Some JObj)
      define c where "c = (case x of Some (JObj c) \<Rightarrow> c | _ \<Rightarrow> [])"
      have jc: "json_ok (JObj c)"
        using x by (auto simp: c_def ok_opt_def simp del: json_ok.simps(2) split: option.splits json.splits)
      have "over x vo = Some (JObj (deep_merge c ov))"
        using jov by (auto simp: Some JObj c_def split: option.splits json.splits)
      moreover have "stable (H k) (dget ov k)" for k
        using jov json_ok_get by (intro st) (auto simp: ok_opt_def)
      ultimately show ?thesis using acts_stable [OF acts jov _ jc] by (simp add: Some JObj)
    qed (simp_all add: Some)
  qed
qed

lemma ok_inside: "acts G H \<Longrightarrow> ok_opt x \<Longrightarrow> ok_opt (inside G x)"
  by (cases x; cases "the x") (auto simp del: json_ok.simps(2) dest: actsD(1))

lemma ok_forced: "acts G H \<Longrightarrow> ok_opt x \<Longrightarrow> ok_opt (forced b G x)"
  using forced_Nil [of x b G] by (auto simp del: json_ok.simps(2) dest: actsD(1))

lemma alter_inside: "alter k (inside G) d = (case dget d k of Some (JObj e) \<Rightarrow> dset k (JObj (G e)) d | _ \<Rightarrow> d)"
  by (auto simp: alter_def dset_same split: option.splits json.splits)

section \<open>The wiring as such a change\<close>

definition set_const :: "string \<Rightarrow> json \<Rightarrow> jobj \<Rightarrow> jobj" where
  "set_const k v = alter k (\<lambda>x. Some v)"

lemma set_const_eq: "set_const k v d = dset k v d"
  by (simp add: set_const_def alter_def)

lemma acts_set_const: "json_ok v \<Longrightarrow> acts (set_const k v) (\<lambda>l x. if l = k then Some v else x)"
  unfolding set_const_def by (rule acts_alter) simp_all

lemma stable_if: "(l = k \<Longrightarrow> stable h vo) \<Longrightarrow> (l \<noteq> k \<Longrightarrow> ok_opt vo) \<Longrightarrow> stable (\<lambda>x. if l = k then h x else x) vo"
  by (cases "l = k") (simp_all add: stable_id)

lemma acts_limit: "json_ok (JObj limit) \<Longrightarrow> acts (set_const ''limit'' (JObj limit)) (\<lambda>l x. if l = ''limit'' then Some (JObj limit) else x)"
  by (rule acts_set_const)

lemma limit_model_forced: "map_option (limit_model limit) = forced False (set_const ''limit'' (JObj limit))"
  by (rule ext) (auto simp: limit_model_def forced_def set_const_eq split: option.splits json.splits)

definition limit_models :: "jobj \<Rightarrow> jobj \<Rightarrow> jobj" where
  "limit_models limit = map (\<lambda>p. (fst p, limit_model limit (snd p)))"

lemma acts_limit_models:
  assumes "json_ok (JObj limit)"
  shows "acts (limit_models limit) (\<lambda>l. map_option (limit_model limit))"
  unfolding limit_models_def
proof (rule acts_map)
  fix v assume "json_ok v"
  then show "json_ok (limit_model limit v)"
    using ok_forced [OF acts_limit [OF assms], of "Some v" False]
    by (simp add: limit_model_forced [symmetric])
qed

lemma stable_limit_model:
  "json_ok (JObj limit) \<Longrightarrow> ok_opt vo \<Longrightarrow> stable (map_option (limit_model limit)) vo"
  unfolding limit_model_forced
  by (rule stable_forced [OF acts_limit]) (auto intro: stable_if stable_const)

lemma acts_options: "acts (set_const ''baseURL'' (JStr url)) (\<lambda>l x. if l = ''baseURL'' then Some (JStr url) else x)"
  by (rule acts_set_const) simp

lemma stable_options: "ok_opt vo \<Longrightarrow> stable (forced True (set_const ''baseURL'' (JStr url))) vo"
  by (rule stable_forced [OF acts_options]) (auto intro: stable_if stable_const)

lemma point_provider_alter:
  "point_provider url limit provider =
     alter ''models'' (inside (limit_models limit))
       (alter ''options'' (forced True (set_const ''baseURL'' (JStr url))) provider)"
proof -
  have "alter ''options'' (forced True (set_const ''baseURL'' (JStr url))) provider =
      dset ''options'' (JObj (dset ''baseURL'' (JStr url) (case jget provider ''options'' of JObj o' \<Rightarrow> o' | _ \<Rightarrow> []))) provider"
    by (auto simp: alter_def jget_def forced_def set_const_eq split: option.splits json.splits)
  then show ?thesis
    by (auto simp: point_provider_def Let_def alter_inside limit_models_def)
qed

definition provider_key :: "string \<Rightarrow> jobj \<Rightarrow> string \<Rightarrow> json option \<Rightarrow> json option" where
  "provider_key url limit l x =
     (if l = ''models'' then inside (limit_models limit)
        (if l = ''options'' then forced True (set_const ''baseURL'' (JStr url)) x else x)
      else (if l = ''options'' then forced True (set_const ''baseURL'' (JStr url)) x else x))"

lemma acts_provider:
  assumes "json_ok (JObj limit)"
  shows "acts (point_provider url limit) (provider_key url limit)"
proof -
  have "acts (\<lambda>d. alter ''models'' (inside (limit_models limit))
          (alter ''options'' (forced True (set_const ''baseURL'' (JStr url))) d)) (provider_key url limit)"
    unfolding provider_key_def [abs_def]
    by (rule acts_comp [OF acts_alter acts_alter])
      (auto intro: ok_forced [OF acts_options] ok_inside [OF acts_limit_models [OF assms]])
  then show ?thesis by (simp add: point_provider_alter [abs_def])
qed

lemma stable_provider:
  assumes lim: "json_ok (JObj limit)" and vo: "ok_opt vo"
  shows "stable (provider_key url limit l) vo"
proof -
  consider "l = ''models''" | "l = ''options''" | "l \<noteq> ''models''" "l \<noteq> ''options''" by blast
  then show ?thesis
  proof cases
    case 1
    then have "stable (inside (limit_models limit)) vo"
      by (intro stable_inside [OF acts_limit_models [OF lim] vo] stable_limit_model [OF lim])
        (use vo json_ok_get in \<open>auto simp: ok_opt_def\<close>)
    then show ?thesis using 1 by (simp add: provider_key_def [abs_def])
  next
    case 2
    then show ?thesis using stable_options [OF vo] by (simp add: provider_key_def [abs_def])
  next
    case 3
    then show ?thesis using stable_id [OF vo] by (simp add: provider_key_def [abs_def])
  qed
qed

definition point_provider_in :: "string \<Rightarrow> jobj \<Rightarrow> jobj \<Rightarrow> jobj" where
  "point_provider_in url limit = alter PROVIDER_ID (inside (point_provider url limit))"

lemma acts_providers:
  "json_ok (JObj limit) \<Longrightarrow>
   acts (point_provider_in url limit) (\<lambda>l x. if l = PROVIDER_ID then inside (point_provider url limit) x else x)"
  unfolding point_provider_in_def by (rule acts_alter) (auto intro: ok_inside [OF acts_provider])

lemma stable_inner_provider:
  "json_ok (JObj limit) \<Longrightarrow> ok_opt vo \<Longrightarrow> stable (inside (point_provider url limit)) vo"
  by (rule stable_inside [OF acts_provider]) (use json_ok_get in \<open>auto intro!: stable_provider simp: ok_opt_def\<close>)

lemma stable_providers:
  "json_ok (JObj limit) \<Longrightarrow> ok_opt vo \<Longrightarrow> stable (inside (point_provider_in url limit)) vo"
  by (rule stable_inside [OF acts_providers])
    (use json_ok_get in \<open>auto intro!: stable_if stable_inner_provider simp: ok_opt_def\<close>)

text \<open>The fragment's agents over the merged ones.\<close>

definition put_all :: "jobj \<Rightarrow> jobj \<Rightarrow> jobj" where
  "put_all fa d = foldl (\<lambda>d (name, entry). dset name entry d) d fa"

definition put_key :: "jobj \<Rightarrow> string \<Rightarrow> json option \<Rightarrow> json option" where
  "put_key fa k x = (case dget fa k of None \<Rightarrow> x | Some v \<Rightarrow> Some v)"

lemma map_of_rev: "dict_ok d \<Longrightarrow> map_of (rev d) = map_of d"
  by (subst map_of_inject_set) (simp_all add: dict_ok_def rev_map [symmetric])

lemma keys_put_all: "fst ` set fa \<subseteq> fst ` set d \<Longrightarrow> map fst (put_all fa d) = map fst d"
  unfolding put_all_def
proof (induction fa arbitrary: d)
  case (Cons p fa)
  obtain k v where p: "p = (k, v)" by (cases p)
  have k: "k \<in> fst ` set d" using Cons.prems by (simp add: p)
  have "fst ` set fa \<subseteq> fst ` set (dset k v d)" using Cons.prems by (simp add: p subset_insertI2)
  then show ?case using Cons.IH [of "dset k v d"] k by (simp add: p dkeys_dset_old)
qed simp

lemma acts_put_all:
  assumes fa: "json_ok (JObj fa)"
  shows "acts (put_all fa) (put_key fa)"
  unfolding acts_def
proof (intro conjI allI impI)
  show "put_key fa k (Some v) \<noteq> None" for k v by (simp add: put_key_def split: option.split)
  fix d assume d: "json_ok (JObj d)"
  show "json_ok (JObj (put_all fa d))"
    unfolding put_all_def using d fa by (intro json_ok_foldl_dset) simp_all
  show "dget (put_all fa d) k = put_key fa k (dget d k)" for k
    using fa by (simp add: put_all_def foldl_dset_get map_of_rev put_key_def)
  assume "\<forall>k. put_key fa k None \<noteq> None \<longrightarrow> dget d k \<noteq> None"
  then have "k \<in> fst ` set fa \<longrightarrow> k \<in> fst ` set d" for k
    unfolding in_keys_iff by (auto simp: put_key_def split: option.splits)
  then have "fst ` set fa \<subseteq> fst ` set d" by blast
  then show "map fst (put_all fa d) = map fst d" by (rule keys_put_all)
qed

lemma stable_put: "ok_opt vo \<Longrightarrow> dget fa k = None \<or> vo = dget fa k \<or> vo = None \<Longrightarrow> stable (put_key fa k) vo"
  by (cases "dget fa k") (simp_all add: put_key_def [abs_def] stable_id stable_const)

definition agents_of :: "jobj \<Rightarrow> json option \<Rightarrow> json option" where
  "agents_of resolved x = (case dget resolved ''agent'' of Some (JObj fa) \<Rightarrow> inside (put_all fa) x | _ \<Rightarrow> x)"

lemma replace_agents_alter: "replace_agents resolved config = alter ''agent'' (agents_of resolved) config"
proof (cases "\<exists>fa. dget resolved ''agent'' = Some (JObj fa)")
  case True
  then obtain fa where fa: "dget resolved ''agent'' = Some (JObj fa)" by blast
  then have "agents_of resolved = inside (put_all fa)" by (simp add: agents_of_def [abs_def])
  then show ?thesis
    by (simp add: replace_agents_def fa alter_inside put_all_def split: option.split json.split)
next
  case False
  then have "agents_of resolved = (\<lambda>x. x)"
    by (auto simp: agents_of_def [abs_def] split: option.splits json.splits)
  then show ?thesis
    using False by (auto simp: replace_agents_def alter_def dset_same split: option.split json.split)
qed

lemma agents_props:
  assumes "json_ok (JObj resolved)"
  shows "agents_of resolved (Some v) \<noteq> None" "ok_opt x \<Longrightarrow> ok_opt (agents_of resolved x)"
    "stable (agents_of resolved) (dget resolved ''agent'')"
proof -
  have ok: "ok_opt (dget resolved ''agent'')" using assms json_ok_get by (auto simp: ok_opt_def)
  show "agents_of resolved (Some v) \<noteq> None" by (auto simp: agents_of_def split: option.split json.split)
  have fa: "json_ok (JObj fa)" if "dget resolved ''agent'' = Some (JObj fa)" for fa
    using ok that by (simp del: json_ok.simps)
  show "ok_opt x \<Longrightarrow> ok_opt (agents_of resolved x)"
    using fa by (auto simp: agents_of_def simp del: json_ok.simps intro!: ok_inside acts_put_all split: option.split json.split)
  show "stable (agents_of resolved) (dget resolved ''agent'')"
  proof (cases "\<exists>fa. dget resolved ''agent'' = Some (JObj fa)")
    case True
    then obtain fa' where fa': "dget resolved ''agent'' = Some (JObj fa')" by blast
    have "stable (inside (put_all fa')) (Some (JObj fa'))"
      by (rule stable_inside [OF acts_put_all])
        (use fa [OF fa'] json_ok_get in \<open>auto simp: ok_opt_def intro!: stable_put simp del: json_ok.simps\<close>)
    then show ?thesis by (simp add: fa' agents_of_def [abs_def])
  next
    case False
    then have "agents_of resolved = (\<lambda>x. x)"
      by (auto simp: agents_of_def [abs_def] split: option.splits json.splits)
    then show ?thesis using stable_id [OF ok] by simp
  qed
qed

section \<open>The whole wiring\<close>

definition rewire :: "jobj \<Rightarrow> string \<Rightarrow> jobj \<Rightarrow> jobj \<Rightarrow> jobj" where
  "rewire resolved url limit d =
     set_const ''autoupdate'' (JBool False)
       (alter ''provider'' (inside (point_provider_in url limit)) (alter ''agent'' (agents_of resolved) d))"

definition rewire_key :: "jobj \<Rightarrow> string \<Rightarrow> jobj \<Rightarrow> string \<Rightarrow> json option \<Rightarrow> json option" where
  "rewire_key resolved url limit l x =
     (let x = (if l = ''agent'' then agents_of resolved x else x);
          x = (if l = ''provider'' then inside (point_provider_in url limit) x else x)
      in if l = ''autoupdate'' then Some (JBool False) else x)"

lemma acts_rewire:
  assumes "json_ok (JObj resolved)" "json_ok (JObj limit)"
  shows "acts (rewire resolved url limit) (rewire_key resolved url limit)"
  unfolding rewire_def [abs_def] rewire_key_def [abs_def] Let_def
  by (rule acts_comp [OF acts_comp [OF acts_alter acts_alter] acts_set_const])
    (auto simp: agents_props [OF assms(1)] intro: ok_inside [OF acts_providers [OF assms(2)]])

lemma stable_rewire:
  assumes "json_ok (JObj resolved)" "json_ok (JObj limit)"
  shows "stable (rewire_key resolved url limit l) (dget resolved l)"
proof -
  have ok: "ok_opt (dget resolved l)" using assms(1) json_ok_get by (auto simp: ok_opt_def)
  consider "l = ''agent''" | "l = ''provider''" | "l = ''autoupdate''"
    | "l \<noteq> ''agent''" "l \<noteq> ''provider''" "l \<noteq> ''autoupdate''" by blast
  then show ?thesis
  proof cases
    case 1
    then show ?thesis using agents_props(3) [OF assms(1)] by (simp add: rewire_key_def [abs_def])
  next
    case 2
    then show ?thesis using stable_providers [OF assms(2)] ok by (simp add: rewire_key_def [abs_def])
  next
    case 3
    then show ?thesis by (simp add: rewire_key_def [abs_def] stable_const)
  next
    case 4
    then show ?thesis using stable_id [OF ok] by (simp add: rewire_key_def [abs_def] Let_def)
  qed
qed

text \<open>The provider section is one Python would call \<open>.get\<close> on, or one it skips.\<close>

definition askable :: "json option \<Rightarrow> bool" where
  "askable x = (case x of None \<Rightarrow> True | Some v \<Rightarrow> truthy v \<longrightarrow> is_obj v)"

lemma point_config_Inr:
  "point_config url limit config = Inr c \<longleftrightarrow>
     askable (dget config ''provider'') \<and> c = alter ''provider'' (inside (point_provider_in url limit)) config"
proof (cases "dget config ''provider''")
  case None
  then show ?thesis by (auto simp: point_config_def jget_def askable_def alter_def)
next
  case (Some v)
  show ?thesis
  proof (cases v)
    case (JObj ps)
    have "(case dget ps PROVIDER_ID of
             Some (JObj provider) \<Rightarrow>
               Inr (dset ''provider'' (JObj (dset PROVIDER_ID (JObj (point_provider url limit provider)) ps)) config)
           | _ \<Rightarrow> Inr config) =
        (Inr (dset ''provider'' (JObj (point_provider_in url limit ps)) config) :: (wiring_error, jobj) res)"
      using Some JObj by (auto simp: point_provider_in_def alter_inside dset_same split: option.splits json.splits)
    moreover have "\<not> truthy v \<Longrightarrow> point_provider_in url limit ps = ps"
      by (simp add: JObj point_provider_in_def alter_def)
    ultimately show ?thesis
      using Some JObj by (auto simp: point_config_def jget_def askable_def alter_def dset_same Let_def)
  qed (auto simp: Some point_config_def jget_def askable_def alter_def dset_same Let_def)
qed

lemma askable_again:
  "askable (over x vo) \<Longrightarrow> askable (over (inside G (over x vo)) vo)"
proof (cases vo)
  case None
  assume "askable (over x vo)"
  then show ?thesis by (cases x; cases "the x") (auto simp: None askable_def)
next
  case (Some v)
  assume "askable (over x vo)"
  then show ?thesis by (cases v; cases "inside G (over x vo)"; cases "the (inside G (over x vo))") (auto simp: Some askable_def)
qed

lemma apply_Inr:
  assumes "json_ok (JObj raw)"
  shows "apply_conductor_wiring base url w (Some raw) ctx t = Inr c \<longleftrightarrow>
     (\<exists>resolved limit. substitute_harness_root (path_str w) (JObj raw) = JObj resolved \<and>
        json_ok (JObj resolved) \<and> json_ok (JObj limit) \<and>
        opencode_model_limit (case ctx of None \<Rightarrow> JInt PER_SLOT_CONTEXT_TOKENS | Some c \<Rightarrow> c) = Inr limit \<and>
        askable (dget (alter ''agent'' (agents_of resolved) (deep_merge base resolved)) ''provider'') \<and>
        c = rewire resolved url limit (deep_merge base resolved) \<and>
        verify_file_references w t c = Inr ())"
proof -
  have lim: "opencode_model_limit j = Inr limit \<Longrightarrow> json_ok (JObj limit)" for j limit
    by (auto simp: opencode_model_limit_def split: option.splits if_splits)
  obtain resolved where r: "substitute_harness_root (path_str w) (JObj raw) = JObj resolved" by simp
  have ok: "json_ok (JObj resolved)" using substitute_json_ok [OF assms, of "path_str w"] by (simp only: r)
  show ?thesis
    using ok lim
    by (auto simp: apply_conductor_wiring_def r err_simps point_config_Inr rewire_def set_const_eq merge_opencode_fragment_def
        replace_agents_alter Let_def simp del: json_ok.simps substitute_harness_root.simps)
qed

lemma wiring_again:
  assumes base: "json_ok (JObj base)" and raw: "json_ok (JObj raw)"
    and a: "apply_conductor_wiring base url w (Some raw) ctx t = Inr c"
  shows "json_ok (JObj c) \<and> apply_conductor_wiring c url w (Some raw) ctx t = Inr c"
proof -
  from a obtain resolved limit where
    r: "substitute_harness_root (path_str w) (JObj raw) = JObj resolved"
    and ok: "json_ok (JObj resolved)" "json_ok (JObj limit)"
    and lim: "opencode_model_limit (case ctx of None \<Rightarrow> JInt PER_SLOT_CONTEXT_TOKENS | Some c \<Rightarrow> c) = Inr limit"
    and ask: "askable (dget (alter ''agent'' (agents_of resolved) (deep_merge base resolved)) ''provider'')"
    and c: "c = rewire resolved url limit (deep_merge base resolved)"
    and v: "verify_file_references w t c = Inr ()"
    unfolding apply_Inr [OF raw] by blast
  have acts: "acts (rewire resolved url limit) (rewire_key resolved url limit)" by (rule acts_rewire [OF ok])
  have m: "json_ok (JObj (deep_merge base resolved))" by (rule deep_merge_json_ok [OF base ok(1)])
  have again: "rewire resolved url limit (deep_merge c resolved) = c"
    unfolding c by (rule acts_stable [OF acts ok(1) stable_rewire [OF ok] base])
  have not_agent: "dget (alter ''agent'' h d) ''provider'' = dget d ''provider''" for h and d :: jobj
    by (simp add: alter_def split: option.split)
  let ?x = "dget base ''provider''" and ?vo = "dget resolved ''provider''"
  have over: "dget (deep_merge d resolved) ''provider'' = over (dget d ''provider'') ?vo" for d
    using ok(1) by (simp add: dget_deep_merge over_def)
  have "dget c ''provider'' = inside (point_provider_in url limit) (over ?x ?vo)"
    unfolding c actsD(2) [OF acts m] over by (simp add: rewire_key_def)
  then have "askable (dget (alter ''agent'' (agents_of resolved) (deep_merge c resolved)) ''provider'')"
    using ask askable_again [of ?x ?vo] by (simp add: not_agent over)
  then have "apply_conductor_wiring c url w (Some raw) ctx t = Inr c"
    unfolding apply_Inr [OF raw] using r ok lim again v by (metis (no_types, lifting))
  moreover have "json_ok (JObj c)" unfolding c by (rule actsD(1) [OF acts m])
  ultimately show ?thesis by blast
qed

text \<open>C35: the wiring is idempotent: applied to a configuration it has produced, with the same
  fragment, address, window and files, it returns that configuration unchanged, key order
  included.\<close>

theorem apply_conductor_wiring_idempotent:
  assumes "json_ok (JObj base)" "json_ok (JObj raw)"
    and "apply_conductor_wiring base url w (Some raw) ctx t = Inr c"
  shows "apply_conductor_wiring c url w (Some raw) ctx t = Inr c"
  using wiring_again [OF assms] by blast

definition demo_fragment :: jobj where
  "demo_fragment =
     [(''agent'', JObj [(''planner'', JObj [(''mode'', JStr ''primary'')])]),
      (''provider'', JObj [(''llamacpp'', JObj [(''models'', JObj [(''m'', JObj [])])])])]"

definition demo_base :: jobj where
  "demo_base = [(''agent'', JObj [(''planner'', JObj [(''write'', JBool True)])]), (''theme'', JStr ''dark'')]"

lemma demo_ok: "json_ok (JObj demo_base)" "json_ok (JObj demo_fragment)"
  by (simp_all add: demo_base_def demo_fragment_def)

lemma demo_applies:
  "\<exists>c. apply_conductor_wiring demo_base ''http://127.0.0.1:8088/v1'' (Path ''/'' [''srv'']) (Some demo_fragment) None [] = Inr c"
  by (simp add: apply_conductor_wiring_def demo_fragment_def demo_base_def replace_agents_def
      merge_opencode_fragment_def opencode_model_limit_def wiring_consts point_config_def jget_def
      point_provider_def limit_model_def verify_file_references_def find_file_refs.simps
      starts_with_def dedup_def str_replace_Cons)

theorem apply_conductor_wiring_idempotent_witness:
  "\<exists>c. apply_conductor_wiring demo_base ''http://127.0.0.1:8088/v1'' (Path ''/'' [''srv'']) (Some demo_fragment) None [] = Inr c \<and>
       apply_conductor_wiring c ''http://127.0.0.1:8088/v1'' (Path ''/'' [''srv'']) (Some demo_fragment) None [] = Inr c"
  using demo_applies apply_conductor_wiring_idempotent [OF demo_ok] by blast

text \<open>the fragment's agents are consumed verbatim: whatever the base configuration held under the
  same name, the wired configuration holds the fragment's definition, with the harness root
  substituted and nothing merged in.\<close>

theorem fragment_agents_verbatim:
  assumes "json_ok (JObj base)" "json_ok (JObj raw)"
    and "apply_conductor_wiring base url w (Some raw) ctx t = Inr c"
    and "substitute_harness_root (path_str w) (JObj raw) = JObj resolved"
    and "get_path (JObj resolved) [''agent'', name] = Some entry"
  shows "get_path (JObj c) [''agent'', name] = Some entry"
proof -
  from assms(3,4) obtain limit where ok: "json_ok (JObj resolved)" "json_ok (JObj limit)"
    and c: "c = rewire resolved url limit (deep_merge base resolved)"
    unfolding apply_Inr [OF assms(2)] by auto
  obtain fa where fa: "dget resolved ''agent'' = Some (JObj fa)" "dget fa name = Some entry"
    using assms(5) by (auto split: option.splits elim!: get_path.elims)
  have jfa: "json_ok (JObj fa)" using json_ok_get [OF ok(1) fa(1)] .
  have m: "json_ok (JObj (deep_merge base resolved))" by (rule deep_merge_json_ok [OF assms(1) ok(1)])
  have "\<exists>ma. merge_val x (JObj fa) = JObj ma" for x by (cases "(x, JObj fa)" rule: merge_val.cases) auto
  then obtain ma where ma: "dget (deep_merge base resolved) ''agent'' = Some (JObj ma)"
    using ok(1) by (simp add: dget_deep_merge fa) metis
  have "json_ok (JObj ma)" using json_ok_get [OF m ma] .
  then have "dget (put_all fa ma) name = Some entry"
    using actsD(2) [OF acts_put_all [OF jfa]] fa(2) by (simp add: put_key_def)
  moreover have "dget c ''agent'' = Some (JObj (put_all fa ma))"
    unfolding c actsD(2) [OF acts_rewire [OF ok] m] by (simp add: rewire_key_def ma agents_of_def fa)
  ultimately show ?thesis by simp
qed

theorem fragment_agents_verbatim_witness:
  "\<exists>c. apply_conductor_wiring demo_base ''http://127.0.0.1:8088/v1'' (Path ''/'' [''srv'']) (Some demo_fragment) None [] = Inr c \<and>
       get_path (JObj c) [''agent'', ''planner''] = Some (JObj [(''mode'', JStr ''primary'')])"
proof -
  obtain c where c: "apply_conductor_wiring demo_base ''http://127.0.0.1:8088/v1'' (Path ''/'' [''srv'']) (Some demo_fragment) None [] = Inr c"
    using demo_applies by blast
  have r: "substitute_harness_root (path_str (Path ''/'' [''srv''])) (JObj demo_fragment) = JObj demo_fragment"
    by (simp add: demo_fragment_def str_replace_Cons starts_with_def HARNESS_ROOT_TOKEN_def)
  have "get_path (JObj demo_fragment) [''agent'', ''planner''] = Some (JObj [(''mode'', JStr ''primary'')])"
    by (simp add: demo_fragment_def)
  from fragment_agents_verbatim [OF demo_ok c r this] c show ?thesis by blast
qed

end

