(* ===== verification/Wiring_Router.thy ===== *)
theory Wiring_Router
  imports Wiring_Config
begin

text \<open>
  \<open>scripts/conductor_wiring.py\<close>, the router half: where the binary is looked for, whether it
  is stale, the launch decision, the supervisor and its restart policy, the health wait, the
  routing decision, the exported session environment, and taking a supervisor down.

  The machine is a record: the file tree, which files are executable, modification times and
  where a path resolves to. Clock readings and durations, which the code
  has in seconds, are whole milliseconds. A loop that polls takes
  the list of what its polls observe; \<open>None\<close> is a loop still running when the list ends.
\<close>

abbreviation NL :: string where "NL \<equiv> [CHR 0x0A]"
abbreviation SQ :: char where "SQ \<equiv> CHR 0x27"

record machine =
  m_tree :: fs
  m_exec :: "path \<Rightarrow> bool"
  m_mtime :: "path \<Rightarrow> int"
  m_resolve :: "path \<Rightarrow> path"

type_synonym env = "(string, string) dict"

section \<open>Constants\<close>

definition ROUTER_LOG_RELPATH :: string where "ROUTER_LOG_RELPATH = ''.data/configs/router.log''"
definition ROUTER_BINARY_NAME :: string where "ROUTER_BINARY_NAME = ''llama-router''"
definition ROUTER_BINARY_ENV :: string where "ROUTER_BINARY_ENV = ''LLAMA_ROUTER''"
definition ROUTER_BINARY_RELPATHS :: "string list" where
  "ROUTER_BINARY_RELPATHS =
     [''.out/build/clang-relwdebinfo/llama-router'', ''.out/build/clang-release/llama-router'',
      ''.out/build/clang-debug/llama-router'', ''.data/tools/llama-router'']"
definition ROUTER_SOURCE_RELDIR :: string where "ROUTER_SOURCE_RELDIR = ''router''"
definition ROUTER_SOURCE_SUFFIXES :: "string list" where "ROUTER_SOURCE_SUFFIXES = [''.hpp'', ''.cpp'']"
definition ROUTER_TEST_RELDIR :: string where "ROUTER_TEST_RELDIR = ''router/tests''"
definition ROUTER_HEALTH_PATH :: string where "ROUTER_HEALTH_PATH = ''/conductor/health''"
definition ROUTER_READY_TIMEOUT_MS :: int where "ROUTER_READY_TIMEOUT_MS = 30000"
definition BACKOFF_BASE_MS :: int where "BACKOFF_BASE_MS = 500"
definition BACKOFF_FACTOR :: int where "BACKOFF_FACTOR = 2"
definition BACKOFF_CAP_MS :: int where "BACKOFF_CAP_MS = 30000"
definition HEALTHY_RUN_MS :: int where "HEALTHY_RUN_MS = 60000"
definition ROUTER_TERM_GRACE_MS :: int where "ROUTER_TERM_GRACE_MS = 10000"
definition FATAL_EXIT_REASONS :: "(int, string) dict" where
  "FATAL_EXIT_REASONS =
     [(2, ''llama-router rejected its command line (exit 2); its stderr names the offending flag''),
      (3, ''llama-router could not parse its config (exit 3); its stderr carries the offending field''),
      (4, ''llama-router could not bind its listen address (exit 4); its stderr carries host:port'')]"

lemmas backoff_consts = BACKOFF_BASE_MS_def BACKOFF_FACTOR_def BACKOFF_CAP_MS_def HEALTHY_RUN_MS_def

section \<open>Finding the binary\<close>

definition env_get :: "env \<Rightarrow> string \<Rightarrow> string" where
  "env_get env k = (case dget env k of None \<Rightarrow> [] | Some v \<Rightarrow> v)"

definition router_search_paths :: "path \<Rightarrow> env \<Rightarrow> string list" where
  "router_search_paths root_dir env =
     (let override = env_get env ROUTER_BINARY_ENV in
      (if override \<noteq> [] then [''$'' @ ROUTER_BINARY_ENV @ '' -> '' @ override] else []) @
      map (\<lambda>r. path_str (path_join root_dir r)) ROUTER_BINARY_RELPATHS @
      [ROUTER_BINARY_NAME @ '' on $PATH ('' @ env_get env ''PATH'' @ '')''])"

definition is_executable_file :: "machine \<Rightarrow> path \<Rightarrow> bool" where
  "is_executable_file m p = (fs_is_file (m_tree m) p \<and> m_exec m p)"

text \<open>\<open>os.path.join\<close> of a directory and a bare name, and \<open>shutil.which\<close> for a bare name.\<close>

definition os_join :: "string \<Rightarrow> string \<Rightarrow> string" where
  "os_join d name = (if d = [] \<or> last d = CHR ''/'' then d @ name else d @ ''/'' @ name)"

definition which :: "machine \<Rightarrow> string \<Rightarrow> string \<Rightarrow> string option" where
  "which m name search =
     (if search = [] then None
      else find (\<lambda>c. is_executable_file m (path_of c)) (map (\<lambda>d. os_join d name) (str_split (CHR '':'') search)))"

definition find_router_binary :: "machine \<Rightarrow> path \<Rightarrow> env \<Rightarrow> path option" where
  "find_router_binary m root_dir env =
     (let override = env_get env ROUTER_BINARY_ENV in
      if override \<noteq> [] \<and> is_executable_file m (path_of override) then Some (path_of override)
      else
        (case find (is_executable_file m) (map (path_join root_dir) ROUTER_BINARY_RELPATHS) of
           Some candidate \<Rightarrow> Some candidate
         | None \<Rightarrow> map_option path_of (which m ROUTER_BINARY_NAME (env_get env ''PATH''))))"

section \<open>Staleness\<close>

definition path_suffix :: "path \<Rightarrow> string" where
  \<comment> \<open>\<open>path.suffix\<close>: from the last dot, unless it begins or ends the name\<close>
  "path_suffix p =
     (let name = path_name p; tail = rev (takeWhile (\<lambda>c. c \<noteq> CHR ''.'') (rev name)) in
      if length tail + 1 < length name \<and> tail \<noteq> [] then CHR ''.'' # tail else [])"

definition router_sources_newer_than :: "machine \<Rightarrow> path \<Rightarrow> path \<Rightarrow> path list" where
  "router_sources_newer_than m binary root_dir =
     (if \<not> fs_is_file (m_tree m) binary then []
      else
        (let built = m_mtime m binary;
             source_root = path_join root_dir ROUTER_SOURCE_RELDIR;
             test_root = path_join root_dir ROUTER_TEST_RELDIR
         in sort (filter
              (\<lambda>p. path_suffix p \<in> set ROUTER_SOURCE_SUFFIXES \<and> fs_is_file (m_tree m) p \<and>
                   \<not> within (path_parent p) test_root \<and> m_mtime m p > built)
              (fs_below (m_tree m) source_root))))"

definition router_staleness_refusal :: "machine \<Rightarrow> path \<Rightarrow> path \<Rightarrow> string option" where
  "router_staleness_refusal m binary root_dir =
     (let newer = router_sources_newer_than m binary root_dir in
      if newer = [] then None
      else Some (ROUTER_BINARY_NAME @ '' at '' @ path_str binary @ '' was built before '' @
             str_int (int (length newer)) @ '' of its own source file(s):'' @ NL @ ''  '' @
             str_join (NL @ ''  '') (map path_str newer) @ NL @
             ''The ledger a run is scored on is written by the binary, not by the tree, so a run started here measures the older router and says nothing about the change. Rebuild it with:'' @ NL @
             ''  cmake --build .out/build/clang-relwdebinfo --target '' @ ROUTER_BINARY_NAME))"

section \<open>The launch decision\<close>

datatype action = Launch | Direct | Refuse

record preflight =
  pf_action :: action
  pf_router_enabled :: bool
  pf_notice :: string
  pf_error :: string
  pf_schema :: string

definition pf_direct :: "string \<Rightarrow> preflight" where
  "pf_direct notice = \<lparr>pf_action = Direct, pf_router_enabled = False, pf_notice = notice, pf_error = [], pf_schema = []\<rparr>"

definition pf_refuse :: "string \<Rightarrow> preflight" where
  "pf_refuse err = \<lparr>pf_action = Refuse, pf_router_enabled = False, pf_notice = [], pf_error = err, pf_schema = []\<rparr>"

definition no_shell_error :: string where
  "no_shell_error = ''--router and --no-shell cannot be combined: --no-shell replaces serve.py with llama-server, so no process survives to supervise a router and no session shell exists for it to die with.''"

definition no_shell_notice :: string where
  "no_shell_notice = ''--no-shell leaves no session shell to supervise a router; this session talks to llama-server directly.''"

definition no_binary_error :: "string list \<Rightarrow> string" where
  "no_binary_error places =
     ''--router was requested but no '' @ ROUTER_BINARY_NAME @ '' binary was found. Searched:'' @ NL @ ''  '' @
     str_join (NL @ ''  '') places @ NL @
     ''Build it with: cmake --build .out/build/clang-relwdebinfo --target '' @ ROUTER_BINARY_NAME"

definition no_binary_notice :: "string list \<Rightarrow> string" where
  "no_binary_notice places =
     ''no '' @ ROUTER_BINARY_NAME @ '' binary found in '' @ str_int (int (length places)) @
     '' searched location(s); this session talks to llama-server directly.''"

definition schema_remedy :: string where
  "schema_remedy = ''node conductor/tools/export-schemas.ts router/tests/schemas''"

definition no_schema_error :: "path \<Rightarrow> string" where
  "no_schema_error schema =
     ''--router was requested but the router schema '' @ path_str schema @ '' does not exist. Generate it with: '' @ schema_remedy"

definition no_schema_notice :: "path \<Rightarrow> string" where
  "no_schema_notice schema =
     ''the router schema '' @ path_str schema @ '' is missing (generate it with: '' @ schema_remedy @
     ''); this session talks to llama-server directly.''"

definition router_preflight ::
  "machine \<Rightarrow> path \<Rightarrow> bool option \<Rightarrow> path option \<Rightarrow> path \<Rightarrow> string list option \<Rightarrow> bool \<Rightarrow> preflight" where
  "router_preflight m repo_root flag binary schema searched no_shell =
     (if flag = Some False then pf_direct []
      else if no_shell then (if flag = Some True then pf_refuse no_shell_error else pf_direct no_shell_notice)
      else
        (case binary of
           None \<Rightarrow>
             (let places = (case searched of Some s \<Rightarrow> s
                            | None \<Rightarrow> map (\<lambda>r. path_str (path_join repo_root r)) ROUTER_BINARY_RELPATHS)
              in if flag = Some True then pf_refuse (no_binary_error places)
                 else pf_direct (no_binary_notice places))
         | Some _ \<Rightarrow>
             (if \<not> fs_is_file (m_tree m) schema then
                (if flag = Some True then pf_refuse (no_schema_error schema) else pf_direct (no_schema_notice schema))
              else \<lparr>pf_action = Launch, pf_router_enabled = True, pf_notice = [], pf_error = [],
                    pf_schema = path_str (m_resolve m schema)\<rparr>)))"

definition router_supervisor_argv :: "path \<Rightarrow> path \<Rightarrow> path \<Rightarrow> string list" where
  "router_supervisor_argv binary config_path schema_path =
     [path_str binary, ''--config'', path_str config_path, ''--schema'', path_str schema_path]"

section \<open>The restart policy\<close>

fun delay_loop :: "nat \<Rightarrow> int \<Rightarrow> int" where
  "delay_loop 0 delay = delay"
| "delay_loop (Suc n) delay = (if delay \<ge> BACKOFF_CAP_MS then delay else delay_loop n (delay * BACKOFF_FACTOR))"

definition restart_delay_ms :: "int \<Rightarrow> int" where
  "restart_delay_ms consecutive_crashes =
     (let delay = delay_loop (nat (max 0 (consecutive_crashes - 1))) BACKOFF_BASE_MS in
      if delay > BACKOFF_CAP_MS then BACKOFF_CAP_MS else delay)"

definition backoff_next :: "int \<Rightarrow> int \<Rightarrow> int \<times> int" where
  "backoff_next consecutive_crashes last_uptime_ms =
     (let crashes = (if last_uptime_ms \<ge> HEALTHY_RUN_MS then 0 else consecutive_crashes) + 1 in
      (restart_delay_ms crashes, crashes))"

record restart_verdict =
  rv_restart :: bool
  rv_fatal :: bool
  rv_message :: string

definition router_restart_decision :: "int \<Rightarrow> string \<Rightarrow> restart_verdict" where
  "router_restart_decision exit_code stderr_text =
     (if exit_code = 0 then
        \<lparr>rv_restart = False, rv_fatal = False, rv_message = ''llama-router exited cleanly (0)''\<rparr>
      else
        (case dget FATAL_EXIT_REASONS exit_code of
           Some reason \<Rightarrow> \<lparr>rv_restart = False, rv_fatal = True, rv_message = reason @ NL @ stderr_text\<rparr>
         | None \<Rightarrow>
             \<lparr>rv_restart = True, rv_fatal = False,
              rv_message = ''llama-router exited '' @ str_int exit_code @ ''; restarting after backoff'' @ NL @ stderr_text\<rparr>))"

section \<open>The supervisor\<close>

text \<open>
  The detached supervisor is a program of its own that loads the policy by path and calls
  \<open>router_restart_decision\<close> and \<open>backoff_next\<close> out of it, so its loop takes the two as
  arguments. One event is what one wait of the loop observes; \<open>sv_step\<close> is the loop body from
  that point to the next wait.
\<close>

datatype sv_event =
    ShellGone               \<comment> \<open>the shell is not alive at the head of the loop\<close>
  | SpawnFails string       \<comment> \<open>\<open>Popen\<close> raises\<close>
  | Spawned                 \<comment> \<open>the router is started\<close>
  | ShellDied               \<comment> \<open>the shell died while the router ran\<close>
  | RouterExits int int     \<comment> \<open>the router exited first: its code and uptime\<close>

datatype sv_phase = AtHead | Running | Finished

datatype sv_note =
    CannotStart string
  | GaveUp string
  | Restarting int int int int

record sv_state =
  sv_phase :: sv_phase
  sv_crashes :: int
  sv_spawns :: nat
  sv_slept :: "int list"
  sv_stopped :: bool
  sv_notes :: "sv_note list"

definition sv_init :: sv_state where
  "sv_init = \<lparr>sv_phase = AtHead, sv_crashes = 0, sv_spawns = 0, sv_slept = [], sv_stopped = False, sv_notes = []\<rparr>"

fun sv_step ::
  "(int \<Rightarrow> string \<Rightarrow> restart_verdict) \<Rightarrow> (int \<Rightarrow> int \<Rightarrow> int \<times> int) \<Rightarrow> sv_event \<Rightarrow> sv_state \<Rightarrow> sv_state option" where
  "sv_step decide backoff ShellGone s =
     (if sv_phase s = AtHead then Some (s\<lparr>sv_phase := Finished\<rparr>) else None)"
| "sv_step decide backoff (SpawnFails exc) s =
     (if sv_phase s = AtHead then Some (s\<lparr>sv_phase := Finished, sv_notes := sv_notes s @ [CannotStart exc]\<rparr>) else None)"
| "sv_step decide backoff Spawned s =
     (if sv_phase s = AtHead then Some (s\<lparr>sv_phase := Running, sv_spawns := Suc (sv_spawns s)\<rparr>) else None)"
| "sv_step decide backoff ShellDied s =
     (if sv_phase s = Running then Some (s\<lparr>sv_phase := Finished, sv_stopped := True\<rparr>) else None)"
| "sv_step decide backoff (RouterExits code uptime) s =
     (if sv_phase s = Running then
        (let verdict = decide code [] in
         if \<not> rv_restart verdict then
           Some (s\<lparr>sv_phase := Finished, sv_notes := sv_notes s @ [GaveUp (strip (rv_message verdict))]\<rparr>)
         else
           (let (delay, crashes) = backoff (sv_crashes s) uptime in
            Some (s\<lparr>sv_phase := AtHead, sv_crashes := crashes, sv_slept := sv_slept s @ [delay],
                    sv_notes := sv_notes s @ [Restarting code uptime crashes delay]\<rparr>)))
      else None)"

inductive sv_run ::
  "(int \<Rightarrow> string \<Rightarrow> restart_verdict) \<Rightarrow> (int \<Rightarrow> int \<Rightarrow> int \<times> int) \<Rightarrow> sv_event list \<Rightarrow> sv_state \<Rightarrow> bool"
  for decide backoff where
  sv_start: "sv_run decide backoff [] sv_init"
| sv_more: "sv_run decide backoff evs s \<Longrightarrow> sv_step decide backoff e s = Some s' \<Longrightarrow> sv_run decide backoff (evs @ [e]) s'"

inductive_cases sv_run_NilE: "sv_run decide backoff [] s"
inductive_cases sv_run_snocE: "sv_run decide backoff (evs @ [e]) s"

section \<open>Waiting for health, and the routing decision\<close>

text \<open>One poll: the status answered, \<open>None\<close> when the request raised, and the clock after it.\<close>

fun wait_for_router_health :: "int \<Rightarrow> (int option \<times> int) list \<Rightarrow> bool option" where
  "wait_for_router_health deadline [] = None"
| "wait_for_router_health deadline ((status, now) # polls) =
     (if status = Some 200 then Some True
      else if now \<ge> deadline then Some False
      else wait_for_router_health deadline polls)"

record routing =
  rt_router_enabled :: bool
  rt_base_url :: string
  rt_notice :: "string option"

definition some_text :: "string \<Rightarrow> string option" where
  \<comment> \<open>\<open>text or None\<close>\<close>
  "some_text s = (if s = [] then None else Some s)"

type_synonym probe = "string \<Rightarrow> int \<Rightarrow> string + bool"

definition finalize_routing :: "preflight \<Rightarrow> string \<Rightarrow> int \<Rightarrow> string \<Rightarrow> int \<Rightarrow> probe \<Rightarrow> routing" where
  "finalize_routing decision listen_host listen_port upstream_host upstream_port probe =
     (let direct = openai_base_url upstream_host upstream_port;
          where_at = ''llama-router at '' @ listen_host @ '':'' @ str_int listen_port
      in if pf_action decision \<noteq> Launch then
           \<lparr>rt_router_enabled = False, rt_base_url = direct, rt_notice = some_text (pf_notice decision)\<rparr>
         else
           (case probe listen_host listen_port of
              Inl exc \<Rightarrow>
                \<lparr>rt_router_enabled = False, rt_base_url = direct,
                 rt_notice = Some (where_at @ '' could not be reached ('' @ exc @ ''); falling back to a direct session.'')\<rparr>
            | Inr healthy \<Rightarrow>
                (if healthy then
                   \<lparr>rt_router_enabled = True, rt_base_url = openai_base_url listen_host listen_port, rt_notice = None\<rparr>
                 else
                   \<lparr>rt_router_enabled = False, rt_base_url = direct,
                    rt_notice = Some (where_at @ '' did not answer '' @ ROUTER_HEALTH_PATH @
                      '' within the readiness budget; falling back to a direct session.'')\<rparr>)))"

definition report_routing :: "preflight \<Rightarrow> string \<Rightarrow> int \<Rightarrow> string \<Rightarrow> int \<Rightarrow> probe \<Rightarrow> routing" where
  "report_routing decision listen_host listen_port upstream_host upstream_port probe =
     (let direct = openai_base_url upstream_host upstream_port;
          fallback = \<lparr>rt_router_enabled = False, rt_base_url = direct, rt_notice = some_text (pf_notice decision)\<rparr>
      in if pf_action decision = Direct \<and> \<not> pf_router_enabled decision then fallback
         else if probe listen_host listen_port = Inr True then
           \<lparr>rt_router_enabled = True, rt_base_url = openai_base_url listen_host listen_port, rt_notice = None\<rparr>
         else fallback)"

section \<open>The session environment\<close>

definition session_env ::
  "string \<Rightarrow> path \<Rightarrow> string \<Rightarrow> int \<Rightarrow> int option \<Rightarrow> routing \<Rightarrow> path option \<Rightarrow> env" where
  "session_env model_id config_path host port server_pid routing router_config_path =
     (let env = dset ''OPENCODE_CONFIG'' (path_str config_path) [];
          env = dset ''LLAMA_HARNESS_MODEL'' model_id env;
          env = dset ''LLAMA_HARNESS_URL'' (''http://'' @ host @ '':'' @ str_int port) env;
          env = (case server_pid of None \<Rightarrow> env | Some pid \<Rightarrow> dset ''LLAMA_HARNESS_SERVER_PID'' (str_int pid) env);
          env = dset ''LLAMA_HARNESS_ROUTER'' (if rt_router_enabled routing then ''1'' else ''0'') env
      in if rt_router_enabled routing then
           (let env = dset ''LLAMA_HARNESS_ROUTER_URL'' (origin_of (rt_base_url routing)) env in
            case router_config_path of
              None \<Rightarrow> env
            | Some p \<Rightarrow> dset ''LLAMA_HARNESS_ROUTER_CONFIG'' (path_str p) env)
         else env)"

definition shell_quote :: "string \<Rightarrow> string" where
  "shell_quote value = [SQ] @ str_replace [SQ] [SQ, CHR 0x5C, SQ, SQ] value @ [SQ]"

definition rcfile_export_block :: "env \<Rightarrow> string" where
  "rcfile_export_block env = concat (map (\<lambda>p. ''export '' @ fst p @ ''='' @ shell_quote (snd p) @ NL) env)"

definition print_env_lines :: "env \<Rightarrow> string list" where
  "print_env_lines env = map (\<lambda>p. fst p @ ''='' @ snd p) env"

definition print_env_report ::
  "string \<Rightarrow> path \<Rightarrow> string \<Rightarrow> int \<Rightarrow> string \<Rightarrow> int \<Rightarrow> path option \<Rightarrow> preflight \<Rightarrow> probe \<Rightarrow> string list \<times> string list" where
  "print_env_report model_id config_path upstream_host upstream_port listen_host listen_port
     router_config_path decision probe =
     (let routing = report_routing decision listen_host listen_port upstream_host upstream_port probe;
          env = session_env model_id config_path upstream_host upstream_port None routing
                  (if rt_router_enabled routing then router_config_path else None);
          notices = filter (\<lambda>s. s \<noteq> [])
                      [pf_notice decision, case rt_notice routing of None \<Rightarrow> [] | Some s \<Rightarrow> s]
      in (print_env_lines env, dedup notices))"

section \<open>Taking the supervisor down\<close>

datatype sig = SigTerm | SigKill

text \<open>The grace loop: clock and \<open>poll()\<close> at each turn, until the deadline or the process is gone.\<close>

fun gone_within :: "int \<Rightarrow> (int \<times> bool) list \<Rightarrow> bool option" where
  "gone_within deadline [] = None"
| "gone_within deadline ((now, gone) # polls) =
     (if now \<ge> deadline then Some False else if gone then Some True else gone_within deadline polls)"

record handle =
  h_pid :: "int option"
  h_exited :: bool

text \<open>The signals delivered, to which group; \<open>getpgid\<close> is \<open>None\<close> and \<open>deliver\<close> false where they raise.\<close>

definition stop_router_supervisor ::
  "handle option \<Rightarrow> int \<Rightarrow> int \<Rightarrow> (int \<Rightarrow> int option) \<Rightarrow> (int \<Rightarrow> sig \<Rightarrow> bool) \<Rightarrow> (int \<times> bool) list \<Rightarrow> (int \<times> sig) list option" where
  "stop_router_supervisor handle grace_ms now getpgid deliver polls =
     (case handle of
        None \<Rightarrow> Some []
      | Some h \<Rightarrow>
          (case h_pid h of
             None \<Rightarrow> Some []
           | Some pid \<Rightarrow>
               (if h_exited h then Some []
                else
                  (let grp = (case getpgid pid of None \<Rightarrow> pid | Some g \<Rightarrow> g) in
                   if \<not> deliver grp SigTerm then Some []
                   else
                     (case gone_within (now + grace_ms) polls of
                        None \<Rightarrow> None
                      | Some True \<Rightarrow> Some [(grp, SigTerm)]
                      | Some False \<Rightarrow>
                          (if deliver grp SigKill then Some [(grp, SigTerm), (grp, SigKill)]
                           else Some [(grp, SigTerm)]))))))"

end
