(* ===== verification/Wiring_Router_Laws.thy ===== *)
theory Wiring_Router_Laws
  imports Wiring_Router
begin

text \<open>
  What the router half promises: the launch matrix, the staleness check, the capped backoff and
  the supervisor that uses it, the health wait, the routing decision and the environment that
  reaches the session's shell.
\<close>

section \<open>The launch matrix and staleness\<close>

definition launchable :: "machine \<Rightarrow> path option \<Rightarrow> path \<Rightarrow> bool \<Rightarrow> bool" where
  "launchable m binary schema no_shell = (\<not> no_shell \<and> binary \<noteq> None \<and> fs_is_file (m_tree m) schema)"

lemmas preflight_defs = router_preflight_def pf_direct_def pf_refuse_def launchable_def Let_def

lemma preflight_texts [simp]:
  "no_shell_error \<noteq> []" "no_shell_notice \<noteq> []" "no_binary_error ps \<noteq> []" "no_binary_notice ps \<noteq> []"
  "no_schema_error p \<noteq> []" "no_schema_notice p \<noteq> []"
  by (simp_all add: no_shell_error_def no_shell_notice_def no_binary_error_def no_binary_notice_def
      no_schema_error_def no_schema_notice_def)

text \<open>over the whole matrix, the router is launched exactly when it is not turned off and a binary,
  a schema and a session shell are there; a run is refused only when the router was asked for
  by name and one of them is missing; and a session that falls back to the server is never
  silent about it unless the router was turned off.\<close>

theorem router_preflight_matrix:
  "let p = router_preflight m repo flag binary schema searched no_shell in
     (pf_action p = Launch \<longleftrightarrow> flag \<noteq> Some False \<and> launchable m binary schema no_shell) \<and>
     (pf_action p = Refuse \<longleftrightarrow> flag = Some True \<and> \<not> launchable m binary schema no_shell) \<and>
     (pf_router_enabled p \<longleftrightarrow> pf_action p = Launch) \<and>
     (pf_error p \<noteq> [] \<longleftrightarrow> pf_action p = Refuse) \<and>
     (pf_notice p \<noteq> [] \<longleftrightarrow> pf_action p = Direct \<and> flag \<noteq> Some False)"
proof -
  consider "flag = Some False" | "flag = Some True" | "flag = None" by (cases flag) auto
  then show ?thesis
    by cases (cases binary; simp add: preflight_defs)+
qed

definition router_source :: "machine \<Rightarrow> path \<Rightarrow> path \<Rightarrow> bool" where
  "router_source m root_dir p =
     (fs_is_file (m_tree m) p \<and> path_suffix p \<in> set ROUTER_SOURCE_SUFFIXES \<and>
      within p (path_join root_dir ''router'') \<and> \<not> within (path_parent p) (path_join root_dir ''router/tests''))"

lemma within_parent: "within (path_parent p) b \<Longrightarrow> within p b"
  by (auto simp: within_def path_parent_def intro: prefix_order.trans [OF _ prefixeq_butlast])

lemma fs_is_file_key: "fs_is_file t p \<Longrightarrow> p \<in> set (map fst t)"
  using in_keys_iff [of p t] by (auto simp: fs_is_file_def)

lemma no_suffix_router: "path_suffix (path_join root_dir ''router'') = []"
  by (simp add: path_join_def path_of_def starts_with_def path_suffix_def path_name_def)

lemma router_sources_newer_set:
  "set (router_sources_newer_than m binary root_dir) =
     {p. fs_is_file (m_tree m) binary \<and> router_source m root_dir p \<and> m_mtime m binary < m_mtime m p}"
proof -
  have "p \<noteq> path_join root_dir ''router''" if "path_suffix p \<in> set ROUTER_SOURCE_SUFFIXES" for p
    using that no_suffix_router [of root_dir] by (auto simp: ROUTER_SOURCE_SUFFIXES_def)
  then show ?thesis
    by (auto simp: router_sources_newer_than_def router_source_def fs_below_def Let_def
        ROUTER_SOURCE_RELDIR_def ROUTER_TEST_RELDIR_def dest: fs_is_file_key)
qed

text \<open>a router is refused as stale exactly when the binary is there and one of its sources, a
  \<open>.hpp\<close> or \<open>.cpp\<close> file below \<open>router/\<close> and outside \<open>router/tests/\<close>, was modified after it.\<close>

theorem router_staleness_refusal_iff:
  "router_staleness_refusal m binary root_dir = None \<longleftrightarrow>
     \<not> (fs_is_file (m_tree m) binary \<and> (\<exists>p. router_source m root_dir p \<and> m_mtime m binary < m_mtime m p))"
proof -
  have "router_staleness_refusal m binary root_dir = None \<longleftrightarrow> set (router_sources_newer_than m binary root_dir) = {}"
    by (simp add: router_staleness_refusal_def Let_def)
  then show ?thesis unfolding router_sources_newer_set by blast
qed

section \<open>The restart policy\<close>

lemma delay_loop_closed: "0 < d \<Longrightarrow> min 30000 (delay_loop n d) = min 30000 (d * 2 ^ n)"
proof (induction n arbitrary: d)
  case (Suc n)
  show ?case
  proof (cases "d \<ge> 30000")
    case True
    have "1 \<le> (2::int) ^ Suc n" by (rule one_le_power) simp
    then have "30000 * 1 \<le> d * 2 ^ Suc n" using True Suc.prems by (intro mult_mono) simp_all
    then show ?thesis using True by (simp add: backoff_consts)
  next
    case False
    then show ?thesis using Suc.IH [of "d * 2"] Suc.prems by (simp add: backoff_consts mult.assoc)
  qed
qed simp

lemma restart_delay_closed: "restart_delay_ms n = min 30000 (500 * 2 ^ nat (n - 1))"
proof -
  have "nat (max 0 (n - 1)) = nat (n - 1)" by simp
  then show ?thesis
    using delay_loop_closed [of 500 "nat (n - 1)"]
    by (auto simp: restart_delay_ms_def backoff_consts min_def Let_def split: if_splits)
qed

text \<open>the loop that computes the delay without building a large power is the capped exponential
  \<open>min(30000, 500 * 2^(n-1))\<close>.\<close>

theorem restart_delay_is_capped_exponential:
  "restart_delay_ms n = min 30000 (500 * 2 ^ nat (n - 1))"
  by (rule restart_delay_closed)

lemma restart_delay_bounds: "500 \<le> restart_delay_ms n \<and> restart_delay_ms n \<le> 30000"
proof -
  have "(500::int) * 1 \<le> 500 * 2 ^ nat (n - 1)" by (intro mult_left_mono) simp_all
  then show ?thesis by (simp add: restart_delay_closed)
qed

text \<open>What the supervisor relies on. It loads the two functions by path, so this is the contract
  between two programs.\<close>

locale supervisor_policy =
  fixes decide :: "int \<Rightarrow> string \<Rightarrow> restart_verdict"
    and backoff :: "int \<Rightarrow> int \<Rightarrow> int \<times> int"
  assumes final_codes: "code \<in> {0, 2, 3, 4} \<Longrightarrow> \<not> rv_restart (decide code err)"
    and backoff_delay: "backoff c u = (d, c') \<Longrightarrow> 500 \<le> d \<and> d \<le> 30000"
    and backoff_count: "0 \<le> c \<Longrightarrow> backoff c u = (d, c') \<Longrightarrow> 0 < c'"
begin

text \<open>One spawn for each wait but the one in progress, and every wait inside the bounds.\<close>

definition inv :: "sv_state \<Rightarrow> bool" where
  "inv s = (0 \<le> sv_crashes s \<and> (\<forall>d \<in> set (sv_slept s). 500 \<le> d \<and> d \<le> 30000) \<and>
     length (sv_slept s) \<le> sv_spawns s \<and> sv_spawns s \<le> Suc (length (sv_slept s)) \<and>
     (sv_phase s = AtHead \<longrightarrow> sv_spawns s = length (sv_slept s)) \<and>
     (sv_phase s = Running \<longrightarrow> sv_spawns s = Suc (length (sv_slept s))))"

lemma inv_init: "inv sv_init"
  by (simp add: inv_def sv_init_def)

lemma inv_step: "inv s \<Longrightarrow> sv_step decide backoff e s = Some s' \<Longrightarrow> inv s'"
proof (cases e)
  case (RouterExits code uptime)
  assume inv: "inv s" and step: "sv_step decide backoff e s = Some s'"
  obtain d c' where b: "backoff (sv_crashes s) uptime = (d, c')" by fastforce
  then have d: "500 \<le> d" "d \<le> 30000" and c': "0 < c'"
    using inv backoff_delay backoff_count by (auto simp: inv_def)
  from step show ?thesis
    using inv b d c' by (auto simp: RouterExits inv_def Let_def split: if_splits)
qed (auto simp: inv_def split: if_splits)

lemma run_inv: "sv_run decide backoff evs s \<Longrightarrow> inv s"
  by (induction rule: sv_run.induct) (auto intro: inv_init inv_step)

text \<open>A final exit code ends the supervisor: no event is possible after it.\<close>

lemma final_stops:
  assumes "code \<in> {0, 2, 3, 4}" "sv_step decide backoff (RouterExits code u) s = Some s'"
  shows "sv_phase s' = Finished \<and> sv_spawns s' = sv_spawns s \<and> sv_step decide backoff e s' = None"
  using assms final_codes by (cases e) (auto split: if_splits)

lemma finished_stays: "sv_run decide backoff (evs @ [e]) s' \<Longrightarrow> \<exists>s. sv_run decide backoff evs s \<and> sv_phase s \<noteq> Finished"
  by (erule sv_run_snocE; cases e) (auto split: if_splits)

lemma run_det: "sv_run decide backoff evs s \<Longrightarrow> sv_run decide backoff evs t \<Longrightarrow> s = t"
proof (induction arbitrary: t rule: sv_run.induct)
  case sv_start
  then show ?case by (auto elim: sv_run_NilE)
next
  case (sv_more evs s e s')
  then show ?case by (metis option.inject sv_run_snocE)
qed

lemma final_is_last:
  assumes "sv_run decide backoff (evs @ RouterExits code u # rest) s" "code \<in> {0, 2, 3, 4}"
  shows "rest = []"
proof (rule ccontr)
  assume "rest \<noteq> []"
  have drop_end: "sv_run decide backoff (xs @ ys) t \<Longrightarrow> \<exists>t'. sv_run decide backoff xs t'" for xs ys t
  proof (induction ys arbitrary: t rule: rev_induct)
    case (snoc y ys)
    then have "sv_run decide backoff ((xs @ ys) @ [y]) t" by simp
    then show ?case by (rule sv_run_snocE) (use snoc.IH in blast)
  qed auto
  obtain e rest' where "rest = e # rest'" using \<open>rest \<noteq> []\<close> by (cases rest) auto
  then have "sv_run decide backoff (((evs @ [RouterExits code u]) @ [e]) @ rest') s" using assms(1) by simp
  then obtain t where t: "sv_run decide backoff ((evs @ [RouterExits code u]) @ [e]) t" using drop_end by blast
  then obtain s1 where s1: "sv_run decide backoff (evs @ [RouterExits code u]) s1" "sv_phase s1 \<noteq> Finished"
    using finished_stays by blast
  then obtain s0 where "sv_step decide backoff (RouterExits code u) s0 = Some s1" by (auto elim: sv_run_snocE)
  then show False using final_stops [OF assms(2)] s1(2) by blast
qed

end

interpretation router_policy: supervisor_policy router_restart_decision backoff_next
proof unfold_locales
  fix code :: int and err
  assume "code \<in> {0, 2, 3, 4}"
  then show "\<not> rv_restart (router_restart_decision code err)"
    by (auto simp: router_restart_decision_def FATAL_EXIT_REASONS_def)
next
  fix c u d c' assume b: "backoff_next c u = (d, c')"
  then show "500 \<le> d \<and> d \<le> 30000" using restart_delay_bounds by (auto simp: backoff_next_def Let_def)
  assume "0 \<le> c"
  then show "0 < c'" using b by (auto simp: backoff_next_def Let_def split: if_splits)
qed

text \<open>C36: on every run of the supervisor, each restart waits between half a second and thirty
  seconds, there is one start of the router more than there are waits at most, and a clean,
  usage, configuration or bind exit is the last thing that happens.\<close>

theorem supervisor_safe:
  assumes "sv_run router_restart_decision backoff_next evs s"
  shows "(\<forall>d \<in> set (sv_slept s). 500 \<le> d \<and> d \<le> 30000) \<and> sv_spawns s \<le> Suc (length (sv_slept s)) \<and>
     (\<forall>pre code u rest. evs = pre @ RouterExits code u # rest \<and> code \<in> {0, 2, 3, 4} \<longrightarrow> rest = [])"
  using router_policy.run_inv [OF assms] router_policy.final_is_last assms
  by (auto simp: router_policy.inv_def)

theorem supervisor_safe_witness:
  "\<exists>s. sv_run router_restart_decision backoff_next [Spawned, RouterExits 139 1500, Spawned, RouterExits 3 20] s \<and>
     sv_slept s = [500] \<and> sv_spawns s \<le> Suc (length (sv_slept s))"
proof -
  let ?step = "sv_step router_restart_decision backoff_next"
  note defs = sv_init_def router_restart_decision_def FATAL_EXIT_REASONS_def backoff_next_def
    restart_delay_ms_def backoff_consts HEALTHY_RUN_MS_def
  obtain s1 where s1: "?step Spawned sv_init = Some s1" by (simp add: sv_init_def)
  obtain s2 where s2: "?step (RouterExits 139 1500) s1 = Some s2" using s1 by (auto simp: defs)
  obtain s3 where s3: "?step Spawned s2 = Some s3" using s1 s2 by (auto simp: defs)
  obtain s4 where s4: "?step (RouterExits 3 20) s3 = Some s4" "sv_slept s4 = [500]"
    using s1 s2 s3 by (auto simp: defs)
  have "sv_run router_restart_decision backoff_next ((([] @ [Spawned]) @ [RouterExits 139 1500]) @ [Spawned]) s3"
    by (rule sv_more [OF sv_more [OF sv_more [OF sv_start s1] s2] s3])
  from sv_more [OF this s4(1)]
  have run: "sv_run router_restart_decision backoff_next [Spawned, RouterExits 139 1500, Spawned, RouterExits 3 20] s4"
    by simp
  then show ?thesis using supervisor_safe [OF run] s4(2) by blast
qed

text \<open>The crash count carried between restarts: the exits since the last run that stayed up.\<close>

definition crash_count :: "sv_event list \<Rightarrow> int" where
  "crash_count evs = foldl (\<lambda>c e. case e of RouterExits _ u \<Rightarrow> (if u \<ge> 60000 then 1 else c + 1) | _ \<Rightarrow> c) 0 evs"

lemma crash_count_snoc:
  "crash_count (evs @ [e]) =
     (case e of RouterExits _ u \<Rightarrow> (if u \<ge> 60000 then 1 else crash_count evs + 1) | _ \<Rightarrow> crash_count evs)"
  by (cases e) (simp_all add: crash_count_def)

lemma run_crash_count:
  "sv_run router_restart_decision backoff_next evs s \<Longrightarrow> sv_phase s \<noteq> Finished \<Longrightarrow> sv_crashes s = crash_count evs"
proof (induction rule: sv_run.induct)
  case sv_start
  show ?case by (simp add: sv_init_def crash_count_def)
next
  case (sv_more evs s e s')
  have "sv_phase s \<noteq> Finished" using sv_more.hyps(2) by (cases e) (auto split: if_splits)
  then have "sv_crashes s = crash_count evs" by (rule sv_more.IH)
  then show ?case
    using sv_more.hyps(2) sv_more.prems
    by (cases e) (auto simp: crash_count_snoc backoff_next_def HEALTHY_RUN_MS_def Let_def split: if_splits)
qed

text \<open>the wait before a restart depends only on the exits since the last run that stayed up for a
  minute: after the \<open>k\<close>-th of them it is \<open>min(30000, 500 * 2^(k-1))\<close>, so a router that crashes
  once a day always restarts after half a second.\<close>

theorem supervisor_backoff_resets:
  assumes "sv_run router_restart_decision backoff_next (evs @ [RouterExits code u]) s" "sv_phase s = AtHead"
  shows "last (sv_slept s) = min 30000 (500 * 2 ^ nat (crash_count (evs @ [RouterExits code u]) - 1)) \<and>
         (u \<ge> 60000 \<longrightarrow> last (sv_slept s) = 500)"
proof -
  obtain s0 where s0: "sv_run router_restart_decision backoff_next evs s0"
    and step: "sv_step router_restart_decision backoff_next (RouterExits code u) s0 = Some s"
    using assms(1) by (auto elim: sv_run_snocE)
  have "sv_phase s0 \<noteq> Finished" using step by (auto split: if_splits)
  then have "sv_crashes s0 = crash_count evs" by (rule run_crash_count [OF s0])
  then show ?thesis
    using step assms(2)
    by (auto simp: crash_count_snoc backoff_next_def HEALTHY_RUN_MS_def restart_delay_closed Let_def split: if_splits)
qed

theorem supervisor_backoff_resets_witness:
  "\<exists>s. sv_run router_restart_decision backoff_next [Spawned, RouterExits 139 90000] s \<and> last (sv_slept s) = 500"
proof -
  let ?step = "sv_step router_restart_decision backoff_next"
  obtain s1 where s1: "?step Spawned sv_init = Some s1" by (simp add: sv_init_def)
  obtain s2 where s2: "?step (RouterExits 139 90000) s1 = Some s2" "sv_phase s2 = AtHead"
    using s1 by (auto simp: sv_init_def router_restart_decision_def FATAL_EXIT_REASONS_def backoff_next_def)
  have run: "sv_run router_restart_decision backoff_next (([] @ [Spawned]) @ [RouterExits 139 90000]) s2"
    by (rule sv_more [OF sv_more [OF sv_start s1] s2(1)])
  then show ?thesis using supervisor_backoff_resets [OF run s2(2)] by auto
qed

section \<open>Health and routing\<close>

lemma health_returns:
  "\<exists>p \<in> set polls. snd p \<ge> deadline \<Longrightarrow> \<exists>b. wait_for_router_health deadline polls = Some b"
  by (induction deadline polls rule: wait_for_router_health.induct) auto

text \<open>the health wait returns: the clock of the \<open>i\<close>-th poll is at least \<open>i\<close> sleeps of 250 ms
  after the start, so with the thirty-second budget the 121st poll is the last at the latest.\<close>

theorem wait_for_router_health_returns:
  assumes "\<forall>i < length polls. start + 250 * int i \<le> snd (polls ! i)" "length polls \<ge> 121"
  shows "\<exists>b. wait_for_router_health (start + ROUTER_READY_TIMEOUT_MS) polls = Some b"
proof (rule health_returns)
  have "start + 250 * int 120 \<le> snd (polls ! 120)" using assms(1) [rule_format, of 120] assms(2) by simp
  then show "\<exists>p \<in> set polls. start + ROUTER_READY_TIMEOUT_MS \<le> snd p"
    using assms(2) by (intro bexI [of _ "polls ! 120"]) (simp_all add: ROUTER_READY_TIMEOUT_MS_def)
qed

theorem wait_for_router_health_returns_witness:
  "\<exists>b. wait_for_router_health (7 + ROUTER_READY_TIMEOUT_MS) (map (\<lambda>i. (Some 503, 7 + 250 * int i)) [0..<121]) = Some b"
  by (rule wait_for_router_health_returns) simp_all

lemma origin_of_base: "origin_of (openai_base_url h p) = ''http://'' @ h @ '':'' @ str_int p"
  using ends_with_append [of "''http://'' @ h @ '':'' @ str_int p" "''/v1''"]
  by (simp add: origin_of_def openai_base_url_def OPENAI_PATH_def)

text \<open>the session points at the router only when the router was to be launched and answered its
  health probe, at the server otherwise, and the exported environment names the router's
  address in exactly the first case.\<close>

theorem routing_reaches_the_session:
  "let r = finalize_routing decision lh lp uh up probe;
       env = session_env model config uh up pid r cfg
   in (rt_router_enabled r \<longleftrightarrow> pf_action decision = Launch \<and> probe lh lp = Inr True) \<and>
      rt_base_url r = (if rt_router_enabled r then openai_base_url lh lp else openai_base_url uh up) \<and>
      dget env ''LLAMA_HARNESS_ROUTER'' = Some (if rt_router_enabled r then ''1'' else ''0'') \<and>
      dget env ''LLAMA_HARNESS_ROUTER_URL'' =
        (if rt_router_enabled r then Some (''http://'' @ lh @ '':'' @ str_int lp) else None) \<and>
      dget env ''LLAMA_HARNESS_URL'' = Some (''http://'' @ uh @ '':'' @ str_int up)"
  by (cases "probe lh lp"; cases pid; cases cfg)
    (simp_all add: finalize_routing_def session_env_def origin_of_base Let_def)

section \<open>The environment as the shell reads it\<close>

text \<open>
  The part of the shell's grammar that an rc file of exports uses: a word of single-quoted
  stretches, backslash escapes and plain characters, up to a blank; and a sequence of
  \<open>export NAME=word\<close> lines.
\<close>

fun sh_word :: "bool \<Rightarrow> string \<Rightarrow> (string \<times> string) option" where
  "sh_word True [] = None"
| "sh_word True (c # s) =
     (if c = SQ then sh_word False s else map_option (\<lambda>(w, r). (c # w, r)) (sh_word True s))"
| "sh_word False [] = Some ([], [])"
| "sh_word False (c # s) =
     (if c = SQ then sh_word True s
      else if c = CHR 0x5C then
        (case s of [] \<Rightarrow> None | d # s' \<Rightarrow> map_option (\<lambda>(w, r). (d # w, r)) (sh_word False s'))
      else if c = CHR 0x0A \<or> c = CHR 0x20 \<or> c = CHR 0x09 then Some ([], c # s)
      else map_option (\<lambda>(w, r). (c # w, r)) (sh_word False s))"

fun sh_source :: "nat \<Rightarrow> string \<Rightarrow> env option" where
  "sh_source 0 s = None"
| "sh_source (Suc n) s =
     (if s = [] then Some []
      else if \<not> starts_with s ''export '' then None
      else
        (let name = takeWhile (\<lambda>c. c \<noteq> CHR ''='') (drop 7 s) in
         case sh_word False (drop (Suc (length name)) (drop 7 s)) of
           Some (w, c # rest) \<Rightarrow>
             (if c = CHR 0x0A then map_option (Cons (name, w)) (sh_source n rest) else None)
         | _ \<Rightarrow> None))"

lemma sh_word_quoted:
  "sh_word True (str_replace [SQ] [SQ, CHR 0x5C, SQ, SQ] v @ SQ # CHR 0x0A # r) = Some (v, CHR 0x0A # r)"
  by (induction v) (auto simp: str_replace_Cons starts_with_def)

lemma sh_word_shell_quote: "sh_word False (shell_quote v @ CHR 0x0A # r) = Some (v, CHR 0x0A # r)"
  using sh_word_quoted [of v r] by (simp add: shell_quote_def)

lemma sh_source_block:
  "\<forall>p \<in> set env. CHR ''='' \<notin> set (fst p) \<Longrightarrow> length env < n \<Longrightarrow> sh_source n (rcfile_export_block env) = Some env"
proof (induction env arbitrary: n)
  case Nil
  then show ?case by (cases n) (simp_all add: rcfile_export_block_def)
next
  case (Cons p env)
  obtain m where n: "n = Suc m" using Cons.prems by (cases n) auto
  obtain k v where p: "p = (k, v)" by (cases p)
  have k: "\<forall>c \<in> set k. c \<noteq> CHR ''=''" using Cons.prems(1) p by auto
  let ?rest = "rcfile_export_block env"
  have blk: "rcfile_export_block (p # env) = ''export '' @ k @ ''='' @ shell_quote v @ CHR 0x0A # ?rest"
    by (simp add: rcfile_export_block_def p)
  have "takeWhile (\<lambda>c. c \<noteq> CHR ''='') (k @ ''='' @ shell_quote v @ CHR 0x0A # ?rest) = k"
    using k by (simp add: takeWhile_append2)
  moreover have "sh_source m ?rest = Some env" using Cons.IH [of m] Cons.prems n by simp
  ultimately show ?case
    using sh_word_shell_quote [of v ?rest]
    by (simp add: n p blk [unfolded p] starts_with_def Let_def)
qed

text \<open>the rc file round-trips through the shell: sourcing the exported block gives back exactly
  the session's variables, quotes and newlines in their values included.\<close>

theorem rcfile_roundtrip:
  "sh_source 9 (rcfile_export_block (session_env model config host port pid routing cfg)) =
     Some (session_env model config host port pid routing cfg)"
proof (rule sh_source_block)
  let ?env = "session_env model config host port pid routing cfg"
  show "\<forall>p \<in> set ?env. CHR ''='' \<notin> set (fst p)"
    by (cases pid; cases cfg; cases "rt_router_enabled routing") (auto simp: session_env_def)
  show "length ?env < 9"
    by (cases pid; cases cfg; cases "rt_router_enabled routing") (simp_all add: session_env_def)
qed

section \<open>Taking the supervisor down\<close>

lemma stop_signals:
  assumes "stop_router_supervisor h grace now getpgid deliver polls = Some sigs"
  shows "sigs = [] \<or> (\<exists>g. sigs = [(g, SigTerm)] \<or>
           sigs = [(g, SigTerm), (g, SigKill)] \<and> gone_within (now + grace) polls = Some False)"
  using assms by (auto simp: stop_router_supervisor_def Let_def split: option.splits if_splits bool.splits)

end
