(* ===== verification/Wiring_Stall.thy ===== *)
theory Wiring_Stall
  imports Py_Json
begin

text \<open>
  \<open>scripts/conductor_wiring.py\<close>, the stall alarm: the newest completion in a tail of the
  router ledger, the newest record in a tail of a conductor journal, and the verdict over
  the two and the watcher's own start. Stamps are epoch milliseconds; the reading of an ISO
  8601 stamp (\<open>_iso_ms\<close>, which is \<open>datetime.fromisoformat\<close>) is the argument \<open>iso_ms\<close>.
\<close>

definition STALL_ALARM_SECONDS :: int where "STALL_ALARM_SECONDS = 2700"

text \<open>The first line from the end that gives a stamp.\<close>

fun first_some :: "('a \<Rightarrow> 'b option) \<Rightarrow> 'a list \<Rightarrow> 'b option" where
  "first_some f [] = None"
| "first_some f (x # xs) = (case f x of None \<Rightarrow> first_some f xs | Some y \<Rightarrow> Some y)"

definition line_field :: "string \<Rightarrow> string \<Rightarrow> json option" where
  \<comment> \<open>\<open>json.loads(line).get(key)\<close> on a line that opens an object; \<open>None\<close> on \<open>ValueError\<close>\<close>
  "line_field line key =
     (case json_loads line of Some (JObj d) \<Rightarrow> Some (jget d key) | _ \<Rightarrow> None)"

definition iso_of :: "(string \<Rightarrow> int option) \<Rightarrow> json \<Rightarrow> int option" where
  "iso_of iso_ms stamp = (case stamp of JStr s \<Rightarrow> (if s = [] then None else iso_ms s) | _ \<Rightarrow> None)"

definition ledger_line_ms :: "(string \<Rightarrow> int option) \<Rightarrow> string \<Rightarrow> int option" where
  "ledger_line_ms iso_ms raw =
     (let line = strip raw in
      if \<not> starts_with line ''{'' \<or> \<not> str_in (CHR 0x22 # ''completedAt'' @ [CHR 0x22]) line then None
      else (case line_field line ''completedAt'' of None \<Rightarrow> None | Some stamp \<Rightarrow> iso_of iso_ms stamp))"

definition ledger_last_completed_ms :: "(string \<Rightarrow> int option) \<Rightarrow> string \<Rightarrow> int option" where
  "ledger_last_completed_ms iso_ms tail_text = first_some (ledger_line_ms iso_ms) (rev (splitlines tail_text))"

text \<open>\<open>int(ts)\<close> for a value \<open>isinstance\<close> calls an \<open>int\<close> or a \<open>float\<close>; a bool is an \<open>int\<close>.\<close>

fun trunc_number :: "json \<Rightarrow> int option" where
  "trunc_number (JInt n) = Some n"
| "trunc_number (JBool b) = Some (if b then 1 else 0)"
| "trunc_number (JFloat m e) =
     Some (if e \<ge> 0 then m * 10 ^ nat e else sgn m * (\<bar>m\<bar> div 10 ^ nat (- e)))"
| "trunc_number _ = None"

definition journal_line_ms :: "string \<Rightarrow> int option" where
  "journal_line_ms raw =
     (let line = strip raw in
      if \<not> starts_with line ''{'' then None
      else (case line_field line ''ts'' of None \<Rightarrow> None | Some ts \<Rightarrow> trunc_number ts))"

definition journal_last_ts_ms :: "string \<Rightarrow> int option" where
  "journal_last_ts_ms tail_text = first_some journal_line_ms (rev (splitlines tail_text))"

definition opt_list :: "'a option \<Rightarrow> 'a list" where
  "opt_list x = (case x of None \<Rightarrow> [] | Some y \<Rightarrow> [y])"

definition stall_verdict :: "int \<Rightarrow> int \<Rightarrow> int option \<Rightarrow> int option \<Rightarrow> int \<Rightarrow> bool \<times> int" where
  "stall_verdict now_ms started_ms last_completed_ms last_journal_ms threshold_s =
     (let reference = fold max (opt_list last_completed_ms @ opt_list last_journal_ms) started_ms;
          silent_ms = max 0 (now_ms - reference)
      in (silent_ms \<ge> threshold_s * 1000, silent_ms))"

section \<open>A torn last line\<close>

lemma splitlines_aux_newline:
  "splitlines_aux acc (s @ CHR 0x0A # t) = splitlines_aux acc (s @ [CHR 0x0A]) @ splitlines t"
proof (induction acc s rule: splitlines_aux.induct)
  case (1 acc)
  then show ?case by (cases t) (auto simp: splitlines_def line_break_def)
next
  case (2 acc c s)
  show ?case
  proof (cases "line_break c")
    case False
    then show ?thesis using 2 by simp
  next
    case True
    show ?thesis
    proof (cases s)
      case Nil
      have "line_break (CHR 0x0A)" by (simp add: line_break_def)
      then show ?thesis using True Nil by (cases t) (auto simp: splitlines_def)
    next
      case (Cons d s')
      then show ?thesis using True 2 by auto
    qed
  qed
qed

lemma first_some_append: "first_some f (xs @ ys) = (case first_some f xs of None \<Rightarrow> first_some f ys | Some y \<Rightarrow> Some y)"
  by (induction xs) (auto split: option.splits)

lemma splitlines_torn:
  assumes "\<forall>c \<in> set torn. \<not> line_break c"
  shows "splitlines (s @ CHR 0x0A # torn) = splitlines (s @ [CHR 0x0A]) @ (if torn = [] then [] else [torn])"
proof -
  have "splitlines torn = (if torn = [] then [] else [torn])"
    using splitlines_aux_plain [OF assms, of "[]" "[]"] by (simp add: splitlines_def)
  then show ?thesis using splitlines_aux_newline [of "[]" s torn] by (simp add: splitlines_def)
qed

text \<open>a torn last line, one still being appended to, costs that line and nothing else: both readers
  return what they return without it.\<close>

theorem torn_line_costs_itself:
  assumes "\<forall>c \<in> set torn. \<not> line_break c" "json_loads (strip torn) = None"
  shows "ledger_last_completed_ms iso_ms (s @ CHR 0x0A # torn) = ledger_last_completed_ms iso_ms (s @ [CHR 0x0A]) \<and>
         journal_last_ts_ms (s @ CHR 0x0A # torn) = journal_last_ts_ms (s @ [CHR 0x0A])"
proof -
  have "ledger_line_ms iso_ms torn = None" "journal_line_ms torn = None"
    using assms(2) by (simp_all add: ledger_line_ms_def journal_line_ms_def line_field_def Let_def)
  then show ?thesis
    using splitlines_torn [OF assms(1)]
    by (simp add: ledger_last_completed_ms_def journal_last_ts_ms_def)
qed

theorem torn_line_costs_itself_witness:
  "journal_last_ts_ms (''{}'' @ CHR 0x0A # ''{'') = journal_last_ts_ms (''{}'' @ [CHR 0x0A])"
proof -
  have "json_loads (strip ''{'') = None"
    by (simp add: strip_def lstrip_def rstrip_def py_space_def json_loads_def skip_ws_def json_ws_def eval_nat_numeral)
  then show ?thesis using torn_line_costs_itself [of "''{''" _ "''{}''"] by (simp add: line_break_def)
qed

section \<open>The verdict\<close>

text \<open>the alarm fires exactly when the threshold has passed since the watcher's start, since the
  ledger's last completion and since the journal's last record, whichever of the last two are
  known; before the threshold has passed since the start it cannot fire.\<close>

theorem stall_verdict_iff:
  assumes "0 < threshold_s"
  shows "fst (stall_verdict now started completed journal threshold_s) \<longleftrightarrow>
     now - started \<ge> threshold_s * 1000 \<and>
     (\<forall>c. completed = Some c \<longrightarrow> now - c \<ge> threshold_s * 1000) \<and>
     (\<forall>j. journal = Some j \<longrightarrow> now - j \<ge> threshold_s * 1000)"
  using assms by (cases completed; cases journal) (auto simp: stall_verdict_def opt_list_def max_def Let_def)

theorem stall_verdict_iff_witness:
  "\<not> fst (stall_verdict 3000000 1000000 (Some 5) None 2700) \<and> fst (stall_verdict 3800000 1000000 (Some 5) None 2700)"
  using stall_verdict_iff [of 2700 3000000 1000000 "Some 5" None] stall_verdict_iff [of 2700 3800000 1000000 "Some 5" None]
  by simp

end
