(* ===== verification/Py_Glob.thy ===== *)
theory Py_Glob
  imports Prelude
begin

text \<open>
  \<open>fnmatch.fnmatch\<close> on POSIX: \<open>*\<close>, \<open>?\<close> and bracket expressions, case-sensitive. A bracket
  that does not close is a plain character, a range whose ends are reversed holds nothing.
\<close>

datatype class_item = One char | Range char char

fun class_items :: "string \<Rightarrow> class_item list" where
  "class_items [] = []"
| "class_items [a] = [One a]"
| "class_items [a, b] = [One a, One b]"
| "class_items (a # b # c # s) =
     (if b = CHR ''-'' then Range a c # class_items s else One a # class_items (b # c # s))"

fun in_item :: "char \<Rightarrow> class_item \<Rightarrow> bool" where
  "in_item x (One a) = (x = a)"
| "in_item x (Range a b) = ((of_char a :: nat) \<le> of_char x \<and> (of_char x :: nat) \<le> of_char b)"

text \<open>After an opening bracket: whether the class is negated, its text and what follows it.\<close>

definition close_class :: "string \<Rightarrow> string \<Rightarrow> (string \<times> string) option" where
  "close_class first q =
     (case dropWhile (\<lambda>c. c \<noteq> CHR '']'') q of
        [] \<Rightarrow> None
      | _ # rest \<Rightarrow> Some (first @ takeWhile (\<lambda>c. c \<noteq> CHR '']'') q, rest))"

definition split_class :: "string \<Rightarrow> (bool \<times> string \<times> string) option" where
  "split_class p =
     (let neg = starts_with p ''!''; q = (if neg then tl p else p) in
      map_option (Pair neg)
        (if starts_with q '']'' then close_class '']'' (tl q) else close_class [] q))"

lemma close_class_shorter: "close_class first q = Some (body, rest) \<Longrightarrow> length rest < length q"
  using length_dropWhile_le [of "\<lambda>c. c \<noteq> CHR '']''" q]
  by (auto simp: close_class_def split: list.splits)

lemma split_class_shorter: "split_class p = Some (neg, body, rest) \<Longrightarrow> length rest < length p"
proof -
  assume a: "split_class p = Some (neg, body, rest)"
  define q where "q = (if starts_with p ''!'' then tl p else p)"
  have q: "length q \<le> length p" by (simp add: q_def)
  have c: "close_class '']'' (tl q) = Some (body, rest) \<or> close_class [] q = Some (body, rest)"
    using a by (cases "starts_with q '']''") (auto simp: split_class_def Let_def q_def [symmetric])
  have "length rest < length q"
    using c close_class_shorter by (metis diff_le_self length_tl less_le_trans)
  then show ?thesis using q by linarith
qed

function glob :: "string \<Rightarrow> string \<Rightarrow> bool" where
  "glob p s =
     (case p of
        [] \<Rightarrow> s = []
      | c # p' \<Rightarrow>
          if c = CHR ''*'' then glob p' s \<or> (case s of [] \<Rightarrow> False | _ # s' \<Rightarrow> glob p s')
          else
            (case s of
               [] \<Rightarrow> False
             | x # s' \<Rightarrow>
                 if c = CHR ''?'' then glob p' s'
                 else if c = CHR ''['' then
                   (case split_class p' of
                      None \<Rightarrow> x = c \<and> glob p' s'
                    | Some (neg, body, rest) \<Rightarrow> ((\<exists>i \<in> set (class_items body). in_item x i) \<noteq> neg) \<and> glob rest s')
                 else x = c \<and> glob p' s'))"
  by pat_completeness auto
termination
  by (relation "measure (\<lambda>(p, s). length p + length s)") (auto dest: split_class_shorter)

declare glob.simps [simp del]

lemma glob_plain:
  "\<forall>c \<in> set p. c \<noteq> CHR ''*'' \<and> c \<noteq> CHR ''?'' \<and> c \<noteq> CHR ''['' \<Longrightarrow> glob p s \<longleftrightarrow> s = p"
proof (induction p arbitrary: s)
  case Nil
  then show ?case by (simp add: glob.simps [of "[]"])
next
  case (Cons c p)
  then show ?case by (cases s) (auto simp: glob.simps [of "c # p"])
qed

lemma glob_star: "glob ''*'' s"
proof (induction s)
  case Nil
  show ?case by (simp add: glob.simps [of "''*''" "[]"] glob.simps [of "[]" "[]"])
next
  case (Cons x s)
  then show ?case by (simp add: glob.simps [of "''*''" "x # s"])
qed

lemma glob_suffix:
  assumes "\<forall>c \<in> set p. c \<noteq> CHR ''*'' \<and> c \<noteq> CHR ''?'' \<and> c \<noteq> CHR ''[''"
  shows "glob (CHR ''*'' # p) (u @ p)"
proof (induction u)
  case Nil
  have "glob p p" using assms by (simp add: glob_plain)
  then show ?case by (simp add: glob.simps [of "CHR ''*'' # p" p])
next
  case (Cons x u)
  then show ?case by (simp add: glob.simps [of "CHR ''*'' # p" "x # u @ p"])
qed

end
