(* ===== verification/Bench_Files.thy ===== *)
theory Bench_Files
  imports Py_Json Py_Path Py_Glob "HOL-Library.Multiset"
begin

text \<open>
  \<open>scripts/conductor_bench.py\<close>, the file sets of a task: an inline map or a directory that is
  walked, ignore rules included, both held to the same path rules. What raises is an \<open>Inl\<close>
  naming the task, the field and the fault.
\<close>

definition MAX_SOURCE_FILE_BYTES :: nat where "MAX_SOURCE_FILE_BYTES = 1048576"
definition MAX_SOURCE_DIR_BYTES :: nat where "MAX_SOURCE_DIR_BYTES = 8388608"
definition ALWAYS_IGNORED_DIR_NAMES :: "string list" where
  "ALWAYS_IGNORED_DIR_NAMES = [''__pycache__'', ''.pytest_cache'', ''.mypy_cache'', ''.ruff_cache'']"
definition ALWAYS_IGNORED_NAMES :: "string list" where
  "ALWAYS_IGNORED_NAMES = [''.DS_Store'', ''Thumbs.db'']"
definition ALWAYS_IGNORED_SUFFIXES :: "string list" where
  "ALWAYS_IGNORED_SUFFIXES = [''.pyc'', ''.pyo'']"

datatype file_fault =
    EmptyPath
  | AbsolutePath string
  | EscapingPath string
  | NotAMap json
  | NotFileText string json
  | BothSpellings
  | NeitherSpelling
  | NoDirectoryName json
  | SourceIsSymlink string
  | SourceMissing string
  | SourceNotDirectory string
  | SourceOutside string path
  | NotUtf8 string
  | Reincludes string string
  | HoldsGit string
  | HoldsSymlink string
  | NotRegular string
  | ResolvesOutside string path
  | FileTooBig string nat
  | SetTooBig
  | NoFile path

datatype file_error = FileError (fe_task: string) (fe_field: string) (fe_fault: file_fault)

type_synonym file_map = "(string, string) dict"

section \<open>Path rules\<close>

definition validate_relpath :: "string \<Rightarrow> string \<Rightarrow> string \<Rightarrow> (file_error, unit) res" where
  "validate_relpath relpath task_id field =
     (if strip relpath = [] then Inl (FileError task_id field EmptyPath)
      else if starts_with relpath ''/'' then Inl (FileError task_id field (AbsolutePath relpath))
      else if ''..'' \<in> set (path_parts (path_of relpath)) then Inl (FileError task_id field (EscapingPath relpath))
      else Inr ())"

definition parse_file_entry ::
  "string \<Rightarrow> string \<Rightarrow> file_map \<Rightarrow> string \<times> json \<Rightarrow> (file_error, file_map) res" where
  "parse_file_entry task_id field out = (\<lambda>(relpath, body).
     bindE (validate_relpath relpath task_id field) (\<lambda>_.
       case body of
         JStr b \<Rightarrow> Inr (dset relpath b out)
       | _ \<Rightarrow> Inl (FileError task_id field (NotFileText relpath body))))"

definition parse_file_map :: "json \<Rightarrow> string \<Rightarrow> string \<Rightarrow> (file_error, file_map) res" where
  "parse_file_map value task_id field =
     (case value of
        JObj d \<Rightarrow>
          (if d = [] then Inl (FileError task_id field (NotAMap value))
           else foldE (parse_file_entry task_id field) [] d)
      | _ \<Rightarrow> Inl (FileError task_id field (NotAMap value)))"

section \<open>Ignore rules\<close>

record ignore_rule =
  ir_where :: "string list"
  ir_pattern :: string
  ir_dir_only :: bool

definition ignore_line ::
  "string \<Rightarrow> string \<Rightarrow> string list \<Rightarrow> ignore_rule list \<Rightarrow> string \<Rightarrow> (file_error, ignore_rule list) res" where
  "ignore_line task_id field where' rules raw =
     (let line = strip raw in
      if line = [] \<or> starts_with line ''#'' then Inr rules
      else if starts_with line ''!'' then
        Inl (FileError task_id field (Reincludes (str_join ''/'' (where' @ [''.gitignore''])) line))
      else
        (let pattern = rstrip_char (CHR ''/'') line in
         Inr (if pattern \<noteq> []
              then rules @ [\<lparr>ir_where = where', ir_pattern = pattern, ir_dir_only = ends_with line ''/''\<rparr>]
              else rules)))"

definition ignore_file ::
  "fs \<Rightarrow> path \<Rightarrow> string \<Rightarrow> string \<Rightarrow> ignore_rule list \<Rightarrow> path \<Rightarrow> (file_error, ignore_rule list) res" where
  "ignore_file t base task_id field rules p =
     (if \<not> fs_is_file t p then Inr rules
      else
        (case fs_read t p of
           None \<Rightarrow> Inl (FileError task_id field (NotUtf8 (str_join ''/'' (relparts p base))))
         | Some stated \<Rightarrow>
             foldE (ignore_line task_id field (butlast (relparts p base))) rules (str_split (CHR 0x0A) stated)))"

definition read_ignore_rules :: "fs \<Rightarrow> path \<Rightarrow> string \<Rightarrow> string \<Rightarrow> (file_error, ignore_rule list) res" where
  "read_ignore_rules t base task_id field =
     foldE (ignore_file t base task_id field) []
       (sort (filter (\<lambda>p. path_name p = ''.gitignore'') (fs_below t base)))"

definition rule_matches :: "string list \<Rightarrow> ignore_rule \<Rightarrow> bool" where
  "rule_matches parts rule =
     (if take (length (ir_where rule)) parts \<noteq> ir_where rule then False
      else
        (let rest = drop (length (ir_where rule)) parts in
         if CHR ''/'' \<in> set (ir_pattern rule) then
           (let anchored = filter (\<lambda>s. s \<noteq> []) (str_split (CHR ''/'') (strip_char (CHR ''/'') (ir_pattern rule)));
                span = take (length anchored) rest
            in length span = length anchored \<and> list_all2 glob anchored span \<and>
               (\<not> ir_dir_only rule \<or> length rest > length anchored))
         else list_ex (glob (ir_pattern rule)) (if ir_dir_only rule then butlast rest else rest)))"

definition is_ignored :: "string list \<Rightarrow> ignore_rule list \<Rightarrow> bool" where
  "is_ignored parts rules =
     (if last parts \<in> set ALWAYS_IGNORED_NAMES \<or> list_ex (ends_with (last parts)) ALWAYS_IGNORED_SUFFIXES then True
      else if list_ex (\<lambda>d. d \<in> set ALWAYS_IGNORED_DIR_NAMES) (butlast parts) then True
      else list_ex (rule_matches parts) rules)"

section \<open>The walk\<close>

type_synonym walk = "(string \<times> path) list \<times> nat"

definition walk_entry ::
  "fs \<Rightarrow> (path \<Rightarrow> path) \<Rightarrow> path \<Rightarrow> ignore_rule list \<Rightarrow> string \<Rightarrow> string \<Rightarrow> walk \<Rightarrow> path \<Rightarrow> (file_error, walk) res" where
  "walk_entry t resolve base rules task_id field acc p =
     (let (entries, total) = acc;
          parts = relparts p base;
          relpath = str_join ''/'' parts;
          fail = (\<lambda>fault. Inl (FileError task_id field fault))
      in if is_ignored parts rules then Inr acc
         else if ''.git'' \<in> set parts then fail (HoldsGit relpath)
         else if fs_is_link t p then fail (HoldsSymlink relpath)
         else if fs_is_dir t p then Inr acc
         else if \<not> fs_is_file t p then fail (NotRegular relpath)
         else if \<not> within (resolve p) base then fail (ResolvesOutside relpath (resolve p))
         else if fs_size t p > MAX_SOURCE_FILE_BYTES then fail (FileTooBig relpath (fs_size t p))
         else if total + fs_size t p > MAX_SOURCE_DIR_BYTES then fail SetTooBig
         else Inr (entries @ [(relpath, p)], total + fs_size t p))"

definition read_entry ::
  "fs \<Rightarrow> string \<Rightarrow> string \<Rightarrow> file_map \<Rightarrow> string \<times> path \<Rightarrow> (file_error, file_map) res" where
  "read_entry t task_id field out = (\<lambda>(relpath, p).
     bindE (validate_relpath relpath task_id field) (\<lambda>_.
       case fs_read t p of
         None \<Rightarrow> Inl (FileError task_id field (NotUtf8 relpath))
       | Some body \<Rightarrow> Inr (dset relpath body out)))"

definition read_dir_map ::
  "fs \<Rightarrow> (path \<Rightarrow> path) \<Rightarrow> path \<Rightarrow> string \<Rightarrow> string \<Rightarrow> (file_error, file_map) res" where
  "read_dir_map t resolve base task_id field =
     bindE (read_ignore_rules t base task_id field) (\<lambda>rules.
     bindE (foldE (walk_entry t resolve base rules task_id field) ([], 0) (fs_below t base)) (\<lambda>(entries, total).
       if entries = [] then Inl (FileError task_id field (NoFile base))
       else foldE (read_entry t task_id field) [] (sort entries)))"

definition resolve_source_dir ::
  "fs \<Rightarrow> (path \<Rightarrow> path) \<Rightarrow> json \<Rightarrow> path \<Rightarrow> string \<Rightarrow> string \<Rightarrow> (file_error, path) res" where
  "resolve_source_dir t resolve value root task_id field =
     (let fail = (\<lambda>fault. Inl (FileError task_id field fault)) in
      case value of
        JStr v \<Rightarrow>
          (if strip v = [] then fail (NoDirectoryName value)
           else bindE (validate_relpath v task_id field) (\<lambda>_.
             let base = path_join root v in
             if fs_is_link t base then fail (SourceIsSymlink v)
             else if \<not> fs_exists t base then fail (SourceMissing v)
             else if \<not> fs_is_dir t base then fail (SourceNotDirectory v)
             else if \<not> within (resolve base) (resolve root) then fail (SourceOutside v (resolve base))
             else Inr (resolve base)))
      | _ \<Rightarrow> fail (NoDirectoryName value))"

definition parse_file_source ::
  "fs \<Rightarrow> (path \<Rightarrow> path) \<Rightarrow> jobj \<Rightarrow> path \<Rightarrow> string \<Rightarrow> string \<Rightarrow> string \<Rightarrow> (file_error, file_map \<times> path option) res" where
  "parse_file_source t resolve entry root task_id inline_field dir_field =
     (case (dget entry inline_field, dget entry dir_field) of
        (Some _, Some _) \<Rightarrow> Inl (FileError task_id inline_field BothSpellings)
      | (None, None) \<Rightarrow> Inl (FileError task_id inline_field NeitherSpelling)
      | (Some inline, None) \<Rightarrow> bindE (parse_file_map inline task_id inline_field) (\<lambda>m. Inr (m, None))
      | (None, Some dir) \<Rightarrow>
          bindE (resolve_source_dir t resolve dir root task_id dir_field) (\<lambda>base.
          bindE (read_dir_map t resolve base task_id dir_field) (\<lambda>m. Inr (m, Some base))))"

section \<open>The paths of a parsed set\<close>

definition safe_relpath :: "string \<Rightarrow> bool" where
  "safe_relpath s = (path_root (path_of s) = [] \<and> ''..'' \<notin> set (path_parts (path_of s)))"

lemma validate_relpath_Inr: "validate_relpath s task_id field = Inr u \<longleftrightarrow> strip s \<noteq> [] \<and> safe_relpath s"
proof -
  have "starts_with s ''/'' \<longleftrightarrow> path_root (path_of s) \<noteq> []"
  proof
    show "starts_with s ''/'' \<Longrightarrow> path_root (path_of s) \<noteq> []" by (simp add: path_of_def)
    assume "path_root (path_of s) \<noteq> []"
    then show "starts_with s ''/''" by (cases s) (auto simp: path_of_def starts_with_def split: if_splits)
  qed
  then show ?thesis by (auto simp: validate_relpath_def safe_relpath_def)
qed

lemma safe_relpath_within:
  "safe_relpath s \<Longrightarrow> within (path_join p s) p \<and> ''..'' \<notin> set (relparts (path_join p s) p)"
  by (simp add: safe_relpath_def path_join_rel within_def relparts_def)

lemma path_join_below: "safe_relpath rel \<Longrightarrow> path_join p rel = below p (path_parts (path_of rel))"
  by (simp add: safe_relpath_def path_join_rel below_def)

definition safe_map :: "file_map \<Rightarrow> bool" where
  "safe_map m = (dict_ok m \<and> (\<forall>s \<in> fst ` set m. safe_relpath s))"

lemma safe_map_Nil [simp]: "safe_map []"
  by (simp add: safe_map_def)

lemma safe_map_dset: "safe_map m \<Longrightarrow> safe_relpath s \<Longrightarrow> safe_map (dset s b m)"
  by (simp add: safe_map_def)

lemma parse_file_map_safe: "parse_file_map value task_id field = Inr m \<Longrightarrow> safe_map m"
proof -
  assume a: "parse_file_map value task_id field = Inr m"
  then obtain d where d: "foldE (parse_file_entry task_id field) [] d = Inr m"
    by (auto simp: parse_file_map_def split: json.splits if_splits)
  show "safe_map m"
    by (rule foldE_invariant [OF d, where P = safe_map])
      (auto simp: parse_file_entry_def err_simps validate_relpath_Inr safe_map_dset split: json.splits)
qed

lemma read_dir_map_safe: "read_dir_map t resolve base task_id field = Inr m \<Longrightarrow> safe_map m"
proof -
  assume a: "read_dir_map t resolve base task_id field = Inr m"
  then obtain es where d: "foldE (read_entry t task_id field) [] es = Inr m"
    by (auto simp: read_dir_map_def err_simps split: if_splits)
  show "safe_map m"
    by (rule foldE_invariant [OF d, where P = safe_map])
      (auto simp: read_entry_def err_simps validate_relpath_Inr safe_map_dset split: option.splits)
qed

lemma parse_file_source_safe: "parse_file_source t resolve entry root task_id fi fd = Inr (m, base) \<Longrightarrow> safe_map m"
  by (auto simp: parse_file_source_def err_simps parse_file_map_safe read_dir_map_safe split: option.splits)

end
