(* ===== verification/Bench_Files_Laws.thy ===== *)
theory Bench_Files_Laws
  imports Bench_Files
begin

text \<open>
  The walk of a source directory: which files it takes, and that the order in which the
  directory is listed does not matter.
\<close>

section \<open>What the walk takes\<close>

definition walk_ok :: "fs \<Rightarrow> (path \<Rightarrow> path) \<Rightarrow> path \<Rightarrow> ignore_rule list \<Rightarrow> path \<Rightarrow> bool" where
  "walk_ok t resolve base rules p =
     (is_ignored (relparts p base) rules \<or>
      ''.git'' \<notin> set (relparts p base) \<and> \<not> fs_is_link t p \<and>
      (fs_is_dir t p \<or> fs_is_file t p \<and> within (resolve p) base \<and> fs_size t p \<le> MAX_SOURCE_FILE_BYTES))"

definition kept :: "fs \<Rightarrow> path \<Rightarrow> ignore_rule list \<Rightarrow> path \<Rightarrow> bool" where
  "kept t base rules p = (\<not> is_ignored (relparts p base) rules \<and> \<not> fs_is_dir t p)"

definition walk_item :: "path \<Rightarrow> path \<Rightarrow> string \<times> path" where
  "walk_item base p = (str_join ''/'' (relparts p base), p)"

lemma walk_entry_Inr:
  "walk_entry t resolve base rules task_id field (es, tot) p = Inr r \<longleftrightarrow>
     walk_ok t resolve base rules p \<and>
     (if kept t base rules p
      then tot + fs_size t p \<le> MAX_SOURCE_DIR_BYTES \<and> r = (es @ [walk_item base p], tot + fs_size t p)
      else r = (es, tot))"
  by (auto simp: walk_entry_def walk_ok_def kept_def walk_item_def Let_def)

lemma walk_fold_Inr:
  "tot \<le> MAX_SOURCE_DIR_BYTES \<Longrightarrow>
   foldE (walk_entry t resolve base rules task_id field) (es, tot) ps = Inr r \<longleftrightarrow>
     (\<forall>p \<in> set ps. walk_ok t resolve base rules p) \<and>
     tot + sum_list (map (fs_size t) (filter (kept t base rules) ps)) \<le> MAX_SOURCE_DIR_BYTES \<and>
     r = (es @ map (walk_item base) (filter (kept t base rules) ps),
          tot + sum_list (map (fs_size t) (filter (kept t base rules) ps)))"
proof (induction ps arbitrary: es tot)
  case Nil
  then show ?case by auto
next
  case (Cons p ps)
  show ?case
  proof (cases "kept t base rules p")
    case True
    show ?thesis
    proof (cases "tot + fs_size t p \<le> MAX_SOURCE_DIR_BYTES")
      case fits: True
      then show ?thesis
        using True Cons.IH [OF fits] by (auto simp: bindE_eq_Inr walk_entry_Inr ac_simps)
    next
      case False
      then show ?thesis using True by (auto simp: bindE_eq_Inr walk_entry_Inr)
    qed
  next
    case False
    then show ?thesis using Cons.IH [OF Cons.prems] by (auto simp: bindE_eq_Inr walk_entry_Inr)
  qed
qed

definition walked :: "fs \<Rightarrow> path \<Rightarrow> ignore_rule list \<Rightarrow> path list" where
  "walked t base rules = filter (kept t base rules) (fs_below t base)"

lemma read_dir_map_Inr:
  "read_dir_map t resolve base task_id field = Inr m \<longleftrightarrow>
     (\<exists>rules. read_ignore_rules t base task_id field = Inr rules \<and>
        (\<forall>p \<in> set (fs_below t base). walk_ok t resolve base rules p) \<and>
        sum_list (map (fs_size t) (walked t base rules)) \<le> MAX_SOURCE_DIR_BYTES \<and>
        walked t base rules \<noteq> [] \<and>
        foldE (read_entry t task_id field) [] (sort (map (walk_item base) (walked t base rules))) = Inr m)"
  by (auto simp: read_dir_map_def bindE_eq_Inr walk_fold_Inr walked_def split: if_splits)

section \<open>The order of the listing\<close>

lemma sort_perm: "mset xs = mset ys \<Longrightarrow> sort xs = sort (ys :: 'a::linorder list)"
  by (metis sorted_list_of_multiset_mset)

lemma same_lookups: "dict_ok t \<Longrightarrow> mset t = mset t' \<Longrightarrow> dget t = dget t'"
proof -
  assume "dict_ok t" "mset t = mset t'"
  then have "set t = set t'" "distinct (map fst t)" "distinct (map fst t')"
    by (auto simp: dict_ok_def dest: mset_eq_setD mset_eq_imp_distinct_iff image_mset_cong)
      (metis mset_eq_imp_distinct_iff mset_map)
  then show ?thesis by (simp add: map_of_inject_set)
qed

lemma foldE_cong: "(\<And>s x. x \<in> set xs \<Longrightarrow> f s x = g s x) \<Longrightarrow> foldE f s xs = foldE g s xs"
proof (induction xs arbitrary: s)
  case (Cons x xs)
  have "f s x = g s x" "foldE f u xs = foldE g u xs" for u using Cons by simp_all
  then show ?case by simp
qed simp

lemma fs_below_same:
  assumes "dict_ok t" "dict_ok t'" "\<And>p. within p base \<Longrightarrow> dget t' p = dget t p"
  shows "mset (fs_below t' base) = mset (fs_below t base)"
proof -
  have "distinct (fs_below t base)" "distinct (fs_below t' base)"
    using assms(1,2) by (simp_all add: fs_below_def dict_ok_def)
  moreover have "set (fs_below t' base) = set (fs_below t base)"
    using assms(3) by (auto simp: fs_below_def in_keys_iff)
  ultimately show ?thesis by (simp add: set_eq_iff_mset_eq_distinct)
qed

text \<open>The walk reads nothing outside the directory and does not see the order of the listing.\<close>

lemma read_dir_map_local:
  assumes "dict_ok t" "dict_ok t'" "\<And>p. within p base \<Longrightarrow> dget t' p = dget t p"
    and "read_dir_map t resolve base task_id field = Inr m"
  shows "read_dir_map t' resolve base task_id field = Inr m"
proof -
  have same: "fs_read t' p = fs_read t p" "fs_is_file t' p = fs_is_file t p" "fs_is_dir t' p = fs_is_dir t p"
    "fs_is_link t' p = fs_is_link t p" "fs_size t' p = fs_size t p" if "within p base" for p
    using assms(3) [OF that] by (simp_all add: fs_read_def fs_is_file_def fs_is_dir_def fs_is_link_def fs_size_def)
  have inside: "p \<in> set (fs_below t base) \<Longrightarrow> within p base" for p by (simp add: fs_below_def)
  have below: "mset (fs_below t' base) = mset (fs_below t base)"
    by (rule fs_below_same) (use assms in auto)
  then have set: "set (fs_below t' base) = set (fs_below t base)" by (rule mset_eq_setD)
  have "sort (filter P (fs_below t' base)) = sort (filter P (fs_below t base))" for P
    by (rule sort_perm) (simp add: below)
  then have rules: "read_ignore_rules t' base task_id field = read_ignore_rules t base task_id field"
    unfolding read_ignore_rules_def by (auto intro!: foldE_cong simp: ignore_file_def same inside)
  have kept: "kept t' base rs p = kept t base rs p" "walk_ok t' resolve base rs p = walk_ok t resolve base rs p"
    if "p \<in> set (fs_below t base)" for rs p
    using inside [OF that] by (simp_all add: kept_def walk_ok_def same)
  have walked: "mset (walked t' base rs) = mset (walked t base rs)" for rs
    unfolding walked_def mset_filter below by (rule filter_mset_cong) (use kept in auto)
  have wset: "set (walked t' base rs) = set (walked t base rs)" for rs using walked by (rule mset_eq_setD)
  have "sort (map (walk_item base) (walked t' base rs)) = sort (map (walk_item base) (walked t base rs))" for rs
    using walked by (intro sort_perm) simp
  moreover have "sum_list (map (fs_size t') (walked t' base rs)) = sum_list (map (fs_size t) (walked t base rs))" for rs
  proof -
    have "map (fs_size t') (walked t' base rs) = map (fs_size t) (walked t' base rs)"
      using wset inside by (auto simp: walked_def same)
    then show ?thesis using walked by (metis mset_map sum_mset_sum_list)
  qed
  moreover have "walked t' base rs = [] \<longleftrightarrow> walked t base rs = []" for rs
    using walked by (metis mset_zero_iff)
  moreover have "foldE (read_entry t' task_id field) [] (sort (map (walk_item base) (walked t base rs))) =
      foldE (read_entry t task_id field) [] (sort (map (walk_item base) (walked t base rs)))" for rs
    using inside by (intro foldE_cong) (auto simp: read_entry_def walk_item_def walked_def same)
  ultimately show ?thesis using assms(4) kept by (auto simp: read_dir_map_Inr rules set)
qed

text \<open>the file set read from a directory does not depend on the order the file system lists it in:
  two trees that hold the same files, listed in any order, give the same map in the same
  order.\<close>

theorem read_dir_map_order_independent:
  assumes "dict_ok t" "mset t = mset t'" "read_dir_map t resolve base task_id field = Inr m"
  shows "read_dir_map t' resolve base task_id field = Inr m"
proof -
  have "dict_ok t'" using assms(1,2) by (metis dict_ok_def mset_eq_imp_distinct_iff mset_map)
  then show ?thesis
    using read_dir_map_local [OF assms(1) _ _ assms(3)] same_lookups [OF assms(1,2)] by simp
qed

definition demo_tree :: fs where
  "demo_tree = [(path_of ''/s'', NDir), (path_of ''/s/b.py'', NFile ''b''), (path_of ''/s/a.py'', NFile ''a'')]"

lemma demo_tree_reads:
  "read_dir_map demo_tree id (path_of ''/s'') ''t'' ''seedDir'' = Inr [(''a.py'', ''a''), (''b.py'', ''b'')]"
  by (simp add: demo_tree_def read_dir_map_def read_ignore_rules_def fs_below_def path_of_def starts_with_def
      within_def path_name_def walk_entry_def relparts_def is_ignored_def ALWAYS_IGNORED_NAMES_def
      ALWAYS_IGNORED_SUFFIXES_def ends_with_def fs_is_link_def fs_is_dir_def fs_is_file_def fs_size_def
      utf8_size_def MAX_SOURCE_FILE_BYTES_def MAX_SOURCE_DIR_BYTES_def read_entry_def validate_relpath_def
      strip_def lstrip_def rstrip_def py_space_def fs_read_def Let_def)

theorem read_dir_map_order_independent_witness:
  "read_dir_map [(path_of ''/s/b.py'', NFile ''b''), (path_of ''/s/a.py'', NFile ''a''), (path_of ''/s'', NDir)]
     id (path_of ''/s'') ''t'' ''seedDir'' = Inr [(''a.py'', ''a''), (''b.py'', ''b'')]"
  by (rule read_dir_map_order_independent [OF _ _ demo_tree_reads])
    (simp_all add: demo_tree_def path_of_def starts_with_def)

section \<open>What a file set holds\<close>

lemma read_entry_Inr:
  "read_entry t task_id field m (r, p) = Inr m' \<longleftrightarrow>
     validate_relpath r task_id field = Inr () \<and> (\<exists>b. fs_read t p = Some b \<and> m' = dset r b m)"
  by (auto simp: read_entry_def bindE_eq_Inr split: option.splits)

lemma read_entries_get:
  "foldE (read_entry t task_id field) m0 es = Inr m \<Longrightarrow> dget m rel = Some body \<Longrightarrow>
   dget m0 rel = Some body \<or> (\<exists>p. (rel, p) \<in> set es \<and> fs_read t p = Some body)"
proof (induction es arbitrary: m0)
  case (Cons e es)
  obtain r p where e: "e = (r, p)" by (cases e)
  from Cons.prems(1) obtain b where b: "fs_read t p = Some b"
    and f: "foldE (read_entry t task_id field) (dset r b m0) es = Inr m"
    by (auto simp: e read_entry_Inr bindE_eq_Inr)
  show ?case using Cons.IH [OF f Cons.prems(2)] b by (auto simp: e split: if_splits)
qed simp

text \<open>every entry of a walked file set is the text of a regular file below the directory that no
  ignore rule skips, that is no symbolic link, that resolves inside the directory and that is
  within the size ceiling; nothing else gets in.\<close>

theorem read_dir_map_sound:
  assumes "read_dir_map t resolve base task_id field = Inr m" "dget m rel = Some body"
  shows "\<exists>p rules. read_ignore_rules t base task_id field = Inr rules \<and>
     rel = str_join ''/'' (relparts p base) \<and> within p base \<and> fs_read t p = Some body \<and>
     \<not> is_ignored (relparts p base) rules \<and> ''.git'' \<notin> set (relparts p base) \<and>
     within (resolve p) base \<and> fs_size t p \<le> MAX_SOURCE_FILE_BYTES"
proof -
  from assms(1) obtain rules where rules: "read_ignore_rules t base task_id field = Inr rules"
    and ok: "\<forall>p \<in> set (fs_below t base). walk_ok t resolve base rules p"
    and fold: "foldE (read_entry t task_id field) [] (sort (map (walk_item base) (walked t base rules))) = Inr m"
    unfolding read_dir_map_Inr by blast
  obtain p where p: "p \<in> set (walked t base rules)" "rel = str_join ''/'' (relparts p base)" "fs_read t p = Some body"
    using read_entries_get [OF fold assms(2)] by (auto simp: walk_item_def)
  then have "p \<in> set (fs_below t base)" "kept t base rules p" by (simp_all add: walked_def)
  moreover have "\<not> fs_is_dir t p" using p(3) by (auto simp: fs_read_def fs_is_dir_def)
  ultimately show ?thesis
    using ok rules p(2,3) by (auto simp: walk_ok_def kept_def fs_below_def)
qed

theorem read_dir_map_sound_witness:
  "\<exists>p. ''a.py'' = str_join ''/'' (relparts p (path_of ''/s'')) \<and> fs_read demo_tree p = Some ''a''"
  using read_dir_map_sound [OF demo_tree_reads, of "''a.py''" "''a''"] by auto

text \<open>a parsed file set cannot escape the tree it is written into: joined to any work tree, each of
  its paths stays inside it and has no parent step.\<close>

theorem parsed_paths_stay_inside:
  assumes "parse_file_source t resolve entry root task_id fi fd = Inr (m, base)" "dget m rel = Some body"
  shows "within (path_join work rel) work \<and> ''..'' \<notin> set (relparts (path_join work rel) work)"
proof -
  have "safe_map m" using assms(1) by (rule parse_file_source_safe)
  moreover have "rel \<in> fst ` set m" using assms(2) by (simp add: in_keys_iff)
  ultimately show ?thesis using safe_relpath_within by (auto simp: safe_map_def)
qed

theorem parsed_paths_stay_inside_witness:
  "within (path_join (path_of ''/w'') ''a/b.py'') (path_of ''/w'')"
proof -
  have "parse_file_source [] id [(''seedFiles'', JObj [(''a/b.py'', JStr [])])] (path_of ''/'') ''t'' ''seedFiles'' ''seedDir''
      = Inr ([(''a/b.py'', [])], None)"
    by (simp add: parse_file_source_def parse_file_map_def parse_file_entry_def validate_relpath_def
        strip_def lstrip_def rstrip_def py_space_def starts_with_def path_of_def)
  from parsed_paths_stay_inside [OF this, of "''a/b.py''" "[]" "path_of ''/w''"] show ?thesis by simp
qed

end
