(* ===== verification/Bench_Manifest.thy ===== *)
theory Bench_Manifest
  imports Bench_Files
begin

text \<open>
  \<open>scripts/conductor_bench.py\<close>, the task manifest: the vocabularies, the task and manifest
  records, and the parse that validates every field. What raises is an \<open>Inl\<close> whose
  constructor says which check refused.
\<close>

section \<open>Vocabularies\<close>

definition ARMS :: "string list" where "ARMS = [''baseline'', ''doctrine'', ''conductor'']"
definition CAPABILITIES :: "string list" where "CAPABILITIES = [''none'']"
definition DEFAULT_CAPABILITY :: string where "DEFAULT_CAPABILITY = ''none''"
definition ARM_AGENTS :: "(string, string) dict" where
  "ARM_AGENTS = [(''baseline'', ''build''), (''doctrine'', ''build''), (''conductor'', ''conductor-orchestrator'')]"
definition TIERS :: "string list" where "TIERS = [''T0'', ''T1'', ''T2'', ''T3'', ''T4'']"
definition TIER_TIMEOUT_SEC :: "(string, int) dict" where
  "TIER_TIMEOUT_SEC = [(''T0'', 1800), (''T1'', 2700), (''T2'', 3600), (''T3'', 7200), (''T4'', 3600)]"
definition MECHANISMS :: "string list" where
  "MECHANISMS = [''none'', ''no-test-first'', ''scope-boundary'', ''missing-dependency'',
     ''ambiguous-requirement'', ''brief-window'', ''dependency-chain'', ''parallel-waves'']"
definition LANGUAGES :: "string list" where "LANGUAGES = [''ts'', ''python'', ''cpp'']"
definition DIFFICULTIES :: "string list" where "DIFFICULTIES = [''one-function'', ''multi-file'']"
definition OUTCOMES :: "string list" where "OUTCOMES = [''pass'', ''fail'', ''timeout'', ''harness-error'']"
definition STOP_KINDS :: "string list" where
  "STOP_KINDS = [''done'', ''noop'', ''blocked'', ''surfaced'', ''env'', ''interrupt'']"
definition TERMINAL_RUN_STATES :: "string list" where
  "TERMINAL_RUN_STATES = [''REPORTED'', ''TRIVIAL_DONE'', ''ANSWERED'']"
definition SWEEP_REQUIRED_KEYS :: "string list" where
  "SWEEP_REQUIRED_KEYS = [''rationale'', ''primaryModel'', ''models'', ''sweptTiers'', ''primaryOnlyTiers'',
     ''capabilities'', ''reps'']"
definition TASK_REQUIRED_KEYS :: "string list" where
  "TASK_REQUIRED_KEYS = [''id'', ''tier'', ''mechanism'', ''expectedTrajectory'', ''expectedStopKinds'',
     ''language'', ''difficulty'', ''behavioral'', ''rationale'', ''prompt'', ''hiddenTestCommand'',
     ''repoTestCommand'', ''behavioralPaths'']"

section \<open>Records\<close>

record task =
  task_id :: string
  task_tier :: string
  task_mechanism :: string
  task_expected_trajectory :: string
  task_expected_stop_kinds :: "string list"
  task_language :: string
  task_difficulty :: string
  task_behavioral :: bool
  task_rationale :: string
  task_prompt :: string
  task_seed_files :: file_map
  task_hidden_files :: file_map
  task_hidden_test_command :: "string list"
  task_repo_test_command :: "string list"
  task_behavioral_paths :: "string list"
  task_run_timeout_sec :: int

record manifest =
  mf_version :: json
  mf_selection_criteria :: jobj
  mf_defaults :: jobj
  mf_sweep :: jobj
  mf_tasks :: "task list"

datatype manifest_error =
    ManifestUnreadable path
  | ManifestNotJson path
  | ManifestNotObject path
  | BadVersion json
  | BadCriteria
  | BadDefaults
  | BadDefaultModel json
  | TimeoutsNotObject
  | TimeoutMissing string
  | TimeoutBad string
  | TimeoutUnknownTier string
  | CountsNotObject
  | CountMissing string
  | CountBad string
  | CountUnknownTier string
  | SweepNotObject
  | SweepMissing string
  | SweepBadRationale
  | SweepBadModels
  | SweepRepeatsModel
  | SweepBadPrimary json
  | SweepBadTiers string
  | SweepOverlap "string list"
  | SweepNotPartition
  | SweepBadCapabilities
  | SweepBadReps
  | DefaultModelNotSwept string
  | TasksNotArray
  | TasksEmpty
  | EscapedNewlines json "string list"
  | TaskNotObject nat
  | TaskNoId nat
  | TaskMissingField string string
  | TaskBadField string string
  | TaskFiles file_error
  | HiddenOverlapsSeed string "string list"
  | HiddenNested string string string
  | CommandEmpty string string
  | CommandToken string string
  | DuplicateTask string nat nat
  | TierCountsOff "(string \<times> int \<times> int) list"

section \<open>Field readers\<close>

text \<open>A non-blank string, a string of a vocabulary, and a list of such strings.\<close>

definition text_field :: "json \<Rightarrow> string option" where
  "text_field j = (case j of JStr s \<Rightarrow> (if strip s = [] then None else Some s) | _ \<Rightarrow> None)"

definition vocab :: "string list \<Rightarrow> json \<Rightarrow> string option" where
  "vocab words j = (case j of JStr s \<Rightarrow> (if s \<in> set words then Some s else None) | _ \<Rightarrow> None)"

fun all_some :: "'a option list \<Rightarrow> 'a list option" where
  "all_some [] = Some []"
| "all_some (x # xs) = (case x of None \<Rightarrow> None | Some y \<Rightarrow> map_option (Cons y) (all_some xs))"

definition list_field :: "(json \<Rightarrow> 'a option) \<Rightarrow> json \<Rightarrow> 'a list option" where
  "list_field f j = (case j of JArr xs \<Rightarrow> all_some (map f xs) | _ \<Rightarrow> None)"

definition positive_int :: "json \<Rightarrow> int option" where
  "positive_int j = (case strict_int j of Some n \<Rightarrow> (if n \<le> 0 then None else Some n) | None \<Rightarrow> None)"

definition natural_int :: "json \<Rightarrow> int option" where
  "natural_int j = (case strict_int j of Some n \<Rightarrow> (if n < 0 then None else Some n) | None \<Rightarrow> None)"

definition some_or :: "'e \<Rightarrow> 'a option \<Rightarrow> ('e, 'a) res" where
  "some_or e x = (case x of None \<Rightarrow> Inl e | Some y \<Rightarrow> Inr y)"

lemma some_or_Inr [err_simps]: "some_or e x = Inr y \<longleftrightarrow> x = Some y"
  by (auto simp: some_or_def split: option.splits)

definition guard :: "bool \<Rightarrow> 'e \<Rightarrow> ('e, unit) res" where
  "guard b e = (if b then Inr () else Inl e)"

lemma guard_Inr [err_simps]: "guard b e = Inr u \<longleftrightarrow> b"
  by (simp add: guard_def)

definition map_error :: "('e \<Rightarrow> 'f) \<Rightarrow> ('e, 'a) res \<Rightarrow> ('f, 'a) res" where
  "map_error f m = (case m of Inl e \<Rightarrow> Inl (f e) | Inr x \<Rightarrow> Inr x)"

lemma map_error_Inr [err_simps]: "map_error f m = Inr x \<longleftrightarrow> m = Inr x"
  by (auto simp: map_error_def split: sum.splits)

section \<open>Prose\<close>

definition escaped_newline :: string where
  "escaped_newline = [CHR 0x5C, CHR ''n'']"

definition base_name :: "string \<Rightarrow> string" where
  \<comment> \<open>\<open>path.rsplit("/", 1)[-1]\<close>\<close>
  "base_name s = last (str_split (CHR ''/'') s)"

definition escaped_only :: "json \<Rightarrow> bool" where
  "escaped_only j = (case j of JStr s \<Rightarrow> s \<noteq> [] \<and> str_in escaped_newline s \<and> CHR 0x0A \<notin> set s | _ \<Rightarrow> False)"

definition escaped_prose_fields :: "json \<Rightarrow> string list" where
  "escaped_prose_fields entry =
     (case entry of
        JObj d \<Rightarrow>
          map fst (filter (\<lambda>c. escaped_only (snd c))
            ((''prompt'', jget d ''prompt'') #
             (case jget d ''seedFiles'' of
                JObj seeds \<Rightarrow>
                  map (\<lambda>p. (''seedFiles['' @ p @ '']'', jget seeds p))
                    (filter (\<lambda>p. str_lower (base_name p) = ''readme.md'') (sort (map fst seeds)))
              | _ \<Rightarrow> [])))
      | _ \<Rightarrow> [])"

section \<open>Timeouts, counts and the sweep\<close>

definition parse_tier_table ::
  "manifest_error \<Rightarrow> (string \<Rightarrow> manifest_error) \<Rightarrow> (string \<Rightarrow> manifest_error) \<Rightarrow> (string \<Rightarrow> manifest_error) \<Rightarrow>
   (json \<Rightarrow> int option) \<Rightarrow> json \<Rightarrow> (manifest_error, (string, int) dict) res" where
  "parse_tier_table not_object missing bad unknown reader value =
     (case value of
        JObj d \<Rightarrow>
          bindE (mapE (\<lambda>tier.
              bindE (some_or (missing tier) (dget d tier)) (\<lambda>v.
              bindE (some_or (bad tier) (reader v)) (\<lambda>n. Inr (tier, n)))) TIERS) (\<lambda>out.
            case find (\<lambda>tier. tier \<notin> set TIERS) (map fst d) of
              Some tier \<Rightarrow> Inl (unknown tier)
            | None \<Rightarrow> Inr out)
      | _ \<Rightarrow> Inl not_object)"

definition parse_tier_timeouts :: "json \<Rightarrow> (manifest_error, (string, int) dict) res" where
  "parse_tier_timeouts = parse_tier_table TimeoutsNotObject TimeoutMissing TimeoutBad TimeoutUnknownTier positive_int"

definition parse_expected_counts :: "json \<Rightarrow> (manifest_error, (string, int) dict option) res" where
  "parse_expected_counts value =
     (if value = JNull then Inr None
      else bindE (parse_tier_table CountsNotObject CountMissing CountBad CountUnknownTier natural_int value)
             (\<lambda>out. Inr (Some out)))"

definition parse_sweep :: "json \<Rightarrow> (manifest_error, jobj) res" where
  "parse_sweep value =
     (case value of
        JObj d \<Rightarrow>
          (case find (\<lambda>k. \<not> dhas d k) SWEEP_REQUIRED_KEYS of
             Some k \<Rightarrow> Inl (SweepMissing k)
           | None \<Rightarrow>
               bindE (some_or SweepBadRationale (text_field (jget d ''rationale''))) (\<lambda>_.
               bindE (some_or SweepBadModels (list_field text_field (jget d ''models''))) (\<lambda>models.
               bindE (guard (models \<noteq> []) SweepBadModels) (\<lambda>_.
               bindE (guard (distinct models) SweepRepeatsModel) (\<lambda>_.
               bindE (some_or (SweepBadPrimary (jget d ''primaryModel'')) (vocab models (jget d ''primaryModel''))) (\<lambda>_.
               bindE (some_or (SweepBadTiers ''sweptTiers'') (list_field (vocab TIERS) (jget d ''sweptTiers''))) (\<lambda>swept.
               bindE (some_or (SweepBadTiers ''primaryOnlyTiers'')
                        (list_field (vocab TIERS) (jget d ''primaryOnlyTiers''))) (\<lambda>primary_only.
               bindE (let overlap = sort (dedup (filter (\<lambda>x. x \<in> set primary_only) swept)) in
                      guard (overlap = []) (SweepOverlap overlap)) (\<lambda>_.
               bindE (guard (sort (dedup (swept @ primary_only)) = sort TIERS) SweepNotPartition) (\<lambda>_.
               bindE (some_or SweepBadCapabilities (list_field (vocab CAPABILITIES) (jget d ''capabilities''))) (\<lambda>caps.
               bindE (guard (caps \<noteq> []) SweepBadCapabilities) (\<lambda>_.
               bindE (some_or SweepBadReps (positive_int (jget d ''reps''))) (\<lambda>_.
               Inr d)))))))))))))
      | _ \<Rightarrow> Inl SweepNotObject)"

section \<open>A task\<close>

definition parse_command :: "json \<Rightarrow> string \<Rightarrow> string \<Rightarrow> (manifest_error, string list) res" where
  "parse_command value tid field =
     (case value of
        JArr xs \<Rightarrow>
          (if xs = [] then Inl (CommandEmpty tid field)
           else some_or (CommandToken tid field) (all_some (map the_str xs)))
      | _ \<Rightarrow> Inl (CommandEmpty tid field))"

definition nested_dirs :: "string \<Rightarrow> path option \<Rightarrow> path option \<Rightarrow> (manifest_error, unit) res" where
  "nested_dirs tid seed_dir hidden_dir =
     (case (seed_dir, hidden_dir) of
        (Some s, Some h) \<Rightarrow>
          (if within h s then Inl (HiddenNested tid ''hiddenDir'' ''seedDir'')
           else if within s h then Inl (HiddenNested tid ''seedDir'' ''hiddenDir'')
           else Inr ())
      | _ \<Rightarrow> Inr ())"

definition parse_task ::
  "fs \<Rightarrow> (path \<Rightarrow> path) \<Rightarrow> path \<Rightarrow> (string, int) dict \<Rightarrow> nat \<Rightarrow> json \<Rightarrow> (manifest_error, task) res" where
  "parse_task t resolve root tier_timeouts index entry =
     (case entry of
        JObj d \<Rightarrow>
          bindE (some_or (TaskNoId index) (text_field (jget d ''id''))) (\<lambda>tid.
          let bad = (\<lambda>field. TaskBadField tid field) in
          case find (\<lambda>k. \<not> dhas d k) TASK_REQUIRED_KEYS of
            Some k \<Rightarrow> Inl (TaskMissingField tid k)
          | None \<Rightarrow>
              bindE (some_or (bad ''tier'') (vocab TIERS (jget d ''tier''))) (\<lambda>tier.
              bindE (some_or (bad ''mechanism'') (vocab MECHANISMS (jget d ''mechanism''))) (\<lambda>mechanism.
              bindE (some_or (bad ''expectedTrajectory'') (text_field (jget d ''expectedTrajectory''))) (\<lambda>trajectory.
              bindE (some_or (bad ''expectedStopKinds'')
                       (list_field (vocab (STOP_KINDS @ TERMINAL_RUN_STATES)) (jget d ''expectedStopKinds''))) (\<lambda>stops.
              bindE (guard (stops \<noteq> []) (bad ''expectedStopKinds'')) (\<lambda>_.
              bindE (some_or (bad ''language'') (vocab LANGUAGES (jget d ''language''))) (\<lambda>language.
              bindE (some_or (bad ''difficulty'') (vocab DIFFICULTIES (jget d ''difficulty''))) (\<lambda>difficulty.
              bindE (some_or (bad ''behavioral'') (case jget d ''behavioral'' of JBool b \<Rightarrow> Some b | _ \<Rightarrow> None)) (\<lambda>behavioral.
              bindE (some_or (bad ''rationale'') (text_field (jget d ''rationale''))) (\<lambda>rationale.
              bindE (some_or (bad ''prompt'') (text_field (jget d ''prompt''))) (\<lambda>prompt.
              bindE (map_error TaskFiles (parse_file_source t resolve d root tid ''seedFiles'' ''seedDir'')) (\<lambda>(seed_files, seed_dir).
              bindE (map_error TaskFiles (parse_file_source t resolve d root tid ''hiddenFiles'' ''hiddenDir'')) (\<lambda>(hidden_files, hidden_dir).
              bindE (let overlap = sort (filter (\<lambda>k. k \<in> set (map fst hidden_files)) (map fst seed_files)) in
                     guard (overlap = []) (HiddenOverlapsSeed tid overlap)) (\<lambda>_.
              bindE (nested_dirs tid seed_dir hidden_dir) (\<lambda>_.
              bindE (parse_command (jget d ''hiddenTestCommand'') tid ''hiddenTestCommand'') (\<lambda>hidden_command.
              bindE (parse_command (jget d ''repoTestCommand'') tid ''repoTestCommand'') (\<lambda>repo_command.
              bindE (some_or (bad ''behavioralPaths'') (list_field the_str (jget d ''behavioralPaths''))) (\<lambda>behavioral_paths.
              bindE (some_or (bad ''runTimeoutSec'')
                       (case dget d ''runTimeoutSec'' of None \<Rightarrow> dget tier_timeouts tier | Some v \<Rightarrow> positive_int v)) (\<lambda>timeout.
              Inr \<lparr>task_id = tid, task_tier = tier, task_mechanism = mechanism,
                   task_expected_trajectory = trajectory, task_expected_stop_kinds = stops,
                   task_language = language, task_difficulty = difficulty, task_behavioral = behavioral,
                   task_rationale = rationale, task_prompt = prompt,
                   task_seed_files = seed_files, task_hidden_files = hidden_files,
                   task_hidden_test_command = hidden_command, task_repo_test_command = repo_command,
                   task_behavioral_paths = behavioral_paths, task_run_timeout_sec = timeout\<rparr>)))))))))))))))))))
      | _ \<Rightarrow> Inl (TaskNotObject index))"

section \<open>The manifest\<close>

definition load_entry ::
  "fs \<Rightarrow> (path \<Rightarrow> path) \<Rightarrow> path \<Rightarrow> (string, int) dict \<Rightarrow> task list \<Rightarrow> nat \<times> json \<Rightarrow> (manifest_error, task list) res" where
  "load_entry t resolve root tier_timeouts tasks = (\<lambda>(index, entry).
     let escaped = escaped_prose_fields entry in
     bindE (guard (escaped = []) (EscapedNewlines (case entry of JObj d \<Rightarrow> jget d ''id'' | _ \<Rightarrow> JNull) escaped)) (\<lambda>_.
     bindE (parse_task t resolve root tier_timeouts index entry) (\<lambda>new.
       case find (\<lambda>(i, old). task_id old = task_id new) (enumerate 0 tasks) of
         Some (i, _) \<Rightarrow> Inl (DuplicateTask (task_id new) i index)
       | None \<Rightarrow> Inr (tasks @ [new]))))"

definition tier_count :: "string \<Rightarrow> task list \<Rightarrow> int" where
  "tier_count tier tasks = int (count_if (\<lambda>k. task_tier k = tier) tasks)"

definition check_tier_counts :: "task list \<Rightarrow> (string, int) dict \<Rightarrow> (manifest_error, unit) res" where
  "check_tier_counts tasks expected_counts =
     (let wanted = (\<lambda>tier. case dget expected_counts tier of None \<Rightarrow> 0 | Some n \<Rightarrow> n);
          off = map (\<lambda>tier. (tier, wanted tier, tier_count tier tasks))
                  (filter (\<lambda>tier. tier_count tier tasks \<noteq> wanted tier) TIERS)
      in guard (off = []) (TierCountsOff off))"

definition load_manifest ::
  "fs \<Rightarrow> (path \<Rightarrow> path) \<Rightarrow> path \<Rightarrow> (string, int) dict option \<Rightarrow> path \<Rightarrow> (manifest_error, manifest) res" where
  "load_manifest t resolve manifest_path expected_counts root =
     bindE (some_or (ManifestUnreadable manifest_path) (fs_read t manifest_path)) (\<lambda>raw.
     bindE (some_or (ManifestNotJson manifest_path) (json_loads raw)) (\<lambda>document_json.
     bindE (some_or (ManifestNotObject manifest_path) (the_obj document_json)) (\<lambda>document.
     bindE (guard (py_eq_int (jget document ''version'') 1) (BadVersion (jget document ''version''))) (\<lambda>_.
     bindE (some_or BadCriteria (the_obj (jget document ''selectionCriteria''))) (\<lambda>criteria.
     bindE (guard (criteria \<noteq> []) BadCriteria) (\<lambda>_.
     bindE (some_or BadDefaults (the_obj (jget document ''defaults''))) (\<lambda>defaults.
     bindE (some_or (BadDefaultModel (jget defaults ''model'')) (text_field (jget defaults ''model''))) (\<lambda>model.
     bindE (parse_tier_timeouts (jget defaults ''tierTimeoutSec'')) (\<lambda>tier_timeouts.
     bindE (parse_sweep (jget document ''sweep'')) (\<lambda>sweep.
     bindE (guard (case jget sweep ''models'' of JArr ms \<Rightarrow> JStr model \<in> set ms | _ \<Rightarrow> False)
              (DefaultModelNotSwept model)) (\<lambda>_.
     bindE (parse_expected_counts (jget document ''expectedTaskCounts'')) (\<lambda>declared_counts.
     bindE (some_or TasksNotArray (the_arr (jget document ''tasks''))) (\<lambda>entries.
     bindE (guard (entries \<noteq> []) TasksEmpty) (\<lambda>_.
     bindE (foldE (load_entry t resolve root tier_timeouts) [] (enumerate 0 entries)) (\<lambda>tasks.
     bindE (case (case expected_counts of Some pin \<Rightarrow> Some pin | None \<Rightarrow> declared_counts) of
              None \<Rightarrow> Inr ()
            | Some pin \<Rightarrow> check_tier_counts tasks pin) (\<lambda>_.
     Inr \<lparr>mf_version = jget document ''version'', mf_selection_criteria = criteria, mf_defaults = defaults,
          mf_sweep = sweep, mf_tasks = tasks\<rparr>))))))))))))))))"

definition load_tasks ::
  "fs \<Rightarrow> (path \<Rightarrow> path) \<Rightarrow> path \<Rightarrow> (string, int) dict option \<Rightarrow> path \<Rightarrow> (manifest_error, task list) res" where
  "load_tasks t resolve manifest_path expected_counts root =
     bindE (load_manifest t resolve manifest_path expected_counts root) (\<lambda>m. Inr (mf_tasks m))"

definition tasks_by_tier :: "task list \<Rightarrow> (string, task list) dict" where
  "tasks_by_tier tasks = map (\<lambda>tier. (tier, filter (\<lambda>k. task_tier k = tier) tasks)) TIERS"

definition seeded_paths :: "task \<Rightarrow> string list" where
  "seeded_paths k = sort (map fst (task_seed_files k))"

end
