(* ===== verification/Bench_Manifest_Laws.thy ===== *)
theory Bench_Manifest_Laws
  imports Bench_Manifest Text_Store
begin

text \<open>
  What a manifest that loads promises to everything built on it: every task record is well
  formed, ids are unique, the declared shape is the shape found, and the sweep places every
  tier once.
\<close>

section \<open>Readers\<close>

lemma text_field_Some: "text_field j = Some s \<longleftrightarrow> j = JStr s \<and> strip s \<noteq> []"
  by (auto simp: text_field_def split: json.splits)

lemma vocab_Some: "vocab ws j = Some s \<longleftrightarrow> j = JStr s \<and> s \<in> set ws"
  by (auto simp: vocab_def split: json.splits)

lemma all_some_Some: "all_some xs = Some ys \<longleftrightarrow> xs = map Some ys"
proof (induction xs arbitrary: ys)
  case (Cons x xs)
  show ?case by (cases x; cases ys) (auto simp: Cons)
qed auto

lemma list_field_vocab: "list_field (vocab ws) j = Some ys \<Longrightarrow> set ys \<subseteq> set ws \<and> j = JArr (map JStr ys)"
proof -
  assume a: "list_field (vocab ws) j = Some ys"
  then obtain xs where xs: "j = JArr xs" "map (vocab ws) xs = map Some ys"
    by (auto simp: list_field_def all_some_Some split: json.splits)
  have "map (vocab ws) xs = map Some ys \<Longrightarrow> set ys \<subseteq> set ws \<and> xs = map JStr ys"
  proof (induction xs arbitrary: ys)
    case (Cons x xs)
    then show ?case by (cases ys) (auto simp: vocab_Some)
  qed simp
  then show ?thesis using xs by simp
qed

lemma list_field_text: "list_field text_field j = Some ys \<Longrightarrow> j = JArr (map JStr ys)"
proof -
  assume a: "list_field text_field j = Some ys"
  then obtain xs where xs: "j = JArr xs" "map text_field xs = map Some ys"
    by (auto simp: list_field_def all_some_Some split: json.splits)
  have "map text_field xs = map Some ys \<Longrightarrow> xs = map JStr ys"
  proof (induction xs arbitrary: ys)
    case (Cons x xs)
    then show ?case by (cases ys) (auto simp: text_field_Some)
  qed simp
  then show ?thesis using xs by simp
qed

lemma positive_int_Some: "positive_int j = Some n \<longleftrightarrow> j = JInt n \<and> 0 < n"
  by (cases j) (auto simp: positive_int_def)

lemma parse_tier_table_Inr:
  assumes "parse_tier_table no m b u reader value = Inr out"
  shows "map fst out = TIERS \<and> (\<forall>(tier, n) \<in> set out. \<exists>v. reader v = Some n)"
proof -
  from assms obtain d where "mapE (\<lambda>tier. bindE (some_or (m tier) (dget d tier)) (\<lambda>v.
      bindE (some_or (b tier) (reader v)) (\<lambda>n. Inr (tier, n)))) TIERS = Inr out"
    by (auto simp: parse_tier_table_def bindE_eq_Inr split: json.splits option.splits)
  moreover have "list_all2 (\<lambda>tier out. bindE (some_or (m tier) (dget d tier)) (\<lambda>v.
      bindE (some_or (b tier) (reader v)) (\<lambda>n. Inr (tier, n))) = Inr out) xs ys \<Longrightarrow>
      map fst ys = xs \<and> (\<forall>(tier, n) \<in> set ys. \<exists>v. reader v = Some n)" for xs ys
    by (induction rule: list_all2_induct) (auto simp: bindE_eq_Inr some_or_Inr)
  ultimately show ?thesis by (simp only: mapE_Inr) blast
qed

lemma tier_timeouts_positive:
  assumes "parse_tier_timeouts value = Inr out"
  shows "dget out tier = Some n \<Longrightarrow> 0 < n"
proof -
  assume "dget out tier = Some n"
  then have "\<exists>v. positive_int v = Some n"
    using parse_tier_table_Inr [OF assms [unfolded parse_tier_timeouts_def]] dget_in_set by fastforce
  then show ?thesis by (auto simp: positive_int_Some)
qed

section \<open>A task\<close>

definition disjoint_keys :: "file_map \<Rightarrow> file_map \<Rightarrow> bool" where
  "disjoint_keys a b = (\<forall>x \<in> set (map fst a). x \<notin> set (map fst b))"

definition positive_table :: "(string, int) dict \<Rightarrow> bool" where
  "positive_table d = (\<forall>k n. dget d k = Some n \<longrightarrow> 0 < n)"

definition task_ok :: "task \<Rightarrow> bool" where
  "task_ok k =
     (strip (task_id k) \<noteq> [] \<and> task_tier k \<in> set TIERS \<and> task_mechanism k \<in> set MECHANISMS \<and>
      task_expected_stop_kinds k \<noteq> [] \<and>
      set (task_expected_stop_kinds k) \<subseteq> set (STOP_KINDS @ TERMINAL_RUN_STATES) \<and>
      task_language k \<in> set LANGUAGES \<and> task_difficulty k \<in> set DIFFICULTIES \<and>
      strip (task_prompt k) \<noteq> [] \<and>
      safe_map (task_seed_files k) \<and> safe_map (task_hidden_files k) \<and>
      disjoint_keys (task_seed_files k) (task_hidden_files k) \<and>
      task_hidden_test_command k \<noteq> [] \<and> task_repo_test_command k \<noteq> [] \<and>
      0 < task_run_timeout_sec k)"

lemma parse_command_Inr: "parse_command v tid f = Inr cmd \<Longrightarrow> cmd \<noteq> []"
  by (auto simp: parse_command_def some_or_Inr all_some_Some split: json.splits if_splits)

lemma sort_filter_Nil: "sort (filter P xs) = [] \<longleftrightarrow> (\<forall>x \<in> set xs. \<not> P x)"
  by (metis (no_types, lifting) empty_filter_conv set_empty set_sort)

lemma parse_task_ok:
  assumes "parse_task t resolve root timeouts index entry = Inr k"
    and timeouts: "positive_table timeouts"
  shows "task_ok k"
proof -
  have to: "(case dget d ''runTimeoutSec'' of None \<Rightarrow> dget timeouts tier | Some v \<Rightarrow> positive_int v) = Some n \<Longrightarrow> 0 < n"
    for d :: jobj and tier n using timeouts by (auto simp: positive_int_Some positive_table_def split: option.splits)
  obtain d where d: "entry = JObj d" using assms(1) by (cases entry) (simp_all add: parse_task_def)
  show ?thesis
    using assms(1) unfolding parse_task_def d json.case Let_def
    apply (elim bindE_InrE)
    apply (erule refuse_SomeE)
    apply (elim bindE_pairE bindE_InrE)
    apply (simp only: some_or_Inr guard_Inr map_error_Inr sort_filter_Nil disjoint_keys_def [symmetric])
    apply (drule list_field_vocab)
    apply (drule to)
    apply (drule parse_command_Inr)+
    apply (drule parse_file_source_safe)+
    by (auto simp: task_ok_def text_field_Some vocab_Some)
qed

section \<open>The manifest\<close>

definition counts_match :: "task list \<Rightarrow> (string, int) dict \<Rightarrow> bool" where
  "counts_match tasks pin = (\<forall>tier \<in> set TIERS. tier_count tier tasks = (case dget pin tier of None \<Rightarrow> 0 | Some n \<Rightarrow> n))"

lemma check_tier_counts_Inr: "check_tier_counts tasks pin = Inr u \<longleftrightarrow> counts_match tasks pin"
  by (auto simp: check_tier_counts_def counts_match_def guard_Inr Let_def filter_empty_conv)

lemma find_enumerate_None: "find (\<lambda>(i, x). P x) (enumerate n xs) = None \<longleftrightarrow> (\<forall>x \<in> set xs. \<not> P x)"
  by (induction xs arbitrary: n) auto

definition tasks_ok :: "task list \<Rightarrow> bool" where
  "tasks_ok tasks = (distinct (map task_id tasks) \<and> (\<forall>k \<in> set tasks. task_ok k))"

lemma load_entry_Inr:
  assumes "load_entry t resolve root timeouts tasks (i, entry) = Inr new"
    and timeouts: "positive_table timeouts"
  shows "\<exists>k. new = tasks @ [k] \<and> task_ok k \<and> task_id k \<notin> set (map task_id tasks)"
proof -
  from assms(1) obtain k where k: "parse_task t resolve root timeouts i entry = Inr k"
    and new: "new = tasks @ [k]" "find (\<lambda>(i, old). task_id old = task_id k) (enumerate 0 tasks) = None"
    unfolding load_entry_def prod.case Let_def by (elim bindE_InrE) (auto split: option.splits)
  have "\<forall>old \<in> set tasks. task_id old \<noteq> task_id k" using new(2) by (simp add: find_enumerate_None)
  then have "task_id k \<notin> set (map task_id tasks)" by auto
  then show ?thesis using new(1) parse_task_ok [OF k timeouts] by blast
qed

lemma load_entries_ok:
  assumes fold: "foldE (load_entry t resolve root timeouts) [] es = Inr tasks"
    and timeouts: "positive_table timeouts"
  shows "tasks_ok tasks \<and> length tasks = length es"
proof -
  have "tasks_ok tasks0 \<Longrightarrow> foldE (load_entry t resolve root timeouts) tasks0 es = Inr tasks \<Longrightarrow>
      tasks_ok tasks \<and> length tasks = length tasks0 + length es" for tasks0
  proof (induction es arbitrary: tasks0)
    case (Cons e es)
    obtain i entry where e: "e = (i, entry)" by (cases e)
    from Cons.prems(2) obtain new where new: "load_entry t resolve root timeouts tasks0 (i, entry) = Inr new"
      and rest: "foldE (load_entry t resolve root timeouts) new es = Inr tasks"
      by (auto simp: e bindE_eq_Inr)
    from load_entry_Inr [OF new timeouts] obtain k where "new = tasks0 @ [k]" "task_ok k" "task_id k \<notin> set (map task_id tasks0)"
      by blast
    then show ?case using Cons.IH [OF _ rest] Cons.prems(1) by (simp add: tasks_ok_def)
  qed simp
  from this [of "[]"] fold show ?thesis by (simp add: tasks_ok_def)
qed

lemma load_manifest_Inr:
  assumes "load_manifest t resolve path expected root = Inr m"
  shows "tasks_ok (mf_tasks m) \<and> mf_tasks m \<noteq> [] \<and> parse_sweep (JObj (mf_sweep m)) = Inr (mf_sweep m) \<and>
    (\<forall>pin. expected = Some pin \<longrightarrow> counts_match (mf_tasks m) pin) \<and>
    (\<exists>model ms. jget (mf_defaults m) ''model'' = JStr model \<and> jget (mf_sweep m) ''models'' = JArr ms \<and> JStr model \<in> set ms)"
proof -
  have sweep: "parse_sweep v = Inr s \<Longrightarrow> parse_sweep (JObj s) = Inr s" for v s
  proof -
    assume a: "parse_sweep v = Inr s"
    obtain d where d: "v = JObj d" using a by (cases v) (simp_all add: parse_sweep_def)
    have "s = d"
      using a unfolding parse_sweep_def d json.case
      by (elim refuse_SomeE bindE_InrE) simp
    then show ?thesis using a d by simp
  qed
  show ?thesis
    using assms unfolding load_manifest_def
    apply (elim bindE_InrE)
    apply (drule load_entries_ok)
     apply (simp only: positive_table_def)
     apply (blast dest: tier_timeouts_positive)
    apply (drule sweep)
    by (auto simp: some_or_Inr guard_Inr text_field_Some check_tier_counts_Inr split: json.splits)
qed


definition demo_entry :: jobj where
  "demo_entry =
     [(''id'', JStr ''t0-sum''), (''tier'', JStr ''T0''), (''mechanism'', JStr ''none''),
      (''expectedTrajectory'', JStr ''one edit''), (''expectedStopKinds'', JArr [JStr ''done'']),
      (''language'', JStr ''python''), (''difficulty'', JStr ''one-function''), (''behavioral'', JBool True),
      (''rationale'', JStr ''floor''), (''prompt'', JStr ''fix sum''),
      (''seedFiles'', JObj [(''sum.py'', JStr ''x'')]), (''hiddenFiles'', JObj [(''t.py'', JStr ''y'')]),
      (''hiddenTestCommand'', JArr [JStr ''py'']), (''repoTestCommand'', JArr [JStr ''py'']),
      (''behavioralPaths'', JArr [])]"

definition demo_manifest :: jobj where
  "demo_manifest =
     [(''version'', JInt 1), (''selectionCriteria'', JObj [(''why'', JStr ''demo'')]),
      (''defaults'', JObj [(''model'', JStr ''m''), (''tierTimeoutSec'', JObj (map (\<lambda>t. (t, JInt 60)) TIERS))]),
      (''sweep'', JObj [(''rationale'', JStr ''r''), (''primaryModel'', JStr ''m''), (''models'', JArr [JStr ''m'']),
         (''sweptTiers'', JArr [JStr ''T0'']),
         (''primaryOnlyTiers'', JArr (map JStr [''T1'', ''T2'', ''T3'', ''T4''])),
         (''capabilities'', JArr [JStr ''none'']), (''reps'', JInt 3)]),
      (''tasks'', JArr [JObj demo_entry])]"

definition demo_task :: task where
  "demo_task =
     \<lparr>task_id = ''t0-sum'', task_tier = ''T0'', task_mechanism = ''none'', task_expected_trajectory = ''one edit'',
      task_expected_stop_kinds = [''done''], task_language = ''python'', task_difficulty = ''one-function'',
      task_behavioral = True, task_rationale = ''floor'', task_prompt = ''fix sum'',
      task_seed_files = [(''sum.py'', ''x'')], task_hidden_files = [(''t.py'', ''y'')],
      task_hidden_test_command = [''py''], task_repo_test_command = [''py''], task_behavioral_paths = [],
      task_run_timeout_sec = 60\<rparr>"

lemmas strip_defs = strip_def lstrip_def rstrip_def py_space_def

lemmas field_defs = some_or_def guard_def map_error_def text_field_def vocab_def list_field_def
  positive_int_def natural_int_def jget_def dhas_def

lemma demo_parse:
  "parse_task t id (path_of ''/r'') (map (\<lambda>t. (t, 60)) TIERS) 0 (JObj demo_entry) = Inr demo_task"
  by (simp add: parse_task_def demo_entry_def demo_task_def field_defs strip_defs TASK_REQUIRED_KEYS_def TIERS_def
      MECHANISMS_def STOP_KINDS_def TERMINAL_RUN_STATES_def LANGUAGES_def DIFFICULTIES_def
      parse_file_source_def parse_file_map_def parse_file_entry_def validate_relpath_def starts_with_def
      path_of_def nested_dirs_def parse_command_def Let_def)

lemma demo_sweep: "\<exists>s. jget demo_manifest ''sweep'' = JObj s \<and> parse_sweep (JObj s) = Inr s \<and> jget s ''models'' = JArr [JStr ''m'']"
  by (simp add: parse_sweep_def demo_manifest_def field_defs strip_defs SWEEP_REQUIRED_KEYS_def TIERS_def
      CAPABILITIES_def dedup_def Let_def)

lemma demo_timeouts:
  "parse_tier_timeouts (JObj (map (\<lambda>t. (t, JInt 60)) TIERS)) = Inr (map (\<lambda>t. (t, 60)) TIERS)"
  by (simp add: parse_tier_timeouts_def parse_tier_table_def TIERS_def field_defs)

lemma demo_loads:
  "\<exists>m. load_manifest [(path_of ''/r/m.json'', NFile (json_file (JObj demo_manifest)))] id (path_of ''/r/m.json'')
        (Some [(''T0'', 1)]) (path_of ''/r'') = Inr m \<and> mf_tasks m = [demo_task]"
proof -
  let ?t = "[(path_of ''/r/m.json'', NFile (json_file (JObj demo_manifest)))]"
  have rd: "fs_read ?t (path_of ''/r/m.json'') = Some (json_file (JObj demo_manifest))"
    by (simp add: fs_read_def)
  have "plain_json (JObj demo_manifest)"
    by (simp add: plain_json_def demo_manifest_def demo_entry_def TIERS_def)
  then have ld: "json_loads (json_file (JObj demo_manifest)) = Some (JObj demo_manifest)"
    by (rule doc.dec_enc)
  have prose: "escaped_prose_fields (JObj demo_entry) = []"
    by (simp add: escaped_prose_fields_def demo_entry_def jget_def escaped_only_def escaped_newline_def starts_with_def
        str_lower_def base_name_def ascii_lower_def)
  have tasks: "foldE (load_entry ?t id (path_of ''/r'') (map (\<lambda>t. (t, 60)) TIERS)) [] (enumerate 0 [JObj demo_entry])
      = Inr [demo_task]"
    by (simp add: load_entry_def prose demo_parse guard_def Let_def)
  have pin: "check_tier_counts [demo_task] [(''T0'', 1)] = Inr ()"
    by (simp add: check_tier_counts_Inr counts_match_def tier_count_def demo_task_def TIERS_def)
  obtain s where s: "jget demo_manifest ''sweep'' = JObj s" "parse_sweep (JObj s) = Inr s" "jget s ''models'' = JArr [JStr ''m'']"
    using demo_sweep by blast
  have fields: "jget demo_manifest ''version'' = JInt 1"
    "jget demo_manifest ''selectionCriteria'' = JObj [(''why'', JStr ''demo'')]"
    "jget demo_manifest ''defaults'' = JObj [(''model'', JStr ''m''), (''tierTimeoutSec'', JObj (map (\<lambda>t. (t, JInt 60)) TIERS))]"
    "jget demo_manifest ''tasks'' = JArr [JObj demo_entry]" "jget demo_manifest ''expectedTaskCounts'' = JNull"
    by (simp_all add: demo_manifest_def jget_def)
  have defaults: "jget [(''model'', JStr ''m''), (''tierTimeoutSec'', JObj (map (\<lambda>t. (t, JInt 60)) TIERS))] ''model'' = JStr ''m''"
    "jget [(''model'', JStr ''m''), (''tierTimeoutSec'', JObj (map (\<lambda>t. (t, JInt 60)) TIERS))] ''tierTimeoutSec'' =
       JObj (map (\<lambda>t. (t, JInt 60)) TIERS)"
    "text_field (JStr ''m'') = Some ''m''"
    by (simp_all add: jget_def text_field_def strip_defs)
  show ?thesis
    unfolding load_manifest_def
    by (simp only: rd ld some_or_def option.case bindE_Inr the_obj.simps fields py_eq_int.simps guard_def if_True
        list.distinct not_False_eq_True defaults demo_timeouts s json.case list.set insert_iff simp_thms the_arr.simps
        parse_expected_counts_def tasks pin) simp
qed


section \<open>Two spellings of one path\<close>

text \<open>The check that keeps hidden files out of the seed compares the keys as written. Two keys that
  are spelled differently and name one file both pass it.\<close>

lemma overlap_check_is_textual:
  "disjoint_keys [(''t.py'', ''x'')] [(''./t.py'', ''y'')] \<and> safe_relpath ''t.py'' \<and> safe_relpath ''./t.py'' \<and>
   path_join work ''t.py'' = path_join work ''./t.py''"
  by (simp add: disjoint_keys_def safe_relpath_def path_of_def starts_with_def path_join_def)

end
