(* ===== verification/Bench_Plan.thy ===== *)
theory Bench_Plan
  imports Bench_Manifest Text_Store
begin

text \<open>
  \<open>scripts/conductor_bench.py\<close>, the run plan: cells and their names, the plan body that
  interleaves the arms, the selection of tasks, the sweep a manifest declares, and the run
  manifest that records the design.
\<close>

section \<open>Cells\<close>

record cell =
  cell_model :: string
  cell_capability :: string
  cell_arm :: string
  cell_task :: string
  cell_rep :: int

definition model_slug :: "string \<Rightarrow> string" where
  "model_slug model = str_replace ''/'' ''-'' model"

definition cell_id :: "cell \<Rightarrow> string" where
  "cell_id c = model_slug (cell_model c) @ ''/'' @ cell_capability c @ ''/'' @ cell_arm c @ ''/'' @
     cell_task c @ ''/r'' @ str_int (cell_rep c)"

definition cell_dir_for :: "path \<Rightarrow> cell \<Rightarrow> path" where
  "cell_dir_for work_root c =
     path_join (path_join (path_join (path_join (path_join work_root (model_slug (cell_model c)))
       (cell_capability c)) (cell_arm c)) (cell_task c)) (''r'' @ str_int (cell_rep c))"

definition result_name :: "cell \<Rightarrow> string" where
  "result_name c =
     model_slug (cell_model c) @ ''__'' @ cell_capability c @ ''__'' @ cell_arm c @ ''__'' @
       cell_task c @ ''__r'' @ str_int (cell_rep c) @ ''.json''"

definition result_path :: "path \<Rightarrow> cell \<Rightarrow> path" where
  "result_path results_dir c = path_join results_dir (result_name c)"

section \<open>The plan\<close>

datatype plan_error =
    RepsTooFew int
  | CalibrationNegative int
  | CalibrationNeedsArm "string list"
  | UnknownArm string
  | UnknownCapability string
  | UnknownTier string
  | UnknownTasks "(string \<times> string list) list" nat
  | NothingSelected "string list" "string list"

definition CALIBRATION_ARM :: string where "CALIBRATION_ARM = ''baseline''"

type_synonym block = "string \<times> string \<times> task list"

definition task_sweep :: "string \<Rightarrow> string \<Rightarrow> string list \<Rightarrow> int \<Rightarrow> int \<Rightarrow> int \<Rightarrow> task \<Rightarrow> cell list" where
  \<comment> \<open>one task at one repetition: the arms, and the calibration cells beside the first sweep\<close>
  "task_sweep model capability arms reps calibration_reps rep k =
     map (\<lambda>arm. \<lparr>cell_model = model, cell_capability = capability, cell_arm = arm, cell_task = task_id k, cell_rep = rep\<rparr>) arms @
     (if rep = 1
      then map (\<lambda>extra. \<lparr>cell_model = model, cell_capability = capability, cell_arm = CALIBRATION_ARM,
                         cell_task = task_id k, cell_rep = extra\<rparr>) [reps + 1..reps + calibration_reps]
      else [])"

definition block_cells :: "string list \<Rightarrow> int \<Rightarrow> int \<Rightarrow> block \<Rightarrow> cell list" where
  "block_cells arms reps calibration_reps = (\<lambda>(model, capability, tasks).
     concat (map (\<lambda>rep. concat (map (task_sweep model capability arms reps calibration_reps rep) tasks)) [1..reps]))"

definition plan_cells :: "block list \<Rightarrow> string list \<Rightarrow> int \<Rightarrow> int \<Rightarrow> (plan_error, cell list) res" where
  "plan_cells blocks arms reps calibration_reps =
     (if reps < 1 then Inl (RepsTooFew reps)
      else if calibration_reps < 0 then Inl (CalibrationNegative calibration_reps)
      else if calibration_reps \<noteq> 0 \<and> CALIBRATION_ARM \<notin> set arms then Inl (CalibrationNeedsArm arms)
      else
        (case find (\<lambda>arm. arm \<notin> set ARMS) arms of
           Some arm \<Rightarrow> Inl (UnknownArm arm)
         | None \<Rightarrow>
             foldE (\<lambda>plan block.
               if fst (snd block) \<notin> set CAPABILITIES then Inl (UnknownCapability (fst (snd block)))
               else Inr (plan @ block_cells arms reps calibration_reps block)) [] blocks))"

definition build_run_plan ::
  "task list \<Rightarrow> string list \<Rightarrow> string list \<Rightarrow> int \<Rightarrow> string list \<Rightarrow> int \<Rightarrow> (plan_error, cell list) res" where
  "build_run_plan tasks models arms reps capabilities calibration_reps =
     plan_cells (concat (map (\<lambda>model. map (\<lambda>capability. (model, capability, tasks)) capabilities) models))
       arms reps calibration_reps"

section \<open>Selection\<close>

text \<open>\<open>difflib.get_close_matches\<close>, which only words a refusal, is the argument \<open>close\<close>.\<close>

definition select_tasks ::
  "(string \<Rightarrow> string list \<Rightarrow> string list) \<Rightarrow> task list \<Rightarrow> string list \<Rightarrow> string list \<Rightarrow> (plan_error, task list) res" where
  "select_tasks close tasks task_ids tiers =
     (if task_ids = [] \<and> tiers = [] then Inr tasks
      else
        (let known = map task_id tasks;
             unknown = filter (\<lambda>i. i \<notin> set known) task_ids
         in if unknown \<noteq> [] then Inl (UnknownTasks (map (\<lambda>i. (i, close i (sort (dedup known)))) unknown) (length tasks))
            else
              (let selected = filter (\<lambda>k. (task_ids = [] \<or> task_id k \<in> set task_ids) \<and>
                                          (tiers = [] \<or> task_tier k \<in> set tiers)) tasks
               in if selected = [] then Inl (NothingSelected task_ids tiers) else Inr selected)))"

definition task_filter_record :: "task list \<Rightarrow> task list \<Rightarrow> string list \<Rightarrow> string list \<Rightarrow> jobj" where
  "task_filter_record manifest_tasks selected task_ids tiers =
     [(''taskIds'', JArr (map JStr task_ids)), (''tiers'', JArr (map JStr tiers)),
      (''selectedTaskIds'', JArr (map (\<lambda>k. JStr (task_id k)) selected)),
      (''partial'', JBool (length selected < length manifest_tasks))]"

section \<open>The declared sweep\<close>

definition sweep_texts :: "jobj \<Rightarrow> string \<Rightarrow> string list" where
  \<comment> \<open>a list of strings of a sweep that \<open>parse_sweep\<close> accepted\<close>
  "sweep_texts sweep key =
     (case jget sweep key of JArr xs \<Rightarrow> List.map_filter the_str xs | _ \<Rightarrow> [])"

definition sweep_text :: "jobj \<Rightarrow> string \<Rightarrow> string" where
  "sweep_text sweep key = (case jget sweep key of JStr s \<Rightarrow> s | _ \<Rightarrow> [])"

definition models_for_tier :: "jobj \<Rightarrow> string \<Rightarrow> (plan_error, string list) res" where
  "models_for_tier sweep tier =
     (if tier \<notin> set TIERS then Inl (UnknownTier tier)
      else if tier \<in> set (sweep_texts sweep ''primaryOnlyTiers'') then Inr [sweep_text sweep ''primaryModel'']
      else Inr (sweep_texts sweep ''models''))"

definition runs_on :: "jobj \<Rightarrow> string \<Rightarrow> task \<Rightarrow> (plan_error, task list) res" where
  \<comment> \<open>the task in a list of its own when the model runs its tier\<close>
  "runs_on sweep model k =
     bindE (models_for_tier sweep (task_tier k)) (\<lambda>models. Inr (if model \<in> set models then [k] else []))"

definition build_sweep_plan :: "manifest \<Rightarrow> string list \<Rightarrow> (plan_error, cell list) res" where
  "build_sweep_plan m arms =
     (let sweep = mf_sweep m in
      bindE (mapE (\<lambda>model. bindE (mapE (runs_on sweep model) (mf_tasks m)) (\<lambda>kss.
               let tasks = concat kss in
               Inr (if tasks = [] then [] else map (\<lambda>capability. (model, capability, tasks)) (sweep_texts sweep ''capabilities''))))
             (sweep_texts sweep ''models'')) (\<lambda>blocks.
      plan_cells (concat blocks) arms (case strict_int (jget sweep ''reps'') of Some n \<Rightarrow> n | None \<Rightarrow> 0) 0))"

section \<open>The run manifest\<close>

definition EXCLUSION_REASONS :: "string list" where
  "EXCLUSION_REASONS = [''harness-error'', ''plugin-absent'']"

definition ROLE_TEMPERATURE :: "(string, int) dict" where
  \<comment> \<open>in tenths\<close>
  "ROLE_TEMPERATURE = [(''orchestrator'', 4), (''planner'', 7), (''testWriter'', 5), (''implementer'', 4),
     (''reviewer'', 3), (''skeptic'', 3), (''mechanical'', 1)]"

definition declared_asymmetries :: "jobj list" where
  "declared_asymmetries =
     (let sampling = str_join '', '' (map (\<lambda>role. role @ '' '' @
            repr_float (case dget ROLE_TEMPERATURE role of Some n \<Rightarrow> n | None \<Rightarrow> 0) (- 1)) (sort (map fst ROLE_TEMPERATURE)))
      in [[(''dimension'', JStr ''sampling''),
           (''conductor'', JStr (''per-role output.temperature: '' @ sampling)),
           (''pluginAbsent'', JStr ''the server default temperature for every request''),
           (''why'', JStr ''the plugin sets temperature per request from its own role table; an arm with no plugin has no role and no table'')],
          [(''dimension'', JStr ''sub-agent availability''),
           (''conductor'', JStr ''the `task` tool is denied in every session''),
           (''pluginAbsent'', JStr ''the `task` tool is available as opencode ships it''),
           (''why'', JStr ''conductor spawns its own sub-sessions and denies the built-in spawner; a vanilla session keeps it'')]])"

definition ids_by_tier :: "task list \<Rightarrow> json" where
  "ids_by_tier tasks = JObj (map (\<lambda>p. (fst p, JArr (map (\<lambda>k. JStr (task_id k)) (snd p)))) (tasks_by_tier tasks))"

definition build_run_manifest ::
  "string \<Rightarrow> manifest \<Rightarrow> string list \<Rightarrow> string list \<Rightarrow> int \<Rightarrow> string list \<Rightarrow> task list option \<Rightarrow> jobj option \<Rightarrow> jobj" where
  "build_run_manifest now_iso m models arms reps capabilities tasks filters =
     (let planned = (case tasks of None \<Rightarrow> mf_tasks m | Some ks \<Rightarrow> ks);
          selection = (case filters of Some f \<Rightarrow> f | None \<Rightarrow> task_filter_record (mf_tasks m) planned [] [])
      in [(''startedIso'', JStr now_iso), (''models'', JArr (map JStr models)),
          (''capabilities'', JArr (map JStr capabilities)), (''arms'', JArr (map JStr arms)), (''reps'', JInt reps),
          (''tiers'', JArr (map (\<lambda>p. JStr (fst p)) (filter (\<lambda>p. snd p \<noteq> []) (tasks_by_tier planned)))),
          (''tierTimeoutSec'', jget (mf_defaults m) ''tierTimeoutSec''),
          (''sweep'', JObj (mf_sweep m)),
          (''asymmetries'', JArr (map JObj declared_asymmetries)),
          (''exclusionReasons'', JArr (map JStr EXCLUSION_REASONS)),
          (''filters'', JObj selection), (''partial'', jget selection ''partial''),
          (''taskIdsByTier'', ids_by_tier planned),
          (''manifestTaskIdsByTier'', ids_by_tier (mf_tasks m))])"

definition write_run_manifest :: "path \<Rightarrow> jobj \<Rightarrow> fs \<Rightarrow> fs" where
  "write_run_manifest p run_manifest t =
     fs_write p (json_dumps_indent (JObj run_manifest) @ [CHR 0x0A]) (fs_mkdir (path_parent p) t)"

end
