(* ===== verification/Bench_Plan_Laws.thy ===== *)
theory Bench_Plan_Laws
  imports Bench_Plan Bench_Manifest_Laws
begin

text \<open>
  What the plan promises: any prefix of it leaves the compared arms even to within one cell, it
  holds every cell of the matrix once, and the names of two planned cells differ unless their
  models fold to one slug.
\<close>

section \<open>Balance of the arms\<close>

definition scoreboard :: "int \<Rightarrow> cell \<Rightarrow> bool" where
  \<comment> \<open>a cell of the compared sweep rather than a calibration cell\<close>
  "scoreboard reps c = (cell_rep c \<le> reps)"

definition arm_count :: "string \<Rightarrow> cell list \<Rightarrow> nat" where
  "arm_count arm cells = count_if (\<lambda>c. cell_arm c = arm) cells"

definition even_arms :: "string list \<Rightarrow> string list \<Rightarrow> bool" where
  \<comment> \<open>a list of arms in which any two of \<open>arms\<close> occur equally often to within one\<close>
  "even_arms arms xs = (\<forall>a \<in> set arms. \<forall>b \<in> set arms. count_if (\<lambda>x. x = a) xs \<le> Suc (count_if (\<lambda>x. x = b) xs))"

lemma count_distinct: "distinct xs \<Longrightarrow> count_if (\<lambda>x. x = a) xs = (if a \<in> set xs then 1 else 0)"
  by (induction xs) auto

lemma count_take_le: "distinct xs \<Longrightarrow> count_if (\<lambda>x. x = a) (take n xs) \<le> 1"
  by (simp add: count_distinct distinct_take)

lemma even_arms_take: "distinct arms \<Longrightarrow> even_arms arms (take n arms)"
  unfolding even_arms_def using count_take_le by (metis Suc_leI le_SucI le_trans zero_less_Suc One_nat_def)

lemma even_arms_block: "distinct arms \<Longrightarrow> even_arms arms xs \<Longrightarrow> even_arms arms (arms @ xs)"
  by (simp add: even_arms_def count_distinct)

lemma even_arms_blocks:
  "distinct arms \<Longrightarrow> even_arms arms (take n (concat (replicate k arms)))"
proof (induction k arbitrary: n)
  case 0
  then show ?case by (simp add: even_arms_def)
next
  case (Suc k)
  show ?case
  proof (cases "n \<le> length arms")
    case True
    then show ?thesis using even_arms_take [OF Suc.prems] by simp
  next
    case False
    then have "take n (concat (replicate (Suc k) arms)) = arms @ take (n - length arms) (concat (replicate k arms))"
      by simp
    then show ?thesis using even_arms_block [OF Suc.prems Suc.IH [OF Suc.prems]] by simp
  qed
qed

text \<open>The arms of the scoreboard cells of a plan are whole sweeps, one after the other.\<close>

definition whole_sweeps :: "string list \<Rightarrow> int \<Rightarrow> cell list \<Rightarrow> bool" where
  "whole_sweeps arms reps cells = (\<exists>k. map cell_arm (filter (scoreboard reps) cells) = concat (replicate k arms))"

lemma whole_sweeps_Nil [simp]: "whole_sweeps arms reps []"
  by (auto simp: whole_sweeps_def intro: exI [of _ 0])

lemma whole_sweeps_append: "whole_sweeps arms reps xs \<Longrightarrow> whole_sweeps arms reps ys \<Longrightarrow> whole_sweeps arms reps (xs @ ys)"
  unfolding whole_sweeps_def by (metis (no_types, lifting) concat_append filter_append map_append replicate_add)

lemma whole_sweeps_concat: "(\<And>x. x \<in> set xss \<Longrightarrow> whole_sweeps arms reps x) \<Longrightarrow> whole_sweeps arms reps (concat xss)"
  by (induction xss) (auto intro: whole_sweeps_append)

lemma whole_sweeps_task:
  "rep \<le> reps \<Longrightarrow> whole_sweeps arms reps (task_sweep model capability arms reps cal rep k)"
proof -
  assume "rep \<le> reps"
  then have "filter (scoreboard reps) (task_sweep model capability arms reps cal rep k) =
      map (\<lambda>arm. \<lparr>cell_model = model, cell_capability = capability, cell_arm = arm, cell_task = task_id k, cell_rep = rep\<rparr>) arms"
    by (auto simp: task_sweep_def scoreboard_def filter_empty_conv intro!: filter_True)
  then show ?thesis by (auto simp: whole_sweeps_def comp_def intro!: exI [of _ 1])
qed

lemma whole_sweeps_block: "whole_sweeps arms reps (block_cells arms reps cal b)"
  by (cases b) (auto simp: block_cells_def intro!: whole_sweeps_concat whole_sweeps_task)

lemma plan_cells_Inr:
  "plan_cells blocks arms reps cal = Inr plan \<longleftrightarrow>
     1 \<le> reps \<and> 0 \<le> cal \<and> (cal \<noteq> 0 \<longrightarrow> CALIBRATION_ARM \<in> set arms) \<and> set arms \<subseteq> set ARMS \<and>
     (\<forall>b \<in> set blocks. fst (snd b) \<in> set CAPABILITIES) \<and> plan = concat (map (block_cells arms reps cal) blocks)"
proof -
  have fold: "foldE (\<lambda>plan block. if fst (snd block) \<notin> set CAPABILITIES then Inl (UnknownCapability (fst (snd block)))
      else Inr (plan @ block_cells arms reps cal block)) acc blocks = Inr plan \<longleftrightarrow>
      (\<forall>b \<in> set blocks. fst (snd b) \<in> set CAPABILITIES) \<and> plan = acc @ concat (map (block_cells arms reps cal) blocks)" for acc
    by (induction blocks arbitrary: acc) (auto simp: bindE_eq_Inr)
  show ?thesis
  proof (cases "find (\<lambda>arm. arm \<notin> set ARMS) arms")
    case None
    then have "set arms \<subseteq> set ARMS" by (auto simp: find_None_iff)
    then show ?thesis using fold [of "[]"] None by (auto simp: plan_cells_def)
  next
    case (Some arm)
    then have "\<not> set arms \<subseteq> set ARMS" by (auto simp: find_Some_iff dest: nth_mem)
    then show ?thesis using Some by (auto simp: plan_cells_def)
  qed
qed

lemma plan_whole_sweeps: "plan_cells blocks arms reps cal = Inr plan \<Longrightarrow> whole_sweeps arms reps plan"
  by (auto simp: plan_cells_Inr intro!: whole_sweeps_concat whole_sweeps_block)

lemma filter_take: "\<exists>m. filter P (take n xs) = take m (filter P xs)"
proof (induction xs arbitrary: n)
  case (Cons x xs)
  show ?case
  proof (cases n)
    case 0
    then show ?thesis by (auto intro: exI [of _ 0])
  next
    case (Suc l)
    obtain m where m: "filter P (take l xs) = take m (filter P xs)" using Cons.IH by blast
    show ?thesis
    proof (cases "P x")
      case True
      then show ?thesis using m Suc by (intro exI [of _ "Suc m"]) simp
    next
      case False
      then show ?thesis using m Suc by (intro exI [of _ m]) simp
    qed
  qed
qed simp

lemma prefix_even:
  assumes "whole_sweeps arms reps plan" "distinct arms" "a \<in> set arms" "b \<in> set arms"
  shows "arm_count a (filter (scoreboard reps) (take n plan)) \<le> Suc (arm_count b (filter (scoreboard reps) (take n plan)))"
proof -
  obtain k where k: "map cell_arm (filter (scoreboard reps) plan) = concat (replicate k arms)"
    using assms(1) by (auto simp: whole_sweeps_def)
  obtain m where m: "filter (scoreboard reps) (take n plan) = take m (filter (scoreboard reps) plan)"
    using filter_take by blast
  have count: "arm_count x cells = count_if (\<lambda>y. y = x) (map cell_arm cells)" for x cells
    by (induction cells) (auto simp: arm_count_def)
  have "even_arms arms (map cell_arm (filter (scoreboard reps) (take n plan)))"
    using even_arms_blocks [OF assms(2), of m k] by (simp add: m k [symmetric] take_map)
  then show ?thesis using assms(3,4) by (simp add: count even_arms_def)
qed

text \<open>truncating a plan at any point leaves the compared arms even to within one cell, with
  calibration repetitions or without: no arm has more than one scoreboard cell more than any
  other.\<close>

theorem plan_prefix_balanced:
  assumes "build_run_plan tasks models arms reps capabilities cal = Inr plan"
    and "distinct arms" "a \<in> set arms" "b \<in> set arms"
  shows "arm_count a (filter (scoreboard reps) (take n plan)) \<le> Suc (arm_count b (filter (scoreboard reps) (take n plan)))"
  by (rule prefix_even [OF plan_whole_sweeps assms(2-4)]) (use assms(1) in \<open>simp add: build_run_plan_def\<close>)

definition demo_cell :: "string \<Rightarrow> int \<Rightarrow> cell" where
  "demo_cell arm rep = \<lparr>cell_model = ''m'', cell_capability = ''none'', cell_arm = arm, cell_task = ''t0-sum'', cell_rep = rep\<rparr>"

lemma demo_plan:
  "build_run_plan [demo_task] [''m''] ARMS 1 [''none''] 1 =
     Inr [demo_cell ''baseline'' 1, demo_cell ''doctrine'' 1, demo_cell ''conductor'' 1, demo_cell ''baseline'' 2]"
  by (simp add: build_run_plan_def plan_cells_def ARMS_def CAPABILITIES_def CALIBRATION_ARM_def block_cells_def
      task_sweep_def demo_cell_def demo_task_def upto.simps)

theorem plan_prefix_balanced_witness:
  "arm_count ''baseline'' (filter (scoreboard 1) (take 1 [demo_cell ''baseline'' 1, demo_cell ''doctrine'' 1,
     demo_cell ''conductor'' 1, demo_cell ''baseline'' 2])) \<le>
   Suc (arm_count ''conductor'' (filter (scoreboard 1) (take 1 [demo_cell ''baseline'' 1, demo_cell ''doctrine'' 1,
     demo_cell ''conductor'' 1, demo_cell ''baseline'' 2])))"
  by (rule plan_prefix_balanced [OF demo_plan]) (simp_all add: ARMS_def)

section \<open>The cells of a plan\<close>

definition planned_cell :: "string list \<Rightarrow> int \<Rightarrow> int \<Rightarrow> block list \<Rightarrow> cell \<Rightarrow> bool" where
  "planned_cell arms reps cal blocks c =
     (\<exists>tasks k. (cell_model c, cell_capability c, tasks) \<in> set blocks \<and> k \<in> set tasks \<and> cell_task c = task_id k \<and>
        (cell_arm c \<in> set arms \<and> 1 \<le> cell_rep c \<and> cell_rep c \<le> reps \<or>
         cell_arm c = CALIBRATION_ARM \<and> reps < cell_rep c \<and> cell_rep c \<le> reps + cal))"

lemma in_task_sweep:
  "c \<in> set (task_sweep model capability arms reps cal rep k) \<longleftrightarrow>
     cell_model c = model \<and> cell_capability c = capability \<and> cell_task c = task_id k \<and>
     (cell_arm c \<in> set arms \<and> cell_rep c = rep \<or>
      rep = 1 \<and> cell_arm c = CALIBRATION_ARM \<and> reps < cell_rep c \<and> cell_rep c \<le> reps + cal)"
  by (cases c) (auto simp: task_sweep_def image_iff)

lemma in_block_cells:
  "1 \<le> reps \<Longrightarrow> c \<in> set (block_cells arms reps cal (model, capability, tasks)) \<longleftrightarrow>
     cell_model c = model \<and> cell_capability c = capability \<and>
     (\<exists>k \<in> set tasks. cell_task c = task_id k \<and>
        (cell_arm c \<in> set arms \<and> 1 \<le> cell_rep c \<and> cell_rep c \<le> reps \<or>
         cell_arm c = CALIBRATION_ARM \<and> reps < cell_rep c \<and> cell_rep c \<le> reps + cal))"
  by (auto simp: block_cells_def in_task_sweep)

lemma in_plan:
  "plan_cells blocks arms reps cal = Inr plan \<Longrightarrow> c \<in> set plan \<longleftrightarrow> planned_cell arms reps cal blocks c"
proof -
  assume "plan_cells blocks arms reps cal = Inr plan"
  then have reps: "1 \<le> reps" and plan: "plan = concat (map (block_cells arms reps cal) blocks)"
    unfolding plan_cells_Inr by blast+
  have "c \<in> set plan \<longleftrightarrow> (\<exists>m cap ts. (m, cap, ts) \<in> set blocks \<and> c \<in> set (block_cells arms reps cal (m, cap, ts)))"
    unfolding plan by (simp add: Bex_def)
  then show ?thesis by (auto simp: planned_cell_def in_block_cells [OF reps])
qed

lemma distinct_concat_map:
  "distinct xs \<Longrightarrow> (\<And>x. x \<in> set xs \<Longrightarrow> distinct (f x)) \<Longrightarrow>
   (\<And>x y. x \<in> set xs \<Longrightarrow> y \<in> set xs \<Longrightarrow> x \<noteq> y \<Longrightarrow> set (f x) \<inter> set (f y) = {}) \<Longrightarrow> distinct (concat (map f xs))"
  by (induction xs) (simp_all, blast)

lemma distinct_task_sweep:
  "distinct arms \<Longrightarrow> rep \<le> reps \<Longrightarrow> distinct (task_sweep model capability arms reps cal rep k)"
  by (auto simp: task_sweep_def distinct_map inj_on_def)

lemma distinct_block:
  assumes arms: "distinct arms" and ids: "distinct (map task_id tasks)"
  shows "distinct (block_cells arms reps cal (model, capability, tasks))"
proof -
  have "distinct tasks" using ids by (simp add: distinct_map)
  have inj: "k \<in> set tasks \<Longrightarrow> l \<in> set tasks \<Longrightarrow> task_id k = task_id l \<Longrightarrow> k = l" for k l
    using ids by (simp add: distinct_map inj_on_def)
  have tasks: "distinct (concat (map (task_sweep model capability arms reps cal rep) tasks))" if "rep \<le> reps" for rep
    by (rule distinct_concat_map [OF \<open>distinct tasks\<close> distinct_task_sweep [OF arms that]]) (auto simp: in_task_sweep dest: inj)
  show ?thesis
    unfolding block_cells_def prod.case
    by (rule distinct_concat_map) (auto simp: in_task_sweep intro!: tasks)
qed



section \<open>Names\<close>

lemma first_segment:
  "CHR ''/'' \<notin> set u \<Longrightarrow> CHR ''/'' \<notin> set v \<Longrightarrow> u @ CHR ''/'' # x = v @ CHR ''/'' # y \<Longrightarrow> u = v \<and> x = y"
proof (induction u arbitrary: v)
  case Nil
  then show ?case by (cases v) auto
next
  case (Cons c u)
  then show ?case by (cases v) auto
qed

lemma str_rsplit_unique:
  assumes "CHR ''/'' \<notin> set u" "CHR ''/'' \<notin> set v" "x @ CHR ''/'' # u = y @ CHR ''/'' # v"
  shows "x = y \<and> u = v"
proof -
  have "rev (x @ CHR ''/'' # u) = rev (y @ CHR ''/'' # v)" using assms(3) by simp
  then have "rev u @ CHR ''/'' # rev x = rev v @ CHR ''/'' # rev y" by simp
  then have "rev u = rev v \<and> rev x = rev y" by (intro first_segment) (use assms(1,2) in simp_all)
  then show ?thesis by simp
qed

lemma slug_no_slash: "CHR ''/'' \<notin> set (model_slug m)"
  by (auto simp: model_slug_def str_replace_char)

lemma vocab_no_slash: "a \<in> set ARMS \<union> set CAPABILITIES \<Longrightarrow> CHR ''/'' \<notin> set a"
  by (auto simp: ARMS_def CAPABILITIES_def)

definition cell_ok :: "cell \<Rightarrow> bool" where
  "cell_ok c = (cell_capability c \<in> set CAPABILITIES \<and> cell_arm c \<in> set ARMS)"

text \<open>a cell id determines the cell up to the folding of its model id: two cells of the closed
  vocabularies have one id exactly when their capability, arm, task and repetition agree and
  their models have one slug.\<close>

theorem cell_id_eq_iff:
  assumes "cell_ok c" "cell_ok d"
  shows "cell_id c = cell_id d \<longleftrightarrow>
     model_slug (cell_model c) = model_slug (cell_model d) \<and> cell_capability c = cell_capability d \<and>
     cell_arm c = cell_arm d \<and> cell_task c = cell_task d \<and> cell_rep c = cell_rep d"
proof
  assume eq: "cell_id c = cell_id d"
  have ns: "CHR ''/'' \<notin> set (cell_capability c)" "CHR ''/'' \<notin> set (cell_arm c)"
    "CHR ''/'' \<notin> set (cell_capability d)" "CHR ''/'' \<notin> set (cell_arm d)"
    using assms vocab_no_slash by (auto simp: cell_ok_def)
  have rep: "CHR ''/'' \<notin> set (CHR ''r'' # str_int n)" for n by simp
  from eq have 1: "model_slug (cell_model c) = model_slug (cell_model d)"
    "cell_capability c @ ''/'' @ cell_arm c @ ''/'' @ cell_task c @ ''/r'' @ str_int (cell_rep c) =
     cell_capability d @ ''/'' @ cell_arm d @ ''/'' @ cell_task d @ ''/r'' @ str_int (cell_rep d)"
    using first_segment [OF slug_no_slash slug_no_slash] by (auto simp: cell_id_def)
  from 1(2) have 2: "cell_capability c = cell_capability d"
    "cell_arm c @ ''/'' @ cell_task c @ ''/r'' @ str_int (cell_rep c) =
     cell_arm d @ ''/'' @ cell_task d @ ''/r'' @ str_int (cell_rep d)"
    using first_segment [OF ns(1,3)] by auto
  from 2(2) have 3: "cell_arm c = cell_arm d"
    "cell_task c @ CHR ''/'' # (CHR ''r'' # str_int (cell_rep c)) = cell_task d @ CHR ''/'' # (CHR ''r'' # str_int (cell_rep d))"
    using first_segment [OF ns(2,4)] by auto
  from str_rsplit_unique [OF rep rep 3(2)]
  show "model_slug (cell_model c) = model_slug (cell_model d) \<and> cell_capability c = cell_capability d \<and>
     cell_arm c = cell_arm d \<and> cell_task c = cell_task d \<and> cell_rep c = cell_rep d"
    using 1(1) 2(1) 3(1) by (auto dest: str_int_inj)
qed (simp add: cell_id_def)

theorem cell_id_eq_iff_witness:
  "cell_id (demo_cell ''baseline'' 1) \<noteq> cell_id (demo_cell ''baseline'' 2)"
  using cell_id_eq_iff [of "demo_cell ''baseline'' 1" "demo_cell ''baseline'' 2"]
  by (simp add: cell_ok_def demo_cell_def CAPABILITIES_def ARMS_def)

text \<open>Two model ids that differ only in where they have a slash or a dash fold to one slug, and then
  two different cells share a directory and a result file.\<close>

lemma slug_collision:
  assumes "model_slug m = model_slug m'"
  shows "cell_dir_for w (c\<lparr>cell_model := m\<rparr>) = cell_dir_for w (c\<lparr>cell_model := m'\<rparr>) \<and>
         result_path r (c\<lparr>cell_model := m\<rparr>) = result_path r (c\<lparr>cell_model := m'\<rparr>)"
  using assms by (simp add: cell_dir_for_def result_path_def result_name_def)

lemma slug_collides: "model_slug ''a/b'' = model_slug ''a-b''"
  by (simp add: model_slug_def str_replace_char)

end
