(* ===== verification/Bench_Arms.thy ===== *)
theory Bench_Arms
  imports Bench_Plan Wiring_Config
begin

text \<open>
  \<open>scripts/conductor_bench.py\<close>, the arms: the opencode configuration, argument vector and
  environment one arm of one cell runs with, the doctrine prompt, the served window, and the
  check that a configuration names no missing file.

  \<open>base_config\<close> is a document, \<open>md5\<close> the digest of a text (\<open>hashlib\<close>), \<open>fetch\<close> the HTTP
  request, \<open>cell_path\<close> the executable search path the driver started with.
\<close>

datatype arm_error =
    ArmUnknown string
  | ArmWiring wiring_error
  | ModelSpelling string
  | NoProvider string
  | ModelEntryNotObject json
  | NoListen
  | NoListenHost
  | NoListenPort
  | NoLedgerPath
  | NoUpstream
  | NoUpstreamAddress
  | NoPacks path
  | PackUnreadable path
  | NoServedContext json
  | ProbeFailed string
  | WorkDirRelative path
  | MissingConfigPaths "string list"

definition DOCTRINE_PROMPT_NAME :: string where "DOCTRINE_PROMPT_NAME = ''doctrine-prompt.md''"

definition arm_agent :: "string \<Rightarrow> string" where
  "arm_agent arm = (case dget ARM_AGENTS arm of None \<Rightarrow> [] | Some a \<Rightarrow> a)"

section \<open>The router's addresses\<close>

definition router_base_url :: "jobj \<Rightarrow> (arm_error, string) res" where
  "router_base_url router_config =
     (case jget router_config ''listen'' of
        JObj listen \<Rightarrow>
          (case jget listen ''host'' of
             JStr host \<Rightarrow>
               (if host = [] then Inl NoListenHost
                else (case strict_int (jget listen ''port'') of
                        None \<Rightarrow> Inl NoListenPort
                      | Some port \<Rightarrow> Inr (openai_base_url host port)))
           | _ \<Rightarrow> Inl NoListenHost)
      | _ \<Rightarrow> Inl NoListen)"

definition ledger_path_of :: "jobj \<Rightarrow> (arm_error, path) res" where
  "ledger_path_of router_config =
     (case jget router_config ''metrics'' of
        JObj metrics \<Rightarrow> (case jget metrics ''ledgerPath'' of JStr s \<Rightarrow> Inr (path_of s) | _ \<Rightarrow> Inl NoLedgerPath)
      | _ \<Rightarrow> Inl NoLedgerPath)"

section \<open>The doctrine\<close>

definition doctrine_packs :: "fs \<Rightarrow> path \<Rightarrow> path list" where
  "doctrine_packs t directory = sort (filter (\<lambda>p. glob ''*.md'' (path_name p)) (fs_children t directory))"

definition pack_chunk :: "fs \<Rightarrow> path \<Rightarrow> (arm_error, string) res" where
  "pack_chunk t pack =
     (case fs_read t pack of
        None \<Rightarrow> Inl (PackUnreadable pack)
      | Some body \<Rightarrow> Inr (''# '' @ path_name pack @ [CHR 0x0A, CHR 0x0A] @ body @ [CHR 0x0A]))"

definition build_doctrine_prompt :: "fs \<Rightarrow> path \<Rightarrow> (arm_error, string) res" where
  "build_doctrine_prompt t directory =
     (let packs = doctrine_packs t directory in
      if packs = [] then Inl (NoPacks directory)
      else bindE (mapE (pack_chunk t) packs) (\<lambda>chunks. Inr (str_join [CHR 0x0A] chunks)))"

definition doctrine_digest :: "(string \<Rightarrow> string) \<Rightarrow> fs \<Rightarrow> path \<Rightarrow> (arm_error, string) res" where
  "doctrine_digest md5 t directory = bindE (build_doctrine_prompt t directory) (\<lambda>s. Inr (md5 s))"

definition write_doctrine_prompt :: "path \<Rightarrow> path \<Rightarrow> fs \<Rightarrow> (arm_error, fs \<times> path) res" where
  "write_doctrine_prompt cell_dir directory t =
     (let target = path_join cell_dir DOCTRINE_PROMPT_NAME; t' = fs_mkdir (path_parent target) t in
      bindE (build_doctrine_prompt t' directory) (\<lambda>s. Inr (fs_write target s t', target)))"

section \<open>The configuration of an arm\<close>

definition split_model :: "string \<Rightarrow> string \<times> string" where
  \<comment> \<open>\<open>model.partition("/")\<close>: before and after the first slash\<close>
  "split_model model =
     (takeWhile (\<lambda>c. c \<noteq> CHR ''/'') model, drop 1 (dropWhile (\<lambda>c. c \<noteq> CHR ''/'') model))"

definition model_entry :: "json \<Rightarrow> string \<Rightarrow> (arm_error, jobj) res" where
  \<comment> \<open>\<open>models.get(model_name) or {}\<close>, on which a key is then set\<close>
  "model_entry models name =
     (case models of
        JObj ms \<Rightarrow>
          (if \<not> truthy (jget ms name) then Inr []
           else (case jget ms name of JObj e \<Rightarrow> Inr e | other \<Rightarrow> Inl (ModelEntryNotObject other)))
      | _ \<Rightarrow> Inr [])"

definition arm_provider :: "string \<Rightarrow> jobj \<Rightarrow> string \<Rightarrow> int \<Rightarrow> (arm_error, jobj) res" where
  \<comment> \<open>the provider block, pointed at the router and holding the one model with its limit\<close>
  "arm_provider base_url provider name per_slot_ctx =
     (let options = (case jget provider ''options'' of JObj o' \<Rightarrow> o' | _ \<Rightarrow> []);
          provider = dset ''options'' (JObj (dset ''baseURL'' (JStr base_url) options)) provider
      in bindE (model_entry (jget provider ''models'') name) (\<lambda>entry.
         bindE (map_error ArmWiring (opencode_model_limit (JInt per_slot_ctx))) (\<lambda>limit.
         Inr (dset ''models'' (JObj [(name, JObj (dset ''limit'' (JObj limit) entry))]) provider))))"

definition shared_config :: "string \<Rightarrow> jobj \<Rightarrow> jobj \<Rightarrow> int \<Rightarrow> (arm_error, jobj) res" where
  \<comment> \<open>what every arm's configuration is built from\<close>
  "shared_config model router_config base_config per_slot_ctx =
     (let (provider_id, name) = split_model model in
      if provider_id = [] \<or> name = [] then Inl (ModelSpelling model)
      else
        (case jget base_config ''provider'' of
           JObj providers \<Rightarrow>
             (case jget providers provider_id of
                JObj provider \<Rightarrow>
                  bindE (router_base_url router_config) (\<lambda>base_url.
                  bindE (arm_provider base_url provider name per_slot_ctx) (\<lambda>provider.
                  Inr (dset ''autoupdate'' (JBool False)
                        (dset ''small_model'' (JStr model)
                          (dset ''model'' (JStr model)
                            (dset ''provider'' (JObj (dset provider_id (JObj provider) providers)) base_config))))))
              | _ \<Rightarrow> Inl (NoProvider provider_id))
         | _ \<Rightarrow> Inl (NoProvider provider_id)))"

definition build_arm_config ::
  "fs \<Rightarrow> path \<Rightarrow> string \<Rightarrow> string \<Rightarrow> jobj \<Rightarrow> path \<Rightarrow> jobj \<Rightarrow> int \<Rightarrow> (arm_error, jobj) res" where
  "build_arm_config t repo_root arm model router_config cell_dir base_config per_slot_ctx =
     (if arm \<notin> set ARMS then Inl (ArmUnknown arm)
      else
        bindE (shared_config model router_config base_config per_slot_ctx) (\<lambda>config.
          if arm = ''doctrine'' then
            Inr (dset ''agent''
                  (JObj [(arm_agent ''doctrine'',
                          JObj [(''prompt'', JStr (''{file:'' @ path_str (path_join cell_dir DOCTRINE_PROMPT_NAME) @ ''}''))])])
                  config)
          else if arm = ''conductor'' then
            bindE (map_error ArmWiring (load_fragment repo_root t)) (\<lambda>raw.
              case substitute_harness_root (path_str repo_root) (JObj raw) of
                JObj fragment \<Rightarrow> Inr (merge_opencode_fragment config fragment)
              | other \<Rightarrow> Inl (ArmWiring (NoGetAttribute other)))
          else Inr config))"

section \<open>The served window\<close>

definition parse_served_context :: "json \<Rightarrow> (arm_error, int) res" where
  "parse_served_context payload =
     (let settings = (case payload of JObj p \<Rightarrow> jget p ''default_generation_settings'' | _ \<Rightarrow> JNull);
          n_ctx = (case settings of JObj s \<Rightarrow> jget s ''n_ctx'' | _ \<Rightarrow> JNull)
      in case strict_int n_ctx of
           Some n \<Rightarrow> (if n \<le> 0 then Inl (NoServedContext n_ctx) else Inr n)
         | None \<Rightarrow> Inl (NoServedContext n_ctx))"

definition served_per_slot_context :: "jobj \<Rightarrow> string \<Rightarrow> (string \<Rightarrow> string option) \<Rightarrow> (arm_error, int) res" where
  "served_per_slot_context router_config model fetch =
     (case jget router_config ''upstream'' of
        JObj upstream \<Rightarrow>
          (case (jget upstream ''host'', strict_int (jget upstream ''port'')) of
             (JStr host, Some port) \<Rightarrow>
               (if host = [] then Inl NoUpstreamAddress
                else
                  (let url = ''http://'' @ host @ '':'' @ str_int port @ ''/props?model='' @ snd (split_model model) in
                   case fetch url of
                     None \<Rightarrow> Inl (ProbeFailed url)
                   | Some raw \<Rightarrow>
                       (case json_loads raw of
                          None \<Rightarrow> Inl (ProbeFailed url)
                        | Some payload \<Rightarrow> parse_served_context payload)))
           | _ \<Rightarrow> Inl NoUpstreamAddress)
      | _ \<Rightarrow> Inl NoUpstream)"

section \<open>Arguments and environment\<close>

definition build_opencode_argv :: "string \<Rightarrow> string \<Rightarrow> path \<Rightarrow> string \<Rightarrow> (arm_error, string list) res" where
  "build_opencode_argv arm model work_dir prompt =
     (if arm \<notin> set ARMS then Inl (ArmUnknown arm)
      else if \<not> is_abs work_dir then Inl (WorkDirRelative work_dir)
      else Inr [''opencode'', ''run'', ''--model'', model, ''--agent'', arm_agent arm, prompt])"

definition hermetic_home_env :: "string \<Rightarrow> path \<Rightarrow> (string, string) dict" where
  "hermetic_home_env cell_path home =
     [(''PATH'', cell_path), (''HOME'', path_str home),
      (''XDG_CONFIG_HOME'', path_str (path_join home ''config'')),
      (''XDG_STATE_HOME'', path_str (path_join home ''state'')),
      (''XDG_DATA_HOME'', path_str (path_join home ''data'')),
      (''XDG_CACHE_HOME'', path_str (path_join home ''cache''))]"

definition build_cell_env :: "string \<Rightarrow> path \<Rightarrow> path \<Rightarrow> (string, string) dict" where
  "build_cell_env cell_path cell_dir config_path =
     (let home = path_join cell_dir ''home'' in
      dset ''OPENCODE_TEST_HOME'' (path_str home)
        (dset ''OPENCODE_CONFIG'' (path_str config_path) (hermetic_home_env cell_path home)))"

section \<open>File references\<close>

definition file_refs :: "jobj \<Rightarrow> string list" where
  "file_refs config = dedup (map strip (find_file_refs (json_dumps (JObj config))))"

definition names_file :: "fs \<Rightarrow> string \<Rightarrow> bool" where
  "names_file t s = (is_abs (path_of s) \<and> fs_is_file t (path_of s))"

definition validate_config_file_refs :: "fs \<Rightarrow> jobj \<Rightarrow> (arm_error, unit) res" where
  "validate_config_file_refs t config =
     (let plugins = (case jget config ''plugin'' of JArr xs \<Rightarrow> List.map_filter the_str xs | _ \<Rightarrow> []);
          missing = dedup (filter (\<lambda>s. \<not> names_file t s) (file_refs config @ plugins))
      in if missing = [] then Inr () else Inl (MissingConfigPaths missing))"

section \<open>What the arms share\<close>

lemma arm_agent_simps: "arm_agent ''baseline'' = ''build''" "arm_agent ''doctrine'' = ''build''"
  "arm_agent ''conductor'' = ''conductor-orchestrator''"
  by (simp_all add: arm_agent_def ARM_AGENTS_def)

lemma substitute_obj: "\<exists>d'. substitute_harness_root r (JObj d) = JObj d' \<and> map fst d' = map fst d"
  by (simp add: comp_def)

lemma shared_config_get:
  assumes "shared_config model router_config base per_slot = Inr c"
  shows "\<exists>url pid name ps p. router_base_url router_config = Inr url \<and> split_model model = (pid, name) \<and>
     dget c ''provider'' = Some (JObj ps) \<and> dget ps pid = Some (JObj p) \<and>
     get_path (JObj p) [''options'', ''baseURL''] = Some (JStr url) \<and>
     get_path (JObj p) [''models'', name, ''limit'', ''context''] = Some (JInt per_slot) \<and>
     dget c ''model'' = Some (JStr model) \<and> dget c ''autoupdate'' = Some (JBool False)"
proof -
  obtain pid name where pn: "split_model model = (pid, name)" by fastforce
  from assms obtain ps p where ps: "jget base ''provider'' = JObj ps" "jget ps pid = JObj p"
    by (auto simp: shared_config_def pn split: json.splits if_splits)
  from assms obtain url p' where url: "router_base_url router_config = Inr url"
    and p': "arm_provider url p name per_slot = Inr p'"
    and c: "c = dset ''autoupdate'' (JBool False) (dset ''small_model'' (JStr model) (dset ''model'' (JStr model)
              (dset ''provider'' (JObj (dset pid (JObj p') ps)) base)))"
    by (auto simp: shared_config_def pn ps bindE_eq_Inr split: if_splits)
  have "get_path (JObj p') [''options'', ''baseURL''] = Some (JStr url) \<and>
     get_path (JObj p') [''models'', name, ''limit'', ''context''] = Some (JInt per_slot)"
    using p' by (auto simp: arm_provider_def bindE_eq_Inr map_error_Inr opencode_model_limit_def Let_def split: if_splits)
  then show ?thesis using pn url by (simp add: c)
qed

lemma merge_keeps_others: "k \<notin> fst ` set ov \<Longrightarrow> dget (deep_merge b ov) k = dget b k"
  by (induction ov arbitrary: b) auto

text \<open>Every arm's configuration, on a key its own part does not name, is the shared one.\<close>

lemma arm_config_get:
  assumes "build_arm_config t root arm model rc cell_dir base ctx = Inr c"
    and "arm = ''doctrine'' \<longrightarrow> k \<noteq> ''agent''"
    and "arm = ''conductor'' \<longrightarrow> (\<forall>f. load_fragment root t = Inr f \<longrightarrow> k \<notin> fst ` set f)"
  shows "\<exists>b. shared_config model rc base ctx = Inr b \<and> dget c k = dget b k"
proof -
  from assms(1) obtain b where b: "shared_config model rc base ctx = Inr b"
    by (auto simp: build_arm_config_def bindE_eq_Inr split: if_splits)
  have "dget c k = dget b k"
  proof (cases "arm = ''conductor''")
    case True
    obtain raw where raw: "load_fragment root t = Inr raw"
      using assms(1) b True by (auto simp: build_arm_config_def bindE_eq_Inr map_error_Inr split: if_splits)
    obtain f' where f': "substitute_harness_root (path_str root) (JObj raw) = JObj f'" "map fst f' = map fst raw"
      using substitute_obj by blast
    have "c = deep_merge b f'"
      using assms(1) b f'(1) raw True
      by (auto simp: build_arm_config_def bindE_eq_Inr map_error_Inr merge_opencode_fragment_def
          simp del: substitute_harness_root.simps split: if_splits)
    moreover have "fst ` set f' = fst ` set raw" using f'(2) by (metis list.set_map)
    ultimately show ?thesis using assms(3) True raw by (simp add: merge_keeps_others)
  next
    case False
    then show ?thesis using assms(1,2) b by (auto simp: build_arm_config_def bindE_eq_Inr split: if_splits)
  qed
  then show ?thesis using b by blast
qed

text \<open>the arms differ in the process and in nothing else: the doctrine arm's configuration agrees
  with the baseline's on every key but \<open>agent\<close>, and the conductor arm's on every key its
  fragment does not name.\<close>

theorem arms_share_their_config:
  assumes "build_arm_config t root ''baseline'' model rc cell_dir base ctx = Inr b"
    and "build_arm_config t root ''doctrine'' model rc cell_dir base ctx = Inr d"
    and "build_arm_config t root ''conductor'' model rc cell_dir base ctx = Inr c"
    and "load_fragment root t = Inr fragment" "k \<noteq> ''agent''" "k \<notin> fst ` set fragment"
  shows "dget d k = dget b k \<and> dget c k = dget b k"
  using arm_config_get [OF assms(1), of k] arm_config_get [OF assms(2), of k] arm_config_get [OF assms(3), of k] assms(4-6)
  by auto

definition demo_root :: path where "demo_root = Path ''/'' [''srv'']"

definition demo_fs :: fs where
  "demo_fs = [(path_join demo_root FRAGMENT_RELPATH, NFile (json_file (JObj [(''agent'', JObj [])])))]"

definition demo_router :: jobj where
  "demo_router = [(''listen'', JObj [(''host'', JStr ''h''), (''port'', JInt 8088)])]"

definition demo_base_config :: jobj where
  "demo_base_config = [(''provider'', JObj [(''llamacpp'', JObj [(''models'', JObj [])])])]"

lemma demo_fragment_loads: "load_fragment demo_root demo_fs = Inr [(''agent'', JObj [])]"
proof -
  have "json_loads (json_file (JObj [(''agent'', JObj [])])) = Some (JObj [(''agent'', JObj [])])"
    by (rule doc.dec_enc) (simp add: plain_json_def)
  then show ?thesis by (simp add: load_fragment_def demo_fs_def fs_read_def Let_def)
qed

lemma demo_shared: "\<exists>b. shared_config ''llamacpp/m'' demo_router demo_base_config 65536 = Inr b"
  by (simp add: shared_config_def split_model_def demo_router_def demo_base_config_def jget_def router_base_url_def
      arm_provider_def model_entry_def map_error_def opencode_model_limit_def)

lemma demo_arms:
  "\<exists>b. build_arm_config demo_fs demo_root ''baseline'' ''llamacpp/m'' demo_router demo_root demo_base_config 65536 = Inr b"
  "\<exists>b. build_arm_config demo_fs demo_root ''doctrine'' ''llamacpp/m'' demo_router demo_root demo_base_config 65536 = Inr b"
  "\<exists>b. build_arm_config demo_fs demo_root ''conductor'' ''llamacpp/m'' demo_router demo_root demo_base_config 65536 = Inr b"
  using demo_shared demo_fragment_loads by (auto simp: build_arm_config_def ARMS_def map_error_def)

theorem arms_share_their_config_witness:
  "\<exists>b d c. build_arm_config demo_fs demo_root ''baseline'' ''llamacpp/m'' demo_router demo_root demo_base_config 65536 = Inr b \<and>
     build_arm_config demo_fs demo_root ''doctrine'' ''llamacpp/m'' demo_router demo_root demo_base_config 65536 = Inr d \<and>
     build_arm_config demo_fs demo_root ''conductor'' ''llamacpp/m'' demo_router demo_root demo_base_config 65536 = Inr c \<and>
     dget d ''provider'' = dget b ''provider'' \<and> dget c ''provider'' = dget b ''provider''"
proof -
  obtain b d c where
    "build_arm_config demo_fs demo_root ''baseline'' ''llamacpp/m'' demo_router demo_root demo_base_config 65536 = Inr b"
    "build_arm_config demo_fs demo_root ''doctrine'' ''llamacpp/m'' demo_router demo_root demo_base_config 65536 = Inr d"
    "build_arm_config demo_fs demo_root ''conductor'' ''llamacpp/m'' demo_router demo_root demo_base_config 65536 = Inr c"
    using demo_arms by blast
  moreover from arms_share_their_config [OF this demo_fragment_loads, of "''provider''"]
  have "dget d ''provider'' = dget b ''provider'' \<and> dget c ''provider'' = dget b ''provider''" by simp
  ultimately show ?thesis by blast
qed

text \<open>every arm is measured through the router: its provider's base URL is the router's listen
  address, its model's window is the one the server reports, and the configuration pins the
  model and turns updates off, as long as the conductor's fragment leaves the provider alone.\<close>

theorem arm_points_at_the_router:
  assumes "build_arm_config t root arm model rc cell_dir base ctx = Inr c"
    and "\<forall>f. load_fragment root t = Inr f \<longrightarrow> ''provider'' \<notin> fst ` set f"
  shows "\<exists>url. router_base_url rc = Inr url \<and>
    get_path (JObj c) [''provider'', fst (split_model model), ''options'', ''baseURL''] = Some (JStr url) \<and>
    get_path (JObj c) [''provider'', fst (split_model model), ''models'', snd (split_model model), ''limit'', ''context'']
      = Some (JInt ctx)"
proof -
  obtain b where b: "shared_config model rc base ctx = Inr b" "dget c ''provider'' = dget b ''provider''"
    using arm_config_get [OF assms(1), of "''provider''"] assms(2) by auto
  show ?thesis using shared_config_get [OF b(1)] b(2) by auto
qed

theorem arm_points_at_the_router_witness:
  "\<exists>c. build_arm_config demo_fs demo_root ''conductor'' ''llamacpp/m'' demo_router demo_root demo_base_config 65536 = Inr c \<and>
     get_path (JObj c) [''provider'', ''llamacpp'', ''options'', ''baseURL''] = Some (JStr (openai_base_url ''h'' 8088))"
proof -
  obtain c where c: "build_arm_config demo_fs demo_root ''conductor'' ''llamacpp/m'' demo_router demo_root demo_base_config 65536 = Inr c"
    using demo_arms by blast
  have url: "router_base_url demo_router = Inr (openai_base_url ''h'' 8088)"
    by (simp add: router_base_url_def demo_router_def jget_def)
  have "split_model ''llamacpp/m'' = (''llamacpp'', ''m'')" by (simp add: split_model_def)
  then show ?thesis
    using arm_points_at_the_router [OF c] c url by (auto simp: demo_fragment_loads)
qed

end
