(* ===== verification/Bench_Ledger.thy ===== *)
theory Bench_Ledger
  imports Py_Json Py_Path Py_Glob
begin

text \<open>
  \<open>scripts/conductor_bench.py\<close>, what a cell leaves behind: the window of the router ledger it
  added, and the plugin's own record of the run (retries, sub-sessions, waves, upheld findings,
  overrides, the recorded stop). Modification times are the argument \<open>mtime\<close>.
\<close>

section \<open>The ledger window\<close>

text \<open>\<open>readlines()\<close>: lines with their newline, the last one possibly without.\<close>

fun lines_of :: "string \<Rightarrow> string list" where
  "lines_of [] = []"
| "lines_of (c # s) =
     (if c = CHR 0x0A then [c] # lines_of s
      else (case lines_of s of [] \<Rightarrow> [[c]] | l # ls \<Rightarrow> (c # l) # ls))"

definition ledger_line_count :: "fs \<Rightarrow> path \<Rightarrow> nat" where
  "ledger_line_count t p = (case fs_read t p of None \<Rightarrow> 0 | Some s \<Rightarrow> length (lines_of s))"

definition ledger_slice :: "fs \<Rightarrow> path \<Rightarrow> nat \<Rightarrow> string list" where
  "ledger_slice t p start_line = (case fs_read t p of None \<Rightarrow> [] | Some s \<Rightarrow> drop start_line (lines_of s))"

record window =
  w_prompt :: "int option"
  w_completion :: "int option"
  w_total :: "int option"
  w_partial :: bool
  w_router_errors :: int
  w_requests :: "int option"

record tally =
  t_prompt :: int
  t_completion :: int
  t_partial :: bool
  t_errors :: int
  t_requests :: int

definition field_or_zero :: "json \<Rightarrow> int" where
  "field_or_zero j = (case strict_int j of Some n \<Rightarrow> n | None \<Rightarrow> 0)"

definition tally_line :: "tally \<Rightarrow> string \<Rightarrow> tally" where
  "tally_line a line =
     (let txt = strip line in
      if txt = [] then a
      else
        (case json_loads txt of
           Some (JObj record) \<Rightarrow>
             (let status = strict_int (jget record ''status'');
                  p = strict_int (jget record ''promptTokens'');
                  c = strict_int (jget record ''completionTokens'')
              in a\<lparr>t_requests := t_requests a + 1,
                   t_errors := t_errors a + (case status of Some n \<Rightarrow> (if n < 200 \<or> n \<ge> 300 then 1 else 0) | None \<Rightarrow> 0),
                   t_prompt := t_prompt a + (case p of Some n \<Rightarrow> n | None \<Rightarrow> 0),
                   t_completion := t_completion a + (case c of Some n \<Rightarrow> n | None \<Rightarrow> 0),
                   t_partial := t_partial a \<or> p = None \<or> c = None\<rparr>)
         | _ \<Rightarrow> a\<lparr>t_partial := True\<rparr>))"

definition tally_lines :: "string list \<Rightarrow> tally" where
  "tally_lines ls =
     foldl tally_line \<lparr>t_prompt = 0, t_completion = 0, t_partial = (ls = []), t_errors = 0, t_requests = 0\<rparr> ls"

definition summarize_ledger_window :: "fs \<Rightarrow> path \<Rightarrow> nat \<Rightarrow> window" where
  "summarize_ledger_window t p start_line =
     (case fs_read t p of
        None \<Rightarrow> \<lparr>w_prompt = None, w_completion = None, w_total = None, w_partial = True, w_router_errors = 0, w_requests = None\<rparr>
      | Some s \<Rightarrow>
          (let a = tally_lines (drop start_line (lines_of s)) in
           \<lparr>w_prompt = Some (t_prompt a), w_completion = Some (t_completion a),
            w_total = Some (t_prompt a + t_completion a), w_partial = t_partial a,
            w_router_errors = t_errors a, w_requests = Some (t_requests a)\<rparr>))"

section \<open>The plugin's record of the run\<close>

definition runs_dir :: "path \<Rightarrow> path" where
  "runs_dir work_dir = path_join (path_join work_dir ''.conductor'') ''runs''"

text \<open>\<open>max(candidates, key=...)\<close>: the first of the greatest.\<close>

fun max_by :: "('a \<Rightarrow> int) \<Rightarrow> 'a list \<Rightarrow> 'a option" where
  "max_by f [] = None"
| "max_by f (x # xs) = (case max_by f xs of None \<Rightarrow> Some x | Some y \<Rightarrow> (if f x \<ge> f y then Some x else Some y))"

definition newest_run_dir :: "fs \<Rightarrow> (path \<Rightarrow> int) \<Rightarrow> path \<Rightarrow> path option" where
  "newest_run_dir t mtime work_dir =
     (if \<not> fs_is_dir t (runs_dir work_dir) then None
      else max_by mtime (filter (fs_is_dir t) (fs_children t (runs_dir work_dir))))"

definition journal_entries :: "string \<Rightarrow> jobj list" where
  \<comment> \<open>the lines of a journal that are JSON objects\<close>
  "journal_entries s =
     List.map_filter (\<lambda>l. if strip l = [] then None
                          else (case json_loads (strip l) of Some (JObj d) \<Rightarrow> Some d | _ \<Rightarrow> None)) (splitlines s)"

definition is_event :: "string \<Rightarrow> jobj \<Rightarrow> bool" where
  "is_event event entry = (jget entry ''component'' = JStr ''fanout'' \<and> jget entry ''event'' = JStr event)"

definition count_schema_retries :: "fs \<Rightarrow> path \<Rightarrow> int" where
  "count_schema_retries t journal =
     (case fs_read t journal of None \<Rightarrow> 0 | Some s \<Rightarrow> int (count_if (is_event ''subsession.retry'') (journal_entries s)))"

definition dispatches_role :: "jobj \<Rightarrow> bool" where
  "dispatches_role entry =
     (is_event ''subsession.dispatched'' entry \<and>
      (case jget entry ''data'' of JObj d \<Rightarrow> is_str (jget d ''role'') | _ \<Rightarrow> False))"

definition count_sub_sessions :: "fs \<Rightarrow> path \<Rightarrow> int" where
  "count_sub_sessions t journal =
     (case fs_read t journal of None \<Rightarrow> 0 | Some s \<Rightarrow> int (count_if dispatches_role (journal_entries s)))"

definition read_wave_count :: "fs \<Rightarrow> path \<Rightarrow> int option" where
  "read_wave_count t run_dir =
     (case fs_read t (path_join run_dir ''journal.jsonl'') of
        None \<Rightarrow> None
      | Some s \<Rightarrow> Some (int (count_if (is_event ''wave'') (journal_entries s))))"

definition upheld_in :: "json \<Rightarrow> int" where
  "upheld_in document =
     (case document of
        JObj d \<Rightarrow>
          (case jget d ''verdicts'' of
             JArr vs \<Rightarrow> int (count_if (\<lambda>v. case v of JObj e \<Rightarrow> jget e ''upheld'' = JBool True | _ \<Rightarrow> False) vs)
           | _ \<Rightarrow> 0)
      | _ \<Rightarrow> 0)"

definition count_upheld_findings :: "fs \<Rightarrow> path \<Rightarrow> int option" where
  "count_upheld_findings t reviews_dir =
     (if \<not> fs_is_dir t reviews_dir then None
      else Some (sum_list (map (\<lambda>p. case fs_read t p of
                                     None \<Rightarrow> 0
                                   | Some s \<Rightarrow> (case json_loads s of None \<Rightarrow> 0 | Some j \<Rightarrow> upheld_in j))
                  (sort (filter (\<lambda>p. glob ''*.json'' (path_name p)) (fs_children t reviews_dir))))))"

definition read_run_json :: "fs \<Rightarrow> path \<Rightarrow> jobj" where
  "read_run_json t p =
     (case fs_read t p of None \<Rightarrow> [] | Some s \<Rightarrow> (case json_loads s of Some (JObj d) \<Rightarrow> d | _ \<Rightarrow> []))"

definition read_overrides_used :: "fs \<Rightarrow> path \<Rightarrow> int option" where
  "read_overrides_used t p =
     (case jget (read_run_json t p) ''counters'' of
        JObj counters \<Rightarrow> strict_int (jget counters ''overridesUsed'')
      | _ \<Rightarrow> None)"

definition read_stop_kind :: "string list \<Rightarrow> fs \<Rightarrow> path \<Rightarrow> string option" where
  "read_stop_kind terminal_states t p =
     (let document = read_run_json t p;
          recorded = (case jget document ''stop'' of JObj stop \<Rightarrow> the_str (jget stop ''kind'') | _ \<Rightarrow> None)
      in case recorded of
           Some kind \<Rightarrow> Some kind
         | None \<Rightarrow>
             (case jget document ''state'' of
                JStr state \<Rightarrow> (if state \<in> set terminal_states then Some state else None)
              | _ \<Rightarrow> None))"

record metrics =
  m_schema_retries :: "int option"
  m_review_findings_upheld :: "int option"
  m_overrides_used :: "int option"
  m_stop_kind :: "string option"
  m_sub_sessions :: "int option"
  m_waves :: "int option"
  m_plugin_absent :: "bool option"

definition no_metrics :: "bool option \<Rightarrow> metrics" where
  "no_metrics absent =
     \<lparr>m_schema_retries = None, m_review_findings_upheld = None, m_overrides_used = None, m_stop_kind = None,
      m_sub_sessions = None, m_waves = None, m_plugin_absent = absent\<rparr>"

definition collect_conductor_metrics :: "string list \<Rightarrow> fs \<Rightarrow> (path \<Rightarrow> int) \<Rightarrow> path \<Rightarrow> metrics" where
  "collect_conductor_metrics terminal_states t mtime work_dir =
     (case newest_run_dir t mtime work_dir of
        None \<Rightarrow> no_metrics (Some True)
      | Some run_dir \<Rightarrow>
          \<lparr>m_schema_retries = Some (count_schema_retries t (path_join run_dir ''journal.jsonl'')),
           m_review_findings_upheld = count_upheld_findings t (path_join run_dir ''reviews''),
           m_overrides_used = read_overrides_used t (path_join run_dir ''run.json''),
           m_stop_kind = read_stop_kind terminal_states t (path_join run_dir ''run.json''),
           m_sub_sessions = Some (count_sub_sessions t (path_join run_dir ''journal.jsonl'')),
           m_waves = read_wave_count t run_dir,
           m_plugin_absent = Some False\<rparr>)"

definition collect_metrics :: "string list \<Rightarrow> string \<Rightarrow> fs \<Rightarrow> (path \<Rightarrow> int) \<Rightarrow> path \<Rightarrow> metrics" where
  "collect_metrics terminal_states arm t mtime work_dir =
     (if arm \<noteq> ''conductor'' then no_metrics None
      else collect_conductor_metrics terminal_states t mtime work_dir)"

section \<open>A window holds exactly what was added\<close>

lemma lines_of_nl_append: "lines_of (s @ CHR 0x0A # r) = lines_of (s @ [CHR 0x0A]) @ lines_of r"
proof (induction s)
  case (Cons c s)
  have "lines_of (s @ [CHR 0x0A]) \<noteq> []" by (cases s) (auto split: list.splits)
  then show ?case using Cons by (auto split: list.splits)
qed simp

text \<open>the window a cell is charged for is exactly what the router appended while it ran: with the
  line count taken before, a ledger of whole lines and any text appended to it, the slice is
  the appended lines and the summary is the summary of the appended text alone.\<close>

theorem ledger_window_is_what_was_added:
  assumes "fs_read t p = Some old" "old = [] \<or> last old = CHR 0x0A" "fs_read t' p = Some (old @ new)"
  shows "ledger_slice t' p (ledger_line_count t p) = lines_of new \<and>
    summarize_ledger_window t' p (ledger_line_count t p) = summarize_ledger_window (fs_write p new t') p 0"
proof -
  have "lines_of (old @ new) = lines_of old @ lines_of new"
  proof (cases old rule: rev_cases)
    case (snoc s c)
    then show ?thesis using assms(2) lines_of_nl_append [of s new] by simp
  qed simp
  then show ?thesis using assms by (simp add: ledger_slice_def ledger_line_count_def summarize_ledger_window_def)
qed

definition one_line :: string where "one_line = ''x'' @ [CHR 0x0A]"

theorem ledger_window_is_what_was_added_witness:
  "ledger_slice [(path_of ''/l'', NFile (one_line @ ''{}''))] (path_of ''/l'')
     (ledger_line_count [(path_of ''/l'', NFile one_line)] (path_of ''/l'')) = [''{}'']"
proof -
  let ?t = "[(path_of ''/l'', NFile one_line)]" and ?t' = "[(path_of ''/l'', NFile (one_line @ ''{}''))]"
  have "fs_read ?t (path_of ''/l'') = Some one_line" "fs_read ?t' (path_of ''/l'') = Some (one_line @ ''{}'')"
    "one_line = [] \<or> last one_line = CHR 0x0A" by (simp_all add: fs_read_def one_line_def)
  from ledger_window_is_what_was_added [OF this(1) this(3) this(2)]
  have "ledger_slice ?t' (path_of ''/l'') (ledger_line_count ?t (path_of ''/l'')) = lines_of ''{}''" by (rule conjunct1)
  then show ?thesis by simp
qed

definition tally_plus :: "tally \<Rightarrow> tally \<Rightarrow> tally" where
  "tally_plus a b =
     \<lparr>t_prompt = t_prompt a + t_prompt b, t_completion = t_completion a + t_completion b,
      t_partial = (t_partial a \<or> t_partial b), t_errors = t_errors a + t_errors b, t_requests = t_requests a + t_requests b\<rparr>"

lemma tally_line_plus: "tally_line (tally_plus a b) l = tally_plus a (tally_line b l)"
  by (auto simp: tally_line_def tally_plus_def Let_def split: option.split json.split)

lemma foldl_tally_plus: "foldl tally_line (tally_plus a b) ls = tally_plus a (foldl tally_line b ls)"
  by (induction ls arbitrary: b) (simp_all add: tally_line_plus)

lemma tally_plus_zero: "tally_plus a \<lparr>t_prompt = 0, t_completion = 0, t_partial = False, t_errors = 0, t_requests = 0\<rparr> = a"
  by (simp add: tally_plus_def)

text \<open>windows add up: the tokens, errors and requests of two consecutive non-empty windows are
  the sums of theirs, and a hole in either makes the whole partial, so no count is lost or
  charged twice wherever the boundary between two cells falls.\<close>

theorem ledger_windows_add:
  assumes "xs \<noteq> []" "ys \<noteq> []"
  shows "tally_lines (xs @ ys) = tally_plus (tally_lines xs) (tally_lines ys)"
proof -
  let ?z = "\<lparr>t_prompt = 0, t_completion = 0, t_partial = False, t_errors = 0, t_requests = 0\<rparr>"
  have "tally_lines (xs @ ys) = foldl tally_line (tally_plus (tally_lines xs) ?z) ys"
    using assms(1) by (simp add: tally_lines_def tally_plus_zero)
  also have "\<dots> = tally_plus (tally_lines xs) (foldl tally_line ?z ys)" by (rule foldl_tally_plus)
  also have "foldl tally_line ?z ys = tally_lines ys" using assms(2) by (simp add: tally_lines_def)
  finally show ?thesis .
qed

theorem ledger_windows_add_witness:
  "tally_lines ([''{''] @ [''}'']) = tally_plus (tally_lines [''{'']) (tally_lines [''}''])"
  by (rule ledger_windows_add) simp_all

end
