(* ===== verification/Bench_Results.thy ===== *)
theory Bench_Results
  imports Bench_Plan
begin

text \<open>
  \<open>scripts/conductor_bench.py\<close>, the result record of a cell: the closed set of fields, the check
  a record passes before it is written and after it is read, and the files of a results
  directory.
\<close>

definition RESULT_KEYS :: "string list" where
  "RESULT_KEYS =
     [''cellId'', ''model'', ''capability'', ''arm'', ''taskId'', ''tier'', ''rep'', ''startedIso'', ''outcome'',
      ''passed'', ''exitCode'', ''wallClockMs'', ''tokens'', ''routerErrors'', ''schemaRetries'',
      ''reviewFindingsUpheld'', ''overridesUsed'', ''stopKind'', ''subSessions'', ''waves'', ''pluginAbsent'',
      ''timedOut'', ''gauge'', ''doctrineDigest'']"
definition TOKEN_KEYS :: "string list" where
  "TOKEN_KEYS = [''prompt'', ''completion'', ''total'', ''partial'']"
definition GAUGE_KEYS :: "string list" where "GAUGE_KEYS = [''ran'', ''passed'', ''exitCode'']"

datatype result_error =
    ResultNotObject
  | ResultMissing string
  | ResultBadTokens
  | ResultTokenMissing string
  | ResultBadOutcome json
  | ResultBadStopKind json
  | ResultBadPassed
  | ResultBadTimedOut
  | ResultBadGauge
  | ResultGaugeMissing string
  | ResultBadGaugeRan
  | ResultGaugeNoVerdict
  | ResultGaugeVerdictNotRun
  | ResultUnreadable path

definition missing_key :: "jobj \<Rightarrow> string list \<Rightarrow> string option" where
  "missing_key d keys = find (\<lambda>k. \<not> dhas d k) keys"

definition validate_gauge :: "json \<Rightarrow> (result_error, unit) res" where
  "validate_gauge gauge =
     (case gauge of
        JObj g \<Rightarrow>
          (case missing_key g GAUGE_KEYS of
             Some k \<Rightarrow> Inl (ResultGaugeMissing k)
           | None \<Rightarrow>
               (case jget g ''ran'' of
                  JBool ran' \<Rightarrow>
                    (if ran' \<and> \<not> is_bool (jget g ''passed'') then Inl ResultGaugeNoVerdict
                     else if \<not> ran' \<and> jget g ''passed'' \<noteq> JNull then Inl ResultGaugeVerdictNotRun
                     else Inr ())
                | _ \<Rightarrow> Inl ResultBadGaugeRan))
      | _ \<Rightarrow> Inl ResultBadGauge)"

definition stop_kind_ok :: "json \<Rightarrow> bool" where
  "stop_kind_ok j = (j = JNull \<or> (case j of JStr s \<Rightarrow> s \<in> set (STOP_KINDS @ TERMINAL_RUN_STATES) | _ \<Rightarrow> False))"

definition validate_result :: "json \<Rightarrow> (result_error, unit) res" where
  "validate_result result =
     (case result of
        JObj r \<Rightarrow>
          (case missing_key r RESULT_KEYS of
             Some k \<Rightarrow> Inl (ResultMissing k)
           | None \<Rightarrow>
               (case jget r ''tokens'' of
                  JObj tokens \<Rightarrow>
                    (case missing_key tokens TOKEN_KEYS of
                       Some k \<Rightarrow> Inl (ResultTokenMissing k)
                     | None \<Rightarrow>
                         (if vocab OUTCOMES (jget r ''outcome'') = None then Inl (ResultBadOutcome (jget r ''outcome''))
                          else if \<not> stop_kind_ok (jget r ''stopKind'') then Inl (ResultBadStopKind (jget r ''stopKind''))
                          else if \<not> is_bool (jget r ''passed'') then Inl ResultBadPassed
                          else if \<not> is_bool (jget r ''timedOut'') then Inl ResultBadTimedOut
                          else validate_gauge (jget r ''gauge'')))
                | _ \<Rightarrow> Inl ResultBadTokens))
      | _ \<Rightarrow> Inl ResultNotObject)"

section \<open>A results directory\<close>

definition text_of :: "jobj \<Rightarrow> string \<Rightarrow> string" where
  "text_of r k = (case jget r k of JStr s \<Rightarrow> s | _ \<Rightarrow> [])"

definition result_cell :: "jobj \<Rightarrow> cell" where
  "result_cell r =
     \<lparr>cell_model = text_of r ''model'', cell_capability = text_of r ''capability'', cell_arm = text_of r ''arm'',
      cell_task = text_of r ''taskId'', cell_rep = (case strict_int (jget r ''rep'') of Some n \<Rightarrow> n | None \<Rightarrow> 0)\<rparr>"

definition write_result :: "path \<Rightarrow> jobj \<Rightarrow> fs \<Rightarrow> (result_error, fs \<times> path) res" where
  "write_result results_dir r t =
     bindE (validate_result (JObj r)) (\<lambda>_.
       let target = result_path results_dir (result_cell r) in
       Inr (fs_write target (json_dumps_indent (JObj r) @ [CHR 0x0A]) (fs_mkdir results_dir t), target))"

definition load_row :: "fs \<Rightarrow> path \<Rightarrow> (result_error, jobj) res" where
  "load_row t p =
     (case fs_read t p of
        None \<Rightarrow> Inl (ResultUnreadable p)
      | Some s \<Rightarrow>
          (case json_loads s of
             None \<Rightarrow> Inl (ResultUnreadable p)
           | Some j \<Rightarrow> bindE (validate_result j) (\<lambda>_. some_or ResultNotObject (the_obj j))))"

definition result_files :: "fs \<Rightarrow> path \<Rightarrow> path list" where
  "result_files t results_dir = sort (filter (\<lambda>p. glob ''*.json'' (path_name p)) (fs_children t results_dir))"

definition load_results :: "path \<Rightarrow> fs \<Rightarrow> (result_error, jobj list) res" where
  "load_results results_dir t =
     (if \<not> fs_is_dir t results_dir then Inr [] else mapE (load_row t) (result_files t results_dir))"

section \<open>Writing and reading back\<close>

lemma result_path_child:
  assumes "simple_part (result_name c)"
  shows "path_parts (result_path d c) \<noteq> [] \<and> path_parent (result_path d c) = d \<and>
    glob ''*.json'' (path_name (result_path d c))"
proof -
  have p: "result_path d c = Path (path_root d) (path_parts d @ [result_name c])"
    unfolding result_path_def by (rule path_join_simple [OF assms])
  have "glob ''*.json'' (u @ ''.json'')" for u
    using glob_suffix [of "''.json''" u] by simp
  moreover obtain u where "result_name c = u @ ''.json''"
    by (simp add: result_name_def)
  ultimately have "glob ''*.json'' (result_name c)" by metis
  then show ?thesis by (simp add: p path_parent_def path_name_def)
qed

lemma load_row_written:
  "plain_json (JObj r) \<Longrightarrow> validate_result (JObj r) = Inr () \<Longrightarrow> fs_read t p = Some (json_file (JObj r)) \<Longrightarrow>
   load_row t p = Inr r"
  using doc.dec_enc [of "JObj r"] by (simp add: load_row_def some_or_def)

lemma mapE_in: "mapE f xs = Inr ys \<Longrightarrow> x \<in> set xs \<Longrightarrow> f x = Inr y \<Longrightarrow> y \<in> set ys"
proof (induction xs arbitrary: ys)
  case (Cons a xs)
  then show ?case by (auto simp: bindE_eq_Inr)
qed simp

text \<open>a recorded cell is never lost to a resume: after a result is written, a load of the same
  directory that returns returns that record among its rows, unchanged.\<close>

theorem written_result_is_loaded:
  assumes "write_result d r t = Inr (t', target)" "plain_json (JObj r)" "load_results d t' = Inr rows"
    and "fs_is_dir t' d"
    and "simple_part (result_name (result_cell r))"
  shows "r \<in> set rows"
proof -
  have v: "validate_result (JObj r) = Inr ()" and target: "target = result_path d (result_cell r)"
    and t': "t' = fs_write target (json_file (JObj r)) (fs_mkdir d t)"
    using assms(1) by (auto simp: write_result_def bindE_eq_Inr Let_def json_file_def)
  have child: "path_parts target \<noteq> []" "path_parent target = d" "glob ''*.json'' (path_name target)"
    using result_path_child [OF assms(5), of d] by (simp_all add: target)
  moreover have "fs_exists t' target" by (simp add: t' fs_exists_def fs_write_def dict_simps)
  ultimately have listed: "target \<in> set (result_files t' d)" by (simp add: result_files_def fs_children_iff)
  have "fs_read t' target = Some (json_file (JObj r))" by (simp add: t')
  then have row: "load_row t' target = Inr r" by (rule load_row_written [OF assms(2) v])
  have "mapE (load_row t') (result_files t' d) = Inr rows"
    using assms(3,4) by (simp add: load_results_def)
  from mapE_in [OF this listed row] show ?thesis .
qed

definition demo_result :: jobj where
  "demo_result =
     [(''cellId'', JStr ''m/none/baseline/t/1''), (''model'', JStr ''m''), (''capability'', JStr ''none''), (''arm'', JStr ''baseline''),
      (''taskId'', JStr ''t''), (''tier'', JStr ''T0''), (''rep'', JInt 1), (''startedIso'', JStr ''now''), (''outcome'', JStr ''pass''),
      (''passed'', JBool True), (''exitCode'', JInt 0), (''wallClockMs'', JInt 5),
      (''tokens'', JObj [(''prompt'', JInt 1), (''completion'', JInt 1), (''total'', JInt 2), (''partial'', JBool False)]),
      (''routerErrors'', JInt 0), (''schemaRetries'', JNull), (''reviewFindingsUpheld'', JNull), (''overridesUsed'', JNull),
      (''stopKind'', JNull), (''subSessions'', JNull), (''waves'', JNull), (''pluginAbsent'', JNull), (''timedOut'', JBool False),
      (''gauge'', JObj [(''ran'', JBool True), (''passed'', JBool True), (''exitCode'', JInt 0)]), (''doctrineDigest'', JNull)]"

lemma demo_result_valid: "validate_result (JObj demo_result) = Inr ()"
  by (simp add: validate_result_def demo_result_def missing_key_def RESULT_KEYS_def TOKEN_KEYS_def GAUGE_KEYS_def dhas_def jget_def
      vocab_def OUTCOMES_def stop_kind_ok_def validate_gauge_def)

definition demo_dir :: path where "demo_dir = Path ''/'' [''r'']"
definition demo_target :: path where "demo_target = Path ''/'' [''r'', ''m__none__baseline__t__r1.json'']"
definition demo_written :: fs where
  "demo_written = [(Path ''/'' [], NDir), (demo_dir, NDir), (demo_target, NFile (json_file (JObj demo_result)))]"

lemma demo_result_name: "result_name (result_cell demo_result) = ''m__none__baseline__t__r1.json''"
proof -
  have "digit_char (Suc 0) = CHR ''1''" by code_simp
  then have "str_int 1 = ''1''" by (simp add: str_int_def str_nat.simps [of "Suc 0"])
  then show ?thesis
    by (simp add: result_name_def result_cell_def demo_result_def text_of_def jget_def model_slug_def str_replace_Cons starts_with_def)
qed

lemma demo_writes: "write_result demo_dir demo_result [] = Inr (demo_written, demo_target)"
proof -
  have "result_path demo_dir (result_cell demo_result) = demo_target"
    unfolding result_path_def demo_result_name
    by (simp add: path_join_simple simple_part_def demo_dir_def demo_target_def)
  then show ?thesis
    by (simp add: write_result_def demo_result_valid Let_def fs_write_def fs_mkdir_def path_prefixes_def demo_dir_def demo_written_def
        dhas_def demo_target_def json_file_def)
qed

lemma demo_plain: "plain_json (JObj demo_result)"
  by (simp add: plain_json_def demo_result_def)

lemma demo_loads_back: "load_results demo_dir demo_written = Inr [demo_result]"
proof -
  have "result_files demo_written demo_dir = [demo_target]"
    using glob_suffix [of "''.json''" "''m__none__baseline__t__r1''"]
    by (simp add: result_files_def fs_children_def demo_written_def demo_dir_def demo_target_def path_parent_def path_name_def)
  moreover have "load_row demo_written demo_target = Inr demo_result"
    by (rule load_row_written [OF demo_plain demo_result_valid])
      (simp add: fs_read_def demo_written_def demo_dir_def demo_target_def)
  ultimately show ?thesis
    by (simp add: load_results_def fs_is_dir_def demo_written_def demo_dir_def)
qed

theorem written_result_is_loaded_witness:
  "load_results demo_dir demo_written = Inr [demo_result] \<and> demo_result \<in> set [demo_result]"
  using written_result_is_loaded [OF demo_writes demo_plain demo_loads_back] demo_loads_back
  by (simp add: fs_is_dir_def demo_written_def demo_dir_def demo_result_name simple_part_def)

end
