(* ===== verification/Bench_Cell.thy ===== *)
theory Bench_Cell
  imports Bench_Results Bench_Arms Bench_Ledger
begin

text \<open>
  \<open>scripts/conductor_bench.py\<close>, one cell end to end: the seeded work tree, the run of the arm,
  the two harness faults read from what it left, the hidden test, the score and the record.

  Everything outside the driver is a field of \<open>driver\<close>: git, the runner that executes the arm
  and the runner that executes a test command, each acting on the file tree; the digest, the
  clock, modification times, path resolution, the search path and the log level. An exception
  ends the campaign, so the tree it leaves is not part of the value.
\<close>

record outcome =
  co_exit_code :: "int option"
  co_timed_out :: bool
  co_spawn_error :: "string option"
  co_wall_clock_ms :: int

text \<open>What \<open>run_command\<close> observes of the process it spawns, and the elapsed time it reads.\<close>

datatype process = SpawnFailed string | ProcessExits int | TimesOut

definition run_command :: "process \<Rightarrow> int \<Rightarrow> outcome" where
  "run_command p elapsed_ms =
     (case p of
        SpawnFailed exc \<Rightarrow>
          \<lparr>co_exit_code = None, co_timed_out = False, co_spawn_error = Some exc, co_wall_clock_ms = elapsed_ms\<rparr>
      | ProcessExits code \<Rightarrow>
          \<lparr>co_exit_code = Some code, co_timed_out = False, co_spawn_error = None, co_wall_clock_ms = elapsed_ms\<rparr>
      | TimesOut \<Rightarrow>
          \<lparr>co_exit_code = None, co_timed_out = True, co_spawn_error = None, co_wall_clock_ms = elapsed_ms\<rparr>)"

record invocation =
  ci_cell :: cell
  ci_argv :: "string list"
  ci_work_dir :: path
  ci_cell_dir :: path
  ci_env :: "(string, string) dict"
  ci_timeout_sec :: int

record driver =
  dr_git :: "string list \<Rightarrow> path \<Rightarrow> fs \<Rightarrow> (string, fs) res"
  dr_runner :: "invocation \<Rightarrow> fs \<Rightarrow> fs \<times> outcome"
  dr_tester :: "string list \<Rightarrow> path \<Rightarrow> int \<Rightarrow> fs \<Rightarrow> fs \<times> outcome"
  dr_md5 :: "string \<Rightarrow> string"
  dr_now_iso :: string
  dr_at_ms :: "nat \<Rightarrow> int"
  dr_mtime :: "path \<Rightarrow> int"
  dr_resolve :: "path \<Rightarrow> path"
  dr_cell_path :: string
  dr_repo_root :: path
  dr_log_level :: string

datatype run_error =
    RunArm arm_error
  | RunGit string
  | RunResult result_error

definition SEED_COMMIT_MESSAGE :: string where "SEED_COMMIT_MESSAGE = ''bench seed''"
definition TRIVIAL_MAX_FILES :: int where "TRIVIAL_MAX_FILES = 2"
definition VERIFY_TIMEOUT_MS :: int where "VERIFY_TIMEOUT_MS = 600000"
definition PERMISSION_REJECTION_MARKERS :: "string list" where
  "PERMISSION_REJECTION_MARKERS = [''auto-rejecting'', ''rejected permission to use'']"
definition EMPTY_RUN_REQUESTS :: int where "EMPTY_RUN_REQUESTS = 0"

section \<open>The seeded tree\<close>

definition materialize_one :: "path \<Rightarrow> file_map \<Rightarrow> string \<Rightarrow> fs \<Rightarrow> fs" where
  "materialize_one root files rel t =
     (let target = path_join root rel in
      fs_write target (case dget files rel of Some body \<Rightarrow> body | None \<Rightarrow> []) (fs_mkdir (path_parent target) t))"

definition materialize_files :: "path \<Rightarrow> file_map \<Rightarrow> fs \<Rightarrow> fs" where
  "materialize_files root files t = fold (materialize_one root files) (sort (map fst files)) t"

definition git_step :: "driver \<Rightarrow> path \<Rightarrow> fs \<Rightarrow> string list \<Rightarrow> (run_error, fs) res" where
  "git_step dr work t argv = map_error RunGit (dr_git dr argv work t)"

definition seed_cell :: "driver \<Rightarrow> path \<Rightarrow> task \<Rightarrow> file_map \<Rightarrow> fs \<Rightarrow> (run_error, fs \<times> path) res" where
  "seed_cell dr cell_dir k extra t =
     (let work = path_join cell_dir ''repo'';
          t = (if fs_exists t work then fs_rmtree work t else t);
          t = fs_mkdir work t;
          t = materialize_files work (task_seed_files k) t;
          t = (if extra \<noteq> [] then materialize_files work extra t else t)
      in bindE (foldE (git_step dr work) t
                 [[''git'', ''init'', ''--quiet''], [''git'', ''add'', ''--force'', ''--all''],
                  [''git'', ''commit'', ''--quiet'', ''--no-gpg-sign'', ''-m'', SEED_COMMIT_MESSAGE]])
           (\<lambda>t. Inr (t, work)))"

definition build_conductor_cell_config :: "string \<Rightarrow> task \<Rightarrow> jobj" where
  "build_conductor_cell_config log_level k =
     (let command = JArr (map JStr (task_repo_test_command k)) in
      [(''version'', JInt 1),
       (''verify'', JObj
          [(''scopes'', JObj [(''repo'', JObj [(''command'', command), (''timeoutMs'', JInt VERIFY_TIMEOUT_MS), (''itemTest'', command)])]),
           (''behavioralPaths'', JArr (map JStr (task_behavioral_paths k))),
           (''requiredScopes'', JArr [JObj [(''pattern'', JStr ''**''), (''scopes'', JArr [JStr ''repo''])]])]),
       (''format'', JObj [(''rules'', JArr [])]),
       (''git'', JObj [(''mode'', JStr ''commit''), (''branchPolicy'', JStr ''pin''), (''preexistingDirty'', JStr ''refuse'')]),
       (''workflow'', JObj
          [(''trivialMaxFiles'', JInt TRIVIAL_MAX_FILES), (''planReviewers'', JInt 4), (''planReviewMaxRounds'', JInt 3),
           (''itemReviewers'', JInt 6), (''skepticsPerFinding'', JInt 2), (''reviewMaxRounds'', JInt 3),
           (''vetCritics'', JInt 3), (''vetMaxRounds'', JInt 3), (''testRepairAttempts'', JInt 3), (''debugFixCap'', JInt 3),
           (''maxOverridesPerItem'', JInt 1), (''maxOverridesPerRun'', JInt 2)]),
       (''parallel'', JObj
          [(''writes'', JStr ''off''), (''maxImplementers'', JInt 1), (''maxReaders'', JInt DEFAULT_MAX_READERS),
           (''subSessionTimeoutMs'', JInt SUB_SESSION_TIMEOUT_MS), (''roleTimeoutMs'', JObj ROLE_TIMEOUT_MS)]),
       (''models'', JObj [(''default'', JStr []), (''roles'', JObj [])]),
       (''ponytail'', JStr ''full''),
       (''retention'', JObj [(''keepRuns'', JInt 20), (''maxRunDirBytes'', JInt 52428800), (''pruneOnRunCreate'', JBool True)]),
       (''logging'', JObj [(''level'', JStr log_level), (''components'', JObj [])])])"

definition conductor_extra :: "driver \<Rightarrow> task \<Rightarrow> file_map" where
  "conductor_extra dr k =
     [(''.conductor/config.json'', json_dumps_indent (JObj (build_conductor_cell_config (dr_log_level dr) k)) @ [CHR 0x0A])]"

section \<open>What stopped a run\<close>

definition run_never_terminated :: "fs \<Rightarrow> path \<Rightarrow> bool" where
  "run_never_terminated t work_dir =
     (if \<not> fs_is_dir t (runs_dir work_dir) then False
      else
        (case filter (fs_is_file t) (map (\<lambda>entry. path_join entry ''run.json'') (sort (fs_children t (runs_dir work_dir)))) of
           [] \<Rightarrow> False
         | p # ps \<Rightarrow>
             (case fs_read t (last (p # ps)) of
                None \<Rightarrow> False
              | Some s \<Rightarrow>
                  (case json_loads s of
                     Some (JObj run) \<Rightarrow>
                       (if jget run ''stop'' \<noteq> JNull then False
                        else (case jget run ''state'' of JStr state \<Rightarrow> state \<notin> set TERMINAL_RUN_STATES | _ \<Rightarrow> True))
                   | _ \<Rightarrow> False))))"

text \<open>\<open>re.compile(r"external_directory \(([^)]*)\)").findall\<close>\<close>

definition denied_prefix :: string where "denied_prefix = ''external_directory (''"

function find_denied :: "string \<Rightarrow> string list" where
  "find_denied s =
     (case s of [] \<Rightarrow> []
      | c # s' \<Rightarrow>
          (if starts_with s denied_prefix then
             (let r = drop (length denied_prefix) s in
              case dropWhile (\<lambda>x. x \<noteq> CHR '')'') r of
                [] \<Rightarrow> find_denied s'
              | _ # rest \<Rightarrow> takeWhile (\<lambda>x. x \<noteq> CHR '')'') r # find_denied rest)
           else find_denied s'))"
  by pat_completeness auto
termination
proof (relation "measure length", goal_cases)
  case (3 s c s' r d rest)
  have "length (d # rest) \<le> length r" using 3(4) length_dropWhile_le [of _ r] by metis
  also have "\<dots> \<le> length s" using 3(3) by simp
  finally show ?case by simp
qed auto

declare find_denied.simps [simp del]

definition denied_own_tree :: "driver \<Rightarrow> fs \<Rightarrow> path \<Rightarrow> path \<Rightarrow> bool" where
  "denied_own_tree dr t log_path work_dir =
     (case fs_read t log_path of
        None \<Rightarrow> False
      | Some txt \<Rightarrow>
          list_ex (\<lambda>marker. str_in marker txt) PERMISSION_REJECTION_MARKERS \<and>
          list_ex (\<lambda>denied.
              let d = rstrip_char (CHR ''/'') (rstrip_char (CHR ''*'') denied) in
              within (dr_resolve dr (path_of (if d = [] then ''/'' else d))) (dr_resolve dr work_dir))
            (find_denied txt))"

definition own_tree_fault :: string where
  "own_tree_fault = ''a tool call was denied on a path inside the cell's own tree''"
definition zero_request_fault :: string where
  "zero_request_fault = ''the cell reached the model zero times''"
definition non_terminal_fault :: string where
  "non_terminal_fault = ''the conductor run ended non-terminal with no stop record and wall clock left (D63): the continuation engine cannot re-prompt or disengage under `opencode run`''"

definition harness_fault :: "driver \<Rightarrow> fs \<Rightarrow> path \<Rightarrow> path \<Rightarrow> string \<Rightarrow> window \<Rightarrow> outcome \<Rightarrow> string option" where
  "harness_fault dr t directory work arm window out =
     (if denied_own_tree dr t (path_join directory ''opencode.log'') work then Some own_tree_fault
      else if w_requests window = Some EMPTY_RUN_REQUESTS then Some zero_request_fault
      else if arm = ''conductor'' \<and> \<not> co_timed_out out \<and> run_never_terminated t work then Some non_terminal_fault
      else None)"

section \<open>The score\<close>

record score =
  sc_passed :: bool
  sc_outcome :: string
  sc_exit_code :: "int option"

definition given :: "string option \<Rightarrow> bool" where
  \<comment> \<open>\<open>if text\<close> on an optional string\<close>
  "given s = (case s of None \<Rightarrow> False | Some x \<Rightarrow> x \<noteq> [])"

definition score_cell :: "int option \<Rightarrow> bool \<Rightarrow> string option \<Rightarrow> string option \<Rightarrow> score" where
  "score_cell exit_code timed_out spawn_error fault =
     (if given fault then \<lparr>sc_passed = False, sc_outcome = ''harness-error'', sc_exit_code = exit_code\<rparr>
      else if given spawn_error then \<lparr>sc_passed = False, sc_outcome = ''harness-error'', sc_exit_code = exit_code\<rparr>
      else if timed_out then \<lparr>sc_passed = False, sc_outcome = ''timeout'', sc_exit_code = exit_code\<rparr>
      else if exit_code = Some 0 then \<lparr>sc_passed = True, sc_outcome = ''pass'', sc_exit_code = Some 0\<rparr>
      else \<lparr>sc_passed = False, sc_outcome = ''fail'', sc_exit_code = exit_code\<rparr>)"

record gauge =
  g_ran :: bool
  g_passed :: "bool option"
  g_exit_code :: "int option"

section \<open>The driver's own account\<close>

definition mark :: "driver \<Rightarrow> string \<Rightarrow> jobj \<Rightarrow> jobj list \<Rightarrow> jobj list" where
  \<comment> \<open>\<open>CellTrace.mark\<close>: the reading of the clock at the n-th mark, the event, its data\<close>
  "mark dr event data trace =
     trace @ [(''atMs'', JInt (dr_at_ms dr (length trace))) # (''event'', JStr event) # data]"

definition trace_lines :: "jobj list \<Rightarrow> string list" where
  "trace_lines trace = map (\<lambda>e. json_dumps (JObj e) @ [CHR 0x0A]) trace"

definition cell_stem :: "cell \<Rightarrow> string" where
  "cell_stem c = str_replace ''/'' ''__'' (cell_id c)"

definition write_cell_artifacts :: "path option \<Rightarrow> cell \<Rightarrow> jobj list \<Rightarrow> string list \<Rightarrow> fs \<Rightarrow> fs" where
  "write_cell_artifacts artifacts_dir c trace ledger_rows t =
     (case artifacts_dir of
        None \<Rightarrow> t
      | Some d \<Rightarrow>
          fs_write (path_join d (cell_stem c @ ''.ledger.jsonl'')) (concat ledger_rows)
            (fs_write (path_join d (cell_stem c @ ''.driver.jsonl'')) (concat (trace_lines trace)) (fs_mkdir d t)))"

text \<open>\<open>copytree\<close> with the three ignored names, links left out.\<close>

definition copy_tree :: "path \<Rightarrow> path \<Rightarrow> fs \<Rightarrow> fs" where
  "copy_tree source destination t =
     (let wanted = filter (\<lambda>(p, n). within p source \<and> n \<noteq> NLink \<and>
            set (relparts p source) \<inter> {''.git'', ''node_modules'', ''__pycache__''} = {}) t
      in foldl (\<lambda>t (p, n). dset (Path (path_root destination) (path_parts destination @ relparts p source)) n t) t wanted)"

definition archive_one :: "path \<Rightarrow> path \<Rightarrow> fs \<Rightarrow> string \<times> string \<Rightarrow> fs" where
  "archive_one root work_dir t = (\<lambda>(source_rel, dest_rel).
     let source = path_join work_dir source_rel; destination = path_join root dest_rel in
     if \<not> fs_exists t source then t
     else copy_tree source destination
            (fs_mkdir (path_parent destination) (if fs_exists t destination then fs_rmtree destination t else t)))"

definition archive_cell_tree :: "path option \<Rightarrow> cell \<Rightarrow> path \<Rightarrow> fs \<Rightarrow> fs" where
  "archive_cell_tree archive_dir c work_dir t =
     (case archive_dir of
        None \<Rightarrow> t
      | Some d \<Rightarrow> foldl (archive_one (path_join d (cell_stem c)) work_dir) t
                    [(''repo'', ''repo''), (''home/data/opencode'', ''session'')])"

section \<open>Preparing a cell\<close>

record campaign =
  ca_model :: string
  ca_router_config :: jobj
  ca_base_config :: jobj
  ca_per_slot_ctx :: int
  ca_doctrine_dir :: path
  ca_artifacts_dir :: "path option"
  ca_archive_dir :: "path option"

record prepared =
  pr_invocation :: invocation
  pr_ledger :: path
  pr_ledger_before :: nat
  pr_digest :: "string option"

definition home_keys :: "string list" where
  "home_keys = [''HOME'', ''XDG_CONFIG_HOME'', ''XDG_STATE_HOME'', ''XDG_DATA_HOME'', ''XDG_CACHE_HOME'']"

definition make_homes :: "(string, string) dict \<Rightarrow> fs \<Rightarrow> fs" where
  "make_homes env t = fold (\<lambda>key. fs_mkdir (path_of (case dget env key of Some s \<Rightarrow> s | None \<Rightarrow> []))) home_keys t"

definition fresh_dir :: "path \<Rightarrow> fs \<Rightarrow> fs" where
  "fresh_dir directory t = fs_mkdir directory (if fs_exists t directory then fs_rmtree directory t else t)"

text \<open>Everything up to the spawn: the tree the runner is handed, and the invocation.\<close>

definition prepare_cell ::
  "driver \<Rightarrow> campaign \<Rightarrow> cell \<Rightarrow> task \<Rightarrow> path \<Rightarrow> int \<Rightarrow> fs \<Rightarrow> (run_error, fs \<times> prepared) res" where
  "prepare_cell dr ca c k directory timeout_sec t =
     (let arm = cell_arm c in
      bindE (seed_cell dr directory k (conductor_extra dr k) (fresh_dir directory t)) (\<lambda>(t, work).
      bindE (if arm \<in> {''doctrine'', ''conductor''}
             then bindE (map_error RunArm (doctrine_digest (dr_md5 dr) t (ca_doctrine_dir ca))) (\<lambda>d. Inr (Some d))
             else Inr None) (\<lambda>digest.
      bindE (if arm = ''doctrine'' then map_error RunArm (write_doctrine_prompt directory (ca_doctrine_dir ca) t)
             else Inr (t, directory)) (\<lambda>(t, _).
      bindE (map_error RunArm (build_arm_config t (dr_repo_root dr) arm (ca_model ca) (ca_router_config ca) directory
               (ca_base_config ca) (ca_per_slot_ctx ca))) (\<lambda>config.
      bindE (map_error RunArm (validate_config_file_refs t config)) (\<lambda>_.
      let config_path = path_join directory (arm @ ''.json'');
          t = fs_write config_path (json_dumps_indent (JObj config) @ [CHR 0x0A]) t;
          env = build_cell_env (dr_cell_path dr) directory config_path;
          t = make_homes env t
      in bindE (map_error RunArm (ledger_path_of (ca_router_config ca))) (\<lambda>ledger.
         bindE (map_error RunArm (build_opencode_argv arm (ca_model ca) work (task_prompt k))) (\<lambda>argv.
         Inr (t, \<lparr>pr_invocation = \<lparr>ci_cell = c, ci_argv = argv, ci_work_dir = work, ci_cell_dir = directory,
                                    ci_env = env, ci_timeout_sec = timeout_sec\<rparr>,
                  pr_ledger = ledger, pr_ledger_before = ledger_line_count t ledger, pr_digest = digest\<rparr>)))))))))"

section \<open>Measuring a cell\<close>

record measured =
  me_score :: score
  me_gauge :: gauge
  me_wall_clock_ms :: int

text \<open>After the exit: nothing is measured when nothing ran, otherwise the hidden files are written and
  the hidden test runs, however the run ended.\<close>

definition measure_cell ::
  "driver \<Rightarrow> task \<Rightarrow> path \<Rightarrow> int \<Rightarrow> outcome \<Rightarrow> string option \<Rightarrow> jobj list \<Rightarrow> fs \<Rightarrow> fs \<times> measured \<times> jobj list" where
  "measure_cell dr k work timeout_sec out fault trace t =
     (if given (co_spawn_error out) then
        (t, \<lparr>me_score = score_cell (co_exit_code out) (co_timed_out out) (co_spawn_error out) fault,
             me_gauge = \<lparr>g_ran = False, g_passed = None, g_exit_code = None\<rparr>,
             me_wall_clock_ms = co_wall_clock_ms out\<rparr>, trace)
      else
        (let t = materialize_files work (task_hidden_files k) t;
             trace = mark dr ''gauge-materialized'' [(''files'', JArr (map JStr (sort (map fst (task_hidden_files k)))))] trace;
             (t, test) = dr_tester dr (task_hidden_test_command k) work timeout_sec t;
             trace = mark dr ''gauge-ran''
               [(''command'', JArr (map JStr (task_hidden_test_command k))),
                (''exitCode'', case co_exit_code test of None \<Rightarrow> JNull | Some n \<Rightarrow> JInt n),
                (''timedOut'', JBool (co_timed_out test)), (''ms'', JInt (co_wall_clock_ms test))] trace;
             gauge = \<lparr>g_ran = True,
                      g_passed = Some (co_exit_code test = Some 0 \<and> \<not> co_timed_out test \<and> co_spawn_error test = None),
                      g_exit_code = co_exit_code test\<rparr>
         in (t,
             if co_timed_out out then
               \<lparr>me_score = score_cell None True None fault, me_gauge = gauge, me_wall_clock_ms = co_wall_clock_ms out\<rparr>
             else
               \<lparr>me_score = score_cell (co_exit_code test) (co_timed_out test) (co_spawn_error test) fault,
                me_gauge = gauge, me_wall_clock_ms = co_wall_clock_ms out + co_wall_clock_ms test\<rparr>,
             trace)))"

definition json_int :: "int option \<Rightarrow> json" where
  "json_int x = (case x of None \<Rightarrow> JNull | Some n \<Rightarrow> JInt n)"

definition json_bool :: "bool option \<Rightarrow> json" where
  "json_bool x = (case x of None \<Rightarrow> JNull | Some b \<Rightarrow> JBool b)"

definition json_text :: "string option \<Rightarrow> json" where
  "json_text x = (case x of None \<Rightarrow> JNull | Some s \<Rightarrow> JStr s)"

definition gauge_json :: "gauge \<Rightarrow> json" where
  "gauge_json g = JObj [(''ran'', JBool (g_ran g)), (''passed'', json_bool (g_passed g)), (''exitCode'', json_int (g_exit_code g))]"

definition result_record ::
  "cell \<Rightarrow> task \<Rightarrow> string \<Rightarrow> measured \<Rightarrow> outcome \<Rightarrow> window \<Rightarrow> metrics \<Rightarrow> string option \<Rightarrow> jobj" where
  "result_record c k started_iso me out window metrics digest =
     [(''cellId'', JStr (cell_id c)), (''model'', JStr (cell_model c)), (''capability'', JStr (cell_capability c)),
      (''arm'', JStr (cell_arm c)), (''taskId'', JStr (cell_task c)), (''tier'', JStr (task_tier k)),
      (''rep'', JInt (cell_rep c)), (''startedIso'', JStr started_iso),
      (''outcome'', JStr (sc_outcome (me_score me))), (''passed'', JBool (sc_passed (me_score me))),
      (''exitCode'', json_int (sc_exit_code (me_score me))), (''wallClockMs'', JInt (me_wall_clock_ms me)),
      (''tokens'', JObj [(''prompt'', json_int (w_prompt window)), (''completion'', json_int (w_completion window)),
                         (''total'', json_int (w_total window)), (''partial'', JBool (w_partial window))]),
      (''routerErrors'', JInt (w_router_errors window)), (''schemaRetries'', json_int (m_schema_retries metrics)),
      (''reviewFindingsUpheld'', json_int (m_review_findings_upheld metrics)),
      (''overridesUsed'', json_int (m_overrides_used metrics)), (''stopKind'', json_text (m_stop_kind metrics)),
      (''subSessions'', json_int (m_sub_sessions metrics)), (''waves'', json_int (m_waves metrics)),
      (''pluginAbsent'', json_bool (m_plugin_absent metrics)), (''timedOut'', JBool (co_timed_out out)),
      (''gauge'', gauge_json (me_gauge me)), (''doctrineDigest'', json_text digest)]"

definition run_cell ::
  "driver \<Rightarrow> campaign \<Rightarrow> cell \<Rightarrow> task \<Rightarrow> path \<Rightarrow> int \<Rightarrow> fs \<Rightarrow> (run_error, fs \<times> jobj) res" where
  "run_cell dr ca c k directory timeout_sec t =
     (let trace = mark dr ''cell-dir-recreated'' [(''path'', JStr (path_str directory))] [] in
      bindE (prepare_cell dr ca c k directory timeout_sec t) (\<lambda>(t, pr).
        let work = ci_work_dir (pr_invocation pr);
            trace = mark dr ''spawn'' [(''arm'', JStr (cell_arm c)), (''timeoutSec'', JInt timeout_sec),
                                      (''ledgerStartLine'', JInt (int (pr_ledger_before pr)))] trace;
            (t, out) = dr_runner dr (pr_invocation pr) t;
            trace = mark dr ''exit'' [(''exitCode'', json_int (co_exit_code out)), (''timedOut'', JBool (co_timed_out out)),
                                     (''spawnError'', json_text (co_spawn_error out))] trace;
            window = summarize_ledger_window t (pr_ledger pr) (pr_ledger_before pr);
            fault = harness_fault dr t directory work (cell_arm c) window out;
            trace = mark dr ''fault-check'' [(''requests'', json_int (w_requests window)), (''fault'', json_text fault)] trace;
            (t, me, trace) = measure_cell dr k work timeout_sec out fault trace t;
            metrics = collect_metrics TERMINAL_RUN_STATES (cell_arm c) t (dr_mtime dr) work;
            result = result_record c k (dr_now_iso dr) me out window metrics (pr_digest pr)
        in bindE (map_error RunResult (validate_result (JObj result))) (\<lambda>_.
             let trace = mark dr ''scored'' [(''outcome'', jget result ''outcome''), (''gauge'', jget result ''gauge'')] trace;
                 t = write_cell_artifacts (ca_artifacts_dir ca) c trace (ledger_slice t (pr_ledger pr) (pr_ledger_before pr)) t;
                 t = archive_cell_tree (ca_archive_dir ca) c directory t
             in Inr (t, result))))"

end
