(* ===== verification/Bench_Cell_Demo.thy ===== *)
theory Bench_Cell_Demo
  imports Bench_Cell Bench_Manifest_Laws
begin

text \<open>
  One concrete cell: a driver whose git does nothing and whose processes exit 0, a campaign, a file
  tree with a fragment and a doctrine pack. Preparing it goes through for the baseline and for
  the conductor arm; the witnesses of the cell's laws are applied to it.
\<close>

definition demo_packs :: path where "demo_packs = Path ''/'' [''p'']"

definition cell_tree :: fs where
  "cell_tree =
     [(Path ''/'' [], NDir), (Path ''/'' [''srv''], NDir), (Path ''/'' [''srv'', ''conductor''], NDir),
      (path_join demo_root FRAGMENT_RELPATH, NFile (json_file (JObj [(''agent'', JObj [])]))),
      (demo_packs, NDir), (path_join demo_packs ''a.md'', NFile ''a'')]"

definition demo_arm_cell :: "string \<Rightarrow> cell" where
  "demo_arm_cell arm = \<lparr>cell_model = ''llamacpp/m'', cell_capability = ''none'', cell_arm = arm, cell_task = ''t0-sum'', cell_rep = 1\<rparr>"

definition demo_driver :: driver where
  "demo_driver = \<lparr>dr_git = (\<lambda>_ _ t. Inr t), dr_runner = (\<lambda>_ t. (t, run_command (ProcessExits 0) 5)),
     dr_tester = (\<lambda>_ _ _ t. (t, run_command (ProcessExits 0) 7)), dr_md5 = id, dr_now_iso = ''now'', dr_at_ms = int,
     dr_mtime = (\<lambda>_. 0), dr_resolve = id, dr_cell_path = ''/bin'', dr_repo_root = demo_root, dr_log_level = ''info''\<rparr>"

definition demo_campaign :: campaign where
  "demo_campaign = \<lparr>ca_model = ''llamacpp/m'',
     ca_router_config = [(''listen'', JObj [(''host'', JStr ''h''), (''port'', JInt 80)]),
       (''metrics'', JObj [(''ledgerPath'', JStr ''/l'')])],
     ca_base_config = demo_base_config, ca_per_slot_ctx = 65536, ca_doctrine_dir = demo_packs,
     ca_artifacts_dir = None, ca_archive_dir = None\<rparr>"


definition demo_seeded :: "string \<Rightarrow> fs" where
  "demo_seeded x = cell_tree @ [(Path ''/'' [''c''], NDir), (Path ''/'' [''c'', ''repo''], NDir),
     (Path ''/'' [''c'', ''repo'', ''sum.py''], NFile ''x''), (Path ''/'' [''c'', ''repo'', ''.conductor''], NDir),
     (Path ''/'' [''c'', ''repo'', ''.conductor'', ''config.json''], NFile x)]"

lemma demo_seed_cell: "seed_cell demo_driver (Path ''/'' [''c'']) demo_task [(''.conductor/config.json'', x)] (fresh_dir (Path ''/'' [''c'']) cell_tree)
   = Inr (demo_seeded x, Path ''/'' [''c'', ''repo''])"
  by code_simp

lemma demo_digest: "\<exists>g. doctrine_digest id (demo_seeded x) demo_packs = Inr g"
proof -
  have "\<not> isl (doctrine_digest id (demo_seeded x) demo_packs)" by code_simp
  then show ?thesis by (cases "doctrine_digest id (demo_seeded x) demo_packs") auto
qed


definition demo_config :: jobj where "demo_config =
    [(''provider'',
  JObj [(''llamacpp'',
         JObj [(''models'', JObj [(''m'', JObj [(''limit'', JObj [(''context'', JInt 65536), (''output'', JInt 16384)])])]),
               (''options'', JObj [(''baseURL'', JStr ''http://h:80/v1'')])])]),
 (''model'', JStr ''llamacpp/m''), (''small_model'', JStr ''llamacpp/m''), (''autoupdate'', JBool False)]"


lemma digits: "str_nat n = (if n < 10 then [digit_char n] else str_nat (n div 10) @ [digit_char (n mod 10)])"
  by (rule str_nat.simps)

lemma digit_chars: "digit_char 0 = CHR ''0''" "digit_char 1 = CHR ''1''" "digit_char 3 = CHR ''3''" "digit_char 4 = CHR ''4''"
  "digit_char 5 = CHR ''5''" "digit_char 6 = CHR ''6''" "digit_char 8 = CHR ''8''"
  by code_simp+

lemma str_limit: "str_int 65536 = ''65536''" "str_int 16384 = ''16384''" "str_int 80 = ''80''"
  using digit_chars
  by (simp_all add: str_int_def digits [of 65536] digits [of 6553] digits [of 655] digits [of 65] digits [of 6]
    digits [of 16384] digits [of 1638] digits [of 163] digits [of 16] digits [of "Suc 0"] digits [of 80] digits [of 8])

lemma conf_refs: "find_file_refs (json_dumps (JObj demo_config)) = []"
  "find_file_refs (json_dumps (JObj (demo_config @ [(''agent'', JObj [])]))) = []"
  by (simp_all add: json_dumps_def demo_config_def find_file_refs.simps starts_with_def str_limit nl_def quote_with_def esc_char_def item_sep_def)

lemma conf_valid: "validate_config_file_refs t demo_config = Inr ()" "validate_config_file_refs t (demo_config @ [(''agent'', JObj [])]) = Inr ()"
  by (simp_all add: validate_config_file_refs_def file_refs_def conf_refs dedup_def) (simp_all add: demo_config_def jget_def dedup_def)

lemma demo_shared_conf: "shared_config ''llamacpp/m'' (ca_router_config demo_campaign) demo_base_config 65536 = Inr demo_config"
  by (simp add: shared_config_def split_model_def demo_campaign_def demo_base_config_def jget_def router_base_url_def
      arm_provider_def model_entry_def map_error_def opencode_model_limit_def openai_base_url_def OPENAI_PATH_def str_limit demo_config_def)

lemma demo_fragment_seeded: "load_fragment demo_root (demo_seeded x) = Inr [(''agent'', JObj [])]"
proof -
  have "json_loads (json_file (JObj [(''agent'', JObj [])])) = Some (JObj [(''agent'', JObj [])])"
    by (rule doc.dec_enc) (simp add: plain_json_def)
  then show ?thesis
    by (simp add: load_fragment_def demo_seeded_def cell_tree_def fs_read_def Let_def FRAGMENT_RELPATH_def demo_root_def demo_packs_def path_join_def path_of_def starts_with_def)
qed

lemma demo_arm_conf:
  "build_arm_config (demo_seeded x) demo_root ''baseline'' ''llamacpp/m'' (ca_router_config demo_campaign) d demo_base_config 65536 = Inr demo_config"
  "build_arm_config (demo_seeded x) demo_root ''conductor'' ''llamacpp/m'' (ca_router_config demo_campaign) d demo_base_config 65536
     = Inr (demo_config @ [(''agent'', JObj [])])"
  using demo_fragment_seeded [of x]
  by (simp_all add: build_arm_config_def demo_shared_conf ARMS_def map_error_def merge_opencode_fragment_def) (simp add: demo_config_def)

lemma demo_campaign_simps [simp]:
  "ca_model demo_campaign = ''llamacpp/m''" "ca_base_config demo_campaign = demo_base_config"
  "ca_per_slot_ctx demo_campaign = 65536" "ca_doctrine_dir demo_campaign = demo_packs"
  "dr_md5 demo_driver = id" "dr_repo_root demo_driver = demo_root"
  by (simp_all add: demo_campaign_def demo_driver_def)

lemma demo_prepared:
  assumes "arm \<in> {''baseline'', ''conductor''}"
  shows "\<exists>t pr. prepare_cell demo_driver demo_campaign (demo_arm_cell arm) demo_task (Path ''/'' [''c'']) 60 cell_tree = Inr (t, pr)"
proof -
  define x where "x = json_dumps_indent (JObj (build_conductor_cell_config (dr_log_level demo_driver) demo_task)) @ [CHR 0x0A]"
  obtain g where g: "doctrine_digest id (demo_seeded x) demo_packs = Inr g" using demo_digest by blast
  have l: "ledger_path_of (ca_router_config demo_campaign) = Inr (path_of ''/l'')"
    by (simp add: ledger_path_of_def demo_campaign_def jget_def)
  have v: "\<exists>a. build_opencode_argv arm ''llamacpp/m'' (Path ''/'' [''c'', ''repo'']) (task_prompt demo_task) = Inr a"
    using assms by (auto simp: build_opencode_argv_def ARMS_def is_abs_def)
  show ?thesis
    using assms v unfolding prepare_cell_def conductor_extra_def x_def [symmetric]
    by (auto simp: demo_seed_cell demo_arm_cell_def g demo_arm_conf conf_valid l map_error_def Let_def)
qed
end
