(* ===== verification/Bench_Cell_Laws.thy ===== *)
theory Bench_Cell_Laws
  imports Bench_Cell_Demo
begin

text \<open>
  What one cell promises: the tree an arm is handed is the task's seed and the shared
  configuration and nothing else, the same for every arm; the hidden files are not in it; and
  the score, the gauge and the recorded fields agree.
\<close>

section \<open>Materialized files\<close>

definition body_of :: "file_map \<Rightarrow> string \<Rightarrow> string" where
  "body_of files rel = (case dget files rel of Some body \<Rightarrow> body | None \<Rightarrow> [])"

lemma fs_read_materialize_keys:
  "fs_read (fold (materialize_one root files) ks t) q =
     (case find (\<lambda>rel. path_join root rel = q) (rev ks) of Some rel \<Rightarrow> Some (body_of files rel) | None \<Rightarrow> fs_read t q)"
proof (induction ks arbitrary: t rule: rev_induct)
  case (snoc k ks)
  then show ?case by (auto simp: materialize_one_def body_of_def Let_def)
qed simp

text \<open>What a file map holds at a path, given by its parts; a later key wins.\<close>

definition tree_of :: "file_map \<Rightarrow> string list \<Rightarrow> string option" where
  "tree_of files ps = map_option (body_of files) (find (\<lambda>rel. path_parts (path_of rel) = ps) (rev (sort (map fst files))))"

lemma find_cong_set: "(\<And>x. x \<in> set xs \<Longrightarrow> P x = Q x) \<Longrightarrow> find P xs = find Q xs"
  by (induction xs) auto

lemma fs_read_materialize:
  assumes "safe_map files"
  shows "fs_read (materialize_files root files t) (below root ps) =
     (case tree_of files ps of Some b \<Rightarrow> Some b | None \<Rightarrow> fs_read t (below root ps))"
proof -
  have "find (\<lambda>rel. path_join root rel = below root ps) (rev (sort (map fst files))) =
      find (\<lambda>rel. path_parts (path_of rel) = ps) (rev (sort (map fst files)))"
    by (rule find_cong_set) (use assms in \<open>auto simp: safe_map_def path_join_below\<close>)
  then show ?thesis
    by (simp add: materialize_files_def fs_read_materialize_keys tree_of_def split: option.split)
qed

lemma fs_read_materialize_outside:
  assumes "safe_map files" "\<not> within q root"
  shows "fs_read (materialize_files root files t) q = fs_read t q"
proof -
  have "path_join root rel \<noteq> q" if "rel \<in> set (map fst files)" for rel
    using assms that by (auto simp: safe_map_def path_join_below)
  then have "find (\<lambda>rel. path_join root rel = q) (rev (sort (map fst files))) = None"
    by (auto simp: find_None_iff)
  then show ?thesis by (simp add: materialize_files_def fs_read_materialize_keys)
qed

section \<open>The tree an arm is handed\<close>

text \<open>Git writes below \<open>.git\<close> and nowhere else in the tree: what \<open>init\<close>, \<open>add\<close> and \<open>commit\<close> document.\<close>

definition git_local :: "(string list \<Rightarrow> path \<Rightarrow> fs \<Rightarrow> (string, fs) res) \<Rightarrow> bool" where
  "git_local git = (\<forall>argv work t t' q. git argv work t = Inr t' \<longrightarrow>
     \<not> within q (below work [''.git'']) \<longrightarrow> fs_read t' q = fs_read t q)"

text \<open>Every ancestor of a file exists.\<close>

definition fs_closed :: "fs \<Rightarrow> bool" where
  "fs_closed t = (\<forall>p q. fs_read t q \<noteq> None \<longrightarrow> within q p \<longrightarrow> fs_exists t p)"

lemma fs_closed_code:
  assumes "list_all (\<lambda>(q, n). list_all (fs_exists t) (path_prefixes q)) t"
  shows "fs_closed t"
proof -
  have "fs_exists t p" if "fs_read t q = Some s" "within q p" for p q s
  proof -
    have "q \<in> fst ` set t" using that(1) by (force simp: fs_read_def split: option.splits node.splits dest: dget_in_set)
    then have "list_all (fs_exists t) (path_prefixes q)" using assms by (auto simp: list_all_iff)
    moreover have "p \<in> set (path_prefixes q)"
      using that(2) by (cases p) (auto simp: path_prefixes_def within_def image_iff)
    ultimately show ?thesis by (simp add: list_all_iff)
  qed
  then show ?thesis by (auto simp: fs_closed_def)
qed

lemma cell_tree_closed: "fs_closed cell_tree"
  by (rule fs_closed_code) code_simp

lemma fresh_dir_read:
  assumes "fs_closed t"
  shows "within q d \<Longrightarrow> fs_read (fresh_dir d t) q = None"
proof (cases "fs_exists t d")
  case False
  assume "within q d"
  then have "fs_read t q = None" using assms False unfolding fs_closed_def by blast
  then show ?thesis using False by (simp add: fresh_dir_def)
qed (simp add: fresh_dir_def)

lemma git_steps_read:
  assumes "git_local (dr_git dr)" "foldE (git_step dr work) t argvs = Inr t'" "\<not> within q (below work [''.git''])"
  shows "fs_read t' q = fs_read t q"
  by (rule foldE_invariant [OF assms(2), where P = "\<lambda>u. fs_read u q = fs_read t q"])
    (use assms(1,3) in \<open>auto simp: git_step_def map_error_Inr git_local_def\<close>)

lemma conductor_extra_safe: "safe_map (conductor_extra dr k)"
  by (simp add: safe_map_def conductor_extra_def safe_relpath_def path_of_def starts_with_def)

definition seeded :: "driver \<Rightarrow> task \<Rightarrow> string list \<Rightarrow> string option" where
  "seeded dr k ps =
     (case tree_of (conductor_extra dr k) ps of Some b \<Rightarrow> Some b | None \<Rightarrow> tree_of (task_seed_files k) ps)"

lemma join_simple: "simple_part s \<Longrightarrow> path_join p s = below p [s]"
  by (simp add: path_join_simple below_def)

lemma simple_names: "simple_part ''repo''" "simple_part ''doctrine-prompt.md''" "a \<in> set ARMS \<Longrightarrow> simple_part (a @ ''.json'')"
  by (auto simp: simple_part_def ARMS_def)

lemma seed_cell_read:
  assumes git: "git_local (dr_git dr)" and seed: "safe_map (task_seed_files k)"
    and empty: "\<And>q. within q d \<Longrightarrow> fs_read t q = None"
    and r: "seed_cell dr d k (conductor_extra dr k) t = Inr (t', work)"
    and ps: "take 1 ps \<noteq> [''.git'']"
  shows "work = below d [''repo''] \<and> fs_read t' (below work ps) = seeded dr k ps"
proof -
  let ?work = "path_join d ''repo''"
  have w: "?work = below d [''repo'']" by (rule join_simple [OF simple_names(1)])
  define t1 where "t1 = fs_mkdir ?work (if fs_exists t ?work then fs_rmtree ?work t else t)"
  define t2 where "t2 = materialize_files ?work (conductor_extra dr k) (materialize_files ?work (task_seed_files k) t1)"
  have steps: "foldE (git_step dr ?work) t2 [[''git'', ''init'', ''--quiet''], [''git'', ''add'', ''--force'', ''--all''],
        [''git'', ''commit'', ''--quiet'', ''--no-gpg-sign'', ''-m'', SEED_COMMIT_MESSAGE]] = Inr t'" and work: "work = ?work"
    using r by (auto simp: seed_cell_def bindE_eq_Inr Let_def t1_def t2_def conductor_extra_def)
  have "within (below ?work ps) d" by (simp add: w below_def within_def)
  then have "fs_read t1 (below ?work ps) = None" using empty by (simp add: t1_def)
  then have "fs_read t2 (below ?work ps) = seeded dr k ps"
    by (simp add: t2_def fs_read_materialize conductor_extra_safe seed seeded_def split: option.split)
  moreover have "\<not> within (below ?work ps) (below ?work [''.git''])"
    using ps by (auto simp: below_def within_def prefix_def)
  ultimately show ?thesis using git_steps_read [OF git steps] work w by simp
qed

lemma make_homes_read [simp]: "fs_read (make_homes env t) q = fs_read t q"
proof -
  have "fs_read (fold (\<lambda>key. fs_mkdir (f key)) ks t) q = fs_read t q" for f ks t
    by (induction ks arbitrary: t) simp_all
  then show ?thesis by (simp add: make_homes_def)
qed

lemma not_within_sibling: "x \<noteq> y \<Longrightarrow> below (below d [y]) ps \<noteq> below d [x]"
  by (simp add: below_def)

lemma prepare_cell_read:
  assumes git: "git_local (dr_git dr)" and seed: "safe_map (task_seed_files k)" and closed: "fs_closed t"
    and p: "prepare_cell dr ca c k d timeout t = Inr (t', pr)" and ps: "take 1 ps \<noteq> [''.git'']"
  shows "ci_work_dir (pr_invocation pr) = below d [''repo''] \<and>
     fs_read t' (below (below d [''repo'']) ps) = seeded dr k ps"
proof -
  have empty: "within q d \<Longrightarrow> fs_read (fresh_dir d t) q = None" for q by (rule fresh_dir_read [OF closed])
  from p obtain t1 work where s: "seed_cell dr d k (conductor_extra dr k) (fresh_dir d t) = Inr (t1, work)"
    unfolding prepare_cell_def Let_def by (elim bindE_pairE bindE_InrE)
  have work: "work = below d [''repo'']" and r1: "fs_read t1 (below work ps) = seeded dr k ps"
    using seed_cell_read [OF git seed empty s ps] by blast+
  let ?q = "below (below d [''repo'']) ps"
  have prompt: "?q \<noteq> path_join d DOCTRINE_PROMPT_NAME"
    by (simp add: DOCTRINE_PROMPT_NAME_def join_simple simple_names not_within_sibling)
  have dp: "write_doctrine_prompt d dd t1 = Inr (t2, x) \<Longrightarrow> fs_read t2 ?q = fs_read t1 ?q" for dd t2 x
    using prompt by (auto simp: write_doctrine_prompt_def bindE_eq_Inr Let_def)
  have config: "?q \<noteq> path_join d ''baseline.json''" "?q \<noteq> path_join d ''doctrine.json''" "?q \<noteq> path_join d ''conductor.json''"
    by (simp_all add: join_simple simple_part_def not_within_sibling)
  have arm: "cell_arm c \<in> set ARMS"
    using p unfolding prepare_cell_def Let_def
    by (elim bindE_pairE bindE_InrE) (auto simp: map_error_Inr build_arm_config_def split: if_splits)
  have step: "ci_work_dir (pr_invocation pr) = work \<and> (\<exists>t2. fs_read t2 ?q = fs_read t1 ?q \<and>
      fs_read t' ?q = (if ?q = path_join d (cell_arm c @ ''.json'') then fs_read t' ?q else fs_read t2 ?q))"
    using p s unfolding prepare_cell_def Let_def
    by (elim bindE_pairE bindE_InrE) (auto dest!: dp simp: map_error_Inr split: if_splits)
  have "?q \<noteq> path_join d (cell_arm c @ ''.json'')" using arm config by (auto simp: ARMS_def)
  then have "ci_work_dir (pr_invocation pr) = work \<and> fs_read t' ?q = fs_read t1 ?q" using step by auto
  then show ?thesis using r1 work by simp
qed

text \<open>C3: the trees the arms are compared on are one tree: whatever was in the file system before and
  wherever each cell lives, two arms of one task are handed the same text at every path of
  their work trees outside \<open>.git\<close>.\<close>

theorem arms_get_the_same_tree:
  assumes "git_local (dr_git dr)" "safe_map (task_seed_files k)" "fs_closed t" "fs_closed u"
    and "prepare_cell dr ca c k d timeout t = Inr (t', pr)"
    and "prepare_cell dr ca c' k d' timeout u = Inr (u', pr')"
    and "take 1 ps \<noteq> [''.git'']"
  shows "fs_read t' (below (ci_work_dir (pr_invocation pr)) ps) = fs_read u' (below (ci_work_dir (pr_invocation pr')) ps)"
  using prepare_cell_read [OF assms(1-3,5,7)] prepare_cell_read [OF assms(1,2,4,6,7)] by simp

text \<open>C2: the measurement is never in the tree the model reads: when the arm is spawned, no hidden file
  is in its work tree, unless it names the path of a seed file, the cell configuration or git's
  own directory.\<close>

theorem hidden_files_are_not_there:
  assumes "git_local (dr_git dr)" "safe_map (task_seed_files k)" "fs_closed t"
    and "prepare_cell dr ca c k d timeout t = Inr (t', pr)"
    and "safe_relpath h" "take 1 (path_parts (path_of h)) \<noteq> [''.git'']"
    and "\<forall>s \<in> set (map fst (task_seed_files k)). path_of s \<noteq> path_of h"
    and "path_of h \<noteq> path_of ''.conductor/config.json''"
  shows "fs_read t' (path_join (ci_work_dir (pr_invocation pr)) h) = None"
proof -
  let ?ps = "path_parts (path_of h)"
  have root: "path_root (path_of h) = []" using assms(5) by (simp add: safe_relpath_def)
  have same: "path_parts (path_of s) = ?ps \<Longrightarrow> safe_relpath s \<Longrightarrow> path_of s = path_of h" for s
    using root by (intro path_eqI) (simp_all add: safe_relpath_def)
  have "find (\<lambda>rel. path_parts (path_of rel) = ?ps) (rev (sort (map fst (task_seed_files k)))) = None"
    using assms(2,7) same by (auto simp: find_None_iff safe_map_def)
  moreover have "find (\<lambda>rel. path_parts (path_of rel) = ?ps) (rev (sort (map fst (conductor_extra dr k)))) = None"
    using assms(8) same [of "''.conductor/config.json''"] conductor_extra_safe [of dr k]
    by (auto simp: find_None_iff safe_map_def conductor_extra_def)
  ultimately have "seeded dr k ?ps = None" by (simp add: seeded_def tree_of_def)
  then show ?thesis
    using prepare_cell_read [OF assms(1-4,6)] assms(5) by (simp add: path_join_below)
qed

lemma demo_git_local: "git_local (dr_git demo_driver)"
  by (simp add: git_local_def demo_driver_def)

lemma demo_seed_safe: "safe_map (task_seed_files demo_task)"
  by (simp add: safe_map_def demo_task_def safe_relpath_def path_of_def starts_with_def)

theorem arms_get_the_same_tree_witness:
  "\<exists>t pr u pr'. prepare_cell demo_driver demo_campaign (demo_arm_cell ''baseline'') demo_task (Path ''/'' [''c'']) 60 cell_tree = Inr (t, pr) \<and>
     prepare_cell demo_driver demo_campaign (demo_arm_cell ''conductor'') demo_task (Path ''/'' [''c'']) 60 cell_tree = Inr (u, pr') \<and>
     fs_read t (below (ci_work_dir (pr_invocation pr)) [''sum.py'']) = fs_read u (below (ci_work_dir (pr_invocation pr')) [''sum.py''])"
proof -
  obtain t pr u pr' where
    "prepare_cell demo_driver demo_campaign (demo_arm_cell ''baseline'') demo_task (Path ''/'' [''c'']) 60 cell_tree = Inr (t, pr)"
    "prepare_cell demo_driver demo_campaign (demo_arm_cell ''conductor'') demo_task (Path ''/'' [''c'']) 60 cell_tree = Inr (u, pr')"
    using demo_prepared [of "''baseline''"] demo_prepared [of "''conductor''"] by auto
  moreover from arms_get_the_same_tree [OF demo_git_local demo_seed_safe cell_tree_closed cell_tree_closed this, of "[''sum.py'']"]
  have "fs_read t (below (ci_work_dir (pr_invocation pr)) [''sum.py'']) = fs_read u (below (ci_work_dir (pr_invocation pr')) [''sum.py''])"
    by simp
  ultimately show ?thesis by blast
qed

theorem hidden_files_are_not_there_witness:
  "\<exists>t pr. prepare_cell demo_driver demo_campaign (demo_arm_cell ''conductor'') demo_task (Path ''/'' [''c'']) 60 cell_tree = Inr (t, pr) \<and>
     fs_read t (path_join (ci_work_dir (pr_invocation pr)) ''t.py'') = None"
proof -
  obtain t pr where p:
    "prepare_cell demo_driver demo_campaign (demo_arm_cell ''conductor'') demo_task (Path ''/'' [''c'']) 60 cell_tree = Inr (t, pr)"
    using demo_prepared [of "''conductor''"] by auto
  have "fs_read t (path_join (ci_work_dir (pr_invocation pr)) ''t.py'') = None"
    by (rule hidden_files_are_not_there [OF demo_git_local demo_seed_safe cell_tree_closed p])
      (simp_all add: demo_task_def safe_relpath_def path_of_def starts_with_def)
  then show ?thesis using p by blast
qed

section \<open>The record\<close>

lemma score_passed_iff [simp]: "sc_passed (score_cell x timed s f) \<longleftrightarrow> sc_outcome (score_cell x timed s f) = ''pass''"
  by (simp add: score_cell_def)

lemma score_pass_iff: "sc_outcome (score_cell x timed s f) = ''pass'' \<longleftrightarrow> \<not> given f \<and> \<not> given s \<and> \<not> timed \<and> x = Some 0"
  by (simp add: score_cell_def)

lemma score_vocab: "sc_outcome (score_cell x timed s f) \<in> set OUTCOMES"
  by (simp add: score_cell_def OUTCOMES_def)

lemma record_has_keys: "missing_key (result_record c k at_iso me out w m d) RESULT_KEYS = None"
  by (simp add: missing_key_def RESULT_KEYS_def result_record_def dhas_def)

lemma record_fields:
  "jget (result_record c k at_iso me out w m d) ''outcome'' = JStr (sc_outcome (me_score me))"
  "jget (result_record c k at_iso me out w m d) ''passed'' = JBool (sc_passed (me_score me))"
  "jget (result_record c k at_iso me out w m d) ''exitCode'' = json_int (sc_exit_code (me_score me))"
  "jget (result_record c k at_iso me out w m d) ''wallClockMs'' = JInt (me_wall_clock_ms me)"
  "jget (result_record c k at_iso me out w m d) ''timedOut'' = JBool (co_timed_out out)"
  "jget (result_record c k at_iso me out w m d) ''gauge'' = gauge_json (me_gauge me)"
  "jget (result_record c k at_iso me out w m d) ''stopKind'' = json_text (m_stop_kind m)"
  "\<exists>tokens. jget (result_record c k at_iso me out w m d) ''tokens'' = JObj tokens \<and> missing_key tokens TOKEN_KEYS = None"
  by (simp_all add: result_record_def jget_def missing_key_def TOKEN_KEYS_def dhas_def)

definition gauge_ok :: "gauge \<Rightarrow> bool" where
  "gauge_ok g = (g_ran g \<longleftrightarrow> g_passed g \<noteq> None)"

lemma gauge_json_valid: "gauge_ok g \<Longrightarrow> validate_gauge (gauge_json g) = Inr ()"
  by (auto simp: validate_gauge_def gauge_json_def gauge_ok_def missing_key_def GAUGE_KEYS_def dhas_def jget_def json_bool_def
      split: option.splits)

lemma record_valid_iff:
  assumes "sc_outcome (me_score me) \<in> set OUTCOMES" "gauge_ok (me_gauge me)"
  shows "validate_result (JObj (result_record c k at_iso me out w m d)) =
     (if stop_kind_ok (json_text (m_stop_kind m)) then Inr () else Inl (ResultBadStopKind (json_text (m_stop_kind m))))"
proof -
  obtain tokens where "jget (result_record c k at_iso me out w m d) ''tokens'' = JObj tokens" "missing_key tokens TOKEN_KEYS = None"
    using record_fields(8) by blast
  moreover have "vocab OUTCOMES (JStr (sc_outcome (me_score me))) \<noteq> None" using assms(1) by (simp add: vocab_def)
  ultimately show ?thesis
    using gauge_json_valid [OF assms(2)] by (simp add: validate_result_def record_has_keys record_fields)
qed

lemma measured_ok:
  "measure_cell dr k work timeout_sec out fault tr t = (t', me, tr') \<Longrightarrow>
   sc_outcome (me_score me) \<in> set OUTCOMES \<and> gauge_ok (me_gauge me)"
  by (auto simp: measure_cell_def score_vocab gauge_ok_def Let_def split: if_splits prod.splits)

text \<open>What follows the preparation: an outcome, a measurement, a record, and the check of the record.\<close>

lemma run_cell_after:
  assumes "prepare_cell dr ca c k d timeout t = Inr (t1, pr)"
  shows "\<exists>out t2 fault tr t3 me tr' w m.
    dr_runner dr (pr_invocation pr) t1 = (t2, out) \<and>
    measure_cell dr k (ci_work_dir (pr_invocation pr)) timeout out fault tr t2 = (t3, me, tr') \<and>
    (cell_arm c \<noteq> ''conductor'' \<longrightarrow> m = no_metrics None) \<and>
    (case validate_result (JObj (result_record c k (dr_now_iso dr) me out w m (pr_digest pr))) of
       Inl e \<Rightarrow> run_cell dr ca c k d timeout t = Inl (RunResult e)
     | Inr _ \<Rightarrow> \<exists>t'. run_cell dr ca c k d timeout t = Inr (t', result_record c k (dr_now_iso dr) me out w m (pr_digest pr)))"
proof -
  let ?work = "ci_work_dir (pr_invocation pr)"
  obtain t2 out where r: "dr_runner dr (pr_invocation pr) t1 = (t2, out)" by fastforce
  define w where "w = summarize_ledger_window t2 (pr_ledger pr) (pr_ledger_before pr)"
  define fault where "fault = harness_fault dr t2 d ?work (cell_arm c) w out"
  define tr where "tr = mark dr ''fault-check'' [(''requests'', json_int (w_requests w)), (''fault'', json_text fault)]
    (mark dr ''exit'' [(''exitCode'', json_int (co_exit_code out)), (''timedOut'', JBool (co_timed_out out)), (''spawnError'', json_text (co_spawn_error out))]
    (mark dr ''spawn'' [(''arm'', JStr (cell_arm c)), (''timeoutSec'', JInt timeout), (''ledgerStartLine'', JInt (int (pr_ledger_before pr)))]
    (mark dr ''cell-dir-recreated'' [(''path'', JStr (path_str d))] [])))"
  obtain t3 me tr' where m: "measure_cell dr k ?work timeout out fault tr t2 = (t3, me, tr')" by (metis prod_cases3)
  define ms where "ms = collect_metrics TERMINAL_RUN_STATES (cell_arm c) t3 (dr_mtime dr) ?work"
  have "case validate_result (JObj (result_record c k (dr_now_iso dr) me out w ms (pr_digest pr))) of
       Inl e \<Rightarrow> run_cell dr ca c k d timeout t = Inl (RunResult e)
     | Inr _ \<Rightarrow> \<exists>t'. run_cell dr ca c k d timeout t = Inr (t', result_record c k (dr_now_iso dr) me out w ms (pr_digest pr))"
    using m unfolding run_cell_def tr_def fault_def w_def ms_def
    by (simp add: assms r Let_def map_error_def split: sum.split)
  moreover have "cell_arm c \<noteq> ''conductor'' \<longrightarrow> ms = no_metrics None" by (simp add: ms_def collect_metrics_def)
  ultimately show ?thesis using r m by blast
qed



lemma run_cell_returns:
  assumes "prepare_cell dr ca c k d timeout t = Inr (t1, pr)" "cell_arm c \<noteq> ''conductor''"
  shows "\<exists>t' r. run_cell dr ca c k d timeout t = Inr (t', r)"
  using run_cell_after [OF assms(1)] assms(2)
  by (auto simp: record_valid_iff no_metrics_def json_text_def stop_kind_ok_def dest!: measured_ok)

lemma run_cell_record:
  assumes "run_cell dr ca c k d timeout t = Inr (t', r)"
  shows "\<exists>t1 pr out t2 fault tr t3 me tr' w m.
    prepare_cell dr ca c k d timeout t = Inr (t1, pr) \<and> dr_runner dr (pr_invocation pr) t1 = (t2, out) \<and>
    measure_cell dr k (ci_work_dir (pr_invocation pr)) timeout out fault tr t2 = (t3, me, tr') \<and>
    r = result_record c k (dr_now_iso dr) me out w m (pr_digest pr)"
proof -
  obtain t1 pr where p: "prepare_cell dr ca c k d timeout t = Inr (t1, pr)"
    using assms unfolding run_cell_def Let_def by (elim bindE_pairE)
  from run_cell_after [OF p] obtain out t2 fault tr t3 me tr' w m where
    "dr_runner dr (pr_invocation pr) t1 = (t2, out)"
    "measure_cell dr k (ci_work_dir (pr_invocation pr)) timeout out fault tr t2 = (t3, me, tr')"
    "case validate_result (JObj (result_record c k (dr_now_iso dr) me out w m (pr_digest pr))) of
       Inl e \<Rightarrow> run_cell dr ca c k d timeout t = Inl (RunResult e)
     | Inr _ \<Rightarrow> \<exists>t'. run_cell dr ca c k d timeout t = Inr (t', result_record c k (dr_now_iso dr) me out w m (pr_digest pr))"
    by blast
  then show ?thesis using p assms by (fastforce split: sum.splits)
qed

definition observed :: "outcome \<Rightarrow> bool" where
  \<comment> \<open>an outcome \<open>run_command\<close> can return\<close>
  "observed out = (\<exists>p ms. out = run_command p ms)"

lemma observed_zero: "observed out \<Longrightarrow> co_exit_code out = Some 0 \<Longrightarrow> \<not> co_timed_out out \<and> co_spawn_error out = None"
  unfolding observed_def run_command_def by (elim exE, rename_tac p ms, case_tac p) auto

lemma measured_pass:
  assumes "measure_cell dr k work n out fault tr t = (t', me, tr')"
    and "\<And>u. observed (snd (dr_tester dr (task_hidden_test_command k) work n u))" "observed out"
    and "sc_outcome (me_score me) = ''pass''"
  shows "me_gauge me = \<lparr>g_ran = True, g_passed = Some True, g_exit_code = Some 0\<rparr> \<and> \<not> co_timed_out out \<and>
    \<not> given fault \<and> sc_exit_code (me_score me) = Some 0"
proof -
  obtain t2 test where r: "dr_tester dr (task_hidden_test_command k) work n (materialize_files work (task_hidden_files k) t) = (t2, test)"
    by fastforce
  have obs: "observed test" using assms(2) [of "materialize_files work (task_hidden_files k) t"] by (simp add: r)
  show ?thesis
  proof (cases "given (co_spawn_error out)")
    case True
    then show ?thesis using assms(1,4) by (auto simp: measure_cell_def score_pass_iff)
  next
    case False
    then show ?thesis
      using assms(1,4) observed_zero [OF obs]
      by (auto simp: measure_cell_def r Let_def score_pass_iff given_def split: if_splits) (auto simp: score_cell_def given_def)
  qed
qed

text \<open>C1: a recorded pass is a measured pass: \<open>passed\<close> and the outcome say the same, and a cell is
  recorded as passed only when the run was not killed by its timeout and the hidden test ran,
  passed and exited 0.\<close>

theorem recorded_pass_is_a_measured_pass:
  assumes "run_cell dr ca c k d timeout t = Inr (t', r)"
    and "\<And>i u. observed (snd (dr_runner dr i u))" "\<And>argv work n u. observed (snd (dr_tester dr argv work n u))"
  shows "(jget r ''passed'' = JBool True \<longleftrightarrow> jget r ''outcome'' = JStr ''pass'') \<and>
    (jget r ''outcome'' = JStr ''pass'' \<longrightarrow>
       jget r ''timedOut'' = JBool False \<and> jget r ''exitCode'' = JInt 0 \<and>
       jget r ''gauge'' = JObj [(''ran'', JBool True), (''passed'', JBool True), (''exitCode'', JInt 0)])"
proof -
  from run_cell_record [OF assms(1)] obtain t1 pr out t2 fault tr t3 me tr' w m where
    "prepare_cell dr ca c k d timeout t = Inr (t1, pr)" and run': "dr_runner dr (pr_invocation pr) t1 = (t2, out)"
    and me: "measure_cell dr k (ci_work_dir (pr_invocation pr)) timeout out fault tr t2 = (t3, me, tr')"
    and r: "r = result_record c k (dr_now_iso dr) me out w m (pr_digest pr)" by blast
  have obs: "observed out" using assms(2) [of "pr_invocation pr" t1] by (simp add: run')
  have same: "sc_passed (me_score me) \<longleftrightarrow> sc_outcome (me_score me) = ''pass''"
    using me by (auto simp: measure_cell_def Let_def split: prod.splits if_splits)
  show ?thesis
    using same measured_pass [OF me assms(3) obs] by (auto simp: r record_fields gauge_json_def json_bool_def json_int_def)
qed

lemma demo_observed: "observed (snd (dr_runner demo_driver i u))" "observed (snd (dr_tester demo_driver argv work n u))"
  by (auto simp: demo_driver_def observed_def)

theorem recorded_pass_is_a_measured_pass_witness:
  "\<exists>t r. run_cell demo_driver demo_campaign (demo_arm_cell ''baseline'') demo_task (Path ''/'' [''c'']) 60 cell_tree = Inr (t, r) \<and>
     (jget r ''passed'' = JBool True \<longleftrightarrow> jget r ''outcome'' = JStr ''pass'')"
proof -
  obtain t pr where p:
    "prepare_cell demo_driver demo_campaign (demo_arm_cell ''baseline'') demo_task (Path ''/'' [''c'']) 60 cell_tree = Inr (t, pr)"
    using demo_prepared [of "''baseline''"] by auto
  obtain t' r where "run_cell demo_driver demo_campaign (demo_arm_cell ''baseline'') demo_task (Path ''/'' [''c'']) 60 cell_tree = Inr (t', r)"
    using run_cell_returns [OF p] by (auto simp: demo_arm_cell_def)
  with recorded_pass_is_a_measured_pass [OF this demo_observed] show ?thesis by blast
qed

text \<open>C38: what the timeout cannot take away: when the arm is killed by its timeout, the hidden test still
  runs on its tree with the hidden files in place and its verdict is kept; the cell is not
  scored as passed, and the wall clock is the run's alone.\<close>

theorem timed_out_run_is_still_gauged:
  assumes "measure_cell dr k work n out fault tr t = (t', me, tr')"
    and "co_timed_out out" "\<not> given (co_spawn_error out)" "safe_map (task_hidden_files k)"
  shows "sc_outcome (me_score me) = (if given fault then ''harness-error'' else ''timeout'') \<and>
    \<not> sc_passed (me_score me) \<and> me_wall_clock_ms me = co_wall_clock_ms out \<and>
    (\<exists>u test. dr_tester dr (task_hidden_test_command k) work n u = (t', test) \<and>
      (\<forall>ps. fs_read u (below work ps) =
        (case tree_of (task_hidden_files k) ps of Some b \<Rightarrow> Some b | None \<Rightarrow> fs_read t (below work ps))) \<and>
      g_ran (me_gauge me) \<and> g_exit_code (me_gauge me) = co_exit_code test \<and>
      g_passed (me_gauge me) = Some (co_exit_code test = Some 0 \<and> \<not> co_timed_out test \<and> co_spawn_error test = None))"
proof -
  let ?u = "materialize_files work (task_hidden_files k) t"
  obtain t2 test where r: "dr_tester dr (task_hidden_test_command k) work n ?u = (t2, test)" by fastforce
  have "fs_read ?u (below work ps) =
        (case tree_of (task_hidden_files k) ps of Some b \<Rightarrow> Some b | None \<Rightarrow> fs_read t (below work ps))" for ps
    by (rule fs_read_materialize [OF assms(4)])
  moreover have "t' = t2 \<and> me = \<lparr>me_score = score_cell None True None fault,
      me_gauge = \<lparr>g_ran = True, g_passed = Some (co_exit_code test = Some 0 \<and> \<not> co_timed_out test \<and> co_spawn_error test = None),
                  g_exit_code = co_exit_code test\<rparr>, me_wall_clock_ms = co_wall_clock_ms out\<rparr>"
    using assms(1-3) by (auto simp: measure_cell_def r Let_def)
  moreover have "sc_outcome (score_cell None True None fault) = (if given fault then ''harness-error'' else ''timeout'')"
    by (simp add: score_cell_def given_def)
  ultimately show ?thesis using r by (auto simp: score_pass_iff)
qed

theorem timed_out_run_is_still_gauged_witness:
  "\<exists>t me tr. measure_cell demo_driver demo_task (Path ''/'' [''c'']) 60 (run_command TimesOut 60000) None [] [] = (t, me, tr) \<and>
     sc_outcome (me_score me) = ''timeout'' \<and> g_ran (me_gauge me) \<and> me_wall_clock_ms me = 60000"
proof -
  obtain t me tr where m: "measure_cell demo_driver demo_task (Path ''/'' [''c'']) 60 (run_command TimesOut 60000) None [] [] = (t, me, tr)"
    by (metis prod_cases3)
  have "safe_map (task_hidden_files demo_task)"
    by (simp add: safe_map_def demo_task_def safe_relpath_def path_of_def starts_with_def)
  with timed_out_run_is_still_gauged [OF m] show ?thesis using m by (auto simp: run_command_def given_def)
qed

end
