(* ===== verification/Bench_Aggregate.thy ===== *)
theory Bench_Aggregate
  imports Bench_Results
begin

text \<open>
  \<open>scripts/conductor_bench.py\<close>, the aggregation of a stratum of results (one model, one
  capability): per arm and task, per arm, per tier and arm; and the runs that stopped where
  their task rules it out.

  A row is a record as \<open>write_result\<close> writes it: its outcome a text, \<open>passed\<close> a truth value,
  \<open>wallClockMs\<close> an integer; on any other row the code raises or adds up something that is not
  milliseconds, and the model reads 0 or the empty text.
\<close>

definition median_int :: "int list \<Rightarrow> int" where
  "median_int values =
     (let ordered = sort values; count = length ordered in
      if count = 0 then 0
      else if count mod 2 = 1 then ordered ! (count div 2)
      else (ordered ! (count div 2 - 1) + ordered ! (count div 2)) div 2)"

definition exclusion_reason :: "jobj \<Rightarrow> string option" where
  "exclusion_reason row =
     (if jget row ''outcome'' = JStr ''harness-error'' then Some ''harness-error''
      else if jget row ''pluginAbsent'' = JBool True then Some ''plugin-absent''
      else None)"

definition int_of :: "jobj \<Rightarrow> string \<Rightarrow> int" where
  "int_of r k = (case strict_int (jget r k) of Some n \<Rightarrow> n | None \<Rightarrow> 0)"

section \<open>The state of the aggregation\<close>

record group_acc =
  ga_passes :: int
  ga_scored :: int
  ga_recorded :: int
  ga_excluded :: int
  ga_timeouts :: int
  ga_outcomes :: "string list"
  ga_walls :: "int list"

record group =
  gr_passes :: int
  gr_scored :: int
  gr_recorded :: int
  gr_planned :: int
  gr_excluded :: int
  gr_timeouts :: int
  gr_outcomes :: "string list"
  gr_min_pass :: int
  gr_max_pass :: int
  gr_wall_total :: int
  gr_wall_median :: int

record arm_totals =
  at_passes :: int
  at_scored :: int
  at_recorded :: int
  at_planned :: int
  at_excluded :: int
  at_timeouts :: int
  at_per_task :: "(string, int) dict"
  at_router_error_cells :: "string list"
  at_excluded_cells :: "(string \<times> string) list"
  at_timeout_cells :: "string list"
  at_tokens_total :: int
  at_tokens_partial :: bool
  at_metric_values :: "(string, int list) dict"
  at_stop_kinds :: "string list"
  at_walls :: "int list"

record tier_row =
  tr_passes :: int
  tr_scored :: int
  tr_timeouts :: int
  tr_tokens_total :: int
  tr_tokens_partial :: bool
  tr_sub_sessions :: "int option"
  tr_waves :: "int option"
  tr_walls :: "int list"

record agg =
  ag_group :: group_acc
  ag_totals :: arm_totals
  ag_tier :: tier_row
  ag_missing :: "string list"

definition metric_keys :: "string list" where
  "metric_keys = [''schemaRetries'', ''reviewFindingsUpheld'', ''overridesUsed'']"

definition empty_group :: group_acc where
  "empty_group =
     \<lparr>ga_passes = 0, ga_scored = 0, ga_recorded = 0, ga_excluded = 0, ga_timeouts = 0, ga_outcomes = [], ga_walls = []\<rparr>"

definition empty_totals :: arm_totals where
  "empty_totals =
     \<lparr>at_passes = 0, at_scored = 0, at_recorded = 0, at_planned = 0, at_excluded = 0, at_timeouts = 0, at_per_task = [],
      at_router_error_cells = [], at_excluded_cells = [], at_timeout_cells = [], at_tokens_total = 0,
      at_tokens_partial = False, at_metric_values = map (\<lambda>k. (k, [])) metric_keys, at_stop_kinds = [], at_walls = []\<rparr>"

definition empty_tier_row :: tier_row where
  "empty_tier_row =
     \<lparr>tr_passes = 0, tr_scored = 0, tr_timeouts = 0, tr_tokens_total = 0, tr_tokens_partial = False,
      tr_sub_sessions = None, tr_waves = None, tr_walls = []\<rparr>"

section \<open>One cell\<close>

definition row_tokens :: "jobj \<Rightarrow> jobj" where
  \<comment> \<open>\<open>row.get("tokens") or {}\<close>\<close>
  "row_tokens row = (case jget row ''tokens'' of JObj t \<Rightarrow> t | _ \<Rightarrow> [])"

definition add_measured :: "int option \<Rightarrow> json \<Rightarrow> int option" where
  \<comment> \<open>\<open>tier_row[key] = (tier_row[key] or 0) + value\<close> for an integer, and nothing otherwise\<close>
  "add_measured old v = (case strict_int v of None \<Rightarrow> old | Some n \<Rightarrow> Some ((case old of None \<Rightarrow> 0 | Some m \<Rightarrow> m) + n))"

definition add_metrics :: "jobj \<Rightarrow> (string, int list) dict \<Rightarrow> (string, int list) dict" where
  "add_metrics row values =
     map (\<lambda>(key, ns). (key, case strict_int (jget row key) of Some n \<Rightarrow> ns @ [n] | None \<Rightarrow> ns)) values"

text \<open>What every recorded cell outside an excluded stratum adds, a timeout included.\<close>

definition add_cost :: "jobj \<Rightarrow> agg \<Rightarrow> agg" where
  "add_cost row s =
     (let tokens = row_tokens row;
          total = (case strict_int (jget tokens ''total'') of Some n \<Rightarrow> n | None \<Rightarrow> 0);
          partial = truthy (jget tokens ''partial'');
          wall = int_of row ''wallClockMs''
      in s\<lparr>ag_group := (ag_group s)\<lparr>ga_outcomes := ga_outcomes (ag_group s) @ [text_of row ''outcome''],
                                    ga_walls := ga_walls (ag_group s) @ [wall]\<rparr>,
           ag_totals := (ag_totals s)
             \<lparr>at_tokens_total := at_tokens_total (ag_totals s) + total,
              at_tokens_partial := at_tokens_partial (ag_totals s) \<or> partial,
              at_metric_values := add_metrics row (at_metric_values (ag_totals s)),
              at_stop_kinds := at_stop_kinds (ag_totals s) @ (case jget row ''stopKind'' of JStr k \<Rightarrow> [k] | _ \<Rightarrow> [])\<rparr>,
           ag_tier := (ag_tier s)
             \<lparr>tr_tokens_total := tr_tokens_total (ag_tier s) + total,
              tr_tokens_partial := tr_tokens_partial (ag_tier s) \<or> partial,
              tr_sub_sessions := add_measured (tr_sub_sessions (ag_tier s)) (jget row ''subSessions''),
              tr_waves := add_measured (tr_waves (ag_tier s)) (jget row ''waves''),
              tr_walls := tr_walls (ag_tier s) @ [wall]\<rparr>\<rparr>)"

definition add_timeout :: "string \<Rightarrow> agg \<Rightarrow> agg" where
  "add_timeout cid s =
     s\<lparr>ag_group := (ag_group s)\<lparr>ga_timeouts := ga_timeouts (ag_group s) + 1\<rparr>,
       ag_totals := (ag_totals s)\<lparr>at_timeout_cells := at_timeout_cells (ag_totals s) @ [cid]\<rparr>,
       ag_tier := (ag_tier s)\<lparr>tr_timeouts := tr_timeouts (ag_tier s) + 1\<rparr>\<rparr>"

definition add_scored :: "jobj \<Rightarrow> agg \<Rightarrow> agg" where
  "add_scored row s =
     (let p = (if truthy (jget row ''passed'') then 1 else 0) in
      s\<lparr>ag_group := (ag_group s)\<lparr>ga_scored := ga_scored (ag_group s) + 1, ga_passes := ga_passes (ag_group s) + p\<rparr>,
        ag_tier := (ag_tier s)\<lparr>tr_scored := tr_scored (ag_tier s) + 1, tr_passes := tr_passes (ag_tier s) + p\<rparr>\<rparr>)"

definition add_recorded :: "jobj \<Rightarrow> string \<Rightarrow> agg \<Rightarrow> agg" where
  "add_recorded row cid s =
     s\<lparr>ag_group := (ag_group s)\<lparr>ga_recorded := ga_recorded (ag_group s) + 1\<rparr>,
       ag_totals := (ag_totals s)\<lparr>at_router_error_cells :=
         at_router_error_cells (ag_totals s) @ (if truthy (jget row ''routerErrors'') then [cid] else [])\<rparr>\<rparr>"

definition add_excluded :: "string \<Rightarrow> string \<Rightarrow> agg \<Rightarrow> agg" where
  "add_excluded cid reason s =
     s\<lparr>ag_group := (ag_group s)\<lparr>ga_excluded := ga_excluded (ag_group s) + 1\<rparr>,
       ag_totals := (ag_totals s)\<lparr>at_excluded_cells := at_excluded_cells (ag_totals s) @ [(cid, reason)]\<rparr>\<rparr>"

definition agg_cell :: "string \<Rightarrow> jobj option \<Rightarrow> string option \<Rightarrow> agg \<Rightarrow> agg" where
  "agg_cell cid row stratum s =
     (case row of
        None \<Rightarrow> s\<lparr>ag_missing := ag_missing s @ [cid]\<rparr>
      | Some row \<Rightarrow>
          (let s = add_recorded row cid s in
           case stratum of
             Some reason \<Rightarrow> add_excluded cid reason s
           | None \<Rightarrow>
               (let s = add_cost row s in
                if text_of row ''outcome'' = ''timeout'' then add_timeout cid s else add_scored row s)))"

section \<open>The whole stratum\<close>

record frame =
  fr_model :: string
  fr_capability :: string
  fr_arms :: "string list"
  fr_reps :: int

definition cell_id_at :: "frame \<Rightarrow> string \<Rightarrow> string \<Rightarrow> int \<Rightarrow> string" where
  "cell_id_at f arm tid rep =
     cell_id \<lparr>cell_model = fr_model f, cell_capability = fr_capability f, cell_arm = arm, cell_task = tid, cell_rep = rep\<rparr>"

definition rows_by_id :: "jobj list \<Rightarrow> (string, jobj) dict" where
  "rows_by_id results = foldl (\<lambda>d row. dset (text_of row ''cellId'') row d) [] results"

definition stratum_reason :: "frame \<Rightarrow> (string, jobj) dict \<Rightarrow> string \<Rightarrow> int \<Rightarrow> string option" where
  \<comment> \<open>the reason of the first arm whose cell is recorded and excluded\<close>
  "stratum_reason f by_id tid rep =
     (case List.map_filter (\<lambda>arm. Option.bind (dget by_id (cell_id_at f arm tid rep)) exclusion_reason) (fr_arms f) of
        [] \<Rightarrow> None
      | reason # _ \<Rightarrow> Some reason)"

definition excluded_strata :: "frame \<Rightarrow> (string, jobj) dict \<Rightarrow> string list \<Rightarrow> (string \<times> int, string) dict" where
  "excluded_strata f by_id task_ids =
     foldl (\<lambda>d (tid, rep).
         case stratum_reason f by_id tid rep of
           Some reason \<Rightarrow> (if dhas d (tid, rep) then d else dset (tid, rep) reason d)
         | None \<Rightarrow> d)
       [] (concat (map (\<lambda>tid. map (\<lambda>rep. (tid, rep)) [1..fr_reps f]) task_ids))"

definition pass_flags :: "string list \<Rightarrow> int list" where
  "pass_flags outcomes = map (\<lambda>out. if out = ''pass'' then 1 else 0) (filter (\<lambda>out. out \<noteq> ''timeout'') outcomes)"

definition close_group :: "int \<Rightarrow> group_acc \<Rightarrow> group" where
  "close_group reps g =
     (let flags = pass_flags (ga_outcomes g) in
      \<lparr>gr_passes = ga_passes g, gr_scored = ga_scored g, gr_recorded = ga_recorded g, gr_planned = reps,
       gr_excluded = ga_excluded g, gr_timeouts = ga_timeouts g, gr_outcomes = ga_outcomes g,
       gr_min_pass = (if flags = [] then 0 else Min (set flags)),
       gr_max_pass = (if flags = [] then 0 else Max (set flags)),
       gr_wall_total = sum_list (ga_walls g), gr_wall_median = median_int (ga_walls g)\<rparr>)"

definition add_group :: "string \<Rightarrow> int \<Rightarrow> group_acc \<Rightarrow> arm_totals \<Rightarrow> arm_totals" where
  "add_group tid reps g t =
     t\<lparr>at_passes := at_passes t + ga_passes g, at_scored := at_scored t + ga_scored g,
       at_recorded := at_recorded t + ga_recorded g, at_planned := at_planned t + reps,
       at_excluded := at_excluded t + ga_excluded g, at_timeouts := at_timeouts t + ga_timeouts g,
       at_per_task := dset tid (ga_passes g) (at_per_task t), at_walls := at_walls t @ ga_walls g\<rparr>"

record arm_state =
  as_groups :: "(string, group) dict"
  as_totals :: arm_totals
  as_tiers :: "(string, tier_row) dict"
  as_missing :: "string list"

definition tier_row_of :: "(string, tier_row) dict \<Rightarrow> string \<Rightarrow> tier_row" where
  "tier_row_of tiers tier = (case dget tiers tier of Some r \<Rightarrow> r | None \<Rightarrow> empty_tier_row)"

definition agg_rep ::
  "frame \<Rightarrow> (string, jobj) dict \<Rightarrow> (string \<times> int, string) dict \<Rightarrow> string \<Rightarrow> string \<Rightarrow> agg \<Rightarrow> int \<Rightarrow> agg" where
  "agg_rep f by_id excluded arm tid s rep =
     (let cid = cell_id_at f arm tid rep in agg_cell cid (dget by_id cid) (dget excluded (tid, rep)) s)"

definition agg_task ::
  "frame \<Rightarrow> (string, jobj) dict \<Rightarrow> (string \<times> int, string) dict \<Rightarrow> string \<Rightarrow> arm_state \<Rightarrow> task \<Rightarrow> arm_state" where
  "agg_task f by_id excluded arm a k =
     (let s = foldl (agg_rep f by_id excluded arm (task_id k))
                \<lparr>ag_group = empty_group, ag_totals = as_totals a, ag_tier = tier_row_of (as_tiers a) (task_tier k),
                 ag_missing = as_missing a\<rparr> [1..fr_reps f]
      in \<lparr>as_groups = dset (task_id k) (close_group (fr_reps f) (ag_group s)) (as_groups a),
          as_totals = add_group (task_id k) (fr_reps f) (ag_group s) (ag_totals s),
          as_tiers = dset (task_tier k) (ag_tier s) (as_tiers a),
          as_missing = ag_missing s\<rparr>)"

definition tiers_of :: "task list \<Rightarrow> string list" where
  "tiers_of tasks = filter (\<lambda>tier. tier \<in> set (map task_tier tasks)) TIERS"

definition agg_arm ::
  "frame \<Rightarrow> (string, jobj) dict \<Rightarrow> (string \<times> int, string) dict \<Rightarrow> task list \<Rightarrow> string \<Rightarrow> arm_state" where
  \<comment> \<open>one arm: its groups, totals and tier rows, and the cells it misses\<close>
  "agg_arm f by_id excluded tasks arm =
     foldl (agg_task f by_id excluded arm)
       \<lparr>as_groups = [], as_totals = empty_totals, as_tiers = map (\<lambda>tier. (tier, empty_tier_row)) (tiers_of tasks),
        as_missing = []\<rparr> tasks"

definition wall_clock :: "int list \<Rightarrow> int \<times> int" where
  "wall_clock walls = (sum_list walls, median_int walls)"

definition metric_sums :: "(string, int list) dict \<Rightarrow> (string, int option) dict" where
  "metric_sums values = map (\<lambda>(key, ns). (key, if ns = [] then None else Some (sum_list ns))) values"

record aggregated =
  ar_groups :: "(string, (string, group) dict) dict"
  ar_arm_totals :: "(string, arm_totals) dict"
  ar_arm_walls :: "(string, int \<times> int) dict"
  ar_arm_metrics :: "(string, (string, int option) dict) dict"
  ar_tier_totals :: "(string, (string, tier_row) dict) dict"
  ar_tier_walls :: "(string, (string, int \<times> int) dict) dict"
  ar_excluded :: "((string \<times> int) \<times> string) list"
  ar_missing :: "string list"
  ar_tiers :: "string list"

definition aggregate :: "frame \<Rightarrow> jobj list \<Rightarrow> task list \<Rightarrow> aggregated" where
  "aggregate f results tasks =
     (let by_id = rows_by_id results;
          excluded = excluded_strata f by_id (map task_id tasks);
          arm = agg_arm f by_id excluded tasks
      in \<lparr>ar_groups = map (\<lambda>a. (a, as_groups (arm a))) (fr_arms f),
          ar_arm_totals = map (\<lambda>a. (a, as_totals (arm a))) (fr_arms f),
          ar_arm_walls = map (\<lambda>a. (a, wall_clock (at_walls (as_totals (arm a))))) (fr_arms f),
          ar_arm_metrics = map (\<lambda>a. (a, metric_sums (at_metric_values (as_totals (arm a))))) (fr_arms f),
          ar_tier_totals = map (\<lambda>tier. (tier, map (\<lambda>a. (a, tier_row_of (as_tiers (arm a)) tier)) (fr_arms f))) (tiers_of tasks),
          ar_tier_walls = map (\<lambda>tier. (tier, map (\<lambda>a. (a, wall_clock (tr_walls (tier_row_of (as_tiers (arm a)) tier)))) (fr_arms f))) (tiers_of tasks),
          ar_excluded = sort excluded,
          ar_missing = concat (map (\<lambda>a. as_missing (arm a)) (fr_arms f)),
          ar_tiers = tiers_of tasks\<rparr>)"

definition within_noise :: "group \<Rightarrow> group \<Rightarrow> bool" where
  "within_noise a b = (\<not> (gr_max_pass a < gr_min_pass b \<or> gr_max_pass b < gr_min_pass a))"

section \<open>Trajectories\<close>

record divergence =
  dv_cell :: string
  dv_arm :: string
  dv_task :: task
  dv_observed :: string

definition divergence_of :: "task list \<Rightarrow> string list \<Rightarrow> jobj \<Rightarrow> divergence option" where
  "divergence_of tasks arms row =
     (if text_of row ''arm'' \<notin> set arms then None
      else
        (case find (\<lambda>k. task_id k = text_of row ''taskId'') (rev tasks) of
           None \<Rightarrow> None
         | Some k \<Rightarrow>
             (case jget row ''stopKind'' of
                JStr observed \<Rightarrow>
                  (if observed \<in> set (task_expected_stop_kinds k) then None
                   else Some \<lparr>dv_cell = text_of row ''cellId'', dv_arm = text_of row ''arm'', dv_task = k, dv_observed = observed\<rparr>)
              | _ \<Rightarrow> None)))"

definition trajectory_divergences :: "jobj list \<Rightarrow> task list \<Rightarrow> string list \<Rightarrow> divergence list" where
  "trajectory_divergences results tasks arms = List.map_filter (divergence_of tasks arms) results"

end
