(* ===== verification/Bench_Aggregate_Laws.thy ===== *)
theory Bench_Aggregate_Laws
  imports Bench_Aggregate Bench_Manifest_Laws
begin

text \<open>
  What the aggregation promises: a group's numbers are the counts of its cells by what became of
  them, an excluded stratum leaves every arm's numbers, an arm's totals are the sums over its
  tiers, and the order of the rows does not matter.
\<close>

section \<open>What becomes of a cell\<close>

datatype fate = Missing | Excluded | TimedOut | is_Scored: Scored bool

definition fate_of :: "jobj option \<Rightarrow> string option \<Rightarrow> fate" where
  "fate_of row stratum =
     (case row of None \<Rightarrow> Missing
      | Some r \<Rightarrow>
          (if stratum \<noteq> None then Excluded
           else if text_of r ''outcome'' = ''timeout'' then TimedOut
           else Scored (truthy (jget r ''passed''))))"

definition tally_of :: "(fate \<Rightarrow> bool) \<Rightarrow> fate list \<Rightarrow> int" where
  "tally_of P fs = int (length (filter P fs))"

lemma tally_of_simps [simp]:
  "tally_of P [] = 0" "tally_of P (x # xs) = (if P x then 1 else 0) + tally_of P xs"
  by (simp_all add: tally_of_def)

definition fates :: "frame \<Rightarrow> (string, jobj) dict \<Rightarrow> (string \<times> int, string) dict \<Rightarrow> string \<Rightarrow> string \<Rightarrow> int list \<Rightarrow> fate list" where
  "fates f by_id ex arm tid reps = map (\<lambda>rep. fate_of (dget by_id (cell_id_at f arm tid rep)) (dget ex (tid, rep))) reps"

lemmas agg_step_defs = agg_rep_def agg_cell_def add_recorded_def add_excluded_def add_cost_def add_timeout_def add_scored_def
  fate_of_def Let_def

lemma agg_cell_group:
  "ga_recorded (ag_group (agg_cell cid row st s)) = ga_recorded (ag_group s) + (if fate_of row st \<noteq> Missing then 1 else 0)"
  "ga_excluded (ag_group (agg_cell cid row st s)) = ga_excluded (ag_group s) + (if fate_of row st = Excluded then 1 else 0)"
  "ga_timeouts (ag_group (agg_cell cid row st s)) = ga_timeouts (ag_group s) + (if fate_of row st = TimedOut then 1 else 0)"
  "ga_scored (ag_group (agg_cell cid row st s)) = ga_scored (ag_group s) + (if is_Scored (fate_of row st) then 1 else 0)"
  "ga_passes (ag_group (agg_cell cid row st s)) = ga_passes (ag_group s) + (if fate_of row st = Scored True then 1 else 0)"
  by (cases row; cases st; simp add: agg_step_defs)+

lemma agg_cell_totals:
  "at_recorded (ag_totals (agg_cell cid row st s)) = at_recorded (ag_totals s)"
  "at_excluded (ag_totals (agg_cell cid row st s)) = at_excluded (ag_totals s)"
  "at_timeouts (ag_totals (agg_cell cid row st s)) = at_timeouts (ag_totals s)"
  "at_scored (ag_totals (agg_cell cid row st s)) = at_scored (ag_totals s)"
  "at_passes (ag_totals (agg_cell cid row st s)) = at_passes (ag_totals s)"
  "at_planned (ag_totals (agg_cell cid row st s)) = at_planned (ag_totals s)"
  by (cases row; cases st; simp add: agg_step_defs)+

lemma agg_cell_tier:
  "tr_timeouts (ag_tier (agg_cell cid row st s)) = tr_timeouts (ag_tier s) + (if fate_of row st = TimedOut then 1 else 0)"
  "tr_scored (ag_tier (agg_cell cid row st s)) = tr_scored (ag_tier s) + (if is_Scored (fate_of row st) then 1 else 0)"
  "tr_passes (ag_tier (agg_cell cid row st s)) = tr_passes (ag_tier s) + (if fate_of row st = Scored True then 1 else 0)"
  "tr_tokens_total (ag_tier (agg_cell cid row st s)) - at_tokens_total (ag_totals (agg_cell cid row st s)) =
     tr_tokens_total (ag_tier s) - at_tokens_total (ag_totals s)"
  by (cases row; cases st; simp add: agg_step_defs)+

lemma fates_Cons:
  "fates f by_id ex arm tid (rep # reps) =
     fate_of (dget by_id (cell_id_at f arm tid rep)) (dget ex (tid, rep)) # fates f by_id ex arm tid reps"
  "fates f by_id ex arm tid [] = []"
  by (simp_all add: fates_def)

lemma agg_reps_group:
  "ga_recorded (ag_group (foldl (agg_rep f by_id ex arm tid) s reps)) =
     ga_recorded (ag_group s) + tally_of (\<lambda>x. x \<noteq> Missing) (fates f by_id ex arm tid reps)"
  "ga_excluded (ag_group (foldl (agg_rep f by_id ex arm tid) s reps)) =
     ga_excluded (ag_group s) + tally_of (\<lambda>x. x = Excluded) (fates f by_id ex arm tid reps)"
  "ga_timeouts (ag_group (foldl (agg_rep f by_id ex arm tid) s reps)) =
     ga_timeouts (ag_group s) + tally_of (\<lambda>x. x = TimedOut) (fates f by_id ex arm tid reps)"
  "ga_scored (ag_group (foldl (agg_rep f by_id ex arm tid) s reps)) =
     ga_scored (ag_group s) + tally_of is_Scored (fates f by_id ex arm tid reps)"
  "ga_passes (ag_group (foldl (agg_rep f by_id ex arm tid) s reps)) =
     ga_passes (ag_group s) + tally_of (\<lambda>x. x = Scored True) (fates f by_id ex arm tid reps)"
  by (induction reps arbitrary: s) (simp_all add: fates_Cons agg_rep_def agg_cell_group Let_def)

lemma agg_reps_totals:
  "at_recorded (ag_totals (foldl (agg_rep f by_id ex arm tid) s reps)) = at_recorded (ag_totals s)"
  "at_excluded (ag_totals (foldl (agg_rep f by_id ex arm tid) s reps)) = at_excluded (ag_totals s)"
  "at_timeouts (ag_totals (foldl (agg_rep f by_id ex arm tid) s reps)) = at_timeouts (ag_totals s)"
  "at_scored (ag_totals (foldl (agg_rep f by_id ex arm tid) s reps)) = at_scored (ag_totals s)"
  "at_passes (ag_totals (foldl (agg_rep f by_id ex arm tid) s reps)) = at_passes (ag_totals s)"
  "at_planned (ag_totals (foldl (agg_rep f by_id ex arm tid) s reps)) = at_planned (ag_totals s)"
  by (induction reps arbitrary: s) (simp_all add: agg_rep_def agg_cell_totals Let_def)

lemma agg_reps_tier:
  "tr_timeouts (ag_tier (foldl (agg_rep f by_id ex arm tid) s reps)) =
     tr_timeouts (ag_tier s) + tally_of (\<lambda>x. x = TimedOut) (fates f by_id ex arm tid reps)"
  "tr_scored (ag_tier (foldl (agg_rep f by_id ex arm tid) s reps)) =
     tr_scored (ag_tier s) + tally_of is_Scored (fates f by_id ex arm tid reps)"
  "tr_passes (ag_tier (foldl (agg_rep f by_id ex arm tid) s reps)) =
     tr_passes (ag_tier s) + tally_of (\<lambda>x. x = Scored True) (fates f by_id ex arm tid reps)"
  "tr_tokens_total (ag_tier (foldl (agg_rep f by_id ex arm tid) s reps)) -
     at_tokens_total (ag_totals (foldl (agg_rep f by_id ex arm tid) s reps)) =
     tr_tokens_total (ag_tier s) - at_tokens_total (ag_totals s)"
  by (induction reps arbitrary: s) (simp_all add: fates_Cons agg_rep_def agg_cell_tier Let_def)

section \<open>Groups\<close>

lemma dget_map_pair: "dget (map (\<lambda>a. (a, F a)) xs) k = (if k \<in> set xs then Some (F k) else None)"
  by (induction xs) auto

text \<open>Every group of an arm is the fold over the repetitions of its task.\<close>

definition group_of :: "frame \<Rightarrow> (string, jobj) dict \<Rightarrow> (string \<times> int, string) dict \<Rightarrow> string \<Rightarrow> string \<Rightarrow> group \<Rightarrow> bool" where
  "group_of f by_id ex arm tid g =
     (let fs = fates f by_id ex arm tid [1..fr_reps f] in
      gr_planned g = fr_reps f \<and> gr_recorded g = tally_of (\<lambda>x. x \<noteq> Missing) fs \<and>
      gr_excluded g = tally_of (\<lambda>x. x = Excluded) fs \<and> gr_timeouts g = tally_of (\<lambda>x. x = TimedOut) fs \<and>
      gr_scored g = tally_of is_Scored fs \<and> gr_passes g = tally_of (\<lambda>x. x = Scored True) fs)"

lemma closed_group:
  "ag_group s = empty_group \<Longrightarrow>
   group_of f by_id ex arm tid (close_group (fr_reps f) (ag_group (foldl (agg_rep f by_id ex arm tid) s [1..fr_reps f])))"
  by (simp add: group_of_def close_group_def agg_reps_group empty_group_def Let_def)

lemma agg_tasks_groups:
  assumes "\<And>tid g. dget (as_groups a) tid = Some g \<Longrightarrow> group_of f by_id ex arm tid g"
    and "dget (as_groups (foldl (agg_task f by_id ex arm) a ks)) tid = Some g"
  shows "group_of f by_id ex arm tid g"
  using assms
proof (induction ks arbitrary: a)
  case (Cons k ks)
  show ?case
    by (rule Cons.IH [of "agg_task f by_id ex arm a k"])
      (use Cons.prems in \<open>auto simp: agg_task_def Let_def closed_group split: if_splits\<close>)
qed simp

lemma aggregate_group:
  assumes "dget (ar_groups (aggregate f results tasks)) arm = Some gs" "dget gs tid = Some g"
  shows "group_of f (rows_by_id results) (excluded_strata f (rows_by_id results) (map task_id tasks)) arm tid g"
proof -
  let ?ex = "excluded_strata f (rows_by_id results) (map task_id tasks)"
  have gs: "gs = as_groups (agg_arm f (rows_by_id results) ?ex tasks arm)"
    using assms(1) by (auto simp: aggregate_def Let_def dget_map_pair split: if_splits)
  show ?thesis
    by (rule agg_tasks_groups [OF _ assms(2) [unfolded gs agg_arm_def]]) simp
qed

section \<open>Excluded strata\<close>

lemma dget_first_wins:
  "dget (foldl (\<lambda>d (tid, rep). case R tid rep of Some reason \<Rightarrow> (if dhas d (tid, rep) then d else dset (tid, rep) reason d) | None \<Rightarrow> d) d keys) (tid, rep) =
     (case dget d (tid, rep) of Some r \<Rightarrow> Some r | None \<Rightarrow> if (tid, rep) \<in> set keys then R tid rep else None)"
proof (induction keys arbitrary: d)
  case (Cons k keys)
  obtain t' r' where k: "k = (t', r')" by (cases k)
  show ?case
    unfolding foldl_Cons k Cons.IH [unfolded k]
    by (cases "R t' r'"; cases "dget d (t', r')"; cases "(tid, rep) = (t', r')")
      (auto simp: dhas_iff split: option.splits)
qed (simp split: option.split)

lemma dget_excluded_strata:
  "dget (excluded_strata f by_id ids) (tid, rep) =
     (if tid \<in> set ids \<and> 1 \<le> rep \<and> rep \<le> fr_reps f then stratum_reason f by_id tid rep else None)"
  unfolding excluded_strata_def dget_first_wins by auto

text \<open>A stratum is clean when no arm's recorded cell there is excluded.\<close>

definition clean :: "frame \<Rightarrow> (string, jobj) dict \<Rightarrow> string \<Rightarrow> int \<Rightarrow> bool" where
  "clean f by_id tid rep =
     list_all (\<lambda>a. case dget by_id (cell_id_at f a tid rep) of None \<Rightarrow> True | Some r \<Rightarrow> exclusion_reason r = None) (fr_arms f)"

lemma stratum_clean: "stratum_reason f by_id tid rep = None \<longleftrightarrow> clean f by_id tid rep"
proof -
  have "List.map_filter g xs = [] \<longleftrightarrow> (\<forall>x \<in> set xs. g x = None)" for g :: "string \<Rightarrow> string option" and xs
    by (induction xs) (auto simp: List.map_filter_def)
  then have none: "List.map_filter (\<lambda>a. Option.bind (dget by_id (cell_id_at f a tid rep)) exclusion_reason) (fr_arms f) = [] \<longleftrightarrow>
      (\<forall>a \<in> set (fr_arms f). Option.bind (dget by_id (cell_id_at f a tid rep)) exclusion_reason = None)" .
  have "stratum_reason f by_id tid rep = None \<longleftrightarrow>
      List.map_filter (\<lambda>a. Option.bind (dget by_id (cell_id_at f a tid rep)) exclusion_reason) (fr_arms f) = []"
    by (simp add: stratum_reason_def split: list.split)
  also have "\<dots> \<longleftrightarrow> clean f by_id tid rep"
    unfolding none clean_def list_all_iff by (intro ball_cong refl) (simp split: option.split)
  finally show ?thesis .
qed

section \<open>The numbers of a group\<close>

definition cells_at :: "frame \<Rightarrow> (int \<Rightarrow> bool) \<Rightarrow> int" where
  "cells_at f P = int (length (filter P [1..fr_reps f]))"

definition row_with :: "frame \<Rightarrow> jobj list \<Rightarrow> string \<Rightarrow> string \<Rightarrow> (jobj \<Rightarrow> bool) \<Rightarrow> int \<Rightarrow> bool" where
  \<comment> \<open>the cell is recorded, with such a row\<close>
  "row_with f results arm tid P rep =
     (case dget (rows_by_id results) (cell_id_at f arm tid rep) of None \<Rightarrow> False | Some r \<Rightarrow> P r)"

definition timed_out_row :: "jobj \<Rightarrow> bool" where
  "timed_out_row r = (text_of r ''outcome'' = ''timeout'')"

lemma tally_of_map: "tally_of P (map F xs) = int (length (filter (\<lambda>x. P (F x)) xs))"
  by (simp add: tally_of_def filter_map comp_def)

lemma tally_fates:
  assumes "tid \<in> set (map task_id tasks)"
    and "\<And>rep. 1 \<le> rep \<Longrightarrow> rep \<le> fr_reps f \<Longrightarrow>
      P (fate_of (dget (rows_by_id results) (cell_id_at f arm tid rep)) (stratum_reason f (rows_by_id results) tid rep)) = Q rep"
  shows "tally_of P (fates f (rows_by_id results) (excluded_strata f (rows_by_id results) (map task_id tasks)) arm tid [1..fr_reps f])
    = cells_at f Q"
proof -
  have "filter (\<lambda>rep. P (fate_of (dget (rows_by_id results) (cell_id_at f arm tid rep))
        (dget (excluded_strata f (rows_by_id results) (map task_id tasks)) (tid, rep)))) [1..fr_reps f] = filter Q [1..fr_reps f]"
    by (rule filter_cong) (use assms in \<open>auto simp: dget_excluded_strata\<close>)
  then show ?thesis by (simp add: fates_def tally_of_map cells_at_def)
qed

lemma fate_at:
  "fate_of row (stratum_reason f b tid rep) \<noteq> Missing \<longleftrightarrow> (case row of None \<Rightarrow> False | Some r \<Rightarrow> True)"
  "fate_of row (stratum_reason f b tid rep) = Missing \<longleftrightarrow> row = None"
  "fate_of row (stratum_reason f b tid rep) = Excluded \<longleftrightarrow> (case row of None \<Rightarrow> False | Some r \<Rightarrow> \<not> clean f b tid rep)"
  "fate_of row (stratum_reason f b tid rep) = TimedOut \<longleftrightarrow>
     (case row of None \<Rightarrow> False | Some r \<Rightarrow> clean f b tid rep \<and> timed_out_row r)"
  "is_Scored (fate_of row (stratum_reason f b tid rep)) \<longleftrightarrow>
     (case row of None \<Rightarrow> False | Some r \<Rightarrow> clean f b tid rep \<and> \<not> timed_out_row r)"
  "fate_of row (stratum_reason f b tid rep) = Scored True \<longleftrightarrow>
     (case row of None \<Rightarrow> False | Some r \<Rightarrow> clean f b tid rep \<and> \<not> timed_out_row r \<and> truthy (jget r ''passed''))"
  by (cases row; auto simp: fate_of_def timed_out_row_def stratum_clean [symmetric])+


section \<open>Totals\<close>

lemma tally_split:
  "tally_of (\<lambda>x. x \<noteq> Missing) fs =
     tally_of is_Scored fs + tally_of (\<lambda>x. x = TimedOut) fs + tally_of (\<lambda>x. x = Excluded) fs"
  "tally_of (\<lambda>x. x = Scored True) fs \<le> tally_of is_Scored fs" "0 \<le> tally_of (\<lambda>x. x = Scored True) fs"
proof (induction fs)
  case (Cons x fs)
  { case 1 show ?case using Cons by (cases x) simp_all }
  { case 2 show ?case using Cons by (cases x) simp_all }
  { case 3 show ?case using Cons by simp }
qed simp_all

definition tier_sum :: "(tier_row \<Rightarrow> int) \<Rightarrow> string list \<Rightarrow> (string, tier_row) dict \<Rightarrow> int" where
  "tier_sum F tiers d = sum_list (map (\<lambda>tier. F (tier_row_of d tier)) tiers)"

lemma tier_row_of_dset: "tier_row_of (dset tier v d) tier' = (if tier' = tier then v else tier_row_of d tier')"
  by (simp add: tier_row_of_def)

lemma tier_sum_dset:
  "distinct tiers \<Longrightarrow> tier \<in> set tiers \<Longrightarrow>
   tier_sum F tiers (dset tier v d) = tier_sum F tiers d - F (tier_row_of d tier) + F v"
proof (induction tiers)
  case (Cons x tiers)
  have "sum_list (map (\<lambda>t. F (if t = x then v else tier_row_of d t)) tiers) = sum_list (map (\<lambda>t. F (tier_row_of d t)) tiers)"
    using Cons.prems(1) by (intro arg_cong [where f = sum_list] map_cong) auto
  then show ?case using Cons by (auto simp: tier_sum_def tier_row_of_dset)
qed simp

definition adds_up :: "string list \<Rightarrow> arm_state \<Rightarrow> bool" where
  "adds_up tiers a = (let t = as_totals a; d = as_tiers a in
     at_recorded t = at_scored t + at_timeouts t + at_excluded t \<and> 0 \<le> at_passes t \<and> at_passes t \<le> at_scored t \<and>
     at_passes t = tier_sum tr_passes tiers d \<and> at_scored t = tier_sum tr_scored tiers d \<and>
     at_timeouts t = tier_sum tr_timeouts tiers d \<and> at_tokens_total t = tier_sum tr_tokens_total tiers d)"

lemma agg_task_adds_up:
  assumes "distinct tiers" "task_tier k \<in> set tiers" "adds_up tiers a"
  shows "adds_up tiers (agg_task f by_id ex arm a k)"
proof -
  define s where "s = \<lparr>ag_group = empty_group, ag_totals = as_totals a, ag_tier = tier_row_of (as_tiers a) (task_tier k),
                 ag_missing = as_missing a\<rparr>"
  define s' where "s' = foldl (agg_rep f by_id ex arm (task_id k)) s [1..fr_reps f]"
  define fs where "fs = fates f by_id ex arm (task_id k) [1..fr_reps f]"
  have a': "agg_task f by_id ex arm a k =
      \<lparr>as_groups = dset (task_id k) (close_group (fr_reps f) (ag_group s')) (as_groups a),
       as_totals = add_group (task_id k) (fr_reps f) (ag_group s') (ag_totals s'),
       as_tiers = dset (task_tier k) (ag_tier s') (as_tiers a), as_missing = ag_missing s'\<rparr>"
    by (simp add: agg_task_def s_def s'_def Let_def)
  have tokens: "tr_tokens_total (ag_tier s') - at_tokens_total (ag_totals s') =
      tr_tokens_total (tier_row_of (as_tiers a) (task_tier k)) - at_tokens_total (as_totals a)"
    unfolding s'_def agg_reps_tier(4) by (simp add: s_def)
  note sums = tier_sum_dset [OF assms(1,2)]
  have group: "ga_recorded (ag_group s') = tally_of (\<lambda>x. x \<noteq> Missing) fs" "ga_excluded (ag_group s') = tally_of (\<lambda>x. x = Excluded) fs"
    "ga_timeouts (ag_group s') = tally_of (\<lambda>x. x = TimedOut) fs" "ga_scored (ag_group s') = tally_of is_Scored fs"
    "ga_passes (ag_group s') = tally_of (\<lambda>x. x = Scored True) fs"
    unfolding s'_def agg_reps_group by (simp_all add: s_def empty_group_def fs_def)
  have totals: "at_recorded (ag_totals s') = at_recorded (as_totals a)" "at_excluded (ag_totals s') = at_excluded (as_totals a)"
    "at_timeouts (ag_totals s') = at_timeouts (as_totals a)" "at_scored (ag_totals s') = at_scored (as_totals a)"
    "at_passes (ag_totals s') = at_passes (as_totals a)"
    unfolding s'_def agg_reps_totals by (simp_all add: s_def)
  have tier: "tr_timeouts (ag_tier s') = tr_timeouts (tier_row_of (as_tiers a) (task_tier k)) + tally_of (\<lambda>x. x = TimedOut) fs"
    "tr_scored (ag_tier s') = tr_scored (tier_row_of (as_tiers a) (task_tier k)) + tally_of is_Scored fs"
    "tr_passes (ag_tier s') = tr_passes (tier_row_of (as_tiers a) (task_tier k)) + tally_of (\<lambda>x. x = Scored True) fs"
    unfolding s'_def agg_reps_tier by (simp_all add: s_def fs_def)
  show ?thesis
    using assms(3) tokens tally_split [of fs]
    by (simp add: adds_up_def a' add_group_def sums group totals tier Let_def)
qed

lemma agg_tasks_add_up:
  "distinct tiers \<Longrightarrow> set (map task_tier ks) \<subseteq> set tiers \<Longrightarrow> adds_up tiers a \<Longrightarrow>
   adds_up tiers (foldl (agg_task f by_id ex arm) a ks)"
  by (induction ks arbitrary: a) (simp_all add: agg_task_adds_up)

definition tier_cell :: "aggregated \<Rightarrow> string \<Rightarrow> string \<Rightarrow> tier_row" where
  \<comment> \<open>\<open>tierTotals[tier][arm]\<close>\<close>
  "tier_cell A arm tier =
     (case dget (ar_tier_totals A) tier of
        Some d \<Rightarrow> (case dget d arm of Some r \<Rightarrow> r | None \<Rightarrow> empty_tier_row)
      | None \<Rightarrow> empty_tier_row)"

lemma distinct_tiers: "distinct (tiers_of tasks)"
  by (simp add: tiers_of_def TIERS_def)

text \<open>C6: no cell is lost between the tables: in an arm's totals the recorded cells are the scored, the
  timed out and the excluded ones, the passes are among the scored, and passes, scored cells,
  timeouts and tokens are the sums of the arm's column over the tiers.\<close>

theorem arm_totals_add_up:
  assumes "dget (ar_arm_totals (aggregate f results tasks)) arm = Some t" "set (map task_tier tasks) \<subseteq> set TIERS"
  shows "let A = aggregate f results tasks; over = (\<lambda>F. sum_list (map (\<lambda>tier. F (tier_cell A arm tier)) (ar_tiers A))) in
    at_recorded t = at_scored t + at_timeouts t + at_excluded t \<and> 0 \<le> at_passes t \<and> at_passes t \<le> at_scored t \<and>
    at_passes t = over tr_passes \<and> at_scored t = over tr_scored \<and> at_timeouts t = over tr_timeouts \<and>
    at_tokens_total t = over tr_tokens_total"
proof -
  let ?ex = "excluded_strata f (rows_by_id results) (map task_id tasks)"
  define a where "a = agg_arm f (rows_by_id results) ?ex tasks arm"
  have arm: "arm \<in> set (fr_arms f)" and t: "t = as_totals a"
    using assms(1) by (auto simp: aggregate_def Let_def dget_map_pair a_def split: if_splits)
  have "tier_row_of (map (\<lambda>tier. (tier, empty_tier_row)) ts) tier = empty_tier_row" for ts tier
    by (simp add: tier_row_of_def dget_map_pair)
  then have "tier_sum F (tiers_of tasks) (map (\<lambda>tier. (tier, empty_tier_row)) (tiers_of tasks)) =
      int (length (tiers_of tasks)) * F empty_tier_row" for F
    by (simp add: tier_sum_def sum_list_triv)
  then have "adds_up (tiers_of tasks) \<lparr>as_groups = [], as_totals = empty_totals,
      as_tiers = map (\<lambda>tier. (tier, empty_tier_row)) (tiers_of tasks), as_missing = []\<rparr>"
    by (simp add: adds_up_def empty_totals_def empty_tier_row_def)
  moreover have "set (map task_tier tasks) \<subseteq> set (tiers_of tasks)" using assms(2) by (auto simp: tiers_of_def)
  ultimately have "adds_up (tiers_of tasks) a"
    unfolding a_def agg_arm_def by (rule agg_tasks_add_up [OF distinct_tiers, rotated])
  moreover have "tier_sum F (tiers_of tasks) (as_tiers a) =
      sum_list (map (\<lambda>tier. F (tier_cell (aggregate f results tasks) arm tier)) (tiers_of tasks))" for F :: "tier_row \<Rightarrow> int"
    unfolding tier_sum_def using arm
    by (intro arg_cong [where f = sum_list] map_cong refl) (simp add: tier_cell_def aggregate_def Let_def dget_map_pair a_def)
  moreover have "ar_tiers (aggregate f results tasks) = tiers_of tasks" by (simp add: aggregate_def Let_def)
  ultimately show ?thesis by (simp add: adds_up_def t Let_def)
qed

section \<open>The order of the rows\<close>

lemma dget_rows:
  "distinct (map (\<lambda>r. text_of r ''cellId'') results) \<Longrightarrow>
   dget (rows_by_id results) cid = Some r \<longleftrightarrow> r \<in> set results \<and> text_of r ''cellId'' = cid"
proof (induction results rule: rev_induct)
  case (snoc x xs)
  have "rows_by_id (xs @ [x]) = dset (text_of x ''cellId'') x (rows_by_id xs)" by (simp add: rows_by_id_def)
  moreover have "r \<in> set xs \<Longrightarrow> text_of r ''cellId'' \<noteq> text_of x ''cellId''" using snoc.prems by (auto simp: image_iff)
  ultimately show ?case using snoc by auto
qed (simp add: rows_by_id_def)

definition planned :: "frame \<Rightarrow> task list \<Rightarrow> string \<Rightarrow> bool" where
  \<comment> \<open>the id of a cell of the stratum\<close>
  "planned f tasks cid =
     list_ex (\<lambda>arm. list_ex (\<lambda>k. list_ex (\<lambda>rep. cid = cell_id_at f arm (task_id k) rep) [1..fr_reps f]) tasks) (fr_arms f)"

lemma plannedI:
  "arm \<in> set (fr_arms f) \<Longrightarrow> k \<in> set tasks \<Longrightarrow> rep \<in> set [1..fr_reps f] \<Longrightarrow> planned f tasks (cell_id_at f arm (task_id k) rep)"
  unfolding planned_def list_ex_iff by blast

lemma map_filter_cong: "(\<And>x. x \<in> set xs \<Longrightarrow> g x = h x) \<Longrightarrow> List.map_filter g xs = List.map_filter h xs"
  by (induction xs) (simp_all add: List.map_filter_def)

lemma aggregate_by_lookup:
  assumes same: "\<And>cid. planned f tasks cid \<Longrightarrow> dget (rows_by_id results') cid = dget (rows_by_id results) cid"
  shows "aggregate f results' tasks = aggregate f results tasks"
proof -
  let ?b = "rows_by_id results" and ?b' = "rows_by_id results'"
  have reason: "stratum_reason f ?b' (task_id k) rep = stratum_reason f ?b (task_id k) rep"
    if "k \<in> set tasks" "rep \<in> set [1..fr_reps f]" for k rep
  proof -
    have "List.map_filter (\<lambda>arm. Option.bind (dget ?b' (cell_id_at f arm (task_id k) rep)) exclusion_reason) (fr_arms f) =
        List.map_filter (\<lambda>arm. Option.bind (dget ?b (cell_id_at f arm (task_id k) rep)) exclusion_reason) (fr_arms f)"
      by (rule map_filter_cong) (simp only: same [OF plannedI [OF _ that]])
    then show ?thesis by (simp add: stratum_reason_def)
  qed
  have ex: "excluded_strata f ?b' (map task_id tasks) = excluded_strata f ?b (map task_id tasks)"
    unfolding excluded_strata_def by (rule foldl_cong) (auto simp: reason split: option.split)
  let ?ex = "excluded_strata f ?b (map task_id tasks)"
  have rep: "agg_rep f ?b' ?ex arm (task_id k) s rep = agg_rep f ?b ?ex arm (task_id k) s rep"
    if "arm \<in> set (fr_arms f)" "k \<in> set tasks" "rep \<in> set [1..fr_reps f]" for arm k rep s
    using same [OF plannedI [OF that]] by (simp add: agg_rep_def)
  have task: "agg_task f ?b' ?ex arm a k = agg_task f ?b ?ex arm a k"
    if "arm \<in> set (fr_arms f)" "k \<in> set tasks" for arm k a
  proof -
    have "foldl (agg_rep f ?b' ?ex arm (task_id k)) s [1..fr_reps f] = foldl (agg_rep f ?b ?ex arm (task_id k)) s [1..fr_reps f]" for s
      by (rule foldl_cong) (use rep that in auto)
    then show ?thesis by (simp add: agg_task_def)
  qed
  have arm: "agg_arm f ?b' ?ex tasks arm = agg_arm f ?b ?ex tasks arm" if "arm \<in> set (fr_arms f)" for arm
    unfolding agg_arm_def by (rule foldl_cong) (use task that in auto)
  show ?thesis by (simp add: aggregate_def ex arm Let_def cong: map_cong)
qed

text \<open>C7: the tables are a function of the stratum's own records: two sets of results with one record per
  cell id that agree on the planned cells aggregate to the same numbers, in whatever order the
  directory listed them and whatever else it holds, the calibration cells and the other
  strata included.\<close>

theorem aggregate_reads_planned_cells:
  assumes "distinct (map (\<lambda>r. text_of r ''cellId'') results)" "distinct (map (\<lambda>r. text_of r ''cellId'') results')"
    and "\<And>r. planned f tasks (text_of r ''cellId'') \<Longrightarrow> r \<in> set results' \<longleftrightarrow> r \<in> set results"
  shows "aggregate f results' tasks = aggregate f results tasks"
proof (rule aggregate_by_lookup)
  fix cid
  assume "planned f tasks cid"
  then have "dget (rows_by_id results') cid = Some r \<longleftrightarrow> dget (rows_by_id results) cid = Some r" for r
    using assms by (auto simp: dget_rows)
  then show "dget (rows_by_id results') cid = dget (rows_by_id results) cid" by (metis option.exhaust)
qed

section \<open>One stratum\<close>

definition demo_frame :: frame where
  "demo_frame = \<lparr>fr_model = ''m'', fr_capability = ''none'', fr_arms = [''baseline'', ''conductor''], fr_reps = 1\<rparr>"

definition demo_rows :: "jobj list" where
  "demo_rows =
     [[(''cellId'', JStr (cell_id_at demo_frame ''baseline'' ''t0-sum'' 1)), (''outcome'', JStr ''pass''), (''passed'', JBool True),
       (''wallClockMs'', JInt 5), (''tokens'', JObj [(''total'', JInt 7)])]]"

lemma demo_task_fields: "task_id demo_task = ''t0-sum''" "task_tier demo_task = ''T0''"
  by (simp_all add: demo_task_def)

lemma demo_rows_lookup: "dget (rows_by_id demo_rows) (cell_id_at demo_frame ''baseline'' ''t0-sum'' 1) = Some (hd demo_rows)"
  by (simp add: rows_by_id_def demo_rows_def text_of_def jget_def)

lemma demo_group:
  "\<exists>gs g. dget (ar_groups (aggregate demo_frame demo_rows [demo_task])) ''baseline'' = Some gs \<and> dget gs ''t0-sum'' = Some g"
  by (simp add: aggregate_def Let_def dget_map_pair demo_frame_def agg_arm_def agg_task_def demo_task_fields)


theorem arm_totals_add_up_witness:
  "\<exists>t. dget (ar_arm_totals (aggregate demo_frame demo_rows [demo_task])) ''baseline'' = Some t \<and>
     at_recorded t = at_scored t + at_timeouts t + at_excluded t"
proof -
  obtain t where t: "dget (ar_arm_totals (aggregate demo_frame demo_rows [demo_task])) ''baseline'' = Some t"
    by (simp add: aggregate_def Let_def dget_map_pair demo_frame_def)
  then show ?thesis using arm_totals_add_up [OF t] by (simp add: demo_task_fields TIERS_def Let_def)
qed

lemma other_model_not_planned: "\<not> planned demo_frame [demo_task] ''x''"
  by (simp add: planned_def demo_frame_def cell_id_at_def cell_id_def model_slug_def str_replace_Cons starts_with_def)

theorem aggregate_reads_planned_cells_witness:
  "aggregate demo_frame ([(''cellId'', JStr ''x'')] # demo_rows) [demo_task] = aggregate demo_frame demo_rows [demo_task]"
proof (rule aggregate_reads_planned_cells)
  have cid: "text_of [(''cellId'', JStr x)] ''cellId'' = x" for x by (simp add: text_of_def jget_def)
  have "cell_id_at demo_frame ''baseline'' ''t0-sum'' 1 \<noteq> ''x''"
    by (simp add: demo_frame_def cell_id_at_def cell_id_def model_slug_def str_replace_Cons starts_with_def)
  then show "distinct (map (\<lambda>r. text_of r ''cellId'') ([(''cellId'', JStr ''x'')] # demo_rows))"
    by (simp add: demo_rows_def text_of_def jget_def)
  show "distinct (map (\<lambda>r. text_of r ''cellId'') demo_rows)" by (simp add: demo_rows_def)
  show "planned demo_frame [demo_task] (text_of r ''cellId'') \<Longrightarrow>
      r \<in> set ([(''cellId'', JStr ''x'')] # demo_rows) \<longleftrightarrow> r \<in> set demo_rows" for r
    using other_model_not_planned cid by auto
qed

end
