(* ===== verification/Bench_Campaign.thy ===== *)
theory Bench_Campaign
  imports Bench_Cell Bench_Aggregate
begin

text \<open>
  \<open>scripts/conductor_bench.py\<close>, the campaign: the loop over the plan that reuses what is on disk,
  the two floors a task set is checked against before it is run, the rubric lane and the sample
  a human reviews. The executor of a cell is an argument (\<open>cell_runner\<close>), of which \<open>live_runner\<close>
  is the one the program uses; the observer tool is a function from a run directory and a flag
  to its output.
\<close>

section \<open>Preflight\<close>

definition command_is_spawnable :: "(path \<Rightarrow> bool) \<Rightarrow> (string \<Rightarrow> bool) \<Rightarrow> string list \<Rightarrow> bool" where
  \<comment> \<open>\<open>executable\<close>: a file this user may run; \<open>on_path\<close>: \<open>shutil.which\<close> finds it\<close>
  "command_is_spawnable executable on_path argv =
     (case argv of
        [] \<Rightarrow> False
      | program # _ \<Rightarrow>
          (if program = [] then False
           else if starts_with program ''/'' then executable (path_of program)
           else if CHR ''/'' \<in> set program then executable (path_of program)
           else on_path program))"

definition check_commands_spawnable ::
  "(path \<Rightarrow> bool) \<Rightarrow> (string \<Rightarrow> bool) \<Rightarrow> task list \<Rightarrow> (string \<times> string \<times> string list) list" where
  "check_commands_spawnable executable on_path tasks =
     concat (map (\<lambda>k. map (\<lambda>(field, argv). (task_id k, field, argv))
        (filter (\<lambda>(field, argv). \<not> command_is_spawnable executable on_path argv)
           [(''hiddenTestCommand'', task_hidden_test_command k), (''repoTestCommand'', task_repo_test_command k)])) tasks)"

definition work_root_problem :: "(path \<Rightarrow> path) \<Rightarrow> path \<Rightarrow> path \<Rightarrow> string" where
  "work_root_problem resolve repo_root work_root =
     (let resolved = resolve work_root in
      if within resolved (resolve repo_root) then
        ''work root '' @ path_str resolved @ '' lies inside '' @ path_str repo_root @
        '', which puts every graded gauge a constant relative path from every cell; name one outside the repository''
      else [])"

datatype config_error = ConfigUnreadable path | ConfigNotObject path

definition load_router_config :: "fs \<Rightarrow> path \<Rightarrow> (config_error, jobj) res" where
  "load_router_config t p =
     (case fs_read t p of
        None \<Rightarrow> Inl (ConfigUnreadable p)
      | Some s \<Rightarrow>
          (case json_loads s of
             None \<Rightarrow> Inl (ConfigUnreadable p)
           | Some (JObj d) \<Rightarrow> Inr d
           | Some _ \<Rightarrow> Inl (ConfigNotObject p)))"

section \<open>The floors\<close>

type_synonym tester = "string list \<Rightarrow> path \<Rightarrow> int \<Rightarrow> fs \<Rightarrow> fs \<times> outcome"

record floor =
  fl_tree :: fs
  fl_bad :: "string list"
  fl_timed_out :: "string list"
  fl_exit_codes :: "(string, int option) dict"

definition fl_ok :: "floor \<Rightarrow> bool" where
  "fl_ok f = (fl_bad f = [] \<and> fl_timed_out f = [])"

definition scratch_dir :: "path \<Rightarrow> fs \<Rightarrow> fs" where
  "scratch_dir scratch t = fs_mkdir scratch (if fs_exists t scratch then fs_rmtree scratch t else t)"

definition record_floor :: "(int option \<Rightarrow> bool) \<Rightarrow> task \<Rightarrow> outcome \<Rightarrow> fs \<Rightarrow> floor \<Rightarrow> floor" where
  "record_floor bad k out t f =
     f\<lparr>fl_tree := t,
       fl_exit_codes := dset (task_id k) (co_exit_code out) (fl_exit_codes f),
       fl_timed_out := fl_timed_out f @ (if co_timed_out out then [task_id k] else []),
       fl_bad := fl_bad f @ (if \<not> co_timed_out out \<and> bad (co_exit_code out) then [task_id k] else [])\<rparr>"

definition verify_step :: "tester \<Rightarrow> path \<Rightarrow> int \<Rightarrow> floor \<Rightarrow> task \<Rightarrow> floor" where
  "verify_step tester work_root timeout_sec f k =
     (let scratch = path_join work_root (task_id k);
          t = materialize_files scratch (task_hidden_files k)
                (materialize_files scratch (task_seed_files k) (scratch_dir scratch (fl_tree f)));
          (t, out) = tester (task_hidden_test_command k) scratch timeout_sec t
      in record_floor (\<lambda>code. code = Some 0) k out t f)"

definition verify_tasks :: "tester \<Rightarrow> path \<Rightarrow> int \<Rightarrow> task list \<Rightarrow> fs \<Rightarrow> floor" where
  \<comment> \<open>\<open>fl_bad\<close> is \<open>passedUnmodified\<close>\<close>
  "verify_tasks tester work_root timeout_sec tasks t =
     foldl (verify_step tester work_root timeout_sec)
       \<lparr>fl_tree = t, fl_bad = [], fl_timed_out = [], fl_exit_codes = []\<rparr> tasks"

definition seed_green_step :: "tester \<Rightarrow> path \<Rightarrow> int \<Rightarrow> floor \<Rightarrow> task \<Rightarrow> floor" where
  "seed_green_step tester work_root timeout_sec f k =
     (let scratch = path_join work_root (task_id k);
          t = materialize_files scratch (task_seed_files k) (scratch_dir scratch (fl_tree f));
          (t, out) = tester (task_repo_test_command k) scratch timeout_sec t
      in record_floor (\<lambda>code. code \<noteq> Some 0) k out t f)"

definition verify_seed_green :: "tester \<Rightarrow> path \<Rightarrow> int \<Rightarrow> task list \<Rightarrow> fs \<Rightarrow> floor" where
  \<comment> \<open>\<open>fl_bad\<close> is \<open>startedRed\<close>\<close>
  "verify_seed_green tester work_root timeout_sec tasks t =
     foldl (seed_green_step tester work_root timeout_sec)
       \<lparr>fl_tree = t, fl_bad = [], fl_timed_out = [], fl_exit_codes = []\<rparr> tasks"

section \<open>The loop over the plan\<close>

datatype campaign_error =
    RecordedUnreadable path
  | NoSuchTask string
  | CellFailed run_error
  | ResultRefused result_error

type_synonym cell_runner = "cell \<Rightarrow> task \<Rightarrow> path \<Rightarrow> fs \<Rightarrow> (run_error, fs \<times> jobj) res"

type_synonym observer = "path \<Rightarrow> string \<Rightarrow> fs \<Rightarrow> string option"

record progress =
  pg_executed :: "string list"
  pg_skipped :: "string list"
  pg_rows :: "json list"

definition observe_one :: "observer \<Rightarrow> path \<Rightarrow> path \<Rightarrow> string \<Rightarrow> fs \<Rightarrow> string \<times> string \<Rightarrow> fs" where
  "observe_one observer run_dir destination stem t = (\<lambda>(flag, sfx).
     case observer run_dir flag t of
       None \<Rightarrow> t
     | Some txt \<Rightarrow> fs_write (path_join destination (stem @ ''.'' @ sfx)) txt t)"

definition capture_observation :: "observer \<Rightarrow> (path \<Rightarrow> int) \<Rightarrow> path \<Rightarrow> cell \<Rightarrow> path \<Rightarrow> fs \<Rightarrow> fs" where
  "capture_observation observer mtime results_dir c work_dir t =
     (case newest_run_dir t mtime work_dir of
        None \<Rightarrow> t
      | Some run_dir \<Rightarrow>
          (let destination = path_join results_dir ''observed'' in
           foldl (observe_one observer run_dir destination (cell_stem c)) (fs_mkdir destination t)
             [(''--console'', ''turns.txt''), (''--json'', ''snapshot.json'')]))"

definition live_runner :: "driver \<Rightarrow> campaign \<Rightarrow> cell_runner" where
  \<comment> \<open>\<open>make_cell_runner\<close>: the model and the wall clock are the cell's and the task's\<close>
  "live_runner dr ca c k directory t = run_cell dr (ca\<lparr>ca_model := cell_model c\<rparr>) c k directory (task_run_timeout_sec k) t"

definition task_of :: "task list \<Rightarrow> string \<Rightarrow> task option" where
  \<comment> \<open>\<open>by_task\<close>: the last task of an id\<close>
  "task_of tasks tid = find (\<lambda>k. task_id k = tid) (rev tasks)"

definition run_one ::
  "cell_runner \<Rightarrow> observer \<Rightarrow> (path \<Rightarrow> int) \<Rightarrow> path \<Rightarrow> path \<Rightarrow> task list \<Rightarrow> fs \<times> progress \<Rightarrow> cell \<Rightarrow>
   (campaign_error, fs \<times> progress) res" where
  "run_one runner observer mtime results_dir work_root tasks = (\<lambda>(t, pg) c.
     let recorded = result_path results_dir c in
     if fs_is_file t recorded then
       (case Option.bind (fs_read t recorded) json_loads of
          None \<Rightarrow> Inl (RecordedUnreadable recorded)
        | Some row \<Rightarrow> Inr (t, pg\<lparr>pg_skipped := pg_skipped pg @ [cell_id c], pg_rows := pg_rows pg @ [row]\<rparr>))
     else
       (case task_of tasks (cell_task c) of
          None \<Rightarrow> Inl (NoSuchTask (cell_task c))
        | Some k \<Rightarrow>
            (let work = cell_dir_for work_root c in
             bindE (map_error CellFailed (runner c k work t)) (\<lambda>(t, row).
             bindE (map_error ResultRefused (write_result results_dir row t)) (\<lambda>(t, _).
             let t = (if cell_arm c = ''conductor''
                      then capture_observation observer mtime results_dir c (path_join work ''repo'') t else t)
             in Inr (t, pg\<lparr>pg_executed := pg_executed pg @ [cell_id c], pg_rows := pg_rows pg @ [JObj row]\<rparr>))))))"

definition run_cells ::
  "cell_runner \<Rightarrow> observer \<Rightarrow> (path \<Rightarrow> int) \<Rightarrow> path \<Rightarrow> path \<Rightarrow> task list \<Rightarrow> cell list \<Rightarrow> fs \<Rightarrow>
   (campaign_error, fs \<times> progress) res" where
  "run_cells runner observer mtime results_dir work_root tasks cells t =
     foldE (run_one runner observer mtime results_dir work_root tasks)
       (t, \<lparr>pg_executed = [], pg_skipped = [], pg_rows = []\<rparr>) cells"

definition report_rows :: "path \<Rightarrow> task list \<Rightarrow> fs \<Rightarrow> (result_error, jobj list) res" where
  \<comment> \<open>\<open>report_only\<close>: the rows of the selected tasks\<close>
  "report_rows results_dir tasks t =
     bindE (load_results results_dir t) (\<lambda>rows.
       Inr (filter (\<lambda>row. task_of tasks (text_of row ''taskId'') \<noteq> None) rows))"

section \<open>Rubrics\<close>

definition RUBRIC_CRITERIA :: "string list" where
  "RUBRIC_CRITERIA = [''structure'', ''decomposition'', ''testQuality'', ''deadCode'', ''overBuilding'']"
definition RUBRIC_SCORES :: "int list" where "RUBRIC_SCORES = [0, 1, 2, 3]"

datatype rubric_error =
    RubricNotObject
  | RubricNoCell
  | RubricNoReviewer string
  | RubricNoScores string
  | RubricNoScore string string
  | RubricBadScore string string json
  | RubricUnknownCriterion string string
  | RubricBadFindings string
  | RubricBadNotes string
  | RubricUnreadable path

definition rubric_score_ok :: "json \<Rightarrow> bool" where
  \<comment> \<open>\<open>value in RUBRIC_SCORES\<close> and no truth value; a decimal number equal to one is in it\<close>
  "rubric_score_ok v = (list_ex (\<lambda>n. py_eq_int v n) RUBRIC_SCORES \<and> \<not> is_bool v)"

definition validate_rubric :: "json \<Rightarrow> (rubric_error, unit) res" where
  "validate_rubric row =
     (case row of
        JObj r \<Rightarrow>
          bindE (some_or RubricNoCell (text_field (jget r ''cellId''))) (\<lambda>cid.
          bindE (some_or (RubricNoReviewer cid) (text_field (jget r ''reviewer''))) (\<lambda>_.
          case jget r ''scores'' of
            JObj scores \<Rightarrow>
              (case find (\<lambda>criterion. \<not> dhas scores criterion \<or> \<not> rubric_score_ok (jget scores criterion)) RUBRIC_CRITERIA of
                 Some criterion \<Rightarrow>
                   (if \<not> dhas scores criterion then Inl (RubricNoScore cid criterion)
                    else Inl (RubricBadScore cid criterion (jget scores criterion)))
               | None \<Rightarrow>
                   (case find (\<lambda>criterion. criterion \<notin> set RUBRIC_CRITERIA) (map fst scores) of
                      Some criterion \<Rightarrow> Inl (RubricUnknownCriterion cid criterion)
                    | None \<Rightarrow>
                        (case jget r ''findings'' of
                           JArr items \<Rightarrow>
                             (if \<not> list_all is_str items then Inl (RubricBadFindings cid)
                              else if \<not> is_str (jget r ''notes'') then Inl (RubricBadNotes cid)
                              else Inr ())
                         | _ \<Rightarrow> Inl (RubricBadFindings cid))))
          | _ \<Rightarrow> Inl (RubricNoScores cid)))
      | _ \<Rightarrow> Inl RubricNotObject)"

definition rubric_path :: "path \<Rightarrow> string \<Rightarrow> path" where
  "rubric_path rubric_dir cid = path_join rubric_dir (str_replace ''/'' ''__'' cid @ ''.json'')"

definition write_rubric :: "path \<Rightarrow> jobj \<Rightarrow> fs \<Rightarrow> (rubric_error, fs \<times> path) res" where
  "write_rubric rubric_dir row t =
     bindE (validate_rubric (JObj row)) (\<lambda>_.
       let target = rubric_path rubric_dir (text_of row ''cellId'') in
       Inr (fs_write target (json_dumps_indent (JObj row) @ [CHR 0x0A]) (fs_mkdir (path_parent target) t), target))"

definition load_rubric :: "fs \<Rightarrow> path \<Rightarrow> (rubric_error, jobj) res" where
  "load_rubric t p =
     (case Option.bind (fs_read t p) json_loads of
        None \<Rightarrow> Inl (RubricUnreadable p)
      | Some j \<Rightarrow> bindE (validate_rubric j) (\<lambda>_. some_or RubricNotObject (the_obj j)))"

definition load_rubrics :: "path \<Rightarrow> fs \<Rightarrow> (rubric_error, jobj list) res" where
  "load_rubrics rubric_dir t =
     (if \<not> fs_is_dir t rubric_dir then Inr []
      else mapE (load_rubric t) (sort (filter (\<lambda>p. glob ''*.json'' (path_name p)) (fs_children t rubric_dir))))"

record arm_rubric =
  rb_reviewed :: nat
  rb_medians :: "(string, int option) dict"
  rb_findings :: "string list"

definition scores_of :: "string \<Rightarrow> jobj list \<Rightarrow> int list" where
  "scores_of criterion rows =
     map (\<lambda>row. case jget row ''scores'' of JObj s \<Rightarrow> int_of s criterion | _ \<Rightarrow> 0) rows"

definition findings_of :: "jobj \<Rightarrow> string list" where
  "findings_of row = (case jget row ''findings'' of JArr items \<Rightarrow> List.map_filter the_str items | _ \<Rightarrow> [])"

definition aggregate_rubrics :: "jobj list \<Rightarrow> jobj list \<Rightarrow> string list \<Rightarrow> (string, arm_rubric) dict" where
  \<comment> \<open>over records whose scores are integers\<close>
  "aggregate_rubrics rubrics results arms =
     (let arm_of = dict_of (map (\<lambda>row. (text_of row ''cellId'', text_of row ''arm'')) results) in
      map (\<lambda>arm.
        let reviewed = filter (\<lambda>row. dget arm_of (text_of row ''cellId'') = Some arm) rubrics in
        (arm, \<lparr>rb_reviewed = length reviewed,
               rb_medians = map (\<lambda>criterion. (criterion,
                   if reviewed = [] then None else Some (median_int (scores_of criterion reviewed)))) RUBRIC_CRITERIA,
               rb_findings = concat (map findings_of reviewed)\<rparr>)) arms)"

section \<open>The sample a human reads\<close>

definition stratum_of :: "task list \<Rightarrow> cell \<Rightarrow> (string \<times> string) option" where
  "stratum_of tasks c = map_option (\<lambda>k. (task_tier k, cell_arm c)) (task_of tasks (cell_task c))"

definition strata_of :: "cell list \<Rightarrow> task list \<Rightarrow> (string \<times> string, cell list) dict" where
  "strata_of plan tasks =
     foldl (\<lambda>d c. case stratum_of tasks c of
         None \<Rightarrow> d
       | Some key \<Rightarrow> dset key ((case dget d key of Some cs \<Rightarrow> cs | None \<Rightarrow> []) @ [c]) d) [] plan"

definition stratified_review_sample ::
  "cell list \<Rightarrow> task list \<Rightarrow> int \<Rightarrow> (int, ((string \<times> string) \<times> cell) list) res" where
  \<comment> \<open>each row: its tier and arm, and the cell the other fields are read from\<close>
  "stratified_review_sample plan tasks per_stratum =
     (if per_stratum < 1 then Inl per_stratum
      else Inr (concat (map (\<lambda>key. map (Pair key) (take (nat per_stratum)
                  (case dget (strata_of plan tasks) key of Some cs \<Rightarrow> cs | None \<Rightarrow> [])))
                (sort (map fst (strata_of plan tasks))))))"

end
