(* ===== verification/Bench_Campaign_Laws.thy ===== *)
theory Bench_Campaign_Laws
  imports Bench_Campaign Bench_Cell_Laws
begin

text \<open>
  What the campaign promises: a plan that has run is not run again, and the floor a task set is
  checked against says of each hidden test what it did on the untouched seed.
\<close>

section \<open>The loop reuses what is on disk\<close>

definition on_disk :: "path \<Rightarrow> fs \<Rightarrow> cell \<Rightarrow> json \<Rightarrow> bool" where
  "on_disk d t c row = (\<exists>s. fs_read t (result_path d c) = Some s \<and> json_loads s = Some row)"

text \<open>A runner's records can be read back, are named for the cell they are of, and no text in the
  results directory is lost to a run.\<close>

definition keeps_results :: "cell_runner \<Rightarrow> path \<Rightarrow> cell set \<Rightarrow> bool" where
  "keeps_results runner d cells =
     (\<forall>c \<in> cells. \<forall>k w t t' r. runner c k w t = Inr (t', r) \<longrightarrow>
        plain_json (JObj r) \<and> result_path d (result_cell r) = result_path d c \<and>
        (\<forall>q s. path_parts q \<noteq> [] \<longrightarrow> path_parent q = d \<longrightarrow> fs_read t q = Some s \<longrightarrow> fs_read t' q = Some s))"

lemma str_replace_free: "a \<notin> set new \<Longrightarrow> a \<notin> set (str_replace [a] new s)"
  by (induction s) (auto simp: str_replace_Cons starts_with_def)

lemma observation_name: "simple_part (cell_stem c @ ''.'' @ sfx)" if "CHR ''/'' \<notin> set sfx" "sfx \<noteq> []"
  using that str_replace_free [of "CHR ''/''" "''__''" "cell_id c"]
  by (cases "cell_stem c") (auto simp: simple_part_def cell_stem_def)

lemma capture_keeps:
  assumes "path_parts q \<noteq> []" "path_parent q = d"
  shows "fs_read (capture_observation observer mtime d c work t) q = fs_read t q"
proof -
  have child: "path_join (path_join d ''observed'') (cell_stem c @ ''.'' @ sfx) \<noteq> q"
    if "CHR ''/'' \<notin> set sfx" "sfx \<noteq> []" for sfx
  proof
    assume "path_join (path_join d ''observed'') (cell_stem c @ ''.'' @ sfx) = q"
    then have "path_parts (path_parent q) = path_parts d @ [''observed'']"
      using observation_name [OF that, of c]
      by (auto simp: path_join_simple path_parent_def simple_part_def butlast_append)
    then show False using assms(2) by simp
  qed
  show ?thesis
    using child [of "''turns.txt''"] child [of "''snapshot.json''"]
    by (auto simp: capture_observation_def observe_one_def Let_def split: option.split)
qed

lemma run_one_keeps:
  assumes "keeps_results runner d cells" "c \<in> cells"
    and "run_one runner observer mtime d root tasks (t, pg) c = Inr (t', pg')"
    and "path_parts q \<noteq> []" "path_parent q = d" "fs_read t q = Some s"
  shows "fs_read t' q = Some s"
proof (cases "fs_is_file t (result_path d c)")
  case True
  then show ?thesis using assms(3,6) by (auto simp: run_one_def Let_def split: option.splits)
next
  case False
  obtain k t1 r t2 target where r: "runner c k (cell_dir_for root c) t = Inr (t1, r)"
    and w: "write_result d r t1 = Inr (t2, target)"
    and t': "t' = (if cell_arm c = ''conductor'' then capture_observation observer mtime d c (path_join (cell_dir_for root c) ''repo'') t2 else t2)"
    using assms(3) False by (auto simp: run_one_def Let_def bindE_eq_Inr map_error_Inr split: option.splits)
  have "q \<noteq> result_path d c" using False assms(6) fs_read_is_file by blast
  moreover have kept: "result_path d (result_cell r) = result_path d c" "fs_read t1 q = Some s"
    using assms(1,2,4-6) r unfolding keeps_results_def by blast+
  ultimately have "fs_read t2 q = Some s" using w by (auto simp: write_result_def bindE_eq_Inr Let_def)
  then show ?thesis using t' capture_keeps [OF assms(4,5)] by simp
qed

lemma run_one_records:
  assumes "keeps_results runner d cells" "c \<in> cells" "simple_part (result_name c)"
    and "run_one runner observer mtime d root tasks (t, pg) c = Inr (t', pg')"
  shows "\<exists>row. pg_rows pg' = pg_rows pg @ [row] \<and> on_disk d t' c row"
proof (cases "fs_is_file t (result_path d c)")
  case True
  then show ?thesis
    using assms(4) by (auto simp: run_one_def Let_def on_disk_def bind_eq_Some_conv split: option.splits)
next
  case False
  obtain k t1 r t2 target where r: "runner c k (cell_dir_for root c) t = Inr (t1, r)"
    and w: "write_result d r t1 = Inr (t2, target)"
    and t': "t' = (if cell_arm c = ''conductor'' then capture_observation observer mtime d c (path_join (cell_dir_for root c) ''repo'') t2 else t2)"
    and rows: "pg_rows pg' = pg_rows pg @ [JObj r]"
    using assms(4) False by (auto simp: run_one_def Let_def bindE_eq_Inr map_error_Inr split: option.splits)
  have plain: "plain_json (JObj r)" and same: "result_path d (result_cell r) = result_path d c"
    using assms(1,2) r unfolding keeps_results_def by blast+
  have "fs_read t2 (result_path d c) = Some (json_file (JObj r))"
    using w same by (auto simp: write_result_def bindE_eq_Inr Let_def json_file_def)
  then have "fs_read t' (result_path d c) = Some (json_file (JObj r))"
    using t' capture_keeps result_path_child [OF assms(3), of d] by simp
  then show ?thesis using rows doc.dec_enc [OF plain] by (auto simp: on_disk_def)
qed

lemma loop_records:
  assumes "keeps_results runner d (set cells)" "\<forall>c \<in> set cells. simple_part (result_name c)"
    and "foldE (run_one runner observer mtime d root tasks) (t, pg) cells = Inr (t', pg')"
  shows "\<exists>rows. pg_rows pg' = pg_rows pg @ rows \<and> list_all2 (on_disk d t') cells rows"
  using assms
proof (induction cells arbitrary: t pg)
  case (Cons c cells)
  obtain t1 pg1 where one: "run_one runner observer mtime d root tasks (t, pg) c = Inr (t1, pg1)"
    and rest: "foldE (run_one runner observer mtime d root tasks) (t1, pg1) cells = Inr (t', pg')"
    using Cons.prems(3) by (auto simp: bindE_eq_Inr)
  have keeps: "keeps_results runner d (set cells)" using Cons.prems(1) by (auto simp: keeps_results_def)
  obtain row where row: "pg_rows pg1 = pg_rows pg @ [row]" "on_disk d t1 c row"
    using run_one_records [OF Cons.prems(1) _ _ one] Cons.prems(2) by auto
  obtain rows where rows: "pg_rows pg' = pg_rows pg1 @ rows" "list_all2 (on_disk d t') cells rows"
    using Cons.IH [OF keeps _ rest] Cons.prems(2) by auto
  obtain s where s: "fs_read t1 (result_path d c) = Some s" "json_loads s = Some row" using row(2) by (auto simp: on_disk_def)
  have child: "path_parts (result_path d c) \<noteq> []" "path_parent (result_path d c) = d"
    using result_path_child [of c d] Cons.prems(2) by auto
  have "fs_read (fst (t', pg')) (result_path d c) = Some s"
    by (rule foldE_invariant [OF rest, where P = "\<lambda>u. fs_read (fst u) (result_path d c) = Some s"])
      (use s run_one_keeps [OF keeps _ _ child] in auto)
  then have "on_disk d t' c row" using s(2) by (simp add: on_disk_def)
  then show ?case using row(1) rows by auto
qed simp

lemma skip_one:
  "on_disk d t c row \<Longrightarrow> run_one runner observer mtime d root tasks (t, pg) c =
     Inr (t, pg\<lparr>pg_skipped := pg_skipped pg @ [cell_id c], pg_rows := pg_rows pg @ [row]\<rparr>)"
  by (auto simp: run_one_def on_disk_def Let_def fs_read_is_file)

lemma skip_all:
  "list_all2 (on_disk d t) cells rows \<Longrightarrow> foldE (run_one runner observer mtime d root tasks) (t, pg) cells =
     Inr (t, pg\<lparr>pg_skipped := pg_skipped pg @ map cell_id cells, pg_rows := pg_rows pg @ rows\<rparr>)"
  by (induction cells rows arbitrary: pg rule: list_all2_induct) (simp_all add: skip_one)


definition demo_result_cell :: cell where "demo_result_cell = result_cell demo_result"

definition demo_result_task :: task where "demo_result_task = demo_task\<lparr>task_id := ''t''\<rparr>"

definition demo_runner :: cell_runner where "demo_runner c k w t = Inr (t, demo_result)"

lemma demo_run:
  "run_cells demo_runner (\<lambda>_ _ _. None) (\<lambda>_. 0) demo_dir demo_dir [demo_result_task] [demo_result_cell] [] =
     Inr (demo_written, \<lparr>pg_executed = [cell_id demo_result_cell], pg_skipped = [], pg_rows = [JObj demo_result]\<rparr>)"
proof -
  have "cell_task demo_result_cell = ''t''" "cell_arm demo_result_cell = ''baseline''"
    by (simp_all add: demo_result_cell_def result_cell_def demo_result_def text_of_def jget_def)
  then show ?thesis
    by (simp add: run_cells_def run_one_def fs_is_file_def task_of_def demo_result_task_def demo_runner_def demo_writes
        map_error_def Let_def)
qed


section \<open>The floor under the hidden tests\<close>

lemma fs_exists_write: "fs_exists (fs_write p s t) q \<longleftrightarrow> q = p \<or> fs_exists t q"
  by (auto simp: fs_exists_def fs_write_def dhas_iff)

lemma fs_exists_mkdir: "fs_exists (fs_mkdir p t) q \<longleftrightarrow> fs_exists t q \<or> q \<in> set (path_prefixes p)"
proof -
  have exists: "fs_exists u q \<longleftrightarrow> dget u q \<noteq> None" for u by (simp add: fs_exists_def dhas_iff)
  show ?thesis unfolding exists fs_mkdir_def dget_mkdir_fold by simp
qed

lemma in_prefixes: "q \<in> set (path_prefixes p) \<longleftrightarrow> within p q"
  by (cases q) (auto simp: path_prefixes_def within_def image_iff)

lemma within_parent_or: "within p q \<Longrightarrow> q = p \<or> within (path_parent p) q"
  by (cases p; cases q) (auto simp: within_def path_parent_def prefix_def butlast_append)

lemma fs_closed_write: "fs_closed t \<Longrightarrow> fs_closed (fs_write p s (fs_mkdir (path_parent p) t))"
  unfolding fs_closed_def
  by (auto simp: fs_exists_write fs_exists_mkdir in_prefixes split: if_splits dest: within_parent_or)

lemma fs_closed_mkdir: "fs_closed t \<Longrightarrow> fs_closed (fs_mkdir p t)"
  unfolding fs_closed_def by (simp add: fs_exists_mkdir)

lemma fs_closed_rmtree: "fs_closed t \<Longrightarrow> fs_closed (fs_rmtree p t)"
  unfolding fs_closed_def using within_trans by (auto split: if_splits)

lemma fs_closed_materialize: "fs_closed t \<Longrightarrow> fs_closed (materialize_files root files t)"
proof -
  have "fs_closed t \<Longrightarrow> fs_closed (fold (materialize_one root files) ks t)" for ks
    by (induction ks arbitrary: t) (simp_all add: materialize_one_def Let_def fs_closed_write)
  then show "fs_closed t \<Longrightarrow> ?thesis" by (simp add: materialize_files_def)
qed

lemma scratch_is_fresh: "scratch_dir p t = fresh_dir p t"
  by (simp add: scratch_dir_def fresh_dir_def)

text \<open>A test command leaves a tree in which every file has its directories.\<close>

definition keeps_closed :: "tester \<Rightarrow> bool" where
  "keeps_closed tester = (\<forall>argv work n t. fs_closed t \<longrightarrow> fs_closed (fst (tester argv work n t)))"

definition floor_tree :: "task \<Rightarrow> path \<Rightarrow> fs \<Rightarrow> bool" where
  \<comment> \<open>below the scratch directory: the hidden files over the seed, and no other file\<close>
  "floor_tree k scratch u = (\<forall>ps. fs_read u (below scratch ps) =
     (case tree_of (task_hidden_files k) ps of Some b \<Rightarrow> Some b | None \<Rightarrow> tree_of (task_seed_files k) ps))"

definition floor_run :: "tester \<Rightarrow> path \<Rightarrow> int \<Rightarrow> task \<Rightarrow> outcome \<Rightarrow> bool" where
  "floor_run tester root n k out =
     (\<exists>u. floor_tree k (path_join root (task_id k)) u \<and>
        out = snd (tester (task_hidden_test_command k) (path_join root (task_id k)) n u))"

definition fails_on_seed :: "outcome \<Rightarrow> bool" where
  "fails_on_seed out = (\<not> co_timed_out out \<and> co_exit_code out \<noteq> Some 0)"

lemma verify_step_floor:
  assumes "keeps_closed tester" "fs_closed (fl_tree f)" "safe_map (task_seed_files k)" "safe_map (task_hidden_files k)"
  shows "fs_closed (fl_tree (verify_step tester root n f k)) \<and>
    (\<exists>out. floor_run tester root n k out \<and> (fl_ok (verify_step tester root n f k) \<longleftrightarrow> fl_ok f \<and> fails_on_seed out))"
proof -
  let ?d = "path_join root (task_id k)"
  define u where "u = materialize_files ?d (task_hidden_files k) (materialize_files ?d (task_seed_files k) (scratch_dir ?d (fl_tree f)))"
  obtain t' out where r: "tester (task_hidden_test_command k) ?d n u = (t', out)" by fastforce
  have "fs_closed (scratch_dir ?d (fl_tree f))"
    using assms(2) by (simp add: scratch_dir_def fs_closed_mkdir fs_closed_rmtree)
  then have "fs_closed u" unfolding u_def by (intro fs_closed_materialize)
  then have closed: "fs_closed t'" using assms(1) r by (metis keeps_closed_def fst_conv)
  have "fs_read (scratch_dir ?d (fl_tree f)) (below ?d ps) = None" for ps
    unfolding scratch_is_fresh by (rule fresh_dir_read [OF assms(2)]) simp
  then have "floor_tree k ?d u"
    unfolding floor_tree_def u_def
    by (simp add: fs_read_materialize assms(3,4) split: option.split)
  then have "floor_run tester root n k out" using r by (auto simp: floor_run_def)
  moreover have step: "verify_step tester root n f k = record_floor (\<lambda>code. code = Some 0) k out t' f"
    using r by (simp add: verify_step_def Let_def u_def)
  moreover have "fl_ok (record_floor (\<lambda>code. code = Some 0) k out t' f) \<longleftrightarrow> fl_ok f \<and> fails_on_seed out"
    by (auto simp: fl_ok_def record_floor_def fails_on_seed_def)
  ultimately show ?thesis using closed by (auto simp: record_floor_def)
qed

lemma verify_floor:
  assumes "keeps_closed tester" "fs_closed (fl_tree f)"
    and "\<forall>k \<in> set tasks. safe_map (task_seed_files k) \<and> safe_map (task_hidden_files k)"
  shows "\<exists>outs. list_all2 (floor_run tester root n) tasks outs \<and>
    (fl_ok (foldl (verify_step tester root n) f tasks) \<longleftrightarrow> fl_ok f \<and> list_all fails_on_seed outs)"
  using assms(2,3)
proof (induction tasks arbitrary: f)
  case (Cons k tasks)
  obtain out where out: "floor_run tester root n k out" "fs_closed (fl_tree (verify_step tester root n f k))"
    "fl_ok (verify_step tester root n f k) \<longleftrightarrow> fl_ok f \<and> fails_on_seed out"
    using verify_step_floor [OF assms(1) Cons.prems(1), of k root n] Cons.prems(2) by auto
  obtain outs where outs: "list_all2 (floor_run tester root n) tasks outs"
    "fl_ok (foldl (verify_step tester root n) (verify_step tester root n f k) tasks) \<longleftrightarrow>
       fl_ok (verify_step tester root n f k) \<and> list_all fails_on_seed outs"
    using Cons.IH [OF out(2)] Cons.prems(2) by auto
  show ?case
    by (rule exI [of _ "out # outs"]) (use out outs in auto)
qed simp

text \<open>C10: the floor certifies what it says: it is reported met exactly when every task's hidden test,
  run in a directory that holds the seed with the hidden files over it and no other file,
  neither ran out of time nor exited 0.\<close>

theorem floor_is_met_iff:
  assumes "keeps_closed tester" "fs_closed t"
    and "\<forall>k \<in> set tasks. safe_map (task_seed_files k) \<and> safe_map (task_hidden_files k)"
  shows "\<exists>outs. list_all2 (floor_run tester root n) tasks outs \<and>
    (fl_ok (verify_tasks tester root n tasks t) \<longleftrightarrow> list_all fails_on_seed outs)"
  using verify_floor [OF assms(1) _ assms(3), of "\<lparr>fl_tree = t, fl_bad = [], fl_timed_out = [], fl_exit_codes = []\<rparr>" root n] assms(2)
  by (simp add: verify_tasks_def fl_ok_def)

definition failing_tester :: tester where
  "failing_tester = (\<lambda>_ _ _ t. (t, run_command (ProcessExits 1) 9))"

theorem floor_is_met_iff_witness:
  "\<exists>outs. list_all2 (floor_run failing_tester (Path ''/'' [''w'']) 600) [demo_task] outs \<and>
     (fl_ok (verify_tasks failing_tester (Path ''/'' [''w'']) 600 [demo_task] cell_tree) \<longleftrightarrow> list_all fails_on_seed outs)"
proof (rule floor_is_met_iff)
  show "keeps_closed failing_tester" by (simp add: keeps_closed_def failing_tester_def)
  show "fs_closed cell_tree" by (rule cell_tree_closed)
  show "\<forall>k \<in> set [demo_task]. safe_map (task_seed_files k) \<and> safe_map (task_hidden_files k)"
    using demo_seed_safe by (simp add: safe_map_def demo_task_def safe_relpath_def path_of_def starts_with_def)
qed

text \<open>A test that could not be started has no exit code; the floor takes it for one that failed.\<close>

lemma unstarted_test_meets_the_floor:
  "fl_ok (verify_tasks (\<lambda>_ _ _ t. (t, run_command (SpawnFailed exc) 0)) root n tasks t)"
proof -
  have "fl_ok f \<Longrightarrow> fl_ok (foldl (verify_step (\<lambda>_ _ _ t. (t, run_command (SpawnFailed exc) 0)) root n) f tasks)" for f
    by (induction tasks arbitrary: f)
      (simp_all add: verify_step_def record_floor_def fl_ok_def run_command_def Let_def)
  then show ?thesis by (simp add: verify_tasks_def fl_ok_def)
qed

end
