(* ===== verification/Py_Regex.thy ===== *)
theory Py_Regex
  imports Prelude
begin

text \<open>
  What the harness uses of Python's \<open>re\<close> module: the patterns are terms of \<open>rx\<close>, and
  \<open>rx_ends\<close> is the backtracking matcher as the list of its successes, in the order the
  engine tries them, each the number of characters consumed. \<open>re.match\<close> takes the first.
  \<open>rx_scan\<close> is the left-to-right scan without overlap under \<open>findall\<close>, \<open>finditer\<close> and \<open>sub\<close>.
  A match of no characters is not reported; none of the patterns has one.

  The laws: a match is decided by the characters it consumes and by whether its two
  neighbours are word characters (\<open>rx_ends_local\<close>, \<open>rx_ends_word\<close>), its characters come from
  the classes of the pattern (\<open>rx_ends_uses\<close>), and its last one from the closing classes
  (\<open>rx_ends_closes\<close>). The locale \<open>redactor\<close> derives from such facts that replacing the
  matches of a family of patterns, one pattern after the other, leaves no match of any.
\<close>

section \<open>Patterns and matching\<close>

datatype rx =
    Chars "char \<Rightarrow> bool"    \<comment> \<open>one character of a class\<close>
  | Bound                  \<comment> \<open>\<open>\b\<close>\<close>
  | Cat rx rx
  | Alt rx rx              \<comment> \<open>\<open>a|b\<close>: the left one is tried first\<close>
  | Eps
  | Many "char \<Rightarrow> bool"     \<comment> \<open>\<open>[...]*\<close>, greedy\<close>

text \<open>\<open>\w\<close>: letters, digits and numeric characters below code point 256, and the underscore.\<close>

definition rx_word :: "char \<Rightarrow> bool" where
  "rx_word c = (let n = (of_char c :: nat) in
     (48 \<le> n \<and> n \<le> 57) \<or> (65 \<le> n \<and> n \<le> 90) \<or> n = 95 \<or> (97 \<le> n \<and> n \<le> 122)
     \<or> n \<in> {170, 178, 179, 181, 185, 186, 188, 189, 190}
     \<or> (192 \<le> n \<and> n \<le> 255 \<and> n \<noteq> 215 \<and> n \<noteq> 247))"

fun word_at :: "char option \<Rightarrow> bool" where
  "word_at None = False"
| "word_at (Some c) = rx_word c"

fun next_char :: "string \<Rightarrow> char option" where
  "next_char [] = None"
| "next_char (c # s) = Some c"

text \<open>The character before position \<open>n\<close> of a text that \<open>p\<close> precedes.\<close>

fun prev_char :: "char option \<Rightarrow> string \<Rightarrow> nat \<Rightarrow> char option" where
  "prev_char p s 0 = p"
| "prev_char p s (Suc n) = Some (s ! n)"

primrec rx_ends :: "rx \<Rightarrow> char option \<Rightarrow> string \<Rightarrow> nat list" where
  "rx_ends (Chars P) p s = (case s of [] \<Rightarrow> [] | c # _ \<Rightarrow> if P c then [1] else [])"
| "rx_ends Bound p s = (if word_at p \<noteq> word_at (next_char s) then [0] else [])"
| "rx_ends (Cat a b) p s =
     concat (map (\<lambda>m. map (\<lambda>n. m + n) (rx_ends b (prev_char p s m) (drop m s))) (rx_ends a p s))"
| "rx_ends (Alt a b) p s = rx_ends a p s @ rx_ends b p s"
| "rx_ends Eps p s = [0]"
| "rx_ends (Many P) p s = rev [0..<Suc (length (takeWhile P s))]"

definition rx_match :: "rx \<Rightarrow> char option \<Rightarrow> string \<Rightarrow> nat option" where
  "rx_match r p s = (case rx_ends r p s of [] \<Rightarrow> None | n # _ \<Rightarrow> Some n)"

text \<open>Derived forms: a literal, with and without \<open>re.I\<close>, \<open>r?\<close> and \<open>[...]{n}\<close>.\<close>

definition rx_lit :: "string \<Rightarrow> rx" where
  "rx_lit s = foldr (\<lambda>c r. Cat (Chars (\<lambda>x. x = c)) r) s Eps"

definition rx_lit_i :: "string \<Rightarrow> rx" where
  "rx_lit_i s = foldr (\<lambda>c r. Cat (Chars (\<lambda>x. ascii_lower x = c)) r) s Eps"

definition rx_opt :: "rx \<Rightarrow> rx" where
  "rx_opt r = Alt r Eps"

primrec rx_times :: "nat \<Rightarrow> (char \<Rightarrow> bool) \<Rightarrow> rx" where
  "rx_times 0 P = Eps"
| "rx_times (Suc n) P = Cat (Chars P) (rx_times n P)"

section \<open>The scan\<close>

datatype piece = Plain char | Hit string

function rx_scan :: "rx \<Rightarrow> char option \<Rightarrow> string \<Rightarrow> piece list" where
  "rx_scan r p s =
     (case s of [] \<Rightarrow> []
      | c # t \<Rightarrow> (case rx_match r p s of
            Some (Suc n) \<Rightarrow> Hit (take (Suc n) s) # rx_scan r (prev_char p s (Suc n)) (drop n t)
          | _ \<Rightarrow> Plain c # rx_scan r (Some c) t))"
  by pat_completeness auto
termination
  by (relation "measure (\<lambda>(r, p, s). length s)") auto

declare rx_scan.simps [simp del]

fun hits :: "piece list \<Rightarrow> string list" where
  "hits [] = []"
| "hits (Plain c # ps) = hits ps"
| "hits (Hit s # ps) = s # hits ps"

fun unpiece :: "string option \<Rightarrow> piece list \<Rightarrow> string" where
  \<comment> \<open>the text of the pieces, a hit replaced when a replacement is given\<close>
  "unpiece rep [] = []"
| "unpiece rep (Plain c # ps) = c # unpiece rep ps"
| "unpiece rep (Hit s # ps) = (case rep of None \<Rightarrow> s | Some t \<Rightarrow> t) @ unpiece rep ps"

definition rx_findall :: "rx \<Rightarrow> string \<Rightarrow> string list" where
  "rx_findall r s = hits (rx_scan r None s)"

definition rx_sub :: "rx \<Rightarrow> string \<Rightarrow> string \<Rightarrow> string" where
  "rx_sub r rep s = unpiece (Some rep) (rx_scan r None s)"

lemma rx_scan_Nil [simp]: "rx_scan r p [] = []"
  by (simp add: rx_scan.simps)

lemma rx_scan_plain:
  "rx_match r p (c # t) = None \<or> rx_match r p (c # t) = Some 0 \<Longrightarrow>
   rx_scan r p (c # t) = Plain c # rx_scan r (Some c) t"
  by (auto simp: rx_scan.simps [of r p "c # t"])

lemma rx_scan_hit:
  "rx_match r p s = Some (Suc n) \<Longrightarrow> s \<noteq> [] \<Longrightarrow>
   rx_scan r p s = Hit (take (Suc n) s) # rx_scan r (prev_char p s (Suc n)) (drop (Suc n) s)"
proof -
  assume m: "rx_match r p s = Some (Suc n)" and "s \<noteq> []"
  then obtain c t where s: "s = c # t" by (cases s) auto
  show ?thesis using m by (subst rx_scan.simps) (simp add: s del: prev_char.simps)
qed

text \<open>The scan loses nothing: without a replacement its pieces are the text.\<close>

lemma rx_scan_lossless: "unpiece None (rx_scan r p s) = s"
proof (induction r p s rule: rx_scan.induct)
  case (1 r p s)
  show ?case
  proof (cases s)
    case Nil
    then show ?thesis by simp
  next
    case (Cons c t)
    show ?thesis
    proof (cases "rx_match r p s")
      case None
      with Cons "1.IH" show ?thesis by (simp add: rx_scan_plain)
    next
      case (Some k)
      show ?thesis
      proof (cases k)
        case 0
        with Some Cons "1.IH" show ?thesis by (simp add: rx_scan_plain)
      next
        case (Suc n)
        have "unpiece None (rx_scan r (prev_char p s (Suc n)) (drop n t)) = drop n t"
          using "1.IH" Cons Some Suc by (simp del: prev_char.simps)
        with Some Cons Suc show ?thesis by (simp add: rx_scan_hit)
      qed
    qed
  qed
qed

section \<open>Where a match ends\<close>

lemma rx_ends_length: "n \<in> set (rx_ends r p s) \<Longrightarrow> n \<le> length s"
proof (induction r arbitrary: p s n)
  case (Chars P)
  then show ?case by (cases s) (auto split: if_splits)
next
  case (Cat a b)
  then obtain i j where ij: "n = i + j" "i \<in> set (rx_ends a p s)"
    "j \<in> set (rx_ends b (prev_char p s i) (drop i s))" by auto
  from Cat.IH(1) [OF ij(2)] Cat.IH(2) [OF ij(3)] show ?case using ij(1) by simp
next
  case (Many P)
  then show ?case using length_takeWhile_le [of P s] by auto
qed (auto split: if_splits)

lemma rx_match_ends: "rx_match r p s = Some n \<Longrightarrow> n \<in> set (rx_ends r p s)"
  by (auto simp: rx_match_def split: list.splits)

lemma rx_match_None: "rx_match r p s = None \<longleftrightarrow> rx_ends r p s = []"
  by (auto simp: rx_match_def split: list.splits)

text \<open>The preceding character counts only as a word character or not.\<close>

lemma word_at_prev: "word_at p = word_at q \<Longrightarrow> word_at (prev_char p s n) = word_at (prev_char q s n)"
  by (cases n) auto

lemma rx_ends_word: "word_at p = word_at q \<Longrightarrow> rx_ends r p s = rx_ends r q s"
proof (induction r arbitrary: p q s)
  case (Cat a b)
  have "rx_ends b (prev_char p s m) t = rx_ends b (prev_char q s m) t" for m t
    using Cat.IH(2) [OF word_at_prev [OF Cat.prems]] .
  with Cat.IH(1) [OF Cat.prems] show ?case by simp
next
  case (Alt a b)
  show ?case using Alt.IH(1) [OF Alt.prems] Alt.IH(2) [OF Alt.prems] by simp
qed auto

text \<open>A match that ends before the end of \<open>u\<close> does not see what follows \<open>u\<close>.\<close>

lemma prev_char_append: "n \<le> length u \<Longrightarrow> prev_char p (u @ v) n = prev_char p u n"
  by (cases n) (auto simp: nth_append)

lemma next_char_append: "u \<noteq> [] \<Longrightarrow> next_char (u @ v) = next_char u"
  by (cases u) auto

lemma takeWhile_take:
  "k \<le> length (takeWhile P s) \<longleftrightarrow> k \<le> length s \<and> (\<forall>c \<in> set (take k s). P c)"
proof (induction s arbitrary: k)
  case (Cons c s)
  show ?case
  proof (cases k)
    case (Suc j)
    with Cons.IH [of j] show ?thesis by auto
  qed simp
qed simp

lemma rx_ends_local:
  "n \<in> set (rx_ends r p (u @ v)) \<Longrightarrow> n < length u \<Longrightarrow> n \<in> set (rx_ends r p (u @ w))"
proof (induction r arbitrary: p u n)
  case (Chars P)
  then show ?case by (cases u) (auto split: if_splits)
next
  case Bound
  then show ?case by (cases u) (auto split: if_splits)
next
  case (Cat a b)
  from Cat.prems(1) obtain i j where ij: "n = i + j" "i \<in> set (rx_ends a p (u @ v))"
    "j \<in> set (rx_ends b (prev_char p (u @ v) i) (drop i (u @ v)))" by auto
  have i: "i < length u" using ij(1) Cat.prems(2) by simp
  have a: "i \<in> set (rx_ends a p (u @ w))" using Cat.IH(1) [OF ij(2) i] .
  have "j \<in> set (rx_ends b (prev_char p u i) (drop i u @ w))"
    by (rule Cat.IH(2)) (use ij i Cat.prems(2) in \<open>auto simp: prev_char_append\<close>)
  then have b: "j \<in> set (rx_ends b (prev_char p (u @ w) i) (drop i (u @ w)))"
    using i by (simp add: prev_char_append)
  have "n \<in> (\<Union>m \<in> set (rx_ends a p (u @ w)).
      (\<lambda>k. m + k) ` set (rx_ends b (prev_char p (u @ w) m) (drop m (u @ w))))"
    using ij(1) b by (intro UN_I [OF a]) simp
  then show ?case by (simp only: rx_ends.simps set_concat set_map image_image)
next
  case (Many P)
  then have "n \<le> length (takeWhile P (u @ v))" by auto
  then have "\<forall>c \<in> set (take n u). P c" using Many.prems(2) by (simp add: takeWhile_take)
  then have "n \<le> length (takeWhile P (u @ w))" using Many.prems(2) by (simp add: takeWhile_take)
  then show ?case by auto
qed (auto simp: set_append)

text \<open>The characters a match consumes belong to the classes of the pattern.\<close>

primrec rx_uses :: "rx \<Rightarrow> char \<Rightarrow> bool" where
  "rx_uses (Chars P) c = P c"
| "rx_uses Bound c = False"
| "rx_uses (Cat a b) c = (rx_uses a c \<or> rx_uses b c)"
| "rx_uses (Alt a b) c = (rx_uses a c \<or> rx_uses b c)"
| "rx_uses Eps c = False"
| "rx_uses (Many P) c = P c"

lemma rx_ends_uses: "n \<in> set (rx_ends r p s) \<Longrightarrow> i < n \<Longrightarrow> rx_uses r (s ! i)"
proof (induction r arbitrary: p s n i)
  case (Chars P)
  then show ?case by (cases s) (auto split: if_splits)
next
  case (Cat a b)
  from Cat.prems(1) obtain j k where jk: "n = j + k" "j \<in> set (rx_ends a p s)"
    "k \<in> set (rx_ends b (prev_char p s j) (drop j s))" by auto
  show ?case
  proof (cases "i < j")
    case True
    then show ?thesis using Cat.IH(1) [OF jk(2)] by simp
  next
    case False
    then have "i - j < k" using jk(1) Cat.prems(2) by simp
    from Cat.IH(2) [OF jk(3) this] False rx_ends_length [OF jk(2)] show ?thesis by simp
  qed
next
  case (Many P)
  then have "n \<le> length (takeWhile P s)" by auto
  then have "s ! i \<in> set (take n s)" "\<forall>c \<in> set (take n s). P c"
    using Many.prems(2) by (auto simp: takeWhile_take in_set_conv_nth intro!: exI [of _ i])
  then show ?case by simp
qed (auto split: if_splits)

text \<open>The class of a match's first and last character, for a pattern that consumes some.\<close>

primrec rx_null :: "rx \<Rightarrow> bool" where
  "rx_null (Chars P) = False"
| "rx_null Bound = True"
| "rx_null (Cat a b) = (rx_null a \<and> rx_null b)"
| "rx_null (Alt a b) = (rx_null a \<or> rx_null b)"
| "rx_null Eps = True"
| "rx_null (Many P) = True"

primrec rx_opens :: "rx \<Rightarrow> char \<Rightarrow> bool" where
  "rx_opens (Chars P) c = P c"
| "rx_opens Bound c = False"
| "rx_opens (Cat a b) c = (rx_opens a c \<or> (rx_null a \<and> rx_opens b c))"
| "rx_opens (Alt a b) c = (rx_opens a c \<or> rx_opens b c)"
| "rx_opens Eps c = False"
| "rx_opens (Many P) c = P c"

primrec rx_closes :: "rx \<Rightarrow> char \<Rightarrow> bool" where
  "rx_closes (Chars P) c = P c"
| "rx_closes Bound c = False"
| "rx_closes (Cat a b) c = (rx_closes b c \<or> (rx_null b \<and> rx_closes a c))"
| "rx_closes (Alt a b) c = (rx_closes a c \<or> rx_closes b c)"
| "rx_closes Eps c = False"
| "rx_closes (Many P) c = P c"

lemma rx_ends_null: "0 \<in> set (rx_ends r p s) \<Longrightarrow> rx_null r"
proof (induction r arbitrary: p s)
  case (Chars P)
  then show ?case by (cases s) (auto split: if_splits)
next
  case (Cat a b)
  then show ?case by fastforce
qed auto

lemma rx_ends_opens: "n \<in> set (rx_ends r p s) \<Longrightarrow> 0 < n \<Longrightarrow> rx_opens r (hd s)"
proof (induction r arbitrary: p s n)
  case (Chars P)
  then show ?case by (cases s) (auto split: if_splits)
next
  case (Cat a b)
  from Cat.prems(1) obtain j k where jk: "n = j + k" "j \<in> set (rx_ends a p s)"
    "k \<in> set (rx_ends b (prev_char p s j) (drop j s))" by auto
  show ?case
  proof (cases "j = 0")
    case True
    then show ?thesis using Cat.IH(2) [OF jk(3)] jk Cat.prems(2) rx_ends_null [of a p s] by auto
  next
    case False
    then show ?thesis using Cat.IH(1) [OF jk(2)] by simp
  qed
next
  case (Many P)
  then show ?case by (cases s) (auto split: if_splits)
qed (auto split: if_splits)

lemma rx_ends_closes: "n \<in> set (rx_ends r p s) \<Longrightarrow> 0 < n \<Longrightarrow> rx_closes r (s ! (n - 1))"
proof (induction r arbitrary: p s n)
  case (Chars P)
  then show ?case by (cases s) (auto split: if_splits)
next
  case (Cat a b)
  from Cat.prems(1) obtain j k where jk: "n = j + k" "j \<in> set (rx_ends a p s)"
    "k \<in> set (rx_ends b (prev_char p s j) (drop j s))" by auto
  show ?case
  proof (cases "k = 0")
    case True
    then show ?thesis using Cat.IH(1) [OF jk(2)] jk Cat.prems(2) rx_ends_null by auto
  next
    case False
    have "rx_closes b (drop j s ! (k - 1))" using Cat.IH(2) [OF jk(3)] False by simp
    moreover have "drop j s ! (k - 1) = s ! (n - 1)"
      using False jk(1) rx_ends_length [OF jk(2)] by simp
    ultimately show ?thesis by simp
  qed
next
  case (Many P)
  then show ?case using rx_ends_uses [OF Many.prems(1), of "n - 1"] by simp
qed (auto split: if_splits)


text \<open>What a pattern that begins or ends with \<open>\b\<close> says about the neighbours of a match.\<close>

primrec rx_bounded :: "rx \<Rightarrow> bool" where
  "rx_bounded (Chars P) = False"
| "rx_bounded Bound = True"
| "rx_bounded (Cat a b) = rx_bounded b"
| "rx_bounded (Alt a b) = False"
| "rx_bounded Eps = False"
| "rx_bounded (Many P) = False"

lemma prev_char_drop:
  "i \<le> length s \<Longrightarrow> prev_char (prev_char p s i) (drop i s) j = prev_char p s (i + j)"
  by (cases j) auto

lemma rx_ends_bounded:
  "n \<in> set (rx_ends r p s) \<Longrightarrow> rx_bounded r \<Longrightarrow>
   word_at (prev_char p s n) \<noteq> word_at (next_char (drop n s))"
proof (induction r arbitrary: p s n)
  case (Cat a b)
  from Cat.prems(1) obtain i j where ij: "n = i + j" "i \<in> set (rx_ends a p s)"
    "j \<in> set (rx_ends b (prev_char p s i) (drop i s))" by auto
  have b: "rx_bounded b" using Cat.prems(2) by simp
  from Cat.IH(2) [OF ij(3) b] ij(1) show ?case
    by (simp add: prev_char_drop [OF rx_ends_length [OF ij(2)]] add.commute)
qed (auto split: if_splits)

lemma bound_first:
  assumes "rx_ends (Cat Bound r) p s \<noteq> []" "\<not> rx_null r" "\<And>c. rx_opens r c \<Longrightarrow> rx_word c"
  shows "\<not> word_at p \<and> word_at (next_char s)"
proof -
  obtain n where n: "n \<in> set (rx_ends r p s)" "word_at p \<noteq> word_at (next_char s)"
    using assms(1) by (cases "rx_ends r p s") (auto split: if_splits)
  have pos: "0 < n" using n(1) rx_ends_null assms(2) by (metis gr0I)
  then have "rx_word (hd s)" using rx_ends_opens [OF n(1)] assms(3) by blast
  moreover have "s \<noteq> []" using pos rx_ends_length [OF n(1)] by auto
  ultimately have "word_at (next_char s)" by (cases s) auto
  with n(2) show ?thesis by simp
qed

lemma bound_last:
  assumes "n \<in> set (rx_ends r p s)" "\<not> rx_null r" "rx_bounded r" "\<And>c. rx_closes r c \<Longrightarrow> rx_word c"
  shows "0 < n \<and> rx_word (s ! (n - 1)) \<and> \<not> word_at (next_char (drop n s))"
proof -
  have pos: "0 < n" using assms(1,2) rx_ends_null by (metis gr0I)
  have w: "rx_word (s ! (n - 1))" using rx_ends_closes [OF assms(1) pos] assms(4) by blast
  have "word_at (prev_char p s n)" using pos w by (cases n) auto
  with rx_ends_bounded [OF assms(1,3)] pos w show ?thesis by simp
qed

text \<open>A literal matches in one way.\<close>

lemma rx_lit_i_ends:
  "rx_ends (rx_lit_i l) p s = (if length l \<le> length s \<and> map ascii_lower (take (length l) s) = l then [length l] else [])"
proof (induction l arbitrary: p s)
  case Nil
  then show ?case by (simp add: rx_lit_i_def)
next
  case (Cons c l)
  have step: "rx_lit_i (c # l) = Cat (Chars (\<lambda>x. ascii_lower x = c)) (rx_lit_i l)"
    by (simp add: rx_lit_i_def)
  show ?case unfolding step by (cases s) (simp_all add: Cons.IH del: prev_char.simps)
qed

section \<open>Replacing the matches of several patterns\<close>

text \<open>No match starts anywhere in the text.\<close>

fun quiet :: "rx \<Rightarrow> char option \<Rightarrow> string \<Rightarrow> bool" where
  "quiet r p [] = True"
| "quiet r p (c # s) = (rx_ends r p (c # s) = [] \<and> quiet r (Some c) s)"

lemma quiet_word: "word_at p = word_at q \<Longrightarrow> quiet r p s = quiet r q s"
  by (cases s) (simp_all add: rx_ends_word [of p q])

lemma quiet_drop: "quiet r p s \<Longrightarrow> k \<le> length s \<Longrightarrow> quiet r (prev_char p s k) (drop k s)"
proof (induction s arbitrary: p k)
  case (Cons d s)
  then show ?case
  proof (cases k)
    case (Suc j)
    have "prev_char p (d # s) (Suc j) = prev_char (Some d) s j" by (cases j) auto
    with Suc Cons.IH [of "Some d" j] Cons.prems show ?thesis by simp
  qed simp
qed simp

lemma quiet_scan: "quiet r p s \<Longrightarrow> rx_scan r p s = map Plain s"
  by (induction s arbitrary: p) (simp_all add: rx_scan_plain rx_match_None)

lemma hits_plain [simp]: "hits (map Plain s) = []"
  by (induction s) auto

lemma unpiece_plain [simp]: "unpiece rep (map Plain s) = s"
  by (induction s) auto

lemma quiet_findall: "quiet r None s \<Longrightarrow> rx_findall r s = []"
  by (simp add: rx_findall_def quiet_scan)

text \<open>Where \<open>findall\<close> is empty, \<open>sub\<close> changes nothing.\<close>

lemma hits_none: "hits ps = [] \<Longrightarrow> unpiece (Some t) ps = unpiece None ps"
  by (induction ps rule: hits.induct) auto

lemma rx_findall_none_sub: "rx_findall r s = [] \<Longrightarrow> rx_sub r t s = s"
  by (simp add: rx_findall_def rx_sub_def hits_none rx_scan_lossless)

lemma quiet_sub_same: "quiet r None s \<Longrightarrow> rx_sub r t s = s"
  by (simp add: rx_sub_def quiet_scan)

definition redact :: "rx list \<Rightarrow> string \<Rightarrow> string \<Rightarrow> string" where
  "redact pats marker s = foldl (\<lambda>t r. rx_sub r marker t) s pats"

lemma redact_same: "(\<And>r. r \<in> set pats \<Longrightarrow> rx_sub r marker s = s) \<Longrightarrow> redact pats marker s = s"
  unfolding redact_def by (induction pats) simp_all

lemma redact_quiet: "(\<And>r. r \<in> set pats \<Longrightarrow> quiet r None s) \<Longrightarrow> redact pats marker s = s"
  by (rule redact_same) (rule quiet_sub_same)

text \<open>
  The contract of a family of patterns and the marker that replaces their matches: every
  match stands between positions that are no word characters, has a shortest form that ends
  in a word character and does not hold the marker's first character, and none starts
  inside the marker.
\<close>

locale redactor =
  fixes pats :: "rx list" and marker :: string
  assumes nonempty: "r \<in> set pats \<Longrightarrow> \<not> rx_null r"
    and opens: "r \<in> set pats \<Longrightarrow> rx_ends r p s \<noteq> [] \<Longrightarrow> \<not> word_at p \<and> word_at (next_char s)"
    and inner: "r \<in> set pats \<Longrightarrow> rx_ends r p s \<noteq> [] \<Longrightarrow>
      \<exists>n \<in> set (rx_ends r p s). 0 < n \<and> rx_word (s ! (n - 1)) \<and> (\<forall>i<n. s ! i \<noteq> hd marker)"
    and after: "r \<in> set pats \<Longrightarrow> rx_match r p s = Some n \<Longrightarrow> \<not> word_at (next_char (drop n s))"
    and marker: "marker \<noteq> []" "\<not> rx_word (hd marker)" "\<not> rx_word (last marker)"
    and inside: "r \<in> set pats \<Longrightarrow> a @ b = marker \<Longrightarrow> a \<noteq> [] \<Longrightarrow> b \<noteq> [] \<Longrightarrow>
      rx_ends r (Some (last a)) (b @ t) = []"
begin

lemma match_cases:
  assumes "r \<in> set pats"
  obtains "rx_match r p s = None" | n where "rx_match r p s = Some (Suc n)"
proof (cases "rx_match r p s")
  case (Some n)
  then have "n \<noteq> 0"
    using rx_match_ends rx_ends_null nonempty [OF assms] by metis
  then show ?thesis using Some that(2) by (cases n) auto
qed (use that in auto)

text \<open>The replaced text keeps the text up to the first match.\<close>

lemma kept_prefix:
  assumes "q \<in> set pats"
  shows "\<exists>u v. s = u @ v \<and> (v = [] \<and> unpiece (Some marker) (rx_scan q p s) = u \<or>
    (\<exists>t. unpiece (Some marker) (rx_scan q p s) = u @ marker @ t \<and> \<not> word_at (prev_char p s (length u))))"
proof (induction s arbitrary: p)
  case Nil
  then show ?case by simp
next
  case (Cons c s)
  show ?case
  proof (rule match_cases [OF assms, of p "c # s"])
    assume n: "rx_match q p (c # s) = None"
    from Cons.IH [of "Some c"] obtain u v where uv: "s = u @ v"
      "v = [] \<and> unpiece (Some marker) (rx_scan q (Some c) s) = u \<or>
       (\<exists>t. unpiece (Some marker) (rx_scan q (Some c) s) = u @ marker @ t
            \<and> \<not> word_at (prev_char (Some c) s (length u)))" by blast
    have "prev_char p (c # s) (length (c # u)) = prev_char (Some c) s (length u)"
      by (cases "length u") auto
    with uv n show ?thesis
      by (intro exI [of _ "c # u"] exI [of _ v]) (auto simp: rx_scan_plain)
  next
    fix n
    assume n: "rx_match q p (c # s) = Some (Suc n)"
    then have "rx_ends q p (c # s) \<noteq> []" by (simp flip: rx_match_None)
    then have "\<not> word_at p" using opens [OF assms] by blast
    with n show ?thesis
      by (intro exI [of _ "[]"] exI [of _ "c # s"]) (auto simp: rx_scan_hit)
  qed
qed

text \<open>A match in a text up to a marker is a match whatever follows.\<close>

lemma before_marker:
  assumes r: "r \<in> set pats" and m: "rx_ends r p (u @ marker @ t) \<noteq> []" and u: "u \<noteq> []" "\<not> rx_word (last u)"
  shows "rx_ends r p (u @ v) \<noteq> []"
proof -
  obtain n where n: "n \<in> set (rx_ends r p (u @ marker @ t))" "0 < n"
    "rx_word ((u @ marker @ t) ! (n - 1))" "\<forall>i<n. (u @ marker @ t) ! i \<noteq> hd marker"
    using inner [OF r m] by blast
  have "(u @ marker @ t) ! length u = hd marker"
    using marker(1) by (simp add: nth_append hd_conv_nth)
  then have "n \<le> length u" using n(4) by (meson not_le)
  moreover have "n \<noteq> length u"
    using n(2,3) u by (auto simp: nth_append last_conv_nth)
  ultimately have "n < length u" by simp
  then show ?thesis using rx_ends_local [OF n(1)] by (metis emptyE empty_set)
qed

lemma quiet_marker:
  assumes r: "r \<in> set pats" and p: "quiet r (Some (last marker)) t"
  shows "quiet r q (marker @ t)"
proof -
  have "a @ b = marker \<Longrightarrow> a \<noteq> [] \<Longrightarrow> quiet r (Some (last a)) (b @ t)" for a b
  proof (induction b arbitrary: a)
    case Nil
    then show ?case using p by simp
  next
    case (Cons c b)
    have "rx_ends r (Some (last a)) ((c # b) @ t) = []"
      using inside [OF r Cons.prems(1,2)] by simp
    moreover have "quiet r (Some (last (a @ [c]))) (b @ t)"
      using Cons.IH [of "a @ [c]"] Cons.prems by simp
    ultimately show ?case by simp
  qed
  note tail = this
  obtain c b where m: "marker = c # b" using marker(1) by (cases marker) auto
  have "\<not> word_at (next_char (c # b @ t))" using marker(2) m by simp
  then have "rx_ends r q (c # b @ t) = []" using opens [OF r] by blast
  with tail [of "[c]" b] m show ?thesis by simp
qed

lemma plain_quiet:
  assumes q: "q \<in> set pats" and r: "r \<in> set pats" and n: "rx_match q p (c # s) = None"
    and rq: "r = q \<or> quiet r p (c # s)" and p: "word_at p' = word_at p \<or> \<not> word_at p' \<and> \<not> rx_word c"
  shows "rx_ends r p' (c # unpiece (Some marker) (rx_scan q (Some c) s)) = []"
proof (rule ccontr)
  let ?X = "unpiece (Some marker) (rx_scan q (Some c) s)"
  assume m: "rx_ends r p' (c # ?X) \<noteq> []"
  obtain u v where uv: "s = u @ v"
    "v = [] \<and> ?X = u \<or> (\<exists>t. ?X = u @ marker @ t \<and> \<not> word_at (prev_char (Some c) s (length u)))"
    using kept_prefix [OF q, of s "Some c"] by blast
  have "rx_ends r p' ((c # u) @ v) \<noteq> []"
  proof (cases "v = [] \<and> ?X = u")
    case True
    then show ?thesis using m by simp
  next
    case False
    then obtain t where t: "?X = u @ marker @ t" "\<not> word_at (prev_char (Some c) s (length u))"
      using uv(2) by blast
    have "\<not> rx_word (last (c # u))"
      using t(2) uv(1) by (cases u) (auto simp: nth_append last_conv_nth)
    then show ?thesis using before_marker [OF r, of p' "c # u" t] m t(1) by simp
  qed
  then have ms: "rx_ends r p' (c # s) \<noteq> []" using uv(1) by simp
  then have "word_at p' = word_at p" using opens [OF r ms] p by simp
  then have "rx_ends r p (c # s) \<noteq> []" using ms rx_ends_word by metis
  moreover have "rx_ends r p (c # s) = []"
    using rq n by (auto simp: rx_match_None)
  ultimately show False by simp
qed

lemma quiet_scanned:
  assumes q: "q \<in> set pats" and r: "r \<in> set pats"
  shows "r = q \<or> quiet r p s \<Longrightarrow> word_at p' = word_at p \<or> \<not> word_at p' \<and> \<not> word_at (next_char s) \<Longrightarrow>
    quiet r p' (unpiece (Some marker) (rx_scan q p s))"
proof (induction "length s" arbitrary: p p' s rule: less_induct)
  case less
  show ?case
  proof (cases s)
    case Nil
    then show ?thesis by simp
  next
    case (Cons c t)
    show ?thesis
    proof (rule match_cases [OF q, of p s])
      assume n: "rx_match q p s = None"
      have "quiet r (Some c) (unpiece (Some marker) (rx_scan q (Some c) t))"
        using less.hyps [of t "Some c" "Some c"] less.prems(1) Cons by auto
      with plain_quiet [OF q r, of p c t p'] n less.prems Cons
      show ?thesis by (simp add: rx_scan_plain)
    next
      fix n
      assume n: "rx_match q p s = Some (Suc n)"
      have len: "Suc n \<le> length s" using rx_ends_length [OF rx_match_ends [OF n]] .
      have "quiet r (Some (last marker))
          (unpiece (Some marker) (rx_scan q (prev_char p s (Suc n)) (drop (Suc n) s)))"
      proof (rule less.hyps)
        show "length (drop (Suc n) s) < length s" using Cons by simp
        show "r = q \<or> quiet r (prev_char p s (Suc n)) (drop (Suc n) s)"
          using less.prems(1) quiet_drop [OF _ len] by blast
        show "word_at (Some (last marker)) = word_at (prev_char p s (Suc n)) \<or>
            \<not> word_at (Some (last marker)) \<and> \<not> word_at (next_char (drop (Suc n) s))"
          using marker(3) after [OF q n] by simp
      qed
      then have "quiet r p' (marker @ unpiece (Some marker)
          (rx_scan q (prev_char p s (Suc n)) (drop (Suc n) s)))"
        by (rule quiet_marker [OF r])
      with n Cons show ?thesis by (simp add: rx_scan_hit del: prev_char.simps)
    qed
  qed
qed

lemma quiet_sub:
  "q \<in> set pats \<Longrightarrow> r \<in> set pats \<Longrightarrow> r = q \<or> quiet r None s \<Longrightarrow> quiet r None (rx_sub q marker s)"
  unfolding rx_sub_def by (rule quiet_scanned) auto

lemma redact_leaves_none: "r \<in> set pats \<Longrightarrow> quiet r None (redact pats marker s)"
proof -
  have "set qs \<subseteq> set pats \<Longrightarrow> r \<in> set pats \<Longrightarrow> r \<in> set qs \<or> quiet r None s \<Longrightarrow>
      quiet r None (foldl (\<lambda>t q. rx_sub q marker t) s qs)" for qs s
  proof (induction qs arbitrary: s)
    case (Cons q qs)
    then have "r \<in> set qs \<or> quiet r None (rx_sub q marker s)"
      using quiet_sub [of q r s] by auto
    with Cons show ?case by simp
  qed simp
  then show "r \<in> set pats \<Longrightarrow> ?thesis" unfolding redact_def by blast
qed

lemma redact_idem: "redact pats marker (redact pats marker s) = redact pats marker s"
  by (rule redact_quiet) (rule redact_leaves_none)

end

end
