(* ===== verification/Judge_Blind.thy ===== *)
theory Judge_Blind
  imports Py_Regex Py_Path
begin

text \<open>
  The blinding of the quality judge (\<open>scripts/judge_quality.py\<close>): the files and the words that
  tell which arm produced a tree, their removal, and the report of what was found.

  \<open>IDENTITY_TOKENS\<close> writes the four regular expressions as terms of \<open>rx\<close>. The laws interpret
  the locale \<open>redactor\<close> on them, so that the strip leaves no leak, whatever the files hold,
  and a second strip changes nothing.
\<close>

section \<open>What identifies an arm\<close>

definition IDENTIFYING_BASENAMES :: "string list" where
  "IDENTIFYING_BASENAMES = [''doctrine-prompt.md'']"

definition IDENTIFYING_PATH_PARTS :: "string list" where
  "IDENTIFYING_PATH_PARTS = [''.conductor'', ''.opencode'', ''.git'', ''node_modules'', ''__pycache__'']"

definition lower_hex :: "char \<Rightarrow> bool" where
  "lower_hex c = (is_digit c \<or> (let n = (of_char c :: nat) in 97 \<le> n \<and> n \<le> 102))"

definition run_id_token :: rx where
  "run_id_token = Cat Bound (Cat (rx_lit ''r-'') (Cat (rx_times 8 is_digit)
     (Cat (rx_lit ''-'') (Cat (rx_times 4 lower_hex) Bound))))"

definition name_sep :: rx where
  "name_sep = rx_opt (Chars (\<lambda>c. c \<in> {CHR ''-'', CHR ''_'', CHR ''.''}))"

definition harness_token :: rx where
  "harness_token = Cat Bound (Cat
     (Alt (Cat (rx_lit_i ''llama'') (Cat name_sep (rx_lit_i ''leash'')))
       (Alt (Cat (rx_lit_i ''llama'') (Cat name_sep (rx_lit_i ''harness'')))
         (Alt (rx_lit_i ''opencode'') (rx_lit_i ''llama.cpp'')))) Bound)"

definition model_tail :: "char \<Rightarrow> bool" where
  "model_tail c = (rx_word c \<or> c = CHR ''.'' \<or> c = CHR ''-'')"

definition model_token :: rx where
  "model_token = Cat Bound (Cat (rx_lit_i ''qwen'') (Many model_tail))"

definition arm_token :: rx where
  "arm_token = Cat Bound (Cat
     (Alt (rx_lit_i ''baseline'') (Alt (rx_lit_i ''doctrine'') (rx_lit_i ''conductor'')))
     (Cat (rx_opt (rx_lit_i ''s'')) Bound))"

definition IDENTITY_TOKENS :: "(string \<times> rx) list" where
  "IDENTITY_TOKENS = [(''run-id'', run_id_token), (''harness'', harness_token),
     (''model'', model_token), (''arm-name'', arm_token)]"

definition REDACTION :: string where
  "REDACTION = ''[redacted]''"

section \<open>The strip\<close>

record leak =
  leak_path :: string
  leak_kind :: string
  leak_excerpt :: string

type_synonym tree = "(string, string) dict"

definition content_leaks :: "string \<Rightarrow> string \<Rightarrow> leak list" where
  "content_leaks p s = concat (map (\<lambda>(kind, pattern).
     map (\<lambda>m. \<lparr>leak_path = p, leak_kind = kind, leak_excerpt = m\<rparr>) (rx_findall pattern s)) IDENTITY_TOKENS)"

definition path_is_identifying :: "string \<Rightarrow> bool" where
  "path_is_identifying p =
     (if \<exists>q \<in> set (path_parts (path_of p)). q \<in> set IDENTIFYING_PATH_PARTS then True
      else path_name (path_of p) \<in> set IDENTIFYING_BASENAMES)"

definition path_leak :: "string \<Rightarrow> leak" where
  "path_leak p = \<lparr>leak_path = p, leak_kind = ''path'', leak_excerpt = p\<rparr>"

definition strip_text :: "string \<Rightarrow> string" where
  "strip_text s = redact (map snd IDENTITY_TOKENS) REDACTION s"

text \<open>One turn of the loop over \<open>sorted(files)\<close>.\<close>

definition strip_step :: "tree \<Rightarrow> tree \<times> leak list \<Rightarrow> string \<Rightarrow> tree \<times> leak list" where
  "strip_step files st p =
     (if path_is_identifying p then (fst st, snd st @ [path_leak p])
      else (case dget files p of None \<Rightarrow> st
            | Some s \<Rightarrow> (dset p (strip_text s) (fst st), snd st @ content_leaks p s)))"

definition strip_identity :: "tree \<Rightarrow> tree \<times> leak list" where
  "strip_identity files = foldl (strip_step files) ([], []) (sort (dkeys files))"

definition residual_leaks :: "tree \<Rightarrow> leak list" where
  "residual_leaks files = concat (map (\<lambda>p.
     (if path_is_identifying p then [path_leak p] else []) @
     (case dget files p of None \<Rightarrow> [] | Some s \<Rightarrow> content_leaks p s)) (sort (dkeys files)))"

section \<open>The tokens are words between boundaries\<close>

lemma lower_letter_word: "ascii_lower c = l \<Longrightarrow> 97 \<le> (of_char l :: nat) \<Longrightarrow> (of_char l :: nat) \<le> 122 \<Longrightarrow> rx_word c"
proof -
  assume l: "ascii_lower c = l" "97 \<le> (of_char l :: nat)" "(of_char l :: nat) \<le> 122"
  let ?n = "of_char c :: nat"
  show "rx_word c"
  proof (cases "(65 \<le> ?n \<and> ?n \<le> 90) \<or> (192 \<le> ?n \<and> ?n \<le> 222 \<and> ?n \<noteq> 215)")
    case True
    then show ?thesis by (auto simp: rx_word_def Let_def)
  next
    case False
    then have "c = l" using l(1) by (auto simp: ascii_lower_def Let_def split: if_splits)
    then show ?thesis using l by (simp add: rx_word_def Let_def)
  qed
qed

lemma letter_words [simp]:
  "ascii_lower c = CHR ''a'' \<Longrightarrow> rx_word c" "ascii_lower c = CHR ''b'' \<Longrightarrow> rx_word c"
  "ascii_lower c = CHR ''c'' \<Longrightarrow> rx_word c" "ascii_lower c = CHR ''d'' \<Longrightarrow> rx_word c"
  "ascii_lower c = CHR ''e'' \<Longrightarrow> rx_word c" "ascii_lower c = CHR ''h'' \<Longrightarrow> rx_word c"
  "ascii_lower c = CHR ''l'' \<Longrightarrow> rx_word c" "ascii_lower c = CHR ''o'' \<Longrightarrow> rx_word c"
  "ascii_lower c = CHR ''p'' \<Longrightarrow> rx_word c" "ascii_lower c = CHR ''q'' \<Longrightarrow> rx_word c"
  "ascii_lower c = CHR ''r'' \<Longrightarrow> rx_word c" "ascii_lower c = CHR ''s'' \<Longrightarrow> rx_word c"
  by (rule lower_letter_word, assumption, simp, simp)+

lemma digit_word: "is_digit c \<Longrightarrow> rx_word c"
  by (simp add: is_digit_def rx_word_def Let_def)

lemma lower_hex_word: "lower_hex c \<Longrightarrow> rx_word c"
  by (auto simp: lower_hex_def is_digit_def rx_word_def Let_def)

lemma rx_word_r [simp]: "rx_word (CHR ''r'')"
  by (simp add: rx_word_def)

named_theorems token_simps \<open>the structure of the four patterns\<close>

lemmas [token_simps] = run_id_token_def harness_token_def model_token_def arm_token_def
  rx_lit_def rx_lit_i_def rx_opt_def name_sep_def eval_nat_numeral

lemma tokens_not_null:
  "\<not> rx_null run_id_token" "\<not> rx_null harness_token" "\<not> rx_null model_token" "\<not> rx_null arm_token"
  by (simp_all add: token_simps)

lemma tokens_open:
  "rx_opens run_id_token c \<Longrightarrow> c = CHR ''r''"
  "rx_opens harness_token c \<Longrightarrow> ascii_lower c \<in> {CHR ''l'', CHR ''o''}"
  "rx_opens model_token c \<Longrightarrow> ascii_lower c = CHR ''q''"
  "rx_opens arm_token c \<Longrightarrow> ascii_lower c \<in> {CHR ''b'', CHR ''d'', CHR ''c''}"
  by (auto simp: token_simps)

lemma tokens_close:
  "rx_closes run_id_token c \<Longrightarrow> rx_word c"
  "rx_closes harness_token c \<Longrightarrow> rx_word c"
  "rx_closes arm_token c \<Longrightarrow> rx_word c"
  by (auto simp: token_simps lower_hex_word)

lemma tokens_bounded: "rx_bounded run_id_token" "rx_bounded harness_token" "rx_bounded arm_token"
  by (simp_all add: token_simps)

lemma tokens_avoid_bracket:
  "\<not> rx_uses run_id_token (CHR ''['')" "\<not> rx_uses harness_token (CHR ''['')"
  "\<not> rx_uses model_token (CHR ''['')" "\<not> rx_uses arm_token (CHR ''['')"
  by (simp_all add: token_simps is_digit_def lower_hex_def ascii_lower_def rx_word_def model_tail_def Let_def)

lemma token_opens_at:
  assumes "r \<in> {run_id_token, harness_token, model_token, arm_token}" "rx_ends r p s \<noteq> []"
  shows "\<not> word_at p \<and> word_at (next_char s)"
proof -
  obtain x where x: "r = Cat Bound x"
    using assms(1) by (auto simp: run_id_token_def harness_token_def model_token_def arm_token_def)
  have eqs: "rx_null r = rx_null x" "rx_opens r c = rx_opens x c" for c by (simp_all add: x)
  have "\<not> rx_null x" using assms(1) tokens_not_null by (auto simp flip: eqs)
  moreover have "rx_opens x c \<Longrightarrow> rx_word c" for c
    using assms(1) tokens_open [of c] by (auto simp flip: eqs)
  ultimately show ?thesis using bound_first [of x p s] assms(2) x by blast
qed


lemma some_in_set: "xs \<noteq> [] \<Longrightarrow> \<exists>x. x \<in> set xs"
  by (cases xs) auto

text \<open>The three tokens that end at a boundary, and the model token, whose end is greedy.\<close>

lemma bounded_token:
  assumes "r \<in> {run_id_token, harness_token, arm_token}" "n \<in> set (rx_ends r p s)"
  shows "0 < n \<and> rx_word (s ! (n - 1)) \<and> (\<forall>i<n. s ! i \<noteq> CHR ''['') \<and> \<not> word_at (next_char (drop n s))"
proof -
  have "\<not> rx_null r" "rx_bounded r" "\<And>c. rx_closes r c \<Longrightarrow> rx_word c" "\<not> rx_uses r (CHR ''['')"
    using assms(1) tokens_not_null tokens_bounded tokens_close tokens_avoid_bracket by auto
  then show ?thesis using bound_last [OF assms(2)] rx_ends_uses [OF assms(2)] by metis
qed

lemma model_ends:
  "rx_ends model_token p s =
     (if word_at p \<noteq> word_at (next_char s) \<and> 4 \<le> length s \<and> map ascii_lower (take 4 s) = ''qwen''
      then map (\<lambda>k. 4 + k) (rev [0..<Suc (length (takeWhile model_tail (drop 4 s)))]) else [])"
proof -
  have "rx_ends (rx_lit_i ''qwen'') q t =
      (if 4 \<le> length t \<and> map ascii_lower (take 4 t) = ''qwen'' then [4] else [])" for q t
    by (simp add: rx_lit_i_ends numeral_eq_Suc)
  then show ?thesis unfolding model_token_def by (auto simp: comp_def simp del: upt_Suc prev_char.simps)
qed

lemma model_first:
  "rx_match model_token p s = Some n \<Longrightarrow> n = 4 + length (takeWhile model_tail (drop 4 s))"
  by (auto simp: rx_match_def model_ends split: if_splits)

lemma model_inner:
  assumes "rx_ends model_token p s \<noteq> []"
  shows "4 \<in> set (rx_ends model_token p s)" "rx_word (s ! 3)" "\<forall>i<4. s ! i \<noteq> CHR ''[''"
proof -
  show four: "4 \<in> set (rx_ends model_token p s)"
    using assms by (simp add: model_ends image_iff del: upt_Suc split: if_splits)
  have q: "map ascii_lower (take 4 s) = ''qwen''" "4 \<le> length s"
    using assms by (simp_all add: model_ends split: if_splits)
  have "ascii_lower (s ! 3) = map ascii_lower (take 4 s) ! 3" using q(2) by simp
  also have "\<dots> = CHR ''n''" unfolding q(1) by simp
  finally show "rx_word (s ! 3)" by (rule lower_letter_word) simp_all
  show "\<forall>i<4. s ! i \<noteq> CHR ''[''"
    using rx_ends_uses [OF four] tokens_avoid_bracket(3) by metis
qed

lemma model_after: "rx_match model_token p s = Some n \<Longrightarrow> \<not> word_at (next_char (drop n s))"
proof -
  assume "rx_match model_token p s = Some n"
  then have n: "n = 4 + length (takeWhile model_tail (drop 4 s))" by (rule model_first)
  have "drop n s = dropWhile model_tail (drop 4 s)"
    unfolding n by (metis drop_drop dropWhile_eq_drop add.commute)
  then show ?thesis
    using hd_dropWhile [of model_tail "drop 4 s"]
    by (cases "dropWhile model_tail (drop 4 s)") (auto simp: model_tail_def)
qed

lemma marker_inside:
  assumes r: "r \<in> {run_id_token, harness_token, model_token, arm_token}"
    and ab: "a @ b = REDACTION" "a \<noteq> []" "b \<noteq> []"
  shows "rx_ends r (Some (last a)) (b @ t) = []"
proof (cases "length a = 1")
  case True
  then have a: "a = ''[''" and b: "b = ''redacted]''"
    using ab(1) by (cases a; simp add: REDACTION_def)+
  have "\<not> rx_opens r (CHR ''r'') \<or> r = run_id_token"
    using r tokens_open [of "CHR ''r''"] by (auto simp: ascii_lower_def Let_def)
  moreover have "rx_ends run_id_token (Some (CHR ''['')) (''redacted]'' @ t) = []"
    by (simp add: run_id_token_def rx_lit_def)
  moreover have "rx_ends r (Some (CHR ''['')) (''redacted]'' @ t) \<noteq> [] \<Longrightarrow> rx_opens r (CHR ''r'')"
  proof -
    assume "rx_ends r (Some (CHR ''['')) (''redacted]'' @ t) \<noteq> []"
    then obtain n where n: "n \<in> set (rx_ends r (Some (CHR ''['')) (''redacted]'' @ t))"
      using some_in_set by blast
    then have "0 < n" using rx_ends_null r tokens_not_null by (metis gr0I insertE empty_iff)
    then show ?thesis using rx_ends_opens [OF n] by simp
  qed
  ultimately show ?thesis using a b by auto
next
  case False
  have "last a = REDACTION ! (length a - 1)"
    using ab by (metis last_conv_nth nth_append diff_less length_greater_0_conv zero_less_one)
  moreover have "length a - 1 \<in> {1..8}"
  proof -
    have "length a + length b = 10" using arg_cong [OF ab(1), of length] by (simp add: REDACTION_def)
    moreover have "0 < length a" "0 < length b" using ab(2,3) by simp_all
    ultimately show ?thesis using False unfolding atLeastAtMost_iff by arith
  qed
  moreover have "\<forall>i \<in> {1..8}. rx_word (REDACTION ! i)"
    by code_simp
  ultimately have "word_at (Some (last a))" by simp
  then show ?thesis using token_opens_at [OF r] by blast
qed

interpretation blind: redactor "map snd IDENTITY_TOKENS" REDACTION
proof
  have pats: "set (map snd IDENTITY_TOKENS) = {run_id_token, harness_token, model_token, arm_token}"
    by (simp add: IDENTITY_TOKENS_def)
  fix r :: rx and p s
  assume r: "r \<in> set (map snd IDENTITY_TOKENS)"
  then have r': "r \<in> {run_id_token, harness_token, model_token, arm_token}" using pats by blast
  show "\<not> rx_null r" using r' tokens_not_null by auto
  { assume m: "rx_ends r p s \<noteq> []"
    show "\<not> word_at p \<and> word_at (next_char s)" using token_opens_at [OF r' m] .
    show "\<exists>n \<in> set (rx_ends r p s). 0 < n \<and> rx_word (s ! (n - 1)) \<and> (\<forall>i<n. s ! i \<noteq> hd REDACTION)"
    proof (cases "r = model_token")
      case True
      with m model_inner [of p s] show ?thesis
        by (intro bexI [of _ 4]) (simp_all add: REDACTION_def)
    next
      case False
      obtain n where "n \<in> set (rx_ends r p s)" using m some_in_set by blast
      with False r' bounded_token [of r n p s] show ?thesis
        by (intro bexI [of _ n]) (auto simp: REDACTION_def)
    qed }
  show "rx_match r p s = Some n \<Longrightarrow> \<not> word_at (next_char (drop n s))" for n
    using r' model_after [of p s n] bounded_token [of r n p s] rx_match_ends [of r p s n] by auto
  show "rx_ends r (Some (last a)) (b @ t) = []" if "a @ b = REDACTION" "a \<noteq> []" "b \<noteq> []" for a b t
    using marker_inside [OF r' that] .
qed (simp_all add: REDACTION_def rx_word_def)


section \<open>What the strip leaves\<close>

lemma content_leaks_strip [simp]: "content_leaks p (strip_text s) = []"
proof -
  have "rx_findall r (strip_text s) = []" if "(k, r) \<in> set IDENTITY_TOKENS" for k r
    unfolding strip_text_def
    by (rule quiet_findall, rule blind.redact_leaves_none) (use that in force)
  then show ?thesis unfolding content_leaks_def by auto
qed

lemma strip_text_idem [simp]: "strip_text (strip_text s) = strip_text s"
  unfolding strip_text_def by (rule blind.redact_idem)

lemma strip_fold_get:
  "dget (fst (foldl (strip_step files) st ps)) p =
     (if p \<in> set ps \<and> \<not> path_is_identifying p \<and> dget files p \<noteq> None
      then map_option strip_text (dget files p) else dget (fst st) p)"
proof (induction ps arbitrary: st)
  case Nil
  then show ?case by simp
next
  case (Cons q ps)
  have "dget (fst (strip_step files st q)) p =
      (if p = q \<and> \<not> path_is_identifying p \<and> dget files p \<noteq> None
       then map_option strip_text (dget files p) else dget (fst st) p)"
    by (cases "dget files q") (auto simp: strip_step_def)
  with Cons.IH [of "strip_step files st q"] show ?case by auto
qed

text \<open>What is shown of a tree: every file that is not furniture, with its identity words replaced.\<close>

lemma strip_identity_get:
  "dget (fst (strip_identity files)) p =
     (if path_is_identifying p then None else map_option strip_text (dget files p))"
proof (cases "dget files p")
  case None
  then show ?thesis unfolding strip_identity_def by (simp add: strip_fold_get)
next
  case (Some s)
  then have "p \<in> set (sort (dkeys files))" by (force simp: dkeys_def dest: dget_in_set)
  with Some show ?thesis unfolding strip_identity_def by (simp add: strip_fold_get)
qed

lemma strip_keys: "p \<in> set (dkeys (fst (strip_identity files))) \<Longrightarrow> \<not> path_is_identifying p"
proof -
  assume "p \<in> set (dkeys (fst (strip_identity files)))"
  then have "dget (fst (strip_identity files)) p \<noteq> None"
    by (simp add: dkeys_def map_of_eq_None_iff)
  then show ?thesis by (simp add: strip_identity_get split: if_splits)
qed

lemma strip_leak_free: "residual_leaks (fst (strip_identity files)) = []"
proof -
  have "(case dget (fst (strip_identity files)) p of None \<Rightarrow> [] | Some s \<Rightarrow> content_leaks p s) = []" for p
    by (cases "dget files p") (simp_all add: strip_identity_get)
  then show ?thesis unfolding residual_leaks_def by (simp add: strip_keys)
qed

lemma strip_again_get:
  "dget (fst (strip_identity (fst (strip_identity files)))) = dget (fst (strip_identity files))"
  by (rule ext) (simp add: strip_identity_get option.map_comp comp_def)

text \<open>A tree without identity words or furniture is shown as it is, and reports nothing.\<close>

lemma strip_clean_get:
  assumes "residual_leaks files = []"
  shows "dget (fst (strip_identity files)) = dget files"
proof (rule ext)
  fix p
  show "dget (fst (strip_identity files)) p = dget files p"
  proof (cases "dget files p")
    case None
    then show ?thesis by (simp add: strip_identity_get)
  next
    case (Some s)
    then have "p \<in> set (sort (dkeys files))" by (force simp: dkeys_def dest: dget_in_set)
    with assms Some have p: "\<not> path_is_identifying p" and leaks: "content_leaks p s = []"
      by (auto simp: residual_leaks_def split: if_splits)
    have "rx_sub r REDACTION s = s" if "(k, r) \<in> set IDENTITY_TOKENS" for k r
    proof -
      have "rx_findall r s = []" using leaks that by (force simp: content_leaks_def)
      then show ?thesis by (simp add: rx_findall_none_sub)
    qed
    then have "strip_text s = s"
      unfolding strip_text_def by (intro redact_same) auto
    with p Some show ?thesis by (simp add: strip_identity_get)
  qed
qed

text \<open>C15: Blinding holds by construction: whatever an arm's tree holds, after
  \<open>strip_identity\<close> the check \<open>residual_leaks\<close> finds nothing, a file is shown exactly when its
  path is not furniture, and stripping what is shown once more changes nothing.\<close>

theorem strip_leaves_no_leak:
  "residual_leaks (fst (strip_identity files)) = [] \<and>
   dget (fst (strip_identity files)) p = (if path_is_identifying p then None else map_option strip_text (dget files p)) \<and>
   dget (fst (strip_identity (fst (strip_identity files)))) p = dget (fst (strip_identity files)) p"
  by (simp add: strip_leak_free strip_again_get strip_identity_get option.map_comp comp_def)

end
