(* ===== verification/Judge_Quality.thy ===== *)
theory Judge_Quality
  imports Judge_Blind Bench_Campaign
begin

text \<open>
  \<open>scripts/judge_quality.py\<close>: the blind paired comparison of two arms' trees. A tree is
  rendered as text, a prompt asks a judging model for two scores and a reason, the reply is
  parsed, un-swapped onto the arms and settled over both presentation orders and several
  seeds; the settled results fill the rubric lane of the benchmark.

  The judge is a function of the number of the job, the prompt and the seed, so it need not
  answer the same prompt alike twice: it answers, carries no answer (\<open>JudgeUnusable\<close>) or
  fails. The renderings of Python's \<open>repr\<close> and of a JSON error, which only enter
  messages, are the fields of \<open>wording\<close>. An em dash is written as its three UTF-8 bytes.
\<close>

section \<open>Rendering a side and the prompt\<close>

definition em_dash :: string where
  "em_dash = [CHR 0xE2, CHR 0x80, CHR 0x94]"

definition newline :: string where
  "newline = [CHR 0x0A]"

definition MAX_SIDE_BYTES :: nat where "MAX_SIDE_BYTES = 24000"
definition MIN_REASON_CHARS :: nat where "MIN_REASON_CHARS = 40"

text \<open>The lines so far, the characters used, whether anything was cut.\<close>

definition render_file :: "tree \<Rightarrow> nat \<Rightarrow> string list \<times> nat \<times> bool \<Rightarrow> string \<Rightarrow> string list \<times> nat \<times> bool" where
  "render_file files max_bytes st p =
     (case st of (ls, used, clipped) \<Rightarrow>
        let body = (case dget files p of Some s \<Rightarrow> s | None \<Rightarrow> []) in
        if max_bytes \<le> used
        then (ls @ [''--- '' @ p @ '' --- (omitted: side budget exhausted)''], used, True)
        else
          let long = max_bytes - used < length body;
              shown = (if long then take (max_bytes - used) body @ newline @ ''... (file truncated)'' else body)
          in (ls @ [''--- '' @ p @ '' ---'', rstrip_char (CHR 0x0A) shown], used + length shown, clipped \<or> long))"

definition render_side :: "tree \<Rightarrow> string \<Rightarrow> nat \<Rightarrow> string \<times> bool" where
  "render_side files label max_bytes =
     (case foldl (render_file files max_bytes) ([''=== '' @ label @ '' ===''], 0, False) (sort (dkeys files)) of
        (ls, used, clipped) \<Rightarrow>
          (str_join newline (if files = [] then ls @ [''(no files)''] else ls) @ newline, clipped))"

definition CRITERION_QUESTION :: "(string, string) dict" where
  "CRITERION_QUESTION =
    [(''structure'', ''Does the implementation do what the task asked, and is it the simple version of that? Does it handle the cases the task names?''),
     (''decomposition'', ''Is the work in pieces that each do one thing, with names that say what they do '' @ em_dash @ '' without splitting anything for the sake of splitting it?''),
     (''testQuality'', ''NOT test count. Does each test fail for the reason it claims? Does it test behaviour rather than restate the implementation? Does it cover the edges the task names? Would it catch a regression a later change might introduce?''),
     (''deadCode'', ''Is anything present that nothing uses and nothing asked for '' @ em_dash @ '' an unused function, an unreachable branch, a leftover scaffold? A higher score means LESS of this.''),
     (''overBuilding'', ''Is there machinery the task did not ask for '' @ em_dash @ '' configuration, an abstraction with one implementation, an extension point nothing extends? A higher score means LESS of this.'')]"

definition JUDGE_INSTRUCTIONS :: "string \<Rightarrow> string \<Rightarrow> string \<Rightarrow> string \<Rightarrow> string \<Rightarrow> string" where
  "JUDGE_INSTRUCTIONS prompt criterion question first second = str_join newline
    [''You are comparing two implementations of the same programming task.'', [],
     ''You do not know who wrote either one. Judge only the code in front of you.'', [],
     ''THE TASK THE AUTHORS WERE GIVEN:'', prompt, [],
     ''WHAT TO JUDGE '' @ em_dash @ '' '' @ criterion @ '':'', question, [],
     ''Score each implementation from 0 to 3 on this one criterion, where 3 is best and'',
     ''0 is worst. Higher is always better, including on criteria named for a defect.'', [],
     first, second, [],
     ''Answer with one JSON object and nothing else, no prose before or after:'',
     ''{\"score1\": <0-3>, \"score2\": <0-3>, \"reason\": \"<one or two sentences naming the specific files, functions or lines that decided it>\"}'', [],
     ''The reason must point at something concrete in the code. If the two are equally'',
     ''good on this criterion, give them the same score and say why they are equal.'']"

datatype judge_error = BadReps int | UnknownCriterion string

definition build_prompt :: "string \<Rightarrow> string \<Rightarrow> string \<Rightarrow> string \<Rightarrow> (judge_error, string) res" where
  "build_prompt prompt_text criterion first second =
     (case dget CRITERION_QUESTION criterion of
        None \<Rightarrow> Inl (UnknownCriterion criterion)
      | Some question \<Rightarrow> Inr (JUDGE_INSTRUCTIONS (strip prompt_text) criterion question first second))"

section \<open>Parsing a response\<close>

record wording =
  wd_repr :: "json \<Rightarrow> string"
  wd_json_error :: "string \<Rightarrow> string"

definition JSON_OBJECT :: rx where
  "JSON_OBJECT = Cat (rx_lit ''{'') (Cat (Many (\<lambda>c. c \<noteq> CHR ''{'' \<and> c \<noteq> CHR ''}'')) (rx_lit ''}''))"

record reply =
  score_first :: "int option"
  score_second :: "int option"
  reply_reason :: string
  reply_invalid :: string

definition reply_ok :: "reply \<Rightarrow> bool" where
  "reply_ok r = (reply_invalid r = [])"

definition invalid_reply :: "string \<Rightarrow> reply" where
  "invalid_reply why = \<lparr>score_first = None, score_second = None, reply_reason = [], reply_invalid = why\<rparr>"

definition reply_score :: "wording \<Rightarrow> jobj \<Rightarrow> string \<Rightarrow> (string, int) res" where
  "reply_score w document key =
     (case strict_int (jget document key) of
        None \<Rightarrow> Inl (key @ '' was '' @ wd_repr w (jget document key) @ '', not an integer'')
      | Some n \<Rightarrow>
          if n \<notin> set RUBRIC_SCORES
          then Inl (key @ '' was '' @ str_int n @ '', outside ['' @ str_join '', '' (map str_int RUBRIC_SCORES) @ '']'')
          else Inr n)"

definition checked_reply :: "wording \<Rightarrow> jobj \<Rightarrow> (string, reply) res" where
  "checked_reply w document =
     bindE (reply_score w document ''score1'') (\<lambda>one.
     bindE (reply_score w document ''score2'') (\<lambda>two.
     case the_str (jget document ''reason'') of
       None \<Rightarrow> Inl (''reason was '' @ wd_repr w (jget document ''reason'') @ '', not text'')
     | Some reason \<Rightarrow>
         let reason = strip reason in
         if length reason < MIN_REASON_CHARS
         then Inl (''the reason is '' @ str_nat (length reason) @ '' characters, under the ''
                   @ str_nat MIN_REASON_CHARS @ ''-character floor'')
         else Inr \<lparr>score_first = Some one, score_second = Some two, reply_reason = reason, reply_invalid = []\<rparr>))"

definition parse_reply :: "wording \<Rightarrow> string \<Rightarrow> reply" where
  "parse_reply w s =
     (if s = [] \<or> strip s = [] then invalid_reply ''empty response''
      else case rx_findall JSON_OBJECT s of
        [] \<Rightarrow> invalid_reply ''no JSON object in the response''
      | m # ms \<Rightarrow>
          (case json_loads (last (m # ms)) of
             None \<Rightarrow> invalid_reply (''the JSON object did not parse: '' @ wd_json_error w (last (m # ms)))
           | Some document \<Rightarrow>
               (case the_obj document of
                  None \<Rightarrow> invalid_reply ''the response was not an object''
                | Some d \<Rightarrow>
                    (case checked_reply w d of Inl why \<Rightarrow> invalid_reply why | Inr r \<Rightarrow> r))))"

section \<open>One run, and what a criterion's runs settle to\<close>

definition TIE :: string where "TIE = ''tie''"

datatype verdict_kind = WinA | WinB | Tied | NoVerdict | NoTree | NoWork

record run =
  run_criterion :: string
  run_swapped :: bool
  run_rep :: nat
  run_seed :: int
  side_preferred :: "string option"
  run_winner :: "string option"
  run_score_a :: "int option"
  run_score_b :: "int option"
  run_reason :: string
  run_invalid :: string

definition score_above :: "int option \<Rightarrow> int option \<Rightarrow> bool" where
  \<comment> \<open>\<open>first > second\<close>; a reply has both scores or neither\<close>
  "score_above x y = (case (x, y) of (Some m, Some n) \<Rightarrow> n < m | _ \<Rightarrow> False)"

definition settle_run :: "reply \<Rightarrow> string \<Rightarrow> string \<Rightarrow> bool \<Rightarrow> string \<Rightarrow> nat \<Rightarrow> int \<Rightarrow> run" where
  "settle_run r arm_a arm_b swapped criterion rep seed =
     (if \<not> reply_ok r then
        \<lparr>run_criterion = criterion, run_swapped = swapped, run_rep = rep, run_seed = seed,
         side_preferred = None, run_winner = None, run_score_a = None, run_score_b = None,
         run_reason = [], run_invalid = reply_invalid r\<rparr>
      else
        let first = score_first r; second = score_second r;
            side = (if first = second then TIE else if score_above first second then ''first'' else ''second'')
        in \<lparr>run_criterion = criterion, run_swapped = swapped, run_rep = rep, run_seed = seed,
            side_preferred = Some side,
            run_winner = Some (if side = TIE then TIE
                               else if (side = ''first'') \<noteq> swapped then arm_a else arm_b),
            run_score_a = (if swapped then second else first),
            run_score_b = (if swapped then first else second),
            run_reason = reply_reason r, run_invalid = []\<rparr>)"

definition run_usable :: "run \<Rightarrow> bool" where
  "run_usable r = (run_invalid r = [])"

definition show_winner :: "string option \<Rightarrow> string" where
  "show_winner w = (case w of None \<Rightarrow> ''None'' | Some a \<Rightarrow> a)"

definition settle :: "run list \<Rightarrow> string \<Rightarrow> string \<Rightarrow> verdict_kind \<times> string" where
  "settle runs arm_a arm_b =
     (let n = str_nat (length runs);
          broken = filter (\<lambda>r. \<not> run_usable r) runs;
          winners = dedup (map run_winner runs);
          sides = dedup (map side_preferred runs) in
      if runs = [] then (NoVerdict, ''no judge responses'')
      else if broken \<noteq> [] then
        (NoVerdict, str_nat (length broken) @ '' of '' @ n @ '' responses were unusable (''
           @ str_join ''; '' (sort (dedup (map run_invalid broken)))
           @ '') '' @ em_dash @ '' an instrument failure, not a tie'')
      else if length (dedup (map run_swapped runs)) < 2 then
        (NoVerdict, ''only one presentation order ran, so position bias is untested'')
      else if length winners = 1 then
        (if hd winners = Some TIE
         then (Tied, ''unanimous over '' @ n @ '' runs in both orders: no difference'')
         else (if hd winners = Some arm_a then WinA else WinB,
               ''won every one of '' @ n @ '' runs in both presentation orders''))
      else if length sides = 1 \<and> sides \<noteq> [Some TIE] then
        (Tied, ''POSITION BIAS: the judge preferred the '' @ show_winner (hd sides)
           @ '' implementation in all '' @ n @ '' runs regardless of which arm was there '' @ em_dash
           @ '' it is reading position, not code'')
      else
        (Tied, ''the judge disagreed with itself across '' @ n @ '' runs (''
           @ str_join '', '' (sort (map show_winner winners)) @ '') '' @ em_dash
           @ '' reported as a tie rather than resolved by picking one''))"

section \<open>A pair and its comparison\<close>

record criterion_result =
  cr_task :: string
  cr_arm_a :: string
  cr_arm_b :: string
  cr_criterion :: string
  cr_outcome :: verdict_kind
  cr_note :: string
  cr_runs :: "run list"
  cr_contamination :: "string list"
  cr_cell_a :: string
  cr_cell_b :: string

definition usable :: "criterion_result \<Rightarrow> run list" where
  "usable c = filter run_usable (cr_runs c)"

definition scores_a :: "criterion_result \<Rightarrow> int list" where
  "scores_a c = List.map_filter run_score_a (usable c)"

definition scores_b :: "criterion_result \<Rightarrow> int list" where
  "scores_b c = List.map_filter run_score_b (usable c)"

definition reasons :: "criterion_result \<Rightarrow> string list" where
  "reasons c = filter (\<lambda>s. s \<noteq> []) (map run_reason (usable c))"

record pair =
  pr_task :: string
  pr_prompt :: string
  pr_arm_a :: string
  pr_arm_b :: string
  pr_files_a :: tree
  pr_files_b :: tree
  pr_leaks_a :: "leak list"
  pr_leaks_b :: "leak list"
  pr_cell_a :: string
  pr_cell_b :: string

definition side_contamination :: "string \<Rightarrow> tree \<Rightarrow> string list" where
  "side_contamination label files =
     (let remaining = residual_leaks files in
      if remaining = [] then []
      else [''side '' @ label @ '' still carries '' @ str_nat (length remaining) @ '' identity marker(s): ''
            @ str_join '', '' (sort (dedup (map leak_kind remaining)))])"

definition contamination :: "pair \<Rightarrow> string list" where
  "contamination p =
     (if length (pr_leaks_a p) \<noteq> length (pr_leaks_b p)
      then [''asymmetric redaction ('' @ str_nat (length (pr_leaks_a p)) @ '' marker(s) on one side, ''
            @ str_nat (length (pr_leaks_b p)) @ '' on the other): the redaction marker is itself a tell'']
      else [])
     @ side_contamination ''A'' (pr_files_a p) @ side_contamination ''B'' (pr_files_b p)"

definition make_pair ::
  "string \<Rightarrow> string \<Rightarrow> string \<Rightarrow> string \<Rightarrow> tree \<Rightarrow> tree \<Rightarrow> string \<Rightarrow> string \<Rightarrow> pair" where
  "make_pair tid prompt_text arm_a arm_b raw_a raw_b cell_a cell_b =
     (case (strip_identity raw_a, strip_identity raw_b) of
        ((files_a, leaks_a), (files_b, leaks_b)) \<Rightarrow>
          \<lparr>pr_task = tid, pr_prompt = prompt_text, pr_arm_a = arm_a, pr_arm_b = arm_b,
           pr_files_a = files_a, pr_files_b = files_b, pr_leaks_a = leaks_a, pr_leaks_b = leaks_b,
           pr_cell_a = cell_a, pr_cell_b = cell_b\<rparr>)"

definition seeds_for :: "int \<Rightarrow> int \<Rightarrow> (judge_error, int list) res" where
  "seeds_for reps base =
     (if reps < 1 then Inl (BadReps reps) else Inr (map (\<lambda>i. base + int i) [0..<nat reps]))"

datatype judge_answer = Answer string | Unusable string | CallFailed string

type_synonym judge = "nat \<Rightarrow> string \<Rightarrow> int \<Rightarrow> judge_answer"

record job =
  job_criterion :: string
  job_swapped :: bool
  job_rep :: nat
  job_seed :: int
  job_prompt :: string

text \<open>One order of one criterion: its jobs, and whether a side was cut.\<close>

definition order_jobs :: "pair \<Rightarrow> int \<Rightarrow> int \<Rightarrow> string \<Rightarrow> bool \<Rightarrow> (judge_error, job list \<times> bool) res" where
  "order_jobs p reps base criterion swapped =
     (let near = (if swapped then pr_files_b p else pr_files_a p);
          far = (if swapped then pr_files_a p else pr_files_b p) in
      case (render_side near ''Implementation 1'' MAX_SIDE_BYTES, render_side far ''Implementation 2'' MAX_SIDE_BYTES) of
        ((first, cut_first), (second, cut_second)) \<Rightarrow>
          bindE (build_prompt (pr_prompt p) criterion first second) (\<lambda>prompt.
          bindE (seeds_for reps base) (\<lambda>seeds.
          Inr (map (\<lambda>(i, seed). \<lparr>job_criterion = criterion, job_swapped = swapped, job_rep = i,
                                job_seed = seed, job_prompt = prompt\<rparr>) (enumerate 1 seeds),
               cut_first \<or> cut_second))))"

definition criterion_jobs :: "pair \<Rightarrow> int \<Rightarrow> int \<Rightarrow> string \<Rightarrow> (judge_error, job list \<times> string list) res" where
  "criterion_jobs p reps base criterion =
     bindE (order_jobs p reps base criterion False) (\<lambda>(jobs_ab, cut_ab).
     bindE (order_jobs p reps base criterion True) (\<lambda>(jobs_ba, cut_ba).
     let cut_note = criterion @ '': a side was truncated to fit the judge's window'' in
     Inr (jobs_ab @ jobs_ba,
          sort (dedup (contamination p @ (if cut_ab then [cut_note] else []) @ (if cut_ba then [cut_note] else []))))))"

definition judge_reply :: "wording \<Rightarrow> judge_answer \<Rightarrow> reply" where
  "judge_reply w a = (case a of
       Answer s \<Rightarrow> parse_reply w s
     | Unusable msg \<Rightarrow> invalid_reply msg
     | CallFailed msg \<Rightarrow> invalid_reply (''the judge call failed: '' @ take 200 msg))"

definition run_job :: "wording \<Rightarrow> judge \<Rightarrow> pair \<Rightarrow> nat \<times> job \<Rightarrow> run" where
  "run_job w judge p = (\<lambda>(i, j).
     settle_run (judge_reply w (judge i (job_prompt j) (job_seed j))) (pr_arm_a p) (pr_arm_b p)
       (job_swapped j) (job_criterion j) (job_rep j) (job_seed j))"

definition criterion_result_of :: "pair \<Rightarrow> run list \<Rightarrow> string \<times> string list \<Rightarrow> criterion_result" where
  "criterion_result_of p runs = (\<lambda>(criterion, notes).
     let mine = filter (\<lambda>r. run_criterion r = criterion) runs;
         settled = settle mine (pr_arm_a p) (pr_arm_b p) in
     \<lparr>cr_task = pr_task p, cr_arm_a = pr_arm_a p, cr_arm_b = pr_arm_b p, cr_criterion = criterion,
      cr_outcome = fst settled, cr_note = snd settled, cr_runs = mine, cr_contamination = notes,
      cr_cell_a = pr_cell_a p, cr_cell_b = pr_cell_b p\<rparr>)"

definition compare :: "wording \<Rightarrow> pair \<Rightarrow> judge \<Rightarrow> string list \<Rightarrow> int \<Rightarrow> int \<Rightarrow> (judge_error, criterion_result list) res" where
  "compare w p judge criteria reps base_seed =
     bindE (mapE (criterion_jobs p reps base_seed) criteria) (\<lambda>planned.
       let runs = map (run_job w judge p) (enumerate 0 (concat (map fst planned))) in
       Inr (map (criterion_result_of p runs) (zip criteria (map snd planned))))"

section \<open>Comparisons that are not made\<close>

definition unmodified_seed :: "tree \<Rightarrow> tree \<Rightarrow> bool option" where
  \<comment> \<open>\<open>files == seed\<close> on dictionaries: the same keys with the same values\<close>
  "unmodified_seed files seed =
     (if seed = [] then None
      else Some (set (dkeys files) = set (dkeys seed) \<and> list_all (\<lambda>p. dget files p = dget seed p) (dkeys seed)))"

definition unjudged_result :: "string \<Rightarrow> string \<Rightarrow> string \<Rightarrow> verdict_kind \<Rightarrow> string \<Rightarrow> criterion_result list" where
  "unjudged_result tid arm_a arm_b kind note = map (\<lambda>criterion.
     \<lparr>cr_task = tid, cr_arm_a = arm_a, cr_arm_b = arm_b, cr_criterion = criterion,
      cr_outcome = kind, cr_note = note, cr_runs = [], cr_contamination = [],
      cr_cell_a = [], cr_cell_b = []\<rparr>) RUBRIC_CRITERIA"

definition no_work_result :: "string \<Rightarrow> string \<Rightarrow> string \<Rightarrow> string list \<Rightarrow> criterion_result list" where
  "no_work_result tid arm_a arm_b idle = unjudged_result tid arm_a arm_b NoWork
     (''NO WORK: '' @ str_join '', '' idle @ '' left the seed byte-identical, so there is no implementation to judge ''
      @ em_dash @ '' this is the outcome the pass/fail already records, not a quality result'')"

definition missing_tree_result :: "string \<Rightarrow> string \<Rightarrow> string \<Rightarrow> string list \<Rightarrow> criterion_result list" where
  "missing_tree_result tid arm_a arm_b absent = unjudged_result tid arm_a arm_b NoTree
     (''NO TREE: '' @ str_join '', '' absent @ '' produced no archived tree for this task'')"

section \<open>The rubric lane\<close>

definition reviewer_label :: "string \<Rightarrow> int \<Rightarrow> string" where
  "reviewer_label model reps =
     ''model-judge '' @ model @ '' (blind paired, order-swapped, n='' @ str_int reps @ '' per order)''"

definition other_arm :: "criterion_result \<Rightarrow> string \<Rightarrow> string" where
  "other_arm c arm = (if cr_arm_a c = arm then cr_arm_b c else cr_arm_a c)"

fun outcome_text :: "verdict_kind \<Rightarrow> string" where
  "outcome_text WinA = ''win_a''"
| "outcome_text WinB = ''win_b''"
| "outcome_text Tied = TIE"
| "outcome_text NoVerdict = ''no_verdict''"
| "outcome_text NoTree = ''no_tree''"
| "outcome_text NoWork = ''no_work''"

definition verdict_for :: "criterion_result \<Rightarrow> string \<Rightarrow> string" where
  "verdict_for c arm =
     (if cr_outcome c \<in> {NoVerdict, NoTree} then outcome_text (cr_outcome c)
      else if cr_outcome c = Tied then TIE
      else if (if cr_outcome c = WinA then cr_arm_a c else cr_arm_b c) = arm then ''win'' else ''loss'')"

definition arm_scores :: "string \<Rightarrow> criterion_result \<Rightarrow> int list" where
  "arm_scores arm c =
     (if cr_arm_a c = arm then scores_a c else if cr_arm_b c = arm then scores_b c else [])"

definition rubric_cells :: "string \<Rightarrow> criterion_result list \<Rightarrow> string list" where
  "rubric_cells arm results = dedup (filter (\<lambda>s. s \<noteq> [])
     (map (\<lambda>c. if cr_arm_a c = arm then cr_cell_a c else cr_cell_b c)
          (filter (\<lambda>c. arm \<in> {cr_arm_a c, cr_arm_b c}) results)))"

definition of_criterion :: "string \<Rightarrow> criterion_result list \<Rightarrow> criterion_result list" where
  "of_criterion criterion results = filter (\<lambda>c. cr_criterion c = criterion) results"

definition criterion_values :: "string \<Rightarrow> criterion_result list \<Rightarrow> string \<Rightarrow> int list" where
  "criterion_values arm results criterion = concat (map (arm_scores arm) (of_criterion criterion results))"

definition rubric_finding :: "string \<Rightarrow> criterion_result \<Rightarrow> string list" where
  "rubric_finding criterion c = (case reasons c of [] \<Rightarrow> [] | r # _ \<Rightarrow> [criterion @ '': '' @ r])"

definition rubric_note :: "string \<Rightarrow> string \<Rightarrow> criterion_result \<Rightarrow> string" where
  "rubric_note arm criterion c =
     criterion @ '' vs '' @ other_arm c arm @ '' '' @ em_dash @ '' '' @ verdict_for c arm @ '': '' @ cr_note c"

definition rubric_record :: "string \<Rightarrow> criterion_result list \<Rightarrow> string \<Rightarrow> jobj option" where
  "rubric_record arm results reviewer =
     (case rubric_cells arm results of
        [cid] \<Rightarrow>
          if list_ex (\<lambda>criterion. criterion_values arm results criterion = []) RUBRIC_CRITERIA then None
          else Some
            [(''cellId'', JStr cid), (''reviewer'', JStr reviewer),
             (''scores'', JObj (map (\<lambda>criterion.
                (criterion, JInt (median_int (criterion_values arm results criterion)))) RUBRIC_CRITERIA)),
             (''findings'', JArr (map JStr (concat (map (\<lambda>criterion.
                concat (map (rubric_finding criterion) (of_criterion criterion results))) RUBRIC_CRITERIA)))),
             (''notes'', JStr (str_join newline (concat (map (\<lambda>criterion.
                map (rubric_note arm criterion) (of_criterion criterion results)) RUBRIC_CRITERIA))))]
      | _ \<Rightarrow> None)"

end
