(* ===== verification/Judge_Epoch.thy ===== *)
theory Judge_Epoch
  imports Judge_Quality
begin

text \<open>
  \<open>scripts/judge_quality.py\<close> over a finished epoch: the archived trees, the one tree per arm
  that is judged, the comparison of every pair of arms on every task; the known-answer
  cases a judge is calibrated on; the answer read from an HTTP response; the report. And
  \<open>source_files\<close> of \<open>scripts/epoch_review.py\<close>, which loads a tree.

  Following a link and decoding bytes that are not UTF-8 are parameters, as is the rendering
  of a ratio as a percentage. Times are milliseconds. The judge of an epoch is one judge per
  task and pair of arms.
\<close>

section \<open>Loading a tree\<close>

definition SKIP_DIRS :: "string list" where
  "SKIP_DIRS = [''.git'', ''.conductor'', ''node_modules'', ''__pycache__'', ''.opencode'']"

text \<open>What \<open>is_file\<close> and \<open>read_bytes\<close> see: the target of a link.\<close>

definition followed :: "fs \<Rightarrow> (path \<Rightarrow> path) \<Rightarrow> path \<Rightarrow> node option" where
  "followed t resolve p = (case dget t p of Some NLink \<Rightarrow> dget t (resolve p) | n \<Rightarrow> n)"

definition as_reviewable_text :: "(path \<Rightarrow> string) \<Rightarrow> path \<Rightarrow> node \<Rightarrow> string option" where
  \<comment> \<open>\<open>bytes_text\<close>: a file that is not UTF-8, as \<open>_as_reviewable_text\<close> shows it\<close>
  "as_reviewable_text bytes_text p n =
     (case n of
        NFile s \<Rightarrow> Some (if CHR 0x00 \<in> set s
          then ''(binary, '' @ str_nat (utf8_size s) @ '' bytes '' @ em_dash @ '' content omitted; the build output is evidence that a build happened, not evidence a reader can use)''
          else s)
      | NBin _ \<Rightarrow> Some (bytes_text p)
      | _ \<Rightarrow> None)"

definition source_entry :: "fs \<Rightarrow> (path \<Rightarrow> path) \<Rightarrow> (path \<Rightarrow> string) \<Rightarrow> path \<Rightarrow> tree \<Rightarrow> path \<Rightarrow> tree" where
  "source_entry t resolve bytes_text root_dir out p =
     (case Option.bind (followed t resolve p) (as_reviewable_text bytes_text p) of
        None \<Rightarrow> out
      | Some s \<Rightarrow>
          let rel = relparts p root_dir in
          if (\<exists>q \<in> set rel. q \<in> set SKIP_DIRS) \<or> (rel \<noteq> [] \<and> hd rel = ''gauge'') then out
          else dset (str_join ''/'' rel) s out)"

definition source_files :: "fs \<Rightarrow> (path \<Rightarrow> path) \<Rightarrow> (path \<Rightarrow> string) \<Rightarrow> path \<Rightarrow> tree" where
  "source_files t resolve bytes_text root_dir =
     (if \<not> fs_exists t root_dir then []
      else foldl (source_entry t resolve bytes_text root_dir) [] (sort (fs_below t root_dir)))"

section \<open>Archived cells\<close>

definition cell_stem_of :: "string \<Rightarrow> string" where
  "cell_stem_of cid = str_replace ''/'' ''__'' cid"

record archived_cell =
  ac_id :: string
  ac_arm :: string
  ac_task :: string
  ac_rep :: int
  ac_repo :: "path option"

datatype epoch_error = BadRecord path | JudgeError judge_error

text \<open>
  One result file: skipped (\<open>None\<close>) where it does not parse or lacks the arm or the task. A
  document that is no object raises, or is skipped where \<open>in\<close> finds no \<open>"arm"\<close> or no \<open>"taskId"\<close>
  in it. Arms and tasks are texts.
\<close>

definition read_cell :: "fs \<Rightarrow> path \<Rightarrow> path \<Rightarrow> (epoch_error, archived_cell option) res" where
  "read_cell t results_dir p =
     (case Option.bind (fs_read t p) json_loads of
        None \<Rightarrow> Inr None
      | Some (JObj d) \<Rightarrow>
          if \<not> dhas d ''arm'' \<or> \<not> dhas d ''taskId'' then Inr None
          else (case (if dhas d ''cellId'' then the_str (jget d ''cellId'') else Some [],
                      if dhas d ''rep'' then strict_int (jget d ''rep'') else Some 1) of
              (Some cid, Some rep) \<Rightarrow>
                let repo = path_join (path_join (path_join results_dir ''trees'') (cell_stem_of cid)) ''repo'' in
                Inr (Some \<lparr>ac_id = cid, ac_arm = text_of d ''arm'', ac_task = text_of d ''taskId'', ac_rep = rep,
                           ac_repo = (if fs_is_dir t repo then Some repo else None)\<rparr>)
            | _ \<Rightarrow> Inl (BadRecord p))
      | Some (JArr xs) \<Rightarrow> if JStr ''arm'' \<in> set xs \<and> JStr ''taskId'' \<in> set xs then Inl (BadRecord p) else Inr None
      | Some (JStr s) \<Rightarrow> if str_in ''arm'' s \<and> str_in ''taskId'' s then Inl (BadRecord p) else Inr None
      | Some _ \<Rightarrow> Inl (BadRecord p))"

definition archived_cells :: "fs \<Rightarrow> path \<Rightarrow> (epoch_error, archived_cell list) res" where
  "archived_cells t results_dir =
     bindE (mapE (read_cell t results_dir)
       (sort (filter (\<lambda>p. glob ''*.json'' (path_name p)) (fs_children t results_dir))))
       (\<lambda>found. Inr (List.map_filter id found))"

definition ac_key :: "archived_cell \<Rightarrow> string \<times> int \<times> string" where
  "ac_key c = (ac_arm c, ac_rep c, ac_id c)"

definition archived_for :: "string \<Rightarrow> archived_cell \<Rightarrow> bool" where
  "archived_for tid c = (ac_task c = tid \<and> ac_repo c \<noteq> None)"

definition select_trees :: "archived_cell list \<Rightarrow> string \<Rightarrow> (string, archived_cell) dict" where
  "select_trees cells tid =
     foldl (\<lambda>chosen c. if archived_for tid c \<and> \<not> dhas chosen (ac_arm c) then dset (ac_arm c) c chosen else chosen)
       [] (sort_key ac_key cells)"

definition unjudged_reps :: "archived_cell list \<Rightarrow> string \<Rightarrow> (string, archived_cell) dict \<Rightarrow> string list" where
  "unjudged_reps cells tid chosen =
     sort (map ac_id (filter (\<lambda>c. archived_for tid c \<and> ac_id c \<notin> set (map (ac_id \<circ> snd) chosen)) cells))"

section \<open>Judging an epoch\<close>

definition JUDGED_ARMS :: "string list" where
  "JUDGED_ARMS = [''baseline'', ''doctrine'', ''conductor'']"

fun arm_pairs :: "string list \<Rightarrow> (string \<times> string) list" where
  "arm_pairs [] = []"
| "arm_pairs (a # as) = map (Pair a) as @ arm_pairs as"

type_synonym epoch_judge = "string \<Rightarrow> string \<Rightarrow> string \<Rightarrow> judge"

record epoch =
  ep_cells :: "archived_cell list"
  ep_load :: "archived_cell \<Rightarrow> tree"
  ep_prompts :: "(string, string) dict"
  ep_seeds :: "(string, tree) dict"

definition or_else :: "('k, 'v) dict \<Rightarrow> 'k \<Rightarrow> 'v \<Rightarrow> 'v" where
  "or_else d k v = (case dget d k of Some x \<Rightarrow> x | None \<Rightarrow> v)"

definition absent_arms :: "(string, archived_cell) dict \<Rightarrow> string \<Rightarrow> string \<Rightarrow> string list" where
  "absent_arms by_arm arm_a arm_b = filter (\<lambda>arm. \<not> dhas by_arm arm) [arm_a, arm_b]"

definition idle_arms :: "string \<Rightarrow> string \<Rightarrow> tree \<Rightarrow> tree \<Rightarrow> tree \<Rightarrow> string list" where
  "idle_arms arm_a arm_b files_a files_b seed =
     map fst (filter (\<lambda>(arm, files). unmodified_seed files seed = Some True) [(arm_a, files_a), (arm_b, files_b)])"

definition note_skipped :: "string list \<Rightarrow> criterion_result \<Rightarrow> criterion_result" where
  "note_skipped skipped c =
     (if skipped = [] then c
      else c\<lparr>cr_contamination := sort (dedup (cr_contamination c @
        [str_nat (length skipped) @ '' further archived repetition(s) of this task were not judged: ''
         @ str_join '', '' skipped]))\<rparr>)"

text \<open>One pair of arms on one task.\<close>

definition judge_pair ::
  "wording \<Rightarrow> epoch \<Rightarrow> epoch_judge \<Rightarrow> int \<Rightarrow> int \<Rightarrow> string \<Rightarrow> string \<times> string \<Rightarrow> (judge_error, criterion_result list) res" where
  "judge_pair w e judge reps base_seed tid = (\<lambda>(arm_a, arm_b).
     let by_arm = select_trees (ep_cells e) tid;
         absent = absent_arms by_arm arm_a arm_b in
     case (dget by_arm arm_a, dget by_arm arm_b) of
       (Some cell_a, Some cell_b) \<Rightarrow>
         let files_a = ep_load e cell_a; files_b = ep_load e cell_b;
             idle = idle_arms arm_a arm_b files_a files_b (or_else (ep_seeds e) tid []) in
         if idle \<noteq> [] then Inr (no_work_result tid arm_a arm_b idle)
         else bindE (compare w (make_pair tid (or_else (ep_prompts e) tid []) arm_a arm_b files_a files_b
                       (ac_id cell_a) (ac_id cell_b)) (judge tid arm_a arm_b) RUBRIC_CRITERIA reps base_seed)
                (\<lambda>rs. Inr (map (note_skipped (unjudged_reps (ep_cells e) tid by_arm)) rs))
     | _ \<Rightarrow> Inr (missing_tree_result tid arm_a arm_b absent))"

definition wanted_tasks :: "epoch \<Rightarrow> string list \<Rightarrow> string list" where
  "wanted_tasks e tasks = sort (dedup (if tasks \<noteq> [] then tasks else map ac_task (ep_cells e)))"

definition judge_epoch ::
  "wording \<Rightarrow> epoch \<Rightarrow> epoch_judge \<Rightarrow> string list \<Rightarrow> int \<Rightarrow> string list \<Rightarrow> int \<Rightarrow> (judge_error, criterion_result list) res" where
  "judge_epoch w e judge arms reps tasks base_seed =
     bindE (mapE (\<lambda>tid. bindE (mapE (judge_pair w e judge reps base_seed tid) (arm_pairs arms)) (\<lambda>rss. Inr (concat rss)))
             (wanted_tasks e tasks))
       (\<lambda>rss. Inr (concat rss))"

section \<open>Calibration\<close>

record calibration_case =
  cc_id :: string
  cc_criterion :: string
  cc_prompt :: string
  cc_better :: tree
  cc_worse :: tree
  cc_better_is_longer :: bool

record control_result =
  ct_case :: string
  ct_equal :: nat
  ct_valid :: nat
  ct_unusable :: nat

definition control_usable :: "control_result \<Rightarrow> bool" where
  "control_usable c = (0 < ct_valid c)"

definition control_summary :: "control_result \<Rightarrow> string" where
  "control_summary c =
     (if ct_valid c = 0 then ''no usable response on identical inputs''
      else str_nat (ct_equal c) @ ''/'' @ str_nat (ct_valid c) @ '' runs scored two identical trees equally'')"

text \<open>\<open>rate < 0.8\<close> and \<open>accuracy >= 0.75\<close>, over the exact ratios.\<close>

definition below_control_floor :: "control_result \<Rightarrow> bool" where
  "below_control_floor c = (5 * ct_equal c < 4 * ct_valid c)"

definition meets_floor :: "nat \<Rightarrow> nat \<Rightarrow> bool" where
  "meets_floor correct asked = (3 * asked \<le> 4 * correct)"

text \<open>The first result of a comparison on one criterion.\<close>

definition compare_one :: "wording \<Rightarrow> pair \<Rightarrow> judge \<Rightarrow> string \<Rightarrow> int \<Rightarrow> int \<Rightarrow> (judge_error, criterion_result) res" where
  "compare_one w p judge criterion reps base_seed =
     bindE (compare w p judge [criterion] reps base_seed) (\<lambda>rs. Inr (hd rs))"

definition control_check :: "wording \<Rightarrow> calibration_case \<Rightarrow> judge \<Rightarrow> int \<Rightarrow> int \<Rightarrow> (judge_error, control_result) res" where
  "control_check w k judge reps base_seed =
     bindE (compare_one w (make_pair (cc_id k) (cc_prompt k) ''copy-a'' ''copy-b'' (cc_better k) (cc_better k) [] [])
              judge (cc_criterion k) reps base_seed) (\<lambda>result.
       let valid = usable result in
       Inr \<lparr>ct_case = cc_id k, ct_equal = count_if (\<lambda>r. run_score_a r = run_score_b r) valid,
            ct_valid = length valid, ct_unusable = length (cr_runs result) - length valid\<rparr>)"

datatype case_verdict = Correct | Wrong | CaseTie | CaseNoVerdict

fun case_verdict_of :: "verdict_kind \<Rightarrow> case_verdict" where
  "case_verdict_of WinA = Correct"
| "case_verdict_of WinB = Wrong"
| "case_verdict_of NoVerdict = CaseNoVerdict"
| "case_verdict_of _ = CaseTie"

record case_outcome =
  co_case :: string
  co_criterion :: string
  co_better_is_longer :: bool
  co_outcome :: case_verdict
  co_note :: string
  co_control :: control_result

definition calibrate_case ::
  "wording \<Rightarrow> (string \<Rightarrow> bool \<Rightarrow> judge) \<Rightarrow> int \<Rightarrow> int \<Rightarrow> calibration_case \<Rightarrow> (judge_error, case_outcome) res" where
  \<comment> \<open>the judge of a case and, apart, of its control\<close>
  "calibrate_case w judge reps base_seed k =
     bindE (compare_one w (make_pair (cc_id k) (cc_prompt k) ''better'' ''worse'' (cc_better k) (cc_worse k) [] [])
              (judge (cc_id k) False) (cc_criterion k) reps base_seed) (\<lambda>result.
     bindE (control_check w k (judge (cc_id k) True) reps base_seed) (\<lambda>control.
       Inr \<lparr>co_case = cc_id k, co_criterion = cc_criterion k, co_better_is_longer = cc_better_is_longer k,
            co_outcome = case_verdict_of (cr_outcome result), co_note = cr_note result, co_control = control\<rparr>))"

definition run_calibration ::
  "wording \<Rightarrow> calibration_case list \<Rightarrow> (string \<Rightarrow> bool \<Rightarrow> judge) \<Rightarrow> int \<Rightarrow> int \<Rightarrow> (judge_error, case_outcome list) res" where
  "run_calibration w cases judge reps base_seed = mapE (calibrate_case w judge reps base_seed) cases"

record calibration_verdict =
  cv_correct :: nat
  cv_total :: nat
  cv_trusted :: bool
  cv_length_bias :: string
  cv_control_failures :: "string list"
  cv_control_detail :: string
  cv_note :: string

definition corrects :: "case_outcome list \<Rightarrow> nat" where
  "corrects os = count_if (\<lambda>k. co_outcome k = Correct) os"

definition length_bias :: "(nat \<Rightarrow> nat \<Rightarrow> string) \<Rightarrow> case_outcome list \<Rightarrow> case_outcome list \<Rightarrow> string" where
  \<comment> \<open>\<open>abs(gap) >= 0.5\<close> over the exact ratios\<close>
  "length_bias pct longer shorter =
     (if longer = [] \<or> shorter = []
      then ''untestable: the corpus carries only one length direction, so a judge preferring longer code would score the same as one reading it''
      else
        let hl = int (corrects longer) * int (length shorter); hs = int (corrects shorter) * int (length longer);
            whole = int (length longer) * int (length shorter);
            detail = ''better-is-longer '' @ pct (corrects longer) (length longer) @ ''% ('' @ str_nat (length longer)
              @ '' cases) vs better-is-shorter '' @ pct (corrects shorter) (length shorter) @ ''% ('' @ str_nat (length shorter) @ '' cases)''
        in if whole \<le> 2 * \<bar>hl - hs\<bar>
           then ''LENGTH BIAS toward the '' @ (if hs < hl then ''longer'' else ''shorter'') @ '' implementation '' @ em_dash @ '' '' @ detail
           else detail)"

definition judge_calibration_verdict :: "(nat \<Rightarrow> nat \<Rightarrow> string) \<Rightarrow> case_outcome list \<Rightarrow> calibration_verdict" where
  "judge_calibration_verdict pct os =
     (if os = [] then \<lparr>cv_correct = 0, cv_total = 0, cv_trusted = False, cv_length_bias = ''no cases'', cv_control_failures = [],
        cv_control_detail = ''no control ran'',
        cv_note = ''NOT CALIBRATED: no known-answer cases ran, which is a gap in the instrument and not a passing score''\<rparr>
      else
        let correct = corrects os; asked = length os;
            controls = map co_case (filter (\<lambda>k. control_usable (co_control k) \<and> below_control_floor (co_control k)) os);
            unusable = map co_case (filter (\<lambda>k. \<not> control_usable (co_control k)) os)
        in \<lparr>cv_correct = correct, cv_total = asked,
            cv_trusted = (meets_floor correct asked \<and> controls = [] \<and> unusable = []),
            cv_length_bias = length_bias pct (filter co_better_is_longer os) (filter (\<lambda>k. \<not> co_better_is_longer k) os),
            cv_control_failures = controls,
            cv_control_detail = str_join ''; '' (map (\<lambda>k. co_case k @ '' '' @ control_summary (co_control k)) os),
            cv_note = (if unusable \<noteq> [] then
                ''NOT TRUSTED: on '' @ str_nat (length unusable) @ '' case(s) the control produced NO usable response at all, so nothing was measured ''
                @ em_dash @ '' this is a broken instrument, not a judge that scored two identical trees differently''
              else if controls \<noteq> [] then
                ''NOT TRUSTED: on '' @ str_nat (length controls) @ '' case(s) the judge scored a tree against a byte-identical copy of itself UNEQUALLY more than 20% of the time ''
                @ em_dash @ '' that spread is its noise floor, and every margin below reads inside it''
              else if \<not> meets_floor correct asked then
                ''NOT TRUSTED: '' @ pct correct asked @ ''% on deliberately obvious cases, under the stated 75% floor. A judge that cannot separate obvious cases cannot separate subtle ones, and that is a result worth reporting rather than a reason to proceed quietly.''
              else ''calibrated: '' @ str_nat correct @ ''/'' @ str_nat asked @ '' on known-answer cases'')\<rparr>)"

section \<open>The live judge\<close>

definition DEFAULT_MAX_TOKENS :: int where "DEFAULT_MAX_TOKENS = 6000"

definition minimum_timeout_ms :: "int \<Rightarrow> int" where
  \<comment> \<open>120 seconds, and a token each quarter of a second\<close>
  "minimum_timeout_ms max_tokens = 120000 + 250 * max_tokens"

definition obj_or_empty :: "json \<Rightarrow> json" where
  "obj_or_empty j = (if truthy j then j else JObj [])"

text \<open>\<open>len(reasoning or "")\<close>, where it has a length.\<close>

definition json_length :: "json \<Rightarrow> nat option" where
  "json_length j =
     (if \<not> truthy j then Some 0
      else case j of JStr s \<Rightarrow> Some (length s) | JArr xs \<Rightarrow> Some (length xs) | JObj d \<Rightarrow> Some (length d) | _ \<Rightarrow> None)"

text \<open>The answer in a response; a response of another shape raises inside the call, which is a
  failed call (its message is not modelled).\<close>

definition message_answer :: "int \<Rightarrow> (json \<Rightarrow> string) \<Rightarrow> jobj \<Rightarrow> jobj \<Rightarrow> judge_answer" where
  "message_answer max_tokens show_finish choice message =
     (case (if truthy (jget message ''content'') then jget message ''content'' else JStr []) of
        JStr content \<Rightarrow>
          if strip content \<noteq> [] then Answer content
          else (case json_length (jget message ''reasoning_content'') of
            None \<Rightarrow> CallFailed []
          | Some thought \<Rightarrow>
              if jget choice ''finish_reason'' = JStr ''length'' \<and> 0 < thought
              then Unusable (''the judge spent its whole token budget reasoning and never answered (finish_reason=length, 0 answer chars after ''
                     @ str_nat thought @ '' reasoning chars) '' @ em_dash @ '' raise max_tokens above '' @ str_int max_tokens)
              else Unusable (''the judge returned no answer (finish_reason='' @ show_finish (jget choice ''finish_reason'')
                     @ '', '' @ str_nat thought @ '' reasoning chars)''))
      | _ \<Rightarrow> CallFailed [])"

definition http_answer :: "int \<Rightarrow> (json \<Rightarrow> string) \<Rightarrow> json \<Rightarrow> judge_answer" where
  "http_answer max_tokens show_finish body =
     (case body of
        JObj b \<Rightarrow>
          (case (if truthy (jget b ''choices'') then jget b ''choices'' else JArr [JObj []]) of
             JArr (JObj choice # _) \<Rightarrow>
               (case obj_or_empty (jget choice ''message'') of
                  JObj message \<Rightarrow> message_answer max_tokens show_finish choice message
                | _ \<Rightarrow> CallFailed [])
           | _ \<Rightarrow> CallFailed [])
      | _ \<Rightarrow> CallFailed [])"

definition http_judge ::
  "int \<Rightarrow> int \<Rightarrow> (json \<Rightarrow> string) \<Rightarrow> (nat \<Rightarrow> string \<Rightarrow> int \<Rightarrow> (string, json) res) \<Rightarrow> (int, judge) res" where
  \<comment> \<open>refuses a timeout that cannot cover the budget, with the one it needs\<close>
  "http_judge timeout_ms max_tokens show_finish send =
     (if timeout_ms < minimum_timeout_ms max_tokens then Inl (minimum_timeout_ms max_tokens)
      else Inr (\<lambda>i prompt seed. case send i prompt seed of
          Inl msg \<Rightarrow> CallFailed msg
        | Inr body \<Rightarrow> http_answer max_tokens show_finish body))"

end
