(* ===== verification/Judge_Quality_Laws.thy ===== *)
theory Judge_Quality_Laws
  imports Judge_Quality
begin

text \<open>
  What the quality judge promises. A reply that counts as usable has two scores from 0 to 3 and
  a reason; a criterion is won only by the arm that scored higher in every run of both
  presentation orders; the verdict does not depend on the order of the runs nor, for a judge
  that answers equal prompts alike, on which arm is called the first; a judge that reads
  the position instead of the code yields no winner; a rubric record it writes is one
  the benchmark accepts.
\<close>

lemma list_all2_left: "list_all2 P xs ys \<Longrightarrow> x \<in> set xs \<Longrightarrow> \<exists>y. (x, y) \<in> set (zip xs ys) \<and> P x y"
  by (induction xs ys rule: list_all2_induct) auto

lemma list_all2_right: "list_all2 P xs ys \<Longrightarrow> y \<in> set ys \<Longrightarrow> \<exists>x \<in> set xs. P x y"
  by (induction xs ys rule: list_all2_induct) auto

section \<open>Replies\<close>

lemma invalid_reply_ok [simp]: "reply_ok (invalid_reply why) \<longleftrightarrow> why = []"
  by (simp add: reply_ok_def invalid_reply_def)

definition sound_reply :: "reply \<Rightarrow> bool" where
  "sound_reply r = (case (score_first r, score_second r) of
      (Some m, Some n) \<Rightarrow> m \<in> set RUBRIC_SCORES \<and> n \<in> set RUBRIC_SCORES \<and> MIN_REASON_CHARS \<le> length (reply_reason r)
    | _ \<Rightarrow> False)"

lemma reply_score_Inr: "reply_score w d k = Inr n \<longleftrightarrow> jget d k = JInt n \<and> n \<in> set RUBRIC_SCORES"
  by (cases "jget d k") (auto simp: reply_score_def)

lemma reply_score_Inl: "reply_score w d k = Inl why \<Longrightarrow> why \<noteq> []"
  by (auto simp: reply_score_def split: option.splits if_splits)

lemma checked_reply_Inr: "checked_reply w d = Inr r \<Longrightarrow> sound_reply r \<and> reply_ok r"
  by (auto simp: checked_reply_def err_simps reply_score_Inr sound_reply_def reply_ok_def Let_def
      split: option.splits if_splits)

lemma checked_reply_Inl: "checked_reply w d = Inl why \<Longrightarrow> why \<noteq> []"
  by (auto simp: checked_reply_def err_simps Let_def dest: reply_score_Inl split: option.splits if_splits)

lemma parse_reply_sound: "reply_ok (parse_reply w s) \<Longrightarrow> sound_reply (parse_reply w s)"
proof -
  assume ok: "reply_ok (parse_reply w s)"
  then obtain d r where "checked_reply w d = Inr r" "parse_reply w s = r"
    by (auto simp: parse_reply_def dest: checked_reply_Inl split: if_splits list.splits option.splits sum.splits)
  then show ?thesis using checked_reply_Inr by blast
qed

lemma judge_reply_sound: "a \<noteq> Unusable [] \<Longrightarrow> reply_ok (judge_reply w a) \<Longrightarrow> sound_reply (judge_reply w a)"
  by (cases a) (auto simp: judge_reply_def parse_reply_sound)

text \<open>A judge whose \<open>JudgeUnusable\<close> carries a message, as the live one's does.\<close>

definition worded_judge :: "judge \<Rightarrow> bool" where
  "worded_judge judge \<longleftrightarrow> (\<forall>i s n. judge i s n \<noteq> Unusable [])"

section \<open>Settling\<close>

lemma length_dedup: "length (dedup xs) = card (set xs)"
  using distinct_card [OF distinct_dedup, of xs] by simp

lemma two_orders: "\<not> length (dedup (map run_swapped runs)) < 2 \<longleftrightarrow>
    (\<exists>r \<in> set runs. run_swapped r) \<and> (\<exists>r \<in> set runs. \<not> run_swapped r)"
proof -
  have "set (map run_swapped runs) \<subseteq> {True, False}" by auto
  moreover have "card {True, False} = 2" by simp
  ultimately have "\<not> card (set (map run_swapped runs)) < 2 \<longleftrightarrow> set (map run_swapped runs) = {True, False}"
    using card_mono [of "{True, False}" "set (map run_swapped runs)"] card_subset_eq [of "{True, False}" "set (map run_swapped runs)"]
    by force
  also have "\<dots> \<longleftrightarrow> (\<exists>r \<in> set runs. run_swapped r) \<and> (\<exists>r \<in> set runs. \<not> run_swapped r)"
    by (auto simp: set_eq_iff image_iff)
  finally show ?thesis by (simp add: length_dedup)
qed

lemma one_winner: "length (dedup xs) = 1 \<Longrightarrow> dedup xs = [hd (dedup xs)] \<and> (\<forall>x \<in> set xs. x = hd (dedup xs))"
  by (metis One_nat_def length_0_conv length_Suc_conv list.sel(1) set_dedup set_ConsD empty_iff empty_set)

text \<open>The runs of one criterion count: all usable, in both orders.\<close>

definition counted :: "run list \<Rightarrow> bool" where
  "counted runs \<longleftrightarrow> (\<forall>r \<in> set runs. run_usable r) \<and>
     (\<exists>r \<in> set runs. run_swapped r) \<and> (\<exists>r \<in> set runs. \<not> run_swapped r)"

lemma settle_no_verdict: "fst (settle runs a b) = NoVerdict \<longleftrightarrow> \<not> counted runs"
  using two_orders [of runs]
  by (auto simp: settle_def counted_def Let_def filter_empty_conv)

lemma settle_unanimous:
  assumes "counted runs" "\<forall>r \<in> set runs. run_winner r = Some v" "v \<noteq> TIE"
  shows "fst (settle runs a b) = (if v = a then WinA else WinB)"
proof -
  have ne: "runs \<noteq> []" and ok: "filter (\<lambda>r. \<not> run_usable r) runs = []"
    using assms(1) by (auto simp: counted_def filter_empty_conv)
  have "set (map run_winner runs) = {Some v}" using assms(2) ne by (cases runs) auto
  then have "length (dedup (map run_winner runs)) = 1" "hd (dedup (map run_winner runs)) = Some v"
    using length_dedup [of "map run_winner runs"] one_winner [of "map run_winner runs"]
      set_dedup [of "map run_winner runs"] by auto
  then show ?thesis
    using two_orders [of runs] assms(1,3) ne ok by (simp add: settle_def Let_def counted_def)
qed

lemma settle_divided:
  assumes "counted runs" "\<not> (\<exists>v. v \<noteq> Some TIE \<and> (\<forall>r \<in> set runs. run_winner r = v))"
  shows "fst (settle runs a b) = Tied"
proof -
  have ne: "runs \<noteq> []" and ok: "filter (\<lambda>r. \<not> run_usable r) runs = []"
    using assms(1) by (auto simp: counted_def filter_empty_conv)
  have "hd (dedup (map run_winner runs)) = Some TIE" if "length (dedup (map run_winner runs)) = 1"
    using one_winner [OF that] assms(2) by auto
  then show ?thesis
    using two_orders [of runs] assms(1) ne ok by (simp add: settle_def Let_def counted_def)
qed


section \<open>The runs of a comparison\<close>

lemma settle_run_usable [simp]: "run_usable (settle_run r a b sw c k n) \<longleftrightarrow> reply_ok r"
  by (auto simp: settle_run_def run_usable_def reply_ok_def Let_def)

lemma settle_run_fields [simp]:
  "run_criterion (settle_run r a b sw c k n) = c" "run_swapped (settle_run r a b sw c k n) = sw"
  "run_rep (settle_run r a b sw c k n) = k" "run_seed (settle_run r a b sw c k n) = n"
  by (simp_all add: settle_run_def Let_def)

text \<open>A usable run has two scores on the scale, and its winner is the arm with the higher one.\<close>

definition scored_run :: "string \<Rightarrow> string \<Rightarrow> run \<Rightarrow> bool" where
  "scored_run a b r = (case (run_score_a r, run_score_b r) of
      (Some x, Some y) \<Rightarrow> x \<in> set RUBRIC_SCORES \<and> y \<in> set RUBRIC_SCORES \<and>
        run_winner r = Some (if x = y then TIE else if y < x then a else b)
    | _ \<Rightarrow> False)"

lemma settle_run_scored:
  assumes "sound_reply r" "reply_ok r"
  shows "scored_run a b (settle_run r a b sw c k n)"
proof -
  obtain m n where "score_first r = Some m" "score_second r = Some n"
    "m \<in> set RUBRIC_SCORES" "n \<in> set RUBRIC_SCORES"
    using assms(1) by (auto simp: sound_reply_def split: option.splits)
  with assms(2) show ?thesis
    by (auto simp: settle_run_def scored_run_def score_above_def Let_def TIE_def)
qed

text \<open>The schedule: both orders, every repetition, its own seed.\<close>

definition schedule :: "int \<Rightarrow> int \<Rightarrow> (bool \<times> nat \<times> int) list" where
  "schedule reps base = concat (map (\<lambda>sw. map (\<lambda>k. (sw, k, base + int k - 1)) [1..<Suc (nat reps)]) [False, True])"

definition job_key :: "job \<Rightarrow> bool \<times> nat \<times> int" where
  "job_key j = (job_swapped j, job_rep j, job_seed j)"

definition run_key :: "run \<Rightarrow> bool \<times> nat \<times> int" where
  "run_key r = (run_swapped r, run_rep r, run_seed r)"

lemma seeds_for_Inr: "seeds_for reps base = Inr seeds \<longleftrightarrow> 1 \<le> reps \<and> seeds = map (\<lambda>i. base + int i) [0..<nat reps]"
  by (auto simp: seeds_for_def)

lemma enumerate_seeds:
  "enumerate 1 (map (\<lambda>i. base + int i) [0..<n]) = map (\<lambda>k. (k, base + int k - 1)) [1..<Suc n]"
  by (induction n) (simp_all add: enumerate_append_eq)

lemma order_jobs_Inr:
  assumes "order_jobs p reps base c sw = Inr (js, clipped)"
  shows "map job_key js = map (\<lambda>k. (sw, k, base + int k - 1)) [1..<Suc (nat reps)]"
    and "\<forall>j \<in> set js. job_criterion j = c" and "1 \<le> reps"
proof -
  obtain prompt where js: "js = map (\<lambda>(i, seed). \<lparr>job_criterion = c, job_swapped = sw, job_rep = i,
      job_seed = seed, job_prompt = prompt\<rparr>) (enumerate 1 (map (\<lambda>i. base + int i) [0..<nat reps]))"
    and reps: "1 \<le> reps"
    using assms by (auto simp: order_jobs_def err_simps seeds_for_Inr Let_def split: prod.splits)
  show "map job_key js = map (\<lambda>k. (sw, k, base + int k - 1)) [1..<Suc (nat reps)]"
    unfolding js enumerate_seeds by (simp add: job_key_def comp_def del: upt_Suc)
  show "\<forall>j \<in> set js. job_criterion j = c" unfolding js by auto
  show "1 \<le> reps" by (rule reps)
qed

lemma criterion_jobs_Inr:
  assumes "criterion_jobs p reps base c = Inr (js, ns)"
  shows "map job_key js = schedule reps base \<and> (\<forall>j \<in> set js. job_criterion j = c) \<and> 1 \<le> reps"
proof -
  obtain ja ca jb cb where o: "order_jobs p reps base c False = Inr (ja, ca)"
    "order_jobs p reps base c True = Inr (jb, cb)" "js = ja @ jb"
    using assms unfolding criterion_jobs_def by (elim bindE_pairE) (auto simp: Let_def)
  show ?thesis
    using order_jobs_Inr [OF o(1)] order_jobs_Inr [OF o(2)] o(3)
    by (auto simp: schedule_def simp del: upt_Suc)
qed

lemma run_job_fields:
  "run_criterion (run_job w judge p (i, j)) = job_criterion j" "run_key (run_job w judge p (i, j)) = job_key j"
  by (simp_all add: run_job_def run_key_def job_key_def)

lemma filter_runs:
  "map run_key (filter (\<lambda>r. run_criterion r = c) (map (run_job w judge p) (enumerate n js))) =
   map job_key (filter (\<lambda>j. job_criterion j = c) js)"
  by (induction js arbitrary: n) (simp_all add: run_job_fields)

lemma filter_planned:
  assumes "list_all2 (\<lambda>c x. criterion_jobs p reps base c = Inr x) criteria planned" "distinct criteria"
    "(c, x) \<in> set (zip criteria planned)"
  shows "filter (\<lambda>j. job_criterion j = c) (concat (map fst planned)) = fst x"
  using assms
proof (induction criteria planned rule: list_all2_induct)
  case (Cons d ds y ys)
  have jobs: "\<forall>j \<in> set (fst y). job_criterion j = d"
    using criterion_jobs_Inr [of p reps base d "fst y" "snd y"] Cons.hyps(1) by auto
  have others: "filter (\<lambda>j. job_criterion j = e) (concat (map fst ys)) = []" if e: "e \<notin> set ds" for e
  proof -
    have "job_criterion j \<noteq> e" if j: "j \<in> set (fst z)" and z: "z \<in> set ys" for j z
    proof -
      obtain e' where "e' \<in> set ds" "criterion_jobs p reps base e' = Inr z"
        using list_all2_right [OF Cons.hyps(2) z] by blast
      then show ?thesis using criterion_jobs_Inr [of p reps base e' "fst z" "snd z"] j e by auto
    qed
    then show ?thesis by (auto simp: filter_empty_conv)
  qed
  show ?case
  proof (cases "c = d")
    case True
    have "(c, x) \<notin> set (zip ds ys)" using True Cons.prems(1) set_zip_leftD by fastforce
    then have "x = y" using Cons.prems(2) by simp
    moreover have "filter (\<lambda>j. job_criterion j = c) (fst y) = fst y"
      using jobs True by (simp add: filter_id_conv)
    ultimately show ?thesis using others [of c] True Cons.prems(1) by simp
  next
    case False
    then have "filter (\<lambda>j. job_criterion j = c) (fst y) = []" using jobs by (auto simp: filter_empty_conv)
    moreover have "(c, x) \<in> set (zip ds ys)" using False Cons.prems(2) by auto
    ultimately show ?thesis using Cons.IH Cons.prems(1) by simp
  qed
qed simp

text \<open>Every result of a comparison: whose it is, what ran, and that it settled those runs.\<close>

lemma compare_result:
  assumes "compare w p judge criteria reps base = Inr results" "distinct criteria" "c \<in> set results"
  shows "map run_key (cr_runs c) = schedule reps base \<and> 1 \<le> reps \<and>
    cr_outcome c = fst (settle (cr_runs c) (pr_arm_a p) (pr_arm_b p)) \<and>
    (\<forall>r \<in> set (cr_runs c). \<exists>i j. r = run_job w judge p (i, j))"
proof -
  obtain planned where pl: "mapE (criterion_jobs p reps base) criteria = Inr planned"
    "results = map (criterion_result_of p (map (run_job w judge p) (enumerate 0 (concat (map fst planned)))))
      (zip criteria (map snd planned))"
    using assms(1) by (auto simp: compare_def err_simps Let_def)
  let ?runs = "map (run_job w judge p) (enumerate 0 (concat (map fst planned)))"
  have all: "list_all2 (\<lambda>c x. criterion_jobs p reps base c = Inr x) criteria planned"
    using pl(1) by (simp add: mapE_Inr)
  obtain d ns where d: "(d, ns) \<in> set (zip criteria (map snd planned))"
    "c = criterion_result_of p ?runs (d, ns)"
    using assms(3) pl(2) by auto
  have dc: "d \<in> set criteria" using d(1) by (rule set_zip_leftD)
  then obtain x where x: "(d, x) \<in> set (zip criteria planned)" "criterion_jobs p reps base d = Inr x"
    using list_all2_left [OF all] by blast
  then have keys: "map job_key (fst x) = schedule reps base" and reps: "1 \<le> reps"
    using criterion_jobs_Inr [of p reps base d "fst x" "snd x"] by simp_all
  have runs: "cr_runs c = filter (\<lambda>r. run_criterion r = d) ?runs"
    unfolding d(2) by (simp add: criterion_result_of_def Let_def)
  show ?thesis
    using filter_runs [of d w judge p 0 "concat (map fst planned)"] filter_planned [OF all assms(2) x(1)] keys reps
    unfolding runs by (auto simp: d(2) criterion_result_of_def Let_def)
qed

lemma schedule_orders:
  assumes "1 \<le> reps" shows "(sw, 1, base) \<in> set (schedule reps base)"
proof -
  have "1 \<in> set [1..<Suc (nat reps)]" using assms by auto
  then show ?thesis unfolding schedule_def by (cases sw) force+
qed

lemma compare_counted:
  assumes "compare w p judge criteria reps base = Inr results" "distinct criteria" "c \<in> set results"
  shows "counted (cr_runs c) \<longleftrightarrow> (\<forall>r \<in> set (cr_runs c). run_usable r)"
proof -
  have "set (schedule reps base) = run_key ` set (cr_runs c)" "1 \<le> reps"
    using compare_result [OF assms] by (metis list.set_map)+
  then have "(\<exists>r \<in> set (cr_runs c). run_swapped r) \<and> (\<exists>r \<in> set (cr_runs c). \<not> run_swapped r)"
    using schedule_orders [of reps True base] schedule_orders [of reps False base]
    by (auto simp: run_key_def image_iff)
  then show ?thesis unfolding counted_def by blast
qed


section \<open>What a verdict says\<close>

lemma scored_run_winner:
  assumes "scored_run a b r" "a \<noteq> b" "a \<noteq> TIE" "b \<noteq> TIE"
  shows "run_winner r = Some a \<longleftrightarrow> score_above (run_score_a r) (run_score_b r)"
    and "run_winner r = Some b \<longleftrightarrow> score_above (run_score_b r) (run_score_a r)"
    and "run_winner r \<in> {Some a, Some b, Some TIE}"
  using assms by (auto simp: scored_run_def score_above_def split: option.splits if_splits)

lemma settle_win:
  assumes "counted runs" and sc: "\<forall>r \<in> set runs. scored_run a b r" and ab: "a \<noteq> b" "a \<noteq> TIE" "b \<noteq> TIE"
  shows "fst (settle runs a b) = WinA \<longleftrightarrow> (\<forall>r \<in> set runs. score_above (run_score_a r) (run_score_b r))" (is ?A)
    and "fst (settle runs a b) = WinB \<longleftrightarrow> (\<forall>r \<in> set runs. score_above (run_score_b r) (run_score_a r))" (is ?B)
proof -
  have ne: "runs \<noteq> []" using assms(1) by (auto simp: counted_def)
  have win: "(\<forall>r \<in> set runs. score_above (run_score_a r) (run_score_b r)) \<longleftrightarrow> (\<forall>r \<in> set runs. run_winner r = Some a)"
    "(\<forall>r \<in> set runs. score_above (run_score_b r) (run_score_a r)) \<longleftrightarrow> (\<forall>r \<in> set runs. run_winner r = Some b)"
    using scored_run_winner [OF _ ab] sc by blast+
  consider "\<forall>r \<in> set runs. run_winner r = Some a" | "\<forall>r \<in> set runs. run_winner r = Some b"
    | "\<not> (\<exists>v. v \<noteq> Some TIE \<and> (\<forall>r \<in> set runs. run_winner r = v))"
    using scored_run_winner(3) [OF _ ab] sc ne by (metis empty_iff insert_iff list.set_sel(1))
  then have "?A \<and> ?B"
  proof cases
    case 1
    then have "\<not> (\<forall>r \<in> set runs. run_winner r = Some b)" using ne ab(1) by (cases runs) auto
    then show ?thesis using settle_unanimous [OF assms(1) 1 ab(2), of a b] 1 win by simp
  next
    case 2
    then have "\<not> (\<forall>r \<in> set runs. run_winner r = Some a)" using ne ab(1) by (cases runs) auto
    then show ?thesis using settle_unanimous [OF assms(1) 2 ab(3), of a b] ab(1) 2 win by simp
  next
    case 3
    then show ?thesis using settle_divided [OF assms(1) 3, of a b] ab(2,3) win by (metis option.inject verdict_kind.distinct(3,11))
  qed
  then show ?A ?B by blast+
qed

lemma compare_scored:
  assumes "compare w p judge criteria reps base = Inr results" "distinct criteria" "c \<in> set results"
    and "worded_judge judge" and r: "r \<in> set (cr_runs c)" "run_usable r"
  shows "scored_run (pr_arm_a p) (pr_arm_b p) r"
proof -
  obtain i j where "r = run_job w judge p (i, j)"
    using compare_result [OF assms(1-3)] r(1) by blast
  with r(2) show ?thesis
    using assms(4) by (simp add: run_job_def settle_run_scored judge_reply_sound worded_judge_def)
qed

lemma compare_win:
  assumes "compare w p judge criteria reps base = Inr results" "distinct criteria" "c \<in> set results"
    and "worded_judge judge"
    and "pr_arm_a p \<noteq> pr_arm_b p" "pr_arm_a p \<noteq> TIE" "pr_arm_b p \<noteq> TIE"
  shows "cr_outcome c = WinA \<longleftrightarrow> (\<forall>r \<in> set (cr_runs c). run_usable r \<and> score_above (run_score_a r) (run_score_b r))"
    and "cr_outcome c = WinB \<longleftrightarrow> (\<forall>r \<in> set (cr_runs c). run_usable r \<and> score_above (run_score_b r) (run_score_a r))"
    and "cr_outcome c = NoVerdict \<longleftrightarrow> (\<exists>r \<in> set (cr_runs c). \<not> run_usable r)"
proof -
  have out: "cr_outcome c = fst (settle (cr_runs c) (pr_arm_a p) (pr_arm_b p))"
    using compare_result [OF assms(1-3)] by blast
  show nv: "cr_outcome c = NoVerdict \<longleftrightarrow> (\<exists>r \<in> set (cr_runs c). \<not> run_usable r)"
    using compare_counted [OF assms(1-3)] by (auto simp: out settle_no_verdict)
  have sc: "(\<forall>r \<in> set (cr_runs c). run_usable r) \<Longrightarrow> \<forall>r \<in> set (cr_runs c). scored_run (pr_arm_a p) (pr_arm_b p) r"
    using compare_scored [OF assms(1-4)] by blast
  show "cr_outcome c = WinA \<longleftrightarrow> (\<forall>r \<in> set (cr_runs c). run_usable r \<and> score_above (run_score_a r) (run_score_b r))"
    "cr_outcome c = WinB \<longleftrightarrow> (\<forall>r \<in> set (cr_runs c). run_usable r \<and> score_above (run_score_b r) (run_score_a r))"
    using settle_win [OF _ sc assms(5-7)] compare_counted [OF assms(1-3)] nv out
    by (metis verdict_kind.distinct(5,13))+
qed

text \<open>A judge that only reads the position: in every reply the first side is above the second.\<close>

lemma settle_run_first:
  "sound_reply r \<Longrightarrow> reply_ok r \<Longrightarrow> score_above (score_first r) (score_second r) \<Longrightarrow>
   score_above (run_score_a (settle_run r a b sw c k n)) (run_score_b (settle_run r a b sw c k n)) \<longleftrightarrow> \<not> sw"
  "sound_reply r \<Longrightarrow> reply_ok r \<Longrightarrow> score_above (score_second r) (score_first r) \<Longrightarrow>
   score_above (run_score_a (settle_run r a b sw c k n)) (run_score_b (settle_run r a b sw c k n)) \<longleftrightarrow> sw"
  "sound_reply r \<Longrightarrow> reply_ok r \<Longrightarrow> score_above (score_first r) (score_second r) \<Longrightarrow>
   score_above (run_score_b (settle_run r a b sw c k n)) (run_score_a (settle_run r a b sw c k n)) \<longleftrightarrow> sw"
  "sound_reply r \<Longrightarrow> reply_ok r \<Longrightarrow> score_above (score_second r) (score_first r) \<Longrightarrow>
   score_above (run_score_b (settle_run r a b sw c k n)) (run_score_a (settle_run r a b sw c k n)) \<longleftrightarrow> \<not> sw"
  by (auto simp: settle_run_def sound_reply_def score_above_def Let_def split: option.splits)


lemma run_job_sound:
  assumes "worded_judge judge" "run_usable (run_job w judge p (i, j))"
  shows "sound_reply (judge_reply w (judge i (job_prompt j) (job_seed j))) \<and>
    reply_ok (judge_reply w (judge i (job_prompt j) (job_seed j)))"
  using assms judge_reply_sound by (simp add: run_job_def worded_judge_def)

lemma read_one:
  assumes "sound_reply r" "reply_ok r"
    and "score_above (score_first r) (score_second r) = lead \<and> score_above (score_second r) (score_first r) = (\<not> lead)"
  shows "score_above (run_score_a (settle_run r a b sw c k n)) (run_score_b (settle_run r a b sw c k n)) \<longleftrightarrow> sw \<noteq> lead"
    and "score_above (run_score_b (settle_run r a b sw c k n)) (run_score_a (settle_run r a b sw c k n)) \<longleftrightarrow> sw = lead"
  using settle_run_first [OF assms(1,2)] assms(3) by (cases lead; simp)+

definition reads_position :: "wording \<Rightarrow> judge \<Rightarrow> bool \<Rightarrow> bool" where
  "reads_position w judge lead \<longleftrightarrow> (\<forall>i s n. let r = judge_reply w (judge i s n) in
     score_above (score_first r) (score_second r) = lead \<and> score_above (score_second r) (score_first r) = (\<not> lead))"

lemma position_only_tied:
  assumes "compare w p judge criteria reps base = Inr results" "distinct criteria" "c \<in> set results"
    and "worded_judge judge"
    and "pr_arm_a p \<noteq> pr_arm_b p" "pr_arm_a p \<noteq> TIE" "pr_arm_b p \<noteq> TIE"
    and pos: "reads_position w judge lead"
  shows "cr_outcome c \<notin> {WinA, WinB}"
proof -
  have not_all: "\<not> (\<forall>r \<in> set (cr_runs c). run_usable r \<and> score_above (run_score_a r) (run_score_b r))"
    "\<not> (\<forall>r \<in> set (cr_runs c). run_usable r \<and> score_above (run_score_b r) (run_score_a r))"
  proof -
    have run: "\<exists>r \<in> set (cr_runs c). run_swapped r = sw" for sw
    proof -
      have "(sw, 1, base) \<in> run_key ` set (cr_runs c)"
        using compare_result [OF assms(1-3)] schedule_orders [of reps sw base] by (metis list.set_map)
      then show ?thesis by (auto simp: run_key_def)
    qed
    have pos_at: "score_above (score_first (judge_reply w (judge i s n))) (score_second (judge_reply w (judge i s n))) = lead \<and>
        score_above (score_second (judge_reply w (judge i s n))) (score_first (judge_reply w (judge i s n))) = (\<not> lead)" for i s n
      using pos unfolding reads_position_def Let_def by blast
    have read: "score_above (run_score_a r) (run_score_b r) \<longleftrightarrow> run_swapped r \<noteq> lead"
      "score_above (run_score_b r) (run_score_a r) \<longleftrightarrow> run_swapped r = lead"
      if r: "r \<in> set (cr_runs c)" and u: "run_usable r" for r
    proof -
      obtain i j where ij: "r = run_job w judge p (i, j)"
        using compare_result [OF assms(1-3)] r by blast
      have so: "sound_reply (judge_reply w (judge i (job_prompt j) (job_seed j))) \<and>
          reply_ok (judge_reply w (judge i (job_prompt j) (job_seed j)))"
        using run_job_sound [OF assms(4)] u ij by blast
      show "score_above (run_score_a r) (run_score_b r) \<longleftrightarrow> run_swapped r \<noteq> lead"
        "score_above (run_score_b r) (run_score_a r) \<longleftrightarrow> run_swapped r = lead"
        using read_one [OF _ _ pos_at] so by (simp_all add: ij run_job_def)
    qed
    show "\<not> (\<forall>r \<in> set (cr_runs c). run_usable r \<and> score_above (run_score_a r) (run_score_b r))"
      "\<not> (\<forall>r \<in> set (cr_runs c). run_usable r \<and> score_above (run_score_b r) (run_score_a r))"
      using run [of lead] run [of "\<not> lead"] read by blast+
  qed
  then show ?thesis using compare_win [OF assms(1-7)] by simp
qed

section \<open>The other way round\<close>

definition flip_pair :: "pair \<Rightarrow> pair" where
  "flip_pair p = \<lparr>pr_task = pr_task p, pr_prompt = pr_prompt p, pr_arm_a = pr_arm_b p, pr_arm_b = pr_arm_a p,
     pr_files_a = pr_files_b p, pr_files_b = pr_files_a p, pr_leaks_a = pr_leaks_b p, pr_leaks_b = pr_leaks_a p,
     pr_cell_a = pr_cell_b p, pr_cell_b = pr_cell_a p\<rparr>"

lemma flip_make_pair:
  "flip_pair (make_pair t q a b ra rb ca cb) = make_pair t q b a rb ra cb ca"
  by (simp add: flip_pair_def make_pair_def split: prod.splits)

fun flip_verdict :: "verdict_kind \<Rightarrow> verdict_kind" where
  "flip_verdict WinA = WinB"
| "flip_verdict WinB = WinA"
| "flip_verdict v = v"

definition flip_job :: "job \<Rightarrow> job" where
  "flip_job j = j\<lparr>job_swapped := \<not> job_swapped j\<rparr>"

lemma order_jobs_flip:
  "order_jobs (flip_pair p) reps base c sw =
     (case order_jobs p reps base c (\<not> sw) of Inl e \<Rightarrow> Inl e | Inr (js, k) \<Rightarrow> Inr (map flip_job js, k))"
proof -
  have "bindE m (\<lambda>x. bindE n (\<lambda>y. Inr (F x y))) =
      (case bindE m (\<lambda>x. bindE n (\<lambda>y. Inr (G x y))) of Inl e \<Rightarrow> Inl e | Inr (js, k) \<Rightarrow> Inr (map flip_job js, k))"
    if "\<And>x y. F x y = (map flip_job (fst (G x y)), snd (G x y))"
    for m :: "(judge_error, string) res" and n :: "(judge_error, int list) res"
      and F G :: "string \<Rightarrow> int list \<Rightarrow> job list \<times> bool"
    using that by (cases m; cases n) (auto split: prod.splits)
  note push = this
  show ?thesis
    unfolding order_jobs_def flip_pair_def Let_def
    by (cases sw) (auto intro!: push simp: flip_job_def comp_def split_beta split: prod.split)
qed


lemma criterion_jobs_flip:
  assumes "criterion_jobs p reps base c = Inr (js, ns)"
  shows "\<exists>ja jb ns'. js = ja @ jb \<and> criterion_jobs (flip_pair p) reps base c = Inr (map flip_job (jb @ ja), ns')"
proof -
  obtain ja ca jb cb where o: "order_jobs p reps base c False = Inr (ja, ca)"
    "order_jobs p reps base c True = Inr (jb, cb)" "js = ja @ jb"
    using assms unfolding criterion_jobs_def by (elim bindE_pairE) (auto simp: Let_def)
  then show ?thesis
    by (intro exI [of _ ja] exI [of _ jb]) (simp add: criterion_jobs_def order_jobs_flip Let_def)
qed

text \<open>Runs that are each other's mirror image: the same replies with the arms exchanged.\<close>

definition mirrors :: "run \<Rightarrow> run \<Rightarrow> bool" where
  "mirrors r r' \<longleftrightarrow> run_usable r' = run_usable r \<and> run_swapped r' = (\<not> run_swapped r) \<and>
     run_score_a r' = run_score_b r \<and> run_score_b r' = run_score_a r"

lemma run_job_mirrors:
  "mirrors (run_job w (\<lambda>_. f) p (i, j)) (run_job w (\<lambda>_. f) (flip_pair p) (k, flip_job j))"
  by (simp add: mirrors_def run_job_def flip_job_def) (simp add: settle_run_def Let_def)

lemma settle_range: "fst (settle runs a b) \<in> {WinA, WinB, Tied, NoVerdict}"
  by (auto simp: settle_def Let_def)

lemma settle_mirror:
  assumes fwd: "\<forall>r \<in> set runs. \<exists>r' \<in> set runs'. mirrors r r'"
    and bwd: "\<forall>r' \<in> set runs'. \<exists>r \<in> set runs. mirrors r r'"
    and sc: "\<forall>r \<in> set runs. run_usable r \<longrightarrow> scored_run a b r"
    and sc': "\<forall>r \<in> set runs'. run_usable r \<longrightarrow> scored_run b a r"
    and ab: "a \<noteq> b" "a \<noteq> TIE" "b \<noteq> TIE"
  shows "fst (settle runs' b a) = flip_verdict (fst (settle runs a b))"
proof (cases "counted runs")
  case False
  then have "\<not> counted runs'" using fwd bwd unfolding counted_def mirrors_def by metis
  with False show ?thesis using settle_no_verdict by (metis flip_verdict.simps(4))
next
  case True
  then have c': "counted runs'" using fwd bwd unfolding counted_def mirrors_def by metis
  have above: "(\<forall>r \<in> set runs'. score_above (run_score_a r) (run_score_b r)) \<longleftrightarrow>
      (\<forall>r \<in> set runs. score_above (run_score_b r) (run_score_a r))"
    "(\<forall>r \<in> set runs'. score_above (run_score_b r) (run_score_a r)) \<longleftrightarrow>
      (\<forall>r \<in> set runs. score_above (run_score_a r) (run_score_b r))"
    using fwd bwd unfolding mirrors_def by metis+
  have "\<forall>r \<in> set runs. scored_run a b r" "\<forall>r \<in> set runs'. scored_run b a r"
    using sc sc' True c' unfolding counted_def by blast+
  with settle_win [OF True _ ab] settle_win [OF c' _ ab(1) [symmetric] ab(3,2)] above
  have "fst (settle runs' b a) = WinA \<longleftrightarrow> fst (settle runs a b) = WinB"
    "fst (settle runs' b a) = WinB \<longleftrightarrow> fst (settle runs a b) = WinA" by simp_all
  moreover have "fst (settle runs' b a) \<noteq> NoVerdict" "fst (settle runs a b) \<noteq> NoVerdict"
    using True c' settle_no_verdict by blast+
  ultimately show ?thesis
    using settle_range [of runs' b a] settle_range [of runs a b] by auto
qed

text \<open>For a judge that answers equal prompts alike, a comparison is one of each criterion's own jobs.\<close>

definition own_runs :: "wording \<Rightarrow> (string \<Rightarrow> int \<Rightarrow> judge_answer) \<Rightarrow> pair \<Rightarrow> job list \<Rightarrow> run list" where
  "own_runs w f p js = map (\<lambda>j. run_job w (\<lambda>_. f) p (0, j)) js"

lemma filter_own_runs:
  "filter (\<lambda>r. run_criterion r = c) (map (run_job w (\<lambda>_. f) p) (enumerate n js)) =
   own_runs w f p (filter (\<lambda>j. job_criterion j = c) js)"
  by (induction js arbitrary: n) (simp_all add: own_runs_def run_job_def)

lemma compare_own:
  assumes "mapE (criterion_jobs p reps base) criteria = Inr planned" "distinct criteria"
  shows "\<exists>rs. compare w p (\<lambda>_. f) criteria reps base = Inr rs \<and>
    map cr_outcome rs = map (\<lambda>x. fst (settle (own_runs w f p (fst x)) (pr_arm_a p) (pr_arm_b p))) planned"
proof -
  have all: "list_all2 (\<lambda>c x. criterion_jobs p reps base c = Inr x) criteria planned"
    using assms(1) by (simp add: mapE_Inr)
  let ?runs = "map (run_job w (\<lambda>_. f) p) (enumerate 0 (concat (map fst planned)))"
  have len: "length criteria = length planned" using all by (rule list_all2_lengthD)
  have "cr_outcome (criterion_result_of p ?runs (c, snd x)) =
      fst (settle (own_runs w f p (fst x)) (pr_arm_a p) (pr_arm_b p))" if "(c, x) \<in> set (zip criteria planned)" for c x
    using filter_planned [OF all assms(2) that]
    by (simp add: criterion_result_of_def Let_def filter_own_runs)
  then have "map (cr_outcome \<circ> criterion_result_of p ?runs \<circ> (\<lambda>(c, x). (c, snd x))) (zip criteria planned) =
      map ((\<lambda>x. fst (settle (own_runs w f p (fst x)) (pr_arm_a p) (pr_arm_b p))) \<circ> snd) (zip criteria planned)"
    by (intro map_cong) auto
  moreover have "zip criteria (map snd planned) = map (\<lambda>(c, x). (c, snd x)) (zip criteria planned)"
    using zip_map_map [of id criteria snd planned] by (simp add: case_prod_beta)
  ultimately show ?thesis
    using len assms(1) by (simp add: compare_def Let_def comp_assoc flip: map_map)
qed


lemma run_job_scored:
  "worded_judge judge \<Longrightarrow> run_usable (run_job w judge p (i, j)) \<Longrightarrow>
   scored_run (pr_arm_a p) (pr_arm_b p) (run_job w judge p (i, j))"
  using run_job_sound [of judge w p i j] settle_run_scored by (simp add: run_job_def)

lemma planned_flip:
  "list_all2 (\<lambda>c x. criterion_jobs p reps base c = Inr x) criteria planned \<Longrightarrow>
   \<exists>planned'. list_all2 (\<lambda>c x. criterion_jobs (flip_pair p) reps base c = Inr x) criteria planned' \<and>
     list_all2 (\<lambda>x x'. set (fst x') = flip_job ` set (fst x)) planned planned'"
proof (induction criteria planned rule: list_all2_induct)
  case (Cons c cs x xs)
  obtain ja jb ns' where x: "fst x = ja @ jb"
    "criterion_jobs (flip_pair p) reps base c = Inr (map flip_job (jb @ ja), ns')"
    using criterion_jobs_flip [of p reps base c "fst x" "snd x"] Cons.hyps(1) by auto
  obtain ys where "list_all2 (\<lambda>c x. criterion_jobs (flip_pair p) reps base c = Inr x) cs ys"
    "list_all2 (\<lambda>x x'. set (fst x') = flip_job ` set (fst x)) xs ys"
    using Cons.IH by blast
  with x show ?case
    by (intro exI [of _ "(map flip_job (jb @ ja), ns') # ys"]) auto
qed simp

lemma own_runs_mirror:
  assumes "set js' = flip_job ` set js" "worded_judge (\<lambda>_. f)"
    and ab: "pr_arm_a p \<noteq> pr_arm_b p" "pr_arm_a p \<noteq> TIE" "pr_arm_b p \<noteq> TIE"
  shows "fst (settle (own_runs w f (flip_pair p) js') (pr_arm_b p) (pr_arm_a p)) =
    flip_verdict (fst (settle (own_runs w f p js) (pr_arm_a p) (pr_arm_b p)))"
proof (rule settle_mirror [OF _ _ _ _ ab])
  show "\<forall>r \<in> set (own_runs w f p js). \<exists>r' \<in> set (own_runs w f (flip_pair p) js'). mirrors r r'"
    unfolding own_runs_def using assms(1) run_job_mirrors by fastforce
  show "\<forall>r' \<in> set (own_runs w f (flip_pair p) js'). \<exists>r \<in> set (own_runs w f p js). mirrors r r'"
    unfolding own_runs_def using assms(1) run_job_mirrors by fastforce
  show "\<forall>r \<in> set (own_runs w f p js). run_usable r \<longrightarrow> scored_run (pr_arm_a p) (pr_arm_b p) r"
    unfolding own_runs_def using run_job_scored [OF assms(2)] by auto
  show "\<forall>r \<in> set (own_runs w f (flip_pair p) js'). run_usable r \<longrightarrow> scored_run (pr_arm_b p) (pr_arm_a p) r"
    unfolding own_runs_def using run_job_scored [OF assms(2), of w "flip_pair p"] by (auto simp: flip_pair_def)
qed

lemma compare_flip:
  assumes "compare w p (\<lambda>_. f) criteria reps base = Inr rs" "distinct criteria" "worded_judge (\<lambda>_. f)"
    and ab: "pr_arm_a p \<noteq> pr_arm_b p" "pr_arm_a p \<noteq> TIE" "pr_arm_b p \<noteq> TIE"
  shows "\<exists>rs'. compare w (flip_pair p) (\<lambda>_. f) criteria reps base = Inr rs' \<and>
    map cr_outcome rs' = map (\<lambda>c. flip_verdict (cr_outcome c)) rs"
proof -
  obtain planned where pl: "mapE (criterion_jobs p reps base) criteria = Inr planned"
    using assms(1) by (auto simp: compare_def err_simps)
  have rs: "map cr_outcome rs = map (\<lambda>x. fst (settle (own_runs w f p (fst x)) (pr_arm_a p) (pr_arm_b p))) planned"
    using compare_own [OF pl assms(2), of w f] assms(1) by auto
  obtain planned' where pl': "mapE (criterion_jobs (flip_pair p) reps base) criteria = Inr planned'"
    and rel: "list_all2 (\<lambda>x x'. set (fst x') = flip_job ` set (fst x)) planned planned'"
    using planned_flip [of p reps base criteria planned] pl by (auto simp: mapE_Inr)
  obtain rs' where rs': "compare w (flip_pair p) (\<lambda>_. f) criteria reps base = Inr rs'"
    "map cr_outcome rs' = map (\<lambda>x. fst (settle (own_runs w f (flip_pair p) (fst x)) (pr_arm_b p) (pr_arm_a p))) planned'"
    using compare_own [OF pl' assms(2), of w f] by (auto simp: flip_pair_def)
  have "map (\<lambda>x. fst (settle (own_runs w f (flip_pair p) (fst x)) (pr_arm_b p) (pr_arm_a p))) planned' =
      map (\<lambda>x. flip_verdict (fst (settle (own_runs w f p (fst x)) (pr_arm_a p) (pr_arm_b p)))) planned"
    using rel
  proof (induction planned planned' rule: list_all2_induct)
    case (Cons x xs y ys)
    then show ?case using own_runs_mirror [OF Cons.hyps(1) assms(3) ab, of w] by simp
  qed simp
  also have "\<dots> = map flip_verdict (map cr_outcome rs)" unfolding rs by simp
  finally show ?thesis using rs' by (simp add: comp_def)
qed

section \<open>A record the benchmark accepts\<close>

lemma sorted_bounds:
  fixes xs :: "int list"
  assumes "\<forall>x \<in> set xs. lo \<le> x \<and> x \<le> hi" "i < length xs"
  shows "lo \<le> sort xs ! i \<and> sort xs ! i \<le> hi"
  using assms nth_mem [of i "sort xs"] by simp

lemma median_bounds:
  assumes "xs \<noteq> []" "\<forall>x \<in> set xs. lo \<le> x \<and> x \<le> hi"
  shows "lo \<le> median_int xs \<and> median_int xs \<le> hi"
proof -
  have "length xs div 2 < length xs" "length xs div 2 - 1 < length xs"
    using assms(1) by (simp, meson diff_le_self div_less_dividend le_less_trans length_greater_0_conv one_less_numeral_iff semiring_norm(76))
  then have "lo \<le> sort xs ! (length xs div 2) \<and> sort xs ! (length xs div 2) \<le> hi"
    "lo \<le> sort xs ! (length xs div 2 - 1) \<and> sort xs ! (length xs div 2 - 1) \<le> hi"
    using sorted_bounds [OF assms(2)] by blast+
  moreover have "sort xs \<noteq> []" using assms(1) by (metis set_empty set_sort)
  ultimately show ?thesis by (auto simp: median_int_def Let_def)
qed

text \<open>A result whose scores, where it has any, are on the scale: what a comparison yields.\<close>

definition on_scale :: "criterion_result \<Rightarrow> bool" where
  "on_scale c \<longleftrightarrow> (\<forall>n \<in> set (scores_a c) \<union> set (scores_b c). n \<in> set RUBRIC_SCORES)"

lemma compare_on_scale:
  assumes "compare w p judge criteria reps base = Inr results" "distinct criteria" "c \<in> set results" "worded_judge judge"
  shows "on_scale c"
proof -
  have "n \<in> set RUBRIC_SCORES" if "r \<in> set (usable c)" "run_score_a r = Some n \<or> run_score_b r = Some n" for r n
    using compare_scored [OF assms, of r] that
    by (auto simp: usable_def scored_run_def split: option.splits)
  then show ?thesis
    unfolding on_scale_def scores_a_def scores_b_def List.map_filter_def by fastforce
qed

lemma unjudged_on_scale: "c \<in> set (unjudged_result t a b k note) \<Longrightarrow> on_scale c"
  by (auto simp: unjudged_result_def on_scale_def scores_a_def scores_b_def usable_def List.map_filter_def)

lemma rubric_scores_bounds: "n \<in> set RUBRIC_SCORES \<longleftrightarrow> 0 \<le> n \<and> n \<le> 3"
  by (auto simp: RUBRIC_SCORES_def)

lemma rubric_values_bounds:
  "\<forall>c \<in> set results. on_scale c \<Longrightarrow> n \<in> set (criterion_values arm results criterion) \<Longrightarrow> 0 \<le> n \<and> n \<le> 3"
  by (auto simp: criterion_values_def of_criterion_def arm_scores_def on_scale_def rubric_scores_bounds split: if_splits)

lemma rubric_record_some:
  assumes "rubric_record arm results reviewer = Some row"
  obtains cid where "rubric_cells arm results = [cid]"
    "\<forall>criterion \<in> set RUBRIC_CRITERIA. criterion_values arm results criterion \<noteq> []"
    "jget row ''cellId'' = JStr cid" "jget row ''reviewer'' = JStr reviewer"
    "jget row ''scores'' = JObj (map (\<lambda>criterion. (criterion, JInt (median_int (criterion_values arm results criterion)))) RUBRIC_CRITERIA)"
    "\<exists>items. jget row ''findings'' = JArr items \<and> list_all is_str items" "\<exists>n. jget row ''notes'' = JStr n"
  using assms
  by (auto simp: rubric_record_def jget_def list_ex_iff list_all_iff split: list.splits if_splits)


lemma strip_nonempty: "x \<in> set s \<Longrightarrow> \<not> py_space x \<Longrightarrow> strip s \<noteq> []"
proof -
  assume x: "x \<in> set s" "\<not> py_space x"
  then have "x \<in> set (lstrip s)" unfolding lstrip_def by (metis set_dropWhileD set_takeWhileD takeWhile_dropWhile_id Un_iff set_append)
  then have "\<exists>y \<in> set (rev (lstrip s)). \<not> py_space y" using x(2) by auto
  then show ?thesis unfolding strip_def rstrip_def by (auto simp: dropWhile_eq_Nil_conv)
qed

lemma reviewer_named: "text_field (JStr (reviewer_label model reps)) \<noteq> None"
proof -
  have "strip (reviewer_label model reps) \<noteq> []"
    by (rule strip_nonempty [of "CHR ''m''"]) (simp_all add: reviewer_label_def py_space_def)
  then show ?thesis by (simp add: text_field_def)
qed

lemma rubric_score_ok_int: "0 \<le> n \<Longrightarrow> n \<le> 3 \<Longrightarrow> rubric_score_ok (JInt n)"
  by (auto simp: rubric_score_ok_def RUBRIC_SCORES_def)

lemma map_of_pairs: "x \<in> set xs \<Longrightarrow> map_of (map (\<lambda>x. (x, f x)) xs) x = Some (f x)"
  by (induction xs) auto

lemma rubric_accepted:
  assumes rec: "rubric_record arm results reviewer = Some row"
    and sc: "\<forall>c \<in> set results. on_scale c"
    and names: "text_field (jget row ''cellId'') \<noteq> None" "text_field (JStr reviewer) \<noteq> None"
  shows "validate_rubric (JObj row) = Inr ()"
proof -
  obtain cid where row: "\<forall>criterion \<in> set RUBRIC_CRITERIA. criterion_values arm results criterion \<noteq> []"
    "jget row ''cellId'' = JStr cid" "jget row ''reviewer'' = JStr reviewer"
    "jget row ''scores'' = JObj (map (\<lambda>criterion. (criterion, JInt (median_int (criterion_values arm results criterion)))) RUBRIC_CRITERIA)"
      (is "_ = JObj ?scores")
    "\<exists>items. jget row ''findings'' = JArr items \<and> list_all is_str items" "\<exists>n. jget row ''notes'' = JStr n"
    by (rule rubric_record_some [OF rec]) blast
  have ok: "dhas ?scores criterion \<and> rubric_score_ok (jget ?scores criterion)" if c: "criterion \<in> set RUBRIC_CRITERIA" for criterion
  proof -
    have "0 \<le> median_int (criterion_values arm results criterion) \<and> median_int (criterion_values arm results criterion) \<le> 3"
      by (rule median_bounds) (use row(1) c rubric_values_bounds [OF sc] in blast)+
    then show ?thesis
      using map_of_pairs [OF c, of "\<lambda>c. JInt (median_int (criterion_values arm results c))"]
      by (simp add: dict_simps jget_def rubric_score_ok_int)
  qed
  then have "find (\<lambda>criterion. \<not> dhas ?scores criterion \<or> \<not> rubric_score_ok (jget ?scores criterion)) RUBRIC_CRITERIA = None"
    by (auto simp: find_None_iff)
  moreover have "find (\<lambda>criterion. criterion \<notin> set RUBRIC_CRITERIA) (map fst ?scores) = None"
    by (auto simp: find_None_iff)
  ultimately show ?thesis
    using names row by (auto simp: validate_rubric_def some_or_def)
qed

end
