(* ===== verification/Judge_Reply_Laws.thy ===== *)
theory Judge_Reply_Laws
  imports Judge_Quality_Laws
begin

text \<open>
  How the judge's answer is found in what it wrote. The pattern \<open>\{[^{}]*\}\<close> matches from an
  opening brace to the next brace, if that one closes; so the last object of a response
  is found whatever comes before it, and a well-formed answer is read as it was meant.
\<close>

definition no_brace :: "string \<Rightarrow> bool" where
  "no_brace s \<longleftrightarrow> CHR ''{'' \<notin> set s \<and> CHR ''}'' \<notin> set s"

abbreviation plain_char :: "char \<Rightarrow> bool" where
  "plain_char c \<equiv> c \<noteq> CHR ''{'' \<and> c \<noteq> CHR ''}''"

lemma no_brace_append [simp]: "no_brace (s @ t) \<longleftrightarrow> no_brace s \<and> no_brace t"
  by (auto simp: no_brace_def)

lemma no_brace_Nil [simp]: "no_brace []"
  by (simp add: no_brace_def)

lemma no_brace_Cons [simp]: "no_brace (c # s) \<longleftrightarrow> plain_char c \<and> no_brace s"
  by (auto simp: no_brace_def)

lemma concat_only_last:
  "(\<And>k. k < m \<Longrightarrow> f k = []) \<Longrightarrow> concat (map f (rev [0..<Suc m])) = f m"
  by simp

lemma lit1_ends: "rx_ends (rx_lit [c]) p s = (case s of [] \<Rightarrow> [] | d # _ \<Rightarrow> if d = c then [1] else [])"
  by (cases s) (simp_all add: rx_lit_def)

lemma object_tail_ends:
  "rx_ends (Cat (Many plain_char) (rx_lit ''}'')) p t =
     (let k = length (takeWhile plain_char t) in if k < length t \<and> t ! k = CHR ''}'' then [Suc k] else [])"
proof -
  let ?m = "length (takeWhile plain_char t)"
  let ?f = "\<lambda>k. map (\<lambda>n. k + n) (rx_ends (rx_lit ''}'') (prev_char p t k) (drop k t))"
  have at: "?f k = (if k < length t \<and> t ! k = CHR ''}'' then [Suc k] else [])" for k
    by (cases "k < length t") (simp_all add: lit1_ends flip: Cons_nth_drop_Suc)
  have "concat (map ?f (rev [0..<Suc ?m])) = ?f ?m"
  proof (rule concat_only_last)
    fix k assume "k < ?m"
    then have "t ! k \<noteq> CHR ''}''" using nth_mem [of k "takeWhile plain_char t"]
      by (auto simp: takeWhile_nth dest: set_takeWhileD)
    then show "?f k = []" by (subst at) (simp only: simp_thms if_False)
  qed
  moreover have "rx_ends (Cat (Many plain_char) (rx_lit ''}'')) p t = concat (map ?f (rev [0..<Suc ?m]))"
    by (simp only: rx_ends.simps)
  ultimately show ?thesis by (simp only: at Let_def)
qed

lemma json_object_ends:
  "rx_ends JSON_OBJECT p s =
     (case s of [] \<Rightarrow> []
      | c # t \<Rightarrow> let k = length (takeWhile plain_char t) in
          if c = CHR ''{'' \<and> k < length t \<and> t ! k = CHR ''}'' then [Suc (Suc k)] else [])"
proof (cases s)
  case (Cons c t)
  then show ?thesis
    by (cases "c = CHR ''{''")
      (simp_all add: JSON_OBJECT_def rx_ends.simps(3) [of "rx_lit ''{''"] lit1_ends object_tail_ends Let_def del: rx_ends.simps(3))
qed (simp add: JSON_OBJECT_def lit1_ends)

lemma json_object_match:
  "rx_match JSON_OBJECT p (c # t) = Some n \<Longrightarrow>
   c = CHR ''{'' \<and> n = Suc (Suc (length (takeWhile plain_char t))) \<and> n \<le> Suc (length t)"
  by (auto simp: rx_match_def json_object_ends Let_def split: if_splits)

lemma no_brace_hits: "no_brace s \<Longrightarrow> rx_scan JSON_OBJECT p s = map Plain s"
proof (induction s arbitrary: p)
  case (Cons c s)
  then have "rx_match JSON_OBJECT p (c # s) = None"
    by (simp add: rx_match_None json_object_ends)
  with Cons show ?case by (simp add: rx_scan_plain)
qed simp

text \<open>Whatever comes before it, the last object without nested braces is the last match.\<close>

lemma object_found:
  assumes "no_brace mid" "no_brace post"
  shows "hits (rx_scan JSON_OBJECT p (pre @ CHR ''{'' # mid @ CHR ''}'' # post)) \<noteq> [] \<and>
    last (hits (rx_scan JSON_OBJECT p (pre @ CHR ''{'' # mid @ CHR ''}'' # post))) = CHR ''{'' # mid @ ''}''"
proof (induction "length pre" arbitrary: pre p rule: less_induct)
  case less
  let ?obj = "CHR ''{'' # mid @ CHR ''}'' # post"
  show ?case
  proof (cases pre)
    case Nil
    have "takeWhile plain_char (mid @ CHR ''}'' # post) = mid"
      using assms(1) by (auto simp: takeWhile_append no_brace_def)
    then have m: "rx_match JSON_OBJECT p ?obj = Some (Suc (Suc (length mid)))"
      by (simp add: rx_match_def json_object_ends Let_def)
    show ?thesis using Nil assms(2) by (simp add: rx_scan_hit [OF m] no_brace_hits del: prev_char.simps)
  next
    case (Cons c pre')
    show ?thesis
    proof (cases "rx_match JSON_OBJECT p (pre @ ?obj)")
      case None
      with less.hyps [of pre' "Some c"] Cons show ?thesis by (simp add: rx_scan_plain)
    next
      case (Some n)
      then have n: "n = Suc (Suc (length (takeWhile plain_char (pre' @ ?obj))))" "n \<le> Suc (length (pre' @ ?obj))"
        using json_object_match [of p c "pre' @ ?obj" n] Cons by simp_all
      have "length (takeWhile plain_char (pre' @ ?obj)) \<le> length pre'"
        by (simp add: takeWhile_append length_takeWhile_le)
      moreover have "length (takeWhile plain_char (pre' @ ?obj)) \<noteq> length pre'"
        using Some Cons by (auto simp: rx_match_def json_object_ends Let_def nth_append split: if_splits)
      ultimately have "n \<le> length pre" using n(1) Cons by simp
      then have "drop n (pre @ ?obj) = drop n pre @ ?obj" by simp
      moreover have "length (drop n pre) < length pre" using n(1) Cons by simp
      ultimately show ?thesis
        using less.hyps [of "drop n pre" "prev_char p (pre @ ?obj) n"] Some n(1) Cons
        by (simp add: rx_scan_hit del: prev_char.simps)
    qed
  qed
qed


section \<open>An answer is read as it was written\<close>

definition answer_json :: "int \<Rightarrow> int \<Rightarrow> string \<Rightarrow> json" where
  "answer_json m n reason = JObj [(''score1'', JInt m), (''score2'', JInt n), (''reason'', JStr reason)]"

lemma no_brace_hex: "d < 16 \<Longrightarrow> plain_char (hex_digit d)"
proof -
  assume "d < 16"
  then have "(of_char (hex_digit d) :: nat) < 103" by (simp add: hex_digit_def)
  then show ?thesis by auto
qed

lemma no_brace_esc: "plain_char c \<Longrightarrow> no_brace (esc_char c)"
proof -
  have "(of_char c :: nat) div 16 < 16"
    using nat_of_char_less_256 [of c] by (simp add: less_mult_imp_div_less)
  then show "plain_char c \<Longrightarrow> ?thesis"
    using no_brace_hex [of "of_char c div 16"] no_brace_hex [of "of_char c mod 16"]
    by (auto simp: esc_char_def Let_def)
qed

lemma no_brace_quote: "no_brace s \<Longrightarrow> no_brace (quote s)"
proof -
  have "no_brace s \<Longrightarrow> no_brace (concat (map esc_char s))"
    by (induction s) (simp_all add: no_brace_esc)
  then show "no_brace s \<Longrightarrow> ?thesis" by (simp add: quote_with_def)
qed

lemma no_brace_int: "no_brace (str_int n)"
proof -
  have "\<not> is_digit (CHR ''{'')" "\<not> is_digit (CHR ''}'')" by (simp_all add: is_digit_def)
  then show ?thesis using str_int_chars unfolding no_brace_def by blast
qed

lemma answer_text:
  assumes "no_brace reason"
  obtains mid where "no_brace mid" "json_dumps (answer_json m n reason) = CHR ''{'' # mid @ ''}''"
proof
  let ?mid = "str_join (item_sep False 1) [quote ''score1'' @ '': '' @ str_int m,
    quote ''score2'' @ '': '' @ str_int n, quote ''reason'' @ '': '' @ quote reason]"
  show "json_dumps (answer_json m n reason) = CHR ''{'' # ?mid @ ''}''"
    by (simp add: json_dumps_def answer_json_def nl_def item_sep_def)
  show "no_brace ?mid"
    using no_brace_int no_brace_quote [OF assms]
    by (simp add: no_brace_quote item_sep_def)
qed

lemma answer_read:
  assumes "m \<in> set RUBRIC_SCORES" "n \<in> set RUBRIC_SCORES" "MIN_REASON_CHARS \<le> length (strip reason)"
  shows "checked_reply w [(''score1'', JInt m), (''score2'', JInt n), (''reason'', JStr reason)] =
    Inr \<lparr>score_first = Some m, score_second = Some n, reply_reason = strip reason, reply_invalid = []\<rparr>"
  using assms by (simp add: checked_reply_def reply_score_def jget_def Let_def)

lemma parse_answer:
  assumes "m \<in> set RUBRIC_SCORES" "n \<in> set RUBRIC_SCORES" "MIN_REASON_CHARS \<le> length (strip reason)"
    and "no_brace reason" "no_brace post"
  shows "parse_reply w (pre @ json_dumps (answer_json m n reason) @ post) =
    \<lparr>score_first = Some m, score_second = Some n, reply_reason = strip reason, reply_invalid = []\<rparr>"
proof -
  let ?s = "pre @ json_dumps (answer_json m n reason) @ post"
  obtain mid where mid: "no_brace mid" "json_dumps (answer_json m n reason) = CHR ''{'' # mid @ ''}''"
    using answer_text [OF assms(4)] .
  have s: "?s = pre @ CHR ''{'' # mid @ CHR ''}'' # post" using mid(2) by simp
  have hits: "rx_findall JSON_OBJECT ?s \<noteq> []" "last (rx_findall JSON_OBJECT ?s) = json_dumps (answer_json m n reason)"
    using object_found [OF mid(1) assms(5), of None pre] mid(2) unfolding s rx_findall_def by simp_all
  have ne: "strip ?s \<noteq> []"
    by (rule strip_nonempty [of "CHR ''{''"]) (simp_all add: s py_space_def)
  have load: "json_loads (json_dumps (answer_json m n reason)) = Some (answer_json m n reason)"
    unfolding json_dumps_def by (rule json_loads_dump) (simp_all add: answer_json_def)
  obtain x xs where x: "rx_findall JSON_OBJECT ?s = x # xs" using hits(1) by (cases "rx_findall JSON_OBJECT ?s") auto
  have "?s \<noteq> []" using s by simp
  then show ?thesis
    using hits(2) load x ne answer_read [OF assms(1-3)]
    by (simp add: parse_reply_def answer_json_def del: append_is_Nil_conv)
qed


definition demo_reason :: string where
  "demo_reason = ''lib/a.py covers the empty input and lib/b.py does not''"

lemma demo_reason_fits [simp]: "MIN_REASON_CHARS \<le> length (strip demo_reason)" "no_brace demo_reason"
  by (simp_all add: demo_reason_def MIN_REASON_CHARS_def strip_def lstrip_def rstrip_def py_space_def)

definition plain_wording :: wording where
  "plain_wording = \<lparr>wd_repr = (\<lambda>_. ''?''), wd_json_error = (\<lambda>_. ''?'')\<rparr>"


end
