(* ===== verification/Judge_Verdicts.thy ===== *)
theory Judge_Verdicts
  imports Judge_Reply_Laws
begin

text \<open>
  The properties of a comparison as statements of their own, each with a judge and a pair of
  trees on which it is applied, and the rubric lane.
\<close>

section \<open>A pair and three judges\<close>

definition demo_wording :: wording where
  "demo_wording = \<lparr>wd_repr = (\<lambda>_. ''?''), wd_json_error = (\<lambda>_. ''?'')\<rparr>"

definition demo_judged_pair :: pair where
  "demo_judged_pair = \<lparr>pr_task = ''t1'', pr_prompt = ''add'', pr_arm_a = ''conductor'', pr_arm_b = ''baseline'',
     pr_files_a = [(''a.py'', ''x = 1'')], pr_files_b = [(''a.py'', ''x = 2'')], pr_leaks_a = [], pr_leaks_b = [],
     pr_cell_a = ''m/all/conductor/t1/r1'', pr_cell_b = ''m/all/baseline/t1/r1''\<rparr>"

text \<open>One prefers the conductor's tree (job 0 shows it first, job 1 second), one the first side.\<close>

definition demo_fair_judge :: judge where
  "demo_fair_judge i s n = Answer (json_dumps
     (if i = 0 then answer_json 3 1 demo_reason else answer_json 1 3 demo_reason))"

definition demo_first_judge :: "string \<Rightarrow> int \<Rightarrow> judge_answer" where
  "demo_first_judge s n = Answer (json_dumps (answer_json 3 1 demo_reason))"

lemma demo_reply:
  "m \<in> set RUBRIC_SCORES \<Longrightarrow> n \<in> set RUBRIC_SCORES \<Longrightarrow> judge_reply w (Answer (json_dumps (answer_json m n demo_reason))) =
   \<lparr>score_first = Some m, score_second = Some n, reply_reason = strip demo_reason, reply_invalid = []\<rparr>"
  using parse_answer [of m n demo_reason "[]" w "[]"] by (simp add: judge_reply_def)

lemma demo_scores [simp]: "(1::int) \<in> set RUBRIC_SCORES" "(3::int) \<in> set RUBRIC_SCORES"
  by (simp_all add: RUBRIC_SCORES_def)

lemma demo_worded [simp]: "worded_judge demo_fair_judge" "worded_judge (\<lambda>_. demo_first_judge)"
  by (simp_all add: worded_judge_def demo_fair_judge_def demo_first_judge_def)

lemma demo_pair_arms [simp]:
  "pr_arm_a demo_judged_pair = ''conductor''" "pr_arm_b demo_judged_pair = ''baseline''"
  by (simp_all add: demo_judged_pair_def)

lemma demo_arms_distinct [simp]: "''conductor'' \<noteq> TIE" "''baseline'' \<noteq> TIE"
  by (simp_all add: TIE_def)

text \<open>Known criteria and a positive number of repetitions: the comparison returns.\<close>

lemma order_jobs_returns:
  "dget CRITERION_QUESTION c \<noteq> None \<Longrightarrow> 1 \<le> reps \<Longrightarrow> returns (order_jobs p reps base c sw)"
  by (auto simp: order_jobs_def build_prompt_def seeds_for_def Let_def split: prod.split option.splits)

lemma criterion_jobs_returns:
  "dget CRITERION_QUESTION c \<noteq> None \<Longrightarrow> 1 \<le> reps \<Longrightarrow> returns (criterion_jobs p reps base c)"
  using order_jobs_returns [of c reps p base False] order_jobs_returns [of c reps p base True]
  by (auto simp: criterion_jobs_def returns_iff Let_def)

lemma compare_returns:
  assumes "\<forall>c \<in> set criteria. dget CRITERION_QUESTION c \<noteq> None" "1 \<le> reps"
  shows "\<exists>results. compare w p judge criteria reps base = Inr results \<and> map cr_criterion results = criteria"
proof -
  have "\<exists>planned. mapE (criterion_jobs p reps base) criteria = Inr planned"
    using assms(1)
  proof (induction criteria)
    case (Cons c cs)
    then have "returns (criterion_jobs p reps base c)" using criterion_jobs_returns assms(2) by simp
    with Cons show ?case by (auto simp: returns_iff)
  qed simp
  then obtain planned where pl: "mapE (criterion_jobs p reps base) criteria = Inr planned" ..
  then have "length planned = length criteria" by (rule mapE_length)
  with pl show ?thesis
    by (auto simp: compare_def Let_def criterion_result_of_def comp_def case_prod_beta)
qed

lemma rubric_criteria_known: "\<forall>c \<in> set RUBRIC_CRITERIA. dget CRITERION_QUESTION c \<noteq> None"
  by (simp add: RUBRIC_CRITERIA_def CRITERION_QUESTION_def)

lemma demo_fair:
  "\<exists>c. compare demo_wording demo_judged_pair demo_fair_judge [''testQuality''] 1 1 = Inr [c] \<and>
     cr_runs c = map (\<lambda>sw. settle_run \<lparr>score_first = Some (if sw then 1 else 3), score_second = Some (if sw then 3 else 1),
       reply_reason = strip demo_reason, reply_invalid = []\<rparr> ''conductor'' ''baseline'' sw ''testQuality'' 1 1) [False, True]"
proof -
  obtain q0 where q0: "build_prompt (pr_prompt demo_judged_pair) ''testQuality'' (fst (render_side (pr_files_a demo_judged_pair) ''Implementation 1'' MAX_SIDE_BYTES))
      (fst (render_side (pr_files_b demo_judged_pair) ''Implementation 2'' MAX_SIDE_BYTES)) = Inr q0"
    by (simp add: build_prompt_def CRITERION_QUESTION_def)
  obtain q1 where q1: "build_prompt (pr_prompt demo_judged_pair) ''testQuality'' (fst (render_side (pr_files_b demo_judged_pair) ''Implementation 1'' MAX_SIDE_BYTES))
      (fst (render_side (pr_files_a demo_judged_pair) ''Implementation 2'' MAX_SIDE_BYTES)) = Inr q1"
    by (simp add: build_prompt_def CRITERION_QUESTION_def)
  show ?thesis
    by (simp add: compare_def criterion_jobs_def order_jobs_def split_beta q0 q1 seeds_for_def Let_def
      criterion_result_of_def run_job_def demo_fair_judge_def demo_reply)
qed




lemma unusable_reply_unscored: "\<not> reply_ok (judge_reply w a) \<Longrightarrow> score_first (judge_reply w a) = None"
proof -
  have checked: "\<not> reply_ok r \<Longrightarrow> checked_reply w d = Inr r \<Longrightarrow> P" for d r P
    using checked_reply_Inr by blast
  show "\<not> reply_ok (judge_reply w a) \<Longrightarrow> ?thesis"
    by (cases a) (auto simp: judge_reply_def invalid_reply_def reply_ok_def parse_reply_def
        dest: checked [unfolded reply_ok_def] split: list.splits option.splits sum.splits)
qed

lemma position_runs_usable:
  assumes "compare w p judge criteria reps base = Inr results" "distinct criteria" "c \<in> set results"
    and "reads_position w judge lead" "r \<in> set (cr_runs c)"
  shows "run_usable r"
proof -
  obtain i j where r: "r = run_job w judge p (i, j)"
    using compare_result [OF assms(1-3)] assms(5) by blast
  have "score_first (judge_reply w (judge i (job_prompt j) (job_seed j))) \<noteq> None"
    using assms(4) unfolding reads_position_def Let_def score_above_def by (fastforce split: option.splits)
  then have "reply_ok (judge_reply w (judge i (job_prompt j) (job_seed j)))"
    by (rule contrapos_np) (rule unusable_reply_unscored)
  then show ?thesis by (simp add: r run_job_def)
qed

text \<open>C16: A judge that reads the position and not the code decides nothing: if in every
  reply the side shown first is scored higher (or in every reply the second), every criterion
  of every comparison is a tie, whatever the trees are.\<close>

theorem position_judge_ties:
  assumes "compare w p judge criteria reps base = Inr results" "distinct criteria" "c \<in> set results"
    and "worded_judge judge" "pr_arm_a p \<noteq> pr_arm_b p" "pr_arm_a p \<noteq> TIE" "pr_arm_b p \<noteq> TIE"
    and "reads_position w judge lead"
  shows "cr_outcome c = Tied"
proof -
  have "cr_outcome c \<noteq> NoVerdict"
    using compare_win(3) [OF assms(1-7)] position_runs_usable [OF assms(1-3,8)] by blast
  moreover have "cr_outcome c \<in> {WinA, WinB, Tied, NoVerdict}"
    using compare_result [OF assms(1-3)] settle_range by metis
  ultimately show ?thesis using position_only_tied [OF assms] by blast
qed

theorem position_judge_ties_witness:
  "\<exists>results. compare demo_wording demo_judged_pair (\<lambda>_. demo_first_judge) RUBRIC_CRITERIA 3 1 = Inr results \<and>
     length results = 5 \<and> (\<forall>c \<in> set results. cr_outcome c = Tied)"
proof -
  obtain results where res: "compare demo_wording demo_judged_pair (\<lambda>_. demo_first_judge) RUBRIC_CRITERIA 3 1 = Inr results"
    "map cr_criterion results = RUBRIC_CRITERIA"
    using compare_returns [OF rubric_criteria_known, of 3 demo_wording demo_judged_pair "\<lambda>_. demo_first_judge" 1] by auto
  have "reads_position demo_wording (\<lambda>_. demo_first_judge) True"
    by (simp add: reads_position_def demo_first_judge_def demo_reply score_above_def)
  then have "\<forall>c \<in> set results. cr_outcome c = Tied"
    using position_judge_ties [OF res(1)] by (simp add: RUBRIC_CRITERIA_def)
  moreover have "length results = 5" using arg_cong [OF res(2), of length] by (simp add: RUBRIC_CRITERIA_def)
  ultimately show ?thesis using res(1) by blast
qed

text \<open>C18: The verdict does not depend on which arm is called the first: a judge that answers
  equal prompts with equal seeds alike gives, on the exchanged pair, the mirrored outcome of
  every criterion.\<close>

theorem exchanged_arms_mirror:
  assumes "compare w p (\<lambda>_. f) criteria reps base = Inr rs" "distinct criteria" "worded_judge (\<lambda>_. f)"
    and "pr_arm_a p \<noteq> pr_arm_b p" "pr_arm_a p \<noteq> TIE" "pr_arm_b p \<noteq> TIE"
  shows "\<exists>rs'. compare w (flip_pair p) (\<lambda>_. f) criteria reps base = Inr rs' \<and>
    map cr_outcome rs' = map (\<lambda>c. flip_verdict (cr_outcome c)) rs"
  by (rule compare_flip [OF assms])

theorem exchanged_arms_mirror_witness:
  "\<exists>rs rs'. compare demo_wording demo_judged_pair (\<lambda>_. demo_first_judge) RUBRIC_CRITERIA 3 1 = Inr rs \<and>
     compare demo_wording (flip_pair demo_judged_pair) (\<lambda>_. demo_first_judge) RUBRIC_CRITERIA 3 1 = Inr rs' \<and>
     map cr_outcome rs' = map (\<lambda>c. flip_verdict (cr_outcome c)) rs"
proof -
  obtain rs where rs: "compare demo_wording demo_judged_pair (\<lambda>_. demo_first_judge) RUBRIC_CRITERIA 3 1 = Inr rs"
    using compare_returns [OF rubric_criteria_known, of 3 demo_wording demo_judged_pair "\<lambda>_. demo_first_judge" 1] by auto
  have "distinct RUBRIC_CRITERIA" by (simp add: RUBRIC_CRITERIA_def)
  then show ?thesis using exchanged_arms_mirror [OF rs] rs by auto
qed

section \<open>The rubric lane\<close>


text \<open>A result of each criterion with one run, and the record built from them.\<close>

definition demo_result :: "string \<Rightarrow> criterion_result" where
  "demo_result criterion =
     \<lparr>cr_task = ''t1'', cr_arm_a = ''conductor'', cr_arm_b = ''baseline'', cr_criterion = criterion,
      cr_outcome = WinA, cr_note = ''won'', cr_runs = [settle_run
        \<lparr>score_first = Some 3, score_second = Some 1, reply_reason = demo_reason, reply_invalid = []\<rparr>
        ''conductor'' ''baseline'' False criterion 1 1], cr_contamination = [],
      cr_cell_a = ''m/all/conductor/t1/r1'', cr_cell_b = ''m/all/baseline/t1/r1''\<rparr>"

definition demo_results :: "criterion_result list" where
  "demo_results = map demo_result RUBRIC_CRITERIA"

lemma demo_result_scores:
  "scores_a (demo_result c) = [3]" "scores_b (demo_result c) = [1]" "cr_arm_a (demo_result c) = ''conductor''"
  "cr_cell_a (demo_result c) = ''m/all/conductor/t1/r1''" "cr_criterion (demo_result c) = c"
  by (simp_all add: demo_result_def scores_a_def scores_b_def usable_def run_usable_def settle_run_def reply_ok_def
      List.map_filter_def score_above_def Let_def)


text \<open>The notes of a record call a comparison that had nothing to judge a loss of the first arm
  and a win of the second.\<close>

lemma no_work_noted_as_loss:
  "arm_a \<noteq> arm_b \<Longrightarrow> c \<in> set (no_work_result tid arm_a arm_b idle) \<Longrightarrow>
   verdict_for c arm_a = ''loss'' \<and> verdict_for c arm_b = ''win''"
  by (auto simp: no_work_result_def unjudged_result_def verdict_for_def)

text \<open>A judge that carries no answer and no message is counted as a tie.\<close>

lemma wordless_judge_ties: "reply_ok (judge_reply w (Unusable [])) \<and>
    run_winner (settle_run (judge_reply w (Unusable [])) a b sw criterion k n) = Some TIE"
  by (simp add: judge_reply_def invalid_reply_def reply_ok_def settle_run_def Let_def)

end
