(* ===== verification/Judge_Epoch_Laws.thy ===== *)
theory Judge_Epoch_Laws
  imports Judge_Epoch Judge_Verdicts
begin

text \<open>
  What a judged epoch and a calibration promise: one result for every task, pair of arms and
  criterion; the lowest archived repetition of an arm is the tree that is judged; a missing tree
  and an untouched seed are their own outcomes; a judge that reads positions is never trusted;
  the live judge never carries an empty answer without a message.
\<close>

section \<open>The tree that is judged\<close>

lemma select_fold:
  "dget (foldl (\<lambda>chosen c. if archived_for tid c \<and> \<not> dhas chosen (ac_arm c) then dset (ac_arm c) c chosen else chosen) d cs) arm =
     (case dget d arm of Some c \<Rightarrow> Some c | None \<Rightarrow> find (\<lambda>c. archived_for tid c \<and> ac_arm c = arm) cs)"
proof (induction cs arbitrary: d)
  case Nil
  then show ?case by (simp split: option.splits)
next
  case (Cons c cs)
  then show ?case by (auto simp: dict_simps split: option.splits)
qed

lemma select_trees_find:
  "dget (select_trees cells tid) arm = find (\<lambda>c. archived_for tid c \<and> ac_arm c = arm) (sort_key ac_key cells)"
  by (simp add: select_trees_def select_fold)

lemma find_sorted:
  fixes f :: "'a \<Rightarrow> 'k :: linorder"
  shows "find P (sort_key f xs) = Some x \<Longrightarrow> x \<in> set xs \<and> P x \<and> (\<forall>y \<in> set xs. P y \<longrightarrow> f x \<le> f y)"
proof -
  have "sorted (map f ys) \<Longrightarrow> find P ys = Some x \<Longrightarrow> x \<in> set ys \<and> P x \<and> (\<forall>y \<in> set ys. P y \<longrightarrow> f x \<le> f y)" for ys
    by (induction ys) (auto split: if_splits)
  from this [of "sort_key f xs"] show "find P (sort_key f xs) = Some x \<Longrightarrow> ?thesis" by simp
qed

lemma select_trees_Some:
  assumes "dget (select_trees cells tid) arm = Some c"
  shows "c \<in> set cells \<and> archived_for tid c \<and> ac_arm c = arm \<and>
    (\<forall>c' \<in> set cells. archived_for tid c' \<and> ac_arm c' = arm \<longrightarrow> (ac_rep c, ac_id c) \<le> (ac_rep c', ac_id c'))"
  using find_sorted [OF assms [unfolded select_trees_find]] by (auto simp: ac_key_def)

lemma select_trees_None:
  "dget (select_trees cells tid) arm = None \<longleftrightarrow> (\<forall>c \<in> set cells. archived_for tid c \<longrightarrow> ac_arm c \<noteq> arm)"
  by (auto simp: select_trees_find find_None_iff)

section \<open>Labels and outcomes\<close>

definition label_of :: "criterion_result \<Rightarrow> string \<times> (string \<times> string) \<times> string" where
  "label_of c = (cr_task c, (cr_arm_a c, cr_arm_b c), cr_criterion c)"

lemma compare_labels:
  assumes "compare w p judge criteria reps base = Inr rs"
  shows "map label_of rs = map (\<lambda>k. (pr_task p, (pr_arm_a p, pr_arm_b p), k)) criteria"
proof -
  obtain planned where pl: "mapE (criterion_jobs p reps base) criteria = Inr planned"
    "rs = map (criterion_result_of p (map (run_job w judge p) (enumerate 0 (concat (map fst planned)))))
      (zip criteria (map snd planned))"
    using assms by (auto simp: compare_def err_simps Let_def)
  have len: "length criteria = length planned" using mapE_length [OF pl(1)] by simp
  have "map label_of rs = map ((\<lambda>k. (pr_task p, (pr_arm_a p, pr_arm_b p), k)) \<circ> fst) (zip criteria (map snd planned))"
    unfolding pl(2) by (simp add: criterion_result_of_def label_of_def Let_def comp_def case_prod_beta)
  also have "\<dots> = map (\<lambda>k. (pr_task p, (pr_arm_a p, pr_arm_b p), k)) criteria"
    using len by (simp flip: map_map)
  finally show ?thesis .
qed

lemma note_skipped_label [simp]: "label_of (note_skipped s c) = label_of c"
  by (simp add: note_skipped_def label_of_def)

lemma note_skipped_fields [simp]:
  "cr_outcome (note_skipped s c) = cr_outcome c" "cr_runs (note_skipped s c) = cr_runs c"
  "cr_cell_a (note_skipped s c) = cr_cell_a c" "cr_cell_b (note_skipped s c) = cr_cell_b c"
  by (simp_all add: note_skipped_def)

lemma unjudged_labels:
  "map label_of (unjudged_result tid a b k note) = map (\<lambda>c. (tid, (a, b), c)) RUBRIC_CRITERIA"
  by (simp add: unjudged_result_def label_of_def comp_def)

lemma make_pair_fields [simp]:
  "pr_task (make_pair t q a b ra rb ca cb) = t" "pr_arm_a (make_pair t q a b ra rb ca cb) = a"
  "pr_arm_b (make_pair t q a b ra rb ca cb) = b" "pr_cell_a (make_pair t q a b ra rb ca cb) = ca"
  "pr_cell_b (make_pair t q a b ra rb ca cb) = cb"
  by (simp_all add: make_pair_def split: prod.splits)

lemma judge_pair_cases:
  assumes "judge_pair w e judge reps base tid (a, b) = Inr rs"
  shows "rs = missing_tree_result tid a b (absent_arms (select_trees (ep_cells e) tid) a b) \<or>
    (\<exists>idle. rs = no_work_result tid a b idle) \<or>
    (\<exists>q ra rb ca cb rs' s. compare w (make_pair tid q a b ra rb ca cb) (judge tid a b) RUBRIC_CRITERIA reps base = Inr rs' \<and>
      rs = map (note_skipped s) rs')"
proof (cases "dget (select_trees (ep_cells e) tid) a = None \<or> dget (select_trees (ep_cells e) tid) b = None")
  case True
  then show ?thesis using assms by (auto simp: judge_pair_def Let_def split: option.splits)
next
  case False
  then obtain ca cb where cells: "dget (select_trees (ep_cells e) tid) a = Some ca"
    "dget (select_trees (ep_cells e) tid) b = Some cb" by auto
  show ?thesis
  proof (cases "idle_arms a b (ep_load e ca) (ep_load e cb) (or_else (ep_seeds e) tid []) = []")
    case True
    then have "bindE (compare w (make_pair tid (or_else (ep_prompts e) tid []) a b (ep_load e ca) (ep_load e cb)
        (ac_id ca) (ac_id cb)) (judge tid a b) RUBRIC_CRITERIA reps base)
        (\<lambda>rs. Inr (map (note_skipped (unjudged_reps (ep_cells e) tid (select_trees (ep_cells e) tid))) rs)) = Inr rs"
      using assms cells by (simp add: judge_pair_def Let_def)
    then show ?thesis by (elim bindE_InrE) blast
  next
    case False
    then show ?thesis using assms cells by (auto simp: judge_pair_def Let_def)
  qed
qed

lemma judge_pair_labels:
  assumes "judge_pair w e judge reps base tid (a, b) = Inr rs"
  shows "map label_of rs = map (\<lambda>c. (tid, (a, b), c)) RUBRIC_CRITERIA"
proof -
  consider "rs = missing_tree_result tid a b (absent_arms (select_trees (ep_cells e) tid) a b)"
    | idle where "rs = no_work_result tid a b idle"
    | q ra rb ca cb rs' s where "compare w (make_pair tid q a b ra rb ca cb) (judge tid a b) RUBRIC_CRITERIA reps base = Inr rs'"
      "rs = map (note_skipped s) rs'"
    using judge_pair_cases [OF assms] by blast
  then show ?thesis
  proof cases
    case 3
    then show ?thesis using compare_labels [OF 3(1)] by (simp add: comp_def)
  qed (simp_all add: missing_tree_result_def no_work_result_def unjudged_labels)
qed

text \<open>When the two trees are there and neither is the seed, the pair was compared.\<close>

lemma judge_pair_outcomes:
  assumes "judge_pair w e judge reps base tid (a, b) = Inr rs" "c \<in> set rs"
  shows "cr_outcome c = NoTree \<longleftrightarrow>
      dget (select_trees (ep_cells e) tid) a = None \<or> dget (select_trees (ep_cells e) tid) b = None" (is "_ \<longleftrightarrow> ?absent")
    and "cr_outcome c = NoWork \<longleftrightarrow> (\<exists>ca cb. dget (select_trees (ep_cells e) tid) a = Some ca \<and>
      dget (select_trees (ep_cells e) tid) b = Some cb \<and>
      (unmodified_seed (ep_load e ca) (or_else (ep_seeds e) tid []) = Some True \<or>
       unmodified_seed (ep_load e cb) (or_else (ep_seeds e) tid []) = Some True))" (is "_ \<longleftrightarrow> ?idle")
    and "cr_outcome c \<in> {NoTree, NoWork} \<Longrightarrow> cr_runs c = []"
proof -
  have three: "(cr_outcome c = NoTree \<longleftrightarrow> ?absent) \<and> (cr_outcome c = NoWork \<longleftrightarrow> ?idle) \<and>
      (cr_outcome c \<in> {NoTree, NoWork} \<longrightarrow> cr_runs c = [])"
  proof (cases "?absent")
    case True
    then have "rs = missing_tree_result tid a b (absent_arms (select_trees (ep_cells e) tid) a b)"
      using assms(1) by (auto simp: judge_pair_def Let_def split: option.splits)
    then show ?thesis using assms(2) True by (auto simp: missing_tree_result_def unjudged_result_def)
  next
    case False
    then obtain ca cb where cells: "dget (select_trees (ep_cells e) tid) a = Some ca"
      "dget (select_trees (ep_cells e) tid) b = Some cb" by auto
    let ?idle_list = "idle_arms a b (ep_load e ca) (ep_load e cb) (or_else (ep_seeds e) tid [])"
    have idle: "?idle_list \<noteq> [] \<longleftrightarrow> ?idle" using cells by (simp add: idle_arms_def)
    show ?thesis
    proof (cases "?idle_list = []")
      case False
      then have "rs = no_work_result tid a b ?idle_list"
        using assms(1) cells by (simp add: judge_pair_def Let_def)
      then show ?thesis using assms(2) False idle cells by (auto simp: no_work_result_def unjudged_result_def)
    next
      case True
      then obtain p rs' s where cmp: "compare w p (judge tid a b) RUBRIC_CRITERIA reps base = Inr rs'" "rs = map (note_skipped s) rs'"
        using assms(1) cells by (auto simp: judge_pair_def Let_def err_simps)
      then obtain c' where c': "c' \<in> set rs'" "c = note_skipped s c'" using assms(2) by auto
      have "distinct RUBRIC_CRITERIA" by (simp add: RUBRIC_CRITERIA_def)
      then have "cr_outcome c' \<in> {WinA, WinB, Tied, NoVerdict}"
        using compare_result [OF cmp(1) _ c'(1)] settle_range by metis
      then show ?thesis using c'(2) idle True cells by auto
    qed
  qed
  show "cr_outcome c = NoTree \<longleftrightarrow> ?absent" by (rule three [THEN conjunct1])
  show "cr_outcome c = NoWork \<longleftrightarrow> ?idle" by (rule three [THEN conjunct2, THEN conjunct1])
  show "cr_outcome c \<in> {NoTree, NoWork} \<Longrightarrow> cr_runs c = []"
    by (rule three [THEN conjunct2, THEN conjunct2, THEN mp])
qed

section \<open>An epoch\<close>

text \<open>Two different arms are compared once, in the order they are listed.\<close>

lemma arm_pairs_all: "a \<in> set arms \<Longrightarrow> b \<in> set arms \<Longrightarrow> a \<noteq> b \<Longrightarrow> (a, b) \<in> set (arm_pairs arms) \<or> (b, a) \<in> set (arm_pairs arms)"
  by (induction arms) auto

lemma arm_pairs_members: "(a, b) \<in> set (arm_pairs arms) \<Longrightarrow> a \<in> set arms \<and> b \<in> set arms"
  by (induction arms) auto

lemma arm_pairs_once: "distinct arms \<Longrightarrow> distinct (arm_pairs arms) \<and> (\<forall>a b. (a, b) \<in> set (arm_pairs arms) \<longrightarrow> a \<noteq> b \<and> (b, a) \<notin> set (arm_pairs arms))"
proof (induction arms)
  case (Cons x arms)
  then show ?case
    by (auto simp: distinct_map inj_on_def dest: arm_pairs_members)
qed simp

definition epoch_labels :: "epoch \<Rightarrow> string list \<Rightarrow> string list \<Rightarrow> (string \<times> (string \<times> string) \<times> string) list" where
  "epoch_labels e arms tasks = concat (map (\<lambda>tid. concat (map (\<lambda>ab. map (\<lambda>k. (tid, ab, k)) RUBRIC_CRITERIA)
     (arm_pairs arms))) (wanted_tasks e tasks))"

lemma mapE_labels:
  assumes "mapE f xs = Inr yss" "\<And>x ys. f x = Inr ys \<Longrightarrow> map g ys = h x"
  shows "map g (concat yss) = concat (map h xs)"
  using assms(1)
proof (induction xs arbitrary: yss)
  case (Cons x xs)
  then obtain ys zss where "f x = Inr ys" "mapE f xs = Inr zss" "yss = ys # zss"
    by (auto simp: err_simps)
  with Cons.IH [of zss] assms(2) [of x ys] show ?case by simp
qed simp

lemma judge_epoch_labels:
  assumes "judge_epoch w e judge arms reps tasks base = Inr results"
  shows "map label_of results = epoch_labels e arms tasks"
proof -
  let ?task = "\<lambda>tid. bindE (mapE (judge_pair w e judge reps base tid) (arm_pairs arms)) (\<lambda>rss. Inr (concat rss))"
  obtain rss where rss: "mapE ?task (wanted_tasks e tasks) = Inr rss" "results = concat rss"
    using assms by (auto simp: judge_epoch_def err_simps)
  have "map label_of rs = concat (map (\<lambda>ab. map (\<lambda>k. (tid, ab, k)) RUBRIC_CRITERIA) (arm_pairs arms))"
    if "?task tid = Inr rs" for tid rs
  proof -
    obtain qss where q: "mapE (judge_pair w e judge reps base tid) (arm_pairs arms) = Inr qss" "rs = concat qss"
      using \<open>?task tid = Inr rs\<close> by (auto simp: err_simps)
    show ?thesis unfolding q(2)
      by (rule mapE_labels [OF q(1)]) (metis judge_pair_labels surj_pair)
  qed
  from mapE_labels [OF rss(1) this] show ?thesis unfolding rss(2) epoch_labels_def by simp
qed


lemma mapE_returns: "(\<And>x. x \<in> set xs \<Longrightarrow> \<exists>y. f x = Inr y) \<Longrightarrow> \<exists>ys. mapE f xs = Inr ys"
proof (induction xs)
  case (Cons x xs)
  obtain y where "f x = Inr y" using Cons.prems by auto
  moreover obtain ys where "mapE f xs = Inr ys" using Cons by auto
  ultimately show ?case by simp
qed simp

lemma judge_pair_returns: "1 \<le> reps \<Longrightarrow> \<exists>rs. judge_pair w e judge reps base tid ab = Inr rs"
proof -
  assume "1 \<le> reps"
  then have cmp: "\<exists>rs. compare w p j RUBRIC_CRITERIA reps base = Inr rs" for p j
    using compare_returns [OF rubric_criteria_known] by blast
  obtain a b where ab: "ab = (a, b)" by (cases ab)
  show ?thesis
  proof (cases "dget (select_trees (ep_cells e) tid) a"; cases "dget (select_trees (ep_cells e) tid) b")
    fix ca cb
    assume cells: "dget (select_trees (ep_cells e) tid) a = Some ca" "dget (select_trees (ep_cells e) tid) b = Some cb"
    obtain rs where "compare w (make_pair tid (or_else (ep_prompts e) tid []) a b (ep_load e ca) (ep_load e cb)
        (ac_id ca) (ac_id cb)) (judge tid a b) RUBRIC_CRITERIA reps base = Inr rs"
      using cmp by blast
    then show ?thesis using cells ab by (simp add: judge_pair_def Let_def)
  qed (simp_all add: ab judge_pair_def Let_def)
qed

lemma judge_epoch_returns: "1 \<le> reps \<Longrightarrow> \<exists>results. judge_epoch w e judge arms reps tasks base = Inr results"
proof -
  assume reps: "1 \<le> reps"
  have "\<exists>rs. bindE (mapE (judge_pair w e judge reps base tid) (arm_pairs arms)) (\<lambda>rss. Inr (concat rss)) = Inr rs" for tid
    using mapE_returns [of "arm_pairs arms" "judge_pair w e judge reps base tid"] judge_pair_returns [OF reps]
    by (auto simp: err_simps)
  then show ?thesis
    using mapE_returns [of "wanted_tasks e tasks"
        "\<lambda>tid. bindE (mapE (judge_pair w e judge reps base tid) (arm_pairs arms)) (\<lambda>rss. Inr (concat rss))"]
    by (auto simp: judge_epoch_def err_simps)
qed


definition demo_epoch :: epoch where
  "demo_epoch = \<lparr>ep_cells = map (\<lambda>(cid, arm, rep, repo). \<lparr>ac_id = cid, ac_arm = arm, ac_task = ''t1'', ac_rep = rep, ac_repo = repo\<rparr>)
       [(''c2'', ''conductor'', 2, Some (Path [] [''c2''])), (''c1'', ''conductor'', 1, Some (Path [] [''c1''])),
        (''b1'', ''baseline'', 1, Some (Path [] [''b1'']))],
     ep_load = (\<lambda>c. [(''a.py'', ac_id c)]), ep_prompts = [], ep_seeds = []\<rparr>"


section \<open>Calibration\<close>

lemma compare_one_result:
  assumes "compare_one w p judge k reps base = Inr c"
  shows "\<exists>rs. compare w p judge [k] reps base = Inr rs \<and> c \<in> set rs"
proof -
  obtain rs where rs: "compare w p judge [k] reps base = Inr rs" "c = hd rs"
    using assms by (auto simp: compare_one_def err_simps)
  have "rs \<noteq> []" using compare_labels [OF rs(1)] by auto
  then show ?thesis using rs by auto
qed

lemma trusted_iff:
  "cv_trusted (judge_calibration_verdict pct os) \<longleftrightarrow> os \<noteq> [] \<and> 3 * length os \<le> 4 * corrects os \<and>
     (\<forall>k \<in> set os. 0 < ct_valid (co_control k) \<and> 4 * ct_valid (co_control k) \<le> 5 * ct_equal (co_control k))"
  by (auto simp: judge_calibration_verdict_def Let_def meets_floor_def filter_empty_conv control_usable_def
      below_control_floor_def not_less)

lemma position_case_incorrect:
  assumes "calibrate_case w judge reps base k = Inr o'" "\<And>j b. worded_judge (judge j b)" "\<And>j b. reads_position w (judge j b) lead"
  shows "co_outcome o' = CaseTie"
proof -
  let ?p = "make_pair (cc_id k) (cc_prompt k) ''better'' ''worse'' (cc_better k) (cc_worse k) [] []"
  obtain c where c: "compare_one w ?p (judge (cc_id k) False) (cc_criterion k) reps base = Inr c"
    "co_outcome o' = case_verdict_of (cr_outcome c)"
    using assms(1) unfolding calibrate_case_def by (elim bindE_InrE) auto
  obtain rs where rs: "compare w ?p (judge (cc_id k) False) [cc_criterion k] reps base = Inr rs" "c \<in> set rs"
    using compare_one_result [OF c(1)] by blast
  have "cr_outcome c \<notin> {WinA, WinB}"
    by (rule position_only_tied [OF rs(1) _ rs(2) assms(2) _ _ _ assms(3)]) (simp_all add: TIE_def)
  moreover have "cr_outcome c \<noteq> NoVerdict"
    using compare_win(3) [OF rs(1) _ rs(2) assms(2)] position_runs_usable [OF rs(1) _ rs(2) assms(3)]
    by (simp add: TIE_def)
  ultimately show ?thesis by (cases "cr_outcome c") (simp_all add: c(2))
qed


definition demo_case :: calibration_case where
  "demo_case = \<lparr>cc_id = ''k1'', cc_criterion = ''testQuality'', cc_prompt = ''add'', cc_better = [(''a.py'', ''x = 1'')],
     cc_worse = [(''a.py'', ''x = 2'')], cc_better_is_longer = False\<rparr>"

lemma compare_one_returns:
  "dget CRITERION_QUESTION k \<noteq> None \<Longrightarrow> 1 \<le> reps \<Longrightarrow> \<exists>c. compare_one w p judge k reps base = Inr c"
  using compare_returns [of "[k]" reps w p judge base] by (auto simp: compare_one_def)

lemma run_calibration_returns:
  "(\<And>k. k \<in> set cases \<Longrightarrow> dget CRITERION_QUESTION (cc_criterion k) \<noteq> None) \<Longrightarrow> 1 \<le> reps \<Longrightarrow>
   \<exists>os. run_calibration w cases judge reps base = Inr os"
  unfolding run_calibration_def
proof (rule mapE_returns)
  fix k assume "k \<in> set cases" "\<And>k. k \<in> set cases \<Longrightarrow> dget CRITERION_QUESTION (cc_criterion k) \<noteq> None" "1 \<le> reps"
  then have "\<exists>c. compare_one w p j (cc_criterion k) reps base = Inr c" for p j using compare_one_returns by blast
  then obtain c d where
    "compare_one w (make_pair (cc_id k) (cc_prompt k) ''better'' ''worse'' (cc_better k) (cc_worse k) [] [])
       (judge (cc_id k) False) (cc_criterion k) reps base = Inr c"
    "compare_one w (make_pair (cc_id k) (cc_prompt k) ''copy-a'' ''copy-b'' (cc_better k) (cc_better k) [] [])
       (judge (cc_id k) True) (cc_criterion k) reps base = Inr d" by meson
  then show "\<exists>y. calibrate_case w judge reps base k = Inr y"
    by (simp add: calibrate_case_def control_check_def Let_def)
qed


section \<open>The live judge\<close>

lemma message_answer_worded: "message_answer m f choice message \<noteq> Unusable []"
  unfolding message_answer_def by (simp split: json.split option.split)

lemma http_answer_worded: "http_answer m f body \<noteq> Unusable []"
proof (cases body)
  case (JObj b)
  let ?cs = "if truthy (jget b ''choices'') then jget b ''choices'' else JArr [JObj []]"
  show ?thesis
  proof (cases "\<exists>choice rest. ?cs = JArr (JObj choice # rest)")
    case True
    then obtain choice rest where cs: "?cs = JArr (JObj choice # rest)" by blast
    show ?thesis unfolding http_answer_def JObj json.case cs list.case
      by (cases "obj_or_empty (jget choice ''message'')") (simp_all add: message_answer_worded)
  next
    case False
    then show ?thesis unfolding http_answer_def JObj json.case
      by (auto split: json.split list.split simp del: if_split)
  qed
qed (simp_all add: http_answer_def)

lemma http_judge_worded: "http_judge timeout_ms m f send = Inr judge \<Longrightarrow> worded_judge judge"
  by (auto simp: http_judge_def worded_judge_def http_answer_worded split: if_splits sum.splits)

lemma http_judge_covers_budget:
  "http_judge timeout_ms m f send = Inr judge \<Longrightarrow> 120000 + 250 * m \<le> timeout_ms"
  by (auto simp: http_judge_def minimum_timeout_ms_def split: if_splits)

end
