(* ===== verification/Fetch_Gguf.thy ===== *)
theory Fetch_Gguf
  imports Py_Bytes "HOL-Library.Sublist"
begin

text \<open>
  The GGUF header of \<open>scripts/fetch_models.py\<close>: \<open>_Cursor\<close>, \<open>_skip_value\<close>, \<open>_read_value\<close> and
  \<open>read_gguf_header\<close>. A cursor is what it has not read yet (\<open>buf[pos:]\<close>), so an operation that
  advances returns the rest. A float keeps its bits. The loops over a count that the file
  declares (up to \<open>2^64\<close>) are recursive on the count and end at the first refusal.
\<close>

section \<open>The cursor\<close>

datatype gguf_error =
    Eof                       \<comment> \<open>\<open>EOFError\<close>\<close>
  | UnsupportedElement nat
  | UnsupportedValue nat
  | BadMagic
  | BadVersion nat

type_synonym 'a parse = "(gguf_error, 'a \<times> bytes) res"

definition cur_take :: "nat \<Rightarrow> bytes \<Rightarrow> bytes parse" where
  "cur_take n cur = (if length cur < n then Inl Eof else Inr (take n cur, drop n cur))"

definition cur_skip :: "nat \<Rightarrow> bytes \<Rightarrow> (gguf_error, bytes) res" where
  "cur_skip n cur = (if length cur < n then Inl Eof else Inr (drop n cur))"

definition u32 :: "bytes \<Rightarrow> nat parse" where
  "u32 cur = bindE (cur_take 4 cur) (\<lambda>(b, cur). Inr (le_nat b, cur))"

definition u64 :: "bytes \<Rightarrow> nat parse" where
  "u64 cur = bindE (cur_take 8 cur) (\<lambda>(b, cur). Inr (le_nat b, cur))"

definition cur_string :: "bytes \<Rightarrow> ustr parse" where
  "cur_string cur = bindE (u64 cur) (\<lambda>(n, cur). bindE (cur_take n cur) (\<lambda>(b, cur). Inr (decode_replace b, cur)))"

section \<open>Values\<close>

text \<open>The thirteen value types, numbered as \<open>range(13)\<close> does.\<close>

definition T_UINT8 :: nat where "T_UINT8 = 0"
definition T_INT8 :: nat where "T_INT8 = 1"
definition T_UINT16 :: nat where "T_UINT16 = 2"
definition T_INT16 :: nat where "T_INT16 = 3"
definition T_UINT32 :: nat where "T_UINT32 = 4"
definition T_INT32 :: nat where "T_INT32 = 5"
definition T_FLOAT32 :: nat where "T_FLOAT32 = 6"
definition T_BOOL :: nat where "T_BOOL = 7"
definition T_STRING :: nat where "T_STRING = 8"
definition T_ARRAY :: nat where "T_ARRAY = 9"
definition T_UINT64 :: nat where "T_UINT64 = 10"
definition T_INT64 :: nat where "T_INT64 = 11"
definition T_FLOAT64 :: nat where "T_FLOAT64 = 12"

lemmas type_numbers = T_UINT8_def T_INT8_def T_UINT16_def T_INT16_def T_UINT32_def T_INT32_def
  T_FLOAT32_def T_BOOL_def T_STRING_def T_ARRAY_def T_UINT64_def T_INT64_def T_FLOAT64_def

definition FIXED :: "(nat, nat) dict" where
  "FIXED = [(T_UINT8, 1), (T_INT8, 1), (T_UINT16, 2), (T_INT16, 2), (T_UINT32, 4), (T_INT32, 4),
     (T_FLOAT32, 4), (T_BOOL, 1), (T_UINT64, 8), (T_INT64, 8), (T_FLOAT64, 8)]"

datatype gvalue = GInt int | GFloat bytes | GBool bool | GText ustr

definition unpack :: "nat \<Rightarrow> bytes \<Rightarrow> gvalue" where
  \<comment> \<open>\<open>struct.unpack(_STRUCT[vtype], b)[0]\<close>\<close>
  "unpack t b =
     (if t \<in> {T_UINT8, T_UINT16, T_UINT32, T_UINT64} then GInt (int (le_nat b))
      else if t \<in> {T_INT8, T_INT16, T_INT32, T_INT64} then GInt (le_int b)
      else if t = T_BOOL then GBool (le_nat b \<noteq> 0)
      else GFloat b)"

primrec skip_strings :: "nat \<Rightarrow> bytes \<Rightarrow> (gguf_error, bytes) res" where
  \<comment> \<open>the loop over an array of strings in \<open>_skip_value\<close>\<close>
  "skip_strings 0 cur = Inr cur"
| "skip_strings (Suc n) cur = bindE (u64 cur) (\<lambda>(k, cur). bindE (cur_skip k cur) (skip_strings n))"

definition skip_value :: "bytes \<Rightarrow> nat \<Rightarrow> (gguf_error, bytes) res" where
  "skip_value cur vtype =
     (case dget FIXED vtype of
        Some w \<Rightarrow> cur_skip w cur
      | None \<Rightarrow>
          if vtype = T_STRING then bindE (u64 cur) (\<lambda>(n, cur). cur_skip n cur)
          else if vtype = T_ARRAY then
            bindE (u32 cur) (\<lambda>(etype, cur). bindE (u64 cur) (\<lambda>(count, cur).
              case dget FIXED etype of
                Some w \<Rightarrow> cur_skip (w * count) cur
              | None \<Rightarrow> if etype = T_STRING then skip_strings count cur else Inl (UnsupportedElement etype)))
          else Inl (UnsupportedValue vtype))"

definition read_value :: "bytes \<Rightarrow> nat \<Rightarrow> gvalue option parse" where
  "read_value cur vtype =
     (case dget FIXED vtype of
        Some w \<Rightarrow> bindE (cur_take w cur) (\<lambda>(b, cur). Inr (Some (unpack vtype b), cur))
      | None \<Rightarrow>
          if vtype = T_STRING then bindE (cur_string cur) (\<lambda>(s, cur). Inr (Some (GText s), cur))
          else bindE (skip_value cur vtype) (\<lambda>cur. Inr (None, cur)))"

section \<open>The header\<close>

definition WANTED :: "ustr list" where
  "WANTED = map ustr_of [''general.architecture'', ''general.name'', ''general.file_type'',
     ''split.count'', ''split.no'', ''general.size_label'']"

definition wanted :: "ustr \<Rightarrow> bool" where
  "wanted key = (key \<in> set WANTED \<or> suffix (ustr_of ''.context_length'') key)"

type_synonym gmeta = "(ustr, gvalue) dict"

definition read_kv :: "bytes \<Rightarrow> (ustr \<times> gvalue option) parse" where
  "read_kv cur =
     bindE (cur_string cur) (\<lambda>(key, cur). bindE (u32 cur) (\<lambda>(vtype, cur).
       if wanted key then bindE (read_value cur vtype) (\<lambda>(v, cur). Inr ((key, v), cur))
       else bindE (skip_value cur vtype) (\<lambda>cur. Inr ((key, None), cur))))"

primrec read_entries :: "nat \<Rightarrow> gmeta \<Rightarrow> bytes \<Rightarrow> gmeta" where
  \<comment> \<open>the loop, and the handler that ends it\<close>
  "read_entries 0 meta cur = meta"
| "read_entries (Suc n) meta cur =
     (case read_kv cur of
        Inl _ \<Rightarrow> dset (ustr_of ''metadata_truncated'') (GBool True) meta
      | Inr ((key, v), cur) \<Rightarrow> read_entries n (case v of None \<Rightarrow> meta | Some x \<Rightarrow> dset key x meta) cur)"

definition PROBE_BYTES :: nat where "PROBE_BYTES = 96 * 1024 * 1024"
definition GGUF_MAGIC :: bytes where "GGUF_MAGIC = text_bytes ''GGUF''"

definition meta_start :: "nat \<Rightarrow> nat \<Rightarrow> nat \<Rightarrow> gmeta" where
  "meta_start version tensors kvs =
     [(ustr_of ''gguf_version'', GInt (int version)), (ustr_of ''tensor_count'', GInt (int tensors)),
      (ustr_of ''kv_count'', GInt (int kvs))]"

definition read_gguf_header :: "bytes \<Rightarrow> nat \<Rightarrow> (gguf_error, gmeta) res" where
  "read_gguf_header file probe_bytes =
     (let buf = take probe_bytes file in
      if length buf < 24 \<or> take 4 buf \<noteq> GGUF_MAGIC then Inl BadMagic
      else
        bindE (cur_skip 4 buf) (\<lambda>cur. bindE (u32 cur) (\<lambda>(version, cur).
          if version \<notin> {2, 3} then Inl (BadVersion version)
          else bindE (u64 cur) (\<lambda>(tensor_count, cur). bindE (u64 cur) (\<lambda>(kv_count, cur).
            Inr (read_entries kv_count (meta_start version tensor_count kv_count) cur))))))"

end
