(* ===== verification/Fetch_Gguf_Laws.thy ===== *)
theory Fetch_Gguf_Laws
  imports Fetch_Gguf
begin

text \<open>
  The laws of the GGUF reader, against a writer of headers (\<open>header_bytes\<close>, the layout of the
  format): a probe of \<open>p\<close> bytes returns the metadata of the entries that lie within it, and says
  that it was cut short exactly when there are more. The two facts behind it are that every
  reader gives the same answer when bytes are appended (\<open>..._extends\<close>) and that it consumes
  exactly what the writer wrote (\<open>..._written\<close>).
\<close>

section \<open>Bytes appended to the input change nothing\<close>

named_theorems extends \<open>a reader that returned returns the same on a longer input\<close>

lemma take_extends [extends]: "cur_take n cur = Inr (b, r) \<Longrightarrow> cur_take n (cur @ s) = Inr (b, r @ s)"
  by (auto simp: cur_take_def split: if_splits)

lemma skip_extends [extends]: "cur_skip n cur = Inr r \<Longrightarrow> cur_skip n (cur @ s) = Inr (r @ s)"
  by (auto simp: cur_skip_def split: if_splits)

lemma u32_extends [extends]: "u32 cur = Inr (n, r) \<Longrightarrow> u32 (cur @ s) = Inr (n, r @ s)"
  by (auto simp: u32_def err_simps dest: extends)

lemma u64_extends [extends]: "u64 cur = Inr (n, r) \<Longrightarrow> u64 (cur @ s) = Inr (n, r @ s)"
  by (auto simp: u64_def err_simps dest: extends)

lemma string_extends [extends]: "cur_string cur = Inr (t, r) \<Longrightarrow> cur_string (cur @ s) = Inr (t, r @ s)"
  by (force simp: cur_string_def err_simps dest: extends)

lemma strings_extend [extends]: "skip_strings n cur = Inr r \<Longrightarrow> skip_strings n (cur @ s) = Inr (r @ s)"
proof (induction n arbitrary: cur)
  case (Suc n)
  then obtain k c d where "u64 cur = Inr (k, c)" "cur_skip k c = Inr d" "skip_strings n d = Inr r"
    by (auto simp: err_simps)
  then show ?case using Suc.IH by (simp add: u64_extends skip_extends)
qed simp

lemma skip_value_extends [extends]:
  assumes "skip_value cur t = Inr r"
  shows "skip_value (cur @ s) t = Inr (r @ s)"
proof (cases "dget FIXED t")
  case None
  show ?thesis
  proof (cases "t = T_STRING")
    case True
    then show ?thesis using assms None
      by (auto simp: skip_value_def err_simps u64_extends skip_extends)
  next
    case False
    then have t: "t = T_ARRAY" using assms None by (auto simp: skip_value_def split: if_splits)
    obtain e c n d where *: "u32 cur = Inr (e, c)" "u64 c = Inr (n, d)"
      "(case dget FIXED e of Some w \<Rightarrow> cur_skip (w * n) d
        | None \<Rightarrow> if e = T_STRING then skip_strings n d else Inl (UnsupportedElement e)) = Inr r"
      using assms None False t by (auto simp: skip_value_def err_simps)
    have "(case dget FIXED e of Some w \<Rightarrow> cur_skip (w * n) (d @ s)
        | None \<Rightarrow> if e = T_STRING then skip_strings n (d @ s) else Inl (UnsupportedElement e)) = Inr (r @ s)"
      using *(3) by (auto simp: skip_extends strings_extend split: option.splits if_splits)
    then show ?thesis using * None False t by (simp add: skip_value_def u32_extends u64_extends)
  qed
qed (use assms in \<open>simp add: skip_value_def skip_extends\<close>)

lemma read_value_extends [extends]:
  "read_value cur t = Inr (v, r) \<Longrightarrow> read_value (cur @ s) t = Inr (v, r @ s)"
  by (cases "dget FIXED t"; cases "t = T_STRING")
    (auto simp: read_value_def err_simps take_extends string_extends skip_value_extends)

lemma read_kv_extends [extends]:
  assumes "read_kv cur = Inr (e, r)"
  shows "read_kv (cur @ s) = Inr (e, r @ s)"
proof -
  obtain k c t d where *: "cur_string cur = Inr (k, c)" "u32 c = Inr (t, d)"
    "(if wanted k then bindE (read_value d t) (\<lambda>(v, cur). Inr ((k, v), cur))
      else bindE (skip_value d t) (\<lambda>cur. Inr ((k, None), cur))) = Inr (e, r)"
    using assms by (auto simp: read_kv_def err_simps)
  then have "(if wanted k then bindE (read_value (d @ s) t) (\<lambda>(v, cur). Inr ((k, v), cur))
      else bindE (skip_value (d @ s) t) (\<lambda>cur. Inr ((k, None), cur))) = Inr (e, r @ s)"
    by (auto simp: err_simps read_value_extends skip_value_extends split: if_splits)
  then show ?thesis using * by (simp add: read_kv_def string_extends u32_extends)
qed

section \<open>The layout of a header\<close>

datatype gitem =
    Scalar nat bytes               \<comment> \<open>a value of fixed width: its type and its bytes\<close>
  | RawText bytes
  | Scalars nat "bytes list"       \<comment> \<open>an array of values of fixed width\<close>
  | Texts "bytes list"             \<comment> \<open>an array of strings\<close>

definition str_bytes :: "bytes \<Rightarrow> bytes" where
  "str_bytes b = to_le 8 (length b) @ b"

fun item_type :: "gitem \<Rightarrow> nat" where
  "item_type (Scalar t b) = t"
| "item_type (RawText b) = T_STRING"
| "item_type (Scalars t bs) = T_ARRAY"
| "item_type (Texts bs) = T_ARRAY"

fun item_bytes :: "gitem \<Rightarrow> bytes" where
  "item_bytes (Scalar t b) = b"
| "item_bytes (RawText b) = str_bytes b"
| "item_bytes (Scalars t bs) = to_le 4 t @ to_le 8 (length bs) @ concat bs"
| "item_bytes (Texts bs) = to_le 4 T_STRING @ to_le 8 (length bs) @ concat (map str_bytes bs)"

definition short :: "'a list \<Rightarrow> bool" where
  "short xs = (length xs < 2 ^ 64)"

fun item_ok :: "gitem \<Rightarrow> bool" where
  "item_ok (Scalar t b) = (dget FIXED t = Some (length b))"
| "item_ok (RawText b) = short b"
| "item_ok (Scalars t bs) = ((\<exists>w. dget FIXED t = Some w \<and> (\<forall>b \<in> set bs. length b = w)) \<and> short bs)"
| "item_ok (Texts bs) = (short bs \<and> list_all short bs)"

fun item_value :: "gitem \<Rightarrow> gvalue option" where
  "item_value (Scalar t b) = Some (unpack t b)"
| "item_value (RawText b) = Some (GText (decode_replace b))"
| "item_value (Scalars t bs) = None"
| "item_value (Texts bs) = None"

type_synonym gentry = "ustr \<times> gitem"

fun entry_bytes :: "gentry \<Rightarrow> bytes" where
  "entry_bytes (k, i) = str_bytes (utf8_encode k) @ to_le 4 (item_type i) @ item_bytes i"

fun entry_ok :: "gentry \<Rightarrow> bool" where
  "entry_ok (k, i) = (list_all scalar k \<and> short (utf8_encode k) \<and> item_ok i)"

fun add_entry :: "gmeta \<Rightarrow> gentry \<Rightarrow> gmeta" where
  "add_entry m (k, i) = (if wanted k then (case item_value i of None \<Rightarrow> m | Some v \<Rightarrow> dset k v m) else m)"

definition header_bytes :: "nat \<Rightarrow> nat \<Rightarrow> nat \<Rightarrow> gentry list \<Rightarrow> bytes" where
  "header_bytes version tensors n es =
     GGUF_MAGIC @ to_le 4 version @ to_le 8 tensors @ to_le 8 n @ concat (map entry_bytes es)"

lemma take_written: "length b = n \<Longrightarrow> cur_take n (b @ r) = Inr (b, r)"
  by (simp add: cur_take_def)

lemma skip_written: "length b = n \<Longrightarrow> cur_skip n (b @ r) = Inr r"
  by (simp add: cur_skip_def)

lemma u32_written: "n < 2 ^ 32 \<Longrightarrow> u32 (to_le 4 n @ r) = Inr (n, r)"
  by (simp add: u32_def take_written le_nat_to_le)

lemma u64_written: "n < 2 ^ 64 \<Longrightarrow> u64 (to_le 8 n @ r) = Inr (n, r)"
  by (simp add: u64_def take_written le_nat_to_le)

lemma string_written: "short b \<Longrightarrow> cur_string (str_bytes b @ r) = Inr (decode_replace b, r)"
  by (simp add: cur_string_def str_bytes_def short_def u64_written take_written)

lemma strings_written:
  "list_all short bs \<Longrightarrow> skip_strings (length bs) (concat (map str_bytes bs) @ r) = Inr r"
  by (induction bs) (simp_all add: str_bytes_def short_def u64_written skip_written)

lemma not_fixed [simp]: "dget FIXED T_STRING = None" "dget FIXED T_ARRAY = None" "T_ARRAY \<noteq> T_STRING"
  by (simp_all add: FIXED_def type_numbers)

lemma string_type_small [simp]: "T_STRING < 4294967296"
  by (simp add: T_STRING_def)

lemma fixed_small: "dget FIXED t = Some w \<Longrightarrow> t < 13"
  by (auto simp: FIXED_def type_numbers split: if_splits)

lemma item_type_small: "item_ok i \<Longrightarrow> item_type i < 13"
  by (cases i) (auto dest: fixed_small simp: T_STRING_def T_ARRAY_def)

lemma concat_length: "\<forall>b \<in> set bs. length b = w \<Longrightarrow> length (concat bs) = w * length bs"
  by (induction bs) auto

lemma skip_value_written: "item_ok i \<Longrightarrow> skip_value (item_bytes i @ r) (item_type i) = Inr r"
proof (cases i)
  case (Scalars t bs)
  assume "item_ok i"
  then obtain w where "dget FIXED t = Some w" "\<forall>b \<in> set bs. length b = w" "short bs"
    using Scalars by auto
  then show ?thesis using Scalars fixed_small [of t w]
    by (simp add: skip_value_def u32_written u64_written short_def skip_written concat_length)
next
  case (Texts bs)
  assume "item_ok i"
  then show ?thesis using Texts
    by (simp add: skip_value_def u32_written u64_written short_def strings_written)
qed (auto simp: skip_value_def str_bytes_def short_def u64_written skip_written)

lemma read_value_written: "item_ok i \<Longrightarrow> read_value (item_bytes i @ r) (item_type i) = Inr (item_value i, r)"
proof (cases i)
  case (RawText b)
  assume "item_ok i"
  then show ?thesis using RawText by (simp add: read_value_def string_written)
next
  case (Scalars t bs)
  assume "item_ok i"
  then show ?thesis using Scalars skip_value_written [of i r] by (simp add: read_value_def)
next
  case (Texts bs)
  assume "item_ok i"
  then show ?thesis using Texts skip_value_written [of i r] by (simp add: read_value_def)
qed (simp add: read_value_def take_written)

definition entry_value :: "gentry \<Rightarrow> gvalue option" where
  "entry_value e = (if wanted (fst e) then item_value (snd e) else None)"

lemma read_kv_written: "entry_ok e \<Longrightarrow> read_kv (entry_bytes e @ r) = Inr ((fst e, entry_value e), r)"
proof (cases e)
  case (Pair k i)
  assume ok: "entry_ok e"
  then have "item_type i < 2 ^ 32" using item_type_small [of i] Pair by simp
  then show ?thesis
    using ok Pair
    by (simp add: read_kv_def string_written decode_encode list_all_iff u32_written read_value_written
        skip_value_written entry_value_def)
qed

lemma read_kv_cut:
  assumes "entry_ok e" "entry_bytes e = xs @ ys" "ys \<noteq> []"
  shows "\<exists>x. read_kv xs = Inl x"
proof (cases "read_kv xs")
  case (Inr p)
  then obtain v r where "read_kv xs = Inr (v, r)" by (cases p) auto
  then have "read_kv (xs @ ys) = Inr (v, r @ ys)" by (rule read_kv_extends)
  moreover have "read_kv (xs @ ys) = Inr ((fst e, entry_value e), [])"
    using read_kv_written [OF assms(1), of "[]"] assms(2) by simp
  ultimately show ?thesis using assms(3) by simp
qed simp

lemma add_entry_value:
  "add_entry m e = (case entry_value e of None \<Rightarrow> m | Some v \<Rightarrow> dset (fst e) v m)"
  by (cases e) (auto simp: entry_value_def split: option.split)

section \<open>What a probe returns\<close>

definition truncated :: "gmeta \<Rightarrow> gmeta" where
  "truncated m = dset (ustr_of ''metadata_truncated'') (GBool True) m"

definition entries_size :: "gentry list \<Rightarrow> nat" where
  "entries_size es = length (concat (map entry_bytes es))"

lemma read_entries_whole:
  "list_all entry_ok es \<Longrightarrow> read_entries (length es) m (concat (map entry_bytes es) @ r) = foldl add_entry m es"
proof (induction es arbitrary: m)
  case (Cons e es)
  then show ?case by (simp add: read_kv_written add_entry_value)
qed simp

text \<open>A cut input: the entries before the cut, and the flag.\<close>

lemma read_entries_cut:
  assumes "list_all entry_ok es" "k < entries_size es"
  shows "\<exists>j < length es. entries_size (take j es) \<le> k \<and> k < entries_size (take (Suc j) es)
    \<and> read_entries (length es) m (take k (concat (map entry_bytes es))) = truncated (foldl add_entry m (take j es))"
  using assms
proof (induction es arbitrary: m k)
  case Nil
  then show ?case by (simp add: entries_size_def)
next
  case (Cons e es)
  let ?b = "entry_bytes e"
  show ?case
  proof (cases "k < length ?b")
    case True
    have "entry_ok e" using Cons.prems(1) by simp
    then obtain x where "read_kv (take k ?b) = Inl x"
      using read_kv_cut [of e "take k ?b" "drop k ?b"] True by auto
    then have "read_entries (length (e # es)) m (take k (concat (map entry_bytes (e # es)))) = truncated m"
      using True by (simp add: truncated_def)
    then show ?thesis
      using True by (intro exI [of _ 0]) (simp add: entries_size_def)
  next
    case False
    define k' where "k' = k - length ?b"
    have k: "k = length ?b + k'" using False by (simp add: k'_def)
    have "k' < entries_size es" using Cons.prems(2) by (simp add: entries_size_def k)
    then obtain j where j: "j < length es" "entries_size (take j es) \<le> k'" "k' < entries_size (take (Suc j) es)"
      "read_entries (length es) (add_entry m e) (take k' (concat (map entry_bytes es)))
        = truncated (foldl add_entry (add_entry m e) (take j es))"
      using Cons.IH [of k' "add_entry m e"] Cons.prems(1) by auto
    have "read_entries (length (e # es)) m (take k (concat (map entry_bytes (e # es))))
        = truncated (foldl add_entry m (take (Suc j) (e # es)))"
      using Cons.prems(1) j(4) by (simp add: k read_kv_written add_entry_value)
    then show ?thesis
      using j by (intro exI [of _ "Suc j"]) (simp add: entries_size_def k)
  qed
qed

lemma magic_length [simp]: "length GGUF_MAGIC = 4"
  by (simp add: GGUF_MAGIC_def text_bytes_def utf8_encode_def ustr_of_def utf8_char_def)

definition start_size :: nat where "start_size = 24"

lemma header_of_probe:
  assumes "version \<in> {2, 3}" "tensors < 2 ^ 64" "n < 2 ^ 64" "start_size \<le> p"
  shows "read_gguf_header (header_bytes version tensors n es @ rest) p =
    Inr (read_entries n (meta_start version tensors n)
      (take (p - start_size) (concat (map entry_bytes es) @ rest)))"
proof -
  define body where "body = take (p - 24) (concat (map entry_bytes es) @ rest)"
  have "take p (header_bytes version tensors n es @ rest) =
      GGUF_MAGIC @ to_le 4 version @ to_le 8 tensors @ to_le 8 n @ body"
    using assms(4) by (simp add: header_bytes_def body_def start_size_def take_all_iff)
  then show ?thesis
    using assms
    by (auto simp: read_gguf_header_def Let_def skip_written u32_written u64_written body_def start_size_def)
qed

text \<open>C28: a probe of p bytes of a GGUF file returns the metadata of exactly those key-value
  entries that lie within its first p bytes, whatever follows the header, and reports
  metadata_truncated exactly when there are more; with a probe that holds the whole header this
  is every wanted entry, read back as it was written.\<close>

theorem probe_reads_what_it_holds:
  assumes "version \<in> {2, 3}" and "tensors < 2 ^ 64" and "short es" and "list_all entry_ok es"
    and "start_size \<le> p"
  shows "\<exists>j \<le> length es.
    read_gguf_header (header_bytes version tensors (length es) es @ rest) p =
      Inr ((if j = length es then id else truncated)
        (foldl add_entry (meta_start version tensors (length es)) (take j es)))
    \<and> start_size + entries_size (take j es) \<le> p
    \<and> (j < length es \<longrightarrow> p < start_size + entries_size (take (Suc j) es))"
proof (cases "p - start_size < entries_size es")
  case True
  obtain j where j: "j < length es" "entries_size (take j es) \<le> p - start_size"
    "p - start_size < entries_size (take (Suc j) es)"
    "read_entries (length es) (meta_start version tensors (length es))
        (take (p - start_size) (concat (map entry_bytes es)))
      = truncated (foldl add_entry (meta_start version tensors (length es)) (take j es))"
    using read_entries_cut [OF assms(4) True] by blast
  have "take (p - start_size) (concat (map entry_bytes es) @ rest) =
      take (p - start_size) (concat (map entry_bytes es))"
    using True by (simp add: entries_size_def)
  then have "read_gguf_header (header_bytes version tensors (length es) es @ rest) p =
      Inr (truncated (foldl add_entry (meta_start version tensors (length es)) (take j es)))"
    using header_of_probe [OF assms(1,2) assms(3) [unfolded short_def] assms(5), of es rest]
    by (simp only: j(4))
  then show ?thesis
    using j(1-3) assms(5) by (intro exI [of _ j]) (simp, linarith)
next
  case False
  have "take (p - start_size) (concat (map entry_bytes es) @ rest) =
      concat (map entry_bytes es) @ take (p - start_size - entries_size es) rest"
    using False by (simp add: entries_size_def)
  then have "read_gguf_header (header_bytes version tensors (length es) es @ rest) p =
      Inr (foldl add_entry (meta_start version tensors (length es)) es)"
    using header_of_probe [OF assms(1,2) assms(3) [unfolded short_def] assms(5), of es rest]
    by (simp only: read_entries_whole [OF assms(4)])
  then show ?thesis
    using False assms(5) by (intro exI [of _ "length es"]) simp
qed

definition demo_entries :: "gentry list" where
  "demo_entries = [(ustr_of ''general.architecture'', RawText (text_bytes ''qwen'')),
     (ustr_of ''t'', Texts [text_bytes ''a'', []]), (ustr_of ''split.count'', Scalar T_UINT16 [2, 0])]"

lemma demo_entries_ok: "short demo_entries" "list_all entry_ok demo_entries" "length demo_entries = 3"
  by (simp_all add: demo_entries_def short_def FIXED_def type_numbers list_all_iff utf8_encode_def utf8_char_def
      ustr_of_def text_bytes_def scalar_def)

theorem probe_reads_what_it_holds_witness:
  "\<exists>j \<le> 3. read_gguf_header (header_bytes 3 5 3 demo_entries @ [7]) 100 =
      Inr ((if j = 3 then id else truncated) (foldl add_entry (meta_start 3 5 3) (take j demo_entries)))"
  using probe_reads_what_it_holds [of 3 5 demo_entries 100 "[7]"] demo_entries_ok
  by (auto simp: start_size_def)

text \<open>C29: the header of a file is refused for its first eight bytes alone: fewer than 24 bytes or
  another magic, or a version that is not 2 or 3. Whatever the counts and entries after them
  say, malformed, unsupported or cut, the reader returns.\<close>

theorem header_refused_iff:
  "read_gguf_header file p = Inl e \<longleftrightarrow>
     (e = BadMagic \<and> (length (take p file) < 24 \<or> take 4 (take p file) \<noteq> GGUF_MAGIC))
   \<or> (24 \<le> length (take p file) \<and> take 4 (take p file) = GGUF_MAGIC
      \<and> (\<exists>v. e = BadVersion v \<and> v = le_nat (take 4 (drop 4 file)) \<and> v \<notin> {2, 3}))"
proof (cases "length (take p file) < 24 \<or> take 4 (take p file) \<noteq> GGUF_MAGIC")
  case False
  define buf where "buf = take p file"
  have l: "24 \<le> length buf" "take 4 buf = GGUF_MAGIC" using False by (auto simp: buf_def not_less)
  then have "24 \<le> p" by (simp add: buf_def)
  then have v: "take 4 (drop 4 buf) = take 4 (drop 4 file)" by (simp add: buf_def drop_take)
  have room: "\<not> length buf - 4 < 4" "\<not> length buf - 8 < 8" "\<not> length buf - 16 < 8"
    using l(1) by linarith+
  have "read_gguf_header file p =
      (if le_nat (take 4 (drop 4 file)) \<notin> {2, 3} then Inl (BadVersion (le_nat (take 4 (drop 4 file))))
       else Inr (read_entries (le_nat (take 8 (drop 16 buf)))
          (meta_start (le_nat (take 4 (drop 4 file))) (le_nat (take 8 (drop 8 buf))) (le_nat (take 8 (drop 16 buf))))
          (drop 24 buf)))"
    using l room by (simp add: read_gguf_header_def Let_def cur_skip_def u32_def u64_def cur_take_def v flip: buf_def)
  then show ?thesis using l by (auto simp flip: buf_def)
qed (auto simp: read_gguf_header_def Let_def)


theorem header_refused_iff_witness: "read_gguf_header [] 100 = Inl BadMagic"
  using header_refused_iff [of "[]" 100 BadMagic] by simp

end
