(* ===== verification/Fetch_Catalog.thy ===== *)
theory Fetch_Catalog
  imports Prelude
begin

text \<open>
  The catalogue of \<open>scripts/models_catalog.py\<close> and the selection over it
  (\<open>resolve_selection\<close> of \<open>scripts/fetch_models.py\<close>). A size is in hundredths of a GB, the
  precision the catalogue has; the prose of a model (\<open>notes\<close>) is left out. The laws: the
  catalogue is well formed, so that no default install is refused, and a selection holds each
  model once, names what was asked for and takes no experimental model in bulk.
\<close>

section \<open>Models\<close>

record model =
  m_id :: string
  m_repo :: string
  m_title :: string
  m_category :: string
  m_params :: string
  m_license :: string
  m_context :: int
  m_quants :: "(string, int) dict"
  m_default_quant :: string
  m_serve_ctx :: int
  m_tool_call :: bool
  m_reasoning :: bool
  m_vision :: bool
  m_embedding :: bool
  m_reranker :: bool
  m_mmproj :: "string option"
  m_experimental :: bool
  m_sampling :: "(string, string) dict"

definition CATEGORIES :: "(string \<times> string) list" where
  "CATEGORIES =
     [(''coding'', ''Coding & agentic software engineering (primary focus)''),
      (''general'', ''General reasoning, analysis & instruction following''),
      (''writing'', ''Prose, documentation & long-form writing''),
      (''vision'', ''Vision / multimodal - image understanding & art critique''),
      (''utility'', ''Embeddings & rerankers (retrieval for the future harness)'')]"

definition default_size_gb :: "model \<Rightarrow> int option" where
  "default_size_gb m = dget (m_quants m) (m_default_quant m)"

definition size_gb :: "model \<Rightarrow> string option \<Rightarrow> int option" where
  "size_gb m quant = dget (m_quants m) (case quant of None \<Rightarrow> m_default_quant m | Some q \<Rightarrow> if q = [] then m_default_quant m else q)"

section \<open>The catalogue\<close>

definition QWEN_CODER :: "(string \<times> string) list" where
  "QWEN_CODER = [(''temp'', ''0.7''), (''top-p'', ''0.8''), (''top-k'', ''20''), (''repeat-penalty'', ''1.05'')]"

definition QWEN_CHAT :: "(string \<times> string) list" where
  "QWEN_CHAT = [(''temp'', ''0.7''), (''top-p'', ''0.8''), (''top-k'', ''20''), (''min-p'', ''0.0'')]"

definition QWEN_THINKING :: "(string \<times> string) list" where
  "QWEN_THINKING = [(''temp'', ''1.0''), (''top-p'', ''0.95''), (''top-k'', ''20''), (''min-p'', ''0.0'')]"

definition GEMMA :: "(string \<times> string) list" where
  "GEMMA = [(''temp'', ''1.0''), (''top-p'', ''0.95''), (''top-k'', ''64'')]"

definition model_ornith_35b :: model where
  "model_ornith_35b = \<lparr>m_id = ''ornith-35b'', m_repo = ''unsloth/Ornith-1.0-35B-GGUF'',
     m_title = ''Ornith 1.0 35B (MoE)'', m_category = ''coding'', m_params = ''35B MoE'',
     m_license = ''MIT'', m_context = 262144,
     m_quants = [(''UD-Q4_K_XL'', 2232), (''UD-Q5_K_M'', 2646), (''UD-Q6_K_XL'', 3184), (''Q8_0'', 3690), (''MXFP4_MOE'', 2167)],
     m_default_quant = ''UD-Q5_K_M'', m_serve_ctx = 65536,
     m_tool_call = True, m_reasoning = True, m_vision = True, m_embedding = False, m_reranker = False,
     m_mmproj = Some (''F16''), m_experimental = False,
     m_sampling = QWEN_CHAT\<rparr>"

definition model_ornith_35b_official :: model where
  "model_ornith_35b_official = \<lparr>m_id = ''ornith-35b-official'', m_repo = ''ornith-ai/Ornith-1.0-35B-GGUF'',
     m_title = ''Ornith 1.0 35B (first-party GGUF)'', m_category = ''coding'', m_params = ''35B MoE'',
     m_license = ''MIT'', m_context = 262144,
     m_quants = [(''Q4_K_M'', 2117), (''Q5_K_M'', 2473), (''Q6_K'', 2851), (''Q8_0'', 3690)],
     m_default_quant = ''Q5_K_M'', m_serve_ctx = 65536,
     m_tool_call = True, m_reasoning = True, m_vision = False, m_embedding = False, m_reranker = False,
     m_mmproj = None, m_experimental = False,
     m_sampling = QWEN_CHAT\<rparr>"

definition model_ornith_9b :: model where
  "model_ornith_9b = \<lparr>m_id = ''ornith-9b'', m_repo = ''ornith-ai/Ornith-1.0-9B-GGUF'',
     m_title = ''Ornith 1.0 9B (dense)'', m_category = ''coding'', m_params = ''9B'',
     m_license = ''MIT'', m_context = 262144,
     m_quants = [(''Q4_K_M'', 563), (''Q5_K_M'', 647), (''Q6_K'', 736), (''Q8_0'', 953)],
     m_default_quant = ''Q8_0'', m_serve_ctx = 65536,
     m_tool_call = True, m_reasoning = True, m_vision = False, m_embedding = False, m_reranker = False,
     m_mmproj = None, m_experimental = False,
     m_sampling = QWEN_CHAT\<rparr>"

definition model_qwen3_coder_next :: model where
  "model_qwen3_coder_next = \<lparr>m_id = ''qwen3-coder-next'', m_repo = ''unsloth/Qwen3-Coder-Next-GGUF'',
     m_title = ''Qwen3-Coder-Next 80B-A3B'', m_category = ''coding'', m_params = ''80B MoE / 3B active'',
     m_license = ''Apache-2.0'', m_context = 262144,
     m_quants = [(''MXFP4_MOE'', 4803), (''Q4_K_M'', 4853), (''Q5_K_M'', 5685), (''Q6_K'', 6561)],
     m_default_quant = ''MXFP4_MOE'', m_serve_ctx = 32768,
     m_tool_call = True, m_reasoning = False, m_vision = False, m_embedding = False, m_reranker = False,
     m_mmproj = None, m_experimental = False,
     m_sampling = QWEN_CODER\<rparr>"

definition model_qwen3_coder_30b :: model where
  "model_qwen3_coder_30b = \<lparr>m_id = ''qwen3-coder-30b'', m_repo = ''unsloth/Qwen3-Coder-30B-A3B-Instruct-GGUF'',
     m_title = ''Qwen3-Coder 30B-A3B Instruct'', m_category = ''coding'', m_params = ''30B MoE / 3B active'',
     m_license = ''Apache-2.0'', m_context = 262144,
     m_quants = [(''UD-Q4_K_XL'', 1767), (''Q5_K_M'', 2173), (''Q6_K'', 2509), (''UD-Q6_K_XL'', 2634), (''Q8_0'', 3248)],
     m_default_quant = ''Q6_K'', m_serve_ctx = 65536,
     m_tool_call = True, m_reasoning = False, m_vision = False, m_embedding = False, m_reranker = False,
     m_mmproj = None, m_experimental = False,
     m_sampling = QWEN_CODER\<rparr>"

definition model_kat_coder_v2_5 :: model where
  "model_kat_coder_v2_5 = \<lparr>m_id = ''kat-coder-v2.5'', m_repo = ''bartowski/Kwaipilot_KAT-Coder-V2.5-Dev-GGUF'',
     m_title = ''KAT-Coder V2.5 Dev'', m_category = ''coding'', m_params = ''~32B'',
     m_license = ''Custom (Kwaipilot)'', m_context = 131072,
     m_quants = [(''Q4_K_M'', 2139), (''Q5_K_M'', 2502), (''Q6_K'', 3005), (''Q8_0'', 3691)],
     m_default_quant = ''Q6_K'', m_serve_ctx = 65536,
     m_tool_call = True, m_reasoning = False, m_vision = False, m_embedding = False, m_reranker = False,
     m_mmproj = None, m_experimental = False,
     m_sampling = []\<rparr>"

definition model_devstral_small_2 :: model where
  "model_devstral_small_2 = \<lparr>m_id = ''devstral-small-2'', m_repo = ''unsloth/Devstral-Small-2-24B-Instruct-2512-GGUF'',
     m_title = ''Devstral Small 2 24B'', m_category = ''coding'', m_params = ''24B'',
     m_license = ''Apache-2.0'', m_context = 131072,
     m_quants = [(''Q4_K_M'', 1433), (''UD-Q4_K_XL'', 1451), (''Q5_K_M'', 1676), (''Q6_K'', 1935), (''Q8_0'', 2506)],
     m_default_quant = ''Q8_0'', m_serve_ctx = 65536,
     m_tool_call = True, m_reasoning = False, m_vision = True, m_embedding = False, m_reranker = False,
     m_mmproj = Some (''F16''), m_experimental = False,
     m_sampling = [(''temp'', ''0.15''), (''top-p'', ''1.0'')]\<rparr>"

definition model_qwen2_5_coder_32b :: model where
  "model_qwen2_5_coder_32b = \<lparr>m_id = ''qwen2.5-coder-32b'', m_repo = ''Qwen/Qwen2.5-Coder-32B-Instruct-GGUF'',
     m_title = ''Qwen2.5-Coder 32B Instruct'', m_category = ''coding'', m_params = ''32B'',
     m_license = ''Apache-2.0'', m_context = 131072,
     m_quants = [(''q4_k_m'', 1985), (''q5_k_m'', 2326), (''q6_k'', 2689), (''q8_0'', 3482)],
     m_default_quant = ''q6_k'', m_serve_ctx = 65536,
     m_tool_call = True, m_reasoning = False, m_vision = False, m_embedding = False, m_reranker = False,
     m_mmproj = None, m_experimental = False,
     m_sampling = QWEN_CODER\<rparr>"

definition model_gpt_oss_20b :: model where
  "model_gpt_oss_20b = \<lparr>m_id = ''gpt-oss-20b'', m_repo = ''unsloth/gpt-oss-20b-GGUF'',
     m_title = ''gpt-oss 20B'', m_category = ''coding'', m_params = ''21B MoE / 3.6B active'',
     m_license = ''Apache-2.0'', m_context = 131072,
     m_quants = [(''Q4_K_M'', 1162), (''Q5_K_M'', 1172), (''Q6_K'', 1204), (''Q8_0'', 1211)],
     m_default_quant = ''Q8_0'', m_serve_ctx = 65536,
     m_tool_call = True, m_reasoning = True, m_vision = False, m_embedding = False, m_reranker = False,
     m_mmproj = None, m_experimental = False,
     m_sampling = [(''temp'', ''1.0''), (''top-p'', ''1.0''), (''top-k'', ''0'')]\<rparr>"

definition model_laguna_s_2_1 :: model where
  "model_laguna_s_2_1 = \<lparr>m_id = ''laguna-s-2.1'', m_repo = ''unsloth/Laguna-S-2.1-GGUF'',
     m_title = ''Laguna-S 2.1 (poolside)'', m_category = ''coding'', m_params = ''Large MoE'',
     m_license = ''Custom (poolside)'', m_context = 131072,
     m_quants = [(''UD-Q2_K_XL'', 3968), (''UD-IQ3_XXS'', 4428), (''UD-IQ3_S'', 4843)],
     m_default_quant = ''UD-IQ3_XXS'', m_serve_ctx = 16384,
     m_tool_call = True, m_reasoning = False, m_vision = False, m_embedding = False, m_reranker = False,
     m_mmproj = None, m_experimental = True,
     m_sampling = []\<rparr>"

definition model_qwen3_8_27b :: model where
  "model_qwen3_8_27b = \<lparr>m_id = ''qwen3.8-27b'', m_repo = ''unsloth/Qwen3.8-27B-GGUF'',
     m_title = ''Qwen3.8 27B (dense)'', m_category = ''general'', m_params = ''27B'',
     m_license = ''Apache-2.0'', m_context = 262144,
     m_quants = [(''UD-Q4_K_M'', 1646), (''UD-Q4_K_XL'', 1756), (''UD-Q5_K_M'', 1977), (''UD-Q6_K'', 2198), (''UD-Q6_K_XL'', 2530), (''Q8_0'', 2905), (''UD-Q8_K_XL'', 3146)],
     m_default_quant = ''UD-Q6_K'', m_serve_ctx = 65536,
     m_tool_call = True, m_reasoning = True, m_vision = True, m_embedding = False, m_reranker = False,
     m_mmproj = Some (''F16''), m_experimental = False,
     m_sampling = QWEN_THINKING\<rparr>"

definition model_qwen3_6_27b :: model where
  "model_qwen3_6_27b = \<lparr>m_id = ''qwen3.6-27b'', m_repo = ''unsloth/Qwen3.6-27B-GGUF'',
     m_title = ''Qwen3.6 27B (dense)'', m_category = ''general'', m_params = ''27B'',
     m_license = ''Apache-2.0'', m_context = 262144,
     m_quants = [(''Q4_K_M'', 1682), (''UD-Q4_K_XL'', 1761), (''Q5_K_M'', 1951), (''Q6_K'', 2252), (''Q8_0'', 2860)],
     m_default_quant = ''Q6_K'', m_serve_ctx = 65536,
     m_tool_call = True, m_reasoning = True, m_vision = True, m_embedding = False, m_reranker = False,
     m_mmproj = Some (''F16''), m_experimental = False,
     m_sampling = QWEN_CHAT\<rparr>"

definition model_qwen3_6_35b_a3b :: model where
  "model_qwen3_6_35b_a3b = \<lparr>m_id = ''qwen3.6-35b-a3b'', m_repo = ''unsloth/Qwen3.6-35B-A3B-GGUF'',
     m_title = ''Qwen3.6 35B-A3B (MoE)'', m_category = ''general'', m_params = ''35B MoE / 3B active'',
     m_license = ''Apache-2.0'', m_context = 262144,
     m_quants = [(''UD-Q4_K_XL'', 2236), (''UD-Q5_K_M'', 2646), (''UD-Q6_K'', 2931), (''Q8_0'', 3690)],
     m_default_quant = ''UD-Q5_K_M'', m_serve_ctx = 65536,
     m_tool_call = True, m_reasoning = True, m_vision = True, m_embedding = False, m_reranker = False,
     m_mmproj = Some (''F16''), m_experimental = False,
     m_sampling = QWEN_CHAT\<rparr>"

definition model_qwen3_5_35b_a3b :: model where
  "model_qwen3_5_35b_a3b = \<lparr>m_id = ''qwen3.5-35b-a3b'', m_repo = ''unsloth/Qwen3.5-35B-A3B-GGUF'',
     m_title = ''Qwen3.5 35B-A3B (MoE)'', m_category = ''general'', m_params = ''35B MoE / 3B active'',
     m_license = ''Apache-2.0'', m_context = 262144,
     m_quants = [(''UD-Q4_K_XL'', 2224), (''Q5_K_M'', 2625), (''Q6_K'', 2885), (''Q8_0'', 3690)],
     m_default_quant = ''Q6_K'', m_serve_ctx = 65536,
     m_tool_call = True, m_reasoning = True, m_vision = True, m_embedding = False, m_reranker = False,
     m_mmproj = Some (''F16''), m_experimental = False,
     m_sampling = QWEN_CHAT\<rparr>"

definition model_olmo_3_1_32b_think :: model where
  "model_olmo_3_1_32b_think = \<lparr>m_id = ''olmo-3.1-32b-think'', m_repo = ''bartowski/allenai_Olmo-3.1-32B-Think-GGUF'',
     m_title = ''Olmo 3.1 32B Think'', m_category = ''general'', m_params = ''32B'',
     m_license = ''Apache-2.0'', m_context = 65536,
     m_quants = [(''Q4_K_M'', 1948), (''Q5_K_M'', 2286), (''Q6_K'', 2645), (''Q8_0'', 3425)],
     m_default_quant = ''Q6_K'', m_serve_ctx = 32768,
     m_tool_call = True, m_reasoning = True, m_vision = False, m_embedding = False, m_reranker = False,
     m_mmproj = None, m_experimental = False,
     m_sampling = []\<rparr>"

definition model_gemma_4_31b :: model where
  "model_gemma_4_31b = \<lparr>m_id = ''gemma-4-31b'', m_repo = ''unsloth/gemma-4-31B-it-GGUF'',
     m_title = ''Gemma 4 31B Instruct'', m_category = ''writing'', m_params = ''31B'',
     m_license = ''Gemma Terms of Use'', m_context = 131072,
     m_quants = [(''Q4_K_M'', 1832), (''UD-Q4_K_XL'', 1882), (''Q5_K_M'', 2166), (''Q6_K'', 2520), (''Q8_0'', 3264)],
     m_default_quant = ''Q8_0'', m_serve_ctx = 32768,
     m_tool_call = True, m_reasoning = False, m_vision = True, m_embedding = False, m_reranker = False,
     m_mmproj = Some (''F16''), m_experimental = False,
     m_sampling = GEMMA\<rparr>"

definition model_gemma_4_26b_a4b :: model where
  "model_gemma_4_26b_a4b = \<lparr>m_id = ''gemma-4-26b-a4b'', m_repo = ''unsloth/gemma-4-26B-A4B-it-GGUF'',
     m_title = ''Gemma 4 26B-A4B (MoE)'', m_category = ''writing'', m_params = ''26B MoE / 4B active'',
     m_license = ''Gemma Terms of Use'', m_context = 131072,
     m_quants = [(''MXFP4_MOE'', 1655), (''UD-Q4_K_XL'', 1701), (''UD-Q5_K_M'', 2115), (''UD-Q6_K'', 2317), (''Q8_0'', 2686)],
     m_default_quant = ''Q8_0'', m_serve_ctx = 65536,
     m_tool_call = True, m_reasoning = False, m_vision = True, m_embedding = False, m_reranker = False,
     m_mmproj = Some (''F16''), m_experimental = False,
     m_sampling = GEMMA\<rparr>"

definition model_gemma_4_12b :: model where
  "model_gemma_4_12b = \<lparr>m_id = ''gemma-4-12b'', m_repo = ''unsloth/gemma-4-12b-it-GGUF'',
     m_title = ''Gemma 4 12B Instruct'', m_category = ''writing'', m_params = ''12B'',
     m_license = ''Gemma Terms of Use'', m_context = 131072,
     m_quants = [(''Q4_K_M'', 712), (''Q5_K_M'', 841), (''Q6_K'', 979), (''Q8_0'', 1267)],
     m_default_quant = ''Q8_0'', m_serve_ctx = 65536,
     m_tool_call = True, m_reasoning = False, m_vision = True, m_embedding = False, m_reranker = False,
     m_mmproj = Some (''F16''), m_experimental = False,
     m_sampling = GEMMA\<rparr>"

definition model_qwen3_vl_30b :: model where
  "model_qwen3_vl_30b = \<lparr>m_id = ''qwen3-vl-30b'', m_repo = ''Qwen/Qwen3-VL-30B-A3B-Instruct-GGUF'',
     m_title = ''Qwen3-VL 30B-A3B Instruct'', m_category = ''vision'', m_params = ''30B MoE / 3B active'',
     m_license = ''Apache-2.0'', m_context = 262144,
     m_quants = [(''Q4_K_M'', 1856), (''Q8_0'', 3248)],
     m_default_quant = ''Q8_0'', m_serve_ctx = 32768,
     m_tool_call = True, m_reasoning = False, m_vision = True, m_embedding = False, m_reranker = False,
     m_mmproj = Some (''F16''), m_experimental = False,
     m_sampling = QWEN_CHAT\<rparr>"

definition model_nemotron_3_nano_omni :: model where
  "model_nemotron_3_nano_omni = \<lparr>m_id = ''nemotron-3-nano-omni'', m_repo = ''lmstudio-community/Nemotron-3-Nano-Omni-30B-A3B-Reasoning-GGUF'',
     m_title = ''Nemotron 3 Nano Omni 30B-A3B'', m_category = ''vision'', m_params = ''30B MoE / 3B active'',
     m_license = ''NVIDIA Open Model License'', m_context = 131072,
     m_quants = [(''Q4_K_M'', 2452), (''Q6_K'', 3351), (''Q8_0'', 3359)],
     m_default_quant = ''Q6_K'', m_serve_ctx = 32768,
     m_tool_call = True, m_reasoning = True, m_vision = True, m_embedding = False, m_reranker = False,
     m_mmproj = Some (''BF16''), m_experimental = False,
     m_sampling = []\<rparr>"

definition model_ternary_bonsai_27b :: model where
  "model_ternary_bonsai_27b = \<lparr>m_id = ''ternary-bonsai-27b'', m_repo = ''prism-ml/Ternary-Bonsai-27B-gguf'',
     m_title = ''Ternary Bonsai 27B'', m_category = ''vision'', m_params = ''27B (ternary weights)'',
     m_license = ''Check model card'', m_context = 131072,
     m_quants = [(''Q2_0'', 717), (''PQ2_0'', 717), (''Q2_g64'', 759)],
     m_default_quant = ''Q2_0'', m_serve_ctx = 32768,
     m_tool_call = True, m_reasoning = False, m_vision = True, m_embedding = False, m_reranker = False,
     m_mmproj = Some (''Q8_0''), m_experimental = True,
     m_sampling = []\<rparr>"

definition model_qwen3_embedding_8b :: model where
  "model_qwen3_embedding_8b = \<lparr>m_id = ''qwen3-embedding-8b'', m_repo = ''Qwen/Qwen3-Embedding-8B-GGUF'',
     m_title = ''Qwen3 Embedding 8B'', m_category = ''utility'', m_params = ''8B'',
     m_license = ''Apache-2.0'', m_context = 32768,
     m_quants = [(''Q4_K_M'', 468), (''Q5_K_M'', 542), (''Q6_K'', 621), (''Q8_0'', 805), (''f16'', 1514)],
     m_default_quant = ''Q8_0'', m_serve_ctx = 32768,
     m_tool_call = False, m_reasoning = False, m_vision = False, m_embedding = True, m_reranker = False,
     m_mmproj = None, m_experimental = False,
     m_sampling = [(''embeddings'', ''true''), (''pooling'', ''last'')]\<rparr>"

definition model_qwen3_embedding_0_6b :: model where
  "model_qwen3_embedding_0_6b = \<lparr>m_id = ''qwen3-embedding-0.6b'', m_repo = ''Qwen/Qwen3-Embedding-0.6B-GGUF'',
     m_title = ''Qwen3 Embedding 0.6B'', m_category = ''utility'', m_params = ''0.6B'',
     m_license = ''Apache-2.0'', m_context = 32768,
     m_quants = [(''Q8_0'', 64), (''f16'', 120)],
     m_default_quant = ''f16'', m_serve_ctx = 32768,
     m_tool_call = False, m_reasoning = False, m_vision = False, m_embedding = True, m_reranker = False,
     m_mmproj = None, m_experimental = False,
     m_sampling = [(''embeddings'', ''true''), (''pooling'', ''last'')]\<rparr>"

definition model_embeddinggemma_300m :: model where
  "model_embeddinggemma_300m = \<lparr>m_id = ''embeddinggemma-300m'', m_repo = ''ggml-org/embeddinggemma-300M-GGUF'',
     m_title = ''EmbeddingGemma 300M'', m_category = ''utility'', m_params = ''300M'',
     m_license = ''Gemma Terms of Use'', m_context = 2048,
     m_quants = [(''Q8_0'', 33)],
     m_default_quant = ''Q8_0'', m_serve_ctx = 2048,
     m_tool_call = False, m_reasoning = False, m_vision = False, m_embedding = True, m_reranker = False,
     m_mmproj = None, m_experimental = False,
     m_sampling = [(''embeddings'', ''true''), (''pooling'', ''mean'')]\<rparr>"

definition model_qwen3_reranker_0_6b :: model where
  "model_qwen3_reranker_0_6b = \<lparr>m_id = ''qwen3-reranker-0.6b'', m_repo = ''ggml-org/Qwen3-Reranker-0.6B-Q8_0-GGUF'',
     m_title = ''Qwen3 Reranker 0.6B'', m_category = ''utility'', m_params = ''0.6B'',
     m_license = ''Apache-2.0'', m_context = 32768,
     m_quants = [(''q8_0'', 64)],
     m_default_quant = ''q8_0'', m_serve_ctx = 32768,
     m_tool_call = False, m_reasoning = False, m_vision = False, m_embedding = False, m_reranker = True,
     m_mmproj = None, m_experimental = False,
     m_sampling = [(''reranking'', ''true'')]\<rparr>"

definition CATALOG :: "model list" where
  "CATALOG = [model_ornith_35b,
     model_ornith_35b_official,
     model_ornith_9b,
     model_qwen3_coder_next,
     model_qwen3_coder_30b,
     model_kat_coder_v2_5,
     model_devstral_small_2,
     model_qwen2_5_coder_32b,
     model_gpt_oss_20b,
     model_laguna_s_2_1,
     model_qwen3_8_27b,
     model_qwen3_6_27b,
     model_qwen3_6_35b_a3b,
     model_qwen3_5_35b_a3b,
     model_olmo_3_1_32b_think,
     model_gemma_4_31b,
     model_gemma_4_26b_a4b,
     model_gemma_4_12b,
     model_qwen3_vl_30b,
     model_nemotron_3_nano_omni,
     model_ternary_bonsai_27b,
     model_qwen3_embedding_8b,
     model_qwen3_embedding_0_6b,
     model_embeddinggemma_300m,
     model_qwen3_reranker_0_6b]"

section \<open>Selection\<close>

datatype select_error = UnknownModel string | UnknownCategory string

definition catalog_get :: "model list \<Rightarrow> string \<Rightarrow> (select_error, model) res" where
  \<comment> \<open>\<open>BY_ID[model_id]\<close>: a later model of one id replaces an earlier one\<close>
  "catalog_get cat i = (case find (\<lambda>m. m_id m = i) (rev cat) of None \<Rightarrow> Inl (UnknownModel i) | Some m \<Rightarrow> Inr m)"

definition in_category :: "model list \<Rightarrow> string \<Rightarrow> model list" where
  "in_category cat c = filter (\<lambda>m. m_category m = c) cat"

definition pick :: "model list \<Rightarrow> model \<Rightarrow> model list" where
  \<comment> \<open>\<open>add\<close>\<close>
  "pick picked m = (if m_id m \<in> set (map m_id picked) then picked else picked @ [m])"

definition pick_bulk :: "model list \<Rightarrow> model list \<Rightarrow> model list" where
  "pick_bulk picked ms = foldl pick picked (filter (\<lambda>m. \<not> m_experimental m) ms)"

definition resolve_selection ::
  "model list \<Rightarrow> string list \<Rightarrow> string list \<Rightarrow> bool \<Rightarrow> (select_error, model list) res" where
  "resolve_selection cat names categories every =
     bindE (foldE (\<lambda>picked name. bindE (catalog_get cat name) (\<lambda>m. Inr (pick picked m))) [] names) (\<lambda>picked.
     bindE (foldE (\<lambda>picked c. let ms = in_category cat c in
         if ms = [] then Inl (UnknownCategory c) else Inr (pick_bulk picked ms)) picked categories) (\<lambda>picked.
     Inr (if every then pick_bulk picked cat else picked)))"

end
