(* ===== verification/Fetch_Catalog_Laws.thy ===== *)
theory Fetch_Catalog_Laws
  imports Fetch_Catalog
begin

text \<open>
  The catalogue is well formed, and what a selection over it holds.
\<close>

lemmas catalog_defs = CATALOG_def CATEGORIES_def

definition model_ok :: "model \<Rightarrow> bool" where
  "model_ok m = (m_default_quant m \<in> set (dkeys (m_quants m)) \<and> dict_ok (m_quants m)
     \<and> list_all (\<lambda>q. 0 < snd q) (m_quants m) \<and> m_category m \<in> set (map fst CATEGORIES)
     \<and> 0 < m_serve_ctx m \<and> m_serve_ctx m \<le> m_context m \<and> dict_ok (m_sampling m))"

lemma catalog_models_ok: "list_all model_ok CATALOG"
  by code_simp

lemma catalog_ids_distinct: "distinct (map m_id CATALOG)"
  by code_simp

text \<open>A loop that collects: what it holds at the end is what each step adds.\<close>

lemma foldE_collects:
  assumes "foldE f s xs = Inr t"
    and "\<And>u x v. x \<in> set xs \<Longrightarrow> f u x = Inr v \<Longrightarrow> g v = g u \<union> h x"
  shows "g t = g s \<union> (\<Union>x \<in> set xs. h x)"
  using assms
proof (induction xs arbitrary: s)
  case (Cons x xs)
  from Cons.prems(1) obtain v where v: "f s x = Inr v" "foldE f v xs = Inr t" by (auto simp: err_simps)
  have "g v = g s \<union> h x" using Cons.prems(2) v(1) by simp
  moreover have "g t = g v \<union> (\<Union>x \<in> set xs. h x)" using Cons.IH [OF v(2)] Cons.prems(2) by simp
  ultimately show ?case by auto
qed simp

section \<open>Selection\<close>

abbreviation ids :: "model list \<Rightarrow> string set" where
  "ids ms \<equiv> m_id ` set ms"

definition bulk :: "model list \<Rightarrow> (model \<Rightarrow> bool) \<Rightarrow> string set" where
  "bulk cat P = m_id ` {m \<in> set cat. \<not> m_experimental m \<and> P m}"

definition picked_ok :: "model list \<Rightarrow> model list \<Rightarrow> bool" where
  "picked_ok cat ms = (distinct (map m_id ms) \<and> set ms \<subseteq> set cat)"

lemma ids_pick [simp]: "ids (pick p m) = insert (m_id m) (ids p)"
  by (auto simp: pick_def)

lemma pick_ok: "picked_ok cat p \<Longrightarrow> m \<in> set cat \<Longrightarrow> picked_ok cat (pick p m)"
  by (auto simp: pick_def picked_ok_def)

lemma ids_pick_all: "ids (foldl pick p ms) = ids p \<union> ids ms"
  by (induction ms arbitrary: p) auto

lemma pick_all_ok: "picked_ok cat p \<Longrightarrow> set ms \<subseteq> set cat \<Longrightarrow> picked_ok cat (foldl pick p ms)"
  by (induction ms arbitrary: p) (auto simp: pick_ok)

lemma ids_pick_bulk: "ids (pick_bulk p ms) = ids p \<union> bulk ms (\<lambda>_. True)"
  by (auto simp: pick_bulk_def ids_pick_all bulk_def)

lemma pick_bulk_ok: "picked_ok cat p \<Longrightarrow> set ms \<subseteq> set cat \<Longrightarrow> picked_ok cat (pick_bulk p ms)"
  unfolding pick_bulk_def by (rule pick_all_ok) auto

lemma catalog_get_found: "catalog_get cat i = Inr m \<Longrightarrow> m \<in> set cat \<and> m_id m = i"
  by (auto simp: catalog_get_def find_Some_iff split: option.splits) (metis nth_mem set_rev length_rev)

lemma bulk_category: "bulk (in_category cat c) (\<lambda>_. True) = bulk cat (\<lambda>m. m_category m = c)"
  by (auto simp: bulk_def in_category_def)

text \<open>a selection that is accepted holds no model twice, only models of the catalogue, and
  exactly these ids: every model named, experimental or not, and with a category or with --all the
  models there that are not experimental.\<close>

theorem selection_is_what_was_asked:
  assumes "resolve_selection cat names categories every = Inr ms"
  shows "distinct (map m_id ms) \<and> set ms \<subseteq> set cat \<and>
    m_id ` set ms = set names \<union> m_id ` {m \<in> set cat. \<not> m_experimental m \<and> (every \<or> m_category m \<in> set categories)}"
proof -
  let ?by_name = "\<lambda>picked name. bindE (catalog_get cat name) (\<lambda>m. Inr (pick picked m))"
  let ?by_category = "\<lambda>picked c. let ms = in_category cat c in
      if ms = [] then Inl (UnknownCategory c) else Inr (pick_bulk picked ms)"
  obtain p q where p: "foldE ?by_name [] names = Inr p" and q: "foldE ?by_category p categories = Inr q"
    and ms: "ms = (if every then pick_bulk q cat else q)"
    using assms by (auto simp: resolve_selection_def err_simps)
  have "picked_ok cat p"
  proof (rule foldE_invariant [OF p])
    show "picked_ok cat []" by (simp add: picked_ok_def)
  qed (auto simp: err_simps intro: pick_ok dest: catalog_get_found)
  moreover have "ids p = ids [] \<union> (\<Union>x \<in> set names. {x})"
  proof (rule foldE_collects [OF p])
    fix u x v
    assume "?by_name u x = Inr v"
    then obtain m where m: "catalog_get cat x = Inr m" "v = pick u m" by (auto simp: err_simps)
    then show "ids v = ids u \<union> {x}" using catalog_get_found [OF m(1)] ids_pick [of u m] by simp
  qed
  moreover have "picked_ok cat q"
    by (rule foldE_invariant [OF q, where P = "picked_ok cat"], fact)
      (auto simp: Let_def in_category_def intro!: pick_bulk_ok split: if_splits)
  moreover have "ids q = ids p \<union> (\<Union>c \<in> set categories. bulk cat (\<lambda>m. m_category m = c))"
  proof (rule foldE_collects [OF q])
    fix u c v
    assume "?by_category u c = Inr v"
    then have "v = pick_bulk u (in_category cat c)" by (simp add: Let_def split: if_splits)
    then show "ids v = ids u \<union> bulk cat (\<lambda>m. m_category m = c)" by (simp add: ids_pick_bulk bulk_category)
  qed
  moreover have "picked_ok cat ms" using \<open>picked_ok cat q\<close> ms by (simp add: pick_bulk_ok)
  ultimately show ?thesis
    using ms ids_pick_bulk [of q cat] by (auto simp: picked_ok_def bulk_def)
qed

theorem selection_is_what_was_asked_witness:
  "\<exists>ms. resolve_selection CATALOG [''ornith-35b''] [''utility''] False = Inr ms \<and> distinct (map m_id ms)"
proof -
  have "returns (resolve_selection CATALOG [''ornith-35b''] [''utility''] False)" by code_simp
  then obtain ms where "resolve_selection CATALOG [''ornith-35b''] [''utility''] False = Inr ms"
    by (auto simp: returns_iff)
  with selection_is_what_was_asked show ?thesis by blast
qed

text \<open>the catalogue is well formed: no id twice, and for every model the default quant is one of
  its quants, every size is positive, the category is one of those listed, and the context it is
  served with is within its native one; so an install of the default quant is never refused.\<close>

theorem catalog_well_formed: "list_all model_ok CATALOG \<and> distinct (map m_id CATALOG)"
  using catalog_models_ok catalog_ids_distinct by simp

end
