(* ===== verification/Fetch_Select.thy ===== *)
theory Fetch_Select
  imports Py_Json
begin

text \<open>
  Which files of a repository are downloaded (\<open>scripts/fetch_models.py\<close>): \<open>list_repo_files\<close>
  over the repository's tree document, \<open>_stem_without_shard\<close>, \<open>match_quant\<close>, \<open>match_mmproj\<close> and
  \<open>available_quants\<close>. The two regular expressions are read as predicates: \<open>shard_match\<close> is a
  search of \<open>_SHARD_RE\<close>, whose \<open>$\<close> also matches before a final newline, and \<open>excluded\<close> a search
  of \<open>_EXCLUDE_RE\<close>, part by part of the path. A size in the document is an integer.
\<close>

section \<open>The files of a repository\<close>

record remote_file =
  rf_path :: string
  rf_size :: int
  rf_sha256 :: "string option"

definition rf_name :: "remote_file \<Rightarrow> string" where
  "rf_name f = last (str_split (CHR ''/'') (rf_path f))"

datatype tree_error =
    UnexpectedTree           \<comment> \<open>the response is no list: \<open>die\<close>\<close>
  | MalformedEntry           \<comment> \<open>an entry whose fields have the wrong type: an uncaught exception\<close>

definition or_json :: "json \<Rightarrow> json \<Rightarrow> json" where
  "or_json a b = (if truthy a then a else b)"

definition entry_size :: "jobj \<Rightarrow> jobj \<Rightarrow> (tree_error, int) res" where
  "entry_size lfs entry =
     (case or_json (or_json (jget lfs ''size'') (jget entry ''size'')) (JInt 0) of
        JInt n \<Rightarrow> Inr n | JBool b \<Rightarrow> Inr (if b then 1 else 0) | _ \<Rightarrow> Inl MalformedEntry)"

definition list_entry :: "remote_file list \<Rightarrow> json \<Rightarrow> (tree_error, remote_file list) res" where
  "list_entry files e =
     (case e of
        JObj entry \<Rightarrow>
          if jget entry ''type'' = JStr ''directory'' then Inr files
          else (case (case dget entry ''path'' of None \<Rightarrow> JStr [] | Some p \<Rightarrow> p) of
              JStr p \<Rightarrow>
                if \<not> ends_with (str_lower p) ''.gguf'' then Inr files
                else (case or_json (jget entry ''lfs'') (JObj []) of
                    JObj lfs \<Rightarrow> bindE (entry_size lfs entry) (\<lambda>size.
                      Inr (files @ [\<lparr>rf_path = p, rf_size = size, rf_sha256 = the_str (jget lfs ''oid'')\<rparr>]))
                  | _ \<Rightarrow> Inl MalformedEntry)
            | _ \<Rightarrow> Inl MalformedEntry)
      | _ \<Rightarrow> Inr files)"

definition list_repo_files :: "json \<Rightarrow> (tree_error, remote_file list) res" where
  "list_repo_files doc = (case doc of JArr entries \<Rightarrow> foldE list_entry [] entries | _ \<Rightarrow> Inl UnexpectedTree)"

section \<open>Shards and exclusions\<close>

definition shard_text :: "string \<Rightarrow> bool" where
  \<comment> \<open>\<open>-(\d{5})-of-(\d{5})\.gguf\<close>, \<open>re.IGNORECASE\<close>, against a whole text\<close>
  "shard_text t = (length t = 20 \<and> take 1 t = ''-'' \<and> list_all is_digit (take 5 (drop 1 t))
     \<and> str_lower (take 4 (drop 6 t)) = ''-of-'' \<and> list_all is_digit (take 5 (drop 10 t))
     \<and> str_lower (drop 15 t) = ''.gguf'')"

definition shard_match :: "string \<Rightarrow> (string \<times> nat \<times> string) option" where
  \<comment> \<open>what precedes the match, its second group as a number, what follows it\<close>
  "shard_match s =
     (let n = (if s \<noteq> [] \<and> last s = CHR 0x0A then length s - 1 else length s);
          body = take n s; hit = drop (n - 20) body in
      if shard_text hit then Some (take (n - 20) body, nat_of_digits (take 5 (drop 10 hit)), drop n s) else None)"

definition stem_without_shard :: "string \<Rightarrow> string" where
  "stem_without_shard path =
     (let stem = (case shard_match path of None \<Rightarrow> path | Some (a, _, b) \<Rightarrow> a @ b) in
      if ends_with (str_lower stem) ''.gguf'' then take (length stem - 5) stem else stem)"

definition excluded :: "string \<Rightarrow> bool" where
  "excluded path =
     (let parts = map str_lower (str_split (CHR ''/'') path) in
      list_ex (\<lambda>p. list_ex (\<lambda>w. list_ex (\<lambda>c. starts_with p (w @ [c])) ''-_.'') [''mmproj'', ''mtp'']) parts
      \<or> list_ex (\<lambda>p. p = ''mtp'') (butlast parts))"

section \<open>The group of a quant\<close>

type_synonym group_key = "string \<times> nat"

definition quant_hit :: "string \<Rightarrow> string \<Rightarrow> bool" where
  "quant_hit quant path =
     list_ex (\<lambda>p. str_lower p = str_lower quant \<or> ends_with (str_lower p) (CHR ''-'' # str_lower quant))
       (str_split (CHR ''/'') (stem_without_shard path))"

definition candidate :: "string \<Rightarrow> remote_file \<Rightarrow> bool" where
  "candidate quant f = (\<not> excluded (rf_path f) \<and> quant_hit quant (rf_path f))"

definition group_of :: "remote_file \<Rightarrow> group_key" where
  "group_of f = (stem_without_shard (rf_path f), case shard_match (rf_path f) of None \<Rightarrow> 0 | Some (_, n, _) \<Rightarrow> n)"

definition add_to_group ::
  "(group_key, remote_file list) dict \<Rightarrow> remote_file \<Rightarrow> (group_key, remote_file list) dict" where
  \<comment> \<open>\<open>groups.setdefault(key, []).append(f)\<close>\<close>
  "add_to_group groups f =
     dset (group_of f) ((case dget groups (group_of f) of None \<Rightarrow> [] | Some fs \<Rightarrow> fs) @ [f]) groups"

definition quant_groups :: "remote_file list \<Rightarrow> string \<Rightarrow> (group_key, remote_file list) dict" where
  "quant_groups files quant = foldl add_to_group [] (filter (candidate quant) files)"

definition whole :: "group_key \<times> remote_file list \<Rightarrow> bool" where
  "whole g = (snd (fst g) = 0 \<or> length (snd g) = snd (fst g))"

definition group_rank :: "group_key \<times> remote_file list \<Rightarrow> nat \<times> nat \<times> nat" where
  "group_rank g = (length (snd g), length (filter (\<lambda>c. c = CHR ''/'') (fst (fst g))), length (fst (fst g)))"

fun min_by :: "('a \<Rightarrow> 'b::linorder) \<Rightarrow> 'a list \<Rightarrow> 'a option" where
  \<comment> \<open>\<open>min(xs, key=f)\<close>: the first of the least\<close>
  "min_by f [] = None"
| "min_by f (x # xs) = (case min_by f xs of None \<Rightarrow> Some x | Some y \<Rightarrow> if f x \<le> f y then Some x else Some y)"

definition match_quant :: "remote_file list \<Rightarrow> string \<Rightarrow> remote_file list" where
  "match_quant files quant =
     (let groups = quant_groups files quant; complete = filter whole groups in
      case min_by group_rank (if complete \<noteq> [] then complete else groups) of
        None \<Rightarrow> []
      | Some (_, fs) \<Rightarrow> sort_key rf_path fs)"

definition match_mmproj :: "remote_file list \<Rightarrow> string \<Rightarrow> remote_file option" where
  "match_mmproj files precision =
     (let candidates = filter (\<lambda>f. str_in ''mmproj'' (str_lower (rf_path f))) files in
      case find (\<lambda>f. str_in (str_lower precision) (str_lower (rf_path f))) candidates of
        Some f \<Rightarrow> Some f
      | None \<Rightarrow> min_by rf_size candidates)"

definition quant_token :: "string \<Rightarrow> string" where
  "quant_token path = last (str_split (CHR ''-'') (last (str_split (CHR ''/'') (stem_without_shard path))))"

definition available_quants :: "remote_file list \<Rightarrow> (string, int) dict" where
  "available_quants files =
     foldl (\<lambda>out f. let token = quant_token (rf_path f) in
         dset token ((case dget out token of None \<Rightarrow> 0 | Some n \<Rightarrow> n) + rf_size f) out)
       [] (filter (\<lambda>f. \<not> excluded (rf_path f)) files)"

end
