(* ===== verification/Fetch_Download.thy ===== *)
theory Fetch_Download
  imports Fetch_Select Py_Path
begin

text \<open>
  The resumable download of one file (\<open>download_file\<close>, \<open>_download_range\<close> and \<open>_download_stream\<close> of
  \<open>scripts/fetch_models.py\<close>). A file is stop into chunks that up to \<open>connections\<close> workers fetch with
  range requests and write into one \<open>.part\<close> file at their offsets; a \<open>.part.json\<close> file records the
  chunks that are done, so that a later run goes on. The workers, the server and the end of the
  process are a list of events: \<open>dl_step\<close> is what one event does, and a list that stops early is
  a process that was killed there. A write succeeds; adding a chunk and recording it is one event,
  because the code holds a lock over both.
\<close>

section \<open>Files of bytes\<close>

definition fs_bytes :: "fs \<Rightarrow> path \<Rightarrow> bytes" where
  "fs_bytes t p = (case dget t p of Some (NBin b) \<Rightarrow> b | Some (NFile s) \<Rightarrow> text_bytes s | _ \<Rightarrow> [])"

definition fs_put :: "path \<Rightarrow> bytes \<Rightarrow> fs \<Rightarrow> fs" where
  "fs_put p b t = dset p (NBin b) t"

definition fs_unlink :: "path \<Rightarrow> fs \<Rightarrow> fs" where
  \<comment> \<open>\<open>unlink(missing_ok=True)\<close>\<close>
  "fs_unlink p t = filter (\<lambda>e. fst e \<noteq> p) t"

definition fs_rename :: "path \<Rightarrow> path \<Rightarrow> fs \<Rightarrow> fs" where
  \<comment> \<open>\<open>p.replace(q)\<close> of a \<open>p\<close> that is there\<close>
  "fs_rename p q t = (case dget t p of None \<Rightarrow> t | Some n \<Rightarrow> dset q n (fs_unlink p t))"

definition sibling :: "path \<Rightarrow> string \<Rightarrow> path" where
  \<comment> \<open>\<open>p.with_name(p.name + ext)\<close>\<close>
  "sibling p ext = Path (path_root p) (butlast (path_parts p) @ [path_name p @ ext])"

definition pwrite :: "bytes \<Rightarrow> nat \<Rightarrow> bytes \<Rightarrow> bytes" where
  \<comment> \<open>\<open>os.pwrite(fd, data, offset)\<close>; a gap past the end reads as zeros\<close>
  "pwrite file offset data =
     (let padded = file @ replicate (offset - length file) 0 in
      take offset padded @ data @ drop (offset + length data) padded)"

section \<open>Chunks\<close>

definition CHUNK_SIZE :: nat where "CHUNK_SIZE = 32 * 1024 * 1024"

definition n_chunks :: "nat \<Rightarrow> nat" where
  "n_chunks n = max 1 ((n + CHUNK_SIZE - 1) div CHUNK_SIZE)"

definition chunk_start :: "nat \<Rightarrow> nat" where
  "chunk_start idx = idx * CHUNK_SIZE"

definition chunk_stop :: "nat \<Rightarrow> nat \<Rightarrow> nat" where
  \<comment> \<open>\<open>end + 1\<close> for the inclusive \<open>end\<close> of the code\<close>
  "chunk_stop n idx = min (chunk_start idx + CHUNK_SIZE) n"

section \<open>The record of what is done\<close>

datatype dl_error =
    BadState                 \<comment> \<open>a state file of another shape than \<open>_flush\<close> writes: an uncaught exception\<close>
  | ChunkFailed string
  | SizeMismatch string

definition part_path :: "path \<Rightarrow> path" where "part_path dest = sibling dest ''.part''"
definition state_path :: "path \<Rightarrow> path" where "state_path dest = sibling dest ''.part.json''"
definition state_tmp :: "path \<Rightarrow> path" where "state_tmp dest = sibling dest ''.part.json.tmp''"

definition done_indices :: "jobj \<Rightarrow> (dl_error, int list) res" where
  "done_indices state =
     (case dget state ''done'' of
        None \<Rightarrow> Inr []
      | Some (JArr xs) \<Rightarrow> mapE (\<lambda>x. case x of JInt n \<Rightarrow> Inr n | _ \<Rightarrow> Inl BadState) xs
      | Some _ \<Rightarrow> Inl BadState)"

definition read_state :: "fs \<Rightarrow> path \<Rightarrow> nat \<Rightarrow> (dl_error, int list) res" where
  "read_state t dest n =
     (case fs_read t (state_path dest) of
        None \<Rightarrow> Inr []
      | Some s \<Rightarrow> (case json_loads s of
            None \<Rightarrow> Inr []
          | Some (JObj state) \<Rightarrow>
              if py_eq_int (jget state ''size'') (int n) \<and> py_eq_int (jget state ''chunk_size'') (int CHUNK_SIZE)
              then done_indices state else Inr []
          | Some _ \<Rightarrow> Inl BadState))"

definition load_done :: "fs \<Rightarrow> path \<Rightarrow> nat \<Rightarrow> (dl_error, int list) res" where
  "load_done t dest n =
     (if fs_exists t (part_path dest) \<and> fs_exists t (state_path dest)
      then bindE (read_state t dest n) (\<lambda>ds. Inr (remdups ds)) else Inr [])"

definition state_json :: "nat \<Rightarrow> int list \<Rightarrow> json" where
  "state_json n ds = JObj [(''size'', JInt (int n)), (''chunk_size'', JInt (int CHUNK_SIZE)),
     (''done'', JArr (map JInt (sort ds)))]"

definition flush_state :: "path \<Rightarrow> nat \<Rightarrow> int list \<Rightarrow> fs \<Rightarrow> fs" where
  \<comment> \<open>\<open>_flush\<close>\<close>
  "flush_state dest n ds t =
     fs_rename (state_tmp dest) (state_path dest) (fs_write (state_tmp dest) (json_dumps (state_json n ds)) t)"

section \<open>Workers and events\<close>

datatype worker = Waiting | Reading nat nat \<comment> \<open>the attempt and the offset\<close> | Fetched | Failed

datatype dl_phase = Transfer | Renamed | Complete | Raised dl_error

record download =
  d_fs :: fs
  d_done :: "int list"
  d_workers :: "(nat, worker) dict"
  d_progress :: int
  d_phase :: dl_phase

datatype dl_event =
    Start nat            \<comment> \<open>the pool takes the next chunk\<close>
  | Block nat bytes      \<comment> \<open>\<open>resp.read\<close> returned a block\<close>
  | End nat              \<comment> \<open>\<open>resp.read\<close> returned nothing\<close>
  | Fault nat            \<comment> \<open>a \<open>URLError\<close> or \<open>OSError\<close>, also of the request itself\<close>
  | Crash nat            \<comment> \<open>any other exception\<close>
  | Join                 \<comment> \<open>every future is done\<close>
  | Cleanup              \<comment> \<open>the state file is removed\<close>

definition is_reading :: "worker \<Rightarrow> bool" where
  "is_reading w = (case w of Reading _ _ \<Rightarrow> True | _ \<Rightarrow> False)"

definition set_worker :: "nat \<Rightarrow> worker \<Rightarrow> download \<Rightarrow> download" where
  "set_worker i w d = d\<lparr>d_workers := dset i w (d_workers d)\<rparr>"

definition worker_fault :: "nat \<Rightarrow> nat \<Rightarrow> nat \<Rightarrow> download \<Rightarrow> download" where
  \<comment> \<open>the handler of \<open>worker\<close>: three retries, each from the start of the chunk\<close>
  "worker_fault n i attempt d =
     (if attempt < 3 then
        set_worker i (Reading (attempt + 1) (chunk_start i))
          (d\<lparr>d_progress := d_progress d - (int (chunk_stop n i) - int (chunk_start i))\<rparr>)
      else set_worker i Failed d)"

definition worker_step :: "path \<Rightarrow> nat \<Rightarrow> nat \<Rightarrow> nat \<Rightarrow> nat \<Rightarrow> dl_event \<Rightarrow> download \<Rightarrow> download option" where
  \<comment> \<open>a step of the worker that reads chunk \<open>i\<close> and is at \<open>offset\<close>\<close>
  "worker_step dest n i attempt offset ev d =
     (case ev of
        Block _ b \<Rightarrow>
          if b = [] then None
          else Some (set_worker i (Reading attempt (offset + length b))
            (d\<lparr>d_fs := fs_put (part_path dest) (pwrite (fs_bytes (d_fs d) (part_path dest)) offset b) (d_fs d),
               d_progress := d_progress d + int (length b)\<rparr>))
      | End _ \<Rightarrow>
          if offset \<noteq> chunk_stop n i then Some (worker_fault n i attempt d)
          else (let ds = List.insert (int i) (d_done d) in
            Some (set_worker i Fetched (d\<lparr>d_done := ds, d_fs := flush_state dest n ds (d_fs d)\<rparr>)))
      | Fault _ \<Rightarrow> Some (worker_fault n i attempt d)
      | Crash _ \<Rightarrow> Some (set_worker i Failed d)
      | _ \<Rightarrow> None)"

definition next_waiting :: "download \<Rightarrow> nat option" where
  "next_waiting d = map_option fst (find (\<lambda>p. snd p = Waiting) (d_workers d))"

definition join_step :: "path \<Rightarrow> nat \<Rightarrow> download \<Rightarrow> download option" where
  "join_step dest n d =
     (if list_ex (\<lambda>p. snd p = Waiting \<or> is_reading (snd p)) (d_workers d) then None
      else if list_ex (\<lambda>p. snd p = Failed) (d_workers d) then Some (d\<lparr>d_phase := Raised (ChunkFailed (path_name dest))\<rparr>)
      else if d_workers d \<noteq> [] \<and> fs_size (d_fs d) (part_path dest) \<noteq> n
      then Some (d\<lparr>d_phase := Raised (SizeMismatch (path_name dest))\<rparr>)
      else Some (d\<lparr>d_phase := Renamed, d_fs := fs_rename (part_path dest) dest (d_fs d)\<rparr>))"

fun event_chunk :: "dl_event \<Rightarrow> nat option" where
  "event_chunk (Block i _) = Some i"
| "event_chunk (End i) = Some i"
| "event_chunk (Fault i) = Some i"
| "event_chunk (Crash i) = Some i"
| "event_chunk _ = None"

definition dl_step :: "path \<Rightarrow> nat \<Rightarrow> nat \<Rightarrow> download \<Rightarrow> dl_event \<Rightarrow> download option" where
  "dl_step dest n connections d ev =
     (case d_phase d of
        Transfer \<Rightarrow> (case event_chunk ev of
            Some i \<Rightarrow> (case dget (d_workers d) i of
                Some (Reading attempt offset) \<Rightarrow> worker_step dest n i attempt offset ev d
              | _ \<Rightarrow> None)
          | None \<Rightarrow> (case ev of
              Start i \<Rightarrow>
                if next_waiting d = Some i
                   \<and> length (filter (\<lambda>p. is_reading (snd p)) (d_workers d)) < max 1 connections
                then Some (set_worker i (Reading 0 (chunk_start i)) d) else None
            | Join \<Rightarrow> join_step dest n d
            | _ \<Rightarrow> None))
      | Renamed \<Rightarrow> (case ev of
            Cleanup \<Rightarrow> Some (d\<lparr>d_phase := Complete, d_fs := fs_unlink (state_path dest) (d_fs d)\<rparr>)
          | _ \<Rightarrow> None)
      | _ \<Rightarrow> None)"

fun dl_run :: "path \<Rightarrow> nat \<Rightarrow> nat \<Rightarrow> download \<Rightarrow> dl_event list \<Rightarrow> download option" where
  "dl_run dest n connections d [] = Some d"
| "dl_run dest n connections d (ev # evs) =
     (case dl_step dest n connections d ev of None \<Rightarrow> None | Some d' \<Rightarrow> dl_run dest n connections d' evs)"

section \<open>The whole download\<close>

definition preallocate :: "path \<Rightarrow> nat \<Rightarrow> fs \<Rightarrow> fs" where
  "preallocate dest n t =
     (if \<not> fs_exists t (part_path dest) \<or> fs_size t (part_path dest) \<noteq> n
      then fs_put (part_path dest) (replicate n 0) t else t)"

definition begin_download :: "path \<Rightarrow> nat \<Rightarrow> fs \<Rightarrow> int \<Rightarrow> (dl_error, download) res" where
  "begin_download dest n t progress =
     bindE (load_done t dest n) (\<lambda>ds.
       let t' = preallocate dest n t;
           ds' = (if (\<not> fs_exists t (part_path dest) \<or> fs_size t (part_path dest) \<noteq> n)
                     \<and> fs_size t' (part_path dest) \<noteq> n then [] else ds)
       in Inr \<lparr>d_fs = t', d_done = ds',
               d_workers = map (\<lambda>i. (i, Waiting)) (filter (\<lambda>i. int i \<notin> set ds') [0..<n_chunks n]),
               d_progress = progress + int (length ds') * int CHUNK_SIZE, d_phase = Transfer\<rparr>)"

datatype dl_outcome = Done | Failure dl_error | Cut

definition outcome_of :: "download \<Rightarrow> dl_outcome" where
  "outcome_of d = (case d_phase d of Complete \<Rightarrow> Done | Raised e \<Rightarrow> Failure e | _ \<Rightarrow> Cut)"

definition download_stream :: "path \<Rightarrow> bytes list \<Rightarrow> nat option \<Rightarrow> fs \<Rightarrow> int \<Rightarrow> fs \<times> int \<times> dl_outcome" where
  \<comment> \<open>size unknown: one stream from the start, killed after some blocks or read to its end\<close>
  "download_stream dest blocks stop t progress =
     (let got = concat (case stop of None \<Rightarrow> blocks | Some k \<Rightarrow> take k blocks);
          t' = fs_put (part_path dest) got t; progress' = progress + int (length got) in
      case stop of None \<Rightarrow> (fs_rename (part_path dest) dest t', progress', Done) | Some _ \<Rightarrow> (t', progress', Cut))"

definition download_file ::
  "remote_file \<Rightarrow> path \<Rightarrow> nat \<Rightarrow> bytes list \<times> nat option \<Rightarrow> dl_event list \<Rightarrow> fs \<Rightarrow> int
   \<Rightarrow> (fs \<times> int \<times> dl_outcome) option" where
  \<comment> \<open>\<open>None\<close>: the events are not those of a run of this code\<close>
  "download_file remote dest connections stream evs t0 progress =
     (let t = fs_mkdir (path_parent dest) t0 in
      if fs_exists t dest \<and> int (fs_size t dest) = rf_size remote then Some (t, progress + rf_size remote, Done)
      else if rf_size remote \<le> 0 then Some (download_stream dest (fst stream) (snd stream) t progress)
      else (case begin_download dest (nat (rf_size remote)) t progress of
          Inl e \<Rightarrow> Some (t, progress, Failure e)
        | Inr d \<Rightarrow> (case dl_run dest (nat (rf_size remote)) connections d evs of
              None \<Rightarrow> None
            | Some d' \<Rightarrow> Some (d_fs d', d_progress d', outcome_of d'))))"

end
