(* ===== verification/Fetch_Install.thy ===== *)
theory Fetch_Install
  imports Fetch_Catalog Fetch_Download Fetch_Gguf Text_Store
begin

text \<open>
  Validation, manifests and the installation of one model (\<open>scripts/fetch_models.py\<close>):
  \<open>validate_files\<close>, \<open>read_manifest\<close>, \<open>manifest_intact\<close>, \<open>installed_models\<close>, \<open>install_model\<close> and the
  loop of \<open>cmd_verify\<close>. What comes from outside is an \<open>install_env\<close>: the tree document of the
  repository, what happens to each download, SHA-256, the time stamp, and how header metadata
  is written as JSON (nothing reads it back). Console output is left out.
\<close>

section \<open>Validation\<close>

record entry =
  e_name :: string
  e_path :: string
  e_size :: int
  e_sha256 :: "string option"

definition entry_json :: "entry \<Rightarrow> json" where
  "entry_json e = JObj [(''name'', JStr (e_name e)), (''path'', JStr (e_path e)), (''size'', JInt (e_size e)),
     (''sha256'', case e_sha256 e of None \<Rightarrow> JNull | Some s \<Rightarrow> JStr s)]"

datatype problem =
    NothingRecorded
  | MissingFile string
  | WrongSize string nat int
  | WrongHash string
  | BadHeader string gguf_error
  | WrongShards int nat

definition gguf_text :: "gguf_error \<Rightarrow> string" where
  "gguf_text e = (case e of BadVersion v \<Rightarrow> ''unsupported GGUF version '' @ str_nat v | _ \<Rightarrow> ''not a GGUF file (bad magic)'')"

definition problem_text :: "problem \<Rightarrow> string" where
  "problem_text p = (case p of
       NothingRecorded \<Rightarrow> ''no files recorded for this model''
     | MissingFile n \<Rightarrow> ''missing file: '' @ n
     | WrongSize n k s \<Rightarrow> ''size mismatch for '' @ n @ '': have '' @ str_nat k @ '', expected '' @ str_int s
     | WrongHash n \<Rightarrow> ''sha256 mismatch for '' @ n
     | BadHeader n e \<Rightarrow> ''GGUF header invalid in '' @ n @ '': '' @ gguf_text e
     | WrongShards d n \<Rightarrow> ''shard count mismatch: GGUF declares '' @ str_int d @ '' shards, downloaded '' @ str_nat n)"

record validation =
  v_problems :: "problem list"
  v_meta :: gmeta

definition v_ok :: "validation \<Rightarrow> bool" where
  "v_ok v = (v_problems v = [])"

definition check_entry :: "(bytes \<Rightarrow> string) \<Rightarrow> fs \<Rightarrow> path \<Rightarrow> bool \<Rightarrow> entry \<Rightarrow> problem list" where
  \<comment> \<open>the body of the loop over the entries\<close>
  "check_entry digest t dir check_hash e =
     (let p = path_join dir (e_name e) in
      if \<not> fs_exists t p then [MissingFile (e_name e)]
      else if int (fs_size t p) \<noteq> e_size e then [WrongSize (e_name e) (fs_size t p) (e_size e)]
      else (case e_sha256 e of
          None \<Rightarrow> []
        | Some s \<Rightarrow> if check_hash \<and> s \<noteq> [] \<and> digest (fs_bytes t p) \<noteq> s then [WrongHash (e_name e)] else []))"

definition declared_shards :: "gmeta \<Rightarrow> int option" where
  \<comment> \<open>a \<open>bool\<close> is an \<open>int\<close> too\<close>
  "declared_shards meta = (case dget meta (ustr_of ''split.count'') of
       Some (GInt n) \<Rightarrow> Some n | Some (GBool b) \<Rightarrow> Some (if b then 1 else 0) | _ \<Rightarrow> None)"

definition validate_files :: "(bytes \<Rightarrow> string) \<Rightarrow> fs \<Rightarrow> path \<Rightarrow> entry list \<Rightarrow> bool \<Rightarrow> validation" where
  "validate_files digest t dir entries check_hash =
     (case entries of
        [] \<Rightarrow> \<lparr>v_problems = [NothingRecorded], v_meta = []\<rparr>
      | e # _ \<Rightarrow>
          let problems = concat (map (check_entry digest t dir check_hash) entries);
              primary = path_join dir (e_name e) in
          if \<not> fs_exists t primary \<or> problems \<noteq> [] then \<lparr>v_problems = problems, v_meta = []\<rparr>
          else (case read_gguf_header (fs_bytes t primary) PROBE_BYTES of
              Inl err \<Rightarrow> \<lparr>v_problems = [BadHeader (path_name primary) err], v_meta = []\<rparr>
            | Inr meta \<Rightarrow> \<lparr>v_problems = (case declared_shards meta of
                  Some n \<Rightarrow> if n \<noteq> 0 \<and> n \<noteq> int (length entries) then [WrongShards n (length entries)] else []
                | None \<Rightarrow> []), v_meta = meta\<rparr>))"

section \<open>Manifests\<close>

definition manifest_path :: "path \<Rightarrow> string \<Rightarrow> path" where
  "manifest_path models_dir i = path_join (path_join models_dir i) ''.manifest.json''"

definition write_json :: "path \<Rightarrow> json \<Rightarrow> fs \<Rightarrow> fs" where
  "write_json p payload t = fs_write p (json_file payload) (fs_mkdir (path_parent p) t)"

definition read_manifest :: "path \<Rightarrow> string \<Rightarrow> fs \<Rightarrow> jobj option" where
  "read_manifest models_dir i t =
     (case fs_read t (manifest_path models_dir i) of
        None \<Rightarrow> None
      | Some s \<Rightarrow> (case json_loads s of Some (JObj d) \<Rightarrow> Some d | _ \<Rightarrow> None))"

text \<open>\<open>None\<close>: a file list of another shape than the one written here (an uncaught exception).\<close>

definition entry_of :: "json \<Rightarrow> entry option" where
  "entry_of j = (case j of
       JObj e \<Rightarrow> (case (if dget e ''name'' = None then JStr [] else jget e ''name'',
                       if dget e ''size'' = None then JInt (-1) else jget e ''size'') of
           (JStr n, JInt s) \<Rightarrow> Some \<lparr>e_name = n, e_path = (case jget e ''path'' of JStr p \<Rightarrow> p | _ \<Rightarrow> []), e_size = s,
               e_sha256 = the_str (jget e ''sha256'')\<rparr>
         | _ \<Rightarrow> None)
     | _ \<Rightarrow> None)"

primrec all_entries :: "json list \<Rightarrow> entry list option" where
  "all_entries [] = Some []"
| "all_entries (j # js) = (case (entry_of j, all_entries js) of (Some e, Some es) \<Rightarrow> Some (e # es) | _ \<Rightarrow> None)"

definition manifest_files :: "jobj \<Rightarrow> entry list option" where
  \<comment> \<open>\<open>man.get("files") or []\<close>\<close>
  "manifest_files man = (if \<not> truthy (jget man ''files'') then Some []
     else (case jget man ''files'' of JArr js \<Rightarrow> all_entries js | _ \<Rightarrow> None))"

definition manifest_intact :: "path \<Rightarrow> string \<Rightarrow> jobj \<Rightarrow> fs \<Rightarrow> bool option" where
  "manifest_intact models_dir i man t = map_option (\<lambda>es. es \<noteq> [] \<and>
     list_all (\<lambda>e. let p = path_join (path_join models_dir i) (e_name e) in
       fs_exists t p \<and> int (fs_size t p) = e_size e) es) (manifest_files man)"

definition installed :: "path \<Rightarrow> string \<Rightarrow> fs \<Rightarrow> jobj option" where
  \<comment> \<open>the manifest of a model that is installed; one with a file list of another shape counts as absent\<close>
  "installed models_dir i t = (case read_manifest models_dir i t of
       Some man \<Rightarrow> if man \<noteq> [] \<and> truthy (jget man ''validated'') \<and> manifest_intact models_dir i man t = Some True
         then Some man else None
     | None \<Rightarrow> None)"

definition installed_models :: "model list \<Rightarrow> path \<Rightarrow> fs \<Rightarrow> (model \<times> jobj) list" where
  "installed_models cat models_dir t =
     List.map_filter (\<lambda>m. map_option (\<lambda>man. (m, man)) (installed models_dir (m_id m) t)) cat"

section \<open>Installing a model\<close>

datatype install_error =
    UnknownQuant string string
  | BadTree tree_error
  | NoFiles string
  | QuantMissing string string "string list"
  | DownloadFailed dl_error
  | NoWeights                 \<comment> \<open>\<open>weights[0]\<close> of an empty list: an uncaught exception\<close>

datatype install_result = Installed bool | Refused install_error | Interrupted

record install_env =
  i_tree :: json
  i_stream :: "remote_file \<Rightarrow> bytes list \<times> nat option"
  i_events :: "remote_file \<Rightarrow> dl_event list"
  i_digest :: "bytes \<Rightarrow> string"
  i_now :: string
  i_meta_json :: "gmeta \<Rightarrow> json"
  i_connections :: nat

definition is_mmproj :: "string \<Rightarrow> bool" where
  "is_mmproj name = str_in ''mmproj'' (str_lower name)"

definition select_files :: "install_env \<Rightarrow> model \<Rightarrow> string \<Rightarrow> bool \<Rightarrow> (install_error, remote_file list) res" where
  "select_files env m quant with_mmproj =
     (case list_repo_files (i_tree env) of
        Inl e \<Rightarrow> Inl (BadTree e)
      | Inr files \<Rightarrow>
          if files = [] then Inl (NoFiles (m_repo m))
          else (let selected = match_quant files quant in
            if selected = [] then Inl (QuantMissing quant (m_repo m) (sort (dkeys (available_quants files))))
            else Inr (case m_mmproj m of
                Some precision \<Rightarrow>
                  if with_mmproj \<and> precision \<noteq> [] then
                    (case match_mmproj files precision of Some p \<Rightarrow> selected @ [p] | None \<Rightarrow> selected)
                  else selected
              | None \<Rightarrow> selected)))"

definition drop_stale :: "path \<Rightarrow> remote_file list \<Rightarrow> fs \<Rightarrow> fs" where
  \<comment> \<open>what \<open>--force\<close> removes\<close>
  "drop_stale dir selected t =
     foldl (\<lambda>t f. let p = path_join dir (rf_name f) in
         fs_unlink (path_join dir (rf_name f @ ''.part.json'')) (fs_unlink (path_join dir (rf_name f @ ''.part'')) (fs_unlink p t)))
       t selected"

fun download_all :: "install_env \<Rightarrow> path \<Rightarrow> remote_file list \<Rightarrow> fs \<Rightarrow> int \<Rightarrow> (fs \<times> int \<times> dl_outcome) option" where
  "download_all env dir [] t p = Some (t, p, Done)"
| "download_all env dir (f # fs) t p =
     (case download_file f (path_join dir (rf_name f)) (i_connections env) (i_stream env f) (i_events env f) t p of
        Some (t', p', Done) \<Rightarrow> download_all env dir fs t' p'
      | r \<Rightarrow> r)"

definition entry_of_remote :: "remote_file \<Rightarrow> entry" where
  "entry_of_remote f = \<lparr>e_name = rf_name f, e_path = rf_path f, e_size = rf_size f, e_sha256 = rf_sha256 f\<rparr>"

definition manifest_head :: "model \<Rightarrow> string \<Rightarrow> jobj" where
  "manifest_head m quant = [(''manifest_version'', JInt 1), (''model_id'', JStr (m_id m)), (''title'', JStr (m_title m)),
     (''repo'', JStr (m_repo m)), (''quant'', JStr quant)]"

definition failed_manifest :: "model \<Rightarrow> string \<Rightarrow> problem list \<Rightarrow> int \<Rightarrow> string \<Rightarrow> entry list \<Rightarrow> jobj" where
  "failed_manifest m quant problems nbytes primary entries = manifest_head m quant @
     [(''validated'', JBool False), (''problems'', JArr (map (JStr \<circ> problem_text) problems)),
      (''total_bytes'', JInt nbytes), (''primary'', JStr primary), (''files'', JArr (map entry_json entries))]"

definition good_manifest :: "install_env \<Rightarrow> model \<Rightarrow> string \<Rightarrow> bool \<Rightarrow> int \<Rightarrow> string \<Rightarrow> entry list \<Rightarrow> gmeta \<Rightarrow> jobj" where
  "good_manifest env m quant check_hash nbytes primary entries meta = manifest_head m quant @
     [(''validated'', JBool True), (''validated_at'', JStr (i_now env)), (''hash_checked'', JBool check_hash),
      (''total_bytes'', JInt nbytes), (''primary'', JStr primary),
      (''mmproj'', case find (\<lambda>e. is_mmproj (e_name e)) entries of None \<Rightarrow> JNull | Some e \<Rightarrow> JStr (e_name e)),
      (''files'', JArr (map entry_json entries)), (''gguf'', i_meta_json env meta)]"

definition record_install ::
  "install_env \<Rightarrow> path \<Rightarrow> model \<Rightarrow> string \<Rightarrow> bool \<Rightarrow> remote_file list \<Rightarrow> fs \<Rightarrow> fs \<times> install_result" where
  \<comment> \<open>from the validation to the end\<close>
  "record_install env models_dir m quant check_hash selected t =
     (let nbytes = sum_list (map rf_size selected);
          entries = map entry_of_remote selected;
          weights = filter (\<lambda>e. \<not> is_mmproj (e_name e)) entries;
          v = validate_files (i_digest env) t (path_join models_dir (m_id m)) weights check_hash;
          mp = manifest_path models_dir (m_id m) in
      if \<not> v_ok v then
        (case weights of
           [] \<Rightarrow> (t, Refused NoWeights)
         | w # _ \<Rightarrow> (write_json mp (JObj (failed_manifest m quant (v_problems v) nbytes (e_name w) entries)) t, Installed False))
      else (write_json mp (JObj (good_manifest env m quant check_hash nbytes (e_name (hd weights)) entries (v_meta v))) t,
            Installed True))"

definition quant_or_default :: "model \<Rightarrow> string option \<Rightarrow> string" where
  "quant_or_default m quant = (case quant of Some q \<Rightarrow> if q = [] then m_default_quant m else q | None \<Rightarrow> m_default_quant m)"

definition already_installed :: "path \<Rightarrow> model \<Rightarrow> string \<Rightarrow> fs \<Rightarrow> bool" where
  "already_installed models_dir m quant t = (case installed models_dir (m_id m) t of
       Some man \<Rightarrow> jget man ''quant'' = JStr quant | None \<Rightarrow> False)"

definition install_model ::
  "install_env \<Rightarrow> path \<Rightarrow> model \<Rightarrow> string option \<Rightarrow> bool \<Rightarrow> bool \<Rightarrow> bool \<Rightarrow> fs \<Rightarrow> (fs \<times> install_result) option" where
  "install_model env models_dir m quant check_hash with_mmproj force t =
     (let q = quant_or_default m quant; dir = path_join models_dir (m_id m) in
      if dget (m_quants m) q = None then Some (t, Refused (UnknownQuant q (m_id m)))
      else if already_installed models_dir m q t \<and> \<not> force then Some (t, Installed True)
      else (case select_files env m q with_mmproj of
          Inl e \<Rightarrow> Some (t, Refused e)
        | Inr selected \<Rightarrow>
            let t1 = fs_mkdir dir t; t2 = (if force then drop_stale dir selected t1 else t1) in
            (case download_all env dir selected t2 0 of
               None \<Rightarrow> None
             | Some (t3, _, Done) \<Rightarrow> Some (record_install env models_dir m q check_hash selected t3)
             | Some (t3, _, Failure e) \<Rightarrow> Some (t3, Refused (DownloadFailed e))
             | Some (t3, _, Cut) \<Rightarrow> Some (t3, Interrupted))))"

section \<open>Checking again\<close>

definition verify_model ::
  "(bytes \<Rightarrow> string) \<Rightarrow> path \<Rightarrow> string \<Rightarrow> bool \<Rightarrow> fs \<Rightarrow> (fs \<times> validation) option" where
  \<comment> \<open>the body of the loop of \<open>cmd_verify\<close>; \<open>None\<close> without a manifest, or with an unreadable file list\<close>
  "verify_model digest models_dir i check_hash t =
     (case read_manifest models_dir i t of
        None \<Rightarrow> None
      | Some man \<Rightarrow> if man = [] then None else (case manifest_files man of
          None \<Rightarrow> None
        | Some es \<Rightarrow>
            let v = validate_files digest t (path_join models_dir i) (filter (\<lambda>e. \<not> is_mmproj (e_name e)) es) check_hash in
            Some (write_json (manifest_path models_dir i) (JObj (dset ''validated'' (JBool (v_ok v)) man)) t, v)))"

end
