(* ===== verification/Fetch_Download_Laws.thy ===== *)
theory Fetch_Download_Laws
  imports Fetch_Download Json_Roundtrip
begin

text \<open>
  A download that is interrupted any number of times ends in the file of the server. The state on
  disk is \<open>good\<close> when every chunk the record calls done holds the server's bytes; a run with any
  interleaving of its workers, any failures and any end keeps that, as long as a response is a
  prefix of the range that was asked for (\<open>honest\<close>). Three lemmas show what the code does outside
  these assumptions: a response longer than its range writes into other chunks, and a record that
  outlived its part file is believed.
\<close>

section \<open>Paths and files\<close>

lemma sibling_eq [simp]: "sibling p a = sibling p b \<longleftrightarrow> a = b"
  by (simp add: sibling_def)

lemma sibling_neq: "a \<noteq> [] \<Longrightarrow> sibling p a \<noteq> p"
proof
  assume a: "a \<noteq> []" and eq: "sibling p a = p"
  then have "path_parts p = butlast (path_parts p) @ [path_name p @ a]"
    by (cases p) (simp add: sibling_def)
  then have "last (path_parts p) = path_name p @ a" "path_parts p \<noteq> []" by (metis last_snoc, metis append_is_Nil_conv list.distinct(1))
  then show False using a by (simp add: path_name_def)
qed

lemma file_paths [simp]:
  "part_path p \<noteq> p" "state_path p \<noteq> p" "state_tmp p \<noteq> p" "part_path p \<noteq> state_path p"
  "part_path p \<noteq> state_tmp p" "state_path p \<noteq> state_tmp p"
  by (simp_all add: part_path_def state_path_def state_tmp_def sibling_neq)

lemmas file_paths' [simp] = file_paths [symmetric]

lemma dget_fs_put [simp]: "dget (fs_put p b t) q = (if q = p then Some (NBin b) else dget t q)"
  by (simp add: fs_put_def)

lemma dget_unlink [simp]: "dget (fs_unlink p t) q = (if q = p then None else dget t q)"
  by (induction t) (auto simp: fs_unlink_def)

lemma dget_rename: "dget t p = Some x \<Longrightarrow> p \<noteq> q \<Longrightarrow>
    dget (fs_rename p q t) r = (if r = q then Some x else if r = p then None else dget t r)"
  by (simp add: fs_rename_def)

lemma dget_flush [simp]:
  "dget (flush_state p n ds t) q =
     (if q = state_path p then Some (NFile (json_dumps (state_json n ds)))
      else if q = state_tmp p then None else dget t q)"
  by (simp add: flush_state_def fs_write_def dget_rename)

lemma dget_mkdir: "q \<notin> set (path_prefixes p) \<Longrightarrow> dget (fs_mkdir p t) q = dget t q"
  by (simp add: fs_mkdir_def dget_mkdir_fold)

lemma sibling_not_above: "sibling p a \<notin> set (path_prefixes (path_parent p))"
proof
  assume "sibling p a \<in> set (path_prefixes (path_parent p))"
  then obtain qs where "butlast (path_parts p) @ [path_name p @ a] = qs" "prefix qs (butlast (path_parts p))"
    by (auto simp: path_prefixes_def sibling_def path_parent_def)
  then show False using prefix_length_le by fastforce
qed

lemma dget_mkdir_sibling [simp]:
  "dget (fs_mkdir (path_parent p) t) (part_path p) = dget t (part_path p)"
  "dget (fs_mkdir (path_parent p) t) (state_path p) = dget t (state_path p)"
  by (simp_all add: dget_mkdir sibling_not_above part_path_def state_path_def)

section \<open>Bytes that agree\<close>

definition agree :: "bytes \<Rightarrow> bytes \<Rightarrow> nat \<Rightarrow> nat \<Rightarrow> bool" where
  "agree b c lo hi = (length b = length c \<and> (\<forall>k. lo \<le> k \<and> k < hi \<longrightarrow> b ! k = c ! k))"

lemma agree_empty: "length b = length c \<Longrightarrow> agree b c lo lo"
  by (auto simp: agree_def)

lemma pwrite_inside: "off + length s \<le> length b \<Longrightarrow> pwrite b off s = take off b @ s @ drop (off + length s) b"
  by (simp add: pwrite_def Let_def)

lemma pwrite_honest:
  assumes "length b = length c" "off + length s \<le> length c" "s = take (length s) (drop off c)"
  shows "length (pwrite b off s) = length c"
    and "k < length c \<Longrightarrow> pwrite b off s ! k = (if off \<le> k \<and> k < off + length s then c ! k else b ! k)"
proof -
  have p: "pwrite b off s = take off b @ s @ drop (off + length s) b"
    using assms by (simp add: pwrite_inside)
  then show "length (pwrite b off s) = length c" using assms(1,2) by simp
  assume k: "k < length c"
  have s: "s ! j = c ! (off + j)" if "j < length s" for j
    using that assms(2) arg_cong [OF assms(3), of "\<lambda>x. x ! j"] by simp
  show "pwrite b off s ! k = (if off \<le> k \<and> k < off + length s then c ! k else b ! k)"
    using k assms(1,2) s [of "k - off"] by (auto simp: p nth_append)
qed

lemma agree_pwrite:
  assumes "length b = length c" "off + length s \<le> length c" "s = take (length s) (drop off c)" "hi \<le> length c"
  shows "agree b c lo hi \<Longrightarrow> agree (pwrite b off s) c lo hi"
    and "agree b c lo off \<Longrightarrow> agree (pwrite b off s) c lo (off + length s)"
  using assms pwrite_honest [OF assms(1-3)] by (auto simp: agree_def)

lemma agree_all: "agree b c 0 (length c) \<Longrightarrow> b = c"
  by (auto simp: agree_def intro: nth_equalityI)

section \<open>Chunks cover the file\<close>

lemma chunk_size_pos [simp]: "0 < CHUNK_SIZE" "CHUNK_SIZE \<noteq> 0"
  by (simp_all add: CHUNK_SIZE_def)

lemma chunk_stop_le: "chunk_stop n i \<le> n"
  by (simp add: chunk_stop_def)

lemma chunk_start_less: "i < n_chunks n \<Longrightarrow> 0 < n \<Longrightarrow> chunk_start i < chunk_stop n i"
proof -
  assume i: "i < n_chunks n" and n: "0 < n"
  have "i * CHUNK_SIZE < n"
  proof (cases "i = 0")
    case False
    then have "Suc i \<le> (n + CHUNK_SIZE - 1) div CHUNK_SIZE" using i by (simp add: n_chunks_def)
    then have "Suc i * CHUNK_SIZE \<le> n + CHUNK_SIZE - 1" by (simp add: less_eq_div_iff_mult_less_eq)
    moreover have "Suc i * CHUNK_SIZE = CHUNK_SIZE + i * CHUNK_SIZE" by simp
    ultimately show ?thesis using chunk_size_pos by linarith
  qed (use n in simp)
  then show "chunk_start i < chunk_stop n i" by (simp add: chunk_start_def chunk_stop_def)
qed

lemma chunks_cover:
  assumes "k < n"
  shows "\<exists>i < n_chunks n. chunk_start i \<le> k \<and> k < chunk_stop n i"
proof (intro exI [of _ "k div CHUNK_SIZE"] conjI)
  have "Suc (k div CHUNK_SIZE) \<le> (n + CHUNK_SIZE - 1) div CHUNK_SIZE"
  proof -
    have "Suc (k div CHUNK_SIZE) = (k + CHUNK_SIZE) div CHUNK_SIZE" by (simp add: div_add_self2)
    also have "\<dots> \<le> (n + CHUNK_SIZE - 1) div CHUNK_SIZE" using assms by (intro div_le_mono) simp
    finally show ?thesis .
  qed
  then show "k div CHUNK_SIZE < n_chunks n" by (simp add: n_chunks_def)
  show "chunk_start (k div CHUNK_SIZE) \<le> k" by (simp add: chunk_start_def)
  have "k < k div CHUNK_SIZE * CHUNK_SIZE + CHUNK_SIZE" using dividend_less_div_times [of CHUNK_SIZE k] by (simp add: add.commute)
  then show "k < chunk_stop n (k div CHUNK_SIZE)" using assms by (simp add: chunk_stop_def chunk_start_def)
qed

section \<open>Invariant\<close>

definition part_agrees :: "path \<Rightarrow> bytes \<Rightarrow> fs \<Rightarrow> nat \<Rightarrow> nat \<Rightarrow> bool" where
  "part_agrees dest c t lo hi = (\<exists>b. dget t (part_path dest) = Some (NBin b) \<and> agree b c lo hi)"

definition chunk_agrees :: "path \<Rightarrow> bytes \<Rightarrow> fs \<Rightarrow> nat \<Rightarrow> bool" where
  "chunk_agrees dest c t i = part_agrees dest c t (chunk_start i) (chunk_stop (length c) i)"

text \<open>What is recorded as done holds the server's bytes; the part file is a file of bytes.\<close>

definition sound :: "path \<Rightarrow> bytes \<Rightarrow> fs \<Rightarrow> bool" where
  "sound dest c t = ((\<forall>s. dget t (part_path dest) \<noteq> Some (NFile s)) \<and> (\<forall>ds. read_state t dest (length c) = Inr ds \<longrightarrow>
     (\<forall>i < n_chunks (length c). int i \<in> set ds \<longrightarrow> chunk_agrees dest c t i)))"

definition good :: "path \<Rightarrow> bytes \<Rightarrow> fs \<Rightarrow> bool" where
  "good dest c t = ((fs_exists t dest \<and> fs_size t dest = length c \<longrightarrow> dget t dest = Some (NBin c))
     \<and> (dget t dest = Some (NBin c) \<or> sound dest c t))"

definition worker_ok :: "path \<Rightarrow> bytes \<Rightarrow> download \<Rightarrow> nat \<Rightarrow> bool" where
  "worker_ok dest c d i = (case dget (d_workers d) i of
       Some (Reading a off) \<Rightarrow> chunk_start i \<le> off \<and> off \<le> chunk_stop (length c) i
         \<and> part_agrees dest c (d_fs d) (chunk_start i) off
     | Some Fetched \<Rightarrow> int i \<in> set (d_done d)
     | Some _ \<Rightarrow> True
     | None \<Rightarrow> i < n_chunks (length c) \<longrightarrow> int i \<in> set (d_done d))"

definition transfer_ok :: "path \<Rightarrow> bytes \<Rightarrow> download \<Rightarrow> bool" where
  "transfer_ok dest c d = ((\<exists>b. dget (d_fs d) (part_path dest) = Some (NBin b) \<and> length b = length c)
     \<and> (\<forall>i < n_chunks (length c). int i \<in> set (d_done d) \<longrightarrow> chunk_agrees dest c (d_fs d) i)
     \<and> (\<forall>i. worker_ok dest c d i)
     \<and> (\<forall>i \<in> set (map fst (d_workers d)). i < n_chunks (length c))
     \<and> sound dest c (d_fs d)
     \<and> \<not> (fs_exists (d_fs d) dest \<and> fs_size (d_fs d) dest = length c))"

definition dl_inv :: "path \<Rightarrow> bytes \<Rightarrow> download \<Rightarrow> bool" where
  "dl_inv dest c d = (case d_phase d of
       Renamed \<Rightarrow> dget (d_fs d) dest = Some (NBin c)
     | Complete \<Rightarrow> dget (d_fs d) dest = Some (NBin c)
     | _ \<Rightarrow> transfer_ok dest c d)"

text \<open>A response is a prefix of the range that was requested.\<close>

definition honest_event :: "bytes \<Rightarrow> download \<Rightarrow> dl_event \<Rightarrow> bool" where
  "honest_event c d ev = (case ev of
       Block i s \<Rightarrow> (case dget (d_workers d) i of
           Some (Reading a off) \<Rightarrow> off + length s \<le> chunk_stop (length c) i \<and> s = take (length s) (drop off c)
         | _ \<Rightarrow> True)
     | _ \<Rightarrow> True)"

fun honest :: "path \<Rightarrow> bytes \<Rightarrow> nat \<Rightarrow> download \<Rightarrow> dl_event list \<Rightarrow> bool" where
  "honest dest c k d [] = True"
| "honest dest c k d (ev # evs) = (honest_event c d ev \<and>
     (case dl_step dest (length c) k d ev of None \<Rightarrow> True | Some d' \<Rightarrow> honest dest c k d' evs))"

lemma read_state_flush [simp]:
  "read_state (flush_state dest n ds t) dest n = Inr (sort ds)"
proof -
  have "float_free (state_json n ds)" "json_ok (state_json n ds)"
    by (auto simp: state_json_def)
  then have "json_loads (json_dumps (state_json n ds)) = Some (state_json n ds)"
    by (simp add: json_dumps_def json_loads_dump)
  moreover have "mapE (\<lambda>x. case x of JInt n \<Rightarrow> Inr n | _ \<Rightarrow> Inl BadState) (map JInt xs) = Inr xs" for xs
    by (induction xs) auto
  ultimately show ?thesis
    by (simp add: read_state_def fs_read_def state_json_def jget_def done_indices_def)
qed

lemma read_state_cong:
  "dget t (state_path dest) = dget t' (state_path dest) \<Longrightarrow> read_state t dest n = read_state t' dest n"
  by (simp add: read_state_def fs_read_def)

text \<open>The part file is the only thing the agreement of chunks depends on.\<close>

lemma part_agrees_cong:
  "dget t (part_path dest) = dget t' (part_path dest) \<Longrightarrow> part_agrees dest c t lo hi = part_agrees dest c t' lo hi"
  by (simp add: part_agrees_def)

lemma chunk_agrees_cong:
  "dget t (part_path dest) = dget t' (part_path dest) \<Longrightarrow> chunk_agrees dest c t i = chunk_agrees dest c t' i"
  unfolding chunk_agrees_def by (rule part_agrees_cong)

lemma worker_ok_cong:
  assumes "dget (d_fs d) (part_path dest) = dget (d_fs d') (part_path dest)" "d_done d = d_done d'"
    "dget (d_workers d) i = dget (d_workers d') i"
  shows "worker_ok dest c d i = worker_ok dest c d' i"
  using assms part_agrees_cong [OF assms(1)] by (simp add: worker_ok_def split: option.split worker.split)

text \<open>A worker that did not fetch its chunk and whose bytes so far agree.\<close>

lemma transfer_set_worker:
  assumes inv: "transfer_ok dest c d" and i: "i \<in> set (map fst (d_workers d))"
    and w: "case w of Reading a off \<Rightarrow> chunk_start i \<le> off \<and> off \<le> chunk_stop (length c) i
         \<and> part_agrees dest c (d_fs d) (chunk_start i) off | Fetched \<Rightarrow> False | _ \<Rightarrow> True"
  shows "transfer_ok dest c (set_worker i w (d\<lparr>d_progress := p\<rparr>))"
proof -
  let ?d = "set_worker i w (d\<lparr>d_progress := p\<rparr>)"
  have "worker_ok dest c ?d j" for j
  proof (cases "j = i")
    case True
    then show ?thesis using w by (simp add: worker_ok_def set_worker_def split: worker.splits)
  next
    case False
    then have "worker_ok dest c ?d j = worker_ok dest c d j"
      by (intro worker_ok_cong) (simp_all add: set_worker_def)
    then show ?thesis using inv by (simp add: transfer_ok_def)
  qed
  then show ?thesis using inv i by (auto simp: transfer_ok_def set_worker_def)
qed

lemma worker_of: "dget (d_workers d) i = Some w \<Longrightarrow> i \<in> set (map fst (d_workers d))"
  by (force dest: dget_in_set)

lemma transfer_chunk: "transfer_ok dest c d \<Longrightarrow> i \<in> set (map fst (d_workers d)) \<Longrightarrow> i < n_chunks (length c)"
  unfolding transfer_ok_def by blast

lemma reading_ok:
  assumes "transfer_ok dest c d" "dget (d_workers d) i = Some (Reading a off)"
  shows "i < n_chunks (length c)" "chunk_start i \<le> off" "off \<le> chunk_stop (length c) i"
    "part_agrees dest c (d_fs d) (chunk_start i) off"
proof -
  have "worker_ok dest c d i" using assms(1) by (simp add: transfer_ok_def)
  then show "chunk_start i \<le> off" "off \<le> chunk_stop (length c) i" "part_agrees dest c (d_fs d) (chunk_start i) off"
    using assms(2) by (simp_all add: worker_ok_def)
  show "i < n_chunks (length c)" by (rule transfer_chunk [OF assms(1) worker_of [OF assms(2)]])
qed

lemma restart_ok:
  assumes "transfer_ok dest c d" "i \<in> set (map fst (d_workers d))" "c \<noteq> []"
  shows "transfer_ok dest c (set_worker i (Reading a (chunk_start i)) (d\<lparr>d_progress := p\<rparr>))"
proof (rule transfer_set_worker [OF assms(1,2)])
  note i = transfer_chunk [OF assms(1,2)]
  obtain b where "dget (d_fs d) (part_path dest) = Some (NBin b)" "length b = length c"
    using assms(1) by (auto simp: transfer_ok_def)
  then have "part_agrees dest c (d_fs d) (chunk_start i) (chunk_start i)"
    by (auto simp: part_agrees_def agree_empty)
  then show "case Reading a (chunk_start i) of
      Reading a off \<Rightarrow> chunk_start i \<le> off \<and> off \<le> chunk_stop (length c) i \<and> part_agrees dest c (d_fs d) (chunk_start i) off
    | Fetched \<Rightarrow> False | _ \<Rightarrow> True"
    using chunk_start_less [OF i] assms(3) by simp
qed

lemma fail_ok:
  assumes "transfer_ok dest c d" "i \<in> set (map fst (d_workers d))"
  shows "transfer_ok dest c (set_worker i Failed d)"
  using transfer_set_worker [OF assms, of Failed "d_progress d"] by simp

lemma fault_ok:
  assumes "transfer_ok dest c d" "i \<in> set (map fst (d_workers d))" "c \<noteq> []"
  shows "transfer_ok dest c (worker_fault n i a d)"
  using restart_ok [OF assms] fail_ok [OF assms(1,2)] by (simp add: worker_fault_def)

lemma transfer_fields:
  assumes "transfer_ok dest c d"
  shows "\<exists>b. dget (d_fs d) (part_path dest) = Some (NBin b) \<and> length b = length c"
    and "i < n_chunks (length c) \<Longrightarrow> int i \<in> set (d_done d) \<Longrightarrow> chunk_agrees dest c (d_fs d) i"
    and "worker_ok dest c d i" and "sound dest c (d_fs d)"
  using assms by (simp_all add: transfer_ok_def)

text \<open>A block within its range: no agreement is lost, and the worker's own grows.\<close>

lemma block_ok:
  assumes inv: "transfer_ok dest c d" and r: "dget (d_workers d) i = Some (Reading a off)"
    and s: "off + length s \<le> chunk_stop (length c) i" "s = take (length s) (drop off c)"
  shows "transfer_ok dest c (set_worker i (Reading a (off + length s))
     (d\<lparr>d_fs := fs_put (part_path dest) (pwrite (fs_bytes (d_fs d) (part_path dest)) off s) (d_fs d), d_progress := p\<rparr>))"
proof -
  obtain b where b: "dget (d_fs d) (part_path dest) = Some (NBin b)" "length b = length c"
    using transfer_fields(1) [OF inv] by blast
  define t' where "t' = fs_put (part_path dest) (pwrite (fs_bytes (d_fs d) (part_path dest)) off s) (d_fs d)"
  have room: "off + length s \<le> length c" using s(1) chunk_stop_le [of "length c" i] by linarith
  have t': "dget t' q = (if q = part_path dest then Some (NBin (pwrite b off s)) else dget (d_fs d) q)" for q
    using b(1) by (simp add: t'_def fs_bytes_def)
  have keep: "part_agrees dest c t' lo hi" if "part_agrees dest c (d_fs d) lo hi" "hi \<le> length c" for lo hi
    using that b t' agree_pwrite(1) [OF b(2) room s(2) that(2)] by (auto simp: part_agrees_def)
  have grow: "part_agrees dest c t' (chunk_start i) (off + length s)"
  proof -
    have "agree b c (chunk_start i) off" using reading_ok(4) [OF inv r] b(1) by (simp add: part_agrees_def)
    then show ?thesis using t' agree_pwrite(2) [OF b(2) room s(2) le_refl] by (simp add: part_agrees_def)
  qed
  let ?d = "d\<lparr>d_fs := t', d_progress := p\<rparr>"
  have ok: "transfer_ok dest c ?d"
    unfolding transfer_ok_def
  proof (intro conjI allI ballI impI)
    show "\<exists>b'. dget (d_fs ?d) (part_path dest) = Some (NBin b') \<and> length b' = length c"
      using t' pwrite_honest(1) [OF b(2) room s(2)] by simp
    show "chunk_agrees dest c (d_fs ?d) j" if "j < n_chunks (length c)" "int j \<in> set (d_done ?d)" for j
      using that transfer_fields(2) [OF inv, of j] keep chunk_stop_le by (simp add: chunk_agrees_def)
    show "worker_ok dest c ?d j" for j
      using transfer_fields(3) [OF inv, of j] keep chunk_stop_le [of "length c" j]
      by (auto simp: worker_ok_def split: option.splits worker.splits)
    show "j < n_chunks (length c)" if "j \<in> set (map fst (d_workers ?d))" for j
      using that transfer_chunk [OF inv, of j] by simp
    show "sound dest c (d_fs ?d)"
      using transfer_fields(4) [OF inv] t' keep chunk_stop_le read_state_cong [of t' dest "d_fs d"]
      by (auto simp: sound_def chunk_agrees_def)
    show "\<not> (fs_exists (d_fs ?d) dest \<and> fs_size (d_fs ?d) dest = length c)"
      using inv t' by (simp add: transfer_ok_def fs_exists_def dhas_iff fs_size_def)
  qed
  have "transfer_ok dest c (set_worker i (Reading a (off + length s)) (?d\<lparr>d_progress := p\<rparr>))"
    by (rule transfer_set_worker [OF ok]) (use worker_of [OF r] grow s(1) reading_ok(2) [OF inv r] in simp_all)
  then show ?thesis by (simp add: t'_def)
qed

text \<open>A chunk read to its end is recorded.\<close>

lemma fetched_ok:
  assumes inv: "transfer_ok dest c d" and r: "dget (d_workers d) i = Some (Reading a (chunk_stop (length c) i))"
  shows "transfer_ok dest c (set_worker i Fetched (d\<lparr>d_done := List.insert (int i) (d_done d),
     d_fs := flush_state dest (length c) (List.insert (int i) (d_done d)) (d_fs d)\<rparr>))"
proof -
  define ds where "ds = List.insert (int i) (d_done d)"
  define t' where "t' = flush_state dest (length c) ds (d_fs d)"
  let ?d = "set_worker i Fetched (d\<lparr>d_done := ds, d_fs := t'\<rparr>)"
  have part: "dget t' (part_path dest) = dget (d_fs d) (part_path dest)" by (simp add: t'_def)
  have chunks: "chunk_agrees dest c t' j" if "j < n_chunks (length c)" "int j \<in> set ds" for j
  proof (cases "j = i")
    case True
    then show ?thesis
      using reading_ok(4) [OF inv r] part_agrees_cong [OF part] by (simp add: chunk_agrees_def)
  next
    case False
    then show ?thesis
      using that transfer_fields(2) [OF inv] chunk_agrees_cong [OF part] by (simp add: ds_def)
  qed
  have "transfer_ok dest c ?d"
    unfolding transfer_ok_def
  proof (intro conjI allI ballI impI)
    show "\<exists>b. dget (d_fs ?d) (part_path dest) = Some (NBin b) \<and> length b = length c"
      using transfer_fields(1) [OF inv] part by (simp add: set_worker_def)
    show "chunk_agrees dest c (d_fs ?d) j" if "j < n_chunks (length c)" "int j \<in> set (d_done ?d)" for j
      using chunks that by (simp add: set_worker_def)
    show "worker_ok dest c ?d j" for j
      using transfer_fields(3) [OF inv, of j] part_agrees_cong [OF part]
      by (auto simp: worker_ok_def set_worker_def ds_def split: option.splits worker.splits)
    show "j < n_chunks (length c)" if "j \<in> set (map fst (d_workers ?d))" for j
      using that inv worker_of [OF r] by (auto simp: transfer_ok_def set_worker_def)
    show "sound dest c (d_fs ?d)"
      using chunks transfer_fields(1) [OF inv] by (auto simp: sound_def set_worker_def t'_def)
    show "\<not> (fs_exists (d_fs ?d) dest \<and> fs_size (d_fs ?d) dest = length c)"
      using inv by (simp add: transfer_ok_def set_worker_def t'_def fs_exists_def dhas_iff fs_size_def)
  qed
  then show ?thesis by (simp add: ds_def t'_def)
qed

section \<open>Every event keeps the invariant\<close>

lemma all_fetched:
  assumes inv: "transfer_ok dest c d"
    and "\<not> list_ex (\<lambda>p. snd p = Waiting \<or> is_reading (snd p)) (d_workers d)"
    and "\<not> list_ex (\<lambda>p. snd p = Failed) (d_workers d)"
  shows "dget (d_fs d) (part_path dest) = Some (NBin c)"
proof -
  obtain b where b: "dget (d_fs d) (part_path dest) = Some (NBin b)" "length b = length c"
    using transfer_fields(1) [OF inv] by blast
  have "int i \<in> set (d_done d)" if i: "i < n_chunks (length c)" for i
  proof (cases "dget (d_workers d) i")
    case None
    then show ?thesis using transfer_fields(3) [OF inv, of i] i by (simp add: worker_ok_def)
  next
    case (Some w)
    then have "(i, w) \<in> set (d_workers d)" by (rule dget_in_set)
    then have "w = Fetched" using assms(2,3) by (cases w) (auto simp: list_ex_iff is_reading_def)
    then show ?thesis using transfer_fields(3) [OF inv, of i] Some by (simp add: worker_ok_def)
  qed
  then have chunk: "agree b c (chunk_start i) (chunk_stop (length c) i)" if "i < n_chunks (length c)" for i
    using transfer_fields(2) [OF inv that] that b(1) by (simp add: chunk_agrees_def part_agrees_def)
  have "b ! k = c ! k" if "k < length c" for k
    using chunks_cover [OF that] chunk by (auto simp: agree_def)
  then have "b = c" using b(2) by (intro agree_all) (simp add: agree_def)
  then show ?thesis using b(1) by simp
qed

lemma find_SomeD: "find P xs = Some x \<Longrightarrow> x \<in> set xs \<and> P x"
  by (auto simp: find_Some_iff)

lemma next_waiting_in: "next_waiting d = Some i \<Longrightarrow> (i, Waiting) \<in> set (d_workers d)"
  by (auto simp: next_waiting_def dest!: find_SomeD)

lemma next_waiting_worker: "next_waiting d = Some i \<Longrightarrow> i \<in> set (map fst (d_workers d))"
  by (drule next_waiting_in) force

lemma worker_step_phase: "worker_step dest n i a off ev d = Some d' \<Longrightarrow> d_phase d' = d_phase d"
  by (auto simp: worker_step_def worker_fault_def set_worker_def Let_def split: dl_event.splits if_splits)

lemma worker_step_ok:
  assumes "transfer_ok dest c d" "dget (d_workers d) i = Some (Reading a off)" "c \<noteq> []"
    and "event_chunk ev = Some i" "honest_event c d ev" "worker_step dest (length c) i a off ev d = Some d'"
  shows "transfer_ok dest c d'"
proof (cases ev)
  case (Block j s)
  then have j: "j = i" using assms(4) by simp
  then show ?thesis
    using assms(5,6) Block block_ok [OF assms(1,2), of s "d_progress d + int (length s)"] assms(2)
    by (auto simp: worker_step_def honest_event_def split: if_splits)
next
  case (End j)
  show ?thesis
  proof (cases "off = chunk_stop (length c) i")
    case True
    then show ?thesis
      using assms(6) End fetched_ok [OF assms(1), of i a] assms(2) by (simp add: worker_step_def Let_def)
  next
    case False
    then show ?thesis
      using assms(6) End fault_ok [OF assms(1) worker_of [OF assms(2)] assms(3)] by (auto simp: worker_step_def)
  qed
next
  case (Fault j)
  then show ?thesis
    using assms(6) fault_ok [OF assms(1) worker_of [OF assms(2)] assms(3)] by (auto simp: worker_step_def)
next
  case (Crash j)
  then show ?thesis
    using assms(6) fail_ok [OF assms(1) worker_of [OF assms(2)]] by (auto simp: worker_step_def)
qed (use assms(6) in \<open>simp_all add: worker_step_def\<close>)

lemma transfer_phase [simp]: "transfer_ok dest c (d\<lparr>d_phase := x\<rparr>) = transfer_ok dest c d"
proof -
  have "worker_ok dest c (d\<lparr>d_phase := x\<rparr>) i = worker_ok dest c d i" for i by (rule worker_ok_cong) simp_all
  then show ?thesis by (simp add: transfer_ok_def)
qed

lemma join_ok:
  assumes inv: "transfer_ok dest c d" and step: "join_step dest (length c) d = Some d'" and "d_phase d = Transfer"
  shows "dl_inv dest c d'"
proof -
  have idle: "\<not> list_ex (\<lambda>p. snd p = Waiting \<or> is_reading (snd p)) (d_workers d)"
    using step by (auto simp: join_step_def split: if_splits)
  have raised: "dl_inv dest c (d\<lparr>d_phase := Raised e\<rparr>)" for e
    using inv by (simp add: dl_inv_def)
  show ?thesis
  proof (cases "list_ex (\<lambda>p. snd p = Failed) (d_workers d)")
    case True
    then show ?thesis using step idle raised by (auto simp: join_step_def)
  next
    case False
    have part: "dget (d_fs d) (part_path dest) = Some (NBin c)" by (rule all_fetched [OF inv idle False])
    then have "dget (fs_rename (part_path dest) dest (d_fs d)) dest = Some (NBin c)"
      by (simp add: dget_rename)
    then show ?thesis
      using step idle False raised by (auto simp: join_step_def dl_inv_def split: if_splits)
  qed
qed

lemma dl_step_inv:
  assumes "dl_inv dest c d" "c \<noteq> []" "honest_event c d ev" "dl_step dest (length c) k d ev = Some d'"
  shows "dl_inv dest c d'"
proof (cases "d_phase d")
  case Transfer
  then have inv: "transfer_ok dest c d" using assms(1) by (simp add: dl_inv_def)
  show ?thesis
  proof (cases "event_chunk ev")
    case (Some i)
    then obtain a off where r: "dget (d_workers d) i = Some (Reading a off)"
      and step: "worker_step dest (length c) i a off ev d = Some d'"
      using assms(4) Transfer by (auto simp: dl_step_def split: option.splits worker.splits)
    have "transfer_ok dest c d'" by (rule worker_step_ok [OF inv r assms(2) Some assms(3) step])
    moreover have "d_phase d' = Transfer" using worker_step_phase [OF step] Transfer by simp
    ultimately show ?thesis by (simp add: dl_inv_def)
  next
    case None
    then consider i where "ev = Start i" | "ev = Join" | "ev = Cleanup" by (cases ev) auto
    then show ?thesis
    proof cases
      case (1 i)
      then have w: "next_waiting d = Some i" and d': "d' = set_worker i (Reading 0 (chunk_start i)) d"
        using assms(4) Transfer by (auto simp: dl_step_def split: if_splits)
      have "transfer_ok dest c d'"
        using restart_ok [OF inv next_waiting_worker [OF w] assms(2), of 0 "d_progress d"] d' by simp
      then show ?thesis using d' Transfer by (simp add: dl_inv_def set_worker_def)
    next
      case 2
      then have "join_step dest (length c) d = Some d'" using assms(4) Transfer by (simp add: dl_step_def)
      then show ?thesis by (rule join_ok [OF inv _ Transfer])
    next
      case 3
      then show ?thesis using assms(4) Transfer by (simp add: dl_step_def)
    qed
  qed
next
  case Renamed
  then show ?thesis
    using assms(1,4) by (auto simp: dl_step_def dl_inv_def split: dl_event.splits)
qed (use assms(4) in \<open>simp_all add: dl_step_def\<close>)

lemma dl_run_inv:
  "dl_inv dest c d \<Longrightarrow> c \<noteq> [] \<Longrightarrow> honest dest c k d evs \<Longrightarrow> dl_run dest (length c) k d evs = Some d' \<Longrightarrow>
   dl_inv dest c d'"
proof (induction evs arbitrary: d)
  case (Cons ev evs)
  from Cons.prems(4) obtain d1 where d1: "dl_step dest (length c) k d ev = Some d1" "dl_run dest (length c) k d1 evs = Some d'"
    by (auto split: option.splits)
  have "honest_event c d ev" "honest dest c k d1 evs" using Cons.prems(3) d1(1) by auto
  then show ?case
    using Cons.IH [OF dl_step_inv [OF Cons.prems(1,2) _ d1(1)] Cons.prems(2) _ d1(2)] by simp
qed simp

section \<open>Starting and ending a run\<close>

lemma load_done_sound:
  assumes s: "sound dest c t" and l: "load_done t dest (length c) = Inr ds"
    and i: "i < n_chunks (length c)" "int i \<in> set ds"
  shows "chunk_agrees dest c t i"
  using assms by (auto simp: load_done_def sound_def err_simps split: if_splits)

lemma good_start:
  assumes s: "sound dest c t" and fresh: "\<not> (fs_exists t dest \<and> fs_size t dest = length c)"
    and c: "c \<noteq> []" and d: "begin_download dest (length c) t p = Inr d"
  shows "dl_inv dest c d"
proof -
  define t' where "t' = preallocate dest (length c) t"
  have rest: "dget t' q = dget t q" if "q \<noteq> part_path dest" for q using that by (simp add: t'_def preallocate_def)
  have part: "\<exists>b. dget t' (part_path dest) = Some (NBin b) \<and> length b = length c"
  proof (cases "fs_exists t (part_path dest) \<and> fs_size t (part_path dest) = length c")
    case True
    then show ?thesis using s c
      by (auto simp: t'_def preallocate_def fs_exists_def dhas_iff fs_size_def sound_def split: node.splits)
  qed (auto simp: t'_def preallocate_def)
  have same: "dget t' (part_path dest) = dget t (part_path dest)" if "chunk_agrees dest c t i" for i
    using that by (auto simp: t'_def preallocate_def chunk_agrees_def part_agrees_def agree_def fs_exists_def dhas_iff fs_size_def)
  have keep: "chunk_agrees dest c t i \<Longrightarrow> chunk_agrees dest c t' i" for i
    using chunk_agrees_cong [OF same] by blast
  obtain ds where ds: "load_done t dest (length c) = Inr ds"
    and fields: "d_fs d = t'" "d_done d = ds"
      "d_workers d = map (\<lambda>i. (i, Waiting)) (filter (\<lambda>i. int i \<notin> set ds) [0..<n_chunks (length c)])" "d_phase d = Transfer"
    using d part by (auto simp: begin_download_def err_simps Let_def t'_def fs_size_def)
  have "transfer_ok dest c d"
    unfolding transfer_ok_def fields(1)
  proof (intro conjI allI ballI impI)
    show "chunk_agrees dest c t' i" if "i < n_chunks (length c)" "int i \<in> set (d_done d)" for i
      using load_done_sound [OF s ds that(1)] that(2) keep fields(2) by blast
    show "worker_ok dest c d i" for i
    proof (cases "dget (d_workers d) i")
      case None
      then have "i \<notin> set (map fst (d_workers d))" by (simp add: map_of_eq_None_iff)
      then show ?thesis using None fields(2,3) by (simp add: worker_ok_def image_iff)
    next
      case (Some w)
      then have "w = Waiting" using fields(3) dget_in_set [OF Some] by auto
      then show ?thesis using Some by (simp add: worker_ok_def)
    qed
    show "i < n_chunks (length c)" if "i \<in> set (map fst (d_workers d))" for i
      using that fields(3) by auto
    show "sound dest c t'"
    proof -
      have "read_state t' dest (length c) = read_state t dest (length c)" by (rule read_state_cong) (simp add: rest)
      then show ?thesis using s part keep by (auto simp: sound_def)
    qed
    show "\<not> (fs_exists t' dest \<and> fs_size t' dest = length c)"
      using fresh rest [of dest] by (simp add: fs_exists_def dhas_iff fs_size_def)
  qed (rule part)
  then show ?thesis using fields(4) by (simp add: dl_inv_def)
qed

lemma inv_good: "dl_inv dest c d \<Longrightarrow> good dest c (d_fs d)"
  by (auto simp: dl_inv_def good_def transfer_ok_def split: dl_phase.splits)

lemma mkdir_good:
  assumes "good dest c t" "c \<noteq> []"
  shows "good dest c (fs_mkdir (path_parent dest) t)"
proof -
  let ?t = "fs_mkdir (path_parent dest) t"
  have d: "dget ?t dest = dget t dest \<or> dget t dest = None \<and> dget ?t dest = Some NDir"
    by (simp add: fs_mkdir_def dget_mkdir_fold)
  have "sound dest c ?t = sound dest c t"
    using read_state_cong [of ?t dest t] chunk_agrees_cong [of ?t dest t] by (simp add: sound_def)
  then show ?thesis using assms d by (auto simp: good_def fs_exists_def dhas_iff fs_size_def)
qed

definition honest_download :: "path \<Rightarrow> bytes \<Rightarrow> nat \<Rightarrow> dl_event list \<Rightarrow> fs \<Rightarrow> int \<Rightarrow> bool" where
  "honest_download dest c k evs t p =
     (case begin_download dest (length c) (fs_mkdir (path_parent dest) t) p of
        Inl _ \<Rightarrow> True | Inr d \<Rightarrow> honest dest c k d evs)"

text \<open>C25: a download that starts in a good state (every chunk recorded as done holds the server's
  bytes, as when nothing is recorded) leaves a good state wherever it ends: after any interleaving
  of its workers, retries and failures, killed at any event, or done. When it is done, the file is
  the server's. So runs can be interrupted and repeated any number of times. A response is
  assumed to be a prefix of the range that was asked for.\<close>

theorem interrupted_downloads_resume:
  assumes "good dest c t" and "c \<noteq> []" and "rf_size remote = int (length c)"
    and "honest_download dest c k evs t p"
    and "download_file remote dest k stream evs t p = Some (t', p', out)"
  shows "good dest c t' \<and> (out = Done \<longrightarrow> dget t' dest = Some (NBin c))"
proof -
  define t1 where "t1 = fs_mkdir (path_parent dest) t"
  have g: "good dest c t1" using mkdir_good [OF assms(1,2)] by (simp add: t1_def)
  show ?thesis
  proof (cases "fs_exists t1 dest \<and> fs_size t1 dest = length c")
    case True
    then have "t' = t1" "out = Done" using assms(3,5) by (auto simp: download_file_def t1_def)
    then show ?thesis using g True by (simp add: good_def)
  next
    case fresh: False
    then have s: "sound dest c t1" using g by (auto simp: good_def fs_exists_def dhas_iff fs_size_def)
    show ?thesis
    proof (cases "begin_download dest (length c) t1 p")
      case (Inl e)
      then have "t' = t1" "out = Failure e" using assms(2,3,5) fresh by (auto simp: download_file_def t1_def Let_def)
      then show ?thesis using g by simp
    next
      case (Inr d)
      then obtain d' where run: "dl_run dest (length c) k d evs = Some d'" and t': "t' = d_fs d'" "out = outcome_of d'"
        using assms(2,3,5) fresh by (auto simp: download_file_def t1_def Let_def split: option.splits)
      have h: "honest dest c k d evs" using assms(4) Inr by (simp add: honest_download_def t1_def)
      have "dl_inv dest c d'"
        by (rule dl_run_inv [OF good_start [OF s fresh assms(2) Inr] assms(2) h run])
      then show ?thesis
        using inv_good [of dest c d'] t' by (auto simp: outcome_of_def dl_inv_def split: dl_phase.splits)
    qed
  qed
qed

definition demo_dest :: path where "demo_dest = path_of ''/m/w.gguf''"
definition demo_remote :: remote_file where
  "demo_remote = \<lparr>rf_path = ''w.gguf'', rf_size = 3, rf_sha256 = None\<rparr>"

definition demo_events :: "dl_event list" where
  "demo_events = [Start 0, Block 0 [7, 8], Fault 0, Block 0 [7, 8, 9], End 0, Join, Cleanup]"

lemma good_empty: "c \<noteq> [] \<Longrightarrow> good dest c []"
  by (simp add: good_def sound_def fs_exists_def dhas_def read_state_def fs_read_def)

lemma one_chunk [simp]: "n_chunks 3 = 1" "chunk_start 0 = 0" "chunk_stop 3 0 = 3"
  by (simp_all add: n_chunks_def chunk_start_def chunk_stop_def CHUNK_SIZE_def)

lemma demo_begin:
  "begin_download demo_dest 3 (fs_mkdir (path_parent demo_dest) []) 0 =
     Inr \<lparr>d_fs = fs_put (part_path demo_dest) [0, 0, 0] (fs_mkdir (path_parent demo_dest) []),
          d_done = [], d_workers = [(0, Waiting)], d_progress = 0, d_phase = Transfer\<rparr>"
proof -
  have "replicate 3 (0 :: 8 word) = [0, 0, 0]" by (simp add: numeral_3_eq_3)
  then show ?thesis
    by (simp add: begin_download_def load_done_def preallocate_def fs_exists_def dhas_iff fs_size_def)
qed

lemmas run_defs = dl_step_def worker_step_def join_step_def next_waiting_def is_reading_def set_worker_def
  worker_fault_def pwrite_def fs_bytes_def fs_size_def Let_def

lemma download_runs:
  assumes "\<not> (fs_exists (fs_mkdir (path_parent dest) t) dest \<and> fs_size (fs_mkdir (path_parent dest) t) dest = n)"
    and "begin_download dest n (fs_mkdir (path_parent dest) t) p = Inr d"
    and "dl_run dest n k d evs = Some d'" and "rf_size remote = int n" and "0 < n"
  shows "download_file remote dest k stream evs t p = Some (d_fs d', d_progress d', outcome_of d')"
  using assms by (auto simp: download_file_def Let_def)

theorem interrupted_downloads_resume_witness:
  "\<exists>t' p'. download_file demo_remote demo_dest 4 ([], None) demo_events [] 0 = Some (t', p', Done)
     \<and> dget t' demo_dest = Some (NBin [7, 8, 9])"
proof -
  let ?t = "fs_mkdir (path_parent demo_dest) []"
  have dir: "\<not> (fs_exists ?t demo_dest \<and> fs_size ?t demo_dest = 3)"
    by (simp add: fs_size_def fs_mkdir_def dget_mkdir_fold)
  have "honest_download demo_dest [7, 8, 9] 4 demo_events [] 0"
    by (simp add: honest_download_def demo_begin demo_events_def run_defs honest_event_def flip: numeral_3_eq_3)
  moreover have "\<exists>t' p'. download_file demo_remote demo_dest 4 ([], None) demo_events [] 0 = Some (t', p', Done)"
    using dir by (simp add: download_file_def demo_remote_def demo_begin demo_events_def run_defs outcome_of_def)
  ultimately show ?thesis
    using interrupted_downloads_resume [of demo_dest "[7, 8, 9]" "[]" demo_remote 4 demo_events 0 "([], None)"]
    by (auto simp: good_empty demo_remote_def)
qed

section \<open>A download can always be finished\<close>

text \<open>One chunk, answered in one block.\<close>

definition fetch_chunk :: "bytes \<Rightarrow> nat \<Rightarrow> dl_event list" where
  "fetch_chunk c i = [Start i, Block i (take (chunk_stop (length c) i - chunk_start i) (drop (chunk_start i) c)), End i]"

definition settled :: "download \<Rightarrow> bool" where
  "settled d = (d_phase d = Transfer \<and> dict_ok (d_workers d) \<and> list_all (\<lambda>p. snd p = Waiting \<or> snd p = Fetched) (d_workers d))"

definition waiting :: "download \<Rightarrow> nat" where
  "waiting d = length (filter (\<lambda>p. snd p = Waiting) (d_workers d))"

lemma settled_idle: "settled d \<Longrightarrow> filter (\<lambda>p. is_reading (snd p)) (d_workers d) = []"
  by (induction "d_workers d") (auto simp: settled_def list_all_iff is_reading_def filter_empty_conv split: worker.splits)

lemma dl_run_append:
  "dl_run dest n k d (xs @ ys) = (case dl_run dest n k d xs of None \<Rightarrow> None | Some d' \<Rightarrow> dl_run dest n k d' ys)"
  by (induction xs arbitrary: d) (auto split: option.splits)

lemma honest_append:
  "honest dest c k d (xs @ ys) = (honest dest c k d xs \<and>
     (case dl_run dest (length c) k d xs of None \<Rightarrow> True | Some d' \<Rightarrow> honest dest c k d' ys))"
  by (induction xs arbitrary: d) (auto split: option.splits)

lemma waiting_dset:
  "dict_ok ws \<Longrightarrow> dget ws i = Some Waiting \<Longrightarrow>
   Suc (length (filter (\<lambda>p. snd p = Waiting) (dset i Fetched ws))) = length (filter (\<lambda>p. snd p = Waiting) ws)"
proof (induction ws)
  case (Cons p ws)
  then show ?case by (cases p) (auto split: if_splits)
qed simp

lemma fetch_one:
  assumes inv: "transfer_ok dest c d" and s: "settled d" and w: "next_waiting d = Some i" and c: "c \<noteq> []"
  shows "\<exists>d'. dl_run dest (length c) k d (fetch_chunk c i) = Some d' \<and> honest dest c k d (fetch_chunk c i)
    \<and> settled d' \<and> Suc (waiting d') = waiting d"
proof -
  have i: "i < n_chunks (length c)" by (rule transfer_chunk [OF inv next_waiting_worker [OF w]])
  define n where "n = length c"
  define b where "b = take (chunk_stop n i - chunk_start i) (drop (chunk_start i) c)"
  have lt: "chunk_start i < chunk_stop n i" using chunk_start_less [OF i] c by (simp add: n_def)
  have len: "length b = chunk_stop n i - chunk_start i" using chunk_stop_le [of n i] by (simp add: b_def n_def)
  then have "b \<noteq> []" using lt by auto
  have wi: "dget (d_workers d) i = Some Waiting"
    using s next_waiting_in [OF w] by (intro dict_ok_dget) (simp_all add: settled_def)
  define d1 where "d1 = set_worker i (Reading 0 (chunk_start i)) d"
  define d2 where "d2 = set_worker i (Reading 0 (chunk_stop n i)) (d1\<lparr>d_fs := fs_put (part_path dest)
      (pwrite (fs_bytes (d_fs d1) (part_path dest)) (chunk_start i) b) (d_fs d1),
      d_progress := d_progress d1 + int (length b)\<rparr>)"
  define d3 where "d3 = set_worker i Fetched (d2\<lparr>d_done := List.insert (int i) (d_done d2),
      d_fs := flush_state dest n (List.insert (int i) (d_done d2)) (d_fs d2)\<rparr>)"
  have t: "d_phase d = Transfer" using s by (simp add: settled_def)
  have s1: "dl_step dest n k d (Start i) = Some d1"
    using t w settled_idle [OF s] by (simp add: dl_step_def d1_def)
  have s2: "dl_step dest n k d1 (Block i b) = Some d2"
    using t \<open>b \<noteq> []\<close> len lt by (simp add: dl_step_def d1_def d2_def worker_step_def set_worker_def)
  have s3: "dl_step dest n k d2 (End i) = Some d3"
    using t by (simp add: dl_step_def d1_def d2_def d3_def worker_step_def set_worker_def Let_def)
  have "honest_event c d1 (Block i b)"
    using lt len by (simp add: honest_event_def d1_def set_worker_def n_def) (simp add: b_def n_def)
  then have h: "honest dest c k d (fetch_chunk c i)"
    using s1 s2 s3 by (simp add: fetch_chunk_def honest_event_def n_def b_def)
  have "d_workers d3 = dset i Fetched (d_workers d)" "d_phase d3 = Transfer"
    using t by (simp_all add: d3_def d2_def d1_def set_worker_def dset_dset)
  then have "settled d3 \<and> Suc (waiting d3) = waiting d"
    using s wi waiting_dset [of "d_workers d" i] set_dset_subset [of i Fetched "d_workers d"]
    by (auto simp: settled_def waiting_def list_all_iff)
  then show ?thesis using s1 s2 s3 h by (auto simp: fetch_chunk_def n_def b_def)
qed

lemma fetch_all:
  assumes "transfer_ok dest c d" "settled d" "c \<noteq> []"
  shows "\<exists>evs d'. dl_run dest (length c) k d evs = Some d' \<and> honest dest c k d evs \<and> settled d' \<and> waiting d' = 0
    \<and> transfer_ok dest c d'"
  using assms
proof (induction "waiting d" arbitrary: d)
  case 0
  then show ?case by (intro exI [of _ "[]"]) simp
next
  case (Suc m)
  have "next_waiting d \<noteq> None"
  proof
    assume "next_waiting d = None"
    then have "filter (\<lambda>p. snd p = Waiting) (d_workers d) = []" by (auto simp: next_waiting_def find_None_iff filter_empty_conv)
    then show False using Suc.hyps(2) by (simp add: waiting_def)
  qed
  then obtain i where i: "next_waiting d = Some i" by blast
  obtain d1 where d1: "dl_run dest (length c) k d (fetch_chunk c i) = Some d1" "honest dest c k d (fetch_chunk c i)"
    "settled d1" "Suc (waiting d1) = waiting d"
    using fetch_one [OF Suc.prems(1,2) i Suc.prems(3)] by blast
  have "dl_inv dest c d" using Suc.prems(1,2) by (simp add: dl_inv_def settled_def)
  then have "dl_inv dest c d1" by (rule dl_run_inv [OF _ Suc.prems(3) d1(2,1)])
  then have "transfer_ok dest c d1" using d1(3) by (simp add: dl_inv_def settled_def)
  then obtain evs d2 where "dl_run dest (length c) k d1 evs = Some d2" "honest dest c k d1 evs" "settled d2"
    "waiting d2 = 0" "transfer_ok dest c d2"
    using Suc.hyps(1) [of d1] Suc.hyps(2) d1(3,4) Suc.prems(3) by auto
  then show ?case
    using d1 by (intro exI [of _ "fetch_chunk c i @ evs"] exI [of _ d2]) (simp add: dl_run_append honest_append)
qed

lemma begin_settled: "begin_download dest n t p = Inr d \<Longrightarrow> settled d"
  by (auto simp: begin_download_def settled_def err_simps Let_def dict_ok_def list_all_iff comp_def
      distinct_map inj_on_def)

text \<open>C27: from every good state whose record can be read, so after any number of interrupted runs, a
  server that answers each remaining range completes the download, and the file is the server's.\<close>

theorem interrupted_download_completes:
  assumes "good dest c t" and "c \<noteq> []" and "rf_size remote = int (length c)"
    and "returns (load_done (fs_mkdir (path_parent dest) t) dest (length c))"
  shows "\<exists>evs t' p'. honest_download dest c k evs t p
    \<and> download_file remote dest k stream evs t p = Some (t', p', Done) \<and> dget t' dest = Some (NBin c)"
proof -
  define t1 where "t1 = fs_mkdir (path_parent dest) t"
  have g: "good dest c t1" using mkdir_good [OF assms(1,2)] by (simp add: t1_def)
  obtain d where d: "begin_download dest (length c) t1 p = Inr d"
    using assms(4) by (auto simp: returns_iff begin_download_def t1_def Let_def)
  show ?thesis
  proof (cases "fs_exists t1 dest \<and> fs_size t1 dest = length c")
    case True
    then show ?thesis
      using g d assms(3)
      by (intro exI [of _ "[]"] exI [of _ t1]) (simp add: honest_download_def download_file_def good_def Let_def t1_def)
  next
    case fresh: False
    then have s: "sound dest c t1" using g by (auto simp: good_def fs_exists_def dhas_iff fs_size_def)
    have inv: "dl_inv dest c d" by (rule good_start [OF s fresh assms(2) d])
    have settled: "settled d" by (rule begin_settled [OF d])
    then have "transfer_ok dest c d" using inv by (simp add: dl_inv_def settled_def)
    then obtain evs d1 where d1: "dl_run dest (length c) k d evs = Some d1" "honest dest c k d evs" "settled d1"
      "waiting d1 = 0" "transfer_ok dest c d1"
      using fetch_all [OF _ settled assms(2)] by blast
    have idle: "\<not> list_ex (\<lambda>p. snd p = Waiting \<or> is_reading (snd p)) (d_workers d1)"
      "\<not> list_ex (\<lambda>p. snd p = Failed) (d_workers d1)"
      using d1(3,4) by (auto simp: settled_def waiting_def list_all_iff list_ex_iff filter_empty_conv is_reading_def)
    have part: "dget (d_fs d1) (part_path dest) = Some (NBin c)" by (rule all_fetched [OF d1(5) idle])
    define d2 where "d2 = d1\<lparr>d_phase := Renamed, d_fs := fs_rename (part_path dest) dest (d_fs d1)\<rparr>"
    define d3 where "d3 = d2\<lparr>d_phase := Complete, d_fs := fs_unlink (state_path dest) (d_fs d2)\<rparr>"
    have "dl_step dest (length c) k d1 Join = Some d2"
      using d1(3) idle part by (simp add: dl_step_def settled_def join_step_def fs_size_def d2_def)
    moreover have "dl_step dest (length c) k d2 Cleanup = Some d3" by (simp add: dl_step_def d2_def d3_def)
    ultimately have run: "dl_run dest (length c) k d (evs @ [Join, Cleanup]) = Some d3"
      and h: "honest dest c k d (evs @ [Join, Cleanup])"
      using d1 by (simp_all add: dl_run_append honest_append honest_event_def)
    have "dget (d_fs d3) dest = Some (NBin c)" using part by (simp add: d3_def d2_def dget_rename)
    moreover have "download_file remote dest k stream (evs @ [Join, Cleanup]) t p = Some (d_fs d3, d_progress d3, Done)"
      using run d fresh assms(2,3)
      by (auto simp: download_file_def Let_def t1_def [symmetric] outcome_of_def d3_def)
    ultimately show ?thesis using h d by (auto simp: honest_download_def t1_def)
  qed
qed

theorem interrupted_download_completes_witness:
  "\<exists>evs t' p'. download_file demo_remote demo_dest 1 ([], None) evs [] 0 = Some (t', p', Done)
     \<and> dget t' demo_dest = Some (NBin [7, 8, 9])"
  using interrupted_download_completes [of demo_dest "[7, 8, 9]" "[]" demo_remote 1 0 "([], None)"]
  by (auto simp: good_empty demo_remote_def load_done_def fs_exists_def dhas_iff)

text \<open>A small file on an empty place: one request.\<close>

lemma small_download:
  assumes c: "c \<noteq> []" "length c \<le> CHUNK_SIZE" and f: "rf_size f = int (length c)"
    and none: "dget (fs_mkdir (path_parent dest) t) dest = None" "dget t (part_path dest) = None" "dget t (state_path dest) = None"
  shows "\<exists>t' p'. download_file f dest k stream [Start 0, Block 0 c, End 0, Join, Cleanup] t p = Some (t', p', Done)
    \<and> dget t' dest = Some (NBin c)"
proof -
  define n where "n = length c"
  define t1 where "t1 = fs_mkdir (path_parent dest) t"
  have n: "0 < n" "n \<le> CHUNK_SIZE" using c by (auto simp: n_def)
  have "(n + CHUNK_SIZE - 1) div CHUNK_SIZE = 1"
  proof (rule div_nat_eqI)
    show "CHUNK_SIZE * 1 \<le> n + CHUNK_SIZE - 1" "n + CHUNK_SIZE - 1 < CHUNK_SIZE * Suc 1" using n by auto
  qed
  then have one: "n_chunks n = 1" "chunk_start 0 = 0" "chunk_stop n 0 = n"
    using n by (simp_all add: n_chunks_def chunk_start_def chunk_stop_def)
  have none1: "dget t1 dest = None" "dget t1 (part_path dest) = None" "dget t1 (state_path dest) = None"
    using none by (simp_all add: t1_def)
  have start: "begin_download dest n t1 p = Inr \<lparr>d_fs = fs_put (part_path dest) (replicate n 0) t1, d_done = [],
      d_workers = [(0, Waiting)], d_progress = p, d_phase = Transfer\<rparr>"
    using none1 by (simp add: begin_download_def load_done_def preallocate_def fs_exists_def dhas_iff fs_size_def one)
  have w: "pwrite (replicate n 0) 0 c = c" by (simp add: pwrite_def n_def)
  have gone: "\<not> (fs_exists t1 dest \<and> fs_size t1 dest = n)" using none1 by (simp add: fs_exists_def dhas_iff)
  have room: "0 < max (Suc 0) k" by (simp add: max_def)
  obtain d where run: "dl_run dest n k \<lparr>d_fs = fs_put (part_path dest) (replicate n 0) t1, d_done = [],
      d_workers = [(0, Waiting)], d_progress = p, d_phase = Transfer\<rparr> [Start 0, Block 0 c, End 0, Join, Cleanup] = Some d"
    and d: "outcome_of d = Done" "dget (d_fs d) dest = Some (NBin c)"
    using c(1) n w room by (simp add: run_defs one n_def [symmetric] outcome_of_def dget_rename)
  show ?thesis
    using download_runs [OF gone [unfolded t1_def] start [unfolded t1_def] run [unfolded t1_def], of f stream] d f n
    by (simp add: n_def)
qed

section \<open>Outside the assumptions\<close>

text \<open>\<open>_download_range\<close> does not stop at the end of its range: a response that is longer, as of a
  server that ignores the range header, is written into the chunks that follow.\<close>

lemma long_response_overwrites:
  assumes "d_phase d = Transfer" "dget (d_workers d) i = Some (Reading a off)" "s \<noteq> []"
    and "dget (d_fs d) (part_path dest) = Some (NBin b)" "off + length s \<le> length b"
  shows "\<exists>d'. dl_step dest n k d (Block i s) = Some d' \<and> d_done d' = d_done d
    \<and> dget (d_fs d') (part_path dest) = Some (NBin (take off b @ s @ drop (off + length s) b))"
  using assms by (simp add: dl_step_def worker_step_def set_worker_def fs_bytes_def pwrite_inside)

text \<open>A part file of the wrong size is replaced by zeros, but the record is believed: the chunks it
  calls done are never fetched, and the zeros become the file.\<close>

definition demo_stale :: fs where
  "demo_stale = [(part_path demo_dest, NBin [7, 8]), (state_path demo_dest, NFile (json_dumps (state_json 3 [0])))]"

lemma recorded_state [simp]:
  "dget t (state_path dest) = Some (NFile (json_dumps (state_json n ds))) \<Longrightarrow> read_state t dest n = Inr (sort ds)"
  using read_state_cong [of t dest "flush_state dest n ds []" n] by simp

lemma demo_dir: "dget t demo_dest = None \<Longrightarrow> \<not> (fs_exists (fs_mkdir p t) demo_dest \<and> fs_size (fs_mkdir p t) demo_dest = 3)"
  by (simp add: fs_size_def fs_mkdir_def dget_mkdir_fold)

lemma believed:
  assumes t: "dget t demo_dest = None" "dget t (part_path demo_dest) = Some (NBin b)"
    "dget t (state_path demo_dest) = Some (NFile (json_dumps (state_json 3 [0])))"
    and b: "length b = 3 \<Longrightarrow> b = [0, 0, 0]"
  shows "\<exists>t' p'. download_file demo_remote demo_dest 4 stream [Join, Cleanup] t 0 = Some (t', p', Done)
     \<and> dget t' demo_dest = Some (NBin [0, 0, 0])"
proof -
  let ?t = "fs_mkdir (path_parent demo_dest) t"
  have part: "dget ?t (part_path demo_dest) = Some (NBin b)"
    "dget ?t (state_path demo_dest) = Some (NFile (json_dumps (state_json 3 [0])))" using t by simp_all
  define t1 where "t1 = preallocate demo_dest 3 ?t"
  have z: "replicate 3 (0 :: 8 word) = [0, 0, 0]" by (simp add: numeral_3_eq_3)
  have zeros: "dget t1 (part_path demo_dest) = Some (NBin [0, 0, 0])"
    using part z b by (auto simp: t1_def preallocate_def fs_exists_def dhas_iff fs_size_def)
  have started: "begin_download demo_dest 3 ?t 0 = Inr \<lparr>d_fs = t1, d_done = [0], d_workers = [],
      d_progress = int CHUNK_SIZE, d_phase = Transfer\<rparr>"
    using part zeros by (simp add: begin_download_def load_done_def fs_exists_def dhas_iff fs_size_def flip: t1_def)
  show ?thesis
    using download_runs [OF demo_dir [OF t(1)] started, of 4 "[Join, Cleanup]", where remote = demo_remote and stream = stream]
      zeros
    by (simp add: demo_remote_def dl_step_def join_step_def outcome_of_def dget_rename)
qed

lemma resized_part_is_believed:
  "\<exists>t' p'. download_file demo_remote demo_dest 4 stream [Join, Cleanup] demo_stale 0 = Some (t', p', Done)
     \<and> dget t' demo_dest = Some (NBin [0, 0, 0])"
  by (rule believed [of _ "[7, 8]"]) (simp_all add: demo_stale_def)

text \<open>A record without a part file (the process died between the last two steps of a download, and
  the file was deleted since) survives the next run's preallocation: a run killed right after it
  leaves a state from which the one after that delivers zeros.\<close>

lemma orphaned_record_is_believed:
  assumes t: "t = [(state_path demo_dest, NFile (json_dumps (state_json 3 [0])))]"
  shows "\<exists>t1 p1 t2 p2. download_file demo_remote demo_dest 4 stream [] t 0 = Some (t1, p1, Cut)
    \<and> download_file demo_remote demo_dest 4 stream [Join, Cleanup] t1 0 = Some (t2, p2, Done)
    \<and> dget t2 demo_dest = Some (NBin [0, 0, 0])"
proof -
  let ?t = "fs_mkdir (path_parent demo_dest) t"
  have none: "dget t demo_dest = None" "dget ?t (part_path demo_dest) = None"
    "dget ?t (state_path demo_dest) = Some (NFile (json_dumps (state_json 3 [0])))" using t by simp_all
  have z: "replicate 3 (0 :: 8 word) = [0, 0, 0]" by (simp add: numeral_3_eq_3)
  define t1 where "t1 = fs_put (part_path demo_dest) [0, 0, 0] ?t"
  have "begin_download demo_dest 3 ?t 0 = Inr \<lparr>d_fs = t1, d_done = [], d_workers = [(0, Waiting)],
      d_progress = 0, d_phase = Transfer\<rparr>"
    using none z by (simp add: begin_download_def load_done_def preallocate_def fs_exists_def dhas_iff fs_size_def t1_def)
  then have one: "download_file demo_remote demo_dest 4 stream [] t 0 = Some (t1, 0, Cut)"
    using download_runs [OF demo_dir [OF none(1)], where k = 4 and evs = "[]" and remote = demo_remote and stream = stream]
    by (simp add: demo_remote_def outcome_of_def)
  have "dget t1 demo_dest = None \<or> dget t1 demo_dest = Some NDir"
    using none(1) by (simp add: t1_def fs_mkdir_def dget_mkdir_fold)
  moreover have "demo_dest \<notin> set (path_prefixes (path_parent demo_dest))" by code_simp
  ultimately have "dget t1 demo_dest = None" using none(1) by (simp add: t1_def dget_mkdir)
  then obtain t2 p2 where "download_file demo_remote demo_dest 4 stream [Join, Cleanup] t1 0 = Some (t2, p2, Done)"
    "dget t2 demo_dest = Some (NBin [0, 0, 0])"
    using believed [of t1 "[0, 0, 0]" stream] none(3) by (auto simp: t1_def)
  then show ?thesis using one by blast
qed

end
