(* ===== verification/Fetch_Select_Laws.thy ===== *)
theory Fetch_Select_Laws
  imports Fetch_Select
begin

text \<open>
  The group that \<open>match_quant\<close> returns, stated over the files of the repository alone: all files
  of one stem and one declared shard count, whole when any group is, and least in rank.
\<close>

lemma min_by_None [simp]: "min_by f xs = None \<longleftrightarrow> xs = []"
  by (cases xs) (auto split: option.splits)

lemma min_by_least: "min_by f xs = Some x \<Longrightarrow> x \<in> set xs \<and> (\<forall>y \<in> set xs. f x \<le> f y)"
proof (induction xs arbitrary: x)
  case (Cons z xs)
  then show ?case by (cases "min_by f xs") (fastforce split: if_splits)+
qed simp

definition members :: "remote_file list \<Rightarrow> string \<Rightarrow> group_key \<Rightarrow> remote_file list" where
  "members files quant key = filter (\<lambda>f. candidate quant f \<and> group_of f = key) files"

lemma groups_of_list:
  "dget (foldl add_to_group [] cs) k = (let fs = filter (\<lambda>f. group_of f = k) cs in if fs = [] then None else Some fs)"
proof (induction cs rule: rev_induct)
  case (snoc f cs)
  then show ?case by (auto simp: add_to_group_def Let_def)
qed simp

lemma groups_dict: "dict_ok (foldl add_to_group d cs)" if "dict_ok d"
  using that by (induction cs arbitrary: d) (simp_all add: add_to_group_def)

lemma quant_groups_get:
  "dget (quant_groups files quant) k = (if members files quant k = [] then None else Some (members files quant k))"
  by (simp add: quant_groups_def groups_of_list members_def Let_def conj_commute)

lemma quant_groups_set:
  "(k, fs) \<in> set (quant_groups files quant) \<longleftrightarrow> fs = members files quant k \<and> fs \<noteq> []"
proof -
  have ok: "dict_ok (quant_groups files quant)" by (simp add: quant_groups_def groups_dict)
  show ?thesis
  proof
    assume "(k, fs) \<in> set (quant_groups files quant)"
    with ok have "dget (quant_groups files quant) k = Some fs" by (rule dict_ok_dget)
    then show "fs = members files quant k \<and> fs \<noteq> []" by (auto simp: quant_groups_get split: if_splits)
  next
    assume "fs = members files quant k \<and> fs \<noteq> []"
    then have "dget (quant_groups files quant) k = Some fs" by (auto simp: quant_groups_get)
    then show "(k, fs) \<in> set (quant_groups files quant)" by (rule dget_in_set)
  qed
qed

lemma quant_groups_empty: "quant_groups files quant = [] \<longleftrightarrow> (\<forall>f \<in> set files. \<not> candidate quant f)"
proof
  assume e: "quant_groups files quant = []"
  show "\<forall>f \<in> set files. \<not> candidate quant f"
  proof (rule ccontr)
    assume "\<not> (\<forall>f \<in> set files. \<not> candidate quant f)"
    then obtain f where "f \<in> set files" "candidate quant f" by blast
    then have "f \<in> set (members files quant (group_of f))" by (simp add: members_def)
    then have "members files quant (group_of f) \<noteq> []" by force
    then show False using quant_groups_set [of "group_of f" _ files quant] e by auto
  qed
qed (simp add: quant_groups_def filter_empty_conv [THEN iffD2])

definition group_pool :: "remote_file list \<Rightarrow> string \<Rightarrow> (group_key, remote_file list) dict" where
  "group_pool files quant = (let groups = quant_groups files quant; complete = filter whole groups in
     if complete \<noteq> [] then complete else groups)"

lemma match_quant_pool:
  "match_quant files quant =
     (case min_by group_rank (group_pool files quant) of None \<Rightarrow> [] | Some g \<Rightarrow> sort_key rf_path (snd g))"
  by (simp add: match_quant_def group_pool_def Let_def split: option.split)

lemma group_pool_set:
  assumes "(key, fs) \<in> set (group_pool files quant)"
  shows "fs = members files quant key" "fs \<noteq> []"
  using assms by (auto simp: group_pool_def Let_def quant_groups_set split: if_splits)

lemma group_pool_rank:
  assumes "(key, fs) \<in> set (group_pool files quant)" "members files quant key' \<noteq> []"
  shows "whole (key', members files quant key') \<Longrightarrow> whole (key, fs)"
    and "whole (key', members files quant key') = whole (key, fs) \<Longrightarrow>
      (key', members files quant key') \<in> set (group_pool files quant)"
proof -
  have "(key', members files quant key') \<in> set (quant_groups files quant)"
    using assms(2) by (simp add: quant_groups_set)
  then show "whole (key', members files quant key') \<Longrightarrow> whole (key, fs)"
    and "whole (key', members files quant key') = whole (key, fs) \<Longrightarrow>
      (key', members files quant key') \<in> set (group_pool files quant)"
    using assms(1) by (auto simp: group_pool_def Let_def filter_empty_conv split: if_splits)
qed

text \<open>a quant matches nothing exactly when no file of the repository is a candidate for it.
  Otherwise the download is all the candidates of one stem and one declared shard count, ordered
  by path: a whole set (a single file, or as many shards as they declare) whenever the repository
  has one, and among those one with the fewest files, then the shallowest and the shortest stem.\<close>

theorem match_quant_is_one_group:
  "(match_quant files quant = [] \<longleftrightarrow> (\<forall>f \<in> set files. \<not> candidate quant f)) \<and>
   (match_quant files quant \<noteq> [] \<longrightarrow>
     (\<exists>key. match_quant files quant = sort_key rf_path (members files quant key) \<and>
       (\<forall>key'. members files quant key' \<noteq> [] \<longrightarrow>
          (whole (key', members files quant key') \<longrightarrow> whole (key, members files quant key)) \<and>
          (whole (key', members files quant key') = whole (key, members files quant key) \<longrightarrow>
             group_rank (key, members files quant key) \<le> group_rank (key', members files quant key')))))"
proof (cases "quant_groups files quant = []")
  case True
  then have "match_quant files quant = []" by (simp add: match_quant_def)
  then show ?thesis using True quant_groups_empty [of files quant] by simp
next
  case False
  then have "group_pool files quant \<noteq> []" by (simp add: group_pool_def Let_def)
  then obtain key fs where best: "min_by group_rank (group_pool files quant) = Some (key, fs)"
    by (metis min_by_None not_None_eq surj_pair)
  have least: "(key, fs) \<in> set (group_pool files quant)"
    "\<forall>g \<in> set (group_pool files quant). group_rank (key, fs) \<le> group_rank g"
    using min_by_least [OF best] by simp_all
  note fs = group_pool_set [OF least(1)]
  have res: "match_quant files quant = sort_key rf_path fs" using best by (simp add: match_quant_pool)
  have rank: "(whole (key', members files quant key') \<longrightarrow> whole (key, fs)) \<and>
      (whole (key', members files quant key') = whole (key, fs) \<longrightarrow>
        group_rank (key, fs) \<le> group_rank (key', members files quant key'))"
    if "members files quant key' \<noteq> []" for key'
    using group_pool_rank [OF least(1) that] least(2) by blast
  have "sort_key rf_path fs \<noteq> []" using fs(2) by (metis set_empty set_sort)
  then show ?thesis using res rank fs(1) False quant_groups_empty [of files quant] by metis
qed

definition demo_repo :: "remote_file list" where
  "demo_repo = map (\<lambda>p. \<lparr>rf_path = p, rf_size = 3, rf_sha256 = None\<rparr>)
     [''Q8/M-Q8-00002-of-00002.gguf'', ''Q8/M-Q8-00001-of-00002.gguf'', ''mmproj-Q8.gguf'']"

theorem match_quant_is_one_group_witness:
  "\<exists>key. match_quant demo_repo ''q8'' = sort_key rf_path (members demo_repo ''q8'' key)"
proof -
  have "match_quant demo_repo ''q8'' \<noteq> []" by code_simp
  then show ?thesis using match_quant_is_one_group [of demo_repo "''q8''"] by blast
qed

text \<open>The projector and other side files are never part of a quant.\<close>

lemma match_quant_candidates: "f \<in> set (match_quant files quant) \<Longrightarrow> f \<in> set files \<and> candidate quant f"
proof -
  assume f: "f \<in> set (match_quant files quant)"
  obtain g where best: "min_by group_rank (group_pool files quant) = Some g" and fs: "f \<in> set (snd g)"
    using f by (cases "min_by group_rank (group_pool files quant)") (auto simp: match_quant_pool)
  have "(fst g, snd g) \<in> set (group_pool files quant)" using min_by_least [OF best] by simp
  then have "snd g = members files quant (fst g)" by (rule group_pool_set)
  then show ?thesis using fs by (simp add: members_def)
qed

end
