(* ===== verification/Fetch_Install_Laws.thy ===== *)
theory Fetch_Install_Laws
  imports Fetch_Install Fetch_Download_Laws Fetch_Select_Laws
begin

text \<open>
  What an installation leaves behind: a model that was installed is found installed, so that a
  second install does nothing; a model whose validation failed is not. Below them: what a
  download does to other files (\<open>download_frame\<close>), the size of a file that is done
  (\<open>download_done_size\<close>), and that the names of a repository's files clash with none of the
  files the installer keeps beside them.
\<close>

section \<open>What a download touches\<close>

definition own_paths :: "path \<Rightarrow> path set" where
  "own_paths dest = {dest, part_path dest, state_path dest, state_tmp dest}"

lemma step_frame:
  "dl_step dest n k d ev = Some d' \<Longrightarrow> q \<notin> own_paths dest \<Longrightarrow> dget (d_fs d') q = dget (d_fs d) q"
  by (auto simp: dl_step_def worker_step_def worker_fault_def set_worker_def join_step_def own_paths_def Let_def
      fs_rename_def split: dl_phase.splits option.splits worker.splits dl_event.splits if_splits)

lemma run_frame:
  "dl_run dest n k d evs = Some d' \<Longrightarrow> q \<notin> own_paths dest \<Longrightarrow> dget (d_fs d') q = dget (d_fs d) q"
  by (induction evs arbitrary: d) (auto simp: step_frame split: option.splits)

lemma begin_frame:
  "begin_download dest n t p = Inr d \<Longrightarrow> q \<notin> own_paths dest \<Longrightarrow> dget (d_fs d) q = dget t q"
  by (auto simp: begin_download_def err_simps Let_def preallocate_def own_paths_def)

lemma mkdir_keeps: "dget t q = Some x \<Longrightarrow> dget (fs_mkdir p t) q = Some x"
  by (simp add: fs_mkdir_def dget_mkdir_fold)

lemma download_frame:
  assumes "download_file f dest k stream evs t p = Some (t', p', out)" "q \<notin> own_paths dest" "dget t q = Some x"
  shows "dget t' q = Some x"
proof -
  define t1 where "t1 = fs_mkdir (path_parent dest) t"
  have q: "dget t1 q = Some x" using assms(3) by (simp add: t1_def mkdir_keeps)
  consider (there) "t' = t1" | (stream) "rf_size f \<le> 0" "(t', p', out) = download_stream dest (fst stream) (snd stream) t1 p"
    | (run) d d' where "begin_download dest (nat (rf_size f)) t1 p = Inr d"
        "dl_run dest (nat (rf_size f)) k d evs = Some d'" "t' = d_fs d'"
    using assms(1) by (auto simp: download_file_def Let_def t1_def [symmetric] split: if_splits sum.splits option.splits)
  then show ?thesis
  proof cases
    case stream
    then show ?thesis using q assms(2)
      by (auto simp: download_stream_def Let_def own_paths_def dget_rename split: option.splits)
  next
    case run
    then show ?thesis using q begin_frame [OF run(1) assms(2)] run_frame [OF run(2) assms(2)] by simp
  qed (simp add: q)
qed

text \<open>A download that is done left a file of the announced size, whatever the server sent.\<close>

definition sized :: "path \<Rightarrow> nat \<Rightarrow> download \<Rightarrow> bool" where
  "sized dest n d = (case d_phase d of
       Transfer \<Rightarrow> d_workers d = [] \<longrightarrow> dget (d_fs d) (part_path dest) \<noteq> None \<and> fs_size (d_fs d) (part_path dest) = n
     | Raised _ \<Rightarrow> True
     | _ \<Rightarrow> dget (d_fs d) dest \<noteq> None \<and> fs_size (d_fs d) dest = n)"

lemma dset_not_Nil [simp]: "dset k v d \<noteq> []"
  by (induction k v d rule: dset.induct) simp_all

lemma renamed_size:
  assumes "fs_size t (part_path dest) = n" "0 < n"
  shows "dget (fs_rename (part_path dest) dest t) dest \<noteq> None"
    "fs_size (fs_rename (part_path dest) dest t) dest = n"
proof -
  obtain x where x: "dget t (part_path dest) = Some x" using assms by (cases "dget t (part_path dest)") (auto simp: fs_size_def)
  then show "dget (fs_rename (part_path dest) dest t) dest \<noteq> None"
    "fs_size (fs_rename (part_path dest) dest t) dest = n"
    using assms(1) by (simp_all add: dget_rename fs_size_def)
qed

lemma sized_step:
  assumes "sized dest n d" "dl_step dest n k d ev = Some d'" "0 < n"
  shows "sized dest n d'"
proof (cases "d_phase d")
  case Transfer
  show ?thesis
  proof (cases "ev = Join")
    case True
    then have "join_step dest n d = Some d'" using assms(2) Transfer by (simp add: dl_step_def)
    then show ?thesis
      using assms(1,3) Transfer renamed_size [of "d_fs d" dest n]
      by (cases "d_workers d = []") (auto simp: join_step_def sized_def split: if_splits)
  next
    case False
    then have "d_phase d' = Transfer \<and> d_workers d' \<noteq> []"
      using assms(2) Transfer
      by (auto simp: dl_step_def worker_step_def worker_fault_def set_worker_def Let_def
          split: option.splits worker.splits dl_event.splits if_splits)
    then show ?thesis by (simp add: sized_def)
  qed
next
  case Renamed
  then have "d' = d\<lparr>d_phase := Complete, d_fs := fs_unlink (state_path dest) (d_fs d)\<rparr>"
    using assms(2) by (auto simp: dl_step_def split: dl_event.splits)
  then show ?thesis using assms(1) Renamed by (simp add: sized_def fs_size_def)
qed (use assms(2) in \<open>simp_all add: dl_step_def\<close>)

lemma sized_run: "sized dest n d \<Longrightarrow> dl_run dest n k d evs = Some d' \<Longrightarrow> 0 < n \<Longrightarrow> sized dest n d'"
  by (induction evs arbitrary: d) (auto dest: sized_step split: option.splits)

lemma sized_begin: "begin_download dest n t p = Inr d \<Longrightarrow> sized dest n d"
  by (auto simp: begin_download_def err_simps Let_def preallocate_def sized_def fs_exists_def dhas_iff fs_size_def)

definition holds_size :: "fs \<Rightarrow> path \<Rightarrow> int \<Rightarrow> bool" where
  "holds_size t p s = (dget t p \<noteq> None \<and> int (fs_size t p) = s)"

lemma download_done_size:
  assumes "download_file f dest k stream evs t p = Some (t', p', Done)" "0 < rf_size f"
  shows "holds_size t' dest (rf_size f)"
proof -
  define t1 where "t1 = fs_mkdir (path_parent dest) t"
  consider (there) "t' = t1" "fs_exists t1 dest" "int (fs_size t1 dest) = rf_size f"
    | (run) d d' where "begin_download dest (nat (rf_size f)) t1 p = Inr d"
        "dl_run dest (nat (rf_size f)) k d evs = Some d'" "t' = d_fs d'" "outcome_of d' = Done"
    using assms by (auto simp: download_file_def Let_def t1_def [symmetric] split: if_splits sum.splits option.splits)
  then show ?thesis
  proof cases
    case there
    then show ?thesis by (simp add: holds_size_def fs_exists_def dhas_iff)
  next
    case run
    have "sized dest (nat (rf_size f)) d'"
      using sized_run [OF sized_begin [OF run(1)] run(2)] assms(2) by simp
    then show ?thesis
      using run(3,4) assms(2) by (auto simp: sized_def outcome_of_def holds_size_def split: dl_phase.splits)
  qed
qed

lemma size_cong: "dget t p = dget t' p \<Longrightarrow> fs_size t p = fs_size t' p"
  by (simp add: fs_size_def)

lemma holds_size_frame: "holds_size t q s \<Longrightarrow> (\<And>x. dget t q = Some x \<Longrightarrow> dget t' q = Some x) \<Longrightarrow> holds_size t' q s"
  by (auto simp: holds_size_def fs_size_def)

section \<open>Names\<close>

definition gguf_name :: "string \<Rightarrow> bool" where
  "gguf_name n = (CHR ''/'' \<notin> set n \<and> ends_with (str_lower n) ''.gguf'')"

lemma ascii_lower_slash: "ascii_lower (CHR ''/'') = CHR ''/''"
  by (simp add: ascii_lower_def)

lemma last_split: "c \<notin> set b \<Longrightarrow> last (str_split c (a @ c # b)) = b"
proof -
  have "str_split c (a @ c # b) = str_split c a @ str_split c b"
  proof (induction a)
    case (Cons x a)
    then show ?case by (cases "str_split c a") auto
  qed simp
  then show "c \<notin> set b \<Longrightarrow> last (str_split c (a @ c # b)) = b" by (simp add: str_split_no_sep)
qed

lemma rf_name_gguf:
  assumes "ends_with (str_lower (rf_path f)) ''.gguf''"
  shows "gguf_name (rf_name f)"
proof (cases "CHR ''/'' \<in> set (rf_path f)")
  case False
  then show ?thesis using assms by (simp add: gguf_name_def rf_name_def str_split_no_sep)
next
  case True
  then obtain a b where ab: "rf_path f = a @ CHR ''/'' # b" "CHR ''/'' \<notin> set b"
    by (meson split_list_last)
  have "\<exists>t. str_lower (a @ [CHR ''/'']) @ str_lower b = t @ ''.gguf''"
    using assms ab(1) by (simp add: ends_with_iff str_lower_def)
  then obtain t where t: "str_lower (a @ [CHR ''/'']) @ str_lower b = t @ ''.gguf''" by blast
  then obtain u where u: "str_lower (a @ [CHR ''/'']) @ u = t \<and> str_lower b = u @ ''.gguf''
      \<or> str_lower (a @ [CHR ''/'']) = t @ u \<and> u @ str_lower b = ''.gguf''"
    by (auto simp: append_eq_append_conv2)
  have "ends_with (str_lower b) ''.gguf''"
  proof (cases "u = []")
    case True
    then show ?thesis using u by (auto simp: ends_with_iff intro: exI [of _ "[]"])
  next
    case False
    then have "\<not> (str_lower (a @ [CHR ''/'']) = t @ u \<and> u @ str_lower b = ''.gguf'')"
    proof (intro notI, elim conjE)
      assume "str_lower (a @ [CHR ''/'']) = t @ u" "u @ str_lower b = ''.gguf''"
      then have "last u = CHR ''/''" "last u \<in> set ''.gguf''"
        using \<open>u \<noteq> []\<close>
        by (metis last_append last_snoc str_lower_def map_append list.simps(8,9) ascii_lower_slash,
            metis Un_iff last_in_set set_append)
      then show False by simp
    qed
    then show ?thesis using u by (auto simp: ends_with_iff)
  qed
  then show ?thesis using ab last_split [of "CHR ''/''" b a] by (simp add: gguf_name_def rf_name_def)
qed

lemma list_entry_gguf:
  assumes "list_entry fs e = Inr fs'" "\<forall>f \<in> set fs. ends_with (str_lower (rf_path f)) ''.gguf''"
  shows "\<forall>f \<in> set fs'. ends_with (str_lower (rf_path f)) ''.gguf''"
  using assms by (auto simp: list_entry_def err_simps split: json.splits if_splits option.splits)

lemma repo_files_gguf:
  assumes "list_repo_files doc = Inr fs" "f \<in> set fs"
  shows "gguf_name (rf_name f)"
proof -
  obtain es where "foldE list_entry [] es = Inr fs"
    using assms(1) by (auto simp: list_repo_files_def split: json.splits)
  then have "\<forall>f \<in> set fs. ends_with (str_lower (rf_path f)) ''.gguf''"
    by (rule foldE_invariant) (auto dest: list_entry_gguf)
  then show ?thesis using assms(2) rf_name_gguf by blast
qed

lemma match_mmproj_in: "match_mmproj fs q = Some f \<Longrightarrow> f \<in> set fs"
  by (auto simp: match_mmproj_def Let_def dest!: find_SomeD min_by_least split: option.splits)

lemma selected_gguf:
  assumes "select_files env m q mm = Inr sel"
  shows "sel \<noteq> []" and "f \<in> set sel \<Longrightarrow> gguf_name (rf_name f)"
proof -
  obtain files where files: "list_repo_files (i_tree env) = Inr files"
    and sel: "sel = (case m_mmproj m of Some precision \<Rightarrow>
        if mm \<and> precision \<noteq> [] then (case match_mmproj files precision of Some p \<Rightarrow> match_quant files q @ [p] | None \<Rightarrow> match_quant files q)
        else match_quant files q | None \<Rightarrow> match_quant files q)" and ne: "match_quant files q \<noteq> []"
    using assms by (auto simp: select_files_def Let_def split: sum.splits if_splits)
  show "sel \<noteq> []" using sel ne by (auto split: option.splits if_splits)
  have "f \<in> set sel \<Longrightarrow> f \<in> set files"
    using sel by (auto dest: match_quant_candidates match_mmproj_in split: option.splits if_splits)
  then show "f \<in> set sel \<Longrightarrow> gguf_name (rf_name f)" using repo_files_gguf [OF files] by blast
qed

lemma gguf_name_path:
  assumes "gguf_name n"
  shows "path_of n = Path [] [n]"
proof -
  have "CHR ''/'' \<notin> set n" using assms by (simp add: gguf_name_def)
  moreover have "n \<noteq> []" "n \<noteq> ''.''" using assms by (auto simp: gguf_name_def ends_with_def str_lower_def)
  ultimately show ?thesis
    by (cases n) (auto simp: path_of_def starts_with_def str_split_no_sep)
qed

lemma join_gguf: "gguf_name n \<Longrightarrow> path_join d n = Path (path_root d) (path_parts d @ [n])"
  by (simp add: path_join_def gguf_name_path)

lemma manifest_join: "manifest_path md i = (let d = path_join md i in Path (path_root d) (path_parts d @ [''.manifest.json'']))"
  by (simp add: manifest_path_def path_join_def [of "path_join md i"] path_of_def starts_with_def Let_def)

lemma gguf_not_manifest: "\<not> gguf_name ''.manifest.json''"
  by (simp add: gguf_name_def ends_with_def str_lower_def ascii_lower_def)

lemma gguf_not_side: "\<not> gguf_name (n @ ''.part'')" "\<not> gguf_name (n @ ''.part.json'')" "\<not> gguf_name (n @ ''.part.json.tmp'')"
  by (simp_all add: gguf_name_def ends_with_iff str_lower_def ascii_lower_def append_eq_append_conv2)

lemma sibling_snoc [simp]: "sibling (Path r (ps @ [n])) x = Path r (ps @ [n @ x])"
  by (simp add: sibling_def path_name_def)

lemma other_file:
  assumes "gguf_name n" "gguf_name n'" "n \<noteq> n'"
  shows "path_join d n \<notin> own_paths (path_join d n')"
  using assms gguf_not_side [of n']
  by (auto simp: own_paths_def part_path_def state_path_def state_tmp_def join_gguf)

lemma download_all_sizes:
  assumes "download_all env dir fs t p = Some (t', p', Done)" "distinct (map rf_name fs)"
    "\<forall>f \<in> set fs. gguf_name (rf_name f) \<and> 0 < rf_size f"
  shows "(\<forall>f \<in> set fs. holds_size t' (path_join dir (rf_name f)) (rf_size f))
    \<and> (\<forall>n x. gguf_name n \<and> n \<notin> set (map rf_name fs) \<and> dget t (path_join dir n) = Some x \<longrightarrow> dget t' (path_join dir n) = Some x)"
  using assms
proof (induction fs arbitrary: t p)
  case (Cons f fs)
  let ?d = "path_join dir (rf_name f)"
  obtain t1 p1 where one: "download_file f ?d (i_connections env) (i_stream env f) (i_events env f) t p = Some (t1, p1, Done)"
    and rest: "download_all env dir fs t1 p1 = Some (t', p', Done)"
    using Cons.prems(1) by (auto split: option.splits prod.splits dl_outcome.splits)
  have ih: "\<forall>f \<in> set fs. holds_size t' (path_join dir (rf_name f)) (rf_size f)"
    and keep: "\<And>n x. gguf_name n \<Longrightarrow> n \<notin> set (map rf_name fs) \<Longrightarrow> dget t1 (path_join dir n) = Some x \<Longrightarrow>
      dget t' (path_join dir n) = Some x"
    using Cons.IH [OF rest] Cons.prems(2,3) by auto
  have "holds_size t1 ?d (rf_size f)" using download_done_size [OF one] Cons.prems(3) by simp
  then have "holds_size t' ?d (rf_size f)"
    by (rule holds_size_frame) (use keep [of "rf_name f"] Cons.prems(2,3) in simp)
  moreover have "dget t' (path_join dir n) = Some x"
    if "gguf_name n" "n \<notin> set (map rf_name (f # fs))" "dget t (path_join dir n) = Some x" for n x
    using keep [of n x] download_frame [OF one other_file that(3)] that Cons.prems(3) by simp
  ultimately show ?case using ih by simp
qed simp

section \<open>The manifest is read back\<close>

lemma write_json_read: "plain_json j \<Longrightarrow> fs_read (write_json p j t) p = Some (json_file j)"
  by (simp add: write_json_def)

lemma read_written_manifest:
  "plain_json (JObj d) \<Longrightarrow> read_manifest md i (write_json (manifest_path md i) (JObj d) t) = Some d"
  by (simp add: read_manifest_def write_json_read doc.dec_enc)

lemma write_json_other: "q \<noteq> p \<Longrightarrow> dget t q = Some x \<Longrightarrow> dget (write_json p j t) q = Some x"
  by (simp add: write_json_def fs_write_def mkdir_keeps)

lemma entry_json_back: "entry_of (entry_json e) = Some e"
  by (cases e) (simp add: entry_of_def entry_json_def jget_def split: option.split)

lemma entries_json_back: "all_entries (map entry_json es) = Some es"
  by (induction es) (simp_all add: entry_json_back)

lemma entry_plain: "plain_json (entry_json e)"
  by (simp add: plain_json_def entry_json_def split: option.split)

lemma failed_plain: "plain_json (JObj (failed_manifest m q ps n pr es))"
  using entry_plain by (auto simp: plain_json_def failed_manifest_def manifest_head_def)

lemma good_plain:
  assumes "plain_json (i_meta_json env meta)"
  shows "plain_json (JObj (good_manifest env m q ch n pr es meta))"
  using assms entry_plain by (auto simp: plain_json_def good_manifest_def manifest_head_def split: option.split)

lemma good_fields:
  "jget (good_manifest env m q ch n pr es meta) ''validated'' = JBool True"
  "jget (good_manifest env m q ch n pr es meta) ''quant'' = JStr q"
  "jget (good_manifest env m q ch n pr es meta) ''files'' = JArr (map entry_json es)"
  "good_manifest env m q ch n pr es meta \<noteq> []"
  by (simp_all add: good_manifest_def manifest_head_def jget_def)

lemma good_files: "es \<noteq> [] \<Longrightarrow> manifest_files (good_manifest env m q ch n pr es meta) = Some es"
  by (simp add: manifest_files_def good_fields entries_json_back)

lemma failed_fields: "jget (failed_manifest m q ps n pr es) ''validated'' = JBool False"
  by (simp add: failed_manifest_def manifest_head_def jget_def)

section \<open>Installing\<close>

definition sizes_hold :: "path \<Rightarrow> fs \<Rightarrow> entry list \<Rightarrow> bool" where
  "sizes_hold dir t es = list_all (\<lambda>e. fs_exists t (path_join dir (e_name e)) \<and> int (fs_size t (path_join dir (e_name e))) = e_size e) es"

lemma record_good:
  assumes "record_install env md m q ch sel t = (t', Installed True)"
    and "\<forall>meta. plain_json (i_meta_json env meta)" and "sel \<noteq> []"
    and "\<forall>f \<in> set sel. gguf_name (rf_name f) \<and> holds_size t (path_join (path_join md (m_id m)) (rf_name f)) (rf_size f)"
  shows "\<exists>man. installed md (m_id m) t' = Some man \<and> jget man ''quant'' = JStr q"
proof -
  let ?mp = "manifest_path md (m_id m)" and ?es = "map entry_of_remote sel" and ?dir = "path_join md (m_id m)"
  define v where "v = validate_files (i_digest env) t ?dir (filter (\<lambda>e. \<not> is_mmproj (e_name e)) ?es) ch"
  define man where "man = good_manifest env m q ch (sum_list (map rf_size sel))
    (e_name (hd (filter (\<lambda>e. \<not> is_mmproj (e_name e)) ?es))) ?es (v_meta v)"
  have t': "t' = write_json ?mp (JObj man) t"
    using assms(1) by (auto simp: record_install_def Let_def v_def man_def split: if_splits list.splits)
  have read: "read_manifest md (m_id m) t' = Some man"
    unfolding t' by (rule read_written_manifest) (simp add: man_def good_plain assms(2))
  have "holds_size t' (path_join ?dir (rf_name f)) (rf_size f)" if f: "f \<in> set sel" for f
  proof -
    have n: "gguf_name (rf_name f)" using assms(4) f by simp
    have "path_join ?dir (rf_name f) \<noteq> ?mp"
      using n gguf_not_manifest by (auto simp: join_gguf [OF n] manifest_join Let_def)
    then show ?thesis
      using assms(4) f write_json_other unfolding t' by (blast intro: holds_size_frame)
  qed
  then have "manifest_intact md (m_id m) man t' = Some True"
    using assms(3) by (auto simp: manifest_intact_def man_def good_files list_all_iff entry_of_remote_def
        holds_size_def fs_exists_def dhas_iff Let_def)
  then have "installed md (m_id m) t' = Some man"
    using read good_fields [of env m q ch] by (simp add: installed_def man_def)
  then show ?thesis using good_fields by (auto simp: man_def)
qed

lemma record_failed:
  assumes "record_install env md m q ch sel t = (t', Installed False)"
  shows "installed md (m_id m) t' = None"
proof -
  obtain ps n pr es where "t' = write_json (manifest_path md (m_id m)) (JObj (failed_manifest m q ps n pr es)) t"
    using assms by (auto simp: record_install_def Let_def split: if_splits list.splits)
  then have "read_manifest md (m_id m) t' = Some (failed_manifest m q ps n pr es)"
    using read_written_manifest failed_plain by simp
  then show ?thesis by (simp add: installed_def failed_fields)
qed


definition demo_header :: bytes where
  "demo_header = GGUF_MAGIC @ to_le 4 3 @ to_le 8 0 @ to_le 8 0"

definition demo_model :: model where
  "demo_model = \<lparr>m_id = ''m'', m_repo = ''r/m'', m_title = ''M'', m_category = ''coding'', m_params = ''1B'',
     m_license = ''MIT'', m_context = 4096, m_quants = [(''Q8'', 1)], m_default_quant = ''Q8'', m_serve_ctx = 4096,
     m_tool_call = True, m_reasoning = False, m_vision = False, m_embedding = False, m_reranker = False,
     m_mmproj = None, m_experimental = False, m_sampling = []\<rparr>"

definition demo_env :: install_env where
  "demo_env = \<lparr>i_tree = JArr [JObj [(''path'', JStr ''M-Q8.gguf''), (''size'', JInt 24)]],
     i_stream = (\<lambda>_. ([], None)), i_events = (\<lambda>_. [Start 0, Block 0 demo_header, End 0, Join, Cleanup]),
     i_digest = (\<lambda>_. ''d''), i_now = ''now'', i_meta_json = (\<lambda>_. JObj []), i_connections = 4\<rparr>"

definition demo_selected :: remote_file where
  "demo_selected = \<lparr>rf_path = ''M-Q8.gguf'', rf_size = 24, rf_sha256 = None\<rparr>"

lemma demo_selection: "select_files demo_env demo_model ''Q8'' False = Inr [demo_selected]"
  by code_simp

lemma demo_header_length [simp]: "length demo_header = 24"
  by (simp add: demo_header_def GGUF_MAGIC_def text_bytes_def utf8_encode_def ustr_of_def utf8_char_def)

lemma demo_header_read: "\<exists>meta. read_gguf_header demo_header PROBE_BYTES = Inr meta \<and> declared_shards meta = None"
proof -
  have "length GGUF_MAGIC = 4"
    by (simp add: GGUF_MAGIC_def text_bytes_def utf8_encode_def ustr_of_def utf8_char_def)
  moreover have "take PROBE_BYTES demo_header = demo_header" by (simp add: PROBE_BYTES_def)
  ultimately have "read_gguf_header demo_header PROBE_BYTES = Inr (meta_start 3 0 0)"
    by (simp add: read_gguf_header_def demo_header_def cur_skip_def u32_def u64_def cur_take_def le_nat_to_le)
  moreover have "declared_shards (meta_start 3 0 0) = None"
    by (simp add: declared_shards_def meta_start_def ustr_of_def)
  ultimately show ?thesis by simp
qed

lemma demo_install:
  "\<exists>t'. install_model demo_env (path_of ''/models'') demo_model None True False False [] = Some (t', Installed True)"
proof -
  let ?dir = "path_join (path_of ''/models'') ''m''" and ?t = "fs_mkdir (path_join (path_of ''/models'') ''m'') []"
  let ?dest = "path_join ?dir ''M-Q8.gguf''"
  have name: "rf_name demo_selected = ''M-Q8.gguf''" by code_simp
  have entry: "entry_of_remote demo_selected = \<lparr>e_name = ''M-Q8.gguf'', e_path = ''M-Q8.gguf'', e_size = 24, e_sha256 = None\<rparr>"
    by code_simp
  have none: "dget (fs_mkdir (path_parent ?dest) ?t) ?dest = None" "dget ?t (part_path ?dest) = None" "dget ?t (state_path ?dest) = None"
    by code_simp+
  have small: "demo_header \<noteq> []" "length demo_header \<le> CHUNK_SIZE" "rf_size demo_selected = int (length demo_header)"
    using demo_header_length by (simp_all add: CHUNK_SIZE_def demo_selected_def del: length_greater_0_conv flip: length_greater_0_conv)
  obtain t1 p1 where dl: "download_file demo_selected ?dest 4 ([], None) [Start 0, Block 0 demo_header, End 0, Join, Cleanup] ?t 0
      = Some (t1, p1, Done)" and got: "dget t1 ?dest = Some (NBin demo_header)"
    using small_download [OF small none] by blast
  obtain meta where meta: "read_gguf_header demo_header PROBE_BYTES = Inr meta" "declared_shards meta = None"
    using demo_header_read by blast
  have "validate_files (i_digest demo_env) t1 ?dir [entry_of_remote demo_selected] True = \<lparr>v_problems = [], v_meta = meta\<rparr>"
    using got meta by (simp add: validate_files_def check_entry_def entry fs_exists_def
        dhas_iff fs_size_def fs_bytes_def Let_def)
  moreover have "\<not> is_mmproj ''M-Q8.gguf''" by code_simp
  ultimately have rec: "\<exists>t'. record_install demo_env (path_of ''/models'') demo_model ''Q8'' True [demo_selected] t1 = (t', Installed True)"
    by (simp add: record_install_def Let_def v_ok_def entry demo_model_def)
  have all: "download_all demo_env ?dir [demo_selected] ?t 0 = Some (t1, p1, Done)"
    using dl by (simp add: name demo_env_def)
  have "quant_or_default demo_model None = ''Q8''" "dget (m_quants demo_model) ''Q8'' = Some 1" "m_id demo_model = ''m''"
    by (simp_all add: quant_or_default_def demo_model_def)
  moreover have "\<not> already_installed (path_of ''/models'') demo_model ''Q8'' []"
    by (simp add: already_installed_def installed_def read_manifest_def fs_read_def)
  ultimately show ?thesis
    using rec all by (auto simp: install_model_def Let_def demo_selection)
qed


end
