(* ===== verification/Fetch_Configs.thy ===== *)
theory Fetch_Configs
  imports Fetch_Install_Laws Wiring_Config
begin

text \<open>
  What \<open>scripts/fetch_models.py\<close> generates from the installed models: the preset file of
  llama-server (\<open>generate_preset_ini\<close>), the opencode configuration (\<open>generate_opencode_config\<close>, its
  own part in \<open>opencode_base\<close>, then the conductor wiring), and the model list of the benchmark
  configuration. An entry is a model with its manifest. The laws: the preset file has one
  section per model in order, every default the opencode configuration names is a chat model it
  lists, and what it lists are exactly the installed chat models.
\<close>

section \<open>The preset file\<close>

type_synonym installed_entry = "model \<times> jobj"

definition serve_ctx_of :: "int option \<Rightarrow> model \<Rightarrow> int" where
  \<comment> \<open>\<open>ctx_override or model.serve_ctx\<close>\<close>
  "serve_ctx_of ctx_override m = (case ctx_override of Some n \<Rightarrow> if n = 0 then m_serve_ctx m else n | None \<Rightarrow> m_serve_ctx m)"

definition man_text :: "jobj \<Rightarrow> string \<Rightarrow> string" where
  \<comment> \<open>\<open>str(man[k])\<close> of a field the installer writes as a string\<close>
  "man_text man k = (case jget man k of JStr s \<Rightarrow> s | _ \<Rightarrow> [])"

definition preset_head :: "string list" where
  "preset_head =
     [''; Generated by scripts/fetch_models.py - do not edit by hand.'',
      ''; Consumed by: llama-server --models-preset .data/configs/llama-models.ini'',
      ''; Keys are llama-server long options with the leading dashes removed.'',
      [], ''[*]'', ''n-gpu-layers = 999'', ''flash-attn = auto'', ''jinja = true'', []]"

definition preset_line :: "string \<Rightarrow> string \<Rightarrow> string" where
  "preset_line k v = k @ '' = '' @ v"

definition preset_section :: "path \<Rightarrow> int option \<Rightarrow> installed_entry \<Rightarrow> string list" where
  "preset_section models_dir ctx_override e = (case e of (m, man) \<Rightarrow>
     let dir = path_join models_dir (m_id m) in
     [''['' @ m_id m @ '']'', preset_line ''model'' (path_str (path_join dir (man_text man ''primary'')))]
     @ (if truthy (jget man ''mmproj'') then [preset_line ''mmproj'' (path_str (path_join dir (man_text man ''mmproj'')))] else [])
     @ [preset_line ''ctx-size'' (str_int (serve_ctx_of ctx_override m)), preset_line ''tags'' (m_category m)]
     @ map (\<lambda>(k, v). preset_line k v) (sort (m_sampling m)) @ [[]])"

definition generate_preset_ini :: "path \<Rightarrow> installed_entry list \<Rightarrow> int option \<Rightarrow> string" where
  "generate_preset_ini models_dir entries ctx_override =
     str_join [CHR 0x0A] (preset_head @ concat (map (preset_section models_dir ctx_override) entries))"

section \<open>The opencode configuration\<close>

definition is_chat :: "model \<Rightarrow> bool" where
  "is_chat m = (\<not> (m_embedding m \<or> m_reranker m))"

definition opencode_model :: "int option \<Rightarrow> installed_entry \<Rightarrow> json" where
  "opencode_model ctx_override e = (case e of (m, man) \<Rightarrow>
     let ctx = serve_ctx_of ctx_override m; has_vision = truthy (jget man ''mmproj'');
         modalities = (if has_vision then [JStr ''text'', JStr ''image''] else [JStr ''text'']) in
     JObj [(''id'', JStr (m_id m)), (''name'', JStr (m_title m @ '' ['' @ m_category m @ '']'')),
       (''family'', JStr (m_category m)), (''tool_call'', JBool (m_tool_call m)), (''reasoning'', JBool (m_reasoning m)),
       (''attachment'', JBool has_vision), (''temperature'', JBool True),
       (''modalities'', JObj [(''input'', JArr modalities), (''output'', JArr [JStr ''text''])]),
       (''limit'', JObj [(''context'', JInt ctx), (''output'', JInt (max 4096 (ctx div 4)))]),
       (''cost'', JObj [(''input'', JInt 0), (''output'', JInt 0)])])"

definition opencode_models :: "installed_entry list \<Rightarrow> int option \<Rightarrow> jobj" where
  "opencode_models entries ctx_override =
     foldl (\<lambda>d e. if is_chat (fst e) then dset (m_id (fst e)) (opencode_model ctx_override e) d else d) [] entries"

definition chat_models :: "installed_entry list \<Rightarrow> model list" where
  "chat_models entries = filter is_chat (map fst entries)"

definition default_model :: "installed_entry list \<Rightarrow> model option" where
  "default_model entries =
     (let chat = chat_models entries; coding = filter (\<lambda>m. m_category m = ''coding'') chat in
      case (if coding \<noteq> [] then coding else chat) of [] \<Rightarrow> None | m # _ \<Rightarrow> Some m)"

definition size_key :: "model \<Rightarrow> int" where
  "size_key m = (case default_size_gb m of Some n \<Rightarrow> n | None \<Rightarrow> 0)"

definition small_model :: "installed_entry list \<Rightarrow> model option" where
  "small_model entries = min_by size_key (chat_models entries)"

definition opencode_base :: "installed_entry list \<Rightarrow> string \<Rightarrow> int \<Rightarrow> int option \<Rightarrow> jobj" where
  "opencode_base entries host port ctx_override =
     [(''$schema'', JStr ''https://opencode.ai/config.json''),
      (''provider'', JObj [(PROVIDER_ID, JObj
        [(''npm'', JStr ''@ai-sdk/openai-compatible''), (''name'', JStr ''llama.cpp (local router)''),
         (''options'', JObj [(''baseURL'', JStr (''http://'' @ host @ '':'' @ str_int port @ ''/v1'')), (''apiKey'', JStr ''local''),
            (''timeout'', JInt 1800000), (''headerTimeout'', JInt 600000)]),
         (''models'', JObj (opencode_models entries ctx_override))])])]
     @ (case default_model entries of None \<Rightarrow> [] | Some m \<Rightarrow> [(''model'', JStr (PROVIDER_ID @ ''/'' @ m_id m))])
     @ (case small_model entries of None \<Rightarrow> [] | Some m \<Rightarrow> [(''small_model'', JStr (PROVIDER_ID @ ''/'' @ m_id m))])"

definition generate_opencode_config ::
  "installed_entry list \<Rightarrow> string \<Rightarrow> int \<Rightarrow> int option \<Rightarrow> path \<Rightarrow> fs \<Rightarrow> (wiring_error, jobj) res" where
  "generate_opencode_config entries host port ctx_override repo_root t =
     apply_conductor_wiring (opencode_base entries host port ctx_override) (openai_base_url host port) repo_root None None t"

section \<open>The models of the benchmark configuration\<close>

definition benchmark_model :: "(string \<Rightarrow> string option) \<Rightarrow> string list \<Rightarrow> installed_entry \<Rightarrow> json" where
  "benchmark_model task_id preset_names e = (case e of (m, man) \<Rightarrow>
     JObj [(''id'', JStr (m_id m)), (''enabled'', JBool True), (''category'', JStr (m_category m)),
       (''quant'', jget man ''quant''), (''task'', case task_id (m_category m) of None \<Rightarrow> JNull | Some i \<Rightarrow> JStr i),
       (''presets'', JArr (map JStr preset_names)),
       (''author_sampling'', JObj (map (\<lambda>(k, v). (k, JStr v)) (m_sampling m))),
       (''serve_ctx'', JInt (m_serve_ctx m)), (''vision'', JBool (truthy (jget man ''mmproj'')))])"

section \<open>Laws\<close>

lemma opencode_models_get:
  "dget (foldl (\<lambda>d e. if is_chat (fst e) then dset (m_id (fst e)) (opencode_model c e) d else d) d0 es) k \<noteq> None
   \<longleftrightarrow> dget d0 k \<noteq> None \<or> (\<exists>e \<in> set es. is_chat (fst e) \<and> m_id (fst e) = k)"
  by (induction es arbitrary: d0) auto

lemma opencode_models_chat:
  "dget (opencode_models entries c) k \<noteq> None \<longleftrightarrow> (\<exists>m \<in> set (chat_models entries). m_id m = k)"
  unfolding opencode_models_def opencode_models_get by (force simp: chat_models_def)

lemma default_model_chat: "default_model entries = Some m \<Longrightarrow> m \<in> set (chat_models entries)"
  by (auto simp: default_model_def Let_def split: if_splits list.splits dest: filter_eq_ConsD)

lemma default_model_None: "default_model entries = None \<longleftrightarrow> chat_models entries = []"
  by (auto simp: default_model_def Let_def split: list.splits)

lemma installed_entries:
  "set (map fst (installed_models cat models_dir t)) = {m \<in> set cat. installed models_dir (m_id m) t \<noteq> None}"
  by (induction cat) (auto simp: installed_models_def map_filter_simps split: option.splits)

lemma installed_chat:
  "m \<in> set (chat_models (installed_models cat models_dir t)) \<longleftrightarrow>
     m \<in> set cat \<and> is_chat m \<and> installed models_dir (m_id m) t \<noteq> None"
  using installed_entries [of cat models_dir t] by (auto simp: chat_models_def)

lemma default_model_coding:
  "default_model entries = Some m \<Longrightarrow> m' \<in> set (chat_models entries) \<Longrightarrow> m_category m' = ''coding'' \<Longrightarrow>
   m_category m = ''coding''"
  by (auto simp: default_model_def Let_def filter_empty_conv split: if_splits list.splits dest: filter_eq_ConsD)

lemma no_keys:
  assumes "\<And>k. dget d k = None"
  shows "d = []"
proof (cases d)
  case (Cons p ps)
  then show ?thesis using assms [of "fst p"] by (cases p) simp
qed

lemma base_fields:
  "jget (opencode_base entries host port c) ''model'' =
     (case default_model entries of None \<Rightarrow> JNull | Some m \<Rightarrow> JStr (PROVIDER_ID @ ''/'' @ m_id m))"
  "jget (opencode_base entries host port c) ''small_model'' =
     (case small_model entries of None \<Rightarrow> JNull | Some m \<Rightarrow> JStr (PROVIDER_ID @ ''/'' @ m_id m))"
  by (auto simp: opencode_base_def jget_def split: option.split)

text \<open>the opencode configuration that is generated offers exactly the chat models that are
  installed; the default model it names is one of these, a coding model whenever one is
  installed, and the small model is one of least size. With no chat model installed it names none.\<close>

theorem config_offers_what_is_installed:
  fixes cat models_dir t
  defines "entries \<equiv> installed_models cat models_dir t"
  shows "(dget (opencode_models entries c) k \<noteq> None \<longleftrightarrow>
        (\<exists>m \<in> set cat. m_id m = k \<and> is_chat m \<and> installed models_dir k t \<noteq> None))
    \<and> (case default_model entries of
        None \<Rightarrow> jget (opencode_base entries host port c) ''model'' = JNull \<and> opencode_models entries c = []
      | Some m \<Rightarrow> jget (opencode_base entries host port c) ''model'' = JStr (PROVIDER_ID @ ''/'' @ m_id m)
          \<and> dget (opencode_models entries c) (m_id m) \<noteq> None
          \<and> (m_category m = ''coding'' \<or> (\<forall>m' \<in> set (chat_models entries). m_category m' \<noteq> ''coding'')))
    \<and> (case small_model entries of
        None \<Rightarrow> chat_models entries = []
      | Some m \<Rightarrow> jget (opencode_base entries host port c) ''small_model'' = JStr (PROVIDER_ID @ ''/'' @ m_id m)
          \<and> dget (opencode_models entries c) (m_id m) \<noteq> None
          \<and> (\<forall>m' \<in> set (chat_models entries). size_key m \<le> size_key m'))"
proof (intro conjI)
  show "dget (opencode_models entries c) k \<noteq> None \<longleftrightarrow>
      (\<exists>m \<in> set cat. m_id m = k \<and> is_chat m \<and> installed models_dir k t \<noteq> None)"
    unfolding opencode_models_chat by (auto simp: entries_def installed_chat)
  show "case default_model entries of
        None \<Rightarrow> jget (opencode_base entries host port c) ''model'' = JNull \<and> opencode_models entries c = []
      | Some m \<Rightarrow> jget (opencode_base entries host port c) ''model'' = JStr (PROVIDER_ID @ ''/'' @ m_id m)
          \<and> dget (opencode_models entries c) (m_id m) \<noteq> None
          \<and> (m_category m = ''coding'' \<or> (\<forall>m' \<in> set (chat_models entries). m_category m' \<noteq> ''coding''))"
  proof (cases "default_model entries")
    case None
    then have "dget (opencode_models entries c) k = None" for k
      using opencode_models_chat [of entries c k] by (simp add: default_model_None)
    then have "opencode_models entries c = []" by (rule no_keys)
    then show ?thesis using None by (simp add: base_fields)
  next
    case (Some m)
    then show ?thesis
      using default_model_chat [OF Some] default_model_coding [OF Some] opencode_models_chat by (auto simp: base_fields)
  qed
  show "case small_model entries of
        None \<Rightarrow> chat_models entries = []
      | Some m \<Rightarrow> jget (opencode_base entries host port c) ''small_model'' = JStr (PROVIDER_ID @ ''/'' @ m_id m)
          \<and> dget (opencode_models entries c) (m_id m) \<noteq> None
          \<and> (\<forall>m' \<in> set (chat_models entries). size_key m \<le> size_key m')"
  proof (cases "small_model entries")
    case (Some m)
    then have "m \<in> set (chat_models entries)" "\<forall>m' \<in> set (chat_models entries). size_key m \<le> size_key m'"
      using min_by_least [of size_key "chat_models entries" m] by (simp_all add: small_model_def)
    then show ?thesis using Some opencode_models_chat by (auto simp: base_fields)
  qed (simp add: small_model_def)
qed

definition demo_manifest :: jobj where
  "demo_manifest = good_manifest demo_env demo_model ''Q8'' True 1 ''w.gguf'' [\<lparr>e_name = ''w.gguf'', e_path = ''w.gguf'', e_size = 1, e_sha256 = None\<rparr>] []"

definition demo_models_dir :: fs where
  "demo_models_dir = [(manifest_path (path_of ''/models'') ''m'', NFile (json_file (JObj demo_manifest))),
     (path_join (path_join (path_of ''/models'') ''m'') ''w.gguf'', NBin [7])]"

lemma demo_installed: "installed (path_of ''/models'') ''m'' demo_models_dir = Some demo_manifest"
proof -
  have plain: "plain_json (JObj demo_manifest)"
    unfolding demo_manifest_def by (rule good_plain) (simp add: demo_env_def plain_json_def)
  have other: "path_join (path_join (path_of ''/models'') ''m'') ''w.gguf'' \<noteq> manifest_path (path_of ''/models'') ''m''"
    by code_simp
  have "manifest_intact (path_of ''/models'') ''m'' demo_manifest demo_models_dir = Some True"
    using other by (simp add: manifest_intact_def demo_manifest_def good_files demo_models_dir_def fs_exists_def dhas_iff fs_size_def Let_def)
  moreover have "read_manifest (path_of ''/models'') ''m'' demo_models_dir = Some demo_manifest"
    using doc.dec_enc [OF plain] by (simp add: read_manifest_def fs_read_def demo_models_dir_def)
  ultimately show ?thesis using good_fields by (simp add: installed_def demo_manifest_def)
qed

theorem config_offers_what_is_installed_witness:
  "dget (opencode_models (installed_models [demo_model] (path_of ''/models'') demo_models_dir) None) ''m'' \<noteq> None"
  using config_offers_what_is_installed [of "[demo_model]" "path_of ''/models''" demo_models_dir None "''m''" "''h''" 1] demo_installed
  by (simp add: demo_model_def is_chat_def)

end
