(* ===== verification/Euler_Texts.thy ===== *)
theory Euler_Texts
  imports Prelude
begin

text \<open>
  \<open>scripts/generate_euler_tasks.py\<close>, the files it writes: the seed repository every task starts
  from, the gauge of one problem and the prompt, line for line. A \<open>%\<close> template is a function of
  the texts its conversions produce, with \<open>%%\<close> written as the sign it stands for.
\<close>

definition text_lines :: "string list \<Rightarrow> string" where
  \<comment> \<open>the lines of a file, each with its line end\<close>
  "text_lines ls = concat (map (\<lambda>l. l @ [CHR 0x0A]) ls)"

lemma text_lines_length: "length (text_lines ls) = sum_list (map (\<lambda>l. Suc (length l)) ls)"
  by (simp add: text_lines_def length_concat comp_def)

definition REGISTRY_PY :: string where
  \<open>REGISTRY_PY = text_lines
    [''"""The solver registry: one common interface every solver is reached through."""'',
     [],
     ''_SOLVERS = {}'',
     [],
     [],
     ''def register(name, solve):'',
     ''    if name in _SOLVERS:'',
     ''        raise ValueError("solver %r is already registered" % name)'',
     ''    _SOLVERS[name] = solve'',
     [],
     [],
     ''def get(name):'',
     ''    if name not in _SOLVERS:'',
     ''        raise KeyError(name)'',
     ''    return _SOLVERS[name]'',
     [],
     [],
     ''def names():'',
     ''    return sorted(_SOLVERS)'']\<close>

definition CLI_PY :: string where
  \<open>CLI_PY = text_lines
    [''"""The command line over the solver registry."""'',
     [],
     ''import sys'',
     ''import time'',
     [],
     ''import src.solvers  # noqa: F401'',
     ''from src.registry import get, names'',
     [],
     [],
     ''def main(argv):'',
     ''    if not argv:'',
     ''        sys.stdout.write("usage: list | run <name|all>'' @ [CHR 0x5C] @ ''n")'',
     ''        return 2'',
     ''    if argv[0] == "list":'',
     ''        for name in names():'',
     ''            sys.stdout.write("%s'' @ [CHR 0x5C] @ ''n" % name)'',
     ''        return 0'',
     ''    if argv[0] == "run" and len(argv) == 2:'',
     ''        wanted = names() if argv[1] == "all" else [argv[1]]'',
     ''        for name in wanted:'',
     ''            try:'',
     ''                solve = get(name)'',
     ''            except KeyError:'',
     ''                sys.stdout.write("no such solver: %s'' @ [CHR 0x5C] @ ''n" % name)'',
     ''                return 2'',
     ''            started = time.time()'',
     ''            answer = solve()'',
     ''            elapsed = int(round((time.time() - started) * 1000.0))'',
     ''            sys.stdout.write("%s %s %dms'' @ [CHR 0x5C] @ ''n" % (name, answer, elapsed))'',
     ''        return 0'',
     ''    sys.stdout.write("usage: list | run <name|all>'' @ [CHR 0x5C] @ ''n")'',
     ''    return 2'']\<close>

definition RUN_TESTS_PY :: string where
  \<open>RUN_TESTS_PY = text_lines
    [''#!/usr/bin/env python3'',
     ''"""Run every check_*.py in one directory against the checkout at the cwd.'',
     [],
     ''Loaded by path rather than by unittest discovery: discovery would require the'',
     ''test directory to be an importable package, and a missing __init__.py there'',
     ''would look exactly like a failing suite.'',
     ''"""'',
     [],
     ''import importlib.util'',
     ''import os'',
     ''import sys'',
     ''import unittest'',
     [],
     ''def main(directory):'',
     ''    sys.path.insert(0, os.getcwd())'',
     ''    loader = unittest.TestLoader()'',
     ''    suite = unittest.TestSuite()'',
     ''    names = sorted('',
     ''        name'',
     ''        for name in os.listdir(directory)'',
     ''        if name.startswith("check_") and name.endswith(".py")'',
     ''    )'',
     ''    if not names:'',
     ''        sys.stderr.write("no check_*.py under %s'' @ [CHR 0x5C] @ ''n" % directory)'',
     ''        return 2'',
     ''    for name in names:'',
     ''        spec = importlib.util.spec_from_file_location('',
     ''            name[:-3], os.path.join(directory, name)'',
     ''        )'',
     ''        module = importlib.util.module_from_spec(spec)'',
     ''        spec.loader.exec_module(module)'',
     ''        suite.addTests(loader.loadTestsFromModule(module))'',
     ''    result = unittest.TextTestRunner(verbosity=2).run(suite)'',
     ''    if not result.testsRun:'',
     ''        return 2'',
     ''    return 0 if result.wasSuccessful() else 1'',
     [],
     ''if __name__ == "__main__":'',
     ''    sys.exit(main(sys.argv[1]))'']\<close>

definition SOLVERS_INIT_PY :: string where
  \<open>SOLVERS_INIT_PY = text_lines
    [''from src.solvers import count_divisors, sum_of_squares  # noqa: F401'']\<close>

definition SUM_OF_SQUARES_PY :: string where
  \<open>SUM_OF_SQUARES_PY = text_lines
    [''from src.registry import register'',
     [],
     [],
     ''def solve():'',
     ''    return sum(n * n for n in range(1, 11))'',
     [],
     [],
     ''register("sum_of_squares", solve)'']\<close>

definition COUNT_DIVISORS_PY :: string where
  \<open>COUNT_DIVISORS_PY = text_lines
    [''from src.registry import register'',
     [],
     [],
     ''def solve():'',
     ''    return sum(1 for n in range(1, 361) if 360 % n == 0)'',
     [],
     [],
     ''register("count_divisors", solve)'']\<close>

definition CHECK_VISIBLE_PY :: string where
  \<open>CHECK_VISIBLE_PY = text_lines
    [''import contextlib'',
     ''import io'',
     ''import unittest'',
     [],
     ''import src.solvers  # noqa: F401'',
     ''from src.cli import main'',
     ''from src.registry import get, names'',
     [],
     [],
     ''class VisibleTests(unittest.TestCase):'',
     ''    def test_the_worked_solvers_answer(self):'',
     ''        self.assertEqual(get("sum_of_squares")(), 385)'',
     ''        self.assertEqual(get("count_divisors")(), 24)'',
     [],
     ''    def test_the_cli_lists_what_is_registered(self):'',
     ''        buffer = io.StringIO()'',
     ''        with contextlib.redirect_stdout(buffer):'',
     ''            code = main(["list"])'',
     ''        self.assertEqual(code, 0)'',
     ''        self.assertEqual(buffer.getvalue().split(), names())'',
     [],
     [],
     ''if __name__ == "__main__":'',
     ''    unittest.main()'']\<close>

definition SEED_README_MD :: string where
  \<open>SEED_README_MD = text_lines
    [''# euler'',
     [],
     ''A collection solver: a registry, one module per problem under `src/solvers/`,'',
     ''and a command line over both.'',
     [],
     ''- `src/registry.py` holds the registry. `register(name, solve)` refuses a'',
     ''  duplicate name, `get(name)` raises `KeyError` for a name it does not hold,'',
     ''  and `names()` returns the registered names sorted.'',
     ''- A solver module defines `solve()`, which takes no arguments and returns an'',
     ''  int, and calls `register("<module name>", solve)` at import time under its'',
     ''  own module name. `src/solvers/sum_of_squares.py` is the shape, in full.'',
     ''- `src/solvers/__init__.py` imports every solver module, so importing the'',
     ''  package is what registers the collection.'',
     ''- `src/cli.py` is `list` and `run <name|all>` over the registry.'',
     [],
     ''Run the suite with `python3 tools/run_tests.py tests`.'']\<close>

definition SEED_GITIGNORE :: string where
  \<open>SEED_GITIGNORE = text_lines
    [''__pycache__/'',
     ''*.pyc'']\<close>

text \<open>The gauge: the arguments are \<open>%(target)r\<close>, \<open>%(answer)d\<close>, \<open>%(worked)s\<close>, \<open>%(budget)d\<close> and \<open>%(imports_tuple)s\<close>.\<close>

definition CHECK_SPEC_HEAD :: "string list" where
  \<open>CHECK_SPEC_HEAD =
    [''import ast'',
     ''import contextlib'',
     ''import io'',
     ''import os'',
     ''import time'',
     ''import unittest'',
     [],
     ''import src.solvers  # noqa: F401'',
     ''from src.cli import main'',
     ''from src.registry import get, names'',
     []]\<close>

definition CHECK_SPEC_PACKAGE :: "string list" where
  \<open>CHECK_SPEC_PACKAGE =
    [[],
     ''# The package the work happens in. Every module under it is read, not only the'',
     ''# target: an answer parked in a module of its own and imported back is the'',
     ''# answer written down with one extra file in front of it.'',
     ''PACKAGE_DIR = "src"'',
     [],
     ''# What a module under src may import. Everything that reaches outside this'',
     ''# process for a value is absent, which is the other half of "computes the'',
     ''# answer rather than reading it from anywhere". The seeded command line needs'',
     ''# sys and time, so both are here.'']\<close>

definition CHECK_SPEC_FOLDING :: "string list" where
  \<open>CHECK_SPEC_FOLDING =
    [[],
     ''# Builtins that fetch a value from outside the module's own text.'',
     ''FORBIDDEN_CALLS = ("open", "input", "eval", "exec", "compile", "__import__")'',
     [],
     ''# A folded value longer than this is not an answer to any problem in this set,'',
     ''# and folding on past it is how a check spends a minute on `10 ** 10 ** 9`.'',
     ''MAX_FOLD_DIGITS = 64'',
     [],
     [],
     ''def _apply(op, left, right):'',
     ''    """One binary operator over two folded operands, or None."""'',
     ''    if isinstance(left, str) or isinstance(right, str):'',
     ''        if isinstance(op, ast.Add) and isinstance(left, str) and isinstance(right, str):'',
     ''            return left + right'',
     ''        return None'',
     ''    if isinstance(op, (ast.Pow, ast.LShift)) and ('',
     ''        abs(right) > 1024 or len(str(abs(left))) > 32'',
     ''    ):'',
     ''        return None'',
     ''    table = {'',
     ''        ast.Add: lambda a, b: a + b,'',
     ''        ast.Sub: lambda a, b: a - b,'',
     ''        ast.Mult: lambda a, b: a * b,'',
     ''        ast.FloorDiv: lambda a, b: a // b,'',
     ''        ast.Mod: lambda a, b: a % b,'',
     ''        ast.Pow: lambda a, b: a ** b,'',
     ''        ast.LShift: lambda a, b: a << b,'',
     ''        ast.RShift: lambda a, b: a >> b,'',
     ''        ast.BitOr: lambda a, b: a | b,'',
     ''        ast.BitAnd: lambda a, b: a & b,'',
     ''        ast.BitXor: lambda a, b: a ^ b,'',
     ''    }'',
     ''    for kind in table:'',
     ''        if isinstance(op, kind):'',
     ''            try:'',
     ''                return table[kind](left, right)'',
     ''            except (ArithmeticError, TypeError, ValueError):'',
     ''                return None'',
     ''    return None'',
     [],
     [],
     ''def _fold(node, env):'',
     ''    """What one expression comes to, when its whole text decides it.'',
     [],
     ''    `233168` and `233000 + 168` and `int("2331" + "68")` are the same claim'',
     ''    written three ways, and a check that reads only the first fails a solver'',
     ''    that is doing the work while scoring one that recalled the number.'',
     ''    """'',
     ''    if isinstance(node, ast.Constant):'',
     ''        value = node.value'',
     ''        if isinstance(value, bool):'',
     ''            return None'',
     ''        return value if isinstance(value, (int, str)) else None'',
     ''    if isinstance(node, ast.Name):'',
     ''        return env.get(node.id)'',
     ''    if isinstance(node, ast.UnaryOp) and isinstance(node.op, (ast.UAdd, ast.USub)):'',
     ''        value = _fold(node.operand, env)'',
     ''        if not isinstance(value, int):'',
     ''            return None'',
     ''        return value if isinstance(node.op, ast.UAdd) else -value'',
     ''    if isinstance(node, ast.BinOp):'',
     ''        left = _fold(node.left, env)'',
     ''        right = _fold(node.right, env)'',
     ''        if left is None or right is None:'',
     ''            return None'',
     ''        return _cap(_apply(node.op, left, right))'',
     ''    if isinstance(node, ast.Call):'',
     ''        return _fold_call(node, env)'',
     ''    if isinstance(node, ast.JoinedStr):'',
     ''        parts = []'',
     ''        for piece in node.values:'',
     ''            if isinstance(piece, ast.Constant) and isinstance(piece.value, str):'',
     ''                parts.append(piece.value)'',
     ''            elif isinstance(piece, ast.FormattedValue) and piece.format_spec is None:'',
     ''                inner = _fold(piece.value, env)'',
     ''                if inner is None:'',
     ''                    return None'',
     ''                parts.append(str(inner))'',
     ''            else:'',
     ''                return None'',
     ''        return _cap("".join(parts))'',
     ''    return None'',
     [],
     [],
     ''def _fold_call(node, env):'',
     ''    """`int(...)`, `str(...)`, `abs(...)` and `sum(...)` over folded arguments."""'',
     ''    if not isinstance(node.func, ast.Name) or node.keywords:'',
     ''        return None'',
     ''    name = node.func.id'',
     ''    if name in ("int", "str", "abs") and len(node.args) == 1:'',
     ''        value = _fold(node.args[0], env)'',
     ''        if value is None:'',
     ''            return None'',
     ''        try:'',
     ''            return _cap({"int": int, "str": str, "abs": abs}[name](value))'',
     ''        except (TypeError, ValueError):'',
     ''            return None'',
     ''    if name == "sum" and len(node.args) == 1:'',
     ''        items = node.args[0]'',
     ''        if not isinstance(items, (ast.List, ast.Tuple)):'',
     ''            return None'',
     ''        total = 0'',
     ''        for item in items.elts:'',
     ''            value = _fold(item, env)'',
     ''            if not isinstance(value, int):'',
     ''                return None'',
     ''            total += value'',
     ''        return _cap(total)'',
     ''    return None'',
     [],
     [],
     ''def _cap(value):'',
     ''    """A folded value, or None when it has grown past anything this compares."""'',
     ''    if value is None:'',
     ''        return None'',
     ''    return value if len(str(value)) <= MAX_FOLD_DIGITS else None'',
     [],
     [],
     ''def _bindings(tree):'',
     ''    """Module and function names bound once to something that folds.'',
     [],
     ''    A name assigned twice is dropped rather than guessed at, so `high + low`'',
     ''    folds only when both halves are written down exactly once.'',
     ''    """'',
     ''    env = {}'',
     ''    dropped = set()'',
     ''    for node in ast.walk(tree):'',
     ''        if not isinstance(node, (ast.Assign, ast.AnnAssign)):'',
     ''            continue'',
     ''        targets = node.targets if isinstance(node, ast.Assign) else [node.target]'',
     ''        if node.value is None:'',
     ''            continue'',
     ''        value = _fold(node.value, env)'',
     ''        for target in targets:'',
     ''            if not isinstance(target, ast.Name):'',
     ''                continue'',
     ''            if target.id in env or target.id in dropped:'',
     ''                env.pop(target.id, None)'',
     ''                dropped.add(target.id)'',
     ''            elif value is not None:'',
     ''                env[target.id] = value'',
     ''    return env'',
     [],
     [],
     ''def _written_values(path):'',
     ''    """Every value one module's own text comes to, as text."""'',
     ''    with open(path, "rb") as handle:'',
     ''        tree = ast.parse(handle.read())'',
     ''    env = _bindings(tree)'',
     ''    out = [str(value) for value in env.values()]'',
     ''    for node in ast.walk(tree):'',
     ''        if isinstance(node, (ast.Constant, ast.BinOp, ast.UnaryOp, ast.Call, ast.JoinedStr)):'',
     ''            value = _fold(node, env)'',
     ''            if value is not None:'',
     ''                out.append(str(value))'',
     ''    return out'',
     [],
     [],
     ''def _outside_reads(path):'',
     ''    """Every way one module reaches outside its own text for a value."""'',
     ''    with open(path, "rb") as handle:'',
     ''        tree = ast.parse(handle.read())'',
     ''    found = []'',
     ''    for node in ast.walk(tree):'',
     ''        if isinstance(node, ast.Import):'',
     ''            for alias in node.names:'',
     ''                root = alias.name.split(".")[0]'',
     ''                if root != PACKAGE_DIR and root not in ALLOWED_IMPORTS:'',
     ''                    found.append("import %s" % alias.name)'',
     ''        elif isinstance(node, ast.ImportFrom):'',
     ''            root = (node.module or "").split(".")[0]'',
     ''            if node.level or (root != PACKAGE_DIR and root not in ALLOWED_IMPORTS):'',
     ''                found.append("from %s import ..." % (node.module or "."))'',
     ''        elif isinstance(node, ast.Call) and isinstance(node.func, ast.Name):'',
     ''            if node.func.id in FORBIDDEN_CALLS:'',
     ''                found.append("%s(...)" % node.func.id)'',
     ''    return found'',
     [],
     [],
     ''def _package_modules():'',
     ''    """Every module under src, in a stable order."""'',
     ''    out = []'',
     ''    for base, _, files in os.walk(PACKAGE_DIR):'',
     ''        for name in files:'',
     ''            if name.endswith(".py"):'',
     ''                out.append(os.path.join(base, name))'',
     ''    return sorted(out)'',
     [],
     []]\<close>

definition CHECK_SPEC_TESTS :: "string list" where
  \<open>CHECK_SPEC_TESTS =
    [''class SpecTests(unittest.TestCase):'',
     ''    def test_the_collection_is_the_worked_solvers_plus_the_target(self):'',
     ''        self.assertEqual(names(), sorted(list(WORKED) + [TARGET]))'',
     [],
     ''    def test_the_target_solver_answers_inside_the_budget(self):'',
     ''        started = time.time()'',
     ''        answer = get(TARGET)()'',
     ''        elapsed = time.time() - started'',
     ''        self.assertEqual(answer, ANSWER, TARGET)'',
     ''        self.assertLess(elapsed, float(BUDGET_SEC), "%s took %.1fs" % (TARGET, elapsed))'',
     [],
     ''    def test_the_worked_solvers_still_answer(self):'',
     ''        for name in sorted(WORKED):'',
     ''            self.assertEqual(get(name)(), WORKED[name], name)'',
     [],
     ''    def test_the_target_module_registers_itself_under_its_own_name(self):'',
     ''        module = __import__("src.solvers." + TARGET, fromlist=["solve"])'',
     ''        self.assertTrue(hasattr(module, "solve"), TARGET)'',
     ''        self.assertIs(get(TARGET), module.solve, TARGET)'',
     [],
     ''    def test_the_answer_is_computed_rather_than_written_down(self):'',
     ''        written = str(ANSWER)'',
     ''        modules = _package_modules()'',
     ''        self.assertTrue(modules, PACKAGE_DIR)'',
     ''        for path in modules:'',
     ''            for value in _written_values(path):'',
     ''                self.assertNotEqual('',
     ''                    value,'',
     ''                    written,'',
     ''                    "%s writes the answer down: %s" % (path, TARGET),'',
     ''                )'',
     [],
     ''    def test_the_answer_is_computed_rather_than_read_from_anywhere(self):'',
     ''        for path in _package_modules():'',
     ''            self.assertEqual('',
     ''                _outside_reads(path),'',
     ''                [],'',
     ''                "%s reaches outside itself for a value" % path,'',
     ''            )'',
     [],
     ''    def test_run_all_covers_the_collection(self):'',
     ''        buffer = io.StringIO()'',
     ''        with contextlib.redirect_stdout(buffer):'',
     ''            code = main(["run", "all"])'',
     ''        self.assertEqual(code, 0)'',
     ''        lines = buffer.getvalue().strip().splitlines()'',
     ''        expected = dict(WORKED)'',
     ''        expected[TARGET] = ANSWER'',
     ''        self.assertEqual(len(lines), len(expected))'',
     ''        for line, name in zip(lines, sorted(expected)):'',
     ''            self.assertRegex(line, r"^%s %d '' @ [CHR 0x5C] @ ''d+ms$" % (name, expected[name]))'',
     [],
     [],
     ''if __name__ == "__main__":'',
     ''    unittest.main()'']\<close>

definition CHECK_SPEC_TEMPLATE :: "string \<Rightarrow> string \<Rightarrow> string \<Rightarrow> string \<Rightarrow> string \<Rightarrow> string" where
  \<open>CHECK_SPEC_TEMPLATE target answer worked budget imports = text_lines
    (CHECK_SPEC_HEAD @
     [''TARGET = '' @ target,
     ''ANSWER = '' @ answer,
     ''WORKED = '' @ worked,
     ''BUDGET_SEC = '' @ budget] @
     CHECK_SPEC_PACKAGE @
     [''ALLOWED_IMPORTS = '' @ imports] @
     CHECK_SPEC_FOLDING @ CHECK_SPEC_TESTS)\<close>

definition PROMPT_TEMPLATE :: "string \<Rightarrow> string \<Rightarrow> string \<Rightarrow> string \<Rightarrow> string \<Rightarrow> string \<Rightarrow> string" where
  \<open>PROMPT_TEMPLATE module number title question budget imports =
     ''This package solves Project Euler problems through a registry: one module per problem '' @
     ''under src/solvers/, each exporting solve() and registering itself under its own module '' @
     ''name. Two worked solvers are there already, sum_of_squares and count_divisors, and '' @
     ''src/solvers/sum_of_squares.py is the shape to copy.'' @ [CHR 0x0A] @ [CHR 0x0A] @
     ''Add exactly one module, src/solvers/'' @
     module @
     ''.py, for Project Euler problem '' @
     number @
     '' ('' @
     title @
     ''):'' @ [CHR 0x0A] @ [CHR 0x0A] @
     question @ [CHR 0x0A] @ [CHR 0x0A] @
     ''Export solve() taking no arguments and returning an int, and call register("'' @
     module @
     ''", solve) at import time. Add '' @
     module @
     '' to the imports in src/solvers/__init__.py so importing the package registers it. '' @
     ''Change nothing in src/registry.py, src/cli.py or the two worked solvers, and add no '' @
     ''other module under src/solvers/. tests/check_visible.py must keep passing.'' @ [CHR 0x0A] @ [CHR 0x0A] @
     ''solve() must compute the answer. A module that writes the answer down, or reads it from '' @
     ''anywhere, scores nothing even when the value is right, and this is checked by reading '' @
     ''every module under src/ as well as by running them. Writing it down covers any '' @
     ''expression whose own text decides it, however it is spelled: a literal, a sum of two '' @
     ''literals, a string of digits handed to int(), or a constant parked in another module '' @
     ''and imported back. Reading it from anywhere covers open(), input(), eval(), exec(), '' @
     ''compile() and __import__(); no module under src/ may call one, and none may import '' @
     ''anything outside src and these: '' @
     imports @
     ''. Do not call a library routine that answers the problem outright. solve() must return '' @
     ''within '' @
     budget @
     '' seconds on one core, so choose the algorithm before you write the loop.''\<close>

end
