(* ===== verification/Euler_Tasks.thy ===== *)
theory Euler_Tasks
  imports Bench_Manifest Euler_Texts
begin

text \<open>
  \<open>scripts/generate_euler_tasks.py\<close>, from the inputs to the manifest: the answer key, the
  restatements and the hard subset as they are read and refused, their reconciliation, the seed
  and gauge trees and the manifest document. A problem number is a natural number, because every
  file spells it in digits; the hard subset spells it as an integer.
\<close>

section \<open>Constants\<close>

definition SEED_DIRNAME :: string where "SEED_DIRNAME = ''seed''"
definition HIDDEN_DIRNAME :: string where "HIDDEN_DIRNAME = ''hidden''"
definition ANSWERS_FILENAME :: string where "ANSWERS_FILENAME = ''expected-answers.json''"
definition RESTATEMENTS_FILENAME :: string where "RESTATEMENTS_FILENAME = ''restatements.json''"
definition HARD_SUBSET_FILENAME :: string where "HARD_SUBSET_FILENAME = ''hard-subset.json''"
definition EULER_MODEL :: string where "EULER_MODEL = ''llamacpp/qwen3.8-27b''"
definition EULER_TIER :: string where "EULER_TIER = ''T1''"
definition EXAMPLE_ANSWERS :: "(string, nat) dict" where
  "EXAMPLE_ANSWERS = [(''count_divisors'', 24), (''sum_of_squares'', 385)]"
definition SOLVE_BUDGET_SEC :: nat where "SOLVE_BUDGET_SEC = 60"
definition ALLOWED_IMPORT_MODULES :: "string list" where
  "ALLOWED_IMPORT_MODULES =
     [''array'', ''bisect'', ''cmath'', ''collections'', ''decimal'', ''fractions'',
      ''functools'', ''heapq'', ''itertools'', ''math'', ''operator'', ''random'', ''re'',
      ''statistics'', ''string'', ''sys'', ''time'']"
definition MAX_SHARED_WORDS :: nat where "MAX_SHARED_WORDS = 10"

section \<open>Inputs\<close>

text \<open>
  \<open>GeneratorError\<close>, one constructor per message, and the two exceptions the code lets escape:
  \<open>read_text\<close> on bytes that are not UTF-8 and \<open>int\<close> on a digit that is not decimal.
\<close>

datatype generator_error =
    CannotRead path
  | NotJson path
  | NotAnObject path
  | NoAnswers path
  | BadAnswerKey path string
  | BadAnswerNumber path string
  | BadAnswer path string json
  | NoVerified path
  | NoProblems path
  | BadEntryKey path string
  | EntryNotObject path string
  | EntryNoTitle path string
  | EntryBothOrNeither path string
  | EntryEmpty path string string
  | HardNotObject path
  | HardNoNumber path
  | HardNoInsight path int
  | Unstated "nat list"
  | Stray "nat list"
  | NothingAsked
  | NotUtf8Source string
  | UnicodeEscapes path
  | IntEscapes string

definition gen_read_json :: "fs \<Rightarrow> path \<Rightarrow> (generator_error, json) res" where
  "gen_read_json t p =
     (case dget t p of
        Some (NFile raw) \<Rightarrow> some_or (NotJson p) (json_loads raw)
      | Some (NBin _) \<Rightarrow> Inl (UnicodeEscapes p)
      | _ \<Rightarrow> Inl (CannotRead p))"

text \<open>\<open>str.isdigit\<close> also accepts the superscripts one, two and three, which \<open>int\<close> refuses.\<close>

definition py_isdigit :: "string \<Rightarrow> bool" where
  "py_isdigit s = (s \<noteq> [] \<and> (\<forall>c \<in> set s. is_digit c \<or> (of_char c :: nat) \<in> {178, 179, 185}))"

definition int_of_digits :: "string \<Rightarrow> (generator_error, nat) res" where
  "int_of_digits s = (if \<forall>c \<in> set s. is_digit c then Inr (nat_of_digits s) else Inl (IntEscapes s))"

definition load_answer ::
  "path \<Rightarrow> jobj \<Rightarrow> (nat, nat) dict \<Rightarrow> string \<Rightarrow> (generator_error, (nat, nat) dict) res" where
  "load_answer p answers out key =
     (if \<not> starts_with key ''euler-'' then Inl (BadAnswerKey p key)
      else
        (let digits = drop 6 key in
         if \<not> py_isdigit digits then Inl (BadAnswerNumber p key)
         else
           (case jget answers key of
              JNull \<Rightarrow> Inr out
            | JStr value \<Rightarrow>
                (if \<not> py_isdigit value then Inl (BadAnswer p key (JStr value))
                 else bindE (int_of_digits value) (\<lambda>v.
                      bindE (int_of_digits digits) (\<lambda>n. Inr (dset n v out))))
            | value \<Rightarrow> Inl (BadAnswer p key value))))"

definition load_answers :: "fs \<Rightarrow> path \<Rightarrow> (generator_error, (nat, nat) dict) res" where
  "load_answers t p =
     bindE (gen_read_json t p) (\<lambda>j.
     bindE (some_or (NotAnObject p) (the_obj j)) (\<lambda>document.
     bindE (some_or (NoAnswers p) (the_obj (jget document ''answers''))) (\<lambda>answers.
     bindE (guard (answers \<noteq> []) (NoAnswers p)) (\<lambda>_.
     bindE (foldE (load_answer p answers) [] (sort (map fst answers))) (\<lambda>out.
     bindE (guard (out \<noteq> []) (NoVerified p)) (\<lambda>_. Inr out))))))"

text \<open>A side-car entry asks the question or states why there is none, each under its title.\<close>

datatype restatement =
    Asked (st_title: string) (st_text: string)
  | Omitted (st_title: string) (st_text: string)

definition load_restatement ::
  "path \<Rightarrow> jobj \<Rightarrow> (nat, restatement) dict \<Rightarrow> string \<Rightarrow> (generator_error, (nat, restatement) dict) res" where
  "load_restatement p problems out key =
     (if \<not> py_isdigit key then Inl (BadEntryKey p key)
      else
        bindE (some_or (EntryNotObject p key) (the_obj (jget problems key))) (\<lambda>entry.
        bindE (some_or (EntryNoTitle p key) (text_field (jget entry ''title''))) (\<lambda>title.
        let has_question = dhas entry ''question''; has_omitted = dhas entry ''omitted'' in
        bindE (guard (has_question \<noteq> has_omitted) (EntryBothOrNeither p key)) (\<lambda>_.
        let field = (if has_question then ''question'' else ''omitted'') in
        bindE (some_or (EntryEmpty p key field) (text_field (jget entry field))) (\<lambda>body.
        bindE (int_of_digits key) (\<lambda>n.
        Inr (dset n ((if has_question then Asked else Omitted) (strip title) (strip body)) out)))))))"

definition load_restatements :: "fs \<Rightarrow> path \<Rightarrow> (generator_error, (nat, restatement) dict) res" where
  "load_restatements t p =
     bindE (gen_read_json t p) (\<lambda>j.
     bindE (some_or (NotAnObject p) (the_obj j)) (\<lambda>document.
     bindE (some_or (NoProblems p) (the_obj (jget document ''problems''))) (\<lambda>problems.
     bindE (guard (problems \<noteq> []) (NoProblems p)) (\<lambda>_.
     foldE (load_restatement p problems) [] (sort (map fst problems))))))"

definition load_hard_entry :: "path \<Rightarrow> (int, string) dict \<Rightarrow> json \<Rightarrow> (generator_error, (int, string) dict) res" where
  "load_hard_entry p out entry =
     bindE (some_or (HardNotObject p) (the_obj entry)) (\<lambda>d.
     bindE (some_or (HardNoNumber p) (strict_int (jget d ''number''))) (\<lambda>number.
     bindE (some_or (HardNoInsight p number) (text_field (jget d ''insight''))) (\<lambda>insight.
     Inr (dset number (strip insight) out))))"

definition load_hard_subset :: "fs \<Rightarrow> path \<Rightarrow> (generator_error, (int, string) dict) res" where
  "load_hard_subset t p =
     bindE (gen_read_json t p) (\<lambda>j.
     bindE (some_or (NotAnObject p) (the_obj j)) (\<lambda>document.
     bindE (some_or (NoProblems p) (the_arr (jget document ''problems''))) (\<lambda>problems.
     bindE (guard (problems \<noteq> []) (NoProblems p)) (\<lambda>_.
     foldE (load_hard_entry p) [] problems))))"

fun omitted_reason :: "restatement \<Rightarrow> string option" where
  "omitted_reason (Asked _ _) = None"
| "omitted_reason (Omitted _ reason) = Some reason"

definition reconcile ::
  "(nat, nat) dict \<Rightarrow> (nat, restatement) dict \<Rightarrow> (generator_error, nat list \<times> (nat \<times> string) list) res" where
  "reconcile answers restatements =
     (let unstated = sort (filter (\<lambda>n. \<not> dhas restatements n) (map fst answers));
          stray = sort (filter (\<lambda>n. \<not> dhas answers n) (map fst restatements))
      in if unstated \<noteq> [] then Inl (Unstated unstated)
         else if stray \<noteq> [] then Inl (Stray stray)
         else
           (let reason = (\<lambda>n. Option.bind (dget restatements n) omitted_reason) in
            Inr (sort (filter (\<lambda>n. reason n = None) (map fst answers)),
                 map (\<lambda>n. (n, the (reason n))) (filter (\<lambda>n. reason n \<noteq> None) (sort (map fst answers))))))"

section \<open>The trees\<close>

definition pad3 :: "nat \<Rightarrow> string" where
  \<comment> \<open>\<open>%03d\<close>\<close>
  "pad3 n = (let s = str_nat n in replicate (3 - length s) (CHR ''0'') @ s)"

definition solver_name :: "nat \<Rightarrow> string" where
  "solver_name n = ''p'' @ pad3 n"

definition euler_id :: "nat \<Rightarrow> string" where
  "euler_id n = ''euler-'' @ pad3 n @ ''-py''"

definition build_seed_files :: "(string, string) dict" where
  "build_seed_files =
     [(''.gitignore'', SEED_GITIGNORE),
      (''README.md'', SEED_README_MD),
      (''src/__init__.py'', []),
      (''src/cli.py'', CLI_PY),
      (''src/registry.py'', REGISTRY_PY),
      (''src/solvers/__init__.py'', SOLVERS_INIT_PY),
      (''src/solvers/count_divisors.py'', COUNT_DIVISORS_PY),
      (''src/solvers/sum_of_squares.py'', SUM_OF_SQUARES_PY),
      (''tests/check_visible.py'', CHECK_VISIBLE_PY),
      (''tools/run_tests.py'', RUN_TESTS_PY)]"

definition import_row :: "string list \<times> string list \<Rightarrow> string \<Rightarrow> string list \<times> string list" where
  "import_row st name =
     (case st of (lines, row) \<Rightarrow>
        (let row = row @ [CHR 0x22 # name @ [CHR 0x22, CHR '','']] in
         if length (str_join '' '' row) > 60 then (lines @ [''    '' @ str_join '' '' row], []) else (lines, row)))"

definition render_imports :: string where
  "render_imports =
     (let (lines, row) = foldl import_row ([''(''], []) ALLOWED_IMPORT_MODULES;
          lines = (if row \<noteq> [] then lines @ [''    '' @ str_join '' '' row] else lines)
      in str_join [CHR 0x0A] (lines @ ['')'']))"

definition py_quoted :: "string \<Rightarrow> string" where
  \<comment> \<open>\<open>%r\<close> of a plain identifier\<close>
  "py_quoted s = CHR 0x27 # s @ [CHR 0x27]"

definition worked_literal :: string where
  "worked_literal =
     ''{'' @ str_join '', '' (map (\<lambda>name. py_quoted name @ '': '' @ str_nat (the (dget EXAMPLE_ANSWERS name)))
                          (sort (map fst EXAMPLE_ANSWERS))) @ ''}''"

definition build_gauge_files :: "nat \<Rightarrow> nat \<Rightarrow> (string, string) dict" where
  "build_gauge_files number answer =
     [(''gauge/check_spec.py'',
         CHECK_SPEC_TEMPLATE (py_quoted (solver_name number)) (str_nat answer) worked_literal
           (str_nat SOLVE_BUDGET_SEC) render_imports),
      (''gauge/run.py'', RUN_TESTS_PY)]"

end
