(* ===== verification/Euler_Manifest.thy ===== *)
theory Euler_Manifest
  imports Euler_Tasks
begin

text \<open>
  \<open>scripts/generate_euler_tasks.py\<close>, the manifest it builds: the prompt, the rationale and the
  entry of a task, the selection criteria and the document the bench reads.
\<close>

definition euler_prompt :: "nat \<Rightarrow> restatement \<Rightarrow> string" where
  "euler_prompt number entry =
     PROMPT_TEMPLATE (solver_name number) (str_nat number) (st_title entry) (st_text entry)
       (str_nat SOLVE_BUDGET_SEC) (str_join '', '' ALLOWED_IMPORT_MODULES)"

definition build_rationale :: "nat \<Rightarrow> restatement \<Rightarrow> string option \<Rightarrow> string" where
  "build_rationale number entry insight =
     (let base =
         ''Project Euler problem '' @
         str_nat number @
         '' ('' @
         st_title entry @
         ''), scored against the verified answer the committed key holds for it. One new '' @
         ''module plus one import line is the smallest shape that still crosses two files, and '' @
         ''the answer is a single int, so the tier scores objectively with no rubric in the '' @
         ''path.''
      in case insight of
           None \<Rightarrow> base
         | Some why \<Rightarrow> base @ '' hard-subset.json marks this problem brute-force-proof: '' @
         why)"

definition jstrs :: "string list \<Rightarrow> json" where
  "jstrs ss = JArr (map JStr ss)"

definition build_task :: "nat \<Rightarrow> restatement \<Rightarrow> string option \<Rightarrow> json" where
  "build_task number entry insight = JObj
     [(''id'', JStr (euler_id number)),
      (''tier'', JStr EULER_TIER),
      (''mechanism'', JStr ''none''),
      (''expectedTrajectory'', JStr (
         ''the run classifies as work, decomposes to a single item scoping src/solvers/'' @
         solver_name number @
         ''.py and src/solvers/__init__.py, writes a failing test first, implements, and '' @
         ''publishes'')),
      (''expectedStopKinds'', jstrs [''done'', ''REPORTED'']),
      (''language'', JStr ''python''),
      (''difficulty'', JStr ''multi-file''),
      (''behavioral'', JBool True),
      (''rationale'', JStr (build_rationale number entry insight)),
      (''prompt'', JStr (euler_prompt number entry)),
      (''seedDir'', JStr ''bench/corpus/project-euler/seed''),
      (''hiddenDir'', JStr (''bench/corpus/project-euler/hidden/'' @ euler_id number)),
      (''hiddenTestCommand'', jstrs [''/usr/bin/python3'', ''gauge/run.py'', ''gauge'']),
      (''repoTestCommand'', jstrs [''/usr/bin/python3'', ''tools/run_tests.py'', ''tests'']),
      (''behavioralPaths'', jstrs [''src/**''])]"

definition problem_list :: "nat list \<Rightarrow> string" where
  "problem_list ns = str_join '', '' (map (\<lambda>n. ''problem '' @ str_nat n) ns)"

definition build_selection_criteria ::
  "nat list \<Rightarrow> (nat \<times> string) list \<Rightarrow> (int, string) dict \<Rightarrow> json" where
  "build_selection_criteria emitted omitted hard =
     (let hard_hits = sort (filter (\<lambda>n. dhas hard (int n)) emitted) in JObj
     [(''provenance'', JStr (
         ''Generated by scripts/generate_euler_tasks.py from '' @
         ''bench/corpus/project-euler/expected-answers.json, which is the answer key holding '' @
         ''one verified answer per problem, and from '' @
         ''bench/corpus/project-euler/restatements.json, which this repository authored. Edit '' @
         ''those and regenerate; editing this file by hand puts it out of step with the script '' @
         ''that owns it.'')),
      (''whyTheseProblems'', JStr (
         ''Every Project Euler problem the committed answer key verifies and this repository '' @
         ''can ask for in its own words: '' @
         str_nat (length emitted) @
         '' of the '' @
         str_nat (length emitted + length omitted) @
         '' verified answers. The key leaves the other 174 problems null, and a guessed '' @
         ''reference answer silently corrupts every run compared against it, so an unverified '' @
         ''problem gets no task.'')),
      (''whatIsOmitted'', JStr (
         problem_list (map fst omitted) @
         ''. Each is answerable and each is left out for a stated reason recorded beside its '' @
         ''answer in restatements.json: the material the problem operates on is Project '' @
         ''Euler's, and this repository does not carry it.'')),
      (''noStatementIsCommitted'', JStr (
         ''No Project Euler statement, image or data file is read to build this set or stored '' @
         ''anywhere under it. Each prompt states its question in this repository's own words '' @
         ''and is complete without the fetched statement, which is what makes the set '' @
         ''reproducible on a clone that has fetched nothing.'')),
      (''scopeLadder'', JStr (
         EULER_TIER @
         '' alone. A tier here is a statement about how far a plan has to decompose, and one '' @
         ''Euler problem is one solver module plus one import line however hard the '' @
         ''mathematics is. Spreading the set across tiers on problem number or on the hard '' @
         ''subset would label difficulty as scope, so the ladder above and below '' @
         EULER_TIER @
         '' is empty and the pin says so.'')),
      (''hardSubset'', JStr (
         ''hard-subset.json curates a brute-force-proof subset. '' @
         str_nat (length hard_hits) @
         '' of the generated tasks '' @
         (if length hard_hits = 1 then ''is'' else ''are'') @
         '' in it ('' @
         problem_list hard_hits @
         ''), and each says so in its own rationale. The rest are problems where a direct loop '' @
         ''finishes, so this set is not a discriminator on algorithmic reasoning.'')),
      (''whatThisMeasures'', JStr (
         ''Registry plumbing, instruction-following across two files, and one computed '' @
         ''integer. Every problem here is among the most reproduced in existence, so a model '' @
         ''may recall the answer without deriving it. The gauge folds every constant '' @
         ''expression in every module under src/ and refuses one that comes to the answer, so '' @
         ''a literal, a sum of two literals, a string of digits handed to int() and a constant '' @
         ''parked in a second module all read the same; and it refuses a module that opens a '' @
         ''file, reads input or evals, or imports outside src and a stated list of computation '' @
         ''modules. What it cannot see is a derivation the model recalled whole and then wrote '' @
         ''out as working code. Read a high pass rate on this set as a statement about the '' @
         ''harness, not about mathematics.'')),
      (''hiddenTests'', JStr (
         ''The measurement lives in gauge/, one directory per task, materialized only after '' @
         ''the model's process has exited. No seeded file contains any Project Euler answer: '' @
         ''the two worked solvers in the seed are not Euler problems, which is what lets the '' @
         ''set cover problems 1 and 2 as well.'')),
      (''seedIsGreen'', JStr (
         ''The seeded repository passes its own visible suite untouched, so a run starts green '' @
         ''and a red visible test is the arm's doing.'')),
      (''languageMix'', JStr (
         ''python only. The registry contract, the command line and the visible runner are the '' @
         ''euler bench shape under bench/corpus, which is python and needs no build step.''))])"

definition build_manifest ::
  "nat list \<Rightarrow> (nat \<times> string) list \<Rightarrow> (nat, restatement) dict \<Rightarrow> (int, string) dict \<Rightarrow> json" where
  "build_manifest emitted omitted restatements hard =
     (let tasks = map (\<lambda>n. build_task n (the (dget restatements n)) (dget hard (int n))) emitted in JObj
     [(''version'', JInt 1),
      (''selectionCriteria'', build_selection_criteria emitted omitted hard),
      (''defaults'', JObj
         [(''model'', JStr EULER_MODEL),
          (''tierTimeoutSec'', JObj
             [(''T0'', JInt 1800), (''T1'', JInt 2700), (''T2'', JInt 3600), (''T3'', JInt 7200),
              (''T4'', JInt 3600)])]),
      (''expectedTaskCounts'', JObj (dset EULER_TIER (JInt (int (length tasks)))
         (map (\<lambda>tier. (tier, JInt 0)) TIERS))),
      (''sweep'', JObj
         [(''rationale'', JStr (
         ''One model, because one model is served. '' @
         str_nat (length tasks) @
         '' tasks across three arms is '' @
         str_nat (length tasks * 3) @
         '' cells at a '' @
         str_nat 2700 @
         ''-second ceiling each, which is already the larger part of a week of wall clock; a '' @
         ''second repetition would double it, so the declared design is one repetition per '' @
         ''cell and any spread this set reports is a spread a single repetition cannot '' @
         ''separate from noise. A variance claim needs a narrower selection run with more '' @
         ''repetitions, which is what --task and --tier are for.'')),
          (''primaryModel'', JStr EULER_MODEL),
          (''models'', jstrs [EULER_MODEL]),
          (''sweptTiers'', jstrs [EULER_TIER]),
          (''primaryOnlyTiers'', jstrs (filter (\<lambda>tier. tier \<noteq> EULER_TIER) TIERS)),
          (''capabilities'', jstrs [''none'']),
          (''reps'', JInt 1)]),
      (''tasks'', JArr tasks)])"

definition render_manifest :: "json \<Rightarrow> string" where
  "render_manifest m = json_dumps_raw m @ [CHR 0x0A]"

end
