(* ===== verification/Euler_Output.thy ===== *)
theory Euler_Output
  imports Euler_Manifest
begin

text \<open>
  \<open>scripts/generate_euler_tasks.py\<close>, what is written and compared: the plan of the generated
  trees, their replacement on disk, reading them back, the statement audit and \<open>main\<close> in its
  modes. The trees hold no symbolic link, and a write succeeds.
\<close>

section \<open>Writing\<close>

definition plan_output :: "nat list \<Rightarrow> (nat, nat) dict \<Rightarrow> (string, string) dict" where
  "plan_output emitted answers =
     dict_of
       (map (\<lambda>(relpath, body). (SEED_DIRNAME @ ''/'' @ relpath, body)) build_seed_files @
        concat (map (\<lambda>number.
            map (\<lambda>(relpath, body). (HIDDEN_DIRNAME @ ''/'' @ euler_id number @ ''/'' @ relpath, body))
              (build_gauge_files number (the (dget answers number)))) emitted))"

definition clear_tree :: "path \<Rightarrow> fs \<Rightarrow> string \<Rightarrow> fs" where
  "clear_tree corpus_dir t name =
     (let target = path_join corpus_dir name in if fs_exists t target then fs_rmtree target t else t)"

definition write_one :: "path \<Rightarrow> (string, string) dict \<Rightarrow> fs \<Rightarrow> string \<Rightarrow> fs" where
  "write_one corpus_dir files t relpath =
     (let p = path_join corpus_dir relpath in
      fs_write p (the (dget files relpath)) (fs_mkdir (path_parent p) t))"

definition write_output :: "path \<Rightarrow> (string, string) dict \<Rightarrow> fs \<Rightarrow> fs \<times> string list" where
  "write_output corpus_dir files t =
     (let t = foldl (clear_tree corpus_dir) t [SEED_DIRNAME, HIDDEN_DIRNAME];
          written = sort (map fst files)
      in (foldl (write_one corpus_dir files) t written, written))"

section \<open>Reading back\<close>

definition IGNORED_DIR_NAMES :: "string list" where
  "IGNORED_DIR_NAMES = [''__pycache__'', ''.pytest_cache'', ''.mypy_cache'', ''.ruff_cache'']"
definition IGNORED_FILE_NAMES :: "string list" where
  "IGNORED_FILE_NAMES = [''.DS_Store'', ''Thumbs.db'']"
definition IGNORED_FILE_SUFFIXES :: "string list" where
  "IGNORED_FILE_SUFFIXES = [''.pyc'', ''.pyo'']"

definition is_generated_source :: "string list \<Rightarrow> bool" where
  "is_generated_source parts =
     (if last parts \<in> set IGNORED_FILE_NAMES then False
      else if list_ex (ends_with (last parts)) IGNORED_FILE_SUFFIXES then False
      else \<not> list_ex (\<lambda>d. d \<in> set IGNORED_DIR_NAMES) (butlast parts))"

definition read_source ::
  "fs \<Rightarrow> path \<Rightarrow> string \<Rightarrow> (string, string) dict \<Rightarrow> path \<Rightarrow> (generator_error, (string, string) dict) res" where
  "read_source t base name out p =
     (if \<not> fs_is_file t p \<or> \<not> is_generated_source (relparts p base) then Inr out
      else
        (let relpath = str_join ''/'' (name # relparts p base) in
         case fs_read t p of
           None \<Rightarrow> Inl (NotUtf8Source relpath)
         | Some body \<Rightarrow> Inr (dset relpath body out)))"

definition read_tree ::
  "fs \<Rightarrow> path \<Rightarrow> (string, string) dict \<Rightarrow> string \<Rightarrow> (generator_error, (string, string) dict) res" where
  "read_tree t corpus_dir out name =
     (let base = path_join corpus_dir name in
      if \<not> fs_is_dir t base then Inr out
      else foldE (read_source t base name) out (sort (fs_below t base)))"

definition read_output :: "fs \<Rightarrow> path \<Rightarrow> (generator_error, (string, string) dict) res" where
  "read_output t corpus_dir = foldE (read_tree t corpus_dir) [] [SEED_DIRNAME, HIDDEN_DIRNAME]"

section \<open>The statement audit\<close>

definition py_isalnum :: "char \<Rightarrow> bool" where
  \<comment> \<open>\<open>str.isalnum\<close> on the code points below 256\<close>
  "py_isalnum c = (let n = (of_char c :: nat) in
     (48 \<le> n \<and> n \<le> 57) \<or> (65 \<le> n \<and> n \<le> 90) \<or> (97 \<le> n \<and> n \<le> 122) \<or>
     n \<in> {170, 178, 179, 181, 185, 186, 188, 189, 190} \<or> (192 \<le> n \<and> n \<noteq> 215 \<and> n \<noteq> 247))"

definition word_step :: "string list \<times> string \<Rightarrow> char \<Rightarrow> string list \<times> string" where
  "word_step st c =
     (case st of (out, current) \<Rightarrow>
        if py_isalnum c then (out, current @ [c])
        else if current \<noteq> [] then (out @ [current], [])
        else (out, current))"

definition text_words :: "string \<Rightarrow> string list" where
  "text_words s =
     (let (out, current) = foldl word_step ([], []) (str_lower s)
      in if current \<noteq> [] then out @ [current] else out)"

text \<open>One row of the table: entry \<open>j\<close> is the run that ends at this word and at \<open>b[j - 1]\<close>.\<close>

definition run_row :: "string list \<Rightarrow> nat list \<Rightarrow> string \<Rightarrow> nat list" where
  "run_row b previous x = 0 # map (\<lambda>(y, p). if x = y then p + 1 else 0) (zip b previous)"

definition run_step :: "string list \<Rightarrow> nat list \<times> nat \<Rightarrow> string \<Rightarrow> nat list \<times> nat" where
  "run_step b st x =
     (case st of (previous, best) \<Rightarrow>
        (let current = run_row b previous x
         in (current, foldl (\<lambda>best n. if n > best then n else best) best current)))"

definition longest_shared_run :: "string \<Rightarrow> string \<Rightarrow> nat" where
  "longest_shared_run left right =
     (let a = text_words left; b = text_words right
      in if a = [] \<or> b = [] then 0
         else snd (foldl (run_step b) (replicate (length b + 1) 0, 0) a))"

definition statement_path :: "path \<Rightarrow> nat \<Rightarrow> path" where
  "statement_path statements_dir number = path_join statements_dir (''problem-'' @ pad3 number @ ''-challenge.md'')"

datatype audit_line =
    NoStatement nat path
  | UnreadableStatement nat path
  | SharedRun nat nat
  | StatementsRequired nat

definition audit_one ::
  "fs \<Rightarrow> (nat, restatement) dict \<Rightarrow> path \<Rightarrow> audit_line list \<times> audit_line list \<Rightarrow> nat \<Rightarrow>
   audit_line list \<times> audit_line list" where
  "audit_one t restatements statements_dir st number =
     (case st of (absent, copied) \<Rightarrow>
        (let p = statement_path statements_dir number in
         if \<not> fs_is_file t p then (absent @ [NoStatement number p], copied)
         else
           (case fs_read t p of
              None \<Rightarrow> (absent @ [UnreadableStatement number p], copied)
            | Some statement \<Rightarrow>
                (let run = longest_shared_run (st_text (the (dget restatements number))) statement in
                 if run \<ge> MAX_SHARED_WORDS then (absent, copied @ [SharedRun number run])
                 else (absent, copied)))))"

definition audit_statements ::
  "fs \<Rightarrow> nat list \<Rightarrow> (nat, restatement) dict \<Rightarrow> path \<Rightarrow> bool \<Rightarrow> audit_line list \<times> audit_line list" where
  "audit_statements t emitted restatements statements_dir require =
     (let (absent, copied) = foldl (audit_one t restatements statements_dir) ([], []) emitted
      in (absent, if require \<and> absent \<noteq> [] then copied @ [StatementsRequired (length absent)] else copied))"

section \<open>Entry point\<close>

definition euler_generate ::
  "fs \<Rightarrow> path \<Rightarrow> (generator_error, json \<times> (string, string) dict \<times> nat list \<times> (nat \<times> string) list) res" where
  "euler_generate t corpus_dir =
     bindE (load_answers t (path_join corpus_dir ANSWERS_FILENAME)) (\<lambda>answers.
     bindE (load_restatements t (path_join corpus_dir RESTATEMENTS_FILENAME)) (\<lambda>restatements.
     bindE (load_hard_subset t (path_join corpus_dir HARD_SUBSET_FILENAME)) (\<lambda>hard.
     bindE (reconcile answers restatements) (\<lambda>(emitted, omitted).
     bindE (guard (emitted \<noteq> []) NothingAsked) (\<lambda>_.
     Inr (build_manifest emitted omitted restatements hard, plan_output emitted answers, emitted, omitted))))))"

datatype check_line =
    CannotReadManifest path
  | ManifestDiffers path
  | AbsentFile string
  | NotGenerated string
  | FileDiffers string

definition compare_file :: "(string, string) dict \<Rightarrow> (string, string) dict \<Rightarrow> string \<Rightarrow> check_line option" where
  "compare_file files on_disk relpath =
     (if \<not> dhas on_disk relpath then Some (AbsentFile relpath)
      else if \<not> dhas files relpath then Some (NotGenerated relpath)
      else if dget on_disk relpath \<noteq> dget files relpath then Some (FileDiffers relpath)
      else None)"

definition manifest_problems :: "fs \<Rightarrow> path \<Rightarrow> string \<Rightarrow> (generator_error, check_line list) res" where
  "manifest_problems t manifest_path rendered =
     (case dget t manifest_path of
        Some (NFile committed) \<Rightarrow> Inr (if committed \<noteq> rendered then [ManifestDiffers manifest_path] else [])
      | Some (NBin _) \<Rightarrow> Inl (UnicodeEscapes manifest_path)
      | _ \<Rightarrow> Inr [CannotReadManifest manifest_path])"

definition check_problems ::
  "fs \<Rightarrow> path \<Rightarrow> path \<Rightarrow> string \<Rightarrow> (string, string) dict \<Rightarrow> (generator_error, check_line list) res" where
  "check_problems t corpus_dir manifest_path rendered files =
     bindE (manifest_problems t manifest_path rendered) (\<lambda>problems.
     bindE (read_output t corpus_dir) (\<lambda>on_disk.
     Inr (problems @ List.map_filter (compare_file files on_disk)
                       (sort (dedup (map fst files @ map fst on_disk))))))"

record euler_args =
  ea_corpus_dir :: path
  ea_manifest :: path
  ea_check :: bool
  ea_audit :: "path option"
  ea_require :: bool

text \<open>The corpus directory and the manifest where the script puts them by default.\<close>

definition default_args :: "path \<Rightarrow> euler_args" where
  "default_args root =
     \<lparr>ea_corpus_dir = path_join root ''bench/corpus/project-euler'', ea_manifest = path_join root ''bench/corpus-euler.json'',
      ea_check = False, ea_audit = None, ea_require = False\<rparr>"

text \<open>The exit code and the tree; an exception that no handler catches is an error.\<close>

definition euler_write :: "euler_args \<Rightarrow> string \<Rightarrow> (string, string) dict \<Rightarrow> fs \<Rightarrow> fs" where
  "euler_write args rendered files t =
     (let (t, _) = write_output (ea_corpus_dir args) files t
      in fs_write (ea_manifest args) rendered (fs_mkdir (path_parent (ea_manifest args)) t))"

definition euler_check_or_write ::
  "euler_args \<Rightarrow> string \<Rightarrow> (string, string) dict \<Rightarrow> fs \<Rightarrow> (generator_error, nat \<times> fs) res" where
  "euler_check_or_write args rendered files t =
     (if ea_check args then
        bindE (check_problems t (ea_corpus_dir args) (ea_manifest args) rendered files) (\<lambda>problems.
        Inr (if problems \<noteq> [] then 1 else 0, t))
      else Inr (0, euler_write args rendered files t))"

definition escapes :: "generator_error \<Rightarrow> bool" where
  "escapes e = (case e of UnicodeEscapes _ \<Rightarrow> True | IntEscapes _ \<Rightarrow> True | _ \<Rightarrow> False)"

definition euler_main :: "euler_args \<Rightarrow> fs \<Rightarrow> (generator_error, nat \<times> fs) res" where
  "euler_main args t =
     (if ea_require args \<and> ea_audit args = None then Inr (2, t)
      else
        (case euler_generate t (ea_corpus_dir args) of
           Inl e \<Rightarrow> (if escapes e then Inl e else Inr (2, t))
         | Inr (manifest, files, emitted, omitted) \<Rightarrow>
             (let rendered = render_manifest manifest in
              case ea_audit args of
                None \<Rightarrow> euler_check_or_write args rendered files t
              | Some statements_dir \<Rightarrow>
                  bindE (load_restatements t (path_join (ea_corpus_dir args) RESTATEMENTS_FILENAME)) (\<lambda>restatements.
                  let (absent, copied) =
                        audit_statements t emitted restatements statements_dir (ea_require args)
                  in if copied \<noteq> [] then Inr (2, t)
                     else if \<not> ea_check args then Inr (0, t)
                     else euler_check_or_write args rendered files t))))"

end
