(* ===== verification/Euler_Audit_Laws.thy ===== *)
theory Euler_Audit_Laws
  imports Euler_Output
begin

text \<open>
  The statement audit of \<open>scripts/generate_euler_tasks.py\<close>: the table of \<open>longest_shared_run\<close>
  computes the longest common factor of the two word lists.
\<close>

text \<open>How many last words two lists share: what an entry of the table is.\<close>

definition common_suffix :: "string list \<Rightarrow> string list \<Rightarrow> nat" where
  "common_suffix xs ys = length (longest_common_prefix (rev xs) (rev ys))"

lemma common_suffix_simps [simp]:
  "common_suffix [] ys = 0" "common_suffix xs [] = 0"
  "common_suffix (xs @ [x]) (ys @ [y]) = (if x = y then Suc (common_suffix xs ys) else 0)"
  by (simp_all add: common_suffix_def)

lemma common_suffix_shared: "\<exists>w. length w = common_suffix xs ys \<and> suffix w xs \<and> suffix w ys"
proof -
  let ?p = "longest_common_prefix (rev xs) (rev ys)"
  have "suffix (rev ?p) xs" "suffix (rev ?p) ys"
    using longest_common_prefix_prefix1 [of "rev xs" "rev ys"] longest_common_prefix_prefix2 [of "rev xs" "rev ys"]
    by (simp_all add: suffix_to_prefix)
  then show ?thesis unfolding common_suffix_def by (metis length_rev)
qed

lemma common_suffix_longest: "suffix w xs \<Longrightarrow> suffix w ys \<Longrightarrow> length w \<le> common_suffix xs ys"
  using longest_common_prefix_max_prefix [of "rev w" "rev xs" "rev ys"]
  by (auto simp: common_suffix_def suffix_to_prefix dest: prefix_length_le)

definition table_row :: "string list \<Rightarrow> string list \<Rightarrow> nat list" where
  "table_row b xs = map (\<lambda>j. common_suffix xs (take j b)) [0..<Suc (length b)]"

lemma table_row_Nil: "table_row b [] = replicate (length b + 1) 0"
  by (simp add: table_row_def map_replicate_const del: upt_Suc)

lemma run_row_table: "run_row b (table_row b xs) x = table_row b (xs @ [x])"
proof (rule nth_equalityI)
  show "length (run_row b (table_row b xs) x) = length (table_row b (xs @ [x]))"
    by (simp add: run_row_def table_row_def)
  fix i assume "i < length (run_row b (table_row b xs) x)"
  then have i: "i < Suc (length b)" by (simp add: run_row_def table_row_def)
  show "run_row b (table_row b xs) x ! i = table_row b (xs @ [x]) ! i"
  proof (cases i)
    case 0
    then show ?thesis by (simp add: run_row_def table_row_def del: upt_Suc)
  next
    case (Suc k)
    with i have "k < length b" "take (Suc k) b = take k b @ [b ! k]" by (simp_all add: take_Suc_conv_app_nth)
    then show ?thesis using Suc by (simp add: run_row_def table_row_def del: upt_Suc)
  qed
qed

lemma foldl_best: "foldl (\<lambda>best n. if n > best then n else best) m ns = foldl max m (ns :: nat list)"
proof -
  have "(\<lambda>best n :: nat. if n > best then n else best) = max" by (intro ext) (simp add: max_def)
  then show ?thesis by simp
qed

lemma foldl_max_upper: "m \<le> foldl max m (ns :: nat list) \<and> (\<forall>n \<in> set ns. n \<le> foldl max m ns)"
proof (induction ns arbitrary: m)
  case (Cons n ns)
  have "max m n \<le> foldl max (max m n) ns \<and> (\<forall>k \<in> set ns. k \<le> foldl max (max m n) ns)"
    by (rule Cons.IH)
  then show ?case by auto
qed simp

lemma foldl_max_in: "foldl max m (ns :: nat list) \<in> insert m (set ns)"
  by (induction ns rule: rev_induct) (auto simp: max_def)

lemma best_run:
  "\<exists>best. foldl (run_step b) (table_row b [], 0) xs = (table_row b xs, best) \<and>
     (\<exists>k j. best = common_suffix (take k xs) (take j b)) \<and>
     (\<forall>k \<le> length xs. \<forall>j \<le> length b. common_suffix (take k xs) (take j b) \<le> best)"
proof (induction xs rule: rev_induct)
  case Nil
  then show ?case by simp
next
  case (snoc x xs)
  then obtain best k j where IH: "foldl (run_step b) (table_row b [], 0) xs = (table_row b xs, best)"
      "best = common_suffix (take k xs) (take j b)" "k \<le> length xs"
      "\<forall>k \<le> length xs. \<forall>j \<le> length b. common_suffix (take k xs) (take j b) \<le> best"
    by (metis nat_le_linear take_all_iff take_all)
  define row where "row = table_row b (xs @ [x])"
  have row: "set row = (\<lambda>j. common_suffix (xs @ [x]) (take j b)) ` {..length b}"
    by (auto simp: row_def table_row_def atLeast0LessThan lessThan_Suc_atMost simp del: upt_Suc)
  have fold: "foldl (run_step b) (table_row b [], 0) (xs @ [x]) = (row, foldl max best row)"
    by (simp add: IH(1) run_step_def run_row_table Let_def row_def foldl_best)
  have upper: "common_suffix (take k (xs @ [x])) (take j b) \<le> foldl max best row"
    if kj: "k \<le> Suc (length xs)" "j \<le> length b" for k j
  proof (cases "k \<le> length xs")
    case True
    then have "common_suffix (take k (xs @ [x])) (take j b) \<le> best" using IH(4) kj(2) by simp
    then show ?thesis using foldl_max_upper [of best row] by linarith
  next
    case False
    then have "common_suffix (take k (xs @ [x])) (take j b) \<in> set row" using kj by (auto simp: row)
    then show ?thesis using foldl_max_upper [of best row] by blast
  qed
  have "\<exists>k j. foldl max best row = common_suffix (take k (xs @ [x])) (take j b)"
  proof (cases "foldl max best row = best")
    case True
    then show ?thesis using IH(2,3) by (metis append_Nil2 diff_is_0_eq take0 take_append)
  next
    case False
    then have "foldl max best row \<in> set row" using foldl_max_in [of best row] by blast
    then obtain j where "foldl max best row = common_suffix (xs @ [x]) (take j b)" by (auto simp: row)
    then show ?thesis by (metis take_all_iff order_refl)
  qed
  then show ?case using fold upper by (auto simp: row_def)
qed

lemma sublist_take_suffix: "sublist w a \<longleftrightarrow> (\<exists>k \<le> length a. suffix w (take k a))"
proof
  assume "sublist w a"
  then obtain p s where a: "a = p @ w @ s" by (auto simp: sublist_def)
  then have "take (length p + length w) a = p @ w" by simp
  then show "\<exists>k \<le> length a. suffix w (take k a)"
    by (intro exI [of _ "length p + length w"]) (simp add: a suffix_def)
qed (metis append.assoc append_take_drop_id suffix_def sublist_def)

lemma longest_run_words:
  assumes "a \<noteq> []" "b \<noteq> []"
  shows "snd (foldl (run_step b) (table_row b [], 0) a) = Max (length ` {w. sublist w a \<and> sublist w b})"
proof -
  obtain best k j where best: "snd (foldl (run_step b) (table_row b [], 0) a) = best"
      "best = common_suffix (take k a) (take j b)"
      "\<forall>k \<le> length a. \<forall>j \<le> length b. common_suffix (take k a) (take j b) \<le> best"
    using best_run [of b a] by auto
  have "finite (length ` {w. sublist w a \<and> sublist w b})"
    by (rule finite_subset [of _ "{..length a}"]) (auto dest: sublist_length_le)
  moreover have "length w \<le> best" if w: "sublist w a" "sublist w b" for w
  proof -
    obtain k' j' where kj: "k' \<le> length a" "j' \<le> length b" "suffix w (take k' a)" "suffix w (take j' b)"
      using w by (auto simp: sublist_take_suffix)
    then have "length w \<le> common_suffix (take k' a) (take j' b)" by (intro common_suffix_longest)
    also have "\<dots> \<le> best" using best(3) kj(1,2) by blast
    finally show ?thesis .
  qed
  moreover obtain w where "length w = best" "suffix w (take k a)" "suffix w (take j b)"
    using common_suffix_shared [of "take k a" "take j b"] best(2) by auto
  moreover have "sublist w a" "sublist w b"
    using calculation(4,5) by (metis suffix_def sublist_def append.assoc append_take_drop_id)+
  ultimately show ?thesis unfolding best(1) by (intro Max_eqI [symmetric]) auto
qed

text \<open>C32: the length \<open>longest_shared_run\<close> returns is that of the longest list of consecutive words that
  occurs in both texts, so the audit's ceiling bounds exactly the longest verbatim copy.
\<close>

theorem longest_shared_run_is_longest:
  "longest_shared_run left right =
     Max (length ` {w. sublist w (text_words left) \<and> sublist w (text_words right)})"
proof (cases "text_words left = [] \<or> text_words right = []")
  case True
  then have "{w. sublist w (text_words left) \<and> sublist w (text_words right)} = {[]}" by auto
  then show ?thesis using True by (auto simp: longest_shared_run_def)
next
  case False
  then show ?thesis
    using longest_run_words [of "text_words left" "text_words right"] table_row_Nil [of "text_words right"]
    by (simp add: longest_shared_run_def)
qed

end
