(* ===== verification/Euler_Tree_Laws.thy ===== *)
theory Euler_Tree_Laws
  imports Euler_Output Bench_Manifest_Laws Bench_Files_Laws
begin

text \<open>
  The trees \<open>scripts/generate_euler_tasks.py\<close> owns: what every path below the corpus directory
  holds after a write, and that reading the trees back gives the plan.
\<close>

section \<open>Writing a list of files\<close>

lemma dget_write_one:
  "dget (write_one c files t r) p =
     (if p = path_join c r then Some (NFile (the (dget files r)))
      else if dget t p = None \<and> p \<in> set (path_prefixes (path_parent (path_join c r))) then Some NDir
      else dget t p)"
  by (simp add: write_one_def Let_def fs_write_def fs_mkdir_def dget_mkdir_fold)

lemma dget_write_all_file:
  assumes "inj_on (path_join c) (set rs)" "r \<in> set rs"
  shows "dget (foldl (write_one c files) t rs) (path_join c r) = Some (NFile (the (dget files r)))"
  using assms
proof (induction rs rule: rev_induct)
  case (snoc x xs)
  show ?case
  proof (cases "r = x")
    case False
    then have "r \<in> set xs" "path_join c r \<noteq> path_join c x" using snoc.prems by (auto simp: inj_on_def)
    then show ?thesis using snoc by (simp add: dget_write_one inj_on_def)
  qed (simp add: dget_write_one)
qed simp

lemma dget_write_all_other:
  "p \<notin> path_join c ` set rs \<Longrightarrow>
   dget (foldl (write_one c files) t rs) p =
     (if dget t p = None \<and> (\<exists>r \<in> set rs. p \<in> set (path_prefixes (path_parent (path_join c r)))) then Some NDir
      else dget t p)"
  by (induction rs rule: rev_induct) (auto simp: dget_write_one)

lemma dict_ok_mkdir: "dict_ok t \<Longrightarrow> dict_ok (fs_mkdir p t)"
proof -
  have "dict_ok t \<Longrightarrow> dict_ok (foldl (\<lambda>t q. if dhas t q then t else dset q NDir t) t qs)" for qs
    by (induction qs arbitrary: t) simp_all
  then show "dict_ok t \<Longrightarrow> ?thesis" by (simp add: fs_mkdir_def)
qed

lemma dict_ok_write_all: "dict_ok t \<Longrightarrow> dict_ok (foldl (write_one c files) t rs)"
  by (induction rs arbitrary: t) (simp_all add: write_one_def Let_def dict_ok_mkdir)

text \<open>A directory entry that is not there has nothing below it.\<close>

definition orphan_free :: "fs \<Rightarrow> path \<Rightarrow> bool" where
  "orphan_free t p = (fs_exists t p \<or> fs_below t p = [])"

lemma dget_clear_tree:
  assumes "orphan_free t (path_join c name)"
  shows "dget (clear_tree c t name) p = (if within p (path_join c name) then None else dget t p)"
proof -
  have "dget t p = None" if "within p (path_join c name)" "\<not> fs_exists t (path_join c name)"
  proof (cases "p = path_join c name")
    case False
    then have "p \<notin> fst ` set t" using assms that by (auto simp: orphan_free_def fs_below_def filter_empty_conv)
    then show ?thesis by (simp add: map_of_eq_None_iff)
  qed (use that in \<open>auto simp: fs_exists_def dict_simps\<close>)
  then show ?thesis by (auto simp: clear_tree_def Let_def dget_rmtree)
qed

lemma orphan_free_iff: "orphan_free t p \<longleftrightarrow> (\<forall>q \<in> fst ` set t. within q p \<longrightarrow> p \<in> fst ` set t)"
  by (auto simp: orphan_free_def fs_exists_def dhas_def fs_below_def filter_empty_conv)

lemma orphan_free_clear_tree:
  "orphan_free t p \<Longrightarrow> \<not> within p (path_join c name) \<Longrightarrow> orphan_free (clear_tree c t name) p"
  unfolding orphan_free_iff clear_tree_def Let_def fs_rmtree_def by (force split: if_splits)

lemma dict_ok_filter: "dict_ok t \<Longrightarrow> dict_ok (filter P t)"
  by (induction t) (auto simp: dict_ok_def)

lemma dict_ok_clear_tree: "dict_ok t \<Longrightarrow> dict_ok (clear_tree c t name)"
  by (simp add: clear_tree_def Let_def fs_rmtree_def dict_ok_filter)

section \<open>The planned files\<close>

text \<open>The plan with each key split into the parts of its path.\<close>

definition planned :: "nat list \<Rightarrow> (nat, nat) dict \<Rightarrow> (string list \<times> string) list" where
  "planned emitted answers =
     map (\<lambda>(r, b). (SEED_DIRNAME # path_parts (path_of r), b)) build_seed_files @
     concat (map (\<lambda>n. map (\<lambda>(r, b). (HIDDEN_DIRNAME # euler_id n # path_parts (path_of r), b))
                      (build_gauge_files n (the (dget answers n)))) emitted)"

lemma pad3_digits: "c \<in> set (pad3 n) \<Longrightarrow> is_digit c"
  by (auto simp: pad3_def Let_def is_digit_def dest: str_nat_digits)

lemma nat_of_digits_zeros: "nat_of_digits (replicate k (CHR ''0'') @ s) = nat_of_digits s"
proof (induction k)
  case (Suc k)
  have "nat_of_digits (CHR ''0'' # t) = nat_of_digits t" for t
    by (simp add: nat_of_digits_def digit_val_def)
  then show ?case using Suc by simp
qed simp

lemma pad3_inj: "pad3 m = pad3 n \<longleftrightarrow> m = n"
proof
  assume "pad3 m = pad3 n"
  then have "nat_of_digits (pad3 m) = nat_of_digits (pad3 n)" by simp
  then show "m = n" by (simp add: pad3_def Let_def nat_of_digits_zeros)
qed simp

lemma euler_id_inj [simp]: "euler_id m = euler_id n \<longleftrightarrow> m = n"
  by (simp add: euler_id_def pad3_inj)

lemma euler_id_part: "CHR ''/'' \<notin> set (euler_id n)" "euler_id n \<noteq> []" "euler_id n \<noteq> ''.''" "euler_id n \<noteq> ''..''"
  using pad3_digits [of "CHR ''/''" n] by (auto simp: euler_id_def is_digit_def)

definition plain_part :: "string \<Rightarrow> bool" where
  "plain_part s = (simple_part s \<and> s \<noteq> ''..'')"

lemma path_of_join: "ps \<noteq> [] \<Longrightarrow> \<forall>p \<in> set ps. plain_part p \<Longrightarrow> path_of (str_join ''/'' ps) = Path [] ps"
proof -
  assume ps: "ps \<noteq> []" "\<forall>p \<in> set ps. plain_part p"
  have split: "str_split (CHR ''/'') (str_join ''/'' ps) = ps"
    using ps by (intro str_split_join) (auto simp: plain_part_def simple_part_def)
  obtain p qs where p: "ps = p # qs" using ps(1) by (cases ps) auto
  obtain x u where x: "p = x # u" using ps(2) p by (cases p) (auto simp: plain_part_def simple_part_def)
  have "\<exists>v. str_join ''/'' ps = x # v" "x \<noteq> CHR ''/''"
    using ps(2) p x by (cases qs; auto simp: plain_part_def simple_part_def)+
  then have "path_root (path_of (str_join ''/'' ps)) = []"
    by (auto simp: path_of_def starts_with_def)
  moreover have "path_parts (path_of (str_join ''/'' ps)) = ps"
    using ps(2) by (simp add: path_of_def split) (auto simp: filter_id_conv plain_part_def simple_part_def)
  ultimately show ?thesis by (intro path_eqI) simp_all
qed

lemma path_join_parts:
  "ps \<noteq> [] \<Longrightarrow> \<forall>p \<in> set ps. plain_part p \<Longrightarrow> path_join c (str_join ''/'' ps) = below c ps"
  by (simp add: path_join_def path_of_join below_def)

lemma euler_id_plain [simp]: "plain_part (euler_id n)"
  using euler_id_part [of n] by (simp add: plain_part_def simple_part_def)

lemma seed_parts:
  "map (\<lambda>(r, b). (path_parts (path_of r), b)) build_seed_files =
     [([''.gitignore''], SEED_GITIGNORE), ([''README.md''], SEED_README_MD), ([''src'', ''__init__.py''], []),
      ([''src'', ''cli.py''], CLI_PY), ([''src'', ''registry.py''], REGISTRY_PY),
      ([''src'', ''solvers'', ''__init__.py''], SOLVERS_INIT_PY),
      ([''src'', ''solvers'', ''count_divisors.py''], COUNT_DIVISORS_PY),
      ([''src'', ''solvers'', ''sum_of_squares.py''], SUM_OF_SQUARES_PY),
      ([''tests'', ''check_visible.py''], CHECK_VISIBLE_PY), ([''tools'', ''run_tests.py''], RUN_TESTS_PY)]"
  by (simp add: build_seed_files_def path_of_def starts_with_def)

definition gauge_body :: "nat \<Rightarrow> nat \<Rightarrow> string" where
  "gauge_body n a = CHECK_SPEC_TEMPLATE (py_quoted (solver_name n)) (str_nat a) worked_literal
     (str_nat SOLVE_BUDGET_SEC) render_imports"

lemma gauge_parts:
  "map (\<lambda>(r, b). (path_parts (path_of r), b)) (build_gauge_files n a) =
     [([''gauge'', ''check_spec.py''], gauge_body n a), ([''gauge'', ''run.py''], RUN_TESTS_PY)]"
  by (simp add: build_gauge_files_def gauge_body_def path_of_def starts_with_def)

lemma planned_eq:
  "planned emitted answers =
     map (\<lambda>(ps, b). (''seed'' # ps, b)) (map (\<lambda>(r, b). (path_parts (path_of r), b)) build_seed_files) @
     concat (map (\<lambda>n. [([''hidden'', euler_id n, ''gauge'', ''check_spec.py''], gauge_body n (the (dget answers n))),
                        ([''hidden'', euler_id n, ''gauge'', ''run.py''], RUN_TESTS_PY)]) emitted)"
proof -
  have "map (\<lambda>(r, b). (HIDDEN_DIRNAME # euler_id n # path_parts (path_of r), b)) (build_gauge_files n a) =
      map (\<lambda>(ps, b). (''hidden'' # euler_id n # ps, b)) (map (\<lambda>(r, b). (path_parts (path_of r), b)) (build_gauge_files n a))"
    for n a by (simp add: HIDDEN_DIRNAME_def split_beta comp_def)
  then show ?thesis
    unfolding planned_def gauge_parts by (simp add: SEED_DIRNAME_def split_beta comp_def)
qed

lemma planned_keys:
  "map fst (planned emitted answers) =
     [[''seed'', ''.gitignore''], [''seed'', ''README.md''], [''seed'', ''src'', ''__init__.py''],
      [''seed'', ''src'', ''cli.py''], [''seed'', ''src'', ''registry.py''],
      [''seed'', ''src'', ''solvers'', ''__init__.py''], [''seed'', ''src'', ''solvers'', ''count_divisors.py''],
      [''seed'', ''src'', ''solvers'', ''sum_of_squares.py''], [''seed'', ''tests'', ''check_visible.py''],
      [''seed'', ''tools'', ''run_tests.py'']] @
     concat (map (\<lambda>n. [[''hidden'', euler_id n, ''gauge'', ''check_spec.py''],
                        [''hidden'', euler_id n, ''gauge'', ''run.py'']]) emitted)"
  unfolding planned_eq seed_parts by (simp add: map_concat comp_def)

lemma planned_distinct: "distinct emitted \<Longrightarrow> distinct (map fst (planned emitted answers))"
proof -
  assume d: "distinct emitted"
  have "distinct (concat (map (\<lambda>n. [[''hidden'', euler_id n, ''gauge'', ''check_spec.py''],
      [''hidden'', euler_id n, ''gauge'', ''run.py'']]) emitted))"
    using d by (induction emitted) auto
  then show ?thesis unfolding planned_keys by auto
qed

lemma planned_plain: "ps \<in> set (map fst (planned emitted answers)) \<Longrightarrow> ps \<noteq> [] \<and> (\<forall>p \<in> set ps. plain_part p)"
  unfolding planned_keys by (auto simp: plain_part_def simple_part_def euler_id_part euler_id_part(2-4) [THEN not_sym])

lemma plan_output_planned:
  assumes "distinct emitted"
  shows "plan_output emitted answers = map (\<lambda>(ps, b). (str_join ''/'' ps, b)) (planned emitted answers)"
proof -
  have seed: "map (\<lambda>(r, b). (SEED_DIRNAME @ ''/'' @ r, b)) build_seed_files =
      map (\<lambda>(ps, b). (str_join ''/'' (''seed'' # ps), b)) (map (\<lambda>(r, b). (path_parts (path_of r), b)) build_seed_files)"
    unfolding seed_parts by (simp add: build_seed_files_def SEED_DIRNAME_def)
  have gauge: "map (\<lambda>(r, b). (HIDDEN_DIRNAME @ ''/'' @ euler_id n @ ''/'' @ r, b)) (build_gauge_files n a) =
      map (\<lambda>(ps, b). (str_join ''/'' ps, b))
        [([''hidden'', euler_id n, ''gauge'', ''check_spec.py''], gauge_body n a),
         ([''hidden'', euler_id n, ''gauge'', ''run.py''], RUN_TESTS_PY)]" for n a
    by (simp add: build_gauge_files_def gauge_body_def HIDDEN_DIRNAME_def)
  let ?L = "map (\<lambda>(ps, b). (str_join ''/'' ps, b)) (planned emitted answers)"
  have "inj_on (str_join ''/'') (set (map fst (planned emitted answers)))"
    using planned_plain by (intro inj_onI str_join_inj [of _ _ "CHR ''/''"])
      (auto simp: plain_part_def simple_part_def)
  then have "distinct (map fst ?L)"
    using planned_distinct [OF assms, of answers] by (simp add: distinct_map comp_def split_beta inj_on_def)
  then have "dict_of ?L = ?L" by (simp add: dict_ok_def)
  then show ?thesis
    unfolding plan_output_def seed gauge by (simp add: planned_eq map_concat comp_def split_beta)
qed

section \<open>The trees after a write\<close>

lemma path_prefixes_parent:
  "ps \<noteq> [] \<Longrightarrow> below c qs \<in> set (path_prefixes (path_parent (below c ps))) \<longleftrightarrow> strict_prefix qs ps"
proof -
  assume ps: "ps \<noteq> []"
  then have parent: "path_parent (below c ps) = below c (butlast ps)" by (simp add: path_parent_def below_def butlast_append)
  have "prefix qs (butlast ps) \<longleftrightarrow> strict_prefix qs ps"
    using ps by (cases ps rule: rev_cases) (auto simp: strict_prefix_def)
  then show ?thesis unfolding parent by (auto simp: path_prefixes_def below_def image_iff)
qed

text \<open>Each path of the two trees holds its planned file, a directory above one, or nothing.\<close>

definition planned_node :: "(string list \<times> string) list \<Rightarrow> string list \<Rightarrow> node option" where
  "planned_node plan ps =
     (case map_of plan ps of Some b \<Rightarrow> Some (NFile b)
      | None \<Rightarrow> if list_ex (strict_prefix ps) (map fst plan) then Some NDir else None)"

lemma tree_after_write:
  fixes answers :: "(nat, nat) dict"
  assumes "distinct emitted" "orphan_free t (path_join c SEED_DIRNAME)" "orphan_free t (path_join c HIDDEN_DIRNAME)"
  defines "plan \<equiv> planned emitted answers"
    and "t' \<equiv> fst (write_output c (plan_output emitted answers) t)"
  shows "hd ps \<in> {''seed'', ''hidden''} \<Longrightarrow> ps \<noteq> [] \<Longrightarrow> dget t' (below c ps) = planned_node plan ps"
    and "\<not> within p (below c [''seed'']) \<Longrightarrow> \<not> within p (below c [''hidden'']) \<Longrightarrow> dget t p \<noteq> None \<Longrightarrow> dget t' p = dget t p"
    and "dict_ok t \<Longrightarrow> dict_ok t'"
proof -
  let ?files = "plan_output emitted answers"
  define u where "u = clear_tree c (clear_tree c t SEED_DIRNAME) HIDDEN_DIRNAME"
  define rs where "rs = sort (map fst ?files)"
  have t': "t' = foldl (write_one c ?files) u rs"
    by (simp add: t'_def write_output_def Let_def u_def rs_def)
  have names: "path_join c SEED_DIRNAME = below c [''seed'']" "path_join c HIDDEN_DIRNAME = below c [''hidden'']"
    by (simp_all add: SEED_DIRNAME_def HIDDEN_DIRNAME_def path_join_simple simple_part_def below_def)
  have orphan: "orphan_free (clear_tree c t SEED_DIRNAME) (path_join c HIDDEN_DIRNAME)"
    using assms(3) by (rule orphan_free_clear_tree) (simp add: names)
  have u: "dget u p = (if within p (below c [''seed'']) \<or> within p (below c [''hidden'']) then None else dget t p)" for p
    unfolding u_def dget_clear_tree [OF orphan] dget_clear_tree [OF assms(2)] by (simp add: names)
  have files: "?files = map (\<lambda>(ps, b). (str_join ''/'' ps, b)) plan"
    using plan_output_planned [OF assms(1)] by (simp add: plan_def)
  define K where "K = fst ` set plan"
  have plain: "ps \<noteq> [] \<and> (\<forall>p \<in> set ps. plain_part p)" if "ps \<in> K" for ps
    using planned_plain [of ps emitted answers] that by (simp add: plan_def K_def)
  have rs: "set rs = str_join ''/'' ` K" by (force simp: rs_def files split_beta K_def)
  have at: "path_join c (str_join ''/'' ps) = below c ps" if "ps \<in> K" for ps
    using plain [OF that] by (simp add: path_join_parts)
  have inj: "inj_on (path_join c) (set rs)"
  proof (rule inj_onI)
    fix r r' assume "r \<in> set rs" "r' \<in> set rs" and same: "path_join c r = path_join c r'"
    then obtain a a' where a: "a \<in> K" "r = str_join ''/'' a" "a' \<in> K" "r' = str_join ''/'' a'"
      unfolding rs by blast
    then have "a = a'" using same at by simp
    then show "r = r'" using a by simp
  qed
  have dist: "distinct (map fst plan)" using planned_distinct [OF assms(1), of answers] by (simp add: plan_def)
  have "inj_on (str_join ''/'') (K)"
    using at by (metis below_inj inj_onI)
  then have body: "dget ?files (str_join ''/'' ps) = map_of plan ps" if "ps \<in> K" for ps
    using that unfolding files K_def
  proof (induction plan)
    case (Cons q qs)
    obtain a b where "q = (a, b)" by (cases q)
    then show ?case using Cons by (cases "ps = a") (auto simp: inj_on_def)
  qed simp
  show "dget t' (below c ps) = planned_node plan ps" if ps: "hd ps \<in> {''seed'', ''hidden''}" "ps \<noteq> []"
  proof (cases "ps \<in> K")
    case True
    then have "dget t' (path_join c (str_join ''/'' ps)) = Some (NFile (the (dget ?files (str_join ''/'' ps))))"
      unfolding t' using rs by (intro dget_write_all_file [OF inj]) blast
    moreover obtain b where "map_of plan ps = Some b" using True unfolding K_def by (metis in_keys_iff not_Some_eq)
    ultimately show ?thesis using True by (simp add: at body planned_node_def)
  next
    case False
    then have "below c ps \<notin> path_join c ` set rs" by (auto simp: rs at)
    moreover have "dget u (below c ps) = None"
      using ps by (cases ps) (auto simp: u)
    moreover have "(\<exists>r \<in> set rs. below c ps \<in> set (path_prefixes (path_parent (path_join c r)))) \<longleftrightarrow>
        list_ex (strict_prefix ps) (map fst plan)"
      using plain by (auto simp: rs at path_prefixes_parent list_ex_iff simp flip: K_def)
    moreover have "map_of plan ps = None" using False by (simp add: map_of_eq_None_iff K_def)
    ultimately show ?thesis by (simp add: t' dget_write_all_other planned_node_def)
  qed
  show "dget t' p = dget t p"
    if p: "\<not> within p (below c [''seed''])" "\<not> within p (below c [''hidden''])" "dget t p \<noteq> None"
  proof -
    have "hd ps \<in> {''seed'', ''hidden''}" if "ps \<in> K" for ps
      using that by (auto simp: plan_def planned_eq seed_parts K_def)
    then have "within (path_join c r) (below c [''seed'']) \<or> within (path_join c r) (below c [''hidden''])" if "r \<in> set rs" for r
      using that plain by (force simp: rs at neq_Nil_conv)
    then have "p \<notin> path_join c ` set rs" using p(1,2) by blast
    then show ?thesis using p by (simp add: t' dget_write_all_other u)
  qed
  show "dict_ok t \<Longrightarrow> dict_ok t'"
    by (simp add: t' dict_ok_write_all u_def dict_ok_clear_tree)
qed

section \<open>Reading the trees back\<close>

lemma fs_below_iff: "q \<in> set (fs_below t p) \<longleftrightarrow> dget t q \<noteq> None \<and> within q p \<and> q \<noteq> p"
  by (auto simp: fs_below_def in_keys_iff)

lemma planned_generated: "k \<in> set (map fst (planned emitted answers)) \<Longrightarrow> is_generated_source (tl k)"
  unfolding planned_keys
  by (auto simp: is_generated_source_def IGNORED_FILE_NAMES_def IGNORED_FILE_SUFFIXES_def IGNORED_DIR_NAMES_def
      ends_with_def)
    (auto simp: euler_id_def)

text \<open>Below one of the two directories every entry is a planned file or a directory.\<close>

definition holds_plan :: "fs \<Rightarrow> path \<Rightarrow> (string list \<times> string) list \<Rightarrow> string \<Rightarrow> bool" where
  "holds_plan t c plan name = (\<forall>ps. dget t (below c (name # ps)) = planned_node plan (name # ps))"

abbreviation key_text :: "string list \<Rightarrow> string" where
  "key_text \<equiv> str_join ''/''"

lemma planned_text_inj: "inj_on key_text (set (map fst (planned emitted answers)))"
  using planned_plain by (intro inj_onI str_join_inj [of _ _ "CHR ''/''"]) (auto simp: plain_part_def simple_part_def)

lemma read_source_planned:
  assumes "holds_plan t c plan name" and "\<And>k. k \<in> set (map fst plan) \<Longrightarrow> is_generated_source (tl k)"
  shows "read_source t (below c [name]) name out (below c (name # ps)) =
     Inr (case map_of plan (name # ps) of Some b \<Rightarrow> dset (key_text (name # ps)) b out | None \<Rightarrow> out)"
proof -
  have parts: "relparts (below c (name # ps)) (below c [name]) = ps"
    using relparts_below [of "below c [name]" ps] by simp
  have node: "dget t (below c (name # ps)) = planned_node plan (name # ps)" using assms(1) by (simp add: holds_plan_def)
  show ?thesis
  proof (cases "map_of plan (name # ps)")
    case None
    then have "\<not> fs_is_file t (below c (name # ps))" by (simp add: fs_is_file_def node planned_node_def)
    then show ?thesis using None by (simp add: read_source_def)
  next
    case (Some b)
    then have "name # ps \<in> set (map fst plan)" by (force dest: map_of_SomeD)
    from assms(2) [OF this] have "is_generated_source ps" by simp
    moreover have "fs_is_file t (below c (name # ps))" "fs_read t (below c (name # ps)) = Some b"
      using Some by (simp_all add: fs_is_file_def fs_read_def node planned_node_def)
    ultimately show ?thesis using Some by (simp add: read_source_def parts Let_def)
  qed
qed

lemma map_of_key: "map_of xs k = Some v \<Longrightarrow> k \<in> set (map fst xs)"
  by (force dest: map_of_SomeD)

lemma read_sources:
  assumes "holds_plan t c plan name" and "\<And>k. k \<in> set (map fst plan) \<Longrightarrow> is_generated_source (tl k)"
    and "inj_on key_text (set (map fst plan))" and "\<forall>q \<in> set qs. \<exists>ps. q = below c (name # ps)"
  shows "\<exists>d. foldE (read_source t (below c [name]) name) out qs = Inr d \<and>
     (\<forall>k b. below c k \<in> set qs \<longrightarrow> map_of plan k = Some b \<longrightarrow> dget d (key_text k) = Some b) \<and>
     (\<forall>r. (\<forall>k. below c k \<in> set qs \<longrightarrow> map_of plan k \<noteq> None \<longrightarrow> r \<noteq> key_text k) \<longrightarrow> dget d r = dget out r)"
  using assms(4)
proof (induction qs rule: rev_induct)
  case (snoc q qs)
  then obtain d ps where d: "foldE (read_source t (below c [name]) name) out qs = Inr d"
      "\<forall>k b. below c k \<in> set qs \<longrightarrow> map_of plan k = Some b \<longrightarrow> dget d (key_text k) = Some b"
      "\<forall>r. (\<forall>k. below c k \<in> set qs \<longrightarrow> map_of plan k \<noteq> None \<longrightarrow> r \<noteq> key_text k) \<longrightarrow> dget d r = dget out r"
    and q: "q = below c (name # ps)" by auto
  have step: "foldE (read_source t (below c [name]) name) out (qs @ [q]) =
      Inr (case map_of plan (name # ps) of Some b \<Rightarrow> dset (key_text (name # ps)) b d | None \<Rightarrow> d)"
    using read_source_planned [OF assms(1,2)] by (simp add: foldE_append d(1) q)
  show ?case
  proof (cases "map_of plan (name # ps)")
    case None
    then show ?thesis using d step by (auto simp: q)
  next
    case (Some b)
    have same: "key_text k = key_text (name # ps) \<Longrightarrow> map_of plan k = Some b' \<Longrightarrow> k = name # ps" for k b'
      using inj_onD [OF assms(3)] map_of_key Some by metis
    let ?d = "dset (key_text (name # ps)) b d"
    have "dget ?d (key_text k) = Some b'" if "below c k \<in> set (qs @ [q])" "map_of plan k = Some b'" for k b'
    proof (cases "k = name # ps")
      case False
      then have "key_text k \<noteq> key_text (name # ps)" "below c k \<in> set qs" using same [of k b'] that by (auto simp: q)
      then show ?thesis using d(2) that(2) by (simp del: str_join.simps)
    qed (use that Some in simp)
    moreover have "dget ?d r = dget out r"
      if "\<forall>k. below c k \<in> set (qs @ [q]) \<longrightarrow> map_of plan k \<noteq> None \<longrightarrow> r \<noteq> key_text k" for r
    proof -
      have "r \<noteq> key_text (name # ps)" using that Some by (simp add: q del: str_join.simps)
      moreover have "dget d r = dget out r" using d(3) that by simp
      ultimately show ?thesis by (simp del: str_join.simps)
    qed
    ultimately show ?thesis using step Some by (simp del: str_join.simps)
  qed
qed simp

lemma planned_heads: "k \<in> set (map fst (planned emitted answers)) \<Longrightarrow> \<exists>x u. k = ''seed'' # x # u \<or> k = ''hidden'' # x # u"
  unfolding planned_keys by auto

lemma read_tree_planned:
  assumes "holds_plan t c plan name" and "\<And>k. k \<in> set (map fst plan) \<Longrightarrow> is_generated_source (tl k)"
    and "inj_on key_text (set (map fst plan))" and "\<And>u. name # u \<in> set (map fst plan) \<Longrightarrow> u \<noteq> []"
    and "simple_part name"
  shows "\<exists>d. read_tree t c out name = Inr d \<and>
     (\<forall>u b. map_of plan (name # u) = Some b \<longrightarrow> dget d (key_text (name # u)) = Some b) \<and>
     (\<forall>r. (\<forall>u. map_of plan (name # u) \<noteq> None \<longrightarrow> r \<noteq> key_text (name # u)) \<longrightarrow> dget d r = dget out r)"
proof -
  have base: "path_join c name = below c [name]" using assms(5) by (simp add: path_join_simple below_def)
  have node: "dget t (below c (name # ps)) = planned_node plan (name # ps)" for ps
    using assms(1) by (simp add: holds_plan_def)
  show ?thesis
  proof (cases "fs_is_dir t (below c [name])")
    case True
    let ?qs = "sort (fs_below t (below c [name]))"
    have "\<forall>q \<in> set ?qs. \<exists>ps. q = below c (name # ps)"
      by (auto simp: fs_below_iff within_below_iff)
    from read_sources [OF assms(1,2,3) this, of out] obtain d where d:
      "foldE (read_source t (below c [name]) name) out ?qs = Inr d"
      "\<forall>k b. below c k \<in> set ?qs \<longrightarrow> map_of plan k = Some b \<longrightarrow> dget d (key_text k) = Some b"
      "\<forall>r. (\<forall>k. below c k \<in> set ?qs \<longrightarrow> map_of plan k \<noteq> None \<longrightarrow> r \<noteq> key_text k) \<longrightarrow> dget d r = dget out r"
      by blast
    have listed: "below c (name # u) \<in> set ?qs" if "map_of plan (name # u) = Some b" for u b
      using assms(4) [OF map_of_key [OF that]] that by (simp add: fs_below_iff node planned_node_def)
    have "k \<noteq> [] \<and> hd k = name" if "below c k \<in> set ?qs" for k
      using that by (auto simp: fs_below_iff within_below_iff)
    then have unlisted: "dget d r = dget out r"
      if "\<forall>u. map_of plan (name # u) \<noteq> None \<longrightarrow> r \<noteq> key_text (name # u)" for r
      using d(3) that by (metis list.collapse)
    show ?thesis
      using d(1,2) listed unlisted True by (intro exI [of _ d]) (simp add: read_tree_def base Let_def)
  next
    case False
    have "map_of plan (name # u) = None" for u
    proof (rule ccontr)
      assume "map_of plan (name # u) \<noteq> None"
      then have "name # u \<in> set (map fst plan)" using map_of_key by fastforce
      then have "strict_prefix [name] (name # u)" "name # u \<in> fst ` set plan"
        using assms(4) [of u] by (auto simp: strict_prefix_def)
      then have "list_ex (strict_prefix [name]) (map fst plan)" unfolding list_ex_iff list.set_map by blast
      moreover have "map_of plan [name] = None" using assms(4) map_of_key by (metis not_Some_eq)
      ultimately show False using False node [of "[]"] by (simp add: fs_is_dir_def planned_node_def)
    qed
    then show ?thesis using False by (simp add: read_tree_def base Let_def)
  qed
qed

lemma key_text_get:
  assumes "inj_on key_text (set (map fst plan))"
  shows "map_of plan k = Some b \<Longrightarrow> dget (map (\<lambda>(ps, b). (key_text ps, b)) plan) (key_text k) = Some b"
    and "(\<forall>k. map_of plan k \<noteq> None \<longrightarrow> r \<noteq> key_text k) \<Longrightarrow> dget (map (\<lambda>(ps, b). (key_text ps, b)) plan) r = None"
proof -
  have "map_of (map (\<lambda>(ps, b). (key_text ps, b)) plan) (key_text k) = map_of plan k" if "k \<in> set (map fst plan)"
    using assms that
  proof (induction plan)
    case (Cons q qs)
    obtain a v where "q = (a, v)" by (cases q)
    then show ?case using Cons by (cases "k = a") (auto simp: inj_on_def)
  qed simp
  then show "map_of plan k = Some b \<Longrightarrow> dget (map (\<lambda>(ps, b). (key_text ps, b)) plan) (key_text k) = Some b"
    using map_of_key by metis
  assume a: "\<forall>k. map_of plan k \<noteq> None \<longrightarrow> r \<noteq> key_text k"
  have "fst ` set (map (\<lambda>(ps, b). (key_text ps, b)) plan) = key_text ` (fst ` set plan)"
    by (simp add: image_image split_beta)
  moreover have "r \<notin> key_text ` (fst ` set plan)" using a by (metis imageE in_keys_iff)
  ultimately show "dget (map (\<lambda>(ps, b). (key_text ps, b)) plan) r = None"
    by (simp only: map_of_eq_None_iff) blast
qed

lemma read_output_planned:
  assumes "distinct emitted" "holds_plan t c (planned emitted answers) ''seed''"
    "holds_plan t c (planned emitted answers) ''hidden''"
  shows "\<exists>d. read_output t c = Inr d \<and> dget d = dget (plan_output emitted answers)"
proof -
  let ?plan = "planned emitted answers"
  note gen = planned_generated [of _ emitted answers] and inj = planned_text_inj [of emitted answers]
  have tails: "name # u \<in> set (map fst ?plan) \<Longrightarrow> u \<noteq> []" for name u
    using planned_heads [of "name # u" emitted answers] by auto
  have simple: "simple_part ''seed''" "simple_part ''hidden''" by (simp_all add: simple_part_def)
  obtain d1 where d1: "read_tree t c [] ''seed'' = Inr d1"
    "\<And>u b. map_of ?plan (''seed'' # u) = Some b \<Longrightarrow> dget d1 (key_text (''seed'' # u)) = Some b"
    "\<And>r. \<forall>u. map_of ?plan (''seed'' # u) \<noteq> None \<longrightarrow> r \<noteq> key_text (''seed'' # u) \<Longrightarrow> dget d1 r = None"
    using read_tree_planned [where out = "[]", OF assms(2) gen inj tails [of "''seed''"] simple(1)] by auto
  obtain d where d: "read_tree t c d1 ''hidden'' = Inr d"
    "\<And>u b. map_of ?plan (''hidden'' # u) = Some b \<Longrightarrow> dget d (key_text (''hidden'' # u)) = Some b"
    "\<And>r. \<forall>u. map_of ?plan (''hidden'' # u) \<noteq> None \<longrightarrow> r \<noteq> key_text (''hidden'' # u) \<Longrightarrow> dget d r = dget d1 r"
    using read_tree_planned [where out = d1, OF assms(3) gen inj tails [of "''hidden''"] simple(2)] by auto
  have files: "plan_output emitted answers = map (\<lambda>(ps, b). (key_text ps, b)) ?plan"
    by (rule plan_output_planned [OF assms(1)])
  have "dget d r = dget (plan_output emitted answers) r" for r
  proof (cases "\<exists>k b. map_of ?plan k = Some b \<and> r = key_text k")
    case True
    then obtain k b where k: "map_of ?plan k = Some b" "r = key_text k" by blast
    then have "dget (plan_output emitted answers) r = Some b" using key_text_get(1) [OF inj k(1)] by (simp add: files)
    moreover have "dget d r = Some b"
    proof -
      from planned_heads [OF map_of_key [OF k(1)]] consider u where "k = ''hidden'' # u" | u where "k = ''seed'' # u" by blast
      then show ?thesis
      proof cases
        case 1
        then show ?thesis using d(2) k by simp
      next
        case 2
        have "r \<noteq> key_text (''hidden'' # v)" if "map_of ?plan (''hidden'' # v) \<noteq> None" for v
          using inj_onD [OF inj, of k "''hidden'' # v"] k 2 that map_of_key by fastforce
        then have "dget d r = dget d1 r" by (intro d(3)) blast
        then show ?thesis using d1(2) k 2 by simp
      qed
    qed
    ultimately show ?thesis by simp
  next
    case False
    then have none: "\<forall>k. map_of ?plan k \<noteq> None \<longrightarrow> r \<noteq> key_text k" by blast
    then have "dget d r = None" using d(3) [of r] d1(3) [of r] by simp
    then show ?thesis using key_text_get(2) [OF inj none] by (simp add: files)
  qed
  then show ?thesis
    using d1(1) d(1) by (auto simp: read_output_def SEED_DIRNAME_def HIDDEN_DIRNAME_def)
qed

end
