(* ===== verification/Euler_Laws.thy ===== *)
theory Euler_Laws
  imports Euler_Tree_Laws
begin

text \<open>
  The generator of the Euler task set: every verified answer gets exactly one decision, a write
  leaves what a check accepts, and the modes that compare never write.
\<close>

section \<open>Inputs\<close>

lemma load_answers_ok: "load_answers t p = Inr answers \<Longrightarrow> dict_ok answers"
proof -
  assume "load_answers t p = Inr answers"
  then obtain as where "foldE (load_answer p as) [] (sort (map fst as)) = Inr answers"
    unfolding load_answers_def by (elim bindE_InrE) (auto simp: guard_Inr)
  then show ?thesis
    by (rule foldE_invariant [where P = dict_ok])
      (auto simp: load_answer_def Let_def err_simps split: if_splits json.splits)
qed

lemma text_field_strip: "text_field j = Some s \<Longrightarrow> strip s \<noteq> []"
  by (simp add: text_field_Some)

definition stated :: "restatement \<Rightarrow> bool" where
  "stated r = (st_title r \<noteq> [] \<and> st_text r \<noteq> [])"

lemma load_restatements_ok:
  "load_restatements t p = Inr rs \<Longrightarrow> dict_ok rs \<and> (\<forall>r \<in> snd ` set rs. stated r)"
proof -
  assume "load_restatements t p = Inr rs"
  then obtain ps where fold: "foldE (load_restatement p ps) [] (sort (map fst ps)) = Inr rs"
    unfolding load_restatements_def by (elim bindE_InrE) (auto simp: guard_Inr)
  show ?thesis
  proof (rule foldE_invariant [OF fold, where P = "\<lambda>rs. dict_ok rs \<and> (\<forall>r \<in> snd ` set rs. stated r)"])
    fix u key v
    assume u: "dict_ok u \<and> (\<forall>r \<in> snd ` set u. stated r)" and "load_restatement p ps u key = Inr v"
    then obtain n title body c where "v = dset n (c (strip title) (strip body)) u" "c = Asked \<or> c = Omitted"
        "strip title \<noteq> []" "strip body \<noteq> []"
      unfolding load_restatement_def by (auto simp: err_simps Let_def text_field_Some split: if_splits)
    then show "dict_ok v \<and> (\<forall>r \<in> snd ` set v. stated r)"
      using u set_dset_subset [of n "c (strip title) (strip body)" u] by (auto simp: stated_def)
  qed simp
qed

section \<open>One decision for each verified answer\<close>

lemma reconcile_Inr:
  assumes "reconcile answers rs = Inr (emitted, omitted)"
  shows "fst ` set rs = fst ` set answers"
    and "emitted = sort (filter (\<lambda>n. Option.bind (dget rs n) omitted_reason = None) (map fst answers))"
    and "omitted = map (\<lambda>n. (n, the (Option.bind (dget rs n) omitted_reason)))
           (filter (\<lambda>n. Option.bind (dget rs n) omitted_reason \<noteq> None) (sort (map fst answers)))"
proof -
  show "emitted = sort (filter (\<lambda>n. Option.bind (dget rs n) omitted_reason = None) (map fst answers))"
    "omitted = map (\<lambda>n. (n, the (Option.bind (dget rs n) omitted_reason)))
       (filter (\<lambda>n. Option.bind (dget rs n) omitted_reason \<noteq> None) (sort (map fst answers)))"
    using assms by (simp_all add: reconcile_def Let_def split: if_splits)
  have "filter (\<lambda>n. \<not> dhas rs n) (map fst answers) = []" "filter (\<lambda>n. \<not> dhas answers n) (map fst rs) = []"
    using assms by (auto simp: reconcile_def Let_def sort_filter_Nil split: if_splits)
  then have "\<forall>n \<in> fst ` set answers. dhas rs n" "\<forall>n \<in> fst ` set rs. dhas answers n"
    by (simp_all add: filter_empty_conv)
  then show "fst ` set rs = fst ` set answers" by (auto simp: dhas_def)
qed

lemma emitted_iff:
  assumes "reconcile answers rs = Inr (emitted, omitted)"
  shows "n \<in> set emitted \<longleftrightarrow> n \<in> fst ` set answers \<and> (\<exists>title q. dget rs n = Some (Asked title q))"
proof (cases "n \<in> fst ` set answers")
  case True
  then obtain r where "dget rs n = Some r" using reconcile_Inr(1) [OF assms] by (metis in_keys_iff not_Some_eq)
  then show ?thesis using True by (cases r) (auto simp: reconcile_Inr(2) [OF assms])
qed (auto simp: reconcile_Inr(2) [OF assms])

lemma omitted_iff:
  assumes "reconcile answers rs = Inr (emitted, omitted)"
  shows "(n, reason) \<in> set omitted \<longleftrightarrow> n \<in> fst ` set answers \<and> (\<exists>title. dget rs n = Some (Omitted title reason))"
proof (cases "n \<in> fst ` set answers")
  case True
  then obtain r where "dget rs n = Some r" using reconcile_Inr(1) [OF assms] by (metis in_keys_iff not_Some_eq)
  then show ?thesis using True by (cases r) (auto simp: reconcile_Inr(3) [OF assms])
qed (auto simp: reconcile_Inr(3) [OF assms])

lemma emitted_distinct:
  assumes "reconcile answers rs = Inr (emitted, omitted)" "dict_ok answers"
  shows "sorted emitted" "distinct emitted" "sorted (map fst omitted)" "distinct (map fst omitted)"
proof -
  have "distinct (map fst answers)" using assms(2) by (simp add: dict_ok_def)
  moreover have "map fst omitted = filter (\<lambda>n. Option.bind (dget rs n) omitted_reason \<noteq> None) (sort (map fst answers))"
    unfolding reconcile_Inr(3) [OF assms(1)] by (simp add: comp_def)
  ultimately show "sorted emitted" "distinct emitted" "sorted (map fst omitted)" "distinct (map fst omitted)"
    unfolding reconcile_Inr(2) [OF assms(1)] by (simp_all add: sorted_filter [where f = "\<lambda>x. x", simplified])
qed

lemma omitted_key_iff:
  assumes "reconcile answers rs = Inr (emitted, omitted)"
  shows "n \<in> fst ` set omitted \<longleftrightarrow> n \<in> fst ` set answers \<and> (\<exists>title reason. dget rs n = Some (Omitted title reason))"
proof -
  have "n \<in> fst ` set omitted \<longleftrightarrow> (\<exists>reason. (n, reason) \<in> set omitted)" by force
  then show ?thesis unfolding omitted_iff [OF assms] by blast
qed

text \<open>when the answer key and the side-car reconcile they cover the same problems, and every verified
  problem is decided exactly once: a task is emitted for it exactly when the side-car asks its
  question, and otherwise it is listed as omitted with the reason the side-car states. Both lists
  are in ascending order without repetition and no stated text is empty.
\<close>

theorem every_answer_is_decided:
  assumes "load_answers t p = Inr answers" "load_restatements t q = Inr rs"
    and "reconcile answers rs = Inr (emitted, omitted)"
  shows "fst ` set rs = fst ` set answers
     \<and> set emitted \<union> fst ` set omitted = fst ` set answers \<and> set emitted \<inter> fst ` set omitted = {}
     \<and> sorted emitted \<and> distinct emitted \<and> sorted (map fst omitted) \<and> distinct (map fst omitted)
     \<and> (\<forall>n \<in> set emitted. \<exists>title question. dget rs n = Some (Asked title question) \<and> title \<noteq> [] \<and> question \<noteq> [])
     \<and> (\<forall>(n, reason) \<in> set omitted. reason \<noteq> [] \<and> (\<exists>title. dget rs n = Some (Omitted title reason)))"
proof -
  have rs: "\<forall>r \<in> snd ` set rs. stated r" and answers: "dict_ok answers"
    using load_restatements_ok [OF assms(2)] load_answers_ok [OF assms(1)] by simp_all
  have st: "dget rs n = Some r \<Longrightarrow> stated r" for n r using rs by (force dest: dget_in_set)
  have same: "fst ` set rs = fst ` set answers" by (rule reconcile_Inr(1) [OF assms(3)])
  note em = emitted_iff [OF assms(3)] and om = omitted_key_iff [OF assms(3)]
  have stated_each: "(\<exists>title q. dget rs n = Some (Asked title q)) \<noteq> (\<exists>title reason. dget rs n = Some (Omitted title reason))"
    if "n \<in> fst ` set answers" for n
  proof -
    obtain r where "dget rs n = Some r" using \<open>n \<in> fst ` set answers\<close> unfolding same [symmetric] by (metis in_keys_iff not_Some_eq)
    then show ?thesis by (cases r) auto
  qed
  have cover: "n \<in> set emitted \<union> fst ` set omitted \<longleftrightarrow> n \<in> fst ` set answers" for n
    using stated_each [of n] unfolding Un_iff em om by blast
  have apart: "n \<notin> set emitted \<inter> fst ` set omitted" for n
    using stated_each [of n] unfolding Int_iff em om by blast
  have "\<exists>title question. dget rs n = Some (Asked title question) \<and> title \<noteq> [] \<and> question \<noteq> []" if "n \<in> set emitted" for n
    using that emitted_iff [OF assms(3), of n] st [of n] by (auto simp: stated_def)
  moreover have "reason \<noteq> [] \<and> (\<exists>title. dget rs n = Some (Omitted title reason))" if "(n, reason) \<in> set omitted" for n reason
    using that omitted_iff [OF assms(3), of n reason] st [of n] by (auto simp: stated_def)
  ultimately show ?thesis
    using same set_eqI [OF cover] apart emitted_distinct [OF assms(3) answers] by (intro conjI) blast+
qed

section \<open>A check accepts exactly what a write leaves\<close>

lemma compare_file_None: "compare_file files d r = None \<longleftrightarrow> dhas d r \<and> dhas files r \<and> dget d r = dget files r"
  by (simp add: compare_file_def)

lemma map_filter_Nil: "List.map_filter f xs = [] \<longleftrightarrow> (\<forall>x \<in> set xs. f x = None)"
  by (induction xs) (auto simp: List.map_filter_simps split: option.splits)

lemma check_problems_Nil:
  "check_problems t c mp rendered files = Inr [] \<longleftrightarrow>
     fs_read t mp = Some rendered \<and> (\<exists>d. read_output t c = Inr d \<and> dget d = dget files)"
proof -
  have manifest: "manifest_problems t mp rendered = Inr ps \<and> ps = [] \<longleftrightarrow> fs_read t mp = Some rendered \<and> ps = []" for ps
    by (auto simp: manifest_problems_def fs_read_def split: option.splits node.splits if_splits)
  have same: "List.map_filter (compare_file files d) (sort (dedup (map fst files @ map fst d))) = [] \<longleftrightarrow> dget d = dget files" for d
  proof -
    have "(\<forall>r \<in> fst ` set files \<union> fst ` set d. compare_file files d r = None) \<longleftrightarrow> dget d = dget files"
      (is "?all \<longleftrightarrow> _")
    proof
      assume a: ?all
      show "dget d = dget files"
      proof
        fix r
        show "dget d r = dget files r"
        proof (cases "r \<in> fst ` set files \<union> fst ` set d")
          case True
          then show ?thesis using a by (simp add: compare_file_None)
        next
          case False
          then have "dget d r = None" "dget files r = None" by (simp_all add: map_of_eq_None_iff)
          then show ?thesis by simp
        qed
      qed
    next
      assume "dget d = dget files"
      then show ?all by (simp add: compare_file_None dict_simps ball_Un in_keys_iff)
    qed
    then show ?thesis unfolding map_filter_Nil by simp
  qed
  show ?thesis
    using manifest same by (auto simp: check_problems_def err_simps)
qed

definition manifest_apart :: "euler_args \<Rightarrow> bool" where
  \<comment> \<open>the manifest is neither an input nor inside a generated tree\<close>
  "manifest_apart args =
     (let c = ea_corpus_dir args; mp = ea_manifest args in
      \<not> within mp (path_join c SEED_DIRNAME) \<and> \<not> within mp (path_join c HIDDEN_DIRNAME) \<and>
      mp \<notin> {path_join c ANSWERS_FILENAME, path_join c RESTATEMENTS_FILENAME, path_join c HARD_SUBSET_FILENAME})"

lemma corpus_names:
  "path_join c SEED_DIRNAME = below c [''seed'']" "path_join c HIDDEN_DIRNAME = below c [''hidden'']"
  "path_join c ANSWERS_FILENAME = below c [''expected-answers.json'']"
  "path_join c RESTATEMENTS_FILENAME = below c [''restatements.json'']"
  "path_join c HARD_SUBSET_FILENAME = below c [''hard-subset.json'']"
  by (simp_all add: path_join_simple simple_part_def below_def SEED_DIRNAME_def HIDDEN_DIRNAME_def
      ANSWERS_FILENAME_def RESTATEMENTS_FILENAME_def HARD_SUBSET_FILENAME_def)

lemma default_paths:
  "ea_corpus_dir (default_args root) = below root [''bench'', ''corpus'', ''project-euler'']"
  "ea_manifest (default_args root) = below root [''bench'', ''corpus-euler.json'']"
  by (simp_all add: default_args_def path_join_def path_of_def starts_with_def below_def)

lemma default_apart: "manifest_apart (default_args root)"
  by (simp add: manifest_apart_def Let_def default_paths corpus_names)

lemma dget_manifest_write:
  "dget (fs_write mp s (fs_mkdir (path_parent mp) t)) p =
     (if p = mp then Some (NFile s)
      else if dget t p = None \<and> p \<in> set (path_prefixes (path_parent mp)) then Some NDir else dget t p)"
  by (simp add: fs_write_def fs_mkdir_def dget_mkdir_fold)

lemma prefix_parent_within: "p \<in> set (path_prefixes (path_parent q)) \<Longrightarrow> within q p"
  by (cases "path_parts q" rule: rev_cases) (auto simp: path_prefixes_def path_parent_def within_def)

text \<open>What a write run leaves, for the paths the comparison reads.\<close>

lemma euler_write_holds:
  fixes answers :: "(nat, nat) dict" and rendered :: string
  assumes "distinct emitted" "orphan_free t (path_join (ea_corpus_dir args) SEED_DIRNAME)"
    "orphan_free t (path_join (ea_corpus_dir args) HIDDEN_DIRNAME)" "manifest_apart args"
  defines "t' \<equiv> euler_write args rendered (plan_output emitted answers) t"
  shows "holds_plan t' (ea_corpus_dir args) (planned emitted answers) ''seed''"
    and "holds_plan t' (ea_corpus_dir args) (planned emitted answers) ''hidden''"
    and "fs_read t' (ea_manifest args) = Some rendered"
    and "p \<in> {path_join (ea_corpus_dir args) ANSWERS_FILENAME, path_join (ea_corpus_dir args) RESTATEMENTS_FILENAME,
              path_join (ea_corpus_dir args) HARD_SUBSET_FILENAME} \<Longrightarrow> dget t p \<noteq> None \<Longrightarrow> dget t' p = dget t p"
    and "dict_ok t \<Longrightarrow> dict_ok t'"
proof -
  define c where "c = ea_corpus_dir args"
  define mp where "mp = ea_manifest args"
  define u where "u = fst (write_output c (plan_output emitted answers) t)"
  have t': "t' = fs_write mp rendered (fs_mkdir (path_parent mp) u)"
    by (simp add: t'_def euler_write_def u_def c_def mp_def split_beta)
  note tree = tree_after_write [OF assms(1) assms(2) assms(3), where answers = answers, folded c_def, folded u_def]
  have apart: "\<not> within mp (below c [''seed''])" "\<not> within mp (below c [''hidden''])"
    "mp \<notin> {below c [''expected-answers.json''], below c [''restatements.json''], below c [''hard-subset.json'']}"
    using assms(4) by (simp_all add: manifest_apart_def Let_def corpus_names c_def mp_def)
  have inside: "dget t' (below c (name # ps)) = planned_node (planned emitted answers) (name # ps)"
    if "name = ''seed'' \<or> name = ''hidden''" for name ps
  proof -
    have "\<not> within mp (below c (name # ps))"
      using apart(1,2) that within_trans [of mp "below c (name # ps)" "below c [name]"] by auto
    then have "below c (name # ps) \<noteq> mp" "below c (name # ps) \<notin> set (path_prefixes (path_parent mp))"
      using prefix_parent_within by auto
    then show ?thesis using that tree(1) [of "name # ps"] by (simp add: t' dget_manifest_write)
  qed
  then show "holds_plan t' (ea_corpus_dir args) (planned emitted answers) ''seed''"
    "holds_plan t' (ea_corpus_dir args) (planned emitted answers) ''hidden''"
    by (simp_all add: holds_plan_def c_def)
  show "fs_read t' (ea_manifest args) = Some rendered"
    by (simp add: t' fs_read_def dget_manifest_write mp_def)
  show "dget t' p = dget t p"
    if p: "p \<in> {path_join (ea_corpus_dir args) ANSWERS_FILENAME, path_join (ea_corpus_dir args) RESTATEMENTS_FILENAME,
        path_join (ea_corpus_dir args) HARD_SUBSET_FILENAME}" "dget t p \<noteq> None"
  proof -
    have "\<not> within p (below c [''seed''])" "\<not> within p (below c [''hidden''])" "p \<noteq> mp"
      using p(1) apart(3) by (auto simp: corpus_names c_def [symmetric])
    then have "dget u p = dget t p" "p \<noteq> mp" using tree(2) p(2) by auto
    then show ?thesis using p(2) by (simp add: t' dget_manifest_write)
  qed
  show "dict_ok t \<Longrightarrow> dict_ok t'"
    using tree(3) by (simp add: t' fs_write_def dict_ok_mkdir)
qed

lemma gen_read_json_cong: "dget t' p = dget t p \<Longrightarrow> gen_read_json t' p = gen_read_json t p"
  by (simp add: gen_read_json_def)

lemma gen_read_json_there: "gen_read_json t p = Inr j \<Longrightarrow> dget t p \<noteq> None"
  by (cases "dget t p") (simp_all add: gen_read_json_def)

lemma euler_generate_Inr:
  "euler_generate t c = Inr (manifest, files, emitted, omitted) \<longleftrightarrow>
     (\<exists>answers rs hard. load_answers t (path_join c ANSWERS_FILENAME) = Inr answers \<and>
        load_restatements t (path_join c RESTATEMENTS_FILENAME) = Inr rs \<and>
        load_hard_subset t (path_join c HARD_SUBSET_FILENAME) = Inr hard \<and>
        reconcile answers rs = Inr (emitted, omitted) \<and> emitted \<noteq> [] \<and>
        manifest = build_manifest emitted omitted rs hard \<and> files = plan_output emitted answers)"
  by (auto simp: euler_generate_def err_simps)

lemma loads_there:
  "load_answers t p = Inr answers \<Longrightarrow> dget t p \<noteq> None"
  "load_restatements t p = Inr rs \<Longrightarrow> dget t p \<noteq> None"
  "load_hard_subset t p = Inr hard \<Longrightarrow> dget t p \<noteq> None"
  unfolding load_answers_def load_restatements_def load_hard_subset_def
  by (auto elim!: bindE_InrE dest: gen_read_json_there)

lemma euler_generate_stable:
  assumes "euler_generate t c = Inr r"
    and "\<And>p. p \<in> {path_join c ANSWERS_FILENAME, path_join c RESTATEMENTS_FILENAME, path_join c HARD_SUBSET_FILENAME} \<Longrightarrow>
           dget t p \<noteq> None \<Longrightarrow> dget t' p = dget t p"
  shows "euler_generate t' c = Inr r"
proof -
  obtain manifest files emitted omitted where r: "r = (manifest, files, emitted, omitted)" by (cases r) auto
  have "load_answers t' (path_join c ANSWERS_FILENAME) = load_answers t (path_join c ANSWERS_FILENAME)"
    "load_restatements t' (path_join c RESTATEMENTS_FILENAME) = load_restatements t (path_join c RESTATEMENTS_FILENAME)"
    "load_hard_subset t' (path_join c HARD_SUBSET_FILENAME) = load_hard_subset t (path_join c HARD_SUBSET_FILENAME)"
    using assms(1) loads_there assms(2)
    by (auto simp: r euler_generate_Inr load_answers_def load_restatements_def load_hard_subset_def
        intro!: arg_cong [where f = "\<lambda>m. bindE m f" for f] gen_read_json_cong)
  then show ?thesis using assms(1) by (simp add: euler_generate_def)
qed


lemma comparing_never_writes:
  "euler_main args t = Inr (code, t') \<Longrightarrow> ea_check args \<or> ea_audit args \<noteq> None \<Longrightarrow> t' = t"
proof (cases "euler_generate t (ea_corpus_dir args)")
  case (Inr r)
  have same: "ea_check args \<Longrightarrow> euler_check_or_write args rendered files t = Inr (code, t') \<Longrightarrow> t' = t" for rendered files
    by (auto simp: euler_check_or_write_def err_simps)
  obtain manifest files emitted omitted where "r = (manifest, files, emitted, omitted)" by (cases r) auto
  then show "euler_main args t = Inr (code, t') \<Longrightarrow> ea_check args \<or> ea_audit args \<noteq> None \<Longrightarrow> t' = t"
    using Inr same
    by (cases "ea_audit args") (auto simp: euler_main_def Let_def split_beta err_simps split: if_splits)
qed (auto simp: euler_main_def split: if_splits)

section \<open>A concrete corpus\<close>

definition euler_root :: path where "euler_root = Path ''/'' [''r'']"

definition euler_demo :: fs where
  "euler_demo =
     [(below euler_root [], NDir), (below euler_root [''bench''], NDir), (below euler_root [''bench'', ''corpus''], NDir),
      (below euler_root [''bench'', ''corpus'', ''project-euler''], NDir),
      (below euler_root [''bench'', ''corpus'', ''project-euler'', ''expected-answers.json''], NFile (json_file (JObj
         [(''answers'', JObj [(''euler-001'', JStr ''233168''), (''euler-002'', JNull), (''euler-003'', JStr ''6857'')])]))),
      (below euler_root [''bench'', ''corpus'', ''project-euler'', ''restatements.json''], NFile (json_file (JObj
         [(''problems'', JObj
            [(''1'', JObj [(''title'', JStr ''Multiples''), (''question'', JStr ''Add them up.'')]),
             (''3'', JObj [(''title'', JStr ''Factor''), (''omitted'', JStr ''Not ours.'')])])]))),
      (below euler_root [''bench'', ''corpus'', ''project-euler'', ''hard-subset.json''], NFile (json_file (JObj
         [(''problems'', JArr [JObj [(''number'', JInt 1), (''insight'', JStr ''Inclusion.'')]])])))]"

abbreviation demo_corpus :: path where
  "demo_corpus \<equiv> ea_corpus_dir (default_args euler_root)"

lemma demo_reads:
  "gen_read_json euler_demo (path_join demo_corpus ANSWERS_FILENAME) = Inr (JObj
     [(''answers'', JObj [(''euler-001'', JStr ''233168''), (''euler-002'', JNull), (''euler-003'', JStr ''6857'')])])"
  "gen_read_json euler_demo (path_join demo_corpus RESTATEMENTS_FILENAME) = Inr (JObj
     [(''problems'', JObj
        [(''1'', JObj [(''title'', JStr ''Multiples''), (''question'', JStr ''Add them up.'')]),
         (''3'', JObj [(''title'', JStr ''Factor''), (''omitted'', JStr ''Not ours.'')])])])"
  "gen_read_json euler_demo (path_join demo_corpus HARD_SUBSET_FILENAME) = Inr (JObj
     [(''problems'', JArr [JObj [(''number'', JInt 1), (''insight'', JStr ''Inclusion.'')]])])"
  by (simp_all add: gen_read_json_def euler_demo_def corpus_names default_paths some_or_def doc.dec_enc plain_json_def)

lemma demo_answers:
  "load_answers euler_demo (path_join demo_corpus ANSWERS_FILENAME) = Inr [(1, 233168), (3, 6857)]"
  by (simp add: load_answers_def demo_reads some_or_def guard_def jget_def load_answer_def starts_with_def py_isdigit_def
      is_digit_def int_of_digits_def nat_of_digits_def digit_val_def)

lemma demo_restatements:
  "load_restatements euler_demo (path_join demo_corpus RESTATEMENTS_FILENAME) =
     Inr [(1, Asked ''Multiples'' ''Add them up.''), (3, Omitted ''Factor'' ''Not ours.'')]"
  by (simp add: load_restatements_def demo_reads some_or_def guard_def jget_def load_restatement_def py_isdigit_def
      is_digit_def int_of_digits_def nat_of_digits_def digit_val_def text_field_def strip_defs dhas_def)

lemma demo_hard:
  "load_hard_subset euler_demo (path_join demo_corpus HARD_SUBSET_FILENAME) = Inr [(1, ''Inclusion.'')]"
  by (simp add: load_hard_subset_def demo_reads some_or_def guard_def jget_def load_hard_entry_def text_field_def strip_defs)

lemma demo_reconciled:
  "reconcile [(1, 233168), (3, 6857)] [(1, Asked ''Multiples'' ''Add them up.''), (3, Omitted ''Factor'' ''Not ours.'')] =
     Inr ([1], [(3, ''Not ours.'')])"
  by (simp add: reconcile_def dhas_def)

theorem every_answer_is_decided_witness:
  "set [1 :: nat] \<union> fst ` set [(3 :: nat, ''Not ours.'')] = fst ` set [(1 :: nat, 233168 :: nat), (3, 6857)]"
  using every_answer_is_decided [OF demo_answers demo_restatements demo_reconciled] by blast

lemma demo_orphans: "orphan_free euler_demo (path_join demo_corpus SEED_DIRNAME)"
    "orphan_free euler_demo (path_join demo_corpus HIDDEN_DIRNAME)" "dict_ok euler_demo"
  by (simp_all add: orphan_free_def fs_below_def euler_demo_def corpus_names default_paths within_def below_def euler_root_def)

lemma demo_generates:
  "\<exists>manifest files. euler_generate euler_demo demo_corpus = Inr (manifest, files, [1], [(3, ''Not ours.'')])"
  unfolding euler_generate_def demo_answers demo_restatements demo_hard bindE_Inr demo_reconciled by (simp add: guard_def)

lemma default_flags [simp]:
  "ea_check (default_args root) = False" "ea_audit (default_args root) = None" "ea_require (default_args root) = False"
  by (simp_all add: default_args_def)

lemma euler_demo_run: "\<exists>t'. euler_main (default_args euler_root) euler_demo = Inr (0, t')"
  using demo_generates by (auto simp: euler_main_def euler_check_or_write_def Let_def)


end
