(* ===== verification/Euler_Load_Laws.thy ===== *)
theory Euler_Load_Laws
  imports Euler_Laws
begin

text \<open>
  What the bench reads in the trees the generator left: the seed and the gauge directories give
  the planned files, no entry skipped and none too big, and a built entry parses to its task.
\<close>

section \<open>The files are small\<close>

lemma text_lines_bound: "\<forall>l \<in> set ls. length l \<le> n \<Longrightarrow> length (text_lines ls) \<le> length ls * Suc n"
  unfolding text_lines_length by (induction ls) auto

lemma utf8_size_bound: "utf8_size s \<le> 2 * length s"
  unfolding utf8_size_def by (induction s) auto

lemma seed_texts_short:
  "length SEED_GITIGNORE \<le> 10000" "length SEED_README_MD \<le> 10000" "length CLI_PY \<le> 10000"
  "length REGISTRY_PY \<le> 10000" "length SOLVERS_INIT_PY \<le> 10000" "length COUNT_DIVISORS_PY \<le> 10000"
  "length SUM_OF_SQUARES_PY \<le> 10000" "length CHECK_VISIBLE_PY \<le> 10000" "length RUN_TESTS_PY \<le> 10000"
  unfolding SEED_GITIGNORE_def SEED_README_MD_def CLI_PY_def REGISTRY_PY_def SOLVERS_INIT_PY_def
    COUNT_DIVISORS_PY_def SUM_OF_SQUARES_PY_def CHECK_VISIBLE_PY_def RUN_TESTS_PY_def
  by (rule order_trans [OF text_lines_bound [where n = 100]]; simp)+

lemma check_spec_parts_short:
  "list_all (\<lambda>l. length l \<le> 100) CHECK_SPEC_HEAD" "list_all (\<lambda>l. length l \<le> 100) CHECK_SPEC_PACKAGE"
  "list_all (\<lambda>l. length l \<le> 100) CHECK_SPEC_FOLDING" "list_all (\<lambda>l. length l \<le> 100) CHECK_SPEC_TESTS"
  "length CHECK_SPEC_HEAD \<le> 300" "length CHECK_SPEC_PACKAGE \<le> 300" "length CHECK_SPEC_FOLDING \<le> 300"
  "length CHECK_SPEC_TESTS \<le> 300"
  by code_simp+

lemma text_lines_simps: "text_lines [] = []" "text_lines (l # ls) = l @ CHR 0x0A # text_lines ls"
    "text_lines (a @ b) = text_lines a @ text_lines b"
  by (simp_all add: text_lines_def)

lemma check_spec_short:
  assumes "length target \<le> 1100" "length answer \<le> 1100" "length worked \<le> 1100" "length budget \<le> 1100"
    "length imports \<le> 1100"
  shows "length (CHECK_SPEC_TEMPLATE target answer worked budget imports) \<le> 200000"
proof -
  have "length (text_lines ls) \<le> 30300" if "list_all (\<lambda>l. length l \<le> 100) ls" "length ls \<le> 300" for ls
    using text_lines_bound [of ls 100] that by (simp add: list_all_iff)
  note part = this [OF check_spec_parts_short(1,5)] this [OF check_spec_parts_short(2,6)]
    this [OF check_spec_parts_short(3,7)] this [OF check_spec_parts_short(4,8)]
  show ?thesis
    using part assms by (simp add: CHECK_SPEC_TEMPLATE_def text_lines_simps)
qed

lemma gauge_body_short:
  assumes digits: "length (str_nat n) \<le> 1000" "length (str_nat a) \<le> 1000"
  shows "utf8_size (gauge_body n a) \<le> 400000"
proof -
  have "length (py_quoted (solver_name n)) \<le> 1100"
    using digits(1) by (simp add: py_quoted_def solver_name_def pad3_def Let_def)
  moreover have "length worked_literal \<le> 1100" "length (str_nat SOLVE_BUDGET_SEC) \<le> 1100" "length render_imports \<le> 1100"
    by code_simp+
  ultimately have "length (gauge_body n a) \<le> 200000"
    using digits(2) unfolding gauge_body_def by (intro check_spec_short) simp_all
  then show ?thesis using utf8_size_bound [of "gauge_body n a"] by linarith
qed

section \<open>Reading the directories the tasks name\<close>

text \<open>A directory given by the nodes below it.\<close>

definition tree_at :: "path \<Rightarrow> (string list \<times> node) list \<Rightarrow> fs" where
  "tree_at base nodes = map (\<lambda>(ps, n). (below base ps, n)) nodes"

lemma dget_tree_at: "dget (tree_at base nodes) (below base ps) = map_of nodes ps"
  by (induction nodes) (auto simp: tree_at_def)

lemma dict_ok_tree_at: "distinct (map fst nodes) \<Longrightarrow> dict_ok (tree_at base nodes)"
proof -
  have "map fst (tree_at base nodes) = map (below base) (map fst nodes)"
    by (simp add: tree_at_def split_beta comp_def)
  moreover have "inj_on (below base) A" for A by (simp add: inj_on_def)
  ultimately show "distinct (map fst nodes) \<Longrightarrow> ?thesis" by (simp only: dict_ok_def distinct_map)
qed

lemma fs_below_tree_at: "fs_below (tree_at base nodes) base = map (below base) (filter (\<lambda>ps. ps \<noteq> []) (map fst nodes))"
  by (induction nodes) (auto simp: fs_below_def tree_at_def)

lemma tree_at_tests:
  "fs_read (tree_at base nodes) (below base ps) = (case map_of nodes ps of Some (NFile s) \<Rightarrow> Some s | _ \<Rightarrow> None)"
  "fs_is_dir (tree_at base nodes) (below base ps) \<longleftrightarrow> map_of nodes ps = Some NDir"
  "fs_is_link (tree_at base nodes) (below base ps) \<longleftrightarrow> map_of nodes ps = Some NLink"
  "fs_is_file (tree_at base nodes) (below base ps) =
     (case map_of nodes ps of Some (NFile _) \<Rightarrow> True | Some (NBin _) \<Rightarrow> True | _ \<Rightarrow> False)"
  "fs_size (tree_at base nodes) (below base ps) =
     (case map_of nodes ps of Some (NFile s) \<Rightarrow> utf8_size s | Some (NBin b) \<Rightarrow> length b | _ \<Rightarrow> 0)"
  by (simp_all add: fs_read_def fs_is_dir_def fs_is_link_def fs_is_file_def fs_size_def dget_tree_at)

fun strict_prefixes :: "'a list \<Rightarrow> 'a list list" where
  "strict_prefixes [] = []"
| "strict_prefixes (x # xs) = [] # map ((#) x) (strict_prefixes xs)"

lemma strict_prefix_code: "strict_prefix ps xs \<longleftrightarrow> ps \<in> set (strict_prefixes xs)"
proof (induction xs arbitrary: ps)
  case (Cons x xs)
  show ?case by (cases ps) (auto simp: Cons)
qed simp

definition seed_nodes :: "(string list \<times> node) list" where
  "seed_nodes =
     [([], NDir), ([''.gitignore''], NFile SEED_GITIGNORE), ([''README.md''], NFile SEED_README_MD),
      ([''src''], NDir), ([''src'', ''__init__.py''], NFile []), ([''src'', ''cli.py''], NFile CLI_PY),
      ([''src'', ''registry.py''], NFile REGISTRY_PY), ([''src'', ''solvers''], NDir),
      ([''src'', ''solvers'', ''__init__.py''], NFile SOLVERS_INIT_PY),
      ([''src'', ''solvers'', ''count_divisors.py''], NFile COUNT_DIVISORS_PY),
      ([''src'', ''solvers'', ''sum_of_squares.py''], NFile SUM_OF_SQUARES_PY),
      ([''tests''], NDir), ([''tests'', ''check_visible.py''], NFile CHECK_VISIBLE_PY),
      ([''tools''], NDir), ([''tools'', ''run_tests.py''], NFile RUN_TESTS_PY)]"

lemma planned_seed_nodes: "planned_node (planned emitted answers) (''seed'' # ps) = map_of seed_nodes ps"
proof -
  have get: "map_of (planned emitted answers) (''seed'' # ps) =
      map_of (map (\<lambda>(r, b). (path_parts (path_of r), b)) build_seed_files) ps"
  proof -
    have "map_of (concat (map (\<lambda>n. [([''hidden'', euler_id n, ''gauge'', ''check_spec.py''], gauge_body n (the (dget answers n))),
        ([''hidden'', euler_id n, ''gauge'', ''run.py''], RUN_TESTS_PY)]) emitted)) (''seed'' # ps) = None"
      by (induction emitted) simp_all
    then show ?thesis unfolding planned_eq seed_parts by (simp add: map_add_def)
  qed
  have above: "list_ex (strict_prefix (''seed'' # ps)) (map fst (planned emitted answers)) \<longleftrightarrow>
      ps \<in> {[], [''src''], [''src'', ''solvers''], [''tests''], [''tools'']}"
    unfolding planned_keys list_ex_iff strict_prefix_code by auto
  show ?thesis
    unfolding planned_node_def get above seed_parts seed_nodes_def by auto
qed

definition seed_rules :: "ignore_rule list" where
  "seed_rules = [\<lparr>ir_where = [], ir_pattern = ''__pycache__'', ir_dir_only = True\<rparr>,
                 \<lparr>ir_where = [], ir_pattern = ''*.pyc'', ir_dir_only = False\<rparr>]"

lemma seed_ignore_lines:
  "foldE (ignore_line tid field []) [] (str_split (CHR 0x0A) SEED_GITIGNORE) = Inr seed_rules"
  by (simp add: SEED_GITIGNORE_def text_lines_def ignore_line_def strip_defs starts_with_def ends_with_def
      rstrip_char_def seed_rules_def Let_def)

lemma sort_single: "sort [x] = [x]"
  by simp

lemma read_seed_rules: "read_ignore_rules (tree_at base seed_nodes) base tid field = Inr seed_rules"
proof -
  have "filter (\<lambda>p. path_name p = ''.gitignore'') (fs_below (tree_at base seed_nodes) base) = [below base [''.gitignore'']]"
    unfolding fs_below_tree_at by (simp add: seed_nodes_def path_name_def below_def)
  then show ?thesis
    unfolding read_ignore_rules_def
    by (simp add: ignore_file_def tree_at_tests seed_nodes_def seed_ignore_lines)
qed

text \<open>No rule of the seed, and no built-in one, skips an entry of it.\<close>

lemma seed_not_ignored: "ps \<in> set (map fst seed_nodes) \<Longrightarrow> ps \<noteq> [] \<Longrightarrow> \<not> is_ignored ps seed_rules"
proof -
  have "list_all (\<lambda>ps. ps = [] \<or> \<not> is_ignored ps seed_rules) (map fst seed_nodes)"
    unfolding seed_nodes_def by code_simp
  then show "ps \<in> set (map fst seed_nodes) \<Longrightarrow> ps \<noteq> [] \<Longrightarrow> ?thesis" by (auto simp: list_all_iff)
qed

fun file_nodes :: "(string list \<times> node) list \<Rightarrow> (string list \<times> string) list" where
  "file_nodes [] = []"
| "file_nodes ((ps, NFile b) # nodes) = (ps, b) # file_nodes nodes"
| "file_nodes (_ # nodes) = file_nodes nodes"

definition plain_nodes :: "ignore_rule list \<Rightarrow> (string list \<times> node) list \<Rightarrow> bool" where
  "plain_nodes rules nodes =
     (list_all (\<lambda>(ps, n). (case n of NFile b \<Rightarrow> ps \<noteq> [] \<and> utf8_size b \<le> MAX_SOURCE_FILE_BYTES | _ \<Rightarrow> n = NDir) \<and>
          (ps \<noteq> [] \<longrightarrow> \<not> is_ignored ps rules \<and> ''.git'' \<notin> set ps)) nodes \<and>
      distinct (map fst nodes) \<and> sorted_wrt (<) (map (\<lambda>x. key_text (fst x)) (file_nodes nodes)) \<and>
      list_all (\<lambda>(ps, b). strip (key_text ps) \<noteq> [] \<and> safe_relpath (key_text ps)) (file_nodes nodes) \<and>
      sum_list (map (\<lambda>(ps, b). utf8_size b) (file_nodes nodes)) \<le> MAX_SOURCE_DIR_BYTES \<and>
      file_nodes nodes \<noteq> [])"

lemma sort_by_key: "sorted_wrt (<) (map fst es) \<Longrightarrow> sort es = (es :: (string \<times> path) list)"
  by (rule sorted_sort_id) (auto simp: sorted_wrt_map less_prod_def elim!: sorted_wrt_mono_rel [rotated])

lemma read_entries_all:
  "distinct (map fst acc @ map (key_text \<circ> fst) fs) \<Longrightarrow>
   \<forall>(ps, b) \<in> set fs. strip (key_text ps) \<noteq> [] \<and> safe_relpath (key_text ps) \<and> fs_read t (below base ps) = Some b \<Longrightarrow>
   foldE (read_entry t tid field) acc (map (\<lambda>(ps, b). (key_text ps, below base ps)) fs) =
     Inr (acc @ map (\<lambda>(ps, b). (key_text ps, b)) fs)"
proof (induction fs arbitrary: acc)
  case (Cons f fs)
  obtain ps b where f: "f = (ps, b)" by (cases f)
  have "validate_relpath (key_text ps) tid field = Inr ()" using Cons.prems(2) by (simp add: f validate_relpath_Inr)
  then have "read_entry t tid field acc (key_text ps, below base ps) = Inr (acc @ [(key_text ps, b)])"
    using Cons.prems by (simp add: f read_entry_Inr dset_new)
  then show ?case using Cons.IH [of "acc @ [(key_text ps, b)]"] Cons.prems by (simp add: f)
qed simp

lemma file_nodes_iff: "(ps, b) \<in> set (file_nodes nodes) \<longleftrightarrow> (ps, NFile b) \<in> set nodes"
  by (induction nodes rule: file_nodes.induct) auto

lemma map_file_nodes:
  "\<forall>(ps, n) \<in> set nodes. n = NDir \<or> (\<exists>b. n = NFile b \<and> ps \<noteq> []) \<Longrightarrow>
   map fst (filter (\<lambda>(ps, n). ps \<noteq> [] \<and> n \<noteq> NDir) nodes) = map fst (file_nodes nodes)"
  by (induction nodes rule: file_nodes.induct) auto

lemma read_tree_at:
  assumes rules: "read_ignore_rules (tree_at base nodes) base tid field = Inr rules" and plain: "plain_nodes rules nodes"
  shows "read_dir_map (tree_at base nodes) id base tid field = Inr (map (\<lambda>(ps, b). (key_text ps, b)) (file_nodes nodes))"
proof -
  let ?t = "tree_at base nodes"
  have each: "n = NDir \<or> (\<exists>b. n = NFile b \<and> ps \<noteq> [] \<and> utf8_size b \<le> MAX_SOURCE_FILE_BYTES)"
    "ps \<noteq> [] \<longrightarrow> \<not> is_ignored ps rules \<and> ''.git'' \<notin> set ps" if "(ps, n) \<in> set nodes" for ps n
  proof -
    have "(case n of NFile b \<Rightarrow> ps \<noteq> [] \<and> utf8_size b \<le> MAX_SOURCE_FILE_BYTES | _ \<Rightarrow> n = NDir) \<and>
        (ps \<noteq> [] \<longrightarrow> \<not> is_ignored ps rules \<and> ''.git'' \<notin> set ps)"
      using plain that unfolding plain_nodes_def list_all_iff by fast
    then show "n = NDir \<or> (\<exists>b. n = NFile b \<and> ps \<noteq> [] \<and> utf8_size b \<le> MAX_SOURCE_FILE_BYTES)"
      "ps \<noteq> [] \<longrightarrow> \<not> is_ignored ps rules \<and> ''.git'' \<notin> set ps"
      by (cases n; simp)+
  qed
  have dist: "distinct (map fst nodes)" using plain by (simp add: plain_nodes_def)
  have get: "map_of nodes ps = Some n" if "(ps, n) \<in> set nodes" for ps n using dist that by simp
  have below: "fs_below ?t base = map (\<lambda>x. below base (fst x)) (filter (\<lambda>x. fst x \<noteq> []) nodes)"
    unfolding fs_below_tree_at by (simp add: filter_map comp_def)
  have ok: "walk_ok ?t id base rules p" if listed: "p \<in> set (fs_below ?t base)" for p
  proof -
    obtain ps n where p: "p = below base ps" "(ps, n) \<in> set nodes" "ps \<noteq> []" using listed by (auto simp: below)
    then show ?thesis
      using each [OF p(2)] get [OF p(2)] by (auto simp: walk_ok_def tree_at_tests)
  qed
  have "kept ?t base rules (below base ps) \<longleftrightarrow> n \<noteq> NDir" if "(ps, n) \<in> set nodes" "ps \<noteq> []" for ps n
    using each [OF that(1)] get [OF that(1)] that(2) by (auto simp: kept_def tree_at_tests)
  then have "filter (\<lambda>x. kept ?t base rules (below base (fst x))) (filter (\<lambda>x. fst x \<noteq> []) nodes) =
      filter (\<lambda>(ps, n). ps \<noteq> [] \<and> n \<noteq> NDir) nodes"
    unfolding filter_filter by (intro filter_cong refl) auto
  then have "walked ?t base rules = map (below base) (map fst (filter (\<lambda>(ps, n). ps \<noteq> [] \<and> n \<noteq> NDir) nodes))"
    unfolding walked_def below filter_map by (simp add: comp_def)
  also have "\<dots> = map (below base) (map fst (file_nodes nodes))"
    by (subst map_file_nodes) (use each in auto)
  finally have walked: "walked ?t base rules = map (\<lambda>(ps, b). below base ps) (file_nodes nodes)"
    by (simp add: comp_def split_beta)
  have body: "map_of nodes ps = Some (NFile b)" if "(ps, b) \<in> set (file_nodes nodes)" for ps b
    using that get by (simp add: file_nodes_iff)
  have reads: "\<forall>(ps, b) \<in> set (file_nodes nodes). strip (key_text ps) \<noteq> [] \<and> safe_relpath (key_text ps) \<and> fs_read ?t (below base ps) = Some b"
  proof clarify
    fix ps b assume m: "(ps, b) \<in> set (file_nodes nodes)"
    then have "strip (key_text ps) \<noteq> [] \<and> safe_relpath (key_text ps)"
      using plain unfolding plain_nodes_def list_all_iff by fast
    moreover have "fs_read ?t (below base ps) = Some b" by (simp add: tree_at_tests body [OF m])
    ultimately show "strip (key_text ps) \<noteq> [] \<and> safe_relpath (key_text ps) \<and> fs_read ?t (below base ps) = Some b" by simp
  qed
  have sizes: "map (fs_size ?t) (walked ?t base rules) = map (\<lambda>(ps, b). utf8_size b) (file_nodes nodes)"
    using body by (auto simp: walked tree_at_tests)
  have items: "map (walk_item base) (walked ?t base rules) = map (\<lambda>(ps, b). (key_text ps, below base ps)) (file_nodes nodes)"
    by (auto simp: walked walk_item_def)
  have keys: "sorted_wrt (<) (map (\<lambda>x. key_text (fst x)) (file_nodes nodes))" using plain by (simp add: plain_nodes_def)
  then have "sort (map (walk_item base) (walked ?t base rules)) = map (\<lambda>(ps, b). (key_text ps, below base ps)) (file_nodes nodes)"
    unfolding items by (intro sort_by_key) (simp add: comp_def split_beta)
  moreover have "distinct (map (key_text \<circ> fst) (file_nodes nodes))"
    using keys by (auto simp: comp_def split_beta strict_sorted_iff)
  then have "foldE (read_entry ?t tid field) [] (map (\<lambda>(ps, b). (key_text ps, below base ps)) (file_nodes nodes)) =
      Inr (map (\<lambda>(ps, b). (key_text ps, b)) (file_nodes nodes))"
    using reads by (subst read_entries_all) simp_all
  moreover have "walked ?t base rules \<noteq> []" "sum_list (map (fs_size ?t) (walked ?t base rules)) \<le> MAX_SOURCE_DIR_BYTES"
    using plain unfolding sizes by (simp_all add: walked plain_nodes_def)
  ultimately show ?thesis
    unfolding read_dir_map_Inr using ok rules by (intro exI [of _ rules]) simp
qed

lemma seed_plain: "plain_nodes seed_rules seed_nodes"
proof -
  have sizes: "utf8_size SEED_GITIGNORE \<le> 20000" "utf8_size SEED_README_MD \<le> 20000" "utf8_size CLI_PY \<le> 20000"
    "utf8_size REGISTRY_PY \<le> 20000" "utf8_size SOLVERS_INIT_PY \<le> 20000" "utf8_size COUNT_DIVISORS_PY \<le> 20000"
    "utf8_size SUM_OF_SQUARES_PY \<le> 20000" "utf8_size CHECK_VISIBLE_PY \<le> 20000" "utf8_size RUN_TESTS_PY \<le> 20000"
    "utf8_size [] = 0"
    by (rule order_trans [OF utf8_size_bound], use seed_texts_short in simp)+ (simp add: utf8_size_def)
  have "\<not> is_ignored ps seed_rules" if "(ps, n) \<in> set seed_nodes" "ps \<noteq> []" for ps n
    using seed_not_ignored [of ps] that by force
  then have "list_all (\<lambda>(ps, n). ps \<noteq> [] \<longrightarrow> \<not> is_ignored ps seed_rules) seed_nodes" by (auto simp: list_all_iff)
  moreover have "list_all (\<lambda>(ps, n). case n of NFile b \<Rightarrow> ps \<noteq> [] \<and> utf8_size b \<le> MAX_SOURCE_FILE_BYTES | _ \<Rightarrow> n = NDir) seed_nodes"
    using sizes by (simp add: seed_nodes_def MAX_SOURCE_FILE_BYTES_def)
  moreover have "list_all (\<lambda>(ps, n). ''.git'' \<notin> set ps) seed_nodes" "distinct (map fst seed_nodes)"
    by (simp_all add: seed_nodes_def)
  ultimately have nodes: "list_all (\<lambda>(ps, n). (case n of NFile b \<Rightarrow> ps \<noteq> [] \<and> utf8_size b \<le> MAX_SOURCE_FILE_BYTES | _ \<Rightarrow> n = NDir) \<and>
      (ps \<noteq> [] \<longrightarrow> \<not> is_ignored ps seed_rules \<and> ''.git'' \<notin> set ps)) seed_nodes" "distinct (map fst seed_nodes)"
    unfolding list_all_iff by auto
  have "sorted_wrt (<) (map (\<lambda>x. key_text (fst x)) (file_nodes seed_nodes))" by (simp add: seed_nodes_def)
  moreover have "list_all (\<lambda>(ps, b). strip (key_text ps) \<noteq> [] \<and> safe_relpath (key_text ps)) (file_nodes seed_nodes)"
    by (simp add: seed_nodes_def strip_defs safe_relpath_def path_of_def starts_with_def)
  moreover have "sum_list (map (\<lambda>(ps, b). utf8_size b) (file_nodes seed_nodes)) \<le> MAX_SOURCE_DIR_BYTES"
    using sizes by (simp add: seed_nodes_def MAX_SOURCE_DIR_BYTES_def)
  ultimately show ?thesis using nodes by (simp add: plain_nodes_def seed_nodes_def)
qed

lemma read_seed_dir:
  assumes "dict_ok t" "holds_plan t c (planned emitted answers) ''seed''"
  shows "read_dir_map t id (below c [''seed'']) tid field = Inr build_seed_files"
proof (rule read_dir_map_local [OF _ assms(1)])
  show "dict_ok (tree_at (below c [''seed'']) seed_nodes)" by (rule dict_ok_tree_at) (simp add: seed_nodes_def)
  have "map (\<lambda>(ps, b). (key_text ps, b)) (file_nodes seed_nodes) = build_seed_files"
    by (simp add: seed_nodes_def build_seed_files_def)
  then show "read_dir_map (tree_at (below c [''seed'']) seed_nodes) id (below c [''seed'']) tid field = Inr build_seed_files"
    using read_tree_at [OF read_seed_rules seed_plain] by simp
  fix p assume "within p (below c [''seed''])"
  then obtain ps where p: "p = below (below c [''seed'']) ps" by (auto simp: within_below_iff)
  have "dget t p = planned_node (planned emitted answers) (''seed'' # ps)" using assms(2) by (simp add: p holds_plan_def)
  then show "dget t p = dget (tree_at (below c [''seed'']) seed_nodes) p"
    unfolding p dget_tree_at planned_seed_nodes .
qed

definition gauge_nodes :: "nat \<Rightarrow> nat \<Rightarrow> (string list \<times> node) list" where
  "gauge_nodes n a =
     [([], NDir), ([''gauge''], NDir), ([''gauge'', ''check_spec.py''], NFile (gauge_body n a)),
      ([''gauge'', ''run.py''], NFile RUN_TESTS_PY)]"

lemma planned_gauge_nodes:
  assumes "distinct emitted" "n \<in> set emitted"
  shows "planned_node (planned emitted answers) (''hidden'' # euler_id n # ps) =
     map_of (gauge_nodes n (the (dget answers n))) ps"
proof -
  have get: "map_of (planned emitted answers) (''hidden'' # euler_id n # ps) =
      map_of [([''gauge'', ''check_spec.py''], gauge_body n (the (dget answers n))), ([''gauge'', ''run.py''], RUN_TESTS_PY)] ps"
  proof -
    have "map_of (concat (map (\<lambda>n. [([''hidden'', euler_id n, ''gauge'', ''check_spec.py''], gauge_body n (the (dget answers n))),
        ([''hidden'', euler_id n, ''gauge'', ''run.py''], RUN_TESTS_PY)]) es)) (''hidden'' # euler_id n # ps) =
      (if n \<in> set es then map_of [([''gauge'', ''check_spec.py''], gauge_body n (the (dget answers n))),
         ([''gauge'', ''run.py''], RUN_TESTS_PY)] ps else None)" for es
      by (induction es) auto
    then show ?thesis using assms(2) unfolding planned_eq seed_parts by (simp add: map_add_def split: option.split)
  qed
  have above: "list_ex (strict_prefix (''hidden'' # euler_id n # ps)) (map fst (planned emitted answers)) \<longleftrightarrow> ps \<in> {[], [''gauge'']}"
    using assms(2) unfolding planned_keys list_ex_iff strict_prefix_code by auto
  show ?thesis
    unfolding planned_node_def get above gauge_nodes_def by auto
qed

lemma read_gauge_dir:
  assumes "dict_ok t" "holds_plan t c (planned emitted answers) ''hidden''" "distinct emitted" "n \<in> set emitted"
    and "length (str_nat n) \<le> 1000" "length (str_nat (the (dget answers n))) \<le> 1000"
  shows "read_dir_map t id (below c [''hidden'', euler_id n]) tid field = Inr (build_gauge_files n (the (dget answers n)))"
proof (rule read_dir_map_local [OF _ assms(1)])
  let ?nodes = "gauge_nodes n (the (dget answers n))" and ?base = "below c [''hidden'', euler_id n]"
  show "dict_ok (tree_at ?base ?nodes)" by (rule dict_ok_tree_at) (simp add: gauge_nodes_def)
  have "filter (\<lambda>p. path_name p = ''.gitignore'') (fs_below (tree_at ?base ?nodes) ?base) = []"
    unfolding fs_below_tree_at by (simp add: gauge_nodes_def path_name_def below_def)
  then have rules: "read_ignore_rules (tree_at ?base ?nodes) ?base tid field = Inr []"
    by (simp add: read_ignore_rules_def)
  have "utf8_size RUN_TESTS_PY \<le> 20000"
    by (rule order_trans [OF utf8_size_bound]) (use seed_texts_short in simp)
  then have "plain_nodes [] ?nodes"
    using gauge_body_short [OF assms(5,6)]
    by (simp add: plain_nodes_def gauge_nodes_def MAX_SOURCE_FILE_BYTES_def MAX_SOURCE_DIR_BYTES_def is_ignored_def
        ALWAYS_IGNORED_NAMES_def ALWAYS_IGNORED_SUFFIXES_def ALWAYS_IGNORED_DIR_NAMES_def ends_with_def
        strip_defs safe_relpath_def path_of_def starts_with_def)
  from read_tree_at [OF rules this]
  show "read_dir_map (tree_at ?base ?nodes) id ?base tid field = Inr (build_gauge_files n (the (dget answers n)))"
    by (simp add: gauge_nodes_def build_gauge_files_def gauge_body_def)
  fix p assume "within p ?base"
  then obtain ps where p: "p = below ?base ps" by (auto simp: within_below_iff)
  have "dget t p = planned_node (planned emitted answers) (''hidden'' # euler_id n # ps)"
    using assms(2) by (simp add: p holds_plan_def)
  then show "dget t p = dget (tree_at ?base ?nodes) p"
    unfolding p dget_tree_at planned_gauge_nodes [OF assms(3,4)] .
qed

section \<open>One task\<close>

lemma strip_nonblank: "c \<in> set s \<Longrightarrow> \<not> py_space c \<Longrightarrow> strip s \<noteq> []"
proof -
  assume c: "c \<in> set s" "\<not> py_space c"
  have "c \<in> set (dropWhile py_space s)"
    using c by (metis Un_iff set_append set_takeWhileD takeWhile_dropWhile_id)
  moreover have "x \<in> set xs \<Longrightarrow> \<not> py_space x \<Longrightarrow> dropWhile py_space xs \<noteq> []" for x xs
    by auto
  ultimately show ?thesis using c(2) by (simp add: strip_def lstrip_def rstrip_def)
qed

lemma resolve_planned_dir:
  assumes "ps \<noteq> []" "\<forall>p \<in> set ps. plain_part p" "fs_is_dir t (below root ps)" "\<exists>c \<in> set (key_text ps). \<not> py_space c"
  shows "resolve_source_dir t id (JStr (key_text ps)) root tid field = Inr (below root ps)"
proof -
  have "safe_relpath (key_text ps)" using assms(1,2) by (auto simp: safe_relpath_def path_of_join plain_part_def)
  moreover have "strip (key_text ps) \<noteq> []" using assms(4) strip_nonblank by blast
  ultimately have "validate_relpath (key_text ps) tid field = Inr ()" by (simp add: validate_relpath_Inr)
  moreover have "path_join root (key_text ps) = below root ps" using assms(1,2) by (rule path_join_parts)
  moreover have "\<not> fs_is_link t (below root ps)" "fs_exists t (below root ps)"
    using assms(3) by (auto simp: fs_is_dir_def fs_is_link_def fs_exists_def dict_simps)
  ultimately show ?thesis
    using assms(3) \<open>strip (key_text ps) \<noteq> []\<close> by (simp add: resolve_source_dir_def)
qed

text \<open>The task the bench should load for a problem.\<close>

definition euler_task :: "nat \<Rightarrow> nat \<Rightarrow> restatement \<Rightarrow> string option \<Rightarrow> task" where
  "euler_task n answer entry insight =
     \<lparr>task_id = euler_id n, task_tier = EULER_TIER, task_mechanism = ''none'',
      task_expected_trajectory = ''the run classifies as work, decomposes to a single item scoping src/solvers/'' @
         solver_name n @ ''.py and src/solvers/__init__.py, writes a failing test first, implements, and publishes'',
      task_expected_stop_kinds = [''done'', ''REPORTED''], task_language = ''python'', task_difficulty = ''multi-file'',
      task_behavioral = True, task_rationale = build_rationale n entry insight, task_prompt = euler_prompt n entry,
      task_seed_files = build_seed_files, task_hidden_files = build_gauge_files n answer,
      task_hidden_test_command = [''/usr/bin/python3'', ''gauge/run.py'', ''gauge''],
      task_repo_test_command = [''/usr/bin/python3'', ''tools/run_tests.py'', ''tests''],
      task_behavioral_paths = [''src/**''], task_run_timeout_sec = 2700\<rparr>"

definition euler_timeouts :: "(string, int) dict" where
  "euler_timeouts = [(''T0'', 1800), (''T1'', 2700), (''T2'', 3600), (''T3'', 7200), (''T4'', 3600)]"

lemma prompt_head: "\<exists>s. euler_prompt n entry = CHR ''T'' # s \<and> CHR 0x0A \<in> set s"
  by (simp add: euler_prompt_def PROMPT_TEMPLATE_def)

lemma rationale_head: "\<exists>s. build_rationale n entry insight = CHR ''P'' # s"
  by (cases insight) (simp_all add: build_rationale_def Let_def)

lemma text_field_head: "\<not> py_space c \<Longrightarrow> text_field (JStr (c # s)) = Some (c # s)"
  using strip_nonblank [of c "c # s"] by (simp add: text_field_def)

lemma parse_built_task:
  assumes seed: "parse_file_source t id d root (euler_id n) ''seedFiles'' ''seedDir'' = Inr (build_seed_files, Some b1)"
    and hidden: "parse_file_source t id d root (euler_id n) ''hiddenFiles'' ''hiddenDir'' = Inr (build_gauge_files n a, Some b2)"
    and "\<not> within b1 b2" "\<not> within b2 b1" and d: "build_task n entry insight = JObj d"
  shows "parse_task t id root euler_timeouts i (build_task n entry insight) = Inr (euler_task n a entry insight)"
proof -
  obtain p r where p: "euler_prompt n entry = CHR ''T'' # p" and r: "build_rationale n entry insight = CHR ''P'' # r"
    using prompt_head rationale_head by blast
  have space: "\<not> py_space (CHR ''T'')" "\<not> py_space (CHR ''P'')" "\<not> py_space (CHR ''e'')" "\<not> py_space (CHR ''t'')"
    by (simp_all add: py_space_def)
  have id: "text_field (JStr (euler_id n)) = Some (euler_id n)"
    using space text_field_head [of "CHR ''e''"] by (simp add: euler_id_def)
  have fields: "text_field (JStr (euler_prompt n entry)) = Some (euler_prompt n entry)"
    "text_field (JStr (build_rationale n entry insight)) = Some (build_rationale n entry insight)"
    using text_field_head space by (simp_all add: p r)
  have keys: "find (\<lambda>k. \<not> dhas d k) TASK_REQUIRED_KEYS = None"
    using d by (auto simp: build_task_def TASK_REQUIRED_KEYS_def dhas_def)
  have overlap: "sort (filter (\<lambda>k. k \<in> set (map fst (build_gauge_files n a))) (map fst build_seed_files)) = []"
    by (simp add: build_gauge_files_def build_seed_files_def)
  have get: "jget d ''id'' = JStr (euler_id n)" "jget d ''tier'' = JStr EULER_TIER" "jget d ''mechanism'' = JStr ''none''"
    "jget d ''expectedStopKinds'' = jstrs [''done'', ''REPORTED'']" "jget d ''language'' = JStr ''python''"
    "jget d ''difficulty'' = JStr ''multi-file''" "jget d ''behavioral'' = JBool True"
    "jget d ''rationale'' = JStr (build_rationale n entry insight)" "jget d ''prompt'' = JStr (euler_prompt n entry)"
    "jget d ''hiddenTestCommand'' = jstrs [''/usr/bin/python3'', ''gauge/run.py'', ''gauge'']"
    "jget d ''repoTestCommand'' = jstrs [''/usr/bin/python3'', ''tools/run_tests.py'', ''tests'']"
    "jget d ''behavioralPaths'' = jstrs [''src/**'']" "dget d ''runTimeoutSec'' = None"
    "jget d ''expectedTrajectory'' = JStr (task_expected_trajectory (euler_task n a entry insight))"
    using d by (auto simp: build_task_def jget_def euler_task_def)
  have traj: "text_field (JStr (task_expected_trajectory (euler_task n a entry insight))) =
      Some (task_expected_trajectory (euler_task n a entry insight))"
    using text_field_head space by (simp add: euler_task_def)
  have vocabs: "vocab TIERS (JStr EULER_TIER) = Some EULER_TIER" "vocab MECHANISMS (JStr ''none'') = Some ''none''"
    "vocab LANGUAGES (JStr ''python'') = Some ''python''" "vocab DIFFICULTIES (JStr ''multi-file'') = Some ''multi-file''"
    "list_field (vocab (STOP_KINDS @ TERMINAL_RUN_STATES)) (jstrs [''done'', ''REPORTED'']) = Some [''done'', ''REPORTED'']"
    "dget euler_timeouts EULER_TIER = Some 2700" "list_field the_str (jstrs [''src/**'']) = Some [''src/**'']"
    by (simp_all add: vocab_def TIERS_def EULER_TIER_def MECHANISMS_def LANGUAGES_def DIFFICULTIES_def list_field_def
        STOP_KINDS_def TERMINAL_RUN_STATES_def euler_timeouts_def jstrs_def)
  have nested: "nested_dirs (euler_id n) (Some b1) (Some b2) = Inr ()"
    using assms(3,4) by (simp add: nested_dirs_def)
  show ?thesis
    unfolding d parse_task_def json.case
    by (simp only: get id some_or_def option.case bindE_Inr Let_def keys vocabs traj fields guard_def if_True
        list.distinct not_False_eq_True json.case seed hidden map_error_def sum.case prod.case overlap nested)
      (simp add: parse_command_def jstrs_def some_or_def euler_task_def)
qed

end
