(* ===== verification/Euler_Compose.thy ===== *)
theory Euler_Compose
  imports Euler_Load_Laws
begin

text \<open>
  The generator and the bench together: the manifest a write run leaves is one \<open>load_manifest\<close>
  accepts, and the tasks it loads are those the generator planned.
\<close>

section \<open>The manifest\<close>

lemma no_escaped_prose: "escaped_prose_fields (build_task n entry insight) = []"
proof -
  obtain s where s: "euler_prompt n entry = CHR ''T'' # s" "CHR 0x0A \<in> set s" using prompt_head by blast
  then have "\<not> escaped_only (JStr (euler_prompt n entry))" by (simp add: escaped_only_def)
  then show ?thesis by (simp add: escaped_prose_fields_def build_task_def jget_def)
qed

lemma load_built_entries:
  assumes "\<And>n i. n \<in> set es \<Longrightarrow> parse_task t resolve root timeouts i (entry n) = Inr (made n) \<and> escaped_prose_fields (entry n) = []"
    and "distinct (map task_id acc @ map (task_id \<circ> made) es)"
  shows "foldE (load_entry t resolve root timeouts) acc (enumerate k (map entry es)) = Inr (acc @ map made es)"
  using assms
proof (induction es arbitrary: acc k)
  case (Cons n es)
  have "task_id (made n) \<notin> task_id ` set acc" using Cons.prems(2) by simp
  then have "\<forall>old \<in> set acc. task_id old \<noteq> task_id (made n)" by (metis imageI)
  then have none: "find (\<lambda>(i, old). task_id old = task_id (made n)) (enumerate 0 acc) = None"
    by (simp add: find_enumerate_None)
  have entry: "parse_task t resolve root timeouts k (entry n) = Inr (made n)" "escaped_prose_fields (entry n) = []"
    using Cons.prems(1) [of n] by simp_all
  have "load_entry t resolve root timeouts acc (k, entry n) = Inr (acc @ [made n])"
    by (simp add: load_entry_def entry none guard_def)
  moreover have "foldE (load_entry t resolve root timeouts) (acc @ [made n]) (enumerate (Suc k) (map entry es)) =
      Inr ((acc @ [made n]) @ map made es)"
    using Cons.prems by (intro Cons.IH) auto
  ultimately show ?case by simp
qed simp

lemma criteria_obj: "\<exists>d. build_selection_criteria emitted omitted hard = JObj d \<and> d \<noteq> []"
  by (simp add: build_selection_criteria_def Let_def)

lemma criteria_plain: "plain_json (build_selection_criteria emitted omitted hard)"
  by (simp add: plain_json_def build_selection_criteria_def Let_def)

lemma built_task_plain: "plain_json (build_task n entry insight)"
  by (simp add: plain_json_def build_task_def jstrs_def)

lemma manifest_plain: "plain_json (build_manifest emitted omitted rs hard)"
  using criteria_plain [of emitted omitted hard] built_task_plain
  by (simp add: build_manifest_def Let_def plain_json_def jstrs_def TIERS_def EULER_TIER_def EULER_MODEL_def)

lemma manifest_fields:
  assumes "build_manifest emitted omitted rs hard = JObj d"
  shows "jget d ''version'' = JInt 1" "jget d ''selectionCriteria'' = build_selection_criteria emitted omitted hard"
    "jget d ''tasks'' = JArr (map (\<lambda>n. build_task n (the (dget rs n)) (dget hard (int n))) emitted)"
    "jget d ''defaults'' = JObj [(''model'', JStr EULER_MODEL), (''tierTimeoutSec'', JObj
       [(''T0'', JInt 1800), (''T1'', JInt 2700), (''T2'', JInt 3600), (''T3'', JInt 7200), (''T4'', JInt 3600)])]"
    "jget d ''expectedTaskCounts'' = JObj [(''T0'', JInt 0), (''T1'', JInt (int (length emitted))), (''T2'', JInt 0),
       (''T3'', JInt 0), (''T4'', JInt 0)]"
    "\<exists>why. jget d ''sweep'' = JObj [(''rationale'', JStr (CHR ''O'' # why)), (''primaryModel'', JStr EULER_MODEL),
       (''models'', jstrs [EULER_MODEL]), (''sweptTiers'', jstrs [''T1'']),
       (''primaryOnlyTiers'', jstrs [''T0'', ''T2'', ''T3'', ''T4'']), (''capabilities'', jstrs [''none'']), (''reps'', JInt 1)]"
  using assms by (auto simp: build_manifest_def Let_def jget_def TIERS_def EULER_TIER_def)

lemma sweep_parses:
  "parse_sweep (JObj [(''rationale'', JStr (CHR ''O'' # why)), (''primaryModel'', JStr EULER_MODEL),
       (''models'', jstrs [EULER_MODEL]), (''sweptTiers'', jstrs [''T1'']),
       (''primaryOnlyTiers'', jstrs [''T0'', ''T2'', ''T3'', ''T4'']), (''capabilities'', jstrs [''none'']), (''reps'', JInt 1)]) =
   Inr [(''rationale'', JStr (CHR ''O'' # why)), (''primaryModel'', JStr EULER_MODEL),
       (''models'', jstrs [EULER_MODEL]), (''sweptTiers'', jstrs [''T1'']),
       (''primaryOnlyTiers'', jstrs [''T0'', ''T2'', ''T3'', ''T4'']), (''capabilities'', jstrs [''none'']), (''reps'', JInt 1)]"
proof -
  have "text_field (JStr (CHR ''O'' # why)) = Some (CHR ''O'' # why)" by (rule text_field_head) (simp add: py_space_def)
  moreover have "text_field (JStr EULER_MODEL) = Some EULER_MODEL" by (simp add: EULER_MODEL_def text_field_def strip_defs)
  ultimately show ?thesis
    by (simp add: parse_sweep_def SWEEP_REQUIRED_KEYS_def dhas_def jget_def some_or_def guard_def jstrs_def list_field_def
        vocab_def TIERS_def CAPABILITIES_def positive_int_def dedup_def)
qed

lemma manifest_loads:
  assumes "fs_read t mp = Some (render_manifest (build_manifest emitted omitted rs hard))" "emitted \<noteq> []" "distinct emitted"
    and tasks: "\<And>n i. n \<in> set emitted \<Longrightarrow>
      parse_task t id root euler_timeouts i (build_task n (the (dget rs n)) (dget hard (int n))) =
      Inr (euler_task n (the (dget answers n)) (the (dget rs n)) (dget hard (int n)))"
  shows "\<exists>m. load_manifest t id mp None root = Inr m \<and>
     mf_tasks m = map (\<lambda>n. euler_task n (the (dget answers n)) (the (dget rs n)) (dget hard (int n))) emitted"
proof -
  let ?made = "\<lambda>n. euler_task n (the (dget answers n)) (the (dget rs n)) (dget hard (int n))"
  let ?entry = "\<lambda>n. build_task n (the (dget rs n)) (dget hard (int n))"
  obtain d where d: "build_manifest emitted omitted rs hard = JObj d" by (simp add: build_manifest_def Let_def)
  have loads: "json_loads (render_manifest (build_manifest emitted omitted rs hard)) = Some (JObj d)"
    using manifest_plain [of emitted omitted rs hard]
    unfolding render_manifest_def plain_json_def d by (intro json_loads_dumps_raw) simp_all
  note fields = manifest_fields [OF d]
  obtain criteria where crit: "build_selection_criteria emitted omitted hard = JObj criteria" "criteria \<noteq> []"
    using criteria_obj by blast
  obtain why where sweep: "jget d ''sweep'' = JObj [(''rationale'', JStr (CHR ''O'' # why)), (''primaryModel'', JStr EULER_MODEL),
       (''models'', jstrs [EULER_MODEL]), (''sweptTiers'', jstrs [''T1'']),
       (''primaryOnlyTiers'', jstrs [''T0'', ''T2'', ''T3'', ''T4'']), (''capabilities'', jstrs [''none'']), (''reps'', JInt 1)]"
    using fields(6) by blast
  have ids: "distinct (map task_id [] @ map (task_id \<circ> ?made) emitted)"
    using assms(3) by (simp add: comp_def euler_task_def distinct_map inj_on_def)
  have entries: "foldE (load_entry t id root euler_timeouts) [] (enumerate 0 (map ?entry emitted)) = Inr (map ?made emitted)"
    using load_built_entries [where acc = "[]", OF _ ids] tasks no_escaped_prose by simp
  have counts: "parse_expected_counts (JObj [(''T0'', JInt 0), (''T1'', JInt (int (length emitted))), (''T2'', JInt 0),
       (''T3'', JInt 0), (''T4'', JInt 0)]) =
      Inr (Some [(''T0'', 0), (''T1'', int (length emitted)), (''T2'', 0), (''T3'', 0), (''T4'', 0)])"
    by (simp add: parse_expected_counts_def parse_tier_table_def TIERS_def some_or_def natural_int_def)
  have pin: "check_tier_counts (map ?made emitted) [(''T0'', 0), (''T1'', int (length emitted)), (''T2'', 0), (''T3'', 0), (''T4'', 0)] = Inr ()"
  proof -
    have "count_if (\<lambda>k. task_tier k = tier) (map ?made es) = (if tier = ''T1'' then length es else 0)" for tier es
      by (induction es) (auto simp: euler_task_def EULER_TIER_def)
    then show ?thesis by (simp add: check_tier_counts_Inr counts_match_def tier_count_def TIERS_def)
  qed
  have timeouts: "parse_tier_timeouts (JObj [(''T0'', JInt 1800), (''T1'', JInt 2700), (''T2'', JInt 3600), (''T3'', JInt 7200),
      (''T4'', JInt 3600)]) = Inr euler_timeouts"
    by (simp add: parse_tier_timeouts_def parse_tier_table_def TIERS_def some_or_def positive_int_def euler_timeouts_def)
  have model: "jget [(''model'', JStr EULER_MODEL), (''tierTimeoutSec'', x)] ''model'' = JStr EULER_MODEL"
    "jget [(''model'', JStr EULER_MODEL), (''tierTimeoutSec'', x)] ''tierTimeoutSec'' = x"
    "text_field (JStr EULER_MODEL) = Some EULER_MODEL" for x
    by (simp_all add: jget_def EULER_MODEL_def text_field_def strip_defs)
  have ne: "map ?entry emitted \<noteq> []" using assms(2) by simp
  have swept: "jget ((''rationale'', r) # (''primaryModel'', p) # (''models'', jstrs [EULER_MODEL]) # rest) ''models'' = JArr [JStr EULER_MODEL]"
    for r p rest by (simp add: jget_def jstrs_def)
  show ?thesis
    unfolding load_manifest_def
    by (simp only: assms(1) loads some_or_def option.case bindE_Inr the_obj.simps fields(1-5) crit py_eq_int.simps guard_def
        if_True not_False_eq_True model timeouts sweep sweep_parses swept json.case list.set insert_iff simp_thms counts
        the_arr.simps ne entries pin) simp
qed

text \<open>In a tree that holds the plan, the entry of an emitted problem parses to its task.\<close>

lemma planned_task_parses:
  assumes ok: "dict_ok t'" and holds: "holds_plan t' (ea_corpus_dir (default_args root)) (planned emitted answers) ''seed''"
      "holds_plan t' (ea_corpus_dir (default_args root)) (planned emitted answers) ''hidden''"
    and dist: "distinct emitted" and n: "n \<in> set emitted"
    and small: "length (str_nat n) \<le> 1000" "length (str_nat (the (dget answers n))) \<le> 1000"
  shows "parse_task t' id root euler_timeouts i (build_task n entry insight) =
     Inr (euler_task n (the (dget answers n)) entry insight)"
proof -
  let ?c = "ea_corpus_dir (default_args root)"
  have seed_dir: "fs_is_dir t' (below ?c [''seed''])"
  proof -
    have "dget t' (below ?c [''seed'']) = planned_node (planned emitted answers) [''seed'']"
      using holds(1) by (simp add: holds_plan_def)
    then show ?thesis by (simp add: fs_is_dir_def planned_seed_nodes) (simp add: seed_nodes_def)
  qed
  obtain d where d: "build_task n entry insight = JObj d" by (simp add: build_task_def)
  have gauge_dir: "fs_is_dir t' (below ?c [''hidden'', euler_id n])"
  proof -
    have "dget t' (below ?c [''hidden'', euler_id n]) = planned_node (planned emitted answers) (''hidden'' # euler_id n # [])"
      using holds(2) by (simp add: holds_plan_def)
    then show ?thesis unfolding planned_gauge_nodes [OF dist n] by (simp add: fs_is_dir_def gauge_nodes_def)
  qed
  have keys: "dget d ''seedDir'' = Some (JStr (key_text [''bench'', ''corpus'', ''project-euler'', ''seed'']))"
    "dget d ''hiddenDir'' = Some (JStr (key_text [''bench'', ''corpus'', ''project-euler'', ''hidden'', euler_id n]))"
    "dget d ''seedFiles'' = None" "dget d ''hiddenFiles'' = None"
    using d by (auto simp: build_task_def)
  have corpus: "below ?c ps = below root (''bench'' # ''corpus'' # ''project-euler'' # ps)" for ps
    by (simp add: default_paths)
  have letter: "\<not> py_space (CHR ''b'')" by (simp add: py_space_def)
  have seed: "parse_file_source t' id d root (euler_id n) ''seedFiles'' ''seedDir'' = Inr (build_seed_files, Some (below ?c [''seed'']))"
    using resolve_planned_dir [of "[''bench'', ''corpus'', ''project-euler'', ''seed'']" t' root "euler_id n" "''seedDir''"]
      seed_dir letter read_seed_dir [OF ok holds(1), of "euler_id n" "''seedDir''"]
    by (simp add: parse_file_source_def keys corpus plain_part_def simple_part_def)
  have hidden: "parse_file_source t' id d root (euler_id n) ''hiddenFiles'' ''hiddenDir'' =
      Inr (build_gauge_files n (the (dget answers n)), Some (below ?c [''hidden'', euler_id n]))"
    using resolve_planned_dir [of "[''bench'', ''corpus'', ''project-euler'', ''hidden'', euler_id n]" t' root "euler_id n" "''hiddenDir''"]
      gauge_dir letter read_gauge_dir [OF ok holds(2) dist n small, of "euler_id n" "''hiddenDir''"]
    by (simp add: parse_file_source_def keys corpus plain_part_def [of "_ # _"] simple_part_def)
  show ?thesis
    by (rule parse_built_task [OF seed hidden _ _ d]) simp_all
qed

text \<open>C30: the two programs agree. When a write run of the generator exits 0 at its default paths, the
  bench loads the manifest it left, in the tree it left, and the tasks it gets are one per
  emitted problem, in that order: the prompt that asks the side-car's question, the seed
  repository as its seed files and the gauge holding that problem's verified answer as its hidden
  files. The hypotheses bound the digits of numbers and answers, so that a gauge stays below the
  bench's size ceiling, and say of the old tree that no entry lacks its directory.
\<close>

theorem generated_manifest_is_loaded:
  assumes "euler_main (default_args root) t = Inr (0, t')"
    and "load_answers t (path_join (ea_corpus_dir (default_args root)) ANSWERS_FILENAME) = Inr answers"
    and "load_restatements t (path_join (ea_corpus_dir (default_args root)) RESTATEMENTS_FILENAME) = Inr rs"
    and "load_hard_subset t (path_join (ea_corpus_dir (default_args root)) HARD_SUBSET_FILENAME) = Inr hard"
    and "reconcile answers rs = Inr (emitted, omitted)"
    and digits: "\<forall>(n, a) \<in> set answers. length (str_nat n) \<le> 1000 \<and> length (str_nat a) \<le> 1000"
    and "dict_ok t" "orphan_free t (path_join (ea_corpus_dir (default_args root)) SEED_DIRNAME)"
      "orphan_free t (path_join (ea_corpus_dir (default_args root)) HIDDEN_DIRNAME)"
  shows "\<exists>m. load_manifest t' id (ea_manifest (default_args root)) None root = Inr m \<and>
     mf_tasks m = map (\<lambda>n. euler_task n (the (dget answers n)) (the (dget rs n)) (dget hard (int n))) emitted"
proof -
  let ?c = "ea_corpus_dir (default_args root)"
  let ?rendered = "render_manifest (build_manifest emitted omitted rs hard)"
  have gen: "euler_generate t ?c = (if emitted = [] then Inl NothingAsked
      else Inr (build_manifest emitted omitted rs hard, plan_output emitted answers, emitted, omitted))"
    by (simp add: euler_generate_def assms(2-5) guard_def)
  then have ne: "emitted \<noteq> []" and t': "t' = euler_write (default_args root) ?rendered (plan_output emitted answers) t"
    using assms(1) by (auto simp: euler_main_def euler_check_or_write_def default_args_def Let_def escapes_def split: if_splits)
  have dist: "distinct emitted" using emitted_distinct(2) [OF assms(5) load_answers_ok [OF assms(2)]] .
  note holds = euler_write_holds [OF dist assms(8,9) default_apart, where rendered = ?rendered and answers = answers, folded t']
  have ok: "dict_ok t'" using holds(5) assms(7) by simp
  have task: "parse_task t' id root euler_timeouts i (build_task n (the (dget rs n)) (dget hard (int n))) =
      Inr (euler_task n (the (dget answers n)) (the (dget rs n)) (dget hard (int n)))" if n: "n \<in> set emitted" for n i
  proof -
    have "n \<in> fst ` set answers" using emitted_iff [OF assms(5)] n by blast
    then obtain a where a: "dget answers n = Some a" by (metis in_keys_iff not_Some_eq)
    then show ?thesis
      using digits dget_in_set [OF a] by (intro planned_task_parses [OF ok holds(1,2) dist n]) auto
  qed
  show ?thesis
    by (rule manifest_loads [OF _ ne dist task]) (rule holds(3))
qed

theorem generated_manifest_is_loaded_witness:
  "\<exists>t' m. load_manifest t' id (ea_manifest (default_args euler_root)) None euler_root = Inr m \<and>
     map task_id (mf_tasks m) = [''euler-001-py'']"
proof -
  obtain t' where t': "euler_main (default_args euler_root) euler_demo = Inr (0, t')" using euler_demo_run by blast
  have "\<forall>(n, a) \<in> set [(1 :: nat, 233168 :: nat), (3, 6857)]. length (str_nat n) \<le> 1000 \<and> length (str_nat a) \<le> 1000"
    by (simp add: str_nat.simps)
  from generated_manifest_is_loaded [OF t' demo_answers demo_restatements demo_hard demo_reconciled this demo_orphans(3,1,2)]
  obtain m where m: "load_manifest t' id (ea_manifest (default_args euler_root)) None euler_root = Inr m"
    "map task_id (mf_tasks m) = [euler_id 1]" by (auto simp: euler_task_def)
  have "euler_id 1 = ''euler-001-py''" by code_simp
  with m show ?thesis by metis
qed

end
