(* ===== verification/Bench_Report.thy ===== *)
theory Bench_Report
  imports Bench_Aggregate Bench_Campaign
begin

text \<open>
  \<open>scripts/conductor_bench.py\<close>, the Markdown report of a campaign: one function per section, each
  the list of its lines, and \<open>render_report\<close>, which joins them.

  The task filter is a record as \<open>task_filter_record\<close> writes it and the sweep one as \<open>parse_sweep\<close>
  accepts it; the code raises on any other, where the model reads an empty list, an empty text or 0.
\<close>

definition NA :: string where "NA = ''n/a''"
definition PARTIAL_MARKER :: string where "PARTIAL_MARKER = ''(partial)''"
definition SECTION_SCOPE :: string where "SECTION_SCOPE = ''## Run scope''"
definition SECTION_METHOD :: string where "SECTION_METHOD = ''## Method''"
definition SECTION_ASYMMETRIES :: string where "SECTION_ASYMMETRIES = ''## Declared asymmetries''"
definition SECTION_SWEEP :: string where "SECTION_SWEEP = ''## Sweep shape''"
definition SECTION_PER_TASK :: string where "SECTION_PER_TASK = ''## Per-task pass rates''"
definition SECTION_ARM_TOTALS :: string where "SECTION_ARM_TOTALS = ''## Arm totals''"
definition SECTION_SEPARABILITY :: string where "SECTION_SEPARABILITY = ''## Separability''"
definition SECTION_COST :: string where "SECTION_COST = ''## Cost''"
definition SECTION_TIER :: string where "SECTION_TIER = ''## Cost and quality by tier''"
definition SECTION_PROCESS :: string where "SECTION_PROCESS = ''## Process metrics''"
definition SECTION_TIMEOUTS :: string where "SECTION_TIMEOUTS = ''## Timed-out cells''"
definition SECTION_TRAJECTORIES :: string where "SECTION_TRAJECTORIES = ''## Mechanism trajectories''"
definition SECTION_RUBRIC :: string where "SECTION_RUBRIC = ''## Rubric''"
definition SECTION_ROUTER_ERRORS :: string where "SECTION_ROUTER_ERRORS = ''## Router-error cells''"
definition SECTION_EXCLUSIONS :: string where "SECTION_EXCLUSIONS = ''## Excluded cells''"
definition SECTION_MISSING :: string where "SECTION_MISSING = ''## Missing cells''"

definition TIER_COST_LABELS :: "string list" where
  "TIER_COST_LABELS = [''pass rate'', ''timeouts'', ''total wall clock'', ''median cell wall clock'', ''total tokens'',
     ''sub-sessions'', ''waves'']"
definition PROCESS_METRIC_LABELS :: "string list" where
  "PROCESS_METRIC_LABELS = [''schema retries'', ''review findings upheld'', ''overrides used'', ''stop kind'']"

definition NOISE_NOTE :: string where
  "NOISE_NOTE = ''At least one arm pair differs on a task while their per-repetition ranges overlap: those differences are within noise at three repetitions and are not separable.''"

definition NO_VERDICT_NOTE :: string where
  "NO_VERDICT_NOTE = ''This report states whether two arms are separable, and never who won. At three repetitions of a binary outcome, calling 2/3 against 1/3 a result would be reading noise as a finding. Raise the repetition count, or add a continuous per-task score, before any comparative claim is made.''"

definition TIMEOUT_NOTE :: string where
  "TIMEOUT_NOTE = ''A timed-out cell is counted here and nowhere else. It is not a pass and not a wrong answer: it is the arm's process cost exceeding its tier's wall clock, and folding it into the pass rate would report cost as quality.''"

section \<open>Formatting\<close>

definition format_rate :: "int \<Rightarrow> int \<Rightarrow> string" where
  "format_rate passes scored = str_int passes @ ''/'' @ str_int scored"

definition format_recorded :: "int \<Rightarrow> int \<Rightarrow> string" where
  "format_recorded recorded planned = str_int recorded @ '' of '' @ str_int planned @ '' recorded''"

definition format_outcomes :: "string list \<Rightarrow> string" where
  "format_outcomes outcomes = (if outcomes \<noteq> [] then str_join '' '' outcomes else ''none recorded'')"

definition format_ms :: "int \<Rightarrow> string" where
  "format_ms milliseconds = str_int milliseconds @ '' ms''"

definition format_tokens :: "int \<Rightarrow> bool \<Rightarrow> string" where
  "format_tokens tokens partial = (if partial then str_int tokens @ '' '' @ PARTIAL_MARKER else str_int tokens)"

definition format_metric :: "int option \<Rightarrow> string" where
  "format_metric value = (case value of None \<Rightarrow> NA | Some n \<Rightarrow> str_int n)"

definition count_kinds :: "string list \<Rightarrow> (string, int) dict" where
  "count_kinds kinds = foldl (\<lambda>d kind. dset kind ((case dget d kind of Some n \<Rightarrow> n | None \<Rightarrow> 0) + 1) d) [] kinds"

definition format_stop_kinds :: "string list \<Rightarrow> string" where
  "format_stop_kinds kinds =
     (if kinds = [] then NA
      else str_join '', '' (map (\<lambda>kind. kind @ '' '' @ str_int (case dget (count_kinds kinds) kind of Some n \<Rightarrow> n | None \<Rightarrow> 0))
             (sort (map fst (count_kinds kinds)))))"

definition quoted :: "string \<Rightarrow> string" where
  \<comment> \<open>\<open>"`%s`" % s\<close>\<close>
  "quoted s = ''`'' @ s @ ''`''"

definition rule_cells :: "nat \<Rightarrow> string" where
  \<comment> \<open>\<open>"---|" * n\<close>\<close>
  "rule_cells n = concat (replicate n ''---|'')"

definition table_row :: "string list \<Rightarrow> string" where
  \<comment> \<open>\<open>"| %s | ... | %s |"\<close>\<close>
  "table_row cells = ''| '' @ str_join '' | '' cells @ '' |''"

section \<open>The strata\<close>

type_synonym stratum_aggs = "((string \<times> string) \<times> aggregated) list"

text \<open>Every stratum with its aggregation, in the order the report goes through them.\<close>

definition strata_aggs ::
  "jobj list \<Rightarrow> task list \<Rightarrow> string list \<Rightarrow> string list \<Rightarrow> int \<Rightarrow> string list \<Rightarrow> stratum_aggs" where
  "strata_aggs results tasks models arms reps capabilities =
     concat (map (\<lambda>model. map (\<lambda>capability. ((model, capability),
         aggregate \<lparr>fr_model = model, fr_capability = capability, fr_arms = arms, fr_reps = reps\<rparr> results tasks)) capabilities) models)"

definition totals_at :: "aggregated \<Rightarrow> string \<Rightarrow> arm_totals" where
  "totals_at A arm = (case dget (ar_arm_totals A) arm of Some t \<Rightarrow> t | None \<Rightarrow> empty_totals)"

definition walls_at :: "aggregated \<Rightarrow> string \<Rightarrow> int \<times> int" where
  "walls_at A arm = (case dget (ar_arm_walls A) arm of Some w \<Rightarrow> w | None \<Rightarrow> (0, 0))"

definition metric_at :: "aggregated \<Rightarrow> string \<Rightarrow> string \<Rightarrow> int option" where
  "metric_at A arm key = Option.bind (Option.bind (dget (ar_arm_metrics A) arm) (\<lambda>d. dget d key)) id"

definition group_at :: "aggregated \<Rightarrow> string \<Rightarrow> string \<Rightarrow> group" where
  "group_at A arm tid =
     (case Option.bind (dget (ar_groups A) arm) (\<lambda>d. dget d tid) of Some g \<Rightarrow> g | None \<Rightarrow> close_group 0 empty_group)"

definition tier_at :: "aggregated \<Rightarrow> string \<Rightarrow> string \<Rightarrow> tier_row" where
  "tier_at A tier arm =
     (case Option.bind (dget (ar_tier_totals A) tier) (\<lambda>d. dget d arm) of Some r \<Rightarrow> r | None \<Rightarrow> empty_tier_row)"

definition tier_walls_at :: "aggregated \<Rightarrow> string \<Rightarrow> string \<Rightarrow> int \<times> int" where
  "tier_walls_at A tier arm =
     (case Option.bind (dget (ar_tier_walls A) tier) (\<lambda>d. dget d arm) of Some w \<Rightarrow> w | None \<Rightarrow> (0, 0))"

definition stratum_label :: "string \<Rightarrow> string \<Rightarrow> string" where
  "stratum_label model capability = ''### '' @ model @ '' / capability '' @ capability"

fun pairs_of :: "'a list \<Rightarrow> ('a \<times> 'a) list" where
  \<comment> \<open>\<open>for first in range(n): for second in range(first + 1, n)\<close>\<close>
  "pairs_of [] = []"
| "pairs_of (x # xs) = map (Pair x) xs @ pairs_of xs"

section \<open>Scope, method, asymmetries, sweep\<close>

definition selection_flags :: "jobj \<Rightarrow> string" where
  "selection_flags task_filter =
     str_join '', '' (map (\<lambda>value. ''`--task '' @ value @ ''`'') (sweep_texts task_filter ''taskIds'') @
                    map (\<lambda>value. ''`--tier '' @ value @ ''`'') (sweep_texts task_filter ''tiers''))"

definition or_not_given :: "string \<Rightarrow> string" where
  "or_not_given s = (if s \<noteq> [] then s else ''not given'')"

definition scope_lines :: "jobj option \<Rightarrow> string list" where
  "scope_lines task_filter =
     [SECTION_SCOPE, []] @
     (case task_filter of
        None \<Rightarrow>
          [''The task selection was not recorded with this report, so it makes no claim about how much of any declared task set the numbers below cover.'',
           []]
      | Some d \<Rightarrow>
          (let selected = sweep_texts d ''selectedTaskIds''; given_flags = selection_flags d in
           if \<not> truthy (jget d ''partial'') then
             [''This run covers the whole declared task set: '' @ str_int (int (length selected)) @ '' task(s), '' @
                (if given_flags \<noteq> [] then ''selected by '' @ given_flags @ '', which excluded nothing''
                 else ''with no `--task` or `--tier` selection'') @ ''.'',
              []]
           else
             [''**This run is a selection out of the declared task set, not the campaign.** Every number below describes the selected tasks only, and a task outside the selection was never planned and is not a missing cell.'',
              [],
              ''- Tasks planned: '' @ str_join '', '' (map quoted selected),
              ''- `--task`: '' @ or_not_given (str_join '', '' (map quoted (sweep_texts d ''taskIds''))),
              ''- `--tier`: '' @ or_not_given (str_join '', '' (map quoted (sweep_texts d ''tiers''))),
              []]))"

definition method_lines :: "string list \<Rightarrow> string list \<Rightarrow> string list \<Rightarrow> int \<Rightarrow> string list" where
  "method_lines models capabilities arms reps =
     [SECTION_METHOD, [],
      ''- Models: '' @ str_join '', '' (map quoted models) @ ''. Cells are ordered by model, so one server loads each set of weights once.'',
      ''- Capabilities: '' @ str_join '', '' (map quoted capabilities) @ ''. Every arm carries the dimension alike.'',
      ''- Repetitions: '' @ str_int reps @ '' per (model, capability, arm, task) cell.'',
      ''- Arms: `baseline` is plain opencode; `doctrine` is plain opencode with every doctrine pack injected as one prompt file; `conductor` is the plugin loaded from the committed opencode fragment.'',
      ''- Arms reported: '' @ str_join '', '' arms @ ''.'',
      ''- Every arm issued every request through the llama-router listen address, so token accounting is uniform across arms.'',
      ''- Every arm's work tree is seeded from the same file set and the same commit, conductor's `.conductor/config.json` included.'',
      ''- Scoring is the hidden test command's exit status, passed through. No partial credit, no output parsing, nothing model-graded.'',
      ''- The baseline and doctrine arms ran no plugin, so the process metrics below are structurally unavailable for them and render as '' @ NA @ '' rather than zero.'',
      []]"

definition asymmetry_lines :: "string list" where
  "asymmetry_lines =
     [SECTION_ASYMMETRIES, [],
      ''The arms are not identical, and these are the ways they are not. Both are part of the process under test and neither can be removed without changing conductor, so they qualify every number below.'',
      []] @
     concat (map (\<lambda>item.
        [''- **'' @ text_of item ''dimension'' @ ''** - '' @ text_of item ''why'',
         ''  - conductor: '' @ text_of item ''conductor'',
         ''  - plugin-absent arms: '' @ text_of item ''pluginAbsent'']) declared_asymmetries) @
     [[]]"

definition sweep_lines :: "jobj \<Rightarrow> string list" where
  "sweep_lines sweep =
     [SECTION_SWEEP, [], text_of sweep ''rationale'', [],
      ''- Primary model: '' @ quoted (text_of sweep ''primaryModel''),
      ''- Models swept: '' @ str_join '', '' (map quoted (sweep_texts sweep ''models'')),
      ''- Tiers swept across every model: '' @ str_join '', '' (sweep_texts sweep ''sweptTiers''),
      ''- Tiers on the primary model only: '' @ str_join '', '' (sweep_texts sweep ''primaryOnlyTiers''),
      ''- Repetitions: '' @ str_int (int_of sweep ''reps''),
      []]"

section \<open>Rates\<close>

definition task_cell :: "aggregated \<Rightarrow> string \<Rightarrow> string \<Rightarrow> string" where
  "task_cell A tid arm =
     (let g = group_at A arm tid in
      format_rate (gr_passes g) (gr_scored g) @ '' ('' @ format_outcomes (gr_outcomes g) @ '')'' @
      (if gr_recorded g \<noteq> gr_planned g then '' '' @ format_recorded (gr_recorded g) (gr_planned g) else []))"

definition per_task_stratum :: "string list \<Rightarrow> string list \<Rightarrow> (string \<times> string) \<times> aggregated \<Rightarrow> string list" where
  "per_task_stratum task_ids arms = (\<lambda>((model, capability), A).
     [stratum_label model capability, []] @
     map (\<lambda>arm. ''- '' @ arm @ '': '' @ format_recorded (at_recorded (totals_at A arm)) (at_planned (totals_at A arm))) arms @
     [[], ''| Task | '' @ str_join '' | '' arms @ '' |'', ''|---|'' @ rule_cells (length arms)] @
     map (\<lambda>tid. ''| '' @ tid @ '' | '' @ str_join '' | '' (map (task_cell A tid) arms) @ '' |'') task_ids @
     [[]])"

definition per_task_lines :: "stratum_aggs \<Rightarrow> string list \<Rightarrow> string list \<Rightarrow> string list" where
  "per_task_lines aggs task_ids arms = [SECTION_PER_TASK, []] @ concat (map (per_task_stratum task_ids arms) aggs)"

text \<open>The arm pairs of a task whose passes differ.\<close>

definition differing :: "aggregated \<Rightarrow> string list \<Rightarrow> string \<Rightarrow> (string \<times> string) list" where
  "differing A arms tid =
     filter (\<lambda>(a, b). gr_passes (group_at A a tid) \<noteq> gr_passes (group_at A b tid)) (pairs_of arms)"

definition has_overlapping_pair :: "aggregated \<Rightarrow> string list \<Rightarrow> string list \<Rightarrow> bool" where
  "has_overlapping_pair A task_ids arms =
     list_ex (\<lambda>tid. list_ex (\<lambda>(a, b). within_noise (group_at A a tid) (group_at A b tid)) (differing A arms tid)) task_ids"

definition arm_total_lines :: "stratum_aggs \<Rightarrow> string list \<Rightarrow> string list \<Rightarrow> string list" where
  "arm_total_lines aggs task_ids arms =
     [SECTION_ARM_TOTALS, [],
      ''Read every line here against the per-task table above; none of it stands on its own.''] @
     concat (map (\<lambda>((model, capability), A).
        [[], stratum_label model capability, []] @
        map (\<lambda>arm. let t = totals_at A arm in
               ''- '' @ arm @ '': '' @ format_rate (at_passes t) (at_scored t) @ '' over '' @ format_recorded (at_recorded t) (at_planned t)) arms) aggs) @
     (if list_ex (\<lambda>(_, A). has_overlapping_pair A task_ids arms) aggs then [[], NOISE_NOTE] else []) @
     [[]]"

definition separability_row :: "aggregated \<Rightarrow> string \<Rightarrow> string \<times> string \<Rightarrow> string" where
  "separability_row A tid = (\<lambda>(a, b).
     let left = group_at A a tid; right = group_at A b tid in
     table_row [tid, a @ '' vs '' @ b,
       format_rate (gr_passes left) (gr_scored left) @ '' vs '' @ format_rate (gr_passes right) (gr_scored right),
       if within_noise left right then ''no - within noise'' else ''yes''])"

definition separability_lines :: "stratum_aggs \<Rightarrow> string list \<Rightarrow> string list \<Rightarrow> string list" where
  "separability_lines aggs task_ids arms =
     [SECTION_SEPARABILITY, [], NO_VERDICT_NOTE, []] @
     (if length arms < 2 then [''One arm was reported, so there is no pair to separate.'', []]
      else
        [''| Task | Arm pair | ranges | separable |'', ''|---|---|---|---|''] @
        concat (map (\<lambda>(_, A). concat (map (\<lambda>tid. map (separability_row A tid) (differing A arms tid)) task_ids)) aggs) @
        [[]])"

section \<open>Cost\<close>

definition cost_lines :: "stratum_aggs \<Rightarrow> string list \<Rightarrow> string list \<Rightarrow> string list" where
  "cost_lines aggs task_ids arms =
     [SECTION_COST, [],
      ''Wall clock is an axis of its own here, never a discount on the quality column: conductor's process cost is reported as cost.'',
      [], ''| Model | Arm | total wall clock | median cell wall clock | total tokens |'', ''|---|---|---|---|---|''] @
     concat (map (\<lambda>((model, _), A). map (\<lambda>arm.
        table_row [model, arm, format_ms (fst (walls_at A arm)), format_ms (snd (walls_at A arm)),
          format_tokens (at_tokens_total (totals_at A arm)) (at_tokens_partial (totals_at A arm))]) arms) aggs) @
     [[], ''| Task | Arm | total wall clock | median cell wall clock |'', ''|---|---|---|---|''] @
     concat (map (\<lambda>(_, A). concat (map (\<lambda>tid. map (\<lambda>arm.
        table_row [tid, arm, format_ms (gr_wall_total (group_at A arm tid)), format_ms (gr_wall_median (group_at A arm tid))]) arms)
        task_ids)) aggs) @
     [[]]"

definition tier_line :: "string \<Rightarrow> aggregated \<Rightarrow> string \<Rightarrow> string \<Rightarrow> string" where
  "tier_line model A tier arm =
     (let row = tier_at A tier arm; walls = tier_walls_at A tier arm in
      table_row [model, tier, arm, format_rate (tr_passes row) (tr_scored row), str_int (tr_timeouts row),
        format_ms (fst walls), format_ms (snd walls), format_tokens (tr_tokens_total row) (tr_tokens_partial row),
        format_metric (tr_sub_sessions row), format_metric (tr_waves row)])"

definition tier_lines :: "stratum_aggs \<Rightarrow> string list \<Rightarrow> string list" where
  "tier_lines aggs arms =
     [SECTION_TIER, [],
      ''Quality and cost against scope. The tier at which the curves cross is the number this campaign exists to find; a single win rate is not.'',
      [], ''| Model | Tier | Arm | '' @ str_join '' | '' TIER_COST_LABELS @ '' |'',
      ''|---|---|---|'' @ rule_cells (length TIER_COST_LABELS)] @
     concat (map (\<lambda>((model, _), A). concat (map (\<lambda>tier. map (tier_line model A tier) arms) (ar_tiers A))) aggs) @
     [[]]"

definition process_lines :: "stratum_aggs \<Rightarrow> string list \<Rightarrow> string list" where
  "process_lines aggs arms =
     [SECTION_PROCESS, [], ''| Model | Arm | '' @ str_join '' | '' PROCESS_METRIC_LABELS @ '' |'',
      ''|---|---|'' @ rule_cells (length PROCESS_METRIC_LABELS)] @
     concat (map (\<lambda>((model, _), A). map (\<lambda>arm.
        table_row [model, arm, format_metric (metric_at A arm ''schemaRetries''), format_metric (metric_at A arm ''reviewFindingsUpheld''),
          format_metric (metric_at A arm ''overridesUsed''), format_stop_kinds (at_stop_kinds (totals_at A arm))]) arms) aggs) @
     [[]]"

section \<open>Cells named one by one\<close>

text \<open>The cells a section names, gathered over the strata and their arms.\<close>

definition over_arms :: "(arm_totals \<Rightarrow> 'a list) \<Rightarrow> stratum_aggs \<Rightarrow> string list \<Rightarrow> 'a list" where
  "over_arms F aggs arms = concat (map (\<lambda>(_, A). concat (map (\<lambda>arm. F (totals_at A arm)) arms)) aggs)"

definition gauges_of :: "jobj list \<Rightarrow> (string, jobj) dict" where
  "gauges_of results =
     dict_of (map (\<lambda>row. (text_of row ''cellId'', case jget row ''gauge'' of JObj g \<Rightarrow> g | _ \<Rightarrow> [])) results)"

definition timeout_verdict :: "jobj \<Rightarrow> string" where
  "timeout_verdict gauge =
     (if \<not> truthy (jget gauge ''ran'') then ''tree not measured''
      else if truthy (jget gauge ''passed'') then ''tree PASSES the hidden suite - overran with a correct solution in hand''
      else ''tree fails the hidden suite'')"

definition timeout_lines :: "stratum_aggs \<Rightarrow> string list \<Rightarrow> jobj list \<Rightarrow> string list" where
  "timeout_lines aggs arms results =
     (let cells = over_arms at_timeout_cells aggs arms; gauges = gauges_of results in
      [SECTION_TIMEOUTS, [], TIMEOUT_NOTE, [], str_int (int (length cells)) @ '' cell(s) ran out of their tier's wall clock.''] @
      map (\<lambda>cid. ''- '' @ cid @ '' ('' @ timeout_verdict (case dget gauges cid of Some g \<Rightarrow> g | None \<Rightarrow> []) @ '')'') cells @
      [[]])"

definition trajectory_lines :: "jobj list \<Rightarrow> task list \<Rightarrow> string list \<Rightarrow> string list" where
  "trajectory_lines results tasks arms =
     (let divergences = trajectory_divergences results tasks arms in
      [SECTION_TRAJECTORIES, [],
       str_int (int (length divergences)) @ '' cell(s) stopped somewhere their task rules out. Every task declares the stop kinds it expects, whether or not it names a mechanism to strain, and a divergence here is the finding; it is neither a pass nor a fail.''] @
      (if divergences \<noteq> [] then
         [[], ''| Cell | Mechanism | expected stop | observed stop | expected trajectory |'', ''|---|---|---|---|---|''] @
         map (\<lambda>d. table_row [dv_cell d, task_mechanism (dv_task d), str_join '', '' (task_expected_stop_kinds (dv_task d)),
                dv_observed d, task_expected_trajectory (dv_task d)]) divergences
       else []) @
      [[]])"

definition rubric_at :: "(string, arm_rubric) dict \<Rightarrow> string \<Rightarrow> arm_rubric" where
  "rubric_at summary arm =
     (case dget summary arm of Some r \<Rightarrow> r | None \<Rightarrow> \<lparr>rb_reviewed = 0, rb_medians = [], rb_findings = []\<rparr>)"

definition rubric_lines :: "jobj list \<Rightarrow> jobj list \<Rightarrow> string list \<Rightarrow> string list" where
  "rubric_lines rubrics results arms =
     (let reviewers = sort (remdups (map (\<lambda>row. text_of row ''reviewer'') rubrics));
          summary = aggregate_rubrics rubrics results arms;
          findings = concat (map (\<lambda>arm. map (Pair arm) (rb_findings (rubric_at summary arm))) arms)
      in [SECTION_RUBRIC, [],
          ''Scored on a stratified sample. The pass rate answers whether an arm is better on average; this answers whether its output is something a person would keep. Higher is better on every criterion, including the two named for a defect: `deadCode: 3` means none was found.'',
          []] @
         (if reviewers \<noteq> [] then [''Scored by: '' @ str_join ''; '' reviewers @ ''.'', []] else []) @
         [''| Arm | cells reviewed | '' @ str_join '' | '' RUBRIC_CRITERIA @ '' |'',
          ''|---|---|'' @ rule_cells (length RUBRIC_CRITERIA)] @
         map (\<lambda>arm. let row = rubric_at summary arm in
            ''| '' @ arm @ '' | '' @ str_int (int (rb_reviewed row)) @ '' | '' @
            str_join '' | '' (map (\<lambda>c. format_metric (Option.bind (dget (rb_medians row) c) id)) RUBRIC_CRITERIA) @ '' |'') arms @
         (if findings \<noteq> [] then
            [[], ''Findings a score cannot carry - output whose shape, rather than whose answer, is the result:''] @
            map (\<lambda>(arm, finding). ''- '' @ arm @ '': '' @ finding) findings
          else []) @
         [[]])"

definition router_error_lines :: "stratum_aggs \<Rightarrow> string list \<Rightarrow> string list" where
  "router_error_lines aggs arms =
     (let cells = over_arms at_router_error_cells aggs arms in
      [SECTION_ROUTER_ERRORS, [],
       str_int (int (length cells)) @ '' cell(s) saw a non-2xx router response. Their pass or fail is recorded but the infrastructure failure is named here rather than averaged in.''] @
      map (\<lambda>cid. ''- '' @ cid) cells @ [[]])"

definition or_na :: "string \<Rightarrow> string" where
  "or_na s = (if s \<noteq> [] then s else NA)"

definition exclusion_lines :: "stratum_aggs \<Rightarrow> string list \<Rightarrow> string list" where
  "exclusion_lines aggs arms =
     [SECTION_EXCLUSIONS, [],
      ''Exclusion is arm-symmetric: one predicate decides it for every arm, and an excluded cell takes its counterparts in the other arms with it, so no arm keeps the cells another arm found impossible.'',
      [], str_int (int (length (over_arms at_excluded_cells aggs arms))) @ '' cell(s) left both the numerator and the denominator.'',
      [], ''| Arm | excluded | cells |'', ''|---|---|---|''] @
     concat (map (\<lambda>(_, A). map (\<lambda>arm. let rows = at_excluded_cells (totals_at A arm) in
        table_row [arm, str_int (int (length rows)), or_na (str_join '', '' (map (\<lambda>(cid, reason). cid @ '' ('' @ reason @ '')'') rows))]) arms) aggs) @
     [[]]"

definition missing_lines :: "stratum_aggs \<Rightarrow> string list" where
  "missing_lines aggs =
     (let cells = concat (map (\<lambda>(_, A). ar_missing A) aggs) in
      [SECTION_MISSING, [],
       str_int (int (length cells)) @ '' planned cell(s) have no recorded result. They are counted neither as passes nor as failures.''] @
      map (\<lambda>cid. ''- '' @ cid) cells @ [[]])"

section \<open>The report\<close>

record report_input =
  ri_results :: "jobj list"
  ri_tasks :: "task list"
  ri_models :: "string list"
  ri_arms :: "string list"
  ri_reps :: int
  ri_capabilities :: "string list"
  ri_rubrics :: "jobj list"
  ri_sweep :: "jobj option"
  ri_task_filter :: "jobj option"

definition report_lines :: "report_input \<Rightarrow> string list" where
  "report_lines i =
     (let arms = ri_arms i; results = ri_results i; tasks = ri_tasks i;
          aggs = strata_aggs results tasks (ri_models i) arms (ri_reps i) (ri_capabilities i);
          task_ids = map task_id tasks
      in [''# Conductor three-arm benchmark'', []] @
         scope_lines (ri_task_filter i) @
         method_lines (ri_models i) (ri_capabilities i) arms (ri_reps i) @
         asymmetry_lines @
         (case ri_sweep i of Some sweep \<Rightarrow> sweep_lines sweep | None \<Rightarrow> []) @
         per_task_lines aggs task_ids arms @
         (if length arms > 1 then arm_total_lines aggs task_ids arms else []) @
         separability_lines aggs task_ids arms @
         cost_lines aggs task_ids arms @
         tier_lines aggs arms @
         process_lines aggs arms @
         timeout_lines aggs arms results @
         trajectory_lines results tasks arms @
         rubric_lines (ri_rubrics i) results arms @
         router_error_lines aggs arms @
         exclusion_lines aggs arms @
         missing_lines aggs)"

definition render_report :: "report_input \<Rightarrow> string" where
  "render_report i = str_join [CHR 0x0A] (report_lines i)"

text \<open>The end of a run: the report replaces the file that was there.\<close>

definition write_report :: "path \<Rightarrow> report_input \<Rightarrow> fs \<Rightarrow> fs" where
  "write_report report i t = fs_write report (render_report i) (fs_mkdir (path_parent report) t)"

end
