(* ===== verification/Bench_Report_Laws.thy ===== *)
theory Bench_Report_Laws
  imports Bench_Report Bench_Aggregate_Laws
begin

text \<open>
  What the report promises: its sections stand in a fixed order, with the per-task table before
  every line about an arm; every planned cell that is not in a rate is named in the section that
  says why; and two arms are called separable exactly when one passed every scored repetition
  and the other none.
\<close>

section \<open>The order of the sections\<close>

definition heading :: "string \<Rightarrow> bool" where
  "heading l = starts_with l ''## ''"

lemma heading_simps [simp]:
  "\<not> heading []" "heading (c # s) \<longleftrightarrow> c = CHR ''#'' \<and> starts_with s ''# ''"
  by (auto simp: heading_def starts_with_def)

lemma starts_hash [simp]:
  "starts_with (c # s) ''# '' \<longleftrightarrow> c = CHR ''#'' \<and> starts_with s '' ''"
  "starts_with (c # s) '' '' \<longleftrightarrow> c = CHR '' ''"
  by (auto simp: starts_with_def)

lemmas section_defs = SECTION_SCOPE_def SECTION_METHOD_def SECTION_ASYMMETRIES_def SECTION_SWEEP_def SECTION_PER_TASK_def
  SECTION_ARM_TOTALS_def SECTION_SEPARABILITY_def SECTION_COST_def SECTION_TIER_def SECTION_PROCESS_def SECTION_TIMEOUTS_def
  SECTION_TRAJECTORIES_def SECTION_RUBRIC_def SECTION_ROUTER_ERRORS_def SECTION_EXCLUSIONS_def SECTION_MISSING_def

lemma section_headings [simp]:
  "heading SECTION_SCOPE" "heading SECTION_METHOD" "heading SECTION_ASYMMETRIES" "heading SECTION_SWEEP" "heading SECTION_PER_TASK"
  "heading SECTION_ARM_TOTALS" "heading SECTION_SEPARABILITY" "heading SECTION_COST" "heading SECTION_TIER" "heading SECTION_PROCESS"
  "heading SECTION_TIMEOUTS" "heading SECTION_TRAJECTORIES" "heading SECTION_RUBRIC" "heading SECTION_ROUTER_ERRORS"
  "heading SECTION_EXCLUSIONS" "heading SECTION_MISSING"
  by (simp_all add: section_defs)

lemma str_nat_not_heading [simp]: "\<not> heading (str_nat n @ s)"
proof (cases "str_nat n")
  case (Cons c r)
  then have "is_digit c" using str_nat_digits [of c n] by simp
  then show ?thesis by (auto simp: Cons is_digit_def)
qed simp

lemma str_int_not_heading [simp]: "\<not> heading (str_int n @ s)"
  by (simp add: str_int_def)

lemma notes_not_heading [simp]: "\<not> heading NOISE_NOTE" "\<not> heading NO_VERDICT_NOTE" "\<not> heading TIMEOUT_NOTE"
  by (simp_all add: NOISE_NOTE_def NO_VERDICT_NOTE_def TIMEOUT_NOTE_def)

lemma table_row_not_heading [simp]: "\<not> heading (table_row cells)"
  by (simp add: table_row_def)

lemma label_not_heading [simp]: "\<not> heading (stratum_label m c)"
  by (simp add: stratum_label_def)

lemma filter_heading_map [simp]:
  "(\<And>x. \<not> heading (F x)) \<Longrightarrow> filter heading (map F xs) = []"
  by (induction xs) simp_all

lemma filter_heading_concat [simp]:
  "(\<And>x. filter heading (F x) = []) \<Longrightarrow> filter heading (concat (map F xs)) = []"
  by (induction xs) simp_all

lemma front_headings:
  "filter heading (scope_lines tf) = [SECTION_SCOPE]"
  "filter heading (method_lines ms cs arms reps) = [SECTION_METHOD]"
  "filter heading asymmetry_lines = [SECTION_ASYMMETRIES]"
  "\<not> heading (text_of sw ''rationale'') \<Longrightarrow> filter heading (sweep_lines sw) = [SECTION_SWEEP]"
  by (simp_all add: scope_lines_def method_lines_def asymmetry_lines_def sweep_lines_def Let_def split: option.split)

lemma table_headings:
  "filter heading (per_task_lines aggs ids arms) = [SECTION_PER_TASK]"
  "filter heading (arm_total_lines aggs ids arms) = [SECTION_ARM_TOTALS]"
  "filter heading (separability_lines aggs ids arms) = [SECTION_SEPARABILITY]"
  "filter heading (cost_lines aggs ids arms) = [SECTION_COST]"
  "filter heading (tier_lines aggs arms) = [SECTION_TIER]"
  "filter heading (process_lines aggs arms) = [SECTION_PROCESS]"
  by (simp_all add: per_task_lines_def per_task_stratum_def arm_total_lines_def separability_lines_def separability_row_def
    cost_lines_def tier_lines_def tier_line_def process_lines_def Let_def split_beta)

lemma list_headings:
  "filter heading (timeout_lines aggs arms results) = [SECTION_TIMEOUTS]"
  "filter heading (trajectory_lines results tasks arms) = [SECTION_TRAJECTORIES]"
  "filter heading (rubric_lines rubrics results arms) = [SECTION_RUBRIC]"
  "filter heading (router_error_lines aggs arms) = [SECTION_ROUTER_ERRORS]"
  "filter heading (exclusion_lines aggs arms) = [SECTION_EXCLUSIONS]"
  "filter heading (missing_lines aggs) = [SECTION_MISSING]"
  by (simp_all add: timeout_lines_def trajectory_lines_def rubric_lines_def router_error_lines_def exclusion_lines_def
    missing_lines_def Let_def split_beta)

text \<open>no number is read before what qualifies it: the sections of a report come in one order,
  whatever was measured: how much was run, the method and the declared asymmetries above every
  number, the per-task table above every line about an arm, and the cells left out of a rate
  named at the end; the arm totals appear only when there are arms to compare.\<close>

theorem report_sections_in_order:
  assumes "case ri_sweep i of Some sw \<Rightarrow> \<not> heading (text_of sw ''rationale'') | None \<Rightarrow> True"
  shows "filter heading (report_lines i) =
    [SECTION_SCOPE, SECTION_METHOD, SECTION_ASYMMETRIES] @ (if ri_sweep i = None then [] else [SECTION_SWEEP]) @
    [SECTION_PER_TASK] @ (if length (ri_arms i) > 1 then [SECTION_ARM_TOTALS] else []) @
    [SECTION_SEPARABILITY, SECTION_COST, SECTION_TIER, SECTION_PROCESS, SECTION_TIMEOUTS, SECTION_TRAJECTORIES,
     SECTION_RUBRIC, SECTION_ROUTER_ERRORS, SECTION_EXCLUSIONS, SECTION_MISSING]"
  using assms by (simp add: report_lines_def Let_def front_headings table_headings list_headings split: option.splits)

theorem report_sections_in_order_witness:
  "filter heading (report_lines \<lparr>ri_results = [], ri_tasks = [demo_task], ri_models = [''m''], ri_arms = [''baseline'', ''conductor''],
     ri_reps = 1, ri_capabilities = [''none''], ri_rubrics = [], ri_sweep = Some [(''rationale'', JStr ''why'')],
     ri_task_filter = None\<rparr>) ! 5 = SECTION_ARM_TOTALS"
  by (subst report_sections_in_order) (simp_all add: text_of_def jget_def)

section \<open>Every planned cell is accounted for\<close>

text \<open>The cells of a stratum in the order of the tables, and what the results say of each.\<close>

definition stratum_plan :: "frame \<Rightarrow> task list \<Rightarrow> (string \<times> string \<times> int) list" where
  "stratum_plan f tasks =
     concat (map (\<lambda>arm. concat (map (\<lambda>k. map (\<lambda>rep. (arm, task_id k, rep)) [1..fr_reps f]) tasks)) (fr_arms f))"

definition named :: "frame \<Rightarrow> string \<times> string \<times> int \<Rightarrow> string" where
  "named f = (\<lambda>(arm, tid, rep). cell_id_at f arm tid rep)"

definition fate_in :: "frame \<Rightarrow> jobj list \<Rightarrow> string \<times> string \<times> int \<Rightarrow> fate" where
  \<comment> \<open>what becomes of a cell, from the records alone\<close>
  "fate_in f results = (\<lambda>(arm, tid, rep).
     case dget (rows_by_id results) (cell_id_at f arm tid rep) of
       None \<Rightarrow> Missing
     | Some r \<Rightarrow>
         (if \<not> clean f (rows_by_id results) tid rep then Excluded
          else if timed_out_row r then TimedOut
          else Scored (truthy (jget r ''passed''))))"

lemma fate_in_fate_of:
  "tid \<in> set (map task_id tasks) \<Longrightarrow> 1 \<le> rep \<Longrightarrow> rep \<le> fr_reps f \<Longrightarrow>
   fate_of (dget (rows_by_id results) (cell_id_at f arm tid rep))
     (dget (excluded_strata f (rows_by_id results) (map task_id tasks)) (tid, rep)) = fate_in f results (arm, tid, rep)"
  by (auto simp: fate_of_def fate_in_def dget_excluded_strata timed_out_row_def stratum_clean [symmetric] split: option.split)

definition fate_there :: "frame \<Rightarrow> (string, jobj) dict \<Rightarrow> (string \<times> int, string) dict \<Rightarrow> string \<Rightarrow> string \<Rightarrow> int \<Rightarrow> fate" where
  "fate_there f b ex arm tid rep = fate_of (dget b (cell_id_at f arm tid rep)) (dget ex (tid, rep))"

definition named_there :: "frame \<Rightarrow> (string, jobj) dict \<Rightarrow> (string \<times> int, string) dict \<Rightarrow> string \<Rightarrow> fate \<Rightarrow> string \<Rightarrow> int list \<Rightarrow> string list" where
  "named_there f b ex arm x tid reps = map (cell_id_at f arm tid) (filter (\<lambda>rep. fate_there f b ex arm tid rep = x) reps)"

lemma agg_reps_named:
  "ag_missing (foldl (agg_rep f b ex arm tid) s reps) = ag_missing s @ named_there f b ex arm Missing tid reps"
  "at_timeout_cells (ag_totals (foldl (agg_rep f b ex arm tid) s reps)) =
     at_timeout_cells (ag_totals s) @ named_there f b ex arm TimedOut tid reps"
  "map fst (at_excluded_cells (ag_totals (foldl (agg_rep f b ex arm tid) s reps))) =
     map fst (at_excluded_cells (ag_totals s)) @ named_there f b ex arm Excluded tid reps"
  by (induction reps arbitrary: s) (auto simp: named_there_def fate_there_def agg_step_defs split: option.splits)

definition arm_named :: "frame \<Rightarrow> (string, jobj) dict \<Rightarrow> (string \<times> int, string) dict \<Rightarrow> string \<Rightarrow> task list \<Rightarrow> fate \<Rightarrow> string list" where
  "arm_named f b ex arm tasks x = concat (map (\<lambda>k. named_there f b ex arm x (task_id k) [1..fr_reps f]) tasks)"

lemma agg_tasks_named:
  "as_missing (foldl (agg_task f b ex arm) a ks) = as_missing a @ arm_named f b ex arm ks Missing"
  "at_timeout_cells (as_totals (foldl (agg_task f b ex arm) a ks)) = at_timeout_cells (as_totals a) @ arm_named f b ex arm ks TimedOut"
  "map fst (at_excluded_cells (as_totals (foldl (agg_task f b ex arm) a ks))) =
     map fst (at_excluded_cells (as_totals a)) @ arm_named f b ex arm ks Excluded"
  by (induction ks arbitrary: a) (simp_all add: agg_task_def Let_def agg_reps_named add_group_def arm_named_def)

lemma map_filter_pairs: "map F (filter P (map G xs)) = map (\<lambda>x. F (G x)) (filter (\<lambda>x. P (G x)) xs)"
  by (induction xs) simp_all

lemma arm_named_plan:
  "concat (map (\<lambda>arm. arm_named f (rows_by_id results) (excluded_strata f (rows_by_id results) (map task_id tasks)) arm tasks x) (fr_arms f)) =
   map (named f) (filter (\<lambda>c. fate_in f results c = x) (stratum_plan f tasks))"
proof -
  have one: "named_there f (rows_by_id results) (excluded_strata f (rows_by_id results) (map task_id tasks)) arm x (task_id k) [1..fr_reps f] =
    map (\<lambda>rep. named f (arm, task_id k, rep)) (filter (\<lambda>rep. fate_in f results (arm, task_id k, rep) = x) [1..fr_reps f])"
    if "k \<in> set tasks" for arm k
    unfolding named_there_def fate_there_def
    using that by (intro map_cong filter_cong) (auto simp: fate_in_fate_of named_def)
  show ?thesis
    unfolding arm_named_def stratum_plan_def
    by (simp add: map_concat filter_concat comp_def map_filter_pairs one cong: map_cong)
qed

lemma agg_tasks_scored:
  "at_scored (as_totals (foldl (agg_task f b ex arm) a ks)) = at_scored (as_totals a) +
     int (length (filter is_Scored (concat (map (\<lambda>k. fates f b ex arm (task_id k) [1..fr_reps f]) ks))))"
  "at_passes (as_totals (foldl (agg_task f b ex arm) a ks)) = at_passes (as_totals a) +
     int (length (filter (\<lambda>x. x = Scored True) (concat (map (\<lambda>k. fates f b ex arm (task_id k) [1..fr_reps f]) ks))))"
  by (induction ks arbitrary: a)
    (simp_all add: agg_task_def Let_def agg_reps_group agg_reps_totals add_group_def empty_group_def tally_of_def)

lemma arm_fates_plan:
  "concat (map (\<lambda>arm. concat (map (\<lambda>k. fates f (rows_by_id results) (excluded_strata f (rows_by_id results) (map task_id tasks))
       arm (task_id k) [1..fr_reps f]) tasks)) (fr_arms f)) = map (fate_in f results) (stratum_plan f tasks)"
proof -
  have "fates f (rows_by_id results) (excluded_strata f (rows_by_id results) (map task_id tasks)) arm (task_id k) [1..fr_reps f] =
      map (\<lambda>rep. fate_in f results (arm, task_id k, rep)) [1..fr_reps f]" if "k \<in> set tasks" for arm k
    unfolding fates_def using that by (intro map_cong) (auto simp: fate_in_fate_of)
  then show ?thesis by (simp add: stratum_plan_def map_concat comp_def cong: map_cong)
qed

definition report_frames :: "report_input \<Rightarrow> frame list" where
  "report_frames i =
     concat (map (\<lambda>model. map (\<lambda>capability.
       \<lparr>fr_model = model, fr_capability = capability, fr_arms = ri_arms i, fr_reps = ri_reps i\<rparr>) (ri_capabilities i)) (ri_models i))"

definition report_aggs :: "report_input \<Rightarrow> stratum_aggs" where
  "report_aggs i = strata_aggs (ri_results i) (ri_tasks i) (ri_models i) (ri_arms i) (ri_reps i) (ri_capabilities i)"

lemma report_aggs_frames:
  "report_aggs i = map (\<lambda>f. ((fr_model f, fr_capability f), aggregate f (ri_results i) (ri_tasks i))) (report_frames i)"
  by (simp add: report_aggs_def strata_aggs_def report_frames_def map_concat comp_def)

definition cells_named :: "report_input \<Rightarrow> fate \<Rightarrow> string list" where
  "cells_named i x = concat (map (\<lambda>f. map (named f)
     (filter (\<lambda>c. fate_in f (ri_results i) c = x) (stratum_plan f (ri_tasks i)))) (report_frames i))"

definition report_fates :: "report_input \<Rightarrow> fate list" where
  \<comment> \<open>one entry per planned cell\<close>
  "report_fates i = concat (map (\<lambda>f. map (fate_in f (ri_results i)) (stratum_plan f (ri_tasks i))) (report_frames i))"

lemma totals_at_aggregate:
  "arm \<in> set (fr_arms f) \<Longrightarrow> totals_at (aggregate f results tasks) arm =
     as_totals (agg_arm f (rows_by_id results) (excluded_strata f (rows_by_id results) (map task_id tasks)) tasks arm)"
  by (simp add: totals_at_def aggregate_def Let_def dget_map_pair)

lemma frame_arms: "f \<in> set (report_frames i) \<Longrightarrow> fr_arms f = ri_arms i"
  by (auto simp: report_frames_def)

lemma over_arms_frames:
  assumes "\<And>f. f \<in> set (report_frames i) \<Longrightarrow>
    concat (map (\<lambda>arm. F (as_totals (agg_arm f (rows_by_id (ri_results i))
      (excluded_strata f (rows_by_id (ri_results i)) (map task_id (ri_tasks i))) (ri_tasks i) arm))) (fr_arms f)) = G f"
  shows "over_arms F (report_aggs i) (ri_arms i) = concat (map G (report_frames i))"
proof -
  have "concat (map (\<lambda>arm. F (totals_at (aggregate f (ri_results i) (ri_tasks i)) arm)) (ri_arms i)) = G f"
    if "f \<in> set (report_frames i)" for f
    using assms [OF that] by (simp add: frame_arms [OF that] totals_at_aggregate cong: map_cong)
  then show ?thesis by (simp add: over_arms_def report_aggs_frames comp_def cong: map_cong)
qed

lemma map_over_arms: "map h (over_arms F aggs arms) = over_arms (\<lambda>t. map h (F t)) aggs arms"
  by (simp add: over_arms_def map_concat comp_def case_prod_unfold)

lemma agg_arm_named:
  "as_missing (agg_arm f b ex tasks arm) = arm_named f b ex arm tasks Missing"
  "at_timeout_cells (as_totals (agg_arm f b ex tasks arm)) = arm_named f b ex arm tasks TimedOut"
  "map fst (at_excluded_cells (as_totals (agg_arm f b ex tasks arm))) = arm_named f b ex arm tasks Excluded"
  by (simp_all add: agg_arm_def agg_tasks_named empty_totals_def)

lemma report_lists:
  "concat (map (\<lambda>(_, A). ar_missing A) (report_aggs i)) = cells_named i Missing"
  "over_arms at_timeout_cells (report_aggs i) (ri_arms i) = cells_named i TimedOut"
  "map fst (over_arms at_excluded_cells (report_aggs i) (ri_arms i)) = cells_named i Excluded"
  unfolding cells_named_def map_over_arms
  subgoal by (simp add: report_aggs_frames comp_def aggregate_def Let_def agg_arm_named arm_named_plan cong: map_cong)
  subgoal by (rule over_arms_frames) (simp only: agg_arm_named arm_named_plan)
  subgoal by (rule over_arms_frames) (simp only: agg_arm_named arm_named_plan)
  done

lemma count_filter_concat:
  "int (length (filter P (concat xss))) = sum_list (map (\<lambda>xs. int (length (filter P xs))) xss)"
  by (induction xss) simp_all

lemma sum_list_of_concat: "sum_list (concat xss) = sum_list (map sum_list (xss :: int list list))"
  by (induction xss) simp_all

lemma report_counts:
  "sum_list (over_arms (\<lambda>t. [at_scored t]) (report_aggs i) (ri_arms i)) = int (length (filter is_Scored (report_fates i)))"
  "sum_list (over_arms (\<lambda>t. [at_passes t]) (report_aggs i) (ri_arms i)) = int (length (filter (\<lambda>x. x = Scored True) (report_fates i)))"
proof -
  let ?fates = "\<lambda>f arm. concat (map (\<lambda>k. fates f (rows_by_id (ri_results i))
      (excluded_strata f (rows_by_id (ri_results i)) (map task_id (ri_tasks i))) arm (task_id k) [1..fr_reps f]) (ri_tasks i))"
  have one: "sum_list (map (\<lambda>arm. int (length (filter P (?fates f arm)))) (fr_arms f)) =
      int (length (filter P (map (fate_in f (ri_results i)) (stratum_plan f (ri_tasks i)))))" for P f
    unfolding arm_fates_plan [symmetric] by (simp only: count_filter_concat map_map comp_def)
  have all: "sum_list (concat (map (\<lambda>f. map (\<lambda>arm. int (length (filter P (?fates f arm)))) (fr_arms f)) (report_frames i))) =
      int (length (filter P (report_fates i)))" for P
  proof -
    have "int (length (filter P (report_fates i))) =
        sum_list (map (\<lambda>f. int (length (filter P (map (fate_in f (ri_results i)) (stratum_plan f (ri_tasks i)))))) (report_frames i))"
      unfolding report_fates_def by (subst count_filter_concat) (simp only: map_map comp_def)
    then show ?thesis by (simp only: sum_list_of_concat map_map comp_def one)
  qed
  have s: "over_arms (\<lambda>t. [at_scored t]) (report_aggs i) (ri_arms i) =
      concat (map (\<lambda>f. map (\<lambda>arm. int (length (filter is_Scored (?fates f arm)))) (fr_arms f)) (report_frames i))"
    by (rule over_arms_frames) (simp add: agg_arm_def agg_tasks_scored empty_totals_def)
  have p: "over_arms (\<lambda>t. [at_passes t]) (report_aggs i) (ri_arms i) =
      concat (map (\<lambda>f. map (\<lambda>arm. int (length (filter (\<lambda>x. x = Scored True) (?fates f arm)))) (fr_arms f)) (report_frames i))"
    by (rule over_arms_frames) (simp add: agg_arm_def agg_tasks_scored empty_totals_def)
  show "sum_list (over_arms (\<lambda>t. [at_scored t]) (report_aggs i) (ri_arms i)) = int (length (filter is_Scored (report_fates i)))"
    unfolding s by (rule all)
  show "sum_list (over_arms (\<lambda>t. [at_passes t]) (report_aggs i) (ri_arms i)) = int (length (filter (\<lambda>x. x = Scored True) (report_fates i)))"
    unfolding p by (rule all)
qed


section \<open>Separability\<close>

text \<open>A record whose truth value and outcome say the same, as every record of \<open>run_cell\<close> does
  (\<open>recorded_pass_is_a_measured_pass\<close>).\<close>

definition says_one_thing :: "jobj \<Rightarrow> bool" where
  "says_one_thing r = (truthy (jget r ''passed'') \<longleftrightarrow> text_of r ''outcome'' = ''pass'')"

lemma rows_by_id_in: "dget (rows_by_id results) cid = Some r \<Longrightarrow> r \<in> set results"
proof (induction results rule: rev_induct)
  case (snoc x xs)
  then show ?case by (auto simp: rows_by_id_def split: if_splits)
qed (simp add: rows_by_id_def)

definition flag :: "fate \<Rightarrow> int" where
  "flag x = (if x = Scored True then 1 else 0)"

lemma agg_reps_flags:
  assumes "list_all says_one_thing results"
  shows "pass_flags (ga_outcomes (ag_group (foldl (agg_rep f (rows_by_id results) ex arm tid) s reps))) =
    pass_flags (ga_outcomes (ag_group s)) @ map flag (filter is_Scored (fates f (rows_by_id results) ex arm tid reps))"
proof (induction reps arbitrary: s)
  case (Cons rep reps)
  let ?row = "dget (rows_by_id results) (cell_id_at f arm tid rep)"
  have "pass_flags (ga_outcomes (ag_group (agg_rep f (rows_by_id results) ex arm tid s rep))) =
      pass_flags (ga_outcomes (ag_group s)) @
      map flag (filter is_Scored [fate_of ?row (dget ex (tid, rep))])"
    using assms rows_by_id_in [of results "cell_id_at f arm tid rep"]
    by (auto simp: agg_step_defs pass_flags_def flag_def says_one_thing_def list_all_iff split: option.split)
  then show ?case by (simp add: Cons.IH fates_Cons)
qed (simp add: fates_Cons)

text \<open>The group of an arm and a task, from the fates of its scored cells.\<close>

definition counted :: "frame \<Rightarrow> jobj list \<Rightarrow> task list \<Rightarrow> string \<Rightarrow> string \<Rightarrow> group \<Rightarrow> bool" where
  "counted f results tasks arm tid g =
     (let fs = filter is_Scored (fates f (rows_by_id results)
             (excluded_strata f (rows_by_id results) (map task_id tasks)) arm tid [1..fr_reps f]);
          flags = map flag fs
      in gr_scored g = int (length fs) \<and> gr_passes g = sum_list flags \<and>
         gr_min_pass g = (if flags = [] then 0 else Min (set flags)) \<and>
         gr_max_pass g = (if flags = [] then 0 else Max (set flags)))"

lemma sum_flags: "sum_list (map flag (filter is_Scored fs)) = tally_of (\<lambda>x. x = Scored True) fs"
  by (induction fs) (auto simp: flag_def)

lemma pass_flags_Nil [simp]: "pass_flags [] = []"
  by (simp add: pass_flags_def)

lemma closed_counted:
  assumes "list_all says_one_thing results" "ag_group s = empty_group"
  shows "counted f results tasks arm tid (close_group (fr_reps f) (ag_group (foldl
    (agg_rep f (rows_by_id results) (excluded_strata f (rows_by_id results) (map task_id tasks)) arm tid) s [1..fr_reps f])))"
  using assms(2)
  by (simp add: counted_def close_group_def agg_reps_flags [OF assms(1)] agg_reps_group empty_group_def Let_def sum_flags
    tally_of_def)

lemma agg_tasks_counted:
  assumes "list_all says_one_thing results"
    and "tid \<in> set (map task_id ks) \<or> (\<exists>g. dget (as_groups a) tid = Some g \<and> counted f results tasks arm tid g)"
  shows "\<exists>g. dget (as_groups (foldl (agg_task f (rows_by_id results)
    (excluded_strata f (rows_by_id results) (map task_id tasks)) arm) a ks)) tid = Some g \<and> counted f results tasks arm tid g"
  using assms(2)
proof (induction ks arbitrary: a)
  case (Cons k ks)
  show ?case
    unfolding foldl_Cons
    by (rule Cons.IH) (use Cons.prems in \<open>auto simp: agg_task_def Let_def closed_counted [OF assms(1)]\<close>)
qed simp

lemma group_at_counted:
  assumes "list_all says_one_thing results" "arm \<in> set (fr_arms f)" "tid \<in> set (map task_id tasks)"
  shows "counted f results tasks arm tid (group_at (aggregate f results tasks) arm tid)"
proof -
  let ?a = "agg_arm f (rows_by_id results) (excluded_strata f (rows_by_id results) (map task_id tasks)) tasks arm"
  obtain g where "dget (as_groups ?a) tid = Some g" "counted f results tasks arm tid g"
    using agg_tasks_counted [OF assms(1), where ks = tasks and tid = tid] assms(3) unfolding agg_arm_def by blast
  then show ?thesis using assms(2) by (simp add: group_at_def aggregate_def Let_def dget_map_pair)
qed

definition unbeaten :: "group \<Rightarrow> bool" where
  "unbeaten g = (gr_scored g > 0 \<and> gr_passes g = gr_scored g)"

lemma flag_ranges:
  fixes fs :: "fate list" defines "flags \<equiv> map flag fs"
  assumes "flags \<noteq> []"
  shows "Min (set flags) = (if sum_list flags = int (length fs) then 1 else 0)"
    "Max (set flags) = (if sum_list flags = 0 then 0 else 1)"
proof -
  have range: "set flags \<subseteq> {0, 1}" by (auto simp: flags_def flag_def)
  have all: "sum_list (map flag xs) = int (length xs) \<longleftrightarrow> set (map flag xs) \<subseteq> {1}"
    and le: "sum_list (map flag xs) \<le> int (length xs)" and none: "sum_list (map flag xs) = 0 \<longleftrightarrow> set (map flag xs) \<subseteq> {0}"
    and ge: "0 \<le> sum_list (map flag xs)" for xs
    by (induction xs) (auto simp: flag_def)
  have "Min (set flags) = 1" if "set flags \<subseteq> {1}"
    using that assms(2) by (simp add: subset_singleton_iff)
  moreover have "Min (set flags) = 0" if "\<not> set flags \<subseteq> {1}"
    using that range by (intro Min_eqI) auto
  ultimately show "Min (set flags) = (if sum_list flags = int (length fs) then 1 else 0)"
    unfolding flags_def all by presburger
  have "Max (set flags) = 0" if "set flags \<subseteq> {0}"
    using that assms(2) by (simp add: subset_singleton_iff)
  moreover have "Max (set flags) = 1" if "\<not> set flags \<subseteq> {0}"
    using that range by (intro Max_eqI) auto
  ultimately show "Max (set flags) = (if sum_list flags = 0 then 0 else 1)"
    unfolding flags_def none by presburger
qed

lemma within_noise_iff:
  assumes "counted f results tasks a tid g" "counted f results tasks b tid h"
  shows "within_noise g h \<longleftrightarrow> \<not> ((gr_passes g = 0 \<and> unbeaten h) \<or> (gr_passes h = 0 \<and> unbeaten g))"
proof -
  have range: "gr_min_pass x = (if unbeaten x then 1 else 0) \<and> gr_max_pass x = (if gr_passes x = 0 then 0 else 1)"
    if "counted f results tasks c tid x" for c x
    using that flag_ranges [of "filter is_Scored (fates f (rows_by_id results)
        (excluded_strata f (rows_by_id results) (map task_id tasks)) c tid [1..fr_reps f])"]
    by (auto simp: counted_def Let_def unbeaten_def)
  show ?thesis using range [OF assms(1)] range [OF assms(2)] by (auto simp: within_noise_def)
qed

text \<open>C12: what "separable" means in the report: over records whose truth value and outcome agree, the row
  of an arm pair on a task says "yes" exactly when one arm passed every one of its scored
  repetitions, at least one, and the other passed none of its own, and "no - within noise" otherwise.\<close>

theorem separable_means_all_or_nothing:
  assumes "list_all says_one_thing results" "a \<in> set (fr_arms f)" "b \<in> set (fr_arms f)" "tid \<in> set (map task_id tasks)"
  shows "let A = aggregate f results tasks; g = group_at A a tid; h = group_at A b tid in
    separability_row A tid (a, b) =
      table_row [tid, a @ '' vs '' @ b,
        format_rate (gr_passes g) (gr_scored g) @ '' vs '' @ format_rate (gr_passes h) (gr_scored h),
        if (gr_passes g = 0 \<and> unbeaten h) \<or> (gr_passes h = 0 \<and> unbeaten g) then ''yes'' else ''no - within noise'']"
  unfolding separability_row_def Let_def prod.case
    within_noise_iff [OF group_at_counted [OF assms(1,2,4)] group_at_counted [OF assms(1,3,4)]]
  by simp

theorem separable_means_all_or_nothing_witness:
  "separability_row (aggregate demo_frame demo_rows [demo_task]) ''t0-sum'' (''baseline'', ''conductor'') =
     (let A = aggregate demo_frame demo_rows [demo_task]; g = group_at A ''baseline'' ''t0-sum''; h = group_at A ''conductor'' ''t0-sum'' in
      table_row [''t0-sum'', ''baseline vs conductor'',
        format_rate (gr_passes g) (gr_scored g) @ '' vs '' @ format_rate (gr_passes h) (gr_scored h),
        if (gr_passes g = 0 \<and> unbeaten h) \<or> (gr_passes h = 0 \<and> unbeaten g) then ''yes'' else ''no - within noise''])"
proof -
  have "list_all says_one_thing demo_rows" by (simp add: demo_rows_def says_one_thing_def text_of_def jget_def)
  from separable_means_all_or_nothing [OF this, of "''baseline''" demo_frame "''conductor''" "''t0-sum''" "[demo_task]"]
  show ?thesis by (simp add: demo_frame_def demo_task_fields Let_def)
qed

text \<open>A comparison with an arm that has no scored repetition at all: the one passed cell of the
  baseline against a conductor whose only cell has no record.\<close>

lemma unscored_arm_is_separable:
  "separability_row (aggregate demo_frame demo_rows [demo_task]) ''t0-sum'' (''baseline'', ''conductor'') =
     ''| t0-sum | baseline vs conductor | 1/1 vs 0/0 | yes |''"
  by code_simp

end
