(* ===== verification/Py_Float.thy ===== *)
theory Py_Float
  imports Complex_Main Py_Json
begin

text \<open>
  Python's \<open>float\<close> on the range the harness uses: a double is a rational number, and every
  operation rounds the exact result to the nearest number of 53 significant bits, ties to the
  even one. Overflow, underflow, infinities and NaN are outside the model.
\<close>

text \<open>The number of binary digits of a number that is not negative.\<close>

function bit_len :: "int \<Rightarrow> nat" where
  "bit_len n = (if n \<le> 0 then 0 else Suc (bit_len (n div 2)))"
  by pat_completeness simp
termination
  by (relation "measure nat") auto

declare bit_len.simps [simp del]

definition half_even :: "rat \<Rightarrow> int" where
  \<comment> \<open>the nearest integer, the even one of two\<close>
  "half_even x =
     (let n = \<lfloor>x\<rfloor>; d = x - of_int n in
      if d < 1 / 2 then n else if d > 1 / 2 then n + 1 else if even n then n else n + 1)"

definition scale :: "int \<Rightarrow> rat \<Rightarrow> rat" where
  \<comment> \<open>\<open>x * 2 ** e\<close>\<close>
  "scale e x = (if e \<ge> 0 then x * 2 ^ nat e else x / 2 ^ nat (- e))"

definition exponent_of :: "rat \<Rightarrow> int" where
  \<comment> \<open>the exponent at which a positive number has 53 binary digits before the point\<close>
  "exponent_of x =
     (let (a, b) = quotient_of x; k = int (bit_len a) - int (bit_len b) in
      if x \<ge> scale k 1 then k - 52 else k - 53)"

definition dbl :: "rat \<Rightarrow> rat" where
  "dbl x =
     (if x = 0 then 0
      else
        (let e = exponent_of \<bar>x\<bar>; m = half_even (scale (- e) \<bar>x\<bar>) in
         (if x < 0 then - 1 else 1) * scale e (of_int m)))"

text \<open>The operators on floats.\<close>

definition fadd :: "rat \<Rightarrow> rat \<Rightarrow> rat" where "fadd x y = dbl (x + y)"
definition fsub :: "rat \<Rightarrow> rat \<Rightarrow> rat" where "fsub x y = dbl (x - y)"
definition fdiv :: "rat \<Rightarrow> rat \<Rightarrow> rat" where "fdiv x y = dbl (x / y)"
definition fmul :: "rat \<Rightarrow> rat \<Rightarrow> rat" where "fmul x y = dbl (x * y)"

definition as_float :: "json \<Rightarrow> rat option" where
  \<comment> \<open>a number as the operand of a float division\<close>
  "as_float j =
     (case j of
        JInt n \<Rightarrow> Some (dbl (of_int n))
      | JBool b \<Rightarrow> Some (if b then 1 else 0)
      | JFloat m e \<Rightarrow> Some (dbl (if e \<ge> 0 then of_int m * 10 ^ nat e else of_int m / 10 ^ nat (- e)))
      | _ \<Rightarrow> None)"

section \<open>The rounding error\<close>

lemma bit_len_bounds: "0 < n \<Longrightarrow> 2 ^ (bit_len n - 1) \<le> n \<and> n < 2 ^ bit_len n \<and> 0 < bit_len n"
proof (induction n rule: bit_len.induct)
  case (1 n)
  show ?case
  proof (cases "n div 2 = 0")
    case True
    then have "n = 1" using 1 by auto
    then show ?thesis by (simp add: bit_len.simps)
  next
    case False
    define m where "m = bit_len (n div 2)"
    have m: "2 ^ (m - 1) \<le> n div 2" "n div 2 < 2 ^ m" "0 < m" using 1 False by (auto simp: m_def not_le)
    have "bit_len n = Suc m" using 1(2) by (simp add: m_def bit_len.simps [of n])
    moreover define p where "p = (2 :: int) ^ (m - Suc 0)"
    moreover have "2 ^ m = 2 * p" using m(3) by (cases m) (simp_all add: p_def)
    moreover have "2 * p \<le> n" "n < 4 * p" using m \<open>2 ^ m = 2 * p\<close> by (simp_all add: p_def [symmetric])
    ultimately show ?thesis by simp
  qed
qed

lemma half_even_error: "\<bar>of_int (half_even x) - x\<bar> \<le> 1 / 2"
proof -
  have "of_int \<lfloor>x\<rfloor> \<le> x" "x < of_int \<lfloor>x\<rfloor> + 1" by linarith+
  then show ?thesis by (auto simp: half_even_def Let_def)
qed

lemma half_even_int [simp]: "half_even (of_int n) = n"
  by (simp add: half_even_def)

lemma scale_powi: "scale e x = x * 2 powi e"
  by (simp add: scale_def power_int_def field_simps)

lemma scale_large:
  assumes "0 < x"
  shows "2 ^ 52 \<le> scale (- exponent_of x) x"
proof -
  obtain a b where ab: "quotient_of x = (a, b)" by fastforce
  have b: "0 < b" and x: "x = of_int a / of_int b" using quotient_of_denom_pos [OF ab] quotient_of_div [OF ab] by auto
  then have a: "0 < a" using assms by (simp add: zero_less_divide_iff)
  define m where "m = bit_len a"
  define n where "n = bit_len b"
  have "2 ^ (m - 1) \<le> a" "0 < m" "b \<le> 2 ^ n"
    using bit_len_bounds [OF a] bit_len_bounds [OF b] by (auto simp: m_def n_def)
  then have "(of_int (2 ^ (m - 1)) :: rat) \<le> of_int a" "(of_int b :: rat) \<le> of_int (2 ^ n)"
    by (simp_all only: of_int_le_iff)
  then have "(2 :: rat) ^ (m - 1) \<le> of_int a" "of_int b \<le> (2 :: rat) ^ n" "0 < (of_int b :: rat)"
    using b by simp_all
  then have "2 ^ (m - 1) / 2 ^ n \<le> x" unfolding x using a by (intro frac_le) simp_all
  also have "2 ^ (m - 1) / 2 ^ n = (2 :: rat) powi (int m - int n - 1)"
    using \<open>0 < m\<close> by (simp add: power_int_diff of_nat_diff flip: power_int_of_nat)
  finally have low: "2 powi (int m - int n - 1) \<le> x" .
  have e: "exponent_of x = (if x \<ge> 2 powi (int m - int n) then int m - int n - 52 else int m - int n - 53)"
    by (simp add: exponent_of_def ab Let_def m_def n_def scale_powi)
  have step: "2 ^ 52 \<le> x * 2 powi (52 - k)" if "2 powi k \<le> x" for k :: int
  proof -
    have "(2 :: rat) ^ 52 = 2 powi k * 2 powi (52 - k)" by (simp flip: power_int_add)
    also have "\<dots> \<le> x * 2 powi (52 - k)" using that by (intro mult_right_mono) simp_all
    finally show ?thesis .
  qed
  show ?thesis
    using step [of "int m - int n"] step [OF low] by (simp add: e scale_powi algebra_simps)
qed

lemma dbl_error_pos:
  assumes "0 < x"
  shows "\<bar>dbl x - x\<bar> \<le> x / 2 ^ 53"
proof -
  define e where "e = exponent_of x"
  define y where "y = scale (- e) x"
  have x: "x = y * 2 powi e" by (simp add: y_def scale_powi flip: power_int_add)
  have d: "dbl x = of_int (half_even y) * 2 powi e"
    using assms by (simp add: dbl_def Let_def e_def y_def scale_powi)
  have "\<bar>dbl x - x\<bar> = \<bar>of_int (half_even y) - y\<bar> * 2 powi e"
  proof -
    have "dbl x - x = (of_int (half_even y) - y) * 2 powi e" using d x by (simp add: left_diff_distrib)
    then show ?thesis by (simp add: abs_mult)
  qed
  also have "\<dots> \<le> 1 / 2 * 2 powi e"
    by (intro mult_right_mono half_even_error) simp
  also have "\<dots> \<le> y / 2 ^ 53 * 2 powi e"
    using scale_large [OF assms] by (intro mult_right_mono) (simp_all add: y_def e_def)
  also have "\<dots> = x / 2 ^ 53" by (simp add: x)
  finally show ?thesis .
qed

text \<open>The double nearest to a number is off by at most one part in \<open>2 ^ 53\<close>.\<close>

lemma dbl_error: "\<bar>dbl x - x\<bar> \<le> \<bar>x\<bar> / 2 ^ 53"
proof (cases "x < 0")
  case True
  then have "dbl x = - dbl (- x)" by (simp add: dbl_def Let_def)
  then show ?thesis using dbl_error_pos [of "- x"] True by simp
next
  case False
  then show ?thesis using dbl_error_pos [of x] by (cases "x = 0") (simp_all add: dbl_def)
qed

end
