(* ===== verification/Campaign_Check.thy ===== *)
theory Campaign_Check
  imports Py_Json Py_Path Py_Glob Py_Float Bench_Ledger
begin

text \<open>
  \<open>scripts/check_campaign.py\<close>, the check of a finished run for the signatures of defects the
  campaign has had: what it reads from the results directory, its seven checks, and the exit code.

  A row is any JSON object that has a \<open>cellId\<close>: nothing validates it, so an operation on a value
  of the wrong type is an \<open>Inl\<close>. A finding keeps what its text is worded from. Rows whose
  \<open>taskId\<close> or \<open>arm\<close> is not a text end the arm check here; the code groups them by any hashable value.
\<close>

datatype crash = NoAttribute | BadType | NoKey string | IsADirectory path

datatype detail =
    NeverMeasured
  | PassWithFailedSuite
  | NoRequestButScored json
  | Outlived json int
  | ExcludedFor "json option"
  | Spliced nat
  | EndedInside "string list"
  | LacksArms "string list"

record finding =
  fi_defect :: string
  fi_cell :: json
  fi_detail :: detail

record diagnostics =
  dg_driver :: "json list"
  dg_ledger :: "json list"

text \<open>\<open>BUDGET_TOLERANCE = 1.15\<close>, as the double it is.\<close>

definition BUDGET_TOLERANCE :: rat where "BUDGET_TOLERANCE = dbl (115 / 100)"
definition SESSION_BANNER :: string where "SESSION_BANNER = ''> build''"

section \<open>Reading the run\<close>

definition dir_glob :: "fs \<Rightarrow> path \<Rightarrow> string \<Rightarrow> path list" where
  \<comment> \<open>\<open>sorted(directory.glob(pattern))\<close>\<close>
  "dir_glob t directory pattern = sort (filter (\<lambda>p. glob pattern (path_name p)) (fs_children t directory))"

text \<open>\<open>json.loads(path.read_text())\<close>: nothing when it raises \<open>ValueError\<close>.\<close>

definition read_json :: "fs \<Rightarrow> path \<Rightarrow> (crash, json option) res" where
  "read_json t p =
     (case dget t p of
        Some (NFile s) \<Rightarrow> Inr (json_loads s)
      | Some (NBin _) \<Rightarrow> Inr None
      | _ \<Rightarrow> Inl (IsADirectory p))"

definition campaign_row :: "fs \<Rightarrow> jobj list \<Rightarrow> path \<Rightarrow> (crash, jobj list) res" where
  "campaign_row t rows p =
     (if path_name p = ''run-manifest.json'' then Inr rows
      else bindE (read_json t p) (\<lambda>doc.
        Inr (case doc of Some (JObj row) \<Rightarrow> (if dhas row ''cellId'' then rows @ [row] else rows) | _ \<Rightarrow> rows)))"

definition campaign_rows :: "fs \<Rightarrow> path \<Rightarrow> (crash, jobj list) res" where
  "campaign_rows t run_dir = foldE (campaign_row t) [] (dir_glob t run_dir ''*.json'')"

definition whole_budget :: "string \<times> json \<Rightarrow> (string \<times> int) option" where
  \<comment> \<open>\<open>isinstance(v, int)\<close>, truth values included\<close>
  "whole_budget = (\<lambda>(k, v). case v of JInt n \<Rightarrow> Some (k, n) | JBool b \<Rightarrow> Some (k, if b then 1 else 0) | _ \<Rightarrow> None)"

definition budgets_in :: "jobj \<Rightarrow> (string, int) dict option" where
  \<comment> \<open>the document itself first, then its defaults\<close>
  "budgets_in document =
     (case List.map_filter (\<lambda>holder. case holder of
          JObj h \<Rightarrow> (case jget h ''tierTimeoutSec'' of JObj inner \<Rightarrow> (if inner \<noteq> [] then Some inner else None) | _ \<Rightarrow> None)
        | _ \<Rightarrow> None) [JObj document, jget document ''defaults''] of
        [] \<Rightarrow> None
      | inner # _ \<Rightarrow> Some (List.map_filter whole_budget inner))"

fun budgets_from :: "fs \<Rightarrow> path list \<Rightarrow> (crash, (string, int) dict) res" where
  "budgets_from t [] = Inr []"
| "budgets_from t (p # ps) =
     (case read_json t p of
        Inr (Some (JObj document)) \<Rightarrow>
          (case budgets_in document of Some budgets \<Rightarrow> Inr budgets | None \<Rightarrow> budgets_from t ps)
      | Inr (Some _) \<Rightarrow> Inl NoAttribute
      | _ \<Rightarrow> budgets_from t ps)"

definition tier_budgets :: "fs \<Rightarrow> path \<Rightarrow> path \<Rightarrow> (crash, (string, int) dict) res" where
  \<comment> \<open>\<open>bench\<close> is the directory of that name under the current one\<close>
  "tier_budgets t bench run_dir =
     budgets_from t (path_join run_dir ''run-manifest.json'' # dir_glob t bench ''*.json'')"

text \<open>The lines of a diagnostic up to the first that is no JSON.\<close>

fun json_lines :: "string list \<Rightarrow> json list" where
  "json_lines [] = []"
| "json_lines (line # ls) =
     (if strip line = [] then json_lines ls
      else (case json_loads line of Some j \<Rightarrow> j # json_lines ls | None \<Rightarrow> []))"

definition diagnostic_file :: "fs \<Rightarrow> path \<Rightarrow> string \<Rightarrow> string \<Rightarrow> json list" where
  "diagnostic_file t run_dir stem sfx =
     (case fs_read t (path_join (path_join run_dir ''diagnostics'') (stem @ ''.'' @ sfx)) of
        None \<Rightarrow> []
      | Some s \<Rightarrow> json_lines (splitlines s))"

definition diagnostics_for :: "fs \<Rightarrow> path \<Rightarrow> json \<Rightarrow> (crash, diagnostics) res" where
  "diagnostics_for t run_dir cid =
     (case cid of
        JStr c \<Rightarrow>
          (let stem = str_replace ''/'' ''__'' c in
           Inr \<lparr>dg_driver = diagnostic_file t run_dir stem ''driver.jsonl'', dg_ledger = diagnostic_file t run_dir stem ''ledger.jsonl''\<rparr>)
      | _ \<Rightarrow> Inl NoAttribute)"

section \<open>The checks of a cell\<close>

definition dict_get :: "json \<Rightarrow> string \<Rightarrow> (crash, json) res" where
  \<comment> \<open>\<open>x.get(k)\<close>\<close>
  "dict_get x k = (case x of JObj d \<Rightarrow> Inr (jget d k) | _ \<Rightarrow> Inl NoAttribute)"

definition or_empty :: "json \<Rightarrow> json" where
  \<comment> \<open>\<open>x or {}\<close>\<close>
  "or_empty x = (if truthy x then x else JObj [])"

definition fired :: "string \<Rightarrow> jobj \<Rightarrow> detail \<Rightarrow> finding option" where
  "fired defect row d = Some \<lparr>fi_defect = defect, fi_cell = jget row ''cellId'', fi_detail = d\<rparr>"

definition check_timeout_was_scored :: "jobj \<Rightarrow> (crash, finding option) res" where
  "check_timeout_was_scored row =
     (if truthy (jget row ''timedOut'') then
        bindE (dict_get (or_empty (jget row ''gauge'')) ''ran'') (\<lambda>gauged.
          Inr (if \<not> truthy gauged then fired ''D01'' row NeverMeasured else None))
      else Inr None)"

definition check_delivery_and_correctness_are_separate :: "jobj \<Rightarrow> (crash, finding option) res" where
  "check_delivery_and_correctness_are_separate row =
     (let gauge = or_empty (jget row ''gauge'') in
      if truthy (jget row ''passed'') then
        bindE (dict_get gauge ''ran'') (\<lambda>gauged.
          if truthy gauged then
            bindE (dict_get gauge ''passed'') (\<lambda>ok.
              Inr (if \<not> truthy ok then fired ''D01'' row PassWithFailedSuite else None))
          else Inr None)
      else Inr None)"

fun empty_run :: "jobj \<Rightarrow> json list \<Rightarrow> (crash, finding option) res" where
  "empty_run row [] = Inr None"
| "empty_run row (event # events) =
     bindE (dict_get event ''event'') (\<lambda>kind.
     bindE (dict_get event ''requests'') (\<lambda>requests.
       if kind = JStr ''fault-check'' \<and> py_eq_int requests 0 \<and> jget row ''outcome'' \<noteq> JStr ''harness-error''
       then Inr (fired ''D18'' row (NoRequestButScored (jget row ''outcome'')))
       else empty_run row events))"

definition check_empty_run_excluded :: "jobj \<Rightarrow> diagnostics \<Rightarrow> (crash, finding option) res" where
  "check_empty_run_excluded row diag =
     (if dg_ledger diag = [] \<and> dg_driver diag = [] then Inr None
      else if dg_ledger diag \<noteq> [] then Inr None
      else empty_run row (dg_driver diag))"

definition budget_of :: "(string, int) dict \<Rightarrow> json \<Rightarrow> (crash, int option) res" where
  \<comment> \<open>\<open>budgets.get(tier or "")\<close>: only a text is a key, and a list or an object has no hash\<close>
  "budget_of budgets tier =
     (if \<not> truthy tier then Inr (dget budgets [])
      else
        (case tier of
           JStr s \<Rightarrow> Inr (dget budgets s)
         | JArr _ \<Rightarrow> Inl BadType
         | JObj _ \<Rightarrow> Inl BadType
         | _ \<Rightarrow> Inr None))"

definition outlived :: "rat \<Rightarrow> int \<Rightarrow> bool" where
  \<comment> \<open>\<open>ms / 1000.0 > budget * BUDGET_TOLERANCE\<close>\<close>
  "outlived ms budget = (fdiv ms 1000 > fmul (dbl (of_int budget)) BUDGET_TOLERANCE)"

definition check_budget_bound :: "jobj \<Rightarrow> (string, int) dict \<Rightarrow> (crash, finding option) res" where
  "check_budget_bound row budgets =
     bindE (budget_of budgets (jget row ''tier'')) (\<lambda>budget.
       case budget of
         None \<Rightarrow> Inr None
       | Some n \<Rightarrow>
           (if n = 0 then Inr None
            else
              (let wall = (case dget row ''wallClockMs'' of None \<Rightarrow> JInt 0 | Some j \<Rightarrow> j) in
               case as_float wall of
                 None \<Rightarrow> Inl BadType
               | Some ms \<Rightarrow> Inr (if outlived ms n then fired ''D17/D19'' row (Outlived wall n) else None))))"

definition fault_reason :: "json option \<Rightarrow> json \<Rightarrow> (crash, json option) res" where
  "fault_reason reason event =
     bindE (dict_get event ''event'') (\<lambda>kind.
     bindE (dict_get event ''fault'') (\<lambda>fault.
       Inr (if kind = JStr ''fault-check'' \<and> truthy fault then Some fault else reason)))"

definition check_harness_faults_are_real :: "jobj \<Rightarrow> diagnostics \<Rightarrow> (crash, finding option) res" where
  "check_harness_faults_are_real row diag =
     (if jget row ''outcome'' \<noteq> JStr ''harness-error'' then Inr None
      else bindE (foldE fault_reason None (dg_driver diag)) (\<lambda>reason. Inr (fired ''D12/D20'' row (ExcludedFor reason))))"

section \<open>The checks of the run\<close>

function str_count :: "string \<Rightarrow> string \<Rightarrow> nat" where
  \<comment> \<open>\<open>s.count(sub)\<close>: without overlap, for a text that is not empty\<close>
  "str_count sub s =
     (case s of [] \<Rightarrow> 0
      | c # s' \<Rightarrow>
          if sub \<noteq> [] \<and> starts_with s sub then Suc (str_count sub (drop (length sub) s)) else str_count sub s')"
  by pat_completeness auto
termination
  by (relation "measure (\<lambda>(sub, s). length s)") auto

declare str_count.simps [simp del]

definition transcript_text :: "fs \<Rightarrow> path \<Rightarrow> string option" where
  \<comment> \<open>the bytes, decoded with replacement: what stands for the bytes of no character is not ASCII here or there\<close>
  "transcript_text t p =
     (case dget t p of
        Some (NFile s) \<Rightarrow> Some s
      | Some (NBin bs) \<Rightarrow> Some (map (\<lambda>b. char_of (unat b)) bs)
      | _ \<Rightarrow> None)"

definition check_one_run_per_transcript :: "fs \<Rightarrow> path \<Rightarrow> finding list" where
  "check_one_run_per_transcript t run_dir =
     List.map_filter (\<lambda>p. case transcript_text t p of
         None \<Rightarrow> None
       | Some s \<Rightarrow>
           (let banners = str_count SESSION_BANNER s in
            if banners > 1 then Some \<lparr>fi_defect = ''D09'', fi_cell = JStr (path_name p), fi_detail = Spliced banners\<rparr> else None))
       (dir_glob t (path_join run_dir ''transcripts'') ''*.log'')"

text \<open>\<open>max(xs, key=f)\<close>: the first of the greatest.\<close>

fun max_key :: "('a \<Rightarrow> 'k :: linorder) \<Rightarrow> 'a list \<Rightarrow> 'a option" where
  "max_key f [] = None"
| "max_key f (x # xs) = (case max_key f xs of None \<Rightarrow> Some x | Some y \<Rightarrow> (if f x \<ge> f y then Some x else Some y))"

definition row_text :: "jobj \<Rightarrow> string \<Rightarrow> (crash, string) res" where
  \<comment> \<open>\<open>row[k]\<close>, a text\<close>
  "row_text row k = (case dget row k of None \<Rightarrow> Inl (NoKey k) | Some (JStr s) \<Rightarrow> Inr s | Some _ \<Rightarrow> Inl BadType)"

definition add_arm :: "(string, string list) dict \<Rightarrow> jobj \<Rightarrow> (crash, (string, string list) dict) res" where
  \<comment> \<open>the arms of a task are a set: a list without repetitions\<close>
  "add_arm by_task row =
     bindE (row_text row ''taskId'') (\<lambda>tid.
     bindE (row_text row ''arm'') (\<lambda>arm.
       let arms = (case dget by_task tid of None \<Rightarrow> [] | Some xs \<Rightarrow> xs) in
       Inr (dset tid (if arm \<in> set arms then arms else arms @ [arm]) by_task)))"

definition started_at :: "jobj \<Rightarrow> (crash, string) res" where
  \<comment> \<open>\<open>row.get("startedIso", "")\<close>, to be compared with a text\<close>
  "started_at row = (case dget row ''startedIso'' of None \<Rightarrow> Inr [] | Some (JStr s) \<Rightarrow> Inr s | Some _ \<Rightarrow> Inl BadType)"

definition add_start :: "(string, string) dict \<Rightarrow> jobj \<Rightarrow> (crash, (string, string) dict) res" where
  "add_start last_started row =
     bindE (row_text row ''taskId'') (\<lambda>tid.
     bindE (started_at row) (\<lambda>iso.
       Inr (if iso > (case dget last_started tid of None \<Rightarrow> [] | Some s \<Rightarrow> s) then dset tid iso last_started else last_started)))"

definition arms_finding :: "string list \<Rightarrow> string option \<Rightarrow> string \<times> string list \<Rightarrow> finding option" where
  "arms_finding full tail = (\<lambda>(tid, arms).
     let missing = sort (filter (\<lambda>a. a \<notin> set arms) full) in
     if missing = [] then None
     else if Some tid = tail then Some \<lparr>fi_defect = ''PARTIAL'', fi_cell = JStr tid, fi_detail = EndedInside missing\<rparr>
     else Some \<lparr>fi_defect = ''ARMS'', fi_cell = JStr tid, fi_detail = LacksArms missing\<rparr>)"

definition check_arms_are_comparable :: "jobj list \<Rightarrow> (crash, finding list) res" where
  "check_arms_are_comparable rows =
     bindE (foldE add_arm [] rows) (\<lambda>by_task.
       case max_key length (map snd by_task) of
         None \<Rightarrow> Inr []
       | Some full \<Rightarrow>
           bindE (foldE add_start [] rows) (\<lambda>last_started.
             let tail = max_key (\<lambda>tid. case dget last_started tid of Some s \<Rightarrow> s | None \<Rightarrow> []) (map fst last_started) in
             Inr (List.map_filter (\<lambda>tid. arms_finding full tail (tid, case dget by_task tid of Some xs \<Rightarrow> xs | None \<Rightarrow> []))
                    (sort (map fst by_task)))))"

section \<open>The run, and the exit code\<close>

definition check_row :: "fs \<Rightarrow> path \<Rightarrow> (string, int) dict \<Rightarrow> finding list \<Rightarrow> jobj \<Rightarrow> (crash, finding list) res" where
  "check_row t run_dir budgets findings row =
     bindE (diagnostics_for t run_dir (jget row ''cellId'')) (\<lambda>diag.
     bindE (mapE id [check_timeout_was_scored row, check_delivery_and_correctness_are_separate row,
                     check_empty_run_excluded row diag, check_budget_bound row budgets, check_harness_faults_are_real row diag]) (\<lambda>found.
       Inr (findings @ List.map_filter id found)))"

definition check_run :: "fs \<Rightarrow> path \<Rightarrow> path \<Rightarrow> (crash, finding list \<times> nat) res" where
  "check_run t bench run_dir =
     bindE (campaign_rows t run_dir) (\<lambda>rows.
     bindE (tier_budgets t bench run_dir) (\<lambda>budgets.
     bindE (foldE (check_row t run_dir budgets) [] rows) (\<lambda>findings.
     bindE (check_arms_are_comparable rows) (\<lambda>arms.
       Inr (findings @ check_one_run_per_transcript t run_dir @ arms, length rows)))))"

text \<open>The exit code; an exception that is not caught is an exit code of 1 as well.\<close>

definition check_main :: "fs \<Rightarrow> path \<Rightarrow> string list \<Rightarrow> (crash, int) res" where
  "check_main t bench argv =
     (case argv of
        [_, run_arg] \<Rightarrow>
          (let run_dir = path_of run_arg in
           if \<not> fs_is_dir t run_dir then Inr 2
           else bindE (check_run t bench run_dir) (\<lambda>(findings, _). Inr (if findings = [] then 0 else 1)))
      | _ \<Rightarrow> Inr 2)"

end
