(* ===== verification/Bench_Trace_Laws.thy ===== *)
theory Bench_Trace_Laws
  imports Bench_Campaign_Laws
begin

text \<open>
  What the driver leaves of a cell for a later reader: a line of JSON holds no line break, the
  archive of a tree changes nothing beside it, and the record, the trace and the two files of a
  run of \<open>run_cell\<close> in one statement.
\<close>

section \<open>A line of JSON\<close>

definition printable :: "char \<Rightarrow> bool" where
  "printable c = (let n = (of_char c :: nat) in 32 \<le> n \<and> n \<le> 126)"

lemma printable_not_break: "printable c \<Longrightarrow> \<not> line_break c"
  by (auto simp: printable_def line_break_def Let_def)

lemma hex_digit_printable: "d < 16 \<Longrightarrow> printable (hex_digit d)"
  by (auto simp: printable_def hex_digit_def Let_def)

lemma printable_lits [simp]:
  "printable (CHR 0x22)" "printable (CHR 0x5C)" "printable (CHR ''['')" "printable (CHR '']'')" "printable (CHR ''{'')" "printable (CHR ''}'')"
  "printable (CHR '':'')" "printable (CHR '' '')" "printable (CHR '','')" "printable (CHR ''-'')" "printable (CHR ''n'')" "printable (CHR ''u'')"
  "printable (CHR ''l'')" "printable (CHR ''t'')" "printable (CHR ''r'')" "printable (CHR ''e'')" "printable (CHR ''f'')" "printable (CHR ''a'')"
  "printable (CHR ''s'')"
  by (simp_all add: printable_def)

lemma digit_printable: "is_digit c \<Longrightarrow> printable c"
  by (auto simp: is_digit_def printable_def Let_def)

lemma esc_char_printable: "list_all printable (esc_char c)"
proof -
  have "(of_char c :: nat) div 16 < 16" by (rule less_mult_imp_div_less) simp
  then have "printable (hex_digit (of_char c div 16))" "printable (hex_digit (of_char c mod 16))"
    by (auto intro!: hex_digit_printable)
  then show ?thesis by (simp add: esc_char_def Let_def) (simp add: printable_def)
qed

lemma list_all_concat_map: "(\<And>x. list_all P (F x)) \<Longrightarrow> list_all P (concat (map F xs))"
  by (induction xs) simp_all

lemma str_join_all: "list_all P sep \<Longrightarrow> (\<And>x. x \<in> set xs \<Longrightarrow> list_all P x) \<Longrightarrow> list_all P (str_join sep xs)"
  by (induction sep xs rule: str_join.induct) simp_all

lemma str_int_printable: "list_all printable (str_int n)"
proof -
  have "list_all printable (str_nat k)" for k
    by (simp add: list_all_iff str_nat_digits digit_printable)
  then show ?thesis by (simp add: str_int_def)
qed

lemma quote_printable: "list_all printable (quote s)"
  by (simp add: quote_with_def list_all_concat_map [OF esc_char_printable])

lemma dump_printable: "float_free j \<Longrightarrow> list_all printable (dump False l j)"
proof (induction j arbitrary: l)
  case (JArr xs)
  then show ?case by (auto simp: nl_def item_sep_def intro!: str_join_all)
next
  case (JObj d)
  then show ?case by (fastforce simp: nl_def item_sep_def quote_printable intro!: str_join_all)
qed (simp_all add: str_int_printable quote_printable)

section \<open>A run of the driver\<close>

text \<open>Archiving a cell's tree changes nothing outside the directory of the cell in the archive.\<close>

lemma copy_tree_keeps:
  assumes "\<not> within q destination"
  shows "fs_read (copy_tree source destination t) q = fs_read t q"
proof -
  have "fs_read (foldl (\<lambda>t (p, n). dset (Path (path_root destination) (path_parts destination @ relparts p source)) n t) t es) q =
      fs_read t q" for es
    using assms by (induction es arbitrary: t) (auto simp: fs_read_def within_def)
  then show ?thesis by (simp add: copy_tree_def Let_def)
qed

lemma archive_keeps:
  assumes "\<not> within q (path_join d (cell_stem c))"
  shows "fs_read (archive_cell_tree (Some d) c work t) q = fs_read t q"
proof -
  have one: "fs_read (archive_one (path_join d (cell_stem c)) work t (source, dest)) q = fs_read t q"
    if "dest \<in> {''repo'', ''session''}" for t source dest
  proof -
    have "within (path_join (path_join d (cell_stem c)) dest) (path_join d (cell_stem c))"
      using that by (auto simp: path_of_def starts_with_def intro!: path_join_within)
    then have "\<not> within q (path_join (path_join d (cell_stem c)) dest)" using assms within_trans by blast
    then show ?thesis by (simp add: archive_one_def Let_def copy_tree_keeps)
  qed
  show ?thesis by (simp add: archive_cell_tree_def one)
qed

text \<open>The driver's account of a cell up to the hidden test, and what the audit reads in it.\<close>

definition cell_trace :: "driver \<Rightarrow> cell \<Rightarrow> path \<Rightarrow> int \<Rightarrow> nat \<Rightarrow> outcome \<Rightarrow> window \<Rightarrow> string option \<Rightarrow> jobj list" where
  "cell_trace dr c d timeout before out w fault =
     mark dr ''fault-check'' [(''requests'', json_int (w_requests w)), (''fault'', json_text fault)]
    (mark dr ''exit'' [(''exitCode'', json_int (co_exit_code out)), (''timedOut'', JBool (co_timed_out out)), (''spawnError'', json_text (co_spawn_error out))]
    (mark dr ''spawn'' [(''arm'', JStr (cell_arm c)), (''timeoutSec'', JInt timeout), (''ledgerStartLine'', JInt (int before))]
    (mark dr ''cell-dir-recreated'' [(''path'', JStr (path_str d))] [])))"

lemma run_cell_detail:
  assumes "run_cell dr ca c k d timeout t = Inr (t', r)"
  obtains pr :: prepared and t1 t2 out w fault t3 me tr rows m where
    "dr_runner dr (pr_invocation pr) t1 = (t2, out)"
    "fault = harness_fault dr t2 d (ci_work_dir (pr_invocation pr)) (cell_arm c) w out"
    "measure_cell dr k (ci_work_dir (pr_invocation pr)) timeout out fault
      (cell_trace dr c d timeout (pr_ledger_before pr) out w fault) t2 = (t3, me, tr)"
    "r = result_record c k (dr_now_iso dr) me out w m (pr_digest pr)"
    "t' = archive_cell_tree (ca_archive_dir ca) c d (write_cell_artifacts (ca_artifacts_dir ca) c
      (mark dr ''scored'' [(''outcome'', jget r ''outcome''), (''gauge'', jget r ''gauge'')] tr) rows t3)"
proof -
  obtain t1 pr where p: "prepare_cell dr ca c k d timeout t = Inr (t1, pr)"
    using assms unfolding run_cell_def Let_def by (elim bindE_pairE)
  obtain t2 out where run': "dr_runner dr (pr_invocation pr) t1 = (t2, out)" by fastforce
  define w where "w = summarize_ledger_window t2 (pr_ledger pr) (pr_ledger_before pr)"
  define fault where "fault = harness_fault dr t2 d (ci_work_dir (pr_invocation pr)) (cell_arm c) w out"
  obtain t3 me tr where m: "measure_cell dr k (ci_work_dir (pr_invocation pr)) timeout out fault
      (cell_trace dr c d timeout (pr_ledger_before pr) out w fault) t2 = (t3, me, tr)" by (metis prod_cases3)
  obtain ms rows where "r = result_record c k (dr_now_iso dr) me out w ms (pr_digest pr)"
      "t' = archive_cell_tree (ca_archive_dir ca) c d (write_cell_artifacts (ca_artifacts_dir ca) c
        (mark dr ''scored'' [(''outcome'', jget r ''outcome''), (''gauge'', jget r ''gauge'')] tr) rows t3)"
    using assms m unfolding run_cell_def cell_trace_def fault_def w_def
    by (auto simp: p run' Let_def map_error_def split: sum.splits)
  then show thesis by (rule that [OF run' fault_def m])
qed

lemma diagnostics_kept:
  assumes "sfx \<in> {''driver.jsonl'', ''ledger.jsonl''}"
    and p_def: "p = path_join (path_join run_dir ''diagnostics'') (cell_stem c @ ''.'' @ sfx)"
  shows "fs_read (archive_cell_tree (Some (path_join run_dir ''trees'')) c work t) p = fs_read t p"
proof (rule archive_keeps)
  have free: "CHR ''/'' \<notin> set (cell_stem c)"
    using str_replace_free [of "CHR ''/''" "''__''" "cell_id c"] by (simp add: cell_stem_def)
  then have "path_root (path_of (cell_stem c)) = []" by (cases "cell_stem c") (auto simp: path_of_def starts_with_def)
  then have tree: "path_parts (path_join (path_join run_dir ''trees'') (cell_stem c)) =
      path_parts run_dir @ ''trees'' # path_parts (path_of (cell_stem c))"
    by (simp add: path_join_def Let_def path_join_simple simple_part_def path_of_simple)
  have "simple_part (cell_stem c @ ''.'' @ sfx)" using assms(1) observation_name [of sfx c] by auto
  then have "path_parts p = path_parts run_dir @ [''diagnostics'', cell_stem c @ ''.'' @ sfx]"
    by (simp add: p_def path_join_simple simple_part_def)
  then show "\<not> within p (path_join (path_join run_dir ''trees'') (cell_stem c))"
    by (simp add: within_def tree)
qed

end
