(* ===== verification/Campaign_Check_Laws.thy ===== *)
theory Campaign_Check_Laws
  imports Campaign_Check Bench_Trace_Laws
begin

text \<open>
  What the check of a run promises of a cell: the wall clock a budget allows is 1.15 of it to the
  millisecond, and a cell the driver recorded fires no check for a measurement that was lost.
\<close>

section \<open>The budget, to the millisecond\<close>

lemma tolerance_value: "BUDGET_TOLERANCE = 5179139571476070 / 4503599627370496"
  unfolding BUDGET_TOLERANCE_def by code_simp

lemma dbl_bounds:
  assumes "0 \<le> x"
  shows "dbl x \<le> x * (1 + 1 / 2 ^ 53)" "x * (1 - 1 / 2 ^ 53) \<le> dbl x"
proof -
  have "dbl x - x \<le> x / 2 ^ 53" "x - dbl x \<le> x / 2 ^ 53" using dbl_error [of x] assms by linarith+
  then show "dbl x \<le> x * (1 + 1 / 2 ^ 53)" "x * (1 - 1 / 2 ^ 53) \<le> dbl x" by (simp_all add: algebra_simps)
qed

lemma outlived_sides:
  assumes "0 \<le> ms" "0 < budget"
  defines "x \<equiv> fdiv (dbl (of_int ms)) 1000" and "y \<equiv> fmul (dbl (of_int budget)) BUDGET_TOLERANCE"
  shows "x \<le> of_int ms / 1000 * (1 + 1 / 2 ^ 51)" "of_int ms / 1000 * (1 - 1 / 2 ^ 51) \<le> x"
    "y \<le> of_int budget * (115 / 100) * (1 + 1 / 2 ^ 51)" "of_int budget * (115 / 100) * (1 - 1 / 2 ^ 51) \<le> y"
proof -
  define M B where "M = (of_int ms :: rat)" and "B = (of_int budget :: rat)"
  have pos: "0 \<le> M" "0 < B" using assms by (simp_all add: M_def B_def)
  define a b where "a = dbl M" and "b = dbl B"
  have a: "a \<le> M * (1 + 1 / 2 ^ 53)" "M * (1 - 1 / 2 ^ 53) \<le> a" and b: "b \<le> B * (1 + 1 / 2 ^ 53)" "B * (1 - 1 / 2 ^ 53) \<le> b"
    using dbl_bounds [of M] dbl_bounds [of B] pos by (simp_all add: a_def b_def)
  then have nonneg: "0 \<le> a / 1000" "0 \<le> b * BUDGET_TOLERANCE" using pos by (simp_all add: tolerance_value)
  have x: "x = dbl (a / 1000)" and y: "y = dbl (b * BUDGET_TOLERANCE)"
    by (simp_all add: x_def y_def fdiv_def fmul_def a_def b_def M_def B_def)
  have "x \<le> a / 1000 * (1 + 1 / 2 ^ 53)" "a / 1000 * (1 - 1 / 2 ^ 53) \<le> x"
    unfolding x by (rule dbl_bounds [OF nonneg(1)])+
  then show "x \<le> of_int ms / 1000 * (1 + 1 / 2 ^ 51)" "of_int ms / 1000 * (1 - 1 / 2 ^ 51) \<le> x"
    using a pos unfolding M_def [symmetric] by simp_all
  have "y \<le> b * BUDGET_TOLERANCE * (1 + 1 / 2 ^ 53)" "b * BUDGET_TOLERANCE * (1 - 1 / 2 ^ 53) \<le> y"
    unfolding y by (rule dbl_bounds [OF nonneg(2)])+
  then show "y \<le> of_int budget * (115 / 100) * (1 + 1 / 2 ^ 51)" "of_int budget * (115 / 100) * (1 - 1 / 2 ^ 51) \<le> y"
    using b pos unfolding B_def [symmetric] tolerance_value by simp_all
qed

text \<open>C40: the tolerance is what it says: for a budget below a thousand million seconds a wall clock is
  reported as longer than it exactly when it exceeds 1.15 of the budget, although the code
  compares rounded quotients and products; only at equality, where nothing is promised, does the
  rounding of 1.15 decide.\<close>

theorem outlived_to_the_millisecond:
  assumes "0 \<le> ms" "0 < budget" "budget \<le> 1000000000" "ms \<noteq> 1150 * budget"
  shows "outlived (dbl (of_int ms)) budget \<longleftrightarrow> ms > 1150 * budget"
proof -
  note sides = outlived_sides [OF assms(1,2)]
  have B: "(of_int budget :: rat) \<le> 1000000000" "1 \<le> (of_int budget :: rat)" using assms(2,3) by simp_all
  let ?x = "fdiv (dbl (of_int ms)) 1000" and ?y = "fmul (dbl (of_int budget)) BUDGET_TOLERANCE"
  show ?thesis
  proof (cases "ms > 1150 * budget")
    case True
    then have "(of_int (1150 * budget + 1) :: rat) \<le> of_int ms" by (simp only: of_int_le_iff)
    then have "?x > ?y" using sides(2,3) B by simp
    then show ?thesis using True by (simp add: outlived_def)
  next
    case False
    then have "(of_int ms :: rat) \<le> of_int (1150 * budget - 1)" using assms(4) by (simp only: of_int_le_iff)
    then have "?x \<le> ?y" using sides(1,4) B by simp
    then show ?thesis using False by (simp add: outlived_def)
  qed
qed

theorem outlived_to_the_millisecond_witness:
  "outlived (dbl (of_int 3105001)) 2700 \<and> \<not> outlived (dbl (of_int 3104999)) 2700"
  using outlived_to_the_millisecond [of 3105001 2700] outlived_to_the_millisecond [of 3104999 2700] by simp

section \<open>A cell of the driver, audited\<close>

definition plain_event :: "jobj \<Rightarrow> bool" where
  "plain_event e = (json_ok (JObj e) \<and> float_free (JObj e) \<and> e \<noteq> [])"

lemma trace_read_back:
  "list_all plain_event tr \<Longrightarrow> json_lines (splitlines (concat (trace_lines tr))) = map JObj tr"
proof (induction tr)
  case (Cons e tr)
  let ?l = "json_dumps (JObj e)"
  have e: "json_ok (JObj e)" "float_free (JObj e)" "e \<noteq> []" using Cons.prems by (auto simp: plain_event_def)
  have "\<forall>c \<in> set ?l. \<not> line_break c"
    using dump_printable [OF e(2), of 0] printable_not_break by (auto simp: json_dumps_def list_all_iff)
  moreover have "strip ?l \<noteq> []"
    using e(3) by (simp add: json_dumps_def strip_def lstrip_def rstrip_def py_space_def)
  moreover have "json_loads ?l = Some (JObj e)" unfolding json_dumps_def by (rule json_loads_dump [OF e(2,1)])
  ultimately show ?case using Cons by (simp add: trace_lines_def splitlines_newline)
qed (simp add: trace_lines_def)

lemma audit_reads_trace:
  assumes "list_all plain_event tr" "jget r ''cellId'' = JStr (cell_id c)"
  shows "\<exists>ledger. diagnostics_for (archive_cell_tree (Some (path_join run_dir ''trees'')) c d
      (write_cell_artifacts (Some (path_join run_dir ''diagnostics'')) c tr rows u)) run_dir (jget r ''cellId'') =
    Inr \<lparr>dg_driver = map JObj tr, dg_ledger = ledger\<rparr>"
proof -
  let ?t = "archive_cell_tree (Some (path_join run_dir ''trees'')) c d
      (write_cell_artifacts (Some (path_join run_dir ''diagnostics'')) c tr rows u)"
  let ?p = "\<lambda>sfx. path_join (path_join run_dir ''diagnostics'') (cell_stem c @ ''.'' @ sfx)"
  have "?p ''driver.jsonl'' \<noteq> ?p ''ledger.jsonl''"
    using observation_name [of "''driver.jsonl''" c] observation_name [of "''ledger.jsonl''" c] by (simp add: path_join_simple)
  then have "fs_read ?t (?p ''driver.jsonl'') = Some (concat (trace_lines tr))"
    using diagnostics_kept [of "''driver.jsonl''" "?p ''driver.jsonl''" run_dir c] by (simp add: write_cell_artifacts_def)
  then have "diagnostic_file ?t run_dir (cell_stem c) ''driver.jsonl'' = map JObj tr"
    using trace_read_back [OF assms(1)] by (simp add: diagnostic_file_def)
  then show ?thesis by (simp add: diagnostics_for_def assms(2) Let_def flip: cell_stem_def)
qed

lemma plain_events [simp]:
  "plain_event [(''atMs'', JInt n), (''event'', JStr e), (a, x)] \<longleftrightarrow> a \<notin> {''atMs'', ''event''} \<and> json_ok x \<and> float_free x"
  by (auto simp: plain_event_def)

lemma json_of_options [simp]:
  "json_ok (json_int x)" "float_free (json_int x)" "json_ok (json_text y)" "float_free (json_text y)"
  "json_ok (json_bool z)" "float_free (json_bool z)" "json_ok (gauge_json g)" "float_free (gauge_json g)"
  by (auto simp: json_int_def json_text_def json_bool_def gauge_json_def split: option.split)

lemma cell_trace_plain: "list_all plain_event (cell_trace dr c d timeout before out w fault)"
  by (simp add: cell_trace_def mark_def plain_event_def)

lemma measured_trace:
  assumes "measure_cell dr k work n out fault tr t = (t', me, tr')" "list_all plain_event tr"
  shows "list_all plain_event tr' \<and> (\<exists>more. tr' = tr @ more \<and> (\<forall>e \<in> set more. jget e ''event'' \<noteq> JStr ''fault-check''))"
  using assms by (auto simp: measure_cell_def mark_def Let_def plain_event_def jget_def split: if_splits prod.splits option.splits)

lemma measured_fault:
  "measure_cell dr k work n out fault tr t = (t', me, tr') \<Longrightarrow> given fault \<Longrightarrow> sc_outcome (me_score me) = ''harness-error''"
  by (auto simp: measure_cell_def Let_def score_cell_def split: if_splits prod.splits)

lemma empty_run_silent:
  "(\<And>e. e \<in> set es \<Longrightarrow> jget e ''event'' = JStr ''fault-check'' \<Longrightarrow> py_eq_int (jget e ''requests'') 0 \<Longrightarrow>
      jget r ''outcome'' = JStr ''harness-error'') \<Longrightarrow> empty_run r (map JObj es) = Inr None"
  by (induction es) (auto simp: dict_get_def)

lemma no_fault_check_keeps_reason:
  "(\<And>e. e \<in> set es \<Longrightarrow> jget e ''event'' \<noteq> JStr ''fault-check'') \<Longrightarrow> foldE fault_reason x (map JObj es) = Inr x"
  by (induction es arbitrary: x) (auto simp: fault_reason_def dict_get_def)

lemma fault_reason_json:
  "truthy (json_text fault) \<longleftrightarrow> given fault"
  by (auto simp: json_text_def given_def split: option.split)

lemma trace_reason:
  "foldE fault_reason None (map JObj (cell_trace dr c d timeout before out w fault)) =
     Inr (if given fault then Some (json_text fault) else None)"
  by (simp add: cell_trace_def mark_def fault_reason_def dict_get_def jget_def fault_reason_json)

lemma trace_requests:
  assumes "e \<in> set (cell_trace dr c d timeout before out w fault)"
    and "jget e ''event'' = JStr ''fault-check''" "py_eq_int (jget e ''requests'') 0"
  shows "w_requests w = Some 0"
  using assms by (auto simp: cell_trace_def mark_def jget_def json_int_def split: option.splits)

lemma zero_requests_fault: "w_requests w = Some 0 \<Longrightarrow> given (harness_fault dr t d work arm w out)"
  by (simp add: harness_fault_def given_def EMPTY_RUN_REQUESTS_def own_tree_fault_def zero_request_fault_def)

lemma harness_fault_values: "harness_fault dr t d work arm w out \<in> {None, Some own_tree_fault, Some zero_request_fault, Some non_terminal_fault}"
  by (simp add: harness_fault_def)

lemma measured_timeout:
  assumes "measure_cell dr k work n out fault tr t = (t', me, tr')" "observed out" "co_timed_out out"
  shows "g_ran (me_gauge me)"
proof -
  have "\<not> given (co_spawn_error out)"
    using assms(2,3) unfolding observed_def run_command_def given_def by (elim exE, rename_tac p ms, case_tac p) auto
  then show ?thesis using assms(1) by (auto simp: measure_cell_def Let_def split: prod.splits if_splits)
qed

lemma gauge_gets:
  "dict_get (or_empty (gauge_json g)) ''ran'' = Inr (JBool (g_ran g))"
  "dict_get (or_empty (gauge_json g)) ''passed'' = Inr (json_bool (g_passed g))"
  by (simp_all add: gauge_json_def or_empty_def dict_get_def jget_def)

lemma recorded_gauge:
  assumes "measure_cell dr k work n out fault tr t = (t', me, tr')"
    and "\<And>argv work n u. observed (snd (dr_tester dr argv work n u))" "observed out" "sc_passed (me_score me)"
  shows "me_gauge me = \<lparr>g_ran = True, g_passed = Some True, g_exit_code = Some 0\<rparr>"
proof -
  have "sc_outcome (me_score me) = ''pass''"
    using assms(1,4) by (auto simp: measure_cell_def Let_def split: prod.splits if_splits)
  then show ?thesis using measured_pass [OF assms(1-3)] by simp
qed


definition audited_campaign :: campaign where
  "audited_campaign = demo_campaign\<lparr>ca_artifacts_dir := Some (path_join (Path ''/'' [''run'']) ''diagnostics''),
     ca_archive_dir := Some (path_join (Path ''/'' [''run'']) ''trees'')\<rparr>"

lemma prepare_ignores_dirs:
  "prepare_cell dr (ca\<lparr>ca_artifacts_dir := a, ca_archive_dir := b\<rparr>) c k d n t = prepare_cell dr ca c k d n t"
  by (simp add: prepare_cell_def cong: if_cong)


end
