(* ===== verification/Campaign_Arms_Laws.thy ===== *)
theory Campaign_Arms_Laws
  imports Campaign_Check Bench_Plan_Laws
begin

text \<open>
  What the check of a run promises of its arms: whatever order the records are listed in, a run cut
  off at any point of its plan is called unfinished in the task it stopped in and nothing worse,
  and a run that went through its plan is not named at all.
\<close>

section \<open>A run that was cut off\<close>

text \<open>A sweep is the cells of one task, every arm among them; a plan is sweeps one after the other.\<close>

definition arm_sweep :: "string list \<Rightarrow> cell list \<Rightarrow> bool" where
  "arm_sweep arms w = ((\<exists>tid. \<forall>c \<in> set w. cell_task c = tid) \<and> cell_arm ` set w = set arms)"

definition sweeps :: "string list \<Rightarrow> cell list \<Rightarrow> bool" where
  "sweeps arms cells = (\<exists>ws. cells = concat ws \<and> (\<forall>w \<in> set ws. arm_sweep arms w))"

lemma sweeps_Nil: "sweeps arms []"
  by (auto simp: sweeps_def intro: exI [of _ "[]"])

lemma sweeps_one: "arm_sweep arms w \<Longrightarrow> sweeps arms w"
  by (auto simp: sweeps_def intro: exI [of _ "[w]"])

lemma sweeps_append: "sweeps arms xs \<Longrightarrow> sweeps arms ys \<Longrightarrow> sweeps arms (xs @ ys)"
  unfolding sweeps_def by (metis Un_iff concat_append set_append)

lemma sweeps_concat: "(\<And>x. x \<in> set xss \<Longrightarrow> sweeps arms x) \<Longrightarrow> sweeps arms (concat xss)"
  by (induction xss) (auto intro: sweeps_Nil sweeps_append)

lemma plan_is_sweeps:
  assumes "build_run_plan tasks models arms reps capabilities cal = Inr plan"
  shows "sweeps arms plan"
proof -
  from assms have arms: "cal \<noteq> 0 \<longrightarrow> CALIBRATION_ARM \<in> set arms"
    and plan: "plan = concat (map (block_cells arms reps cal) (concat (map (\<lambda>model. map (\<lambda>capability. (model, capability, tasks)) capabilities) models)))"
    by (simp_all add: build_run_plan_def plan_cells_Inr)
  have "arm_sweep arms (task_sweep model capability arms reps cal rep k)" for model capability rep k
    using arms by (auto simp: arm_sweep_def task_sweep_def image_Un image_image)
  then have "sweeps arms (task_sweep model capability arms reps cal rep k)" for model capability rep k by (rule sweeps_one)
  then have "sweeps arms (block_cells arms reps cal b)" for b
    by (cases b) (auto simp: block_cells_def intro!: sweeps_concat)
  then show ?thesis unfolding plan by (intro sweeps_concat) auto
qed

definition arms_of_task :: "cell list \<Rightarrow> string \<Rightarrow> string set" where
  "arms_of_task cells tid = {cell_arm c | c. c \<in> set cells \<and> cell_task c = tid}"

lemma arms_of_task_append: "arms_of_task (xs @ ys) tid = arms_of_task xs tid \<union> arms_of_task ys tid"
  by (auto simp: arms_of_task_def)

lemma sweep_arms: "arm_sweep arms w \<Longrightarrow> c \<in> set w \<Longrightarrow> arms_of_task w (cell_task c) = set arms"
  by (auto simp: arm_sweep_def arms_of_task_def) (metis imageE)

lemma prefix_of_sweeps:
  assumes "\<forall>w \<in> set ws. arm_sweep arms w" "prefix xs (concat ws)" "c \<in> set xs"
  shows "arms_of_task xs (cell_task c) \<subseteq> set arms \<and>
    (cell_task c \<noteq> cell_task (last xs) \<or> xs = concat ws \<longrightarrow> arms_of_task xs (cell_task c) = set arms)"
proof -
  have sub: "arms_of_task xs tid \<subseteq> set arms" for tid
  proof -
    have "set xs \<subseteq> set (concat ws)" using assms(2) by (rule set_mono_prefix)
    then show ?thesis using assms(1) by (fastforce simp: arms_of_task_def arm_sweep_def)
  qed
  moreover have "set arms \<subseteq> arms_of_task xs (cell_task c)" if "cell_task c \<noteq> cell_task (last xs) \<or> xs = concat ws"
    using assms that
  proof (induction ws arbitrary: xs)
    case (Cons w ws)
    show ?case
    proof (cases "\<exists>ys. xs = w @ ys \<and> prefix ys (concat ws)")
      case True
      then obtain ys where ys: "xs = w @ ys" "prefix ys (concat ws)" by blast
      show ?thesis
      proof (cases "c \<in> set w")
        case True
        then show ?thesis using sweep_arms [of arms w c] Cons.prems(1) by (auto simp: ys arms_of_task_append)
      next
        case False
        then have c: "c \<in> set ys" using Cons.prems(3) ys by simp
        then have "last xs = last ys" using ys by (cases ys) auto
        then show ?thesis using Cons.IH [OF _ ys(2) c] Cons.prems(1,4) by (auto simp: ys arms_of_task_append)
      qed
    next
      case False
      then have "prefix xs w" using Cons.prems(2) by (auto simp: prefix_append)
      then obtain zs where w: "w = xs @ zs" by (rule prefixE)
      have "zs \<noteq> []" using False w by auto
      obtain tid where "\<forall>c \<in> set w. cell_task c = tid" using Cons.prems(1) by (auto simp: arm_sweep_def)
      then have "cell_task c = cell_task (last xs)" using w Cons.prems(3) by (metis UnCI last_in_set length_pos_if_in_set length_greater_0_conv set_append)
      then show ?thesis using Cons.prems(4) w \<open>zs \<noteq> []\<close> by simp
    qed
  qed simp
  ultimately show ?thesis by blast
qed

section \<open>The folds over the rows, by content\<close>

definition arms_in :: "(string, string list) dict \<Rightarrow> string \<Rightarrow> string list" where
  "arms_in d tid = (case dget d tid of None \<Rightarrow> [] | Some xs \<Rightarrow> xs)"

definition says :: "jobj \<Rightarrow> string \<Rightarrow> string \<Rightarrow> bool" where
  "says r k s = (dget r k = Some (JStr s))"

lemma row_text_iff: "row_text r k = Inr s \<longleftrightarrow> says r k s"
  by (auto simp: row_text_def says_def split: option.split json.split)

lemma add_arm_fold:
  assumes "\<And>r. r \<in> set rows \<Longrightarrow> \<exists>tid arm. says r ''taskId'' tid \<and> says r ''arm'' arm"
  shows "\<exists>d. foldE add_arm d0 rows = Inr d \<and>
    (\<forall>tid arm. arm \<in> set (arms_in d tid) \<longleftrightarrow>
      arm \<in> set (arms_in d0 tid) \<or> (\<exists>r \<in> set rows. says r ''taskId'' tid \<and> says r ''arm'' arm)) \<and>
    (\<forall>tid. dget d tid \<noteq> None \<longleftrightarrow> dget d0 tid \<noteq> None \<or> (\<exists>r \<in> set rows. says r ''taskId'' tid))"
  using assms
proof (induction rows arbitrary: d0)
  case (Cons r rows)
  obtain tid arm where r: "says r ''taskId'' tid" "says r ''arm'' arm" using Cons.prems [of r] by auto
  define d1 where "d1 = dset tid (if arm \<in> set (arms_in d0 tid) then arms_in d0 tid else arms_in d0 tid @ [arm]) d0"
  have step: "add_arm d0 r = Inr d1"
    using r [folded row_text_iff] by (simp only: add_arm_def bindE_Inr Let_def arms_in_def [symmetric] d1_def)
  obtain d where d: "foldE add_arm d1 rows = Inr d"
    "\<And>t a. a \<in> set (arms_in d t) \<longleftrightarrow> a \<in> set (arms_in d1 t) \<or> (\<exists>r \<in> set rows. says r ''taskId'' t \<and> says r ''arm'' a)"
    "\<And>t. dget d t \<noteq> None \<longleftrightarrow> dget d1 t \<noteq> None \<or> (\<exists>r \<in> set rows. says r ''taskId'' t)"
    using Cons.IH [OF Cons.prems [OF list.set_intros(2)], of d1] by blast
  have one: "says r ''taskId'' t \<longleftrightarrow> t = tid" "says r ''arm'' a \<longleftrightarrow> a = arm" for t a using r by (auto simp: says_def)
  have d1: "a \<in> set (arms_in d1 t) \<longleftrightarrow> a \<in> set (arms_in d0 t) \<or> (t = tid \<and> a = arm)" for a t
    by (auto simp: arms_in_def d1_def)
  have d1': "dget d1 t \<noteq> None \<longleftrightarrow> dget d0 t \<noteq> None \<or> t = tid" for t by (simp add: d1_def)
  have "a \<in> set (arms_in d t) \<longleftrightarrow>
      a \<in> set (arms_in d0 t) \<or> (\<exists>x \<in> set (r # rows). says x ''taskId'' t \<and> says x ''arm'' a)" for a t
    unfolding d(2) [of a t] d1 by (simp add: one)
  moreover have "dget d t \<noteq> None \<longleftrightarrow> dget d0 t \<noteq> None \<or> (\<exists>x \<in> set (r # rows). says x ''taskId'' t)" for t
    unfolding d(3) [of t] d1' by (simp add: one)
  moreover have "foldE add_arm d0 (r # rows) = Inr d" using step d(1) by simp
  ultimately show ?case by blast
qed simp

lemma add_start_fold:
  assumes "\<And>r. r \<in> set rows \<Longrightarrow> \<exists>tid iso. says r ''taskId'' tid \<and> says r ''startedIso'' iso"
    and "\<And>t s. dget d0 t = Some s \<Longrightarrow> P t s"
    and "\<And>r t s. r \<in> set rows \<Longrightarrow> says r ''taskId'' t \<Longrightarrow> says r ''startedIso'' s \<Longrightarrow> P t s"
  shows "\<exists>d. foldE add_start d0 rows = Inr d \<and> (\<forall>t s. dget d t = Some s \<longrightarrow> P t s) \<and>
    (\<forall>t s. (dget d0 t = Some s \<or> (s \<noteq> [] \<and> (\<exists>r \<in> set rows. says r ''taskId'' t \<and> says r ''startedIso'' s))) \<longrightarrow>
       (\<exists>s'. dget d t = Some s' \<and> s \<le> s'))"
  using assms
proof (induction rows arbitrary: d0)
  case (Cons r rows)
  obtain tid iso where r: "says r ''taskId'' tid" "says r ''startedIso'' iso" using Cons.prems(1) [of r] by auto
  define prev where "prev = (case dget d0 tid of None \<Rightarrow> [] | Some s \<Rightarrow> s)"
  define d1 where "d1 = (if iso > prev then dset tid iso d0 else d0)"
  have step: "add_start d0 r = Inr d1"
    using r by (simp add: add_start_def d1_def prev_def started_at_def says_def flip: row_text_iff)
      (simp add: row_text_def)
  have P1: "P t s" if "dget d1 t = Some s" for t s
    using that Cons.prems(2) Cons.prems(3) [of r, OF _ r] by (auto simp: d1_def split: if_splits)
  have "\<exists>d. foldE add_start d1 rows = Inr d \<and> (\<forall>t s. dget d t = Some s \<longrightarrow> P t s) \<and>
    (\<forall>t s. (dget d1 t = Some s \<or> (s \<noteq> [] \<and> (\<exists>r \<in> set rows. says r ''taskId'' t \<and> says r ''startedIso'' s))) \<longrightarrow>
       (\<exists>s'. dget d t = Some s' \<and> s \<le> s'))"
  proof (rule Cons.IH)
    show "\<exists>tid iso. says x ''taskId'' tid \<and> says x ''startedIso'' iso" if "x \<in> set rows" for x
      using Cons.prems(1) [of x] that by simp
    show "P t s" if "dget d1 t = Some s" for t s using that by (rule P1)
    show "P t s" if "x \<in> set rows" "says x ''taskId'' t" "says x ''startedIso'' s" for x t s
      using Cons.prems(3) [of x] that by simp
  qed
  then obtain d where d: "foldE add_start d1 rows = Inr d" "\<forall>t s. dget d t = Some s \<longrightarrow> P t s"
    "\<And>t s. dget d1 t = Some s \<or> (s \<noteq> [] \<and> (\<exists>r \<in> set rows. says r ''taskId'' t \<and> says r ''startedIso'' s)) \<Longrightarrow>
       \<exists>s'. dget d t = Some s' \<and> s \<le> s'"
    by blast
  have one: "says r ''taskId'' t \<longleftrightarrow> t = tid" "says r ''startedIso'' s \<longleftrightarrow> s = iso" for t s using r by (auto simp: says_def)
  have raise: "\<exists>s'. dget d1 t = Some s' \<and> s \<le> s'" if "dget d0 t = Some s \<or> (s \<noteq> [] \<and> t = tid \<and> s = iso)" for t s
    using that by (auto simp: d1_def prev_def not_less split: option.splits)
  have "\<exists>s'. dget d t = Some s' \<and> s \<le> s'"
    if "dget d0 t = Some s \<or> (s \<noteq> [] \<and> (\<exists>x \<in> set (r # rows). says x ''taskId'' t \<and> says x ''startedIso'' s))" for t s
  proof (cases "dget d0 t = Some s \<or> (s \<noteq> [] \<and> t = tid \<and> s = iso)")
    case True
    then obtain s1 where s1: "dget d1 t = Some s1" "s \<le> s1" using raise by blast
    then obtain s2 where "dget d t = Some s2" "s1 \<le> s2" using d(3) by blast
    then show ?thesis using s1(2) by auto
  next
    case False
    then show ?thesis using that d(3) by (auto simp: one)
  qed
  then show ?case using step d(1,2) by auto
qed auto

lemma max_key_None: "max_key f xs = None \<longleftrightarrow> xs = []"
  by (cases xs) (auto split: option.splits if_splits)

lemma max_key_Some: "max_key f xs = Some x \<Longrightarrow> x \<in> set xs \<and> (\<forall>y \<in> set xs. f y \<le> f x)"
proof (induction xs arbitrary: x)
  case (Cons a xs)
  show ?case
  proof (cases "max_key f xs")
    case None
    then show ?thesis using Cons.prems by (simp add: max_key_None)
  next
    case (Some y)
    then have "y \<in> set xs" "\<forall>z \<in> set xs. f z \<le> f y" using Cons.IH by auto
    then show ?thesis using Cons.prems Some by (auto split: if_splits intro: order.trans)
  qed
qed simp

section \<open>Complete tasks are not named\<close>

lemma arms_in_Nil [simp]: "arms_in [] tid = []"
  by (simp add: arms_in_def)

lemma arms_in_value: "arm \<in> set (arms_in d tid) \<Longrightarrow> \<exists>xs. (tid, xs) \<in> set d \<and> arm \<in> set xs"
  by (cases "dget d tid") (auto simp: arms_in_def dest: map_of_SomeD)

lemma by_task_spec:
  assumes "\<And>r. r \<in> set rows \<Longrightarrow> \<exists>tid arm. says r ''taskId'' tid \<and> says r ''arm'' arm"
  shows "\<exists>d. foldE add_arm [] rows = Inr d \<and>
    (\<forall>tid arm. arm \<in> set (arms_in d tid) \<longleftrightarrow> (\<exists>r \<in> set rows. says r ''taskId'' tid \<and> says r ''arm'' arm)) \<and>
    (\<forall>tid. dget d tid \<noteq> None \<longleftrightarrow> (\<exists>r \<in> set rows. says r ''taskId'' tid))"
  using add_arm_fold [where rows = rows and ?d0.0 = "[]", OF assms] by simp

definition started :: "jobj list \<Rightarrow> string \<Rightarrow> string \<Rightarrow> bool" where
  "started rows tid stamp = (\<exists>r \<in> set rows. says r ''taskId'' tid \<and> says r ''startedIso'' stamp)"

lemma starts_spec:
  assumes "\<And>r. r \<in> set rows \<Longrightarrow> \<exists>tid stamp. says r ''taskId'' tid \<and> says r ''startedIso'' stamp"
  shows "\<exists>e. foldE add_start [] rows = Inr e \<and> (\<forall>t s. dget e t = Some s \<longrightarrow> started rows t s) \<and>
    (\<forall>t s. s \<noteq> [] \<and> started rows t s \<longrightarrow> (\<exists>s'. dget e t = Some s' \<and> s \<le> s'))"
proof -
  have "\<exists>d. foldE add_start [] rows = Inr d \<and> (\<forall>t s. dget d t = Some s \<longrightarrow> started rows t s) \<and>
    (\<forall>t s. (dget [] t = Some s \<or> (s \<noteq> [] \<and> (\<exists>r \<in> set rows. says r ''taskId'' t \<and> says r ''startedIso'' s))) \<longrightarrow>
       (\<exists>s'. dget d t = Some s' \<and> s \<le> s'))"
    by (rule add_start_fold [OF assms]) (auto simp: started_def)
  then show ?thesis by (simp add: started_def)
qed

lemma add_arm_values:
  assumes "foldE add_arm [] rows = Inr d" "(tid, xs) \<in> set d" "\<And>r arm. r \<in> set rows \<Longrightarrow> says r ''arm'' arm \<Longrightarrow> arm \<in> A"
  shows "set xs \<subseteq> A"
proof -
  have "\<forall>p \<in> set d. set (snd p) \<subseteq> A"
  proof (rule foldE_invariant [OF assms(1), where P = "\<lambda>d. \<forall>p \<in> set d. set (snd p) \<subseteq> A"])
    fix u r v
    assume r: "r \<in> set rows" and u: "\<forall>p \<in> set u. set (snd p) \<subseteq> A" and "add_arm u r = Inr v"
    then obtain tid arm where arm: "says r ''arm'' arm"
      and v: "v = dset tid (if arm \<in> set (arms_in u tid) then arms_in u tid else arms_in u tid @ [arm]) u"
      by (auto simp: add_arm_def err_simps row_text_iff arms_in_def [symmetric] Let_def)
    have "set (arms_in u tid) \<subseteq> A" using u by (force dest: arms_in_value)
    then have "set (if arm \<in> set (arms_in u tid) then arms_in u tid else arms_in u tid @ [arm]) \<subseteq> A"
      using assms(3) [OF r arm] by simp
    moreover have "set v \<subseteq> insert (tid, if arm \<in> set (arms_in u tid) then arms_in u tid else arms_in u tid @ [arm]) (set u)"
      unfolding v by (rule set_dset_subset)
    ultimately show "\<forall>p \<in> set v. set (snd p) \<subseteq> A" using u by force
  qed simp
  from bspec [OF this assms(2)] show ?thesis by simp
qed

text \<open>The task that started last, when every other task has a row started before one of its rows.\<close>

lemma last_started_is:
  assumes "foldE add_start [] rows = Inr e"
    and rows: "\<And>r. r \<in> set rows \<Longrightarrow> \<exists>tid stamp. says r ''taskId'' tid \<and> says r ''startedIso'' stamp"
    and here: "r0 \<in> set rows" "says r0 ''taskId'' tail" "says r0 ''startedIso'' s0" "s0 \<noteq> []"
    and last: "\<And>r tid stamp. r \<in> set rows \<Longrightarrow> says r ''taskId'' tid \<Longrightarrow> says r ''startedIso'' stamp \<Longrightarrow> tid \<noteq> tail \<Longrightarrow>
      \<exists>r' \<in> set rows. \<exists>stamp'. says r' ''taskId'' tail \<and> says r' ''startedIso'' stamp' \<and> stamp < stamp'"
  shows "max_key (\<lambda>tid. case dget e tid of Some s \<Rightarrow> s | None \<Rightarrow> []) (map fst e) = Some tail"
proof -
  let ?f = "\<lambda>tid. case dget e tid of Some s \<Rightarrow> s | None \<Rightarrow> []"
  have e: "\<And>t s. dget e t = Some s \<Longrightarrow> started rows t s"
    "\<And>t s. s \<noteq> [] \<Longrightarrow> started rows t s \<Longrightarrow> \<exists>s'. dget e t = Some s' \<and> s \<le> s'"
    using starts_spec [of rows, OF rows] assms(1) by auto
  have "started rows tail s0" using here(1-3) by (auto simp: started_def)
  then have key: "tail \<in> set (map fst e)" using e(2) [OF here(4)] by (force dest: map_of_SomeD)
  then obtain x where x: "max_key ?f (map fst e) = Some x" by (cases "max_key ?f (map fst e)") (auto simp: max_key_None)
  then have in_e: "x \<in> set (map fst e)" and top: "?f tail \<le> ?f x" using max_key_Some [OF x] key by auto
  obtain sx where sx: "dget e x = Some sx" using in_e by (metis image_set in_keys_iff not_Some_eq)
  have "x = tail"
  proof (rule ccontr)
    assume "x \<noteq> tail"
    moreover obtain r where "r \<in> set rows" "says r ''taskId'' x" "says r ''startedIso'' sx" using e(1) [OF sx] by (auto simp: started_def)
    ultimately obtain r' s' where r': "r' \<in> set rows" "says r' ''taskId'' tail" "says r' ''startedIso'' s'" "sx < s'"
      using last by blast
    then have "s' \<noteq> []" by auto
    moreover have "started rows tail s'" using r' by (auto simp: started_def)
    ultimately obtain s'' where "dget e tail = Some s''" "s' \<le> s''" using e(2) by blast
    then show False using top r'(4) sx by simp
  qed
  then show ?thesis using x by simp
qed

lemma check_arms_is:
  assumes "foldE add_arm [] rows = Inr d" "max_key length (map snd d) = Some full" "foldE add_start [] rows = Inr e"
  shows "check_arms_are_comparable rows = Inr (List.map_filter
    (\<lambda>tid. arms_finding full (max_key (\<lambda>tid. case dget e tid of Some s \<Rightarrow> s | None \<Rightarrow> []) (map fst e)) (tid, arms_in d tid))
    (sort (map fst d)))"
  by (simp add: check_arms_are_comparable_def assms Let_def arms_in_def)

lemma set_map_filter: "set (List.map_filter g xs) = {y. \<exists>x \<in> set xs. g x = Some y}"
  by (induction xs) (auto simp: List.map_filter_def)

text \<open>What the check says of rows whose tasks, but one that started last, have every arm of the sweep.\<close>

lemma arms_check_result:
  assumes rows: "\<And>r. r \<in> set rows \<Longrightarrow> \<exists>tid arm stamp. says r ''taskId'' tid \<and> says r ''arm'' arm \<and> says r ''startedIso'' stamp \<and> stamp \<noteq> []"
    and arms: "\<And>r arm. r \<in> set rows \<Longrightarrow> says r ''arm'' arm \<Longrightarrow> arm \<in> set arms"
    and full: "\<And>r tid arm. r \<in> set rows \<Longrightarrow> says r ''taskId'' tid \<Longrightarrow> tid \<noteq> tail \<or> whole_run \<Longrightarrow> arm \<in> set arms \<Longrightarrow>
      \<exists>r' \<in> set rows. says r' ''taskId'' tid \<and> says r' ''arm'' arm"
    and last: "\<And>r tid stamp. r \<in> set rows \<Longrightarrow> says r ''taskId'' tid \<Longrightarrow> says r ''startedIso'' stamp \<Longrightarrow> tid \<noteq> tail \<Longrightarrow>
      \<exists>r' \<in> set rows. \<exists>stamp'. says r' ''taskId'' tail \<and> says r' ''startedIso'' stamp' \<and> stamp < stamp'"
  shows "\<exists>fs. check_arms_are_comparable rows = Inr fs \<and>
    (\<forall>f \<in> set fs. \<not> whole_run \<and> fi_defect f = ''PARTIAL'' \<and> fi_cell f = JStr tail)"
proof -
  have "\<And>r. r \<in> set rows \<Longrightarrow> \<exists>tid arm. says r ''taskId'' tid \<and> says r ''arm'' arm" using rows by blast
  from by_task_spec [of rows, OF this] obtain d where d: "foldE add_arm [] rows = Inr d"
    "\<And>tid arm. arm \<in> set (arms_in d tid) \<longleftrightarrow> (\<exists>r \<in> set rows. says r ''taskId'' tid \<and> says r ''arm'' arm)"
    "\<And>tid. dget d tid \<noteq> None \<longleftrightarrow> (\<exists>r \<in> set rows. says r ''taskId'' tid)"
    by blast
  have stamps: "\<And>r. r \<in> set rows \<Longrightarrow> \<exists>tid stamp. says r ''taskId'' tid \<and> says r ''startedIso'' stamp" using rows by blast
  from starts_spec [of rows, OF this] obtain e where e: "foldE add_start [] rows = Inr e" by blast
  define tl' where "tl' = max_key (\<lambda>tid. case dget e tid of Some s \<Rightarrow> s | None \<Rightarrow> []) (map fst e)"
  have named: "\<not> whole_run \<and> fi_defect f = ''PARTIAL'' \<and> fi_cell f = JStr tail"
    if full_in: "full' \<in> set (map snd d)" and f: "arms_finding full' tl' (tid, arms_in d tid) = Some f" and tid: "tid \<in> fst ` set d"
    for f full' tid
  proof -
    obtain t where "(t, full') \<in> set d" using full_in by auto
    from add_arm_values [OF d(1) this arms] have sub: "set full' \<subseteq> set arms" .
    obtain r where r: "r \<in> set rows" "says r ''taskId'' tid" using tid d(3) [of tid] by (auto simp: in_keys_iff)
    have "\<not> (tid \<noteq> tail \<or> whole_run)"
    proof
      assume "tid \<noteq> tail \<or> whole_run"
      then have "set arms \<subseteq> set (arms_in d tid)" using full [OF r] d(2) by blast
      then have "filter (\<lambda>a. a \<notin> set (arms_in d tid)) full' = []" using sub by (auto simp: filter_empty_conv)
      then show False using f by (simp add: arms_finding_def)
    qed
    then have tail: "tid = tail" "\<not> whole_run" by simp_all
    obtain s0 where s0: "says r ''startedIso'' s0" "s0 \<noteq> []" using rows [OF r(1)] by blast
    have "tl' = Some tail"
      unfolding tl'_def
    proof (rule last_started_is [OF e])
      show "r \<in> set rows" "says r ''taskId'' tail" "says r ''startedIso'' s0" "s0 \<noteq> []" using r s0 tail(1) by simp_all
    qed (fact stamps last)+
    then show ?thesis using f tail by (auto simp: arms_finding_def Let_def split: if_splits)
  qed
  show ?thesis
  proof (cases "max_key length (map snd d)")
    case None
    then show ?thesis by (simp add: check_arms_are_comparable_def d(1))
  next
    case (Some full')
    have full': "full' \<in> set (map snd d)" using max_key_Some [OF Some] by (rule conjunct1)
    let ?fs = "List.map_filter (\<lambda>tid. arms_finding full' tl' (tid, arms_in d tid)) (sort (map fst d))"
    have "check_arms_are_comparable rows = Inr ?fs" unfolding tl'_def by (rule check_arms_is [OF d(1) Some e])
    moreover have "\<forall>f \<in> set ?fs. \<not> whole_run \<and> fi_defect f = ''PARTIAL'' \<and> fi_cell f = JStr tail"
    proof
      fix f assume "f \<in> set ?fs"
      then obtain tid where tid: "tid \<in> set (sort (map fst d))" and f: "arms_finding full' tl' (tid, arms_in d tid) = Some f"
        unfolding set_map_filter by blast
      from tid have "tid \<in> fst ` set d" by (simp only: set_sort set_map)
      from named [OF full' f this] show "\<not> whole_run \<and> fi_defect f = ''PARTIAL'' \<and> fi_cell f = JStr tail" .
    qed
    ultimately show ?thesis by blast
  qed
qed

section \<open>A prefix of a plan\<close>

definition row_of_cell :: "cell \<Rightarrow> string \<Rightarrow> jobj \<Rightarrow> bool" where
  "row_of_cell c stamp r = (says r ''taskId'' (cell_task c) \<and> says r ''arm'' (cell_arm c) \<and> says r ''startedIso'' stamp)"

lemma says_unique: "says r k s \<Longrightarrow> says r k s' \<Longrightarrow> s' = s"
  by (simp add: says_def)

text \<open>C11: a run that was cut off is not taken for a broken comparison: when the records are those of the
  first cells of a plan, each started after the one before it, in whatever order the directory
  lists them, the check of the arms returns, it names at most the task of the last of these cells, as
  unfinished, and it names nothing when the plan went to its end.\<close>

theorem truncated_run_lacks_no_arm:
  assumes "build_run_plan tasks models arms reps capabilities cal = Inr plan" "n \<le> length plan" "set rows = row ` {..<n}"
    and "\<And>i. i < n \<Longrightarrow> row_of_cell (plan ! i) (stamp i) (row i) \<and> stamp i \<noteq> []"
    and "\<And>i j. i < j \<Longrightarrow> j < n \<Longrightarrow> stamp i < stamp j"
  shows "\<exists>fs. check_arms_are_comparable rows = Inr fs \<and>
    (\<forall>f \<in> set fs. n < length plan \<and> fi_defect f = ''PARTIAL'' \<and> fi_cell f = JStr (cell_task (plan ! (n - 1))))"
proof -
  obtain ws where ws: "plan = concat ws" "\<forall>w \<in> set ws. arm_sweep arms w"
    using plan_is_sweeps [OF assms(1)] by (auto simp: sweeps_def)
  let ?xs = "take n plan" and ?tail = "cell_task (plan ! (n - 1))"
  have row: "says (row i) ''taskId'' (cell_task (plan ! i))" "says (row i) ''arm'' (cell_arm (plan ! i))"
    "says (row i) ''startedIso'' (stamp i)" "stamp i \<noteq> []" if "i < n" for i
    using assms(4) [OF that] by (auto simp: row_of_cell_def)
  have cell: "plan ! i \<in> set ?xs" if "i < n" for i using that assms(2) by (metis in_set_conv_nth length_take min.absorb2 nth_take)
  have arms: "arms_of_task ?xs (cell_task (plan ! i)) \<subseteq> set arms \<and>
      (cell_task (plan ! i) \<noteq> ?tail \<or> n = length plan \<longrightarrow> arms_of_task ?xs (cell_task (plan ! i)) = set arms)" if "i < n" for i
  proof -
    have "last ?xs = plan ! (n - 1)" using that assms(2) by (subst last_conv_nth) (auto simp: min_def)
    moreover have "prefix ?xs (concat ws)" unfolding ws(1) by (rule take_is_prefix)
    ultimately show ?thesis using prefix_of_sweeps [OF ws(2) _ cell [OF that]] by (auto simp: ws(1) [symmetric])
  qed
  have "\<exists>fs. check_arms_are_comparable rows = Inr fs \<and>
    (\<forall>f \<in> set fs. n \<noteq> length plan \<and> fi_defect f = ''PARTIAL'' \<and> fi_cell f = JStr ?tail)"
  proof (rule arms_check_result)
    fix r assume r: "r \<in> set rows"
    then obtain i where i: "r = row i" "i < n" using assms(3) by auto
    show "\<exists>tid arm stamp. says r ''taskId'' tid \<and> says r ''arm'' arm \<and> says r ''startedIso'' stamp \<and> stamp \<noteq> []"
      using row [OF i(2)] i(1) by blast
    show "arm \<in> set arms" if "says r ''arm'' arm" for arm
      using that row(2) [OF i(2)] cell [OF i(2)] arms [OF i(2)] i(1) by (auto simp: arms_of_task_def dest: says_unique)
    show "\<exists>r' \<in> set rows. says r' ''taskId'' tid \<and> says r' ''arm'' arm"
      if tid: "says r ''taskId'' tid" and whole: "tid \<noteq> ?tail \<or> n = length plan" and arm: "arm \<in> set arms" for tid arm
    proof -
      have "tid = cell_task (plan ! i)" using tid row(1) [OF i(2)] i(1) says_unique by blast
      then have "arm \<in> arms_of_task ?xs tid" using arms [OF i(2)] whole arm by blast
      then obtain c where "c \<in> set ?xs" "cell_task c = tid" "cell_arm c = arm" by (auto simp: arms_of_task_def)
      then obtain j where "j < n" "cell_task (plan ! j) = tid" "cell_arm (plan ! j) = arm"
        by (auto simp: in_set_conv_nth)
      then show ?thesis using row(1,2) [of j] assms(3) by auto
    qed
    show "\<exists>r' \<in> set rows. \<exists>s'. says r' ''taskId'' ?tail \<and> says r' ''startedIso'' s' \<and> s < s'"
      if "says r ''taskId'' tid" "says r ''startedIso'' s" "tid \<noteq> ?tail" for tid s
    proof -
      have "tid = cell_task (plan ! i)" "s = stamp i" using that row [OF i(2)] i(1) says_unique by blast+
      then have "i < n - 1" using i(2) that(3) by (metis Suc_diff_1 gr_implies_not0 less_antisym less_nat_zero_code neq0_conv)
      then show ?thesis using row [of "n - 1"] assms(3) assms(5) [of i "n - 1"] \<open>s = stamp i\<close> by (intro bexI [of _ "row (n - 1)"]) auto
    qed
  qed
  then show ?thesis using assms(2) by (meson le_neq_implies_less)
qed

text \<open>The records of the first two of the four cells of a plan, listed out of order.\<close>

definition demo_row :: "string \<Rightarrow> string \<Rightarrow> jobj" where
  "demo_row arm stamp = [(''taskId'', JStr ''t0-sum''), (''arm'', JStr arm), (''startedIso'', JStr stamp)]"

definition demo_records :: "nat \<Rightarrow> jobj" where
  "demo_records i = (if i = 0 then demo_row ''baseline'' ''10:00'' else demo_row ''doctrine'' ''11:00'')"

theorem truncated_run_lacks_no_arm_witness:
  "\<exists>fs. check_arms_are_comparable [demo_records 1, demo_records 0] = Inr fs \<and>
     (\<forall>f \<in> set fs. fi_defect f = ''PARTIAL'' \<and> fi_cell f = JStr ''t0-sum'')"
proof -
  have *: "cell_task (demo_cell arm rep) = ''t0-sum''" "cell_arm (demo_cell arm rep) = arm" for arm rep
    by (simp_all add: demo_cell_def)
  have less: "''10:00'' < (''11:00'' :: string)" by (simp add: list_less_def)
  have "{..<2 :: nat} = {0, 1}" by auto
  then have rows: "set [demo_records 1, demo_records 0] = demo_records ` {..<2}" by auto
  let ?plan = "[demo_cell ''baseline'' 1, demo_cell ''doctrine'' 1, demo_cell ''conductor'' 1, demo_cell ''baseline'' 2]"
  let ?stamp = "\<lambda>i :: nat. if i = 0 then ''10:00'' else ''11:00''"
  have cells: "row_of_cell (?plan ! i) (?stamp i) (demo_records i) \<and> ?stamp i \<noteq> []" if "i < 2" for i
    using that by (auto simp: less_2_cases_iff row_of_cell_def says_def demo_records_def demo_row_def *)
  have ordered: "?stamp i < ?stamp j" if "i < j" "j < 2" for i j using that less by (auto simp: less_2_cases_iff)
  obtain fs where "check_arms_are_comparable [demo_records 1, demo_records 0] = Inr fs"
    "\<forall>f \<in> set fs. 2 < length ?plan \<and> fi_defect f = ''PARTIAL'' \<and> fi_cell f = JStr (cell_task (?plan ! (2 - 1)))"
    using truncated_run_lacks_no_arm [OF demo_plan _ rows cells ordered] by auto
  then show ?thesis using * by auto
qed

end
