(* ===== verification/Review_Cost.thy ===== *)
theory Review_Cost
  imports Json_Roundtrip Py_Path Py_Float
begin

text \<open>
  \<open>scripts/review_cost.py\<close>, what the review loop cost a run: the objects in a reply, the router's
  ledger, the stage, lens and round of a brief, the journal grouped into waves, the tokens of a
  wave, and the numbers of the report's tables. Printing the tables is left out.

  The code pairs a dispatch with its completion by mutating an object that a wave and a dictionary
  share: here the objects are a store, and a wave and the dictionary hold addresses into it. The
  reading of a time stamp (\<open>datetime.fromisoformat\<close>) is the argument \<open>iso_ms\<close>.
\<close>

datatype cost_error = NoMethod | NotANumber | TextNumber string | NoStamps | NoFile

section \<open>Objects in a text\<close>

definition raw_decode :: "string \<Rightarrow> (json \<times> string) option" where
  \<comment> \<open>the value a text starts with, and what follows it\<close>
  "raw_decode s = pval (2 * length s + 1) s"

lemma raw_decode_less: "raw_decode s = Some (v, r) \<Longrightarrow> length r < length s"
  unfolding raw_decode_def by (rule pval_progress(1))

function json_objects :: "string \<Rightarrow> json list" where
  "json_objects s =
     (case dropWhile (\<lambda>c. c \<noteq> CHR ''{'') s of
        [] \<Rightarrow> []
      | c # r \<Rightarrow>
          (case raw_decode (c # r) of
             None \<Rightarrow> json_objects r
           | Some (obj, rest) \<Rightarrow> obj # json_objects rest))"
  by pat_completeness simp
termination
proof (relation "measure length", goal_cases)
  case (2 s c r)
  then show ?case using length_dropWhile_le [of "\<lambda>c. c \<noteq> CHR ''{''" s] by simp
next
  case (3 s c r p obj rest)
  then show ?case using length_dropWhile_le [of "\<lambda>c. c \<noteq> CHR ''{''" s] raw_decode_less [of "c # r" obj rest] by simp
qed simp

declare json_objects.simps [simp del]

definition findings_in :: "json \<Rightarrow> jobj list option" where
  "findings_in obj =
     (case obj of
        JObj d \<Rightarrow> (case jget d ''findings'' of JArr xs \<Rightarrow> Some (List.map_filter the_obj xs) | _ \<Rightarrow> None)
      | _ \<Rightarrow> None)"

definition reply_findings :: "string \<Rightarrow> jobj list option" where
  \<comment> \<open>those of the last object that has them\<close>
  "reply_findings response =
     (case List.map_filter findings_in (rev (json_objects response)) of [] \<Rightarrow> None | fs # _ \<Rightarrow> Some fs)"

function parse_concatenated_json :: "string \<Rightarrow> json list option" where
  "parse_concatenated_json s =
     (case skip_ws s of
        [] \<Rightarrow> Some []
      | c # r \<Rightarrow>
          (case raw_decode (c # r) of
             None \<Rightarrow> None
           | Some (obj, rest) \<Rightarrow> map_option ((#) obj) (parse_concatenated_json rest)))"
  by pat_completeness simp
termination
proof (relation "measure length", goal_cases)
  case (2 s c r p obj rest)
  then show ?case using skip_ws_length [of s] raw_decode_less [of "c # r" obj rest] by simp
qed simp

declare parse_concatenated_json.simps [simp del]

section \<open>The brief of a sub-session\<close>

definition LEDGER_WINDOW_GRACE_MS :: rat where "LEDGER_WINDOW_GRACE_MS = 60000"

definition STAGE_MARKERS :: "(string \<times> string) list" where
  "STAGE_MARKERS = [(''itemReview'', ''You are an item reviewer''), (''planReview'', ''You are a plan reviewer'')]"

definition VET_MARKER :: string where "VET_MARKER = ''test-vet critics''"
definition VET_CHANGED_MARKER :: string where "VET_CHANGED_MARKER = ''CHANGED during item review''"

definition stage_of :: "json \<Rightarrow> string \<Rightarrow> json" where
  \<comment> \<open>a role is whatever the record has\<close>
  "stage_of role prompt =
     (if role \<noteq> JStr ''reviewer'' then (if truthy role then role else JStr ''unknown'')
      else
        (case find (\<lambda>(_, marker). starts_with prompt marker) STAGE_MARKERS of
           Some (name, _) \<Rightarrow> JStr name
         | None \<Rightarrow>
             (if str_in VET_MARKER (take 300 prompt)
              then JStr (if str_in VET_CHANGED_MARKER (take 500 prompt) then ''vetChanged'' else ''vet'')
              else JStr ''reviewer?'')))"

text \<open>\<open>^LENS(?:ES)?:\s*(.+)$\<close>: the spaces may run over lines, the lens is the rest of the line it starts on.
  When only spaces follow, the search gives back the last one that is not a line break.\<close>

definition lens_value :: "string \<Rightarrow> string option" where
  "lens_value s =
     (let rest = dropWhile py_space s in
      if rest \<noteq> [] then Some (takeWhile (\<lambda>c. c \<noteq> CHR 0x0A) rest)
      else (case dropWhile (\<lambda>c. c = CHR 0x0A) (rev s) of [] \<Rightarrow> None | c # _ \<Rightarrow> Some [c]))"

definition lens_line :: "string \<Rightarrow> string option" where
  "lens_line s =
     (if starts_with s ''LENS:'' then lens_value (drop 5 s)
      else if starts_with s ''LENSES:'' then lens_value (drop 7 s)
      else None)"

fun lens_line_in :: "string \<Rightarrow> string option" where
  \<comment> \<open>at the lines after the first\<close>
  "lens_line_in [] = None"
| "lens_line_in (c # s) =
     (if c = CHR 0x0A then (case lens_line s of Some lens \<Rightarrow> Some lens | None \<Rightarrow> lens_line_in s) else lens_line_in s)"

definition LENS_PHRASE :: string where "LENS_PHRASE = ''Your lens is '' @ [CHR 0x22]"

definition quoted_lens :: "string \<Rightarrow> string option" where
  \<comment> \<open>\<open>Your lens is "([^"]+)"\<close>\<close>
  "quoted_lens s =
     (if starts_with s LENS_PHRASE
      then (let r = drop (length LENS_PHRASE) s; lens = takeWhile (\<lambda>c. c \<noteq> CHR 0x22) r in
            if lens \<noteq> [] \<and> length lens < length r then Some lens else None)
      else None)"

fun quoted_lens_in :: "string \<Rightarrow> string option" where
  "quoted_lens_in [] = None"
| "quoted_lens_in (c # s) = (case quoted_lens (c # s) of Some lens \<Rightarrow> Some lens | None \<Rightarrow> quoted_lens_in s)"

definition lens_of :: "string \<Rightarrow> string option" where
  "lens_of prompt =
     map_option strip
       (case (case lens_line prompt of Some lens \<Rightarrow> Some lens | None \<Rightarrow> lens_line_in prompt) of
          Some lens \<Rightarrow> Some lens
        | None \<Rightarrow> quoted_lens_in prompt)"

definition round_at :: "string \<Rightarrow> int option" where
  \<comment> \<open>\<open>round (\d+) of at most (\d+)\<close>\<close>
  "round_at s =
     (if starts_with s ''round '' then
        (let r = drop 6 s; ds = takeWhile is_digit r; tail = drop (length ds) r in
         if ds \<noteq> [] \<and> starts_with tail '' of at most '' \<and> takeWhile is_digit (drop 12 tail) \<noteq> []
         then Some (int (nat_of_digits ds)) else None)
      else None)"

fun round_in :: "string \<Rightarrow> int option" where
  "round_in [] = None"
| "round_in (c # s) = (case round_at (c # s) of Some n \<Rightarrow> Some n | None \<Rightarrow> round_in s)"

definition round_of :: "string \<Rightarrow> int option" where
  "round_of prompt = round_in (take 800 prompt)"

section \<open>Waves\<close>

text \<open>\<open>str(x)\<close> of a JSON value.\<close>

definition repr_char :: "char \<Rightarrow> char \<Rightarrow> string" where
  "repr_char q c =
     (let n = (of_char c :: nat) in
      if c = q \<or> c = CHR 0x5C then [CHR 0x5C, c]
      else if c = CHR 0x0A then [CHR 0x5C, CHR ''n'']
      else if c = CHR 0x0D then [CHR 0x5C, CHR ''r'']
      else if c = CHR 0x09 then [CHR 0x5C, CHR ''t'']
      else if n < 32 \<or> (127 \<le> n \<and> n \<le> 160) \<or> n = 173 then [CHR 0x5C, CHR ''x'', hex_digit (n div 16), hex_digit (n mod 16)]
      else [c])"

definition repr_text :: "string \<Rightarrow> string" where
  "repr_text s =
     (let q = (if CHR 0x27 \<in> set s \<and> CHR 0x22 \<notin> set s then CHR 0x22 else CHR 0x27) in q # concat (map (repr_char q) s) @ [q])"

fun py_repr :: "json \<Rightarrow> string" where
  "py_repr JNull = ''None''"
| "py_repr (JBool b) = (if b then ''True'' else ''False'')"
| "py_repr (JInt n) = str_int n"
| "py_repr (JFloat m e) = repr_float m e"
| "py_repr (JStr s) = repr_text s"
| "py_repr (JArr xs) = ''['' @ str_join '', '' (map py_repr xs) @ '']''"
| "py_repr (JObj d) = ''{'' @ str_join '', '' (map (\<lambda>p. repr_text (fst p) @ '': '' @ py_repr (snd p)) d) @ ''}''"

definition str_or_empty :: "json \<Rightarrow> string" where
  \<comment> \<open>\<open>str(x or "")\<close>\<close>
  "str_or_empty x = (if \<not> truthy x then [] else case x of JStr s \<Rightarrow> s | _ \<Rightarrow> py_repr x)"

definition float_of :: "json \<Rightarrow> (cost_error, rat) res" where
  \<comment> \<open>\<open>float(x or 0)\<close>; a number written as text is outside the model\<close>
  "float_of x =
     (if \<not> truthy x then Inr 0
      else (case x of
              JStr s \<Rightarrow> Inl (TextNumber s)
            | _ \<Rightarrow> (case as_float x of Some r \<Rightarrow> Inr r | None \<Rightarrow> Inl NotANumber)))"

definition get_in :: "json \<Rightarrow> string \<Rightarrow> (cost_error, json) res" where
  \<comment> \<open>\<open>x.get(k)\<close>\<close>
  "get_in x k = (case x of JObj d \<Rightarrow> Inr (jget d k) | _ \<Rightarrow> Inl NoMethod)"

record dispatch =
  dp_session :: string
  dp_ts :: rat
  dp_role :: json
  dp_item :: string
  dp_prompt :: string
  dp_response :: "string option"
  dp_end :: "rat option"
  dp_ok :: "bool option"
  dp_attempts :: json
  dp_truncated :: bool

text \<open>A wave holds the addresses of its dispatches.\<close>

record wave =
  wv_index :: nat
  wv_ts :: rat
  wv_members :: "nat list"
  wv_retries :: nat

record wave_state =
  ws_waves :: "wave list"
  ws_store :: "dispatch list"
  ws_by_session :: "(string, nat) dict"

definition record_data :: "jobj \<Rightarrow> json" where
  \<comment> \<open>\<open>record.get("data") or {}\<close>\<close>
  "record_data r = (if truthy (jget r ''data'') then jget r ''data'' else JObj [])"

definition record_session :: "jobj \<Rightarrow> string" where
  "record_session r = str_or_empty (jget r ''sessionID'')"

definition new_dispatch :: "jobj \<Rightarrow> (cost_error, dispatch) res" where
  "new_dispatch r =
     bindE (float_of (jget r ''ts'')) (\<lambda>ts.
     bindE (get_in (record_data r) ''role'') (\<lambda>role.
     bindE (get_in (record_data r) ''itemId'') (\<lambda>item.
     bindE (get_in (record_data r) ''prompt'') (\<lambda>prompt.
     bindE (get_in (record_data r) ''truncated'') (\<lambda>truncated.
       Inr \<lparr>dp_session = record_session r, dp_ts = ts, dp_role = role, dp_item = str_or_empty item,
            dp_prompt = str_or_empty prompt, dp_response = None, dp_end = None, dp_ok = None, dp_attempts = JNull,
            dp_truncated = (truncated = JBool True)\<rparr>)))))"

definition complete_dispatch :: "jobj \<Rightarrow> dispatch \<Rightarrow> (cost_error, dispatch) res" where
  "complete_dispatch r dp =
     bindE (get_in (record_data r) ''response'') (\<lambda>response.
     bindE (float_of (jget r ''ts'')) (\<lambda>ts.
     bindE (get_in (record_data r) ''ok'') (\<lambda>ok.
     bindE (get_in (record_data r) ''attempts'') (\<lambda>attempts.
       Inr (dp\<lparr>dp_response := Some (str_or_empty response), dp_end := Some ts, dp_ok := Some (ok = JBool True),
               dp_attempts := attempts\<rparr>)))))"

definition on_current :: "(wave \<Rightarrow> wave) \<Rightarrow> wave list \<Rightarrow> wave list" where
  "on_current f ws = (if ws = [] then [] else butlast ws @ [f (last ws)])"

definition open_wave :: "rat \<Rightarrow> wave_state \<Rightarrow> wave_state" where
  "open_wave ts s =
     s\<lparr>ws_waves := ws_waves s @ [\<lparr>wv_index = length (ws_waves s), wv_ts = ts, wv_members = [], wv_retries = 0\<rparr>]\<rparr>"

definition launch :: "dispatch \<Rightarrow> wave_state \<Rightarrow> wave_state" where
  "launch dp s =
     (let a = length (ws_store s) in
      s\<lparr>ws_waves := on_current (\<lambda>w. w\<lparr>wv_members := wv_members w @ [a]\<rparr>) (ws_waves s),
        ws_store := ws_store s @ [dp],
        ws_by_session := (if dp_session dp \<noteq> [] then dset (dp_session dp) a (ws_by_session s) else ws_by_session s)\<rparr>)"

definition finish :: "jobj \<Rightarrow> wave_state \<Rightarrow> (cost_error, wave_state) res" where
  "finish r s =
     (case dget (ws_by_session s) (record_session r) of
        None \<Rightarrow> Inr s
      | Some a \<Rightarrow>
          bindE (complete_dispatch r (ws_store s ! a)) (\<lambda>dp. Inr (s\<lparr>ws_store := (ws_store s)[a := dp]\<rparr>)))"

definition wave_record :: "wave_state \<Rightarrow> jobj \<Rightarrow> (cost_error, wave_state) res" where
  "wave_record s r =
     (let event = jget r ''event'' in
      if event = JStr ''wave'' then bindE (float_of (jget r ''ts'')) (\<lambda>ts. Inr (open_wave ts s))
      else if ws_waves s = [] then Inr s
      else if event = JStr ''subsession.dispatched'' then bindE (new_dispatch r) (\<lambda>dp. Inr (launch dp s))
      else if event = JStr ''subsession.complete'' then finish r s
      else if event = JStr ''subsession.retry''
           then Inr (s\<lparr>ws_waves := on_current (\<lambda>w. w\<lparr>wv_retries := Suc (wv_retries w)\<rparr>) (ws_waves s)\<rparr>)
      else Inr s)"

definition wave_step :: "wave_state \<Rightarrow> json \<Rightarrow> (cost_error, wave_state) res" where
  "wave_step s record = (case record of JObj r \<Rightarrow> wave_record s r | _ \<Rightarrow> Inl NoMethod)"

definition no_waves :: wave_state where
  "no_waves = \<lparr>ws_waves = [], ws_store = [], ws_by_session = []\<rparr>"

text \<open>The waves with the dispatches their addresses lead to.\<close>

record wave_seen =
  wn_index :: nat
  wn_ts :: rat
  wn_dispatches :: "dispatch list"
  wn_retries :: nat

definition seen :: "wave_state \<Rightarrow> wave_seen list" where
  "seen s = map (\<lambda>w. \<lparr>wn_index = wv_index w, wn_ts = wv_ts w, wn_dispatches = map ((!) (ws_store s)) (wv_members w),
                     wn_retries = wv_retries w\<rparr>) (ws_waves s)"

definition waves_of :: "json list \<Rightarrow> (cost_error, wave_seen list) res" where
  "waves_of records = bindE (foldE wave_step no_waves records) (\<lambda>s. Inr (seen s))"

section \<open>What a wave was and did\<close>

definition dp_stage :: "dispatch \<Rightarrow> json" where "dp_stage dp = stage_of (dp_role dp) (dp_prompt dp)"

definition dp_lens :: "dispatch \<Rightarrow> string option" where "dp_lens dp = lens_of (dp_prompt dp)"

definition duration_s :: "dispatch \<Rightarrow> rat option" where
  "duration_s dp = map_option (\<lambda>e. fdiv (fsub e (dp_ts dp)) 1000) (dp_end dp)"

definition dp_findings :: "dispatch \<Rightarrow> jobj list option" where
  "dp_findings dp = reply_findings (case dp_response dp of Some s \<Rightarrow> s | None \<Rightarrow> [])"

definition wn_stage :: "wave_seen \<Rightarrow> json" where
  "wn_stage w = (case wn_dispatches w of [] \<Rightarrow> JStr ''empty'' | dp # _ \<Rightarrow> dp_stage dp)"

definition wn_item :: "wave_seen \<Rightarrow> string" where
  "wn_item w = (case filter (\<lambda>i. i \<noteq> []) (map dp_item (wn_dispatches w)) of [] \<Rightarrow> [] | i # _ \<Rightarrow> i)"

definition wn_round :: "wave_seen \<Rightarrow> int option" where
  "wn_round w = (case wn_dispatches w of [] \<Rightarrow> None | dp # _ \<Rightarrow> round_of (dp_prompt dp))"

definition wn_last :: "wave_seen \<Rightarrow> rat" where
  "wn_last w = (case List.map_filter dp_end (wn_dispatches w) of [] \<Rightarrow> wn_ts w | e # es \<Rightarrow> foldl max e es)"

definition span_s :: "wave_seen \<Rightarrow> rat" where "span_s w = fdiv (fsub (wn_last w) (wn_ts w)) 1000"

definition failures :: "wave_seen \<Rightarrow> nat" where
  "failures w = length (filter (\<lambda>dp. dp_ok dp \<noteq> Some True) (wn_dispatches w))"

definition truncated_prompts :: "wave_seen \<Rightarrow> nat" where
  "truncated_prompts w = length (filter dp_truncated (wn_dispatches w))"

definition empty_replies :: "wave_seen \<Rightarrow> nat" where
  "empty_replies w = length (filter (\<lambda>dp. dp_findings dp = Some []) (wn_dispatches w))"

definition some_findings :: "dispatch \<Rightarrow> jobj list" where
  "some_findings dp = (case dp_findings dp of Some fs \<Rightarrow> fs | None \<Rightarrow> [])"

definition wn_findings :: "wave_seen \<Rightarrow> jobj list" where
  "wn_findings w = concat (map some_findings (wn_dispatches w))"

section \<open>The ledger\<close>

definition completed_at_ms :: "(string \<Rightarrow> rat option) \<Rightarrow> jobj \<Rightarrow> rat option" where
  "completed_at_ms iso_ms entry =
     (case jget entry ''completedAt'' of JStr stamp \<Rightarrow> iso_ms (str_replace ''Z'' ''+00:00'' stamp) | _ \<Rightarrow> None)"

definition completed_between :: "(string \<Rightarrow> rat option) \<Rightarrow> rat \<Rightarrow> rat \<Rightarrow> jobj \<Rightarrow> bool" where
  "completed_between iso_ms lo hi entry =
     (case completed_at_ms iso_ms entry of None \<Rightarrow> False | Some t \<Rightarrow> lo \<le> t \<and> t \<le> hi)"

definition window_ledger :: "(string \<Rightarrow> rat option) \<Rightarrow> jobj list \<Rightarrow> rat \<Rightarrow> rat \<Rightarrow> jobj list" where
  "window_ledger iso_ms entries first_ms last_ms =
     filter (completed_between iso_ms first_ms (fadd last_ms LEDGER_WINDOW_GRACE_MS)) entries"

definition entry_tokens :: "jobj \<Rightarrow> (cost_error, int) res" where
  \<comment> \<open>\<open>entry.get("completionTokens") or 0\<close>; a count with a decimal point is outside the model\<close>
  "entry_tokens entry =
     (let x = jget entry ''completionTokens'' in
      if \<not> truthy x then Inr 0
      else (case x of JInt n \<Rightarrow> Inr n | JBool b \<Rightarrow> Inr 1 | _ \<Rightarrow> Inl NotANumber))"

definition sum_tokens :: "jobj list \<Rightarrow> (cost_error, int) res" where
  "sum_tokens entries = foldE (\<lambda>total entry. bindE (entry_tokens entry) (\<lambda>n. Inr (total + n))) 0 entries"

definition wave_tokens :: "(string \<Rightarrow> rat option) \<Rightarrow> wave_seen \<Rightarrow> jobj list \<Rightarrow> (cost_error, int) res" where
  "wave_tokens iso_ms w ledger =
     sum_tokens (filter (completed_between iso_ms (wn_ts w) (fadd (wn_last w) 5000)) ledger)"

definition add_rate ::
  "(string \<Rightarrow> rat option) \<Rightarrow> jobj list \<Rightarrow> rat \<Rightarrow> (nat, rat list) dict \<Rightarrow> wave_seen \<Rightarrow> (cost_error, (nat, rat list) dict) res" where
  "add_rate iso_ms ledger floor_s rates w =
     (let jobs = length (wn_dispatches w) in
      if span_s w < floor_s \<or> jobs = 0 then Inr rates
      else
        bindE (wave_tokens iso_ms w ledger) (\<lambda>n.
          let old = (case dget rates jobs of Some xs \<Rightarrow> xs | None \<Rightarrow> []) in
          Inr (dset jobs (old @ [fdiv (dbl (of_int n)) (span_s w)]) rates)))"

definition throughput_by_concurrency ::
  "(string \<Rightarrow> rat option) \<Rightarrow> wave_seen list \<Rightarrow> jobj list \<Rightarrow> rat \<Rightarrow> (cost_error, (nat, rat list) dict) res" where
  "throughput_by_concurrency iso_ms ws ledger floor_s = foldE (add_rate iso_ms ledger floor_s) [] ws"

section \<open>The tables\<close>

record stage_bucket =
  sb_waves :: nat
  sb_dispatches :: nat
  sb_minutes :: rat
  sb_tokens :: int
  sb_findings :: nat

definition empty_bucket :: stage_bucket where
  "empty_bucket = \<lparr>sb_waves = 0, sb_dispatches = 0, sb_minutes = 0, sb_tokens = 0, sb_findings = 0\<rparr>"

definition add_stage ::
  "(string \<Rightarrow> rat option) \<Rightarrow> jobj list \<Rightarrow> (json, stage_bucket) dict \<Rightarrow> wave_seen \<Rightarrow> (cost_error, (json, stage_bucket) dict) res" where
  \<comment> \<open>a stage is the key of a dictionary: a list or an object has no hash\<close>
  "add_stage iso_ms ledger stages w =
     (case wn_stage w of
        JArr _ \<Rightarrow> Inl NoMethod
      | JObj _ \<Rightarrow> Inl NoMethod
      | _ \<Rightarrow>
          bindE (wave_tokens iso_ms w ledger) (\<lambda>n.
            let b = (case dget stages (wn_stage w) of Some b \<Rightarrow> b | None \<Rightarrow> empty_bucket) in
            Inr (dset (wn_stage w)
                   \<lparr>sb_waves = Suc (sb_waves b), sb_dispatches = sb_dispatches b + length (wn_dispatches w),
                    sb_minutes = fadd (sb_minutes b) (fdiv (span_s w) 60), sb_tokens = sb_tokens b + n,
                    sb_findings = sb_findings b + length (wn_findings w)\<rparr> stages)))"

definition stage_totals ::
  "(string \<Rightarrow> rat option) \<Rightarrow> wave_seen list \<Rightarrow> jobj list \<Rightarrow> (cost_error, (json, stage_bucket) dict) res" where
  "stage_totals iso_ms ws ledger = foldE (add_stage iso_ms ledger) [] ws"

definition review_stage :: "wave_seen \<Rightarrow> string option" where
  "review_stage w = (case wn_stage w of JStr s \<Rightarrow> (if s \<in> {''itemReview'', ''planReview''} then Some s else None) | _ \<Rightarrow> None)"

text \<open>Per stage and lens: the durations of its dispatches, and the findings that name it.\<close>

definition add_duration ::
  "string \<Rightarrow> (string \<times> string, rat option list) dict \<Rightarrow> dispatch \<Rightarrow> (string \<times> string, rat option list) dict" where
  "add_duration stage d dp =
     (case dp_lens dp of
        None \<Rightarrow> d
      | Some lens \<Rightarrow>
          (if lens = [] then d
           else dset (stage, lens) ((case dget d (stage, lens) of Some xs \<Rightarrow> xs | None \<Rightarrow> []) @ [duration_s dp]) d))"

definition add_raised :: "string \<Rightarrow> (string \<times> string, nat) dict \<Rightarrow> jobj \<Rightarrow> (string \<times> string, nat) dict" where
  "add_raised stage d f =
     (case jget f ''lens'' of
        JStr lens \<Rightarrow> dset (stage, lens) (Suc (case dget d (stage, lens) of Some n \<Rightarrow> n | None \<Rightarrow> 0)) d
      | _ \<Rightarrow> d)"

definition lens_durations :: "wave_seen list \<Rightarrow> (string \<times> string, rat option list) dict" where
  "lens_durations ws =
     foldl (\<lambda>d w. case review_stage w of None \<Rightarrow> d | Some stage \<Rightarrow> foldl (add_duration stage) d (wn_dispatches w)) [] ws"

definition lens_findings :: "wave_seen list \<Rightarrow> (string \<times> string, nat) dict" where
  "lens_findings ws =
     foldl (\<lambda>d w. case review_stage w of None \<Rightarrow> d | Some stage \<Rightarrow> foldl (add_raised stage) d (wn_findings w)) [] ws"

section \<open>A run\<close>

definition load_journal :: "fs \<Rightarrow> path \<Rightarrow> (cost_error, json list) res" where
  "load_journal t run_dir =
     (case fs_read t (path_join run_dir ''journal.jsonl'') of
        None \<Rightarrow> Inl NoFile
      | Some s \<Rightarrow> Inr (List.map_filter (\<lambda>line. if strip line = [] then None else json_loads (strip line)) (str_split (CHR 0x0A) s)))"

definition stamps_of :: "json list \<Rightarrow> (cost_error, rat list) res" where
  "stamps_of records =
     bindE (mapE (\<lambda>r. get_in r ''ts'') records) (\<lambda>xs. Inr (List.map_filter as_float xs))"

record cost_report =
  cr_rows :: "(nat \<times> nat \<times> int) option"
  cr_span :: rat
  cr_waves :: "(wave_seen \<times> int) list"
  cr_stages :: "(json, stage_bucket) dict"
  cr_rates :: "(nat, rat list) dict"
  cr_durations :: "(string \<times> string, rat option list) dict"
  cr_raised :: "(string \<times> string, nat) dict"

definition read_ledger ::
  "(string \<Rightarrow> rat option) \<Rightarrow> fs \<Rightarrow> path \<Rightarrow> rat \<Rightarrow> rat \<Rightarrow> (cost_error, jobj list \<times> (nat \<times> nat \<times> int) option) res" where
  \<comment> \<open>the rows of the span, and what is printed of them\<close>
  "read_ledger iso_ms t ledger first_ms last_ms =
     (case fs_read t ledger of
        None \<Rightarrow> Inr ([], None)
      | Some s \<Rightarrow>
          (case parse_concatenated_json s of
             None \<Rightarrow> Inl NotANumber
           | Some xs \<Rightarrow>
               (let entries = List.map_filter the_obj xs; rows = window_ledger iso_ms entries first_ms last_ms in
                bindE (sum_tokens rows) (\<lambda>n. Inr (rows, Some (length rows, length entries, n))))))"

definition cost_main ::
  "(string \<Rightarrow> rat option) \<Rightarrow> fs \<Rightarrow> path \<Rightarrow> path \<Rightarrow> (cost_error, int \<times> cost_report option) res" where
  "cost_main iso_ms t run_dir ledger =
     bindE (load_journal t run_dir) (\<lambda>records.
       if records = [] then Inr (2, None)
       else
         bindE (stamps_of records) (\<lambda>stamps.
           case stamps of
             [] \<Rightarrow> Inl NoStamps
           | x # xs \<Rightarrow>
               (let first_ms = foldl min x xs; last_ms = foldl max x xs in
                bindE (read_ledger iso_ms t ledger first_ms last_ms) (\<lambda>(rows, told).
                bindE (waves_of records) (\<lambda>ws.
                bindE (mapE (\<lambda>w. wave_tokens iso_ms w rows) ws) (\<lambda>ns.
                bindE (stage_totals iso_ms ws rows) (\<lambda>stages.
                bindE (throughput_by_concurrency iso_ms ws rows 60) (\<lambda>rates.
                  Inr (0, Some \<lparr>cr_rows = told, cr_span = fdiv (fsub last_ms first_ms) 60000, cr_waves = zip ws ns,
                                cr_stages = stages, cr_rates = rates, cr_durations = lens_durations ws,
                                cr_raised = lens_findings ws\<rparr>)))))))))"

end
