(* ===== verification/Review_Cost_Laws.thy ===== *)
theory Review_Cost_Laws
  imports Review_Cost
begin

text \<open>
  What the review report reads: the objects of a ledger and of a reply come back as they were
  written, and the waves of a journal are those of a definition without state, in which a dispatch
  looks for its completion in the records that follow it.
\<close>

section \<open>Objects written one after the other\<close>

lemma concatenated_next:
  "skip_ws s = c # r \<Longrightarrow> raw_decode (c # r) = Some (obj, rest) \<Longrightarrow>
   parse_concatenated_json s = map_option ((#) obj) (parse_concatenated_json rest)"
  by (subst parse_concatenated_json.simps) simp

lemma concatenated_nil: "skip_ws s = [] \<Longrightarrow> parse_concatenated_json s = Some []"
  by (subst parse_concatenated_json.simps) simp

lemma objects_next:
  "dropWhile (\<lambda>c. c \<noteq> CHR ''{'') s = c # r \<Longrightarrow> raw_decode (c # r) = Some (obj, rest) \<Longrightarrow>
   json_objects s = obj # json_objects rest"
  by (subst json_objects.simps) simp

lemma objects_nil: "dropWhile (\<lambda>c. c \<noteq> CHR ''{'') s = [] \<Longrightarrow> json_objects s = []"
  unfolding json_objects.simps [of s] by (simp only: list.case)

context json_writer
begin

lemma raw_decode_obj:
  assumes "float_free (JObj d)" "json_ok (JObj d)"
  shows "raw_decode (dump_with esc ind l (JObj d) @ r) = Some (JObj d, r)"
proof -
  let ?s = "dump_with esc ind l (JObj d) @ r"
  let ?f = "2 * length ?s + 1"
  have "pval ?f ?s = pval (max ?f (jsz (JObj d))) ?s" by (rule pval_stable(1)) simp_all
  also have "\<dots> = Some (JObj d, r)"
    using pval_dump_obj [OF assms, of "[]" "max ?f (jsz (JObj d))" ind l r] by simp
  finally show ?thesis by (simp add: raw_decode_def)
qed

lemma dump_obj_Cons: "\<exists>t. dump_with esc ind l (JObj d) = CHR ''{'' # t"
  by simp

lemma concatenated_step:
  assumes "float_free (JObj d)" "json_ok (JObj d)" "all_ws w"
  shows "parse_concatenated_json (w @ dump_with esc ind l (JObj d) @ r) = map_option ((#) (JObj d)) (parse_concatenated_json r)"
proof -
  obtain t where t: "dump_with esc ind l (JObj d) = CHR ''{'' # t" using dump_obj_Cons by blast
  show ?thesis
    using raw_decode_obj [OF assms(1,2), of ind l r] assms(3) unfolding t
    by (intro concatenated_next) (simp_all add: json_ws_def)
qed

lemma objects_step:
  assumes "float_free (JObj d)" "json_ok (JObj d)" "CHR ''{'' \<notin> set p"
  shows "json_objects (p @ dump_with esc ind l (JObj d) @ r) = JObj d # json_objects r"
proof -
  obtain t where t: "dump_with esc ind l (JObj d) = CHR ''{'' # t" using dump_obj_Cons by blast
  have "dropWhile (\<lambda>c. c \<noteq> CHR ''{'') (p @ (CHR ''{'' # t) @ r) = CHR ''{'' # t @ r"
    using assms(3) by (subst dropWhile_append2) auto
  then show ?thesis using raw_decode_obj [OF assms(1,2), of ind l r] unfolding t by (intro objects_next) simp_all
qed

end

definition writable :: "jobj \<Rightarrow> bool" where
  "writable d = (float_free (JObj d) \<and> json_ok (JObj d))"

lemma concatenated_end: "all_ws w \<Longrightarrow> parse_concatenated_json w = Some []"
  using skip_ws_all [of w "[]"] by (intro concatenated_nil) (simp add: skip_ws_def)

lemma objects_end: "CHR ''{'' \<notin> set p \<Longrightarrow> json_objects p = []"
  by (rule objects_nil) auto

text \<open>the ledger is read whole: objects written one after the other, indented or not, with any white
  space before, between and behind them, are read back as they were, in their order and none
  of them lost.\<close>

theorem ledger_reads_back:
  assumes "list_all (\<lambda>(w, d). all_ws w \<and> writable d) entries" "all_ws end_ws"
  shows "parse_concatenated_json (concat (map (\<lambda>(w, d). w @ dump ind l (JObj d)) entries) @ end_ws) =
    Some (map (\<lambda>(w, d). JObj d) entries)"
  using assms
proof (induction entries)
  case (Cons e entries)
  then show ?case
    by (cases e) (simp add: writable_def ascii_writer.concatenated_step del: dump_with.simps)
qed (simp add: concatenated_end)

theorem ledger_reads_back_witness:
  "parse_concatenated_json ([CHR 0x0A] @ dump True 0 (JObj [(''completionTokens'', JInt 12)]) @ [CHR 0x0A] @
     dump True 0 (JObj [(''completionTokens'', JInt 0)]) @ [CHR 0x0A]) =
   Some [JObj [(''completionTokens'', JInt 12)], JObj [(''completionTokens'', JInt 0)]]"
proof -
  have w: "all_ws [CHR 0x0A]" by (simp add: all_ws_def json_ws_def)
  have "list_all (\<lambda>(w, d). all_ws w \<and> writable d)
      [([CHR 0x0A], [(''completionTokens'', JInt 12)]), ([CHR 0x0A], [(''completionTokens'', JInt 0)])]"
    using w by (simp add: writable_def)
  from ledger_reads_back [OF this w, of True 0] show ?thesis by (simp del: dump_with.simps)
qed

lemma objects_of_reply:
  "list_all (\<lambda>(p, d). CHR ''{'' \<notin> set p \<and> writable d) parts \<Longrightarrow> CHR ''{'' \<notin> set post \<Longrightarrow>
   json_objects (concat (map (\<lambda>(p, d). p @ dump ind l (JObj d)) parts) @ post) = map (\<lambda>(p, d). JObj d) parts"
proof (induction parts)
  case (Cons e parts)
  then show ?case
    by (cases e) (simp add: writable_def ascii_writer.objects_step del: dump_with.simps)
qed (simp add: objects_end)

definition findings_of :: "jobj \<Rightarrow> jobj list option" where
  "findings_of d = (case jget d ''findings'' of JArr xs \<Rightarrow> Some (List.map_filter the_obj xs) | _ \<Rightarrow> None)"

text \<open>C21: what a reply found is what its last own object with a list of findings says: prose before, between
  and behind the objects changes nothing, an object that is a value inside another one is never
  taken for the reply, and a reply without such an object is told from one that found nothing.\<close>

theorem reply_is_its_last_object:
  assumes "list_all (\<lambda>(p, d). CHR ''{'' \<notin> set p \<and> writable d) parts" "CHR ''{'' \<notin> set post"
  shows "reply_findings (concat (map (\<lambda>(p, d). p @ dump ind l (JObj d)) parts) @ post) =
    (let found = filter (\<lambda>d. findings_of d \<noteq> None) (map snd parts) in if found = [] then None else findings_of (last found))"
proof -
  let ?found = "filter (\<lambda>d. findings_of d \<noteq> None) (map snd parts)"
  have listed: "List.map_filter findings_in (rev (map (\<lambda>(p, d). JObj d) parts)) = rev (map (\<lambda>d. the (findings_of d)) ?found)"
    by (induction parts) (auto simp: List.map_filter_def findings_in_def findings_of_def)
  show ?thesis
  proof (cases "?found" rule: rev_cases)
    case Nil
    then show ?thesis unfolding reply_findings_def objects_of_reply [OF assms] listed by simp
  next
    case (snoc ys d)
    then have "d \<in> set ?found" by (metis in_set_conv_decomp)
    then have "Some (the (findings_of d)) = findings_of d" by auto
    then show ?thesis unfolding reply_findings_def objects_of_reply [OF assms] listed snoc by simp
  qed
qed

theorem reply_is_its_last_object_witness:
  "reply_findings (''read: '' @ dump False 0 (JObj [(''readWitness'', JObj [(''findings'', JArr [])])]) @ '' so '' @
     dump False 0 (JObj [(''findings'', JArr [JObj [(''id'', JStr ''F1'')]])]) @ '' done'') = Some [[(''id'', JStr ''F1'')]]"
proof -
  have "list_all (\<lambda>(p, d). CHR ''{'' \<notin> set p \<and> writable d)
      [(''read: '', [(''readWitness'', JObj [(''findings'', JArr [])])]), ('' so '', [(''findings'', JArr [JObj [(''id'', JStr ''F1'')]])])]"
    by (simp add: writable_def)
  from reply_is_its_last_object [OF this, of "'' done''" False 0] show ?thesis
    by (simp add: findings_of_def jget_def List.map_filter_def del: dump_with.simps)
qed

section \<open>Tokens\<close>

text \<open>The span a wave is charged for ends five seconds after its last reply. A row that completes in
  these five seconds, when the next wave has begun, is charged to both, and the totals of the stages
  add it twice.\<close>

definition demo_wave :: "nat \<Rightarrow> rat \<Rightarrow> wave_seen" where
  "demo_wave n ts = \<lparr>wn_index = n, wn_ts = ts, wn_dispatches = [], wn_retries = 0\<rparr>"

definition demo_entry :: jobj where
  "demo_entry = [(''completedAt'', JStr ''t''), (''completionTokens'', JInt 12)]"

lemma row_counted_twice:
  "wave_tokens (\<lambda>_. Some 4096) (demo_wave 0 0) [demo_entry] = Inr 12 \<and>
   wave_tokens (\<lambda>_. Some 4096) (demo_wave 1 2048) [demo_entry] = Inr 12 \<and> sum_tokens [demo_entry] = Inr 12"
  by code_simp

end
