(* ===== verification/Review_Waves_Laws.thy ===== *)
theory Review_Waves_Laws
  imports Review_Cost
begin

text \<open>
  The waves of a journal without a store: a dispatch looks for its completion in the records that
  follow it. \<open>waves_of\<close>, which settles shared objects in place, computes the same.
\<close>

section \<open>The waves, by looking ahead\<close>

definition is_event :: "string \<Rightarrow> jobj \<Rightarrow> bool" where
  "is_event e r = (jget r ''event'' = JStr e)"

definition datum :: "jobj \<Rightarrow> string \<Rightarrow> json" where
  "datum r k = (case record_data r of JObj d \<Rightarrow> jget d k | _ \<Rightarrow> JNull)"

definition stamp :: "jobj \<Rightarrow> rat" where
  "stamp r = (case float_of (jget r ''ts'') of Inr x \<Rightarrow> x | Inl _ \<Rightarrow> 0)"

definition sent :: "jobj \<Rightarrow> dispatch" where
  "sent r = \<lparr>dp_session = record_session r, dp_ts = stamp r, dp_role = datum r ''role'', dp_item = str_or_empty (datum r ''itemId''),
     dp_prompt = str_or_empty (datum r ''prompt''), dp_response = None, dp_end = None, dp_ok = None, dp_attempts = JNull,
     dp_truncated = (datum r ''truncated'' = JBool True)\<rparr>"

definition answered :: "jobj \<Rightarrow> dispatch \<Rightarrow> dispatch" where
  "answered r dp = dp\<lparr>dp_response := Some (str_or_empty (datum r ''response'')), dp_end := Some (stamp r),
     dp_ok := Some (datum r ''ok'' = JBool True), dp_attempts := datum r ''attempts''\<rparr>"

text \<open>The last completion of a session before the session is dispatched again.\<close>

fun closing :: "string \<Rightarrow> jobj list \<Rightarrow> jobj option" where
  "closing sid [] = None"
| "closing sid (r # rs) =
     (if is_event ''subsession.dispatched'' r \<and> record_session r = sid then None
      else (case closing sid rs of
              Some c \<Rightarrow> Some c
            | None \<Rightarrow> (if is_event ''subsession.complete'' r \<and> record_session r = sid then Some r else None)))"

definition settled_by :: "jobj list \<Rightarrow> dispatch \<Rightarrow> dispatch" where
  "settled_by rs dp = (case closing (dp_session dp) rs of None \<Rightarrow> dp | Some c \<Rightarrow> answered c dp)"

definition paired :: "jobj \<Rightarrow> jobj list \<Rightarrow> dispatch" where
  "paired r rs = (if record_session r = [] then sent r else settled_by rs (sent r))"

fun jobs_of :: "jobj list \<Rightarrow> dispatch list" where
  "jobs_of [] = []"
| "jobs_of (r # rs) =
     (if is_event ''wave'' r then []
      else if is_event ''subsession.dispatched'' r then paired r rs # jobs_of rs
      else jobs_of rs)"

fun retries_of :: "jobj list \<Rightarrow> nat" where
  "retries_of [] = 0"
| "retries_of (r # rs) =
     (if is_event ''wave'' r then 0 else (if is_event ''subsession.retry'' r then 1 else 0) + retries_of rs)"

fun ref_waves :: "nat \<Rightarrow> jobj list \<Rightarrow> wave_seen list" where
  "ref_waves n [] = []"
| "ref_waves n (r # rs) =
     (if is_event ''wave'' r
      then \<lparr>wn_index = n, wn_ts = stamp r, wn_dispatches = jobs_of rs, wn_retries = retries_of rs\<rparr> # ref_waves (Suc n) rs
      else ref_waves n rs)"

definition journal_record :: "jobj \<Rightarrow> bool" where
  "journal_record r = (returns (float_of (jget r ''ts'')) \<and> is_obj (record_data r))"

section \<open>The steps of the code\<close>

lemma float_of_stamp: "journal_record r \<Longrightarrow> float_of (jget r ''ts'') = Inr (stamp r)"
  by (auto simp: journal_record_def stamp_def returns_iff)

lemma get_in_datum: "journal_record r \<Longrightarrow> get_in (record_data r) k = Inr (datum r k)"
  by (cases "record_data r") (auto simp: journal_record_def get_in_def datum_def)

lemma new_dispatch_sent: "journal_record r \<Longrightarrow> new_dispatch r = Inr (sent r)"
  by (simp add: new_dispatch_def float_of_stamp get_in_datum sent_def)

lemma complete_dispatch_answered: "journal_record r \<Longrightarrow> complete_dispatch r dp = Inr (answered r dp)"
  by (simp add: complete_dispatch_def float_of_stamp get_in_datum answered_def)

definition closed_by :: "jobj \<Rightarrow> wave_state \<Rightarrow> wave_state" where
  "closed_by r s = (case dget (ws_by_session s) (record_session r) of
     None \<Rightarrow> s | Some a \<Rightarrow> s\<lparr>ws_store := (ws_store s)[a := answered r (ws_store s ! a)]\<rparr>)"

definition retried :: "wave_state \<Rightarrow> wave_state" where
  "retried s = s\<lparr>ws_waves := on_current (\<lambda>w. w\<lparr>wv_retries := Suc (wv_retries w)\<rparr>) (ws_waves s)\<rparr>"

definition wave_next :: "wave_state \<Rightarrow> jobj \<Rightarrow> wave_state" where
  "wave_next s r =
     (if is_event ''wave'' r then open_wave (stamp r) s
      else if ws_waves s = [] then s
      else if is_event ''subsession.dispatched'' r then launch (sent r) s
      else if is_event ''subsession.complete'' r then closed_by r s
      else if is_event ''subsession.retry'' r then retried s
      else s)"

lemma wave_step_is: "journal_record r \<Longrightarrow> wave_step s (JObj r) = Inr (wave_next s r)"
  by (simp add: wave_step_def wave_record_def wave_next_def Let_def is_event_def float_of_stamp new_dispatch_sent finish_def
      closed_by_def complete_dispatch_answered retried_def split: option.split)

lemma fold_is: "list_all journal_record rs \<Longrightarrow> foldE wave_step s (map JObj rs) = Inr (foldl wave_next s rs)"
  by (induction rs arbitrary: s) (simp_all add: wave_step_is)

section \<open>What the rest of a journal makes of a state\<close>

text \<open>The dictionary leads to the last dispatch of each session.\<close>

definition store_sound :: "wave_state \<Rightarrow> bool" where
  "store_sound s = ((\<forall>sid a. dget (ws_by_session s) sid = Some a \<longrightarrow>
       sid \<noteq> [] \<and> a < length (ws_store s) \<and> dp_session (ws_store s ! a) = sid) \<and>
     (\<forall>w \<in> set (ws_waves s). \<forall>a \<in> set (wv_members w). a < length (ws_store s)))"

lemma store_sound_none: "store_sound no_waves"
  by (simp add: store_sound_def no_waves_def)

definition awaits :: "wave_state \<Rightarrow> nat \<Rightarrow> bool" where
  "awaits s a = (dget (ws_by_session s) (dp_session (ws_store s ! a)) = Some a)"

definition final_dispatch :: "wave_state \<Rightarrow> jobj list \<Rightarrow> nat \<Rightarrow> dispatch" where
  "final_dispatch s rs a = (if awaits s a then settled_by rs (ws_store s ! a) else ws_store s ! a)"

definition view_of :: "wave_state \<Rightarrow> jobj list \<Rightarrow> wave \<Rightarrow> wave_seen" where
  "view_of s rs w = \<lparr>wn_index = wv_index w, wn_ts = wv_ts w, wn_dispatches = map (final_dispatch s rs) (wv_members w), wn_retries = wv_retries w\<rparr>"

definition grown :: "jobj list \<Rightarrow> wave_seen \<Rightarrow> wave_seen" where
  "grown rs w = w\<lparr>wn_dispatches := wn_dispatches w @ jobs_of rs, wn_retries := wn_retries w + retries_of rs\<rparr>"

definition resumed :: "wave_state \<Rightarrow> jobj list \<Rightarrow> wave_seen list" where
  "resumed s rs =
     (if ws_waves s = [] then ref_waves 0 rs
      else map (view_of s rs) (butlast (ws_waves s)) @ [grown rs (view_of s rs (last (ws_waves s)))] @ ref_waves (length (ws_waves s)) rs)"

lemma answered_answered [simp]: "answered r (answered r' dp) = answered r dp"
  by (simp add: answered_def)

lemma answered_session [simp]: "dp_session (answered r dp) = dp_session dp"
  by (simp add: answered_def)

lemma sent_session [simp]: "dp_session (sent r) = record_session r"
  by (simp add: sent_def)

lemma events_differ:
  "is_event e r \<Longrightarrow> is_event e' r \<longleftrightarrow> e = e'"
  by (auto simp: is_event_def)

lemma settled_Nil [simp]: "settled_by [] dp = dp"
  by (simp add: settled_by_def)

lemma resumed_Nil: "resumed s [] = seen s"
proof -
  have v: "view_of s [] w = \<lparr>wn_index = wv_index w, wn_ts = wv_ts w, wn_dispatches = map ((!) (ws_store s)) (wv_members w),
      wn_retries = wv_retries w\<rparr>" for w
    by (simp add: view_of_def final_dispatch_def)
  show ?thesis
    by (cases "ws_waves s" rule: rev_cases) (simp_all add: resumed_def seen_def grown_def v)
qed

lemma closing_quiet:
  "\<not> is_event ''subsession.dispatched'' r \<Longrightarrow> \<not> is_event ''subsession.complete'' r \<Longrightarrow> closing sid (r # rs) = closing sid rs"
  by (simp split: option.split)

lemma view_quiet:
  assumes "\<not> is_event ''subsession.dispatched'' r" "\<not> is_event ''subsession.complete'' r"
  shows "view_of s (r # rs) = view_of s rs"
  by (intro ext) (simp add: view_of_def final_dispatch_def settled_by_def closing_quiet [OF assms] del: closing.simps)

lemma view_store:
  "ws_store s' = ws_store s \<Longrightarrow> ws_by_session s' = ws_by_session s \<Longrightarrow> view_of s' rs = view_of s rs"
  by (intro ext) (simp add: view_of_def final_dispatch_def awaits_def)

lemma resumed_wave:
  assumes "is_event ''wave'' r"
  shows "resumed s (r # rs) = resumed (open_wave (stamp r) s) rs"
proof -
  have quiet: "\<not> is_event ''subsession.dispatched'' r" "\<not> is_event ''subsession.complete'' r"
    using events_differ [OF assms] by auto
  have "grown (r # rs) w = w" for w :: wave_seen using assms by (simp add: grown_def)
  moreover have "view_of (open_wave (stamp r) s) rs = view_of s rs" by (rule view_store) (simp_all add: open_wave_def)
  ultimately show ?thesis
    using assms by (cases "ws_waves s" rule: rev_cases)
      (simp_all add: resumed_def view_quiet [OF quiet] open_wave_def grown_def view_of_def butlast_append)
qed

lemma resumed_quiet:
  assumes "\<not> is_event ''wave'' r" "\<not> is_event ''subsession.dispatched'' r" "\<not> is_event ''subsession.complete'' r" "ws_waves s \<noteq> []"
  shows "resumed s (r # rs) = resumed (if is_event ''subsession.retry'' r then retried s else s) rs"
proof -
  have "view_of (retried s) rs = view_of s rs" by (rule view_store) (simp_all add: retried_def)
  then show ?thesis
    using assms by (cases "ws_waves s" rule: rev_cases)
      (simp_all add: resumed_def view_quiet [OF assms(2,3)] retried_def on_current_def grown_def, simp_all add: view_of_def)
qed

lemma resumed_no_wave: "\<not> is_event ''wave'' r \<Longrightarrow> ws_waves s = [] \<Longrightarrow> resumed s (r # rs) = resumed s rs"
  by (simp add: resumed_def)

text \<open>A dispatch ends the wait of an earlier one of its session.\<close>

lemma final_old:
  assumes "store_sound s" "is_event ''subsession.dispatched'' r" "a < length (ws_store s)"
  shows "final_dispatch (launch (sent r) s) rs a = final_dispatch s (r # rs) a"
proof -
  have kept: "ws_store (launch (sent r) s) ! a = ws_store s ! a" using assms(3) by (simp add: launch_def Let_def nth_append)
  show ?thesis
  proof (cases "dp_session (ws_store s ! a) = record_session r")
    case True
    have "\<not> awaits (launch (sent r) s) a"
      using True assms(1,3) unfolding awaits_def kept by (auto simp: launch_def Let_def store_sound_def)
    moreover have "settled_by (r # rs) (ws_store s ! a) = ws_store s ! a" using True assms(2) by (simp add: settled_by_def)
    ultimately show ?thesis by (simp add: final_dispatch_def kept)
  next
    case False
    then have "awaits (launch (sent r) s) a = awaits s a" unfolding awaits_def kept by (simp add: launch_def Let_def)
    moreover have "settled_by (r # rs) (ws_store s ! a) = settled_by rs (ws_store s ! a)"
      using False assms(2) events_differ [OF assms(2)] by (simp add: settled_by_def split: option.split)
    ultimately show ?thesis by (simp add: final_dispatch_def kept)
  qed
qed

lemma final_new:
  assumes "store_sound s"
  shows "final_dispatch (launch (sent r) s) rs (length (ws_store s)) = paired r rs"
proof -
  have "dget (ws_by_session s) [] = None" using assms by (cases "dget (ws_by_session s) []") (auto simp: store_sound_def)
  then show ?thesis by (simp add: final_dispatch_def awaits_def launch_def Let_def nth_append paired_def)
qed

lemma view_old:
  assumes "store_sound s" "is_event ''subsession.dispatched'' r" "\<forall>a \<in> set (wv_members w). a < length (ws_store s)"
  shows "view_of (launch (sent r) s) rs w = view_of s (r # rs) w"
  using assms(3) by (simp add: view_of_def final_old [OF assms(1,2)] cong: map_cong)

lemma resumed_dispatch:
  assumes "store_sound s" "is_event ''subsession.dispatched'' r" "ws_waves s \<noteq> []"
  shows "resumed s (r # rs) = resumed (launch (sent r) s) rs"
proof -
  obtain ws w where ws: "ws_waves s = ws @ [w]" using assms(3) by (cases "ws_waves s" rule: rev_cases) auto
  let ?s = "launch (sent r) s"
  have ws': "ws_waves ?s = ws @ [w\<lparr>wv_members := wv_members w @ [length (ws_store s)]\<rparr>]"
    by (simp add: launch_def Let_def ws on_current_def)
  have small: "\<forall>a \<in> set (wv_members v). a < length (ws_store s)" if "v \<in> set (ws @ [w])" for v
    using assms(1) that unfolding store_sound_def ws by blast
  have "map (view_of ?s rs) ws = map (view_of s (r # rs)) ws"
    using view_old [OF assms(1,2) small] by simp
  moreover have "grown rs (view_of ?s rs (w\<lparr>wv_members := wv_members w @ [length (ws_store s)]\<rparr>)) = grown (r # rs) (view_of s (r # rs) w)"
    using view_old [OF assms(1,2) small, of w rs] events_differ [OF assms(2)] assms(2)
    by (simp add: grown_def view_of_def final_new [OF assms(1)])
  ultimately show ?thesis using events_differ [OF assms(2)] by (simp add: resumed_def ws ws')
qed

text \<open>A completion settles what its session waits for; a later one replaces it.\<close>

lemma final_closed:
  assumes "store_sound s" "is_event ''subsession.complete'' r"
  shows "final_dispatch (closed_by r s) rs a = final_dispatch s (r # rs) a"
proof -
  have ahead: "closing sid (r # rs) = (case closing sid rs of Some c \<Rightarrow> Some c | None \<Rightarrow> if record_session r = sid then Some r else None)" for sid
    using assms(2) events_differ [OF assms(2)] by simp
  show ?thesis
  proof (cases "dget (ws_by_session s) (record_session r) = Some a")
    case True
    then have a: "a < length (ws_store s)" "dp_session (ws_store s ! a) = record_session r"
      using assms(1) by (auto simp: store_sound_def)
    have "awaits s a" "awaits (closed_by r s) a" using True a by (simp_all add: awaits_def closed_by_def)
    then show ?thesis using True a
      by (simp add: final_dispatch_def closed_by_def settled_by_def ahead del: closing.simps split: option.split)
  next
    case False
    then have kept: "ws_store (closed_by r s) ! a = ws_store s ! a" "ws_by_session (closed_by r s) = ws_by_session s"
      by (auto simp: closed_by_def split: option.split)
    have "record_session r \<noteq> dp_session (ws_store s ! a)" if "awaits s a" using that False by (auto simp: awaits_def)
    then show ?thesis
      by (auto simp: final_dispatch_def awaits_def kept settled_by_def ahead simp del: closing.simps split: option.split)
  qed
qed

lemma resumed_complete:
  assumes "store_sound s" "is_event ''subsession.complete'' r" "ws_waves s \<noteq> []"
  shows "resumed s (r # rs) = resumed (closed_by r s) rs"
proof -
  have "view_of (closed_by r s) rs = view_of s (r # rs)"
    by (intro ext) (simp add: view_of_def final_closed [OF assms(1,2)])
  moreover have "ws_waves (closed_by r s) = ws_waves s" by (simp add: closed_by_def split: option.split)
  ultimately show ?thesis using assms(2,3) events_differ [OF assms(2)] by (simp add: resumed_def grown_def)
qed

text \<open>Every step keeps the dictionary sound.\<close>

lemma store_sound_waves:
  assumes "store_sound s" "ws_store s' = ws_store s" "ws_by_session s' = ws_by_session s"
    and "\<And>w a. w \<in> set (ws_waves s') \<Longrightarrow> a \<in> set (wv_members w) \<Longrightarrow> \<exists>v \<in> set (ws_waves s). a \<in> set (wv_members v)"
  shows "store_sound s'"
  using assms unfolding store_sound_def by metis

lemma on_current_member: "w \<in> set (on_current f ws) \<Longrightarrow> w \<in> set ws \<or> (ws \<noteq> [] \<and> w = f (last ws))"
  by (auto simp: on_current_def dest: in_set_butlastD split: if_splits)

lemma sound_launch:
  assumes "store_sound s"
  shows "store_sound (launch dp s)"
proof -
  let ?s = "launch dp s" and ?n = "length (ws_store s)"
  have len: "length (ws_store ?s) = Suc ?n" by (simp add: launch_def Let_def)
  have old: "ws_store ?s ! a = ws_store s ! a" if "a < ?n" for a using that by (simp add: launch_def Let_def nth_append)
  have new: "ws_store ?s ! ?n = dp" by (simp add: launch_def Let_def)
  have "sid \<noteq> [] \<and> a < Suc ?n \<and> dp_session (ws_store ?s ! a) = sid" if "dget (ws_by_session ?s) sid = Some a" for sid a
  proof (cases "dp_session dp \<noteq> [] \<and> sid = dp_session dp")
    case True
    then have "a = ?n" using that by (simp add: launch_def Let_def)
    then show ?thesis using True new by simp
  next
    case False
    then have "dget (ws_by_session s) sid = Some a" using that by (auto simp: launch_def Let_def split: if_splits)
    then have "sid \<noteq> []" "a < ?n" "dp_session (ws_store s ! a) = sid" using assms by (auto simp: store_sound_def)
    then show ?thesis using old by simp
  qed
  moreover have "a < Suc ?n" if w: "w \<in> set (ws_waves ?s)" and a: "a \<in> set (wv_members w)" for w a
  proof -
    have "w \<in> set (ws_waves s) \<or> (ws_waves s \<noteq> [] \<and> wv_members w = wv_members (last (ws_waves s)) @ [?n])"
      using on_current_member [of w "\<lambda>w. w\<lparr>wv_members := wv_members w @ [?n]\<rparr>" "ws_waves s"] w by (auto simp: launch_def Let_def)
    moreover have "\<forall>v \<in> set (ws_waves s). \<forall>b \<in> set (wv_members v). b < ?n" using assms by (simp add: store_sound_def)
    moreover from this have "ws_waves s \<noteq> [] \<Longrightarrow> \<forall>b \<in> set (wv_members (last (ws_waves s))). b < ?n"
      using last_in_set [of "ws_waves s"] by blast
    ultimately show ?thesis using a by (auto simp: less_Suc_eq)
  qed
  ultimately show ?thesis unfolding store_sound_def len by blast
qed

lemma sound_closed: "store_sound s \<Longrightarrow> store_sound (closed_by r s)"
  by (auto simp: closed_by_def store_sound_def nth_list_update split: option.split)

lemma sound_next: "store_sound s \<Longrightarrow> store_sound (wave_next s r)"
proof -
  assume s: "store_sound s"
  have "store_sound (open_wave (stamp r) s)"
    by (rule store_sound_waves [OF s]) (auto simp: open_wave_def)
  moreover have "store_sound (retried s)"
    by (rule store_sound_waves [OF s]) (auto simp: retried_def dest!: on_current_member)
  ultimately show ?thesis using s by (auto simp: wave_next_def sound_launch sound_closed)
qed

lemma resumed_next: "store_sound s \<Longrightarrow> resumed s (r # rs) = resumed (wave_next s r) rs"
  using resumed_wave [of r s rs] resumed_no_wave [of r s rs] resumed_dispatch [of s r rs] resumed_complete [of s r rs]
    resumed_quiet [of r s rs] events_differ [of _ r]
  by (auto simp: wave_next_def)

lemma resumed_fold: "store_sound s \<Longrightarrow> resumed s rs = seen (foldl wave_next s rs)"
  by (induction rs arbitrary: s) (simp_all add: resumed_Nil resumed_next sound_next)

text \<open>C13: the journal is grouped without mistaking one session for another: on records whose times are
  numbers and whose data are objects the grouping returns, its waves are the wave records in
  their order, each with the sub-sessions dispatched before the next one, and a dispatch has the
  reply of the last completion of its session that follows it and comes before the session is
  dispatched again, in whatever order and wave the completions of the others arrive; what
  precedes the first wave is dropped.\<close>

theorem waves_pair_their_dispatches:
  assumes "list_all journal_record rs"
  shows "waves_of (map JObj rs) = Inr (ref_waves 0 rs)"
proof -
  have "ref_waves 0 rs = resumed no_waves rs" by (simp add: resumed_def no_waves_def)
  also have "\<dots> = seen (foldl wave_next no_waves rs)" by (rule resumed_fold [OF store_sound_none])
  finally show ?thesis by (simp add: waves_of_def fold_is [OF assms])
qed

text \<open>Two sessions of one wave that answer in the reverse order, the second after the next wave has
  begun.\<close>

definition demo_journal :: "jobj list" where
  "demo_journal =
     [[(''event'', JStr ''wave''), (''ts'', JInt 1000)],
      [(''event'', JStr ''subsession.dispatched''), (''sessionID'', JStr ''a''), (''ts'', JInt 1000)],
      [(''event'', JStr ''subsession.dispatched''), (''sessionID'', JStr ''b''), (''ts'', JInt 1000)],
      [(''event'', JStr ''subsession.complete''), (''sessionID'', JStr ''b''), (''ts'', JInt 2000), (''data'', JObj [(''ok'', JBool True)])],
      [(''event'', JStr ''wave''), (''ts'', JInt 3000)],
      [(''event'', JStr ''subsession.complete''), (''sessionID'', JStr ''a''), (''ts'', JInt 4000), (''data'', JObj [(''ok'', JBool True)])]]"

text \<open>The completion of \<open>a\<close> settles a dispatch of the first wave, which is not the open one any more.\<close>

theorem waves_pair_their_dispatches_witness:
  "\<exists>v w. waves_of (map JObj demo_journal) = Inr [v, w] \<and>
     map dp_end (wn_dispatches v) = [Some (dbl 4000), Some (dbl 2000)] \<and> wn_dispatches w = []"
proof -
  have ok: "list_all journal_record demo_journal"
    by (simp add: demo_journal_def journal_record_def float_of_def as_float_def jget_def record_data_def)
  show ?thesis
    unfolding waves_pair_their_dispatches [OF ok]
    by (simp add: demo_journal_def is_event_def jget_def paired_def settled_by_def sent_def answered_def record_session_def
        str_or_empty_def stamp_def float_of_def as_float_def)
qed

end
