(* ===== verification/Token_Ratios.thy ===== *)
theory Token_Ratios
  imports Campaign_Check
begin

text \<open>
  \<open>scripts/gen_tokens.py\<close>, the characters a model emitted in a cell, and \<open>scripts/ratios.py\<close> and the
  token count of \<open>scripts/arm_report.py\<close>, which run it as a command and read the number off its output.

  The session database is the argument \<open>db\<close>: the rows of \<open>ASSISTANT_PARTS_QUERY\<close>, nothing when
  SQLite raises. A run of the command ends before its time limit. Notes and cells of a table that
  hold characters above code point 255 are constructors here.
\<close>

section \<open>Formats\<close>

definition pad_right :: "nat \<Rightarrow> string \<Rightarrow> string" where
  \<comment> \<open>\<open>{s:n}\<close> of a text\<close>
  "pad_right n s = s @ replicate (n - length s) (CHR '' '')"

definition pad_left :: "nat \<Rightarrow> string \<Rightarrow> string" where
  \<comment> \<open>\<open>{x:n}\<close> of a number\<close>
  "pad_left n s = replicate (n - length s) (CHR '' '') @ s"

definition fixed1 :: "rat \<Rightarrow> string" where
  \<comment> \<open>\<open>{x:.1f}\<close>: the exact value of the double, rounded to a tenth\<close>
  "fixed1 x =
     (let n = half_even (10 * \<bar>x\<bar>) in
      (if x < 0 then ''-'' else []) @ str_int (n div 10) @ ''.'' @ str_int (n mod 10))"

function words :: "string \<Rightarrow> string list" where
  \<comment> \<open>\<open>s.split()\<close>\<close>
  "words s =
     (case lstrip s of
        [] \<Rightarrow> []
      | c # r \<Rightarrow> takeWhile (\<lambda>c. \<not> py_space c) (c # r) # words (dropWhile (\<lambda>c. \<not> py_space c) (c # r)))"
  by pat_completeness simp
termination
proof (relation "measure length", goal_cases)
  case (2 s c r)
  have "\<not> py_space c" using 2 by (auto simp: lstrip_def dropWhile_eq_Cons_conv)
  moreover have "length (lstrip s) \<le> length s" by (simp add: lstrip_def length_dropWhile_le)
  ultimately show ?case using 2 length_dropWhile_le [of "\<lambda>c. \<not> py_space c" r] by simp
qed simp

declare words.simps [simp del]

section \<open>What a cell emitted\<close>

definition DEFAULT_TOKENS_PER_SECOND :: rat where "DEFAULT_TOKENS_PER_SECOND = 14"
definition CHARS_PER_TOKEN :: nat where "CHARS_PER_TOKEN = 4"

record breakdown =
  bk_reasoning :: nat
  bk_text :: nat
  bk_tool_args :: nat
  bk_parts :: nat

definition empty_breakdown :: breakdown where
  "empty_breakdown = \<lparr>bk_reasoning = 0, bk_text = 0, bk_tool_args = 0, bk_parts = 0\<rparr>"

definition total_chars :: "breakdown \<Rightarrow> nat" where
  "total_chars b = bk_reasoning b + bk_text b + bk_tool_args b"

definition total_tokens :: "breakdown \<Rightarrow> nat" where
  "total_tokens b = total_chars b div CHARS_PER_TOKEN"

definition reasoning_share :: "breakdown \<Rightarrow> rat" where
  "reasoning_share b = (if total_chars b = 0 then 0 else dbl (of_nat (bk_reasoning b) / of_nat (total_chars b)))"

definition predicted_seconds :: "rat \<Rightarrow> breakdown \<Rightarrow> rat" where
  "predicted_seconds rate b = (if rate > 0 then fdiv (dbl (of_nat (total_tokens b))) rate else 0)"

definition add_part :: "breakdown \<Rightarrow> string \<Rightarrow> breakdown" where
  "add_part b row =
     (case json_loads row of
        Some (JObj part) \<Rightarrow>
          (case (jget part ''type'', jget part ''text'') of
             (JStr kind, body) \<Rightarrow>
               (if kind = ''reasoning'' \<and> is_str body
                then b\<lparr>bk_reasoning := bk_reasoning b + length (the (the_str body)), bk_parts := Suc (bk_parts b)\<rparr>
                else if kind = ''text'' \<and> is_str body
                then b\<lparr>bk_text := bk_text b + length (the (the_str body)), bk_parts := Suc (bk_parts b)\<rparr>
                else if kind = ''tool''
                then (let arguments = (case jget part ''state'' of JObj state \<Rightarrow> jget state ''input'' | _ \<Rightarrow> JNull) in
                      if arguments = JNull then b
                      else b\<lparr>bk_tool_args := bk_tool_args b + length (json_dumps arguments), bk_parts := Suc (bk_parts b)\<rparr>)
                else b)
           | _ \<Rightarrow> b)
      | _ \<Rightarrow> b)"

definition accumulate :: "string list \<Rightarrow> breakdown" where
  "accumulate rows = foldl add_part empty_breakdown rows"

type_synonym session_db = "path \<Rightarrow> string list option"

definition part_rows :: "session_db \<Rightarrow> path \<Rightarrow> string list option" where
  "part_rows db p = map_option (filter (\<lambda>row. row \<noteq> [])) (db p)"

definition measure_db :: "session_db \<Rightarrow> path \<Rightarrow> breakdown option" where
  "measure_db db p = map_option accumulate (part_rows db p)"

text \<open>Emission by session: the query gives the session, its title, whether it is the root, and a part.\<close>

type_synonym session_row = "string \<times> string \<times> bool \<times> string"

definition measure_by_session :: "session_row list \<Rightarrow> (string \<times> bool \<times> breakdown) list" where
  "measure_by_session rows =
     (let grouped = foldl (\<lambda>d (sid, title, is_root, row). dset sid ((case dget d sid of Some xs \<Rightarrow> xs | None \<Rightarrow> []) @ [row]) d) [] rows;
          labels = foldl (\<lambda>d (sid, title, is_root, row). dset sid (title, is_root) d) [] rows in
      sort_key (\<lambda>(_, _, b). - int (bk_reasoning b))
        (map (\<lambda>(sid, blobs). case dget labels sid of
            Some (title, is_root) \<Rightarrow> (title, is_root, accumulate blobs) | None \<Rightarrow> ([], False, accumulate blobs)) grouped))"

definition SINGLE_DB :: "string list" where
  "SINGLE_DB = [''home'', ''data'', ''opencode'', ''opencode.db'']"

definition single_db :: "path \<Rightarrow> path" where
  "single_db p = Path (path_root p) (path_parts p @ SINGLE_DB)"

definition cell_db :: "path \<Rightarrow> path \<Rightarrow> (string \<times> string \<times> path) option" where
  \<comment> \<open>the glob: five directories, of which the third is the arm and the fourth the task\<close>
  "cell_db work q =
     (if path_root q = path_root work \<and> take (length (path_parts work)) (path_parts q) = path_parts work
      then (case drop (length (path_parts work)) (path_parts q) of
              _ # _ # arm # tid # _ # rest \<Rightarrow> (if rest = SINGLE_DB then Some (arm, tid, q) else None)
            | _ \<Rightarrow> None)
      else None)"

definition find_cells :: "fs \<Rightarrow> path \<Rightarrow> (string \<times> string \<times> path) list" where
  "find_cells t work = List.map_filter (cell_db work) (sort (map fst t))"

definition cells_under :: "fs \<Rightarrow> path \<Rightarrow> (string \<times> string \<times> path) list" where
  "cells_under t place = (if fs_exists t (single_db place) then [([], path_name place, single_db place)] else find_cells t place)"

definition TOKEN_HEADER :: string where
  "TOKEN_HEADER = pad_right 10 ''arm'' @ '' '' @ pad_right 14 ''task'' @ '' '' @ pad_left 8 ''gen tok'' @ '' '' @ pad_left 7 ''think%'' @ '' '' @
     pad_left 6 ''parts'' @ '' '' @ pad_left 10 ''predicted''"

definition token_line :: "rat \<Rightarrow> string \<Rightarrow> string \<Rightarrow> breakdown \<Rightarrow> string" where
  "token_line rate arm tid b =
     pad_right 10 arm @ '' '' @ pad_right 14 tid @ '' '' @ pad_left 8 (str_nat (total_tokens b)) @ '' '' @
     pad_left 6 (fixed1 (fmul 100 (reasoning_share b))) @ ''% '' @ pad_left 6 (str_nat (bk_parts b)) @ '' '' @
     pad_left 9 (fixed1 (fdiv (predicted_seconds rate b) 60)) @ ''m''"

fun token_lines :: "session_db \<Rightarrow> rat \<Rightarrow> (string \<times> string \<times> path) list \<Rightarrow> string list" where
  \<comment> \<open>up to the first database that SQLite cannot read\<close>
  "token_lines db rate [] = []"
| "token_lines db rate ((arm, tid, p) # cells) =
     (case measure_db db p of None \<Rightarrow> [] | Some b \<Rightarrow> token_line rate arm tid b # token_lines db rate cells)"

definition gen_stdout :: "session_db \<Rightarrow> fs \<Rightarrow> path \<Rightarrow> rat \<Rightarrow> string" where
  \<comment> \<open>\<open>main\<close> without \<open>--by-session\<close>: what it prints\<close>
  "gen_stdout db t place rate =
     (let cells = cells_under t place;
          printed = (if cells = [] then [''no opencode.db found under '' @ path_str place] else TOKEN_HEADER # token_lines db rate cells) in
      concat (map (\<lambda>line. line @ [CHR 0x0A]) printed))"

section \<open>Reading the number back\<close>

definition digit_like :: "char \<Rightarrow> bool" where
  \<comment> \<open>\<open>str.isdigit\<close>: the superscripts too\<close>
  "digit_like c = (is_digit c \<or> c \<in> {CHR 0xB2, CHR 0xB3, CHR 0xB9})"

definition first_count :: "string list \<Rightarrow> (crash, int option) res" where
  \<comment> \<open>\<open>int\<close> refuses a superscript\<close>
  "first_count parts =
     (case filter (\<lambda>part. part \<noteq> [] \<and> list_all digit_like part) parts of
        [] \<Rightarrow> Inr None
      | part # _ \<Rightarrow> (if list_all is_digit part then Inr (Some (int (nat_of_digits part))) else Inl BadType))"

definition read_count :: "string \<Rightarrow> (crash, int option) res" where
  "read_count out = first_count (concat (map words (drop 1 (splitlines out))))"

definition ratio_tokens :: "session_db \<Rightarrow> fs \<Rightarrow> path \<Rightarrow> json \<Rightarrow> (crash, int option) res" where
  \<comment> \<open>\<open>generated_tokens\<close> of \<open>ratios.py\<close>\<close>
  "ratio_tokens db t results_dir cid =
     (if \<not> truthy cid then Inr None
      else (case cid of
              JStr c \<Rightarrow>
                (let cell = path_join (path_join results_dir ''trees'') (str_replace ''/'' ''__'' c) in
                 if \<not> fs_exists t (path_join (path_join cell ''session'') ''opencode.db'') then Inr None
                 else read_count (gen_stdout db t cell DEFAULT_TOKENS_PER_SECOND))
            | _ \<Rightarrow> Inl NoAttribute))"

definition born_close :: "rat \<Rightarrow> rat \<Rightarrow> bool" where
  \<comment> \<open>\<open>abs(born - began) <= STALE_TREE_TOLERANCE_S\<close>\<close>
  "born_close born began = (\<bar>fsub born began\<bar> \<le> 3600)"

definition tree_matches_result :: "(string \<Rightarrow> rat option) \<Rightarrow> (path \<Rightarrow> rat option) \<Rightarrow> path \<Rightarrow> jobj option \<Rightarrow> bool" where
  \<comment> \<open>reading a time stamp and the time a directory was made are arguments\<close>
  "tree_matches_result iso_s born cell record =
     (case record of
        None \<Rightarrow> False
      | Some r \<Rightarrow>
          (case jget r ''startedIso'' of
             JStr started \<Rightarrow>
               (if started = [] then False
                else (case (iso_s (str_replace ''Z'' ''+00:00'' started), born cell) of
                        (Some began, Some b) \<Rightarrow> born_close b began
                      | _ \<Rightarrow> False))
           | _ \<Rightarrow> False))"

definition arm_tokens ::
  "session_db \<Rightarrow> (string \<Rightarrow> rat option) \<Rightarrow> (path \<Rightarrow> rat option) \<Rightarrow> fs \<Rightarrow> path \<Rightarrow> jobj option \<Rightarrow> (crash, int option) res" where
  \<comment> \<open>\<open>generated_tokens\<close> of \<open>arm_report.py\<close>\<close>
  "arm_tokens db iso_s born t cell record =
     (if \<not> tree_matches_result iso_s born cell record \<or> \<not> fs_exists t (single_db cell) then Inr None
      else read_count (gen_stdout db t cell DEFAULT_TOKENS_PER_SECOND))"

section \<open>Ratios to the baseline\<close>

record cost_cell =
  cc_arm :: string
  cc_task :: string
  cc_rep :: int
  cc_minutes :: rat
  cc_passed :: bool
  cc_timed_out :: bool
  cc_tokens :: "int option"

text \<open>\<open>"arm" not in d or "taskId" not in d\<close>, whatever the document is; only an object is then read.\<close>

definition holds_key :: "json \<Rightarrow> string \<Rightarrow> (crash, bool) res" where
  "holds_key j k =
     (case j of
        JObj d \<Rightarrow> Inr (dhas d k)
      | JArr xs \<Rightarrow> Inr (JStr k \<in> set xs)
      | JStr s \<Rightarrow> Inr (str_in k s)
      | _ \<Rightarrow> Inl BadType)"

definition int_rep :: "json \<Rightarrow> (crash, int) res" where
  \<comment> \<open>\<open>int(x)\<close> of a number; a repetition written as text is outside the model\<close>
  "int_rep x =
     (case x of
        JInt n \<Rightarrow> Inr n
      | JBool b \<Rightarrow> Inr (if b then 1 else 0)
      | JFloat m e \<Rightarrow> Inr (if e \<ge> 0 then m * 10 ^ nat e else sgn m * (\<bar>m\<bar> div 10 ^ nat (- e)))
      | _ \<Rightarrow> Inl BadType)"

definition get_or :: "jobj \<Rightarrow> string \<Rightarrow> json \<Rightarrow> json" where
  "get_or d k x = (case dget d k of Some j \<Rightarrow> j | None \<Rightarrow> x)"

definition cost_cell_of :: "session_db \<Rightarrow> fs \<Rightarrow> path \<Rightarrow> jobj \<Rightarrow> (crash, cost_cell) res" where
  \<comment> \<open>an arm or a task that is no text is outside the model: the report compares and sorts them\<close>
  "cost_cell_of db t results_dir d =
     bindE (row_text d ''arm'') (\<lambda>arm.
     bindE (row_text d ''taskId'') (\<lambda>tid.
     bindE (int_rep (get_or d ''rep'' (JInt 1))) (\<lambda>rep.
     case as_float (get_or d ''wallClockMs'' (JInt 0)) of
       None \<Rightarrow> Inl BadType
     | Some ms \<Rightarrow>
         bindE (ratio_tokens db t results_dir (get_or d ''cellId'' (JStr []))) (\<lambda>tokens.
           Inr \<lparr>cc_arm = arm, cc_task = tid, cc_rep = rep, cc_minutes = fdiv ms 60000,
                cc_passed = truthy (jget d ''passed''), cc_timed_out = truthy (jget d ''timedOut''), cc_tokens = tokens\<rparr>))))"

definition load_cell :: "session_db \<Rightarrow> fs \<Rightarrow> path \<Rightarrow> cost_cell list \<Rightarrow> path \<Rightarrow> (crash, cost_cell list) res" where
  "load_cell db t results_dir out p =
     (case dget t p of
        Some (NBin _) \<Rightarrow> Inl BadType
      | Some (NFile s) \<Rightarrow>
          (case json_loads s of
             None \<Rightarrow> Inr out
           | Some j \<Rightarrow>
               bindE (holds_key j ''arm'') (\<lambda>arm.
               if \<not> arm then Inr out
               else bindE (holds_key j ''taskId'') (\<lambda>tid.
                 if \<not> tid then Inr out
                 else (case j of
                         JObj d \<Rightarrow> bindE (cost_cell_of db t results_dir d) (\<lambda>c. Inr (out @ [c]))
                       | _ \<Rightarrow> Inl BadType))))
      | _ \<Rightarrow> Inr out)"

definition load_cells :: "session_db \<Rightarrow> fs \<Rightarrow> path \<Rightarrow> (crash, cost_cell list) res" where
  "load_cells db t results_dir = foldE (load_cell db t results_dir) [] (dir_glob t results_dir ''*.json'')"

definition BASELINE :: string where "BASELINE = ''baseline''"
definition RATIO_ARMS :: "string list" where "RATIO_ARMS = [''baseline'', ''doctrine'', ''conductor'']"
definition MIN_MEANINGFUL_MINUTES :: rat where "MIN_MEANINGFUL_MINUTES = 3 / 2"
definition MIN_MEANINGFUL_TOKENS :: rat where "MIN_MEANINGFUL_TOKENS = 800"

datatype den_note = NoSuccessfulRun | NeverArchived nat string | OneSample | Sound

record denominator =
  dn_value :: "rat option"
  dn_samples :: nat
  dn_note :: den_note

definition den_usable :: "denominator \<Rightarrow> bool" where
  "den_usable den = (case dn_value den of None \<Rightarrow> False | Some v \<Rightarrow> v > 0)"

definition median_rat :: "rat list \<Rightarrow> rat" where
  \<comment> \<open>\<open>float(statistics.median(values))\<close>\<close>
  "median_rat values =
     (let s = sort values; n = length s in
      if odd n then dbl (s ! (n div 2)) else fdiv (fadd (s ! (n div 2 - 1)) (s ! (n div 2))) 2)"

definition field_of :: "string \<Rightarrow> cost_cell \<Rightarrow> rat option" where
  \<comment> \<open>\<open>getattr(c, field)\<close>\<close>
  "field_of field c = (if field = ''minutes'' then Some (cc_minutes c) else map_option of_int (cc_tokens c))"

definition baseline_median :: "cost_cell list \<Rightarrow> string \<Rightarrow> string \<Rightarrow> denominator" where
  "baseline_median cells tid field =
     (let succeeded = filter (\<lambda>c. cc_arm c = BASELINE \<and> cc_task c = tid \<and> cc_passed c \<and> \<not> cc_timed_out c) cells;
          values = List.map_filter (field_of field) succeeded in
      case values of
        [] \<Rightarrow> \<lparr>dn_value = None, dn_samples = 0,
               dn_note = (if succeeded = [] then NoSuccessfulRun else NeverArchived (length succeeded) field)\<rparr>
      | [v] \<Rightarrow> \<lparr>dn_value = Some (dbl v), dn_samples = 1, dn_note = OneSample\<rparr>
      | _ \<Rightarrow> \<lparr>dn_value = Some (median_rat values), dn_samples = length values, dn_note = Sound\<rparr>)"

datatype ratio_text = Dash | BelowFloor | Times string

definition ratio :: "rat option \<Rightarrow> denominator \<Rightarrow> rat \<Rightarrow> ratio_text" where
  "ratio value den least =
     (case (value, dn_value den) of
        (Some v, Some d) \<Rightarrow> (if \<not> den_usable den then Dash else if d < least then BelowFloor else Times (fixed1 (fdiv v d)))
      | _ \<Rightarrow> Dash)"

record ratio_row =
  rr_label :: string
  rr_outcome :: string
  rr_time :: string
  rr_time_ratio :: ratio_text
  rr_tokens :: "int option"
  rr_token_ratio :: ratio_text

definition ratio_row_of :: "denominator \<Rightarrow> denominator \<Rightarrow> cost_cell \<Rightarrow> ratio_row" where
  "ratio_row_of t_den k_den c =
     \<lparr>rr_label = cc_arm c @ (if cc_rep c > 1 then '' r'' @ str_int (cc_rep c) else []),
      rr_outcome = (if cc_timed_out c then ''TIMEOUT'' else if cc_passed c then ''pass'' else ''fail''),
      rr_time = fixed1 (cc_minutes c) @ ''m'', rr_time_ratio = ratio (Some (cc_minutes c)) t_den MIN_MEANINGFUL_MINUTES,
      rr_tokens = cc_tokens c, rr_token_ratio = ratio (map_option (\<lambda>n. dbl (of_int n)) (cc_tokens c)) k_den MIN_MEANINGFUL_TOKENS\<rparr>"

definition task_ratios :: "cost_cell list \<Rightarrow> string \<Rightarrow> denominator \<times> denominator \<times> ratio_row list" where
  "task_ratios cells tid =
     (let t_den = baseline_median cells tid ''minutes''; k_den = baseline_median cells tid ''tokens'' in
      (t_den, k_den,
       concat (map (\<lambda>arm. map (ratio_row_of t_den k_den)
         (sort_key cc_rep (filter (\<lambda>c. cc_arm c = arm \<and> cc_task c = tid) cells))) RATIO_ARMS)))"

definition ratio_tables ::
  "session_db \<Rightarrow> fs \<Rightarrow> path \<Rightarrow> (crash, (string \<times> denominator \<times> denominator \<times> ratio_row list) list) res" where
  \<comment> \<open>the numbers of \<open>report\<close>, a table per task\<close>
  "ratio_tables db t results_dir =
     bindE (load_cells db t results_dir) (\<lambda>cells.
       Inr (map (\<lambda>tid. (tid, task_ratios cells tid)) (sort (remdups (map cc_task cells)))))"

end
