(* ===== verification/Token_Ratios_Laws.thy ===== *)
theory Token_Ratios_Laws
  imports Token_Ratios Bench_Campaign_Laws
begin

text \<open>
  What becomes of a count that one script prints and two others read: from a work tree it is read
  back exactly; from the archive it never is, because the archive keeps the database elsewhere.
\<close>

section \<open>Words\<close>

lemma words_space: "py_space c \<Longrightarrow> words (c # s) = words s"
  by (subst (1 2) words.simps) (simp add: lstrip_def)

lemma words_step:
  "lstrip s = c # r \<Longrightarrow> takeWhile (\<lambda>c. \<not> py_space c) (c # r) = w \<Longrightarrow> dropWhile (\<lambda>c. \<not> py_space c) (c # r) = t \<Longrightarrow>
   words s = w # words t"
  unfolding words.simps [of s] by (simp only: list.case)

lemma words_spaces: "list_all py_space a \<Longrightarrow> words (a @ s) = words s"
  by (induction a) (simp_all add: words_space)

lemma words_Nil: "words [] = []"
  by (subst words.simps) (simp add: lstrip_def)

lemma words_word: "w \<noteq> [] \<Longrightarrow> list_all (\<lambda>c. \<not> py_space c) w \<Longrightarrow> py_space c \<Longrightarrow> words (w @ c # s) = w # words (c # s)"
proof -
  assume w: "w \<noteq> []" "list_all (\<lambda>c. \<not> py_space c) w" and c: "py_space c"
  obtain d r where d: "w = d # r" "\<not> py_space d" using w by (cases w) auto
  have "takeWhile (\<lambda>c. \<not> py_space c) (w @ c # s) = w" "dropWhile (\<lambda>c. \<not> py_space c) (w @ c # s) = c # s"
    using w(2) c by (auto simp: list_all_iff)
  then show ?thesis using d by (intro words_step [of _ d]) (simp_all add: lstrip_def)
qed

lemma words_last: "w \<noteq> [] \<Longrightarrow> list_all (\<lambda>c. \<not> py_space c) w \<Longrightarrow> words w = [w]"
proof -
  assume w: "w \<noteq> []" "list_all (\<lambda>c. \<not> py_space c) w"
  obtain d r where d: "w = d # r" "\<not> py_space d" using w by (cases w) auto
  have "takeWhile (\<lambda>c. \<not> py_space c) w = w" "dropWhile (\<lambda>c. \<not> py_space c) w = []"
    using w(2) by (auto simp: list_all_iff)
  then have "words w = w # words []" using d by (intro words_step [of _ d]) (simp_all add: lstrip_def)
  then show ?thesis by (simp add: words_Nil)
qed

lemma words_append: "py_space c \<Longrightarrow> words (a @ c # s) = words a @ words s"
proof (induction a rule: length_induct)
  case (1 a)
  define sp where "sp = takeWhile py_space a"
  define b where "b = dropWhile py_space a"
  define w where "w = takeWhile (\<lambda>c. \<not> py_space c) b"
  define r where "r = dropWhile (\<lambda>c. \<not> py_space c) b"
  have a: "a = sp @ b" "list_all py_space sp" by (auto simp: sp_def b_def list_all_iff dest: set_takeWhileD)
  have b: "b = w @ r" "list_all (\<lambda>c. \<not> py_space c) w" by (auto simp: w_def r_def list_all_iff dest: set_takeWhileD)
  show ?case
  proof (cases "b = []")
    case True
    have "words sp = []" using words_spaces [OF a(2), of "[]"] by (simp add: words_Nil)
    then show ?thesis using True a "1.prems" by (simp add: words_spaces words_space)
  next
    case False
    then have "\<not> py_space (hd b)" unfolding b_def by (rule hd_dropWhile)
    with False have w: "w \<noteq> []" by (simp add: w_def takeWhile_eq_Nil_iff)
    show ?thesis
    proof (cases r)
      case Nil
      then show ?thesis
        using words_word [OF w b(2) "1.prems", of s] words_last [OF w b(2)] a b "1.prems" by (simp add: words_spaces words_space)
    next
      case (Cons d r')
      have d: "py_space d" using Cons hd_dropWhile [of "\<lambda>c. \<not> py_space c" b] by (simp add: r_def)
      have "words (d # r' @ c # s) = words (d # r') @ words s"
        using "1.IH" "1.prems" a b w Cons by (auto dest: spec [of _ "d # r'"])
      then show ?thesis
        using words_word [OF w b(2) d] a b Cons by (simp add: words_spaces)
    qed
  qed
qed

lemma space_is_space: "py_space (CHR '' '')"
  by (simp add: py_space_def)

lemma blanks: "list_all py_space (replicate n (CHR '' ''))"
  by (simp add: list_all_iff space_is_space)

lemma words_pad_right: "words (pad_right n s) = words s"
proof (cases "n - length s")
  case 0
  then show ?thesis by (simp add: pad_right_def)
next
  case (Suc k)
  then show ?thesis using words_spaces [OF blanks, of k "[]"]
    by (simp add: pad_right_def words_append [OF space_is_space] words_Nil)
qed

lemma words_pad_left: "words (pad_left n s) = words s"
  by (simp add: pad_left_def words_spaces [OF blanks])

lemma words_nat: "words (str_nat n) = [str_nat n]"
proof (rule words_last)
  show "list_all (\<lambda>c. \<not> py_space c) (str_nat n)"
    using str_nat_digits [of _ n] by (fastforce simp: list_all_iff is_digit_def py_space_def Let_def)
qed simp

section \<open>The count that is printed is the count that is read\<close>

definition plain_name :: "string \<Rightarrow> bool" where
  \<comment> \<open>no line break in the name of the directory, and no word of it a number\<close>
  "plain_name s = (list_all (\<lambda>c. \<not> line_break c) s \<and> list_all (\<lambda>w. \<not> list_all digit_like w) (words s))"

lemma header_line: "list_all (\<lambda>c. \<not> line_break c) TOKEN_HEADER"
  by code_simp

lemma plain_chars: "\<not> line_break (CHR '' '')" "\<not> line_break (CHR ''%'')" "\<not> line_break (CHR ''m'')"
  "\<not> line_break (CHR ''.'')" "\<not> line_break (CHR ''-'')"
  by (simp_all add: line_break_def)

lemma plain_nat: "list_all (\<lambda>c. \<not> line_break c) (str_nat n)"
  using str_nat_digits [of _ n] by (fastforce simp: list_all_iff is_digit_def line_break_def Let_def)

lemma plain_fixed1: "list_all (\<lambda>c. \<not> line_break c) (fixed1 x)"
  by (simp add: fixed1_def Let_def str_int_def plain_nat plain_chars)

lemma plain_padded:
  "list_all (\<lambda>c. \<not> line_break c) (pad_left n s) = list_all (\<lambda>c. \<not> line_break c) s"
  "list_all (\<lambda>c. \<not> line_break c) (pad_right n s) = list_all (\<lambda>c. \<not> line_break c) s"
  by (auto simp: pad_left_def pad_right_def list_all_iff plain_chars)

lemma token_line_plain:
  "list_all (\<lambda>c. \<not> line_break c) tid \<Longrightarrow> list_all (\<lambda>c. \<not> line_break c) (token_line rate [] tid b)"
  by (simp add: token_line_def plain_padded plain_nat plain_fixed1 plain_chars)

lemma token_line_words:
  "\<exists>rest. words (token_line rate [] tid b) = words tid @ str_nat (total_tokens b) # rest"
  by (simp add: token_line_def words_append [OF space_is_space] words_pad_right words_pad_left words_nat words_Nil)

lemma splitlines_last: "list_all (\<lambda>c. \<not> line_break c) l \<Longrightarrow> splitlines (l @ [CHR 0x0A]) = [l]"
  using splitlines_newline [of l "[]"] by (simp add: list_all_iff)

lemma digits_like: "list_all digit_like (str_nat n)" "list_all is_digit (str_nat n)"
  using str_nat_digits [of _ n] by (auto simp: list_all_iff digit_like_def)

lemma first_count_skips:
  assumes "list_all (\<lambda>w. \<not> list_all digit_like w) ws"
  shows "first_count (ws @ str_nat n # rest) = Inr (Some (int n))"
proof -
  have "filter (\<lambda>part. part \<noteq> [] \<and> list_all digit_like part) ws = []" using assms by (auto simp: filter_empty_conv list_all_iff)
  then show ?thesis by (simp add: first_count_def digits_like)
qed

text \<open>C22: the count read off the printed table is the count that was measured: for a cell of a work tree the
  scripts that run \<open>gen_tokens.py\<close> as a command get the tokens of exactly the parts its database
  has, however its columns are padded, as long as no word of the directory's name is a number.\<close>

theorem printed_tokens_are_read_back:
  assumes "fs_exists t (single_db cell)" "db (single_db cell) = Some rows" "plain_name (path_name cell)"
  shows "read_count (gen_stdout db t cell rate) = Inr (Some (int (total_tokens (accumulate (filter (\<lambda>row. row \<noteq> []) rows)))))"
proof -
  let ?b = "accumulate (filter (\<lambda>row. row \<noteq> []) rows)" and ?name = "path_name cell"
  have name: "list_all (\<lambda>c. \<not> line_break c) ?name" "list_all (\<lambda>w. \<not> list_all digit_like w) (words ?name)"
    using assms(3) by (simp_all add: plain_name_def)
  obtain rest where ws: "words (token_line rate [] ?name ?b) = words ?name @ str_nat (total_tokens ?b) # rest"
    using token_line_words by blast
  have "gen_stdout db t cell rate = TOKEN_HEADER @ CHR 0x0A # token_line rate [] ?name ?b @ [CHR 0x0A]"
    using assms(1,2) by (simp add: gen_stdout_def cells_under_def measure_db_def part_rows_def)
  then have "splitlines (gen_stdout db t cell rate) = [TOKEN_HEADER, token_line rate [] ?name ?b]"
    using splitlines_newline [of TOKEN_HEADER] header_line splitlines_last [OF token_line_plain [OF name(1)]] by (simp add: list_all_iff)
  then show ?thesis using ws name(2) by (simp add: read_count_def first_count_skips)
qed

definition demo_cell_dir :: path where
  "demo_cell_dir = Path ''/'' [''w'', ''r1'']"

definition demo_rows_db :: session_db where
  "demo_rows_db p = Some [''{\"type\": \"reasoning\", \"text\": \"thinking about it\"}'', [], ''{\"type\": \"text\"'']"

theorem printed_tokens_are_read_back_witness:
  "read_count (gen_stdout demo_rows_db [(single_db demo_cell_dir, NBin [])] demo_cell_dir 14) = Inr (Some 4)"
proof -
  let ?t = "[(single_db demo_cell_dir, NBin [])]"
  have "fs_exists ?t (single_db demo_cell_dir)" by (simp add: fs_exists_def dhas_def)
  moreover have "plain_name (path_name demo_cell_dir)" by code_simp
  moreover have "total_tokens (accumulate (filter (\<lambda>row. row \<noteq> [])
      [''{\"type\": \"reasoning\", \"text\": \"thinking about it\"}'', [], ''{\"type\": \"text\"''])) = 4"
    by code_simp
  ultimately show ?thesis
    using printed_tokens_are_read_back [of ?t demo_cell_dir demo_rows_db] by (simp add: demo_rows_db_def)
qed

section \<open>The archive\<close>

text \<open>What \<open>archive_cell_tree\<close> leaves of a cell's database: \<open>session/opencode.db\<close>, below the
  directory of the cell. The only other database is one that a produced program brings along.\<close>

definition under_trees :: "path \<Rightarrow> path \<Rightarrow> string list option" where
  "under_trees results_dir q =
     (let n = Suc (length (path_parts results_dir)) in
      if path_root q = path_root results_dir \<and> take n (path_parts q) = path_parts results_dir @ [''trees'']
      then Some (drop n (path_parts q)) else None)"

definition archive_layout :: "path \<Rightarrow> fs \<Rightarrow> bool" where
  "archive_layout results_dir t =
     list_all (\<lambda>(q, _). case under_trees results_dir q of
         Some (_ # ps) \<Rightarrow> ps = [] \<or> last ps \<noteq> ''opencode.db'' \<or> ps = [''session'', ''opencode.db'']
       | _ \<Rightarrow> True) t"

lemma under_trees_at: "under_trees results_dir (Path (path_root results_dir) (path_parts results_dir @ ''trees'' # ps)) = Some ps"
  by (simp add: under_trees_def)

lemma archive_layout_at:
  assumes "archive_layout results_dir t" "dhas t (Path (path_root results_dir) (path_parts results_dir @ ''trees'' # stem # ps))"
    and "ps \<noteq> []" "last ps = ''opencode.db''"
  shows "ps = [''session'', ''opencode.db'']"
proof -
  obtain x where "(Path (path_root results_dir) (path_parts results_dir @ ''trees'' # stem # ps), x) \<in> set t"
    using assms(2) by (auto simp: dhas_def dest: map_of_SomeD)
  then have "case under_trees results_dir (Path (path_root results_dir) (path_parts results_dir @ ''trees'' # stem # ps)) of
      Some (_ # ps) \<Rightarrow> ps = [] \<or> last ps \<noteq> ''opencode.db'' \<or> ps = [''session'', ''opencode.db''] | _ \<Rightarrow> True"
    using assms(1) unfolding archive_layout_def list_all_iff by (metis (no_types, lifting) case_prodD)
  then show ?thesis using assms(3,4) by (simp add: under_trees_at)
qed

definition archived_cell :: "path \<Rightarrow> string \<Rightarrow> path" where
  "archived_cell results_dir c = path_join (path_join results_dir ''trees'') (str_replace ''/'' ''__'' c)"

lemma path_of_plain: "CHR ''/'' \<notin> set s \<Longrightarrow> path_root (path_of s) = [] \<and> path_parts (path_of s) = filter (\<lambda>p. p \<noteq> [] \<and> p \<noteq> ''.'') [s]"
  by (cases s) (auto simp: path_of_def starts_with_def str_split_no_sep)

lemma archived_cell_is:
  "\<exists>xs. length xs \<le> 1 \<and> archived_cell results_dir c = Path (path_root results_dir) (path_parts results_dir @ ''trees'' # xs)"
proof -
  have "CHR ''/'' \<notin> set (str_replace ''/'' ''__'' c)" by (rule str_replace_free) simp
  from path_of_plain [OF this] show ?thesis
    by (auto simp: archived_cell_def path_join_def [of _ "str_replace ''/'' ''__'' c"] path_join_simple simple_part_def Let_def)
qed

lemma no_database:
  assumes "archive_layout results_dir t" "length xs \<le> 1" "cell = Path (path_root results_dir) (path_parts results_dir @ ''trees'' # xs)"
  shows "cells_under t cell = []"
proof -
  have never: False if there: "dhas t (Path (path_root cell) (path_parts cell @ ps @ SINGLE_DB))" and ps: "ps = [] \<or> length ps = 5" for ps
  proof -
    obtain stem qs where qs: "xs @ ps @ SINGLE_DB = stem # qs" "qs \<noteq> []" "last qs = ''opencode.db''" "length qs \<ge> 3"
      using assms(2) ps by (cases xs; cases ps) (auto simp: SINGLE_DB_def)
    from archive_layout_at [OF assms(1) _ qs(2,3), of stem] there qs(1,4) show False by (auto simp: assms(3))
  qed
  have "\<not> fs_exists t (single_db cell)" using never [of "[]"] by (auto simp: fs_exists_def single_db_def)
  moreover have "cell_db cell q = None" if "q \<in> set (map fst t)" for q
  proof (rule ccontr)
    assume "cell_db cell q \<noteq> None"
    then obtain a b arm tid e where q: "path_root q = path_root cell"
      "take (length (path_parts cell)) (path_parts q) = path_parts cell"
      "drop (length (path_parts cell)) (path_parts q) = [a, b, arm, tid, e] @ SINGLE_DB"
      by (auto simp: cell_db_def split: if_splits list.splits)
    then have "path_parts q = path_parts cell @ [a, b, arm, tid, e] @ SINGLE_DB" by (metis append_take_drop_id)
    with q(1) have "q = Path (path_root cell) (path_parts cell @ [a, b, arm, tid, e] @ SINGLE_DB)" by (intro path_eqI) simp_all
    moreover have "dhas t q" using that unfolding dhas_iff set_map by (rule in_keys_iff [THEN iffD1])
    ultimately show False using never [of "[a, b, arm, tid, e]"] by simp
  qed
  then have "find_cells t cell = []" by (simp add: find_cells_def List.map_filter_def filter_empty_conv)
  ultimately show ?thesis by (simp add: cells_under_def)
qed


definition demo_results :: path where "demo_results = Path ''/'' [''results'']"

definition demo_archive :: fs where
  "demo_archive =
     [(Path ''/'' [''results'', ''trees''], NDir), (Path ''/'' [''results'', ''trees'', ''m__t__r1''], NDir),
      (Path ''/'' [''results'', ''trees'', ''m__t__r1'', ''session''], NDir),
      (Path ''/'' [''results'', ''trees'', ''m__t__r1'', ''session'', ''opencode.db''], NBin [])]"


text \<open>Without tokens the token denominator of a task is not usable, and when the baseline passed the
  note says that the tokens were never archived.\<close>

lemma token_note:
  assumes "list_all (\<lambda>c. cc_tokens c = None) cells"
  shows "baseline_median cells tid ''tokens'' =
    (let n = length (filter (\<lambda>c. cc_arm c = BASELINE \<and> cc_task c = tid \<and> cc_passed c \<and> \<not> cc_timed_out c) cells) in
     \<lparr>dn_value = None, dn_samples = 0, dn_note = if n = 0 then NoSuccessfulRun else NeverArchived n ''tokens''\<rparr>)"
proof -
  let ?s = "filter (\<lambda>c. cc_arm c = BASELINE \<and> cc_task c = tid \<and> cc_passed c \<and> \<not> cc_timed_out c) cells"
  have "List.map_filter (field_of ''tokens'') ?s = []"
    using assms by (auto simp: List.map_filter_def filter_empty_conv list_all_iff field_of_def)
  then show ?thesis by (simp add: baseline_median_def Let_def)
qed

end
