(* ===== verification/Spec2Isabelle.thy ===== *)
theory Spec2Isabelle
  imports Json_Roundtrip Text_Store Wiring_Config_Laws Wiring_Apply Wiring_Router_Laws Wiring_Stall
    Bench_Files_Laws Bench_Manifest_Laws Bench_Plan_Laws Bench_Arms Bench_Ledger Bench_Results Bench_Cell_Laws
    Bench_Aggregate_Laws Bench_Campaign_Laws Judge_Epoch_Laws Fetch_Gguf_Laws Fetch_Catalog_Laws Fetch_Configs
    Euler_Audit_Laws Euler_Compose Bench_Report_Laws Campaign_Check_Laws Campaign_Arms_Laws
    Review_Cost_Laws Review_Waves_Laws Token_Ratios_Laws
begin

text \<open>
  Verification library of the Python harness of llama-leash: the wiring of a local server and
  router into opencode (\<open>scripts/conductor_wiring.py\<close>), the three-arm benchmark
  (\<open>scripts/conductor_bench.py\<close>), the blind judging of its outcomes
  (\<open>scripts/judge_quality.py\<close>, over the archive that \<open>scripts/epoch_review.py\<close> reads), the
  check of a finished run (\<open>scripts/check_campaign.py\<close>) and the cost of one (\<open>review_cost.py\<close>,
  \<open>gen_tokens.py\<close>, \<open>ratios.py\<close>), the
  installation of models (\<open>scripts/fetch_models.py\<close> over \<open>scripts/models_catalog.py\<close>) and the
  generated Project Euler task set (\<open>scripts/generate_euler_tasks.py\<close>).

  The program. \<open>serve.py\<close> and \<open>fetch_models.py\<close> call the wiring: it derives the router's
  configuration from a few numbers, merges it over a file the operator may have edited,
  merges the conductor's fragment into the opencode configuration, decides before a session
  whether a router is launched, runs a detached supervisor for it and hands the session its
  environment. The benchmark reads a manifest of tasks, plans a matrix of cells (model,
  capability, arm, task, repetition), and for each cell seeds a work tree, builds the
  arm's configuration, spawns opencode, writes the hidden test files, runs the hidden test,
  scores it, charges the tokens the router's ledger grew by, and writes one result record,
  from which a resumed campaign goes on. The judge reads an epoch's archived trees, blinds
  them, asks a language model twice per round with the two arms exchanged, settles the
  replies into one verdict per comparison, and files a rubric score the benchmark reads. The
  installer picks models of a catalogue, finds the files of a quant in a repository, downloads
  them in chunks that survive an interruption, reads their GGUF headers, validates them, keeps
  a manifest per model and derives the client configurations from what is installed. The task
  generator turns an answer key and the questions written for it into a manifest, a seed tree
  and one gauge per problem, which the benchmark then loads.

  Theories, in the order they build on each other.
  \<^item> \<open>Prelude\<close>: results (\<open>Inl\<close> an error, \<open>Inr\<close> a value) with \<open>bindE\<close>, \<open>mapE\<close> and \<open>foldE\<close>,
    Python dictionaries as association lists in insertion order, Python's string methods.
  \<^item> \<open>Py_Json\<close>, \<open>Json_Roundtrip\<close>: JSON documents, \<open>json.dumps\<close> with and without
    indentation, \<open>json.loads\<close>, and that reading a written document gives it back.
  \<^item> \<open>Py_Path\<close>, \<open>Py_Glob\<close>: \<open>pathlib\<close> paths, the file tree, \<open>fnmatch\<close>.
  \<^item> \<open>Config_Merge\<close>: \<open>_deep_merge\<close>, \<open>_get_path\<close>, \<open>_set_path\<close>.
  \<^item> \<open>Text_Store\<close>: the locale \<open>text_codec\<close>, the contract between a document written and the
    file read, interpreted on indented JSON.
  \<^item> \<open>Wiring_Config\<close> (definitions), \<open>Wiring_Config_Laws\<close>, \<open>Wiring_Apply\<close>: slots, windows, server
    arguments, the router file and the opencode file. The laws: the window bounds, machine
    keys re-derived while hand edits survive, the refresh always admits, the wiring is
    idempotent and consumes the fragment's agents verbatim.
  \<^item> \<open>Wiring_Router\<close>, \<open>Wiring_Router_Laws\<close>: lookup and staleness of the binary, the preflight, the
    restart policy (locale \<open>supervisor_policy\<close>, interpreted on the policy the code ships),
    the supervisor as a step relation over what it observes, the health wait, the routing.
  \<^item> \<open>Wiring_Stall\<close>: the stall sentinel.
  \<^item> \<open>Bench_Files\<close>, \<open>Bench_Manifest\<close>, \<open>Bench_Plan\<close>, \<open>Bench_Arms\<close>, \<open>Bench_Ledger\<close>, \<open>Bench_Results\<close>,
    \<open>Bench_Cell\<close> and their \<open>_Laws\<close>: task file sets, the manifest, the plan, the arms, the
    ledger window and the run metrics, the result record, and one cell end to end
    (\<open>prepare_cell\<close>, \<open>measure_cell\<close>, \<open>run_cell\<close>). \<open>Bench_Cell_Demo\<close> is one concrete cell.
  \<^item> \<open>Bench_Aggregate\<close>, \<open>Bench_Aggregate_Laws\<close>: the tables of a stratum as folds over its cells; the
    laws relate every number to a count of cells (\<open>fate_of\<close>) and the totals to the tiers.
  \<^item> \<open>Bench_Campaign\<close>, \<open>Bench_Campaign_Laws\<close>: the loop over a plan, the floors a task set is
    checked against, the rubric lane, the sample for a human reviewer.
  \<^item> \<open>Bench_Report\<close>, \<open>Bench_Report_Laws\<close>: the Markdown report of a run, section by section, as
    \<open>render_report\<close> joins it. The laws: the sections keep their order whatever was measured,
    every planned cell is named or counted in a rate exactly once, and what "separable" means.
  \<^item> \<open>Py_Float\<close>: doubles as rationals rounded to nearest even with 53 bits, with the bound of
    their relative error.
  \<^item> \<open>Campaign_Check\<close>, \<open>Campaign_Check_Laws\<close>, \<open>Campaign_Arms_Laws\<close>: \<open>scripts/check_campaign.py\<close>, the
    signatures of known defects read from a finished run. \<open>Bench_Trace_Laws\<close> says what a cell
    leaves beside its record, and the laws that a recorded cell passes its own audit, that the
    budget check decides at 1.15 of the budget in spite of rounding, and that a run cut off
    anywhere in its plan is named unfinished and nothing else.
  \<^item> \<open>Review_Cost\<close>, \<open>Review_Cost_Laws\<close>, \<open>Review_Waves_Laws\<close>: \<open>scripts/review_cost.py\<close>, the objects of a
    reply and of the ledger, the journal grouped into waves over a store of dispatches, and the
    numbers of its tables. The laws: written objects are read back, a reply is its last object, and
    the grouping equals a definition without a store in which a dispatch looks ahead.
  \<^item> \<open>Token_Ratios\<close>, \<open>Token_Ratios_Laws\<close>: \<open>scripts/gen_tokens.py\<close>, the line it prints, and
    \<open>scripts/ratios.py\<close> and \<open>scripts/arm_report.py\<close>, which read the number off that line. The laws: the
    number read is the number measured for a work tree, and there is none for an archived one.
  \<^item> \<open>Py_Regex\<close>: the patterns the judge compiles and Python's backtracking search over them;
    the locale \<open>redactor\<close> says what a replaced text may still contain.
  \<^item> \<open>Judge_Blind\<close>: the identity tokens of an arm, their removal from a text and the count of
    what is left, \<open>redactor\<close> interpreted on them.
  \<^item> \<open>Judge_Quality\<close>, \<open>Judge_Quality_Laws\<close>, \<open>Judge_Reply_Laws\<close>, \<open>Judge_Verdicts\<close>: rendering a tree, the
    prompt, reading a reply, settling rounds into a verdict, the filed rubric record; a
    verdict survives exchanging the arms and a judge that follows positions only ties.
  \<^item> \<open>Judge_Epoch\<close>, \<open>Judge_Epoch_Laws\<close>: the archived cells of an epoch, the trees a comparison
    uses, the epoch's report and the calibration that earns a judge its trust.

  \<^item> \<open>Py_Bytes\<close>: bytes as words of 8 bits, little-endian numbers, UTF-8.
  \<^item> \<open>Fetch_Catalog\<close>, \<open>Fetch_Select\<close>: the catalogue, the selection an operator asks for, the files of
    a repository and the group of files of a quant. The laws: a selection is what was asked in
    catalogue order without repetition; a match is one group, whole when one is.
  \<^item> \<open>Fetch_Gguf\<close>: the cursor and the header reader with its bounded probe; the laws read back what
    an encoder writes and say exactly which headers are refused.
  \<^item> \<open>Fetch_Download\<close>: the workers over chunks as a step function on events, the state file; the laws
    keep the part file and the state file in agreement at every step, so that a run that is cut
    off anywhere resumes and a run that ends leaves the remote bytes.
  \<^item> \<open>Fetch_Install\<close>, \<open>Fetch_Configs\<close>: validation, the manifest of a model, \<open>install_model\<close>, verification,
    and the generated configurations, which offer what is installed.
  \<^item> \<open>Euler_Texts\<close>, \<open>Euler_Tasks\<close>, \<open>Euler_Manifest\<close>, \<open>Euler_Output\<close>: the texts the generator writes, its
    inputs and their refusals, the manifest document, the trees and \<open>main\<close>. \<open>Euler_Tree_Laws\<close> and
    \<open>Euler_Laws\<close> say what every path of the trees holds and that a check accepts what a write
    leaves, \<open>Euler_Audit_Laws\<close> that the audit measures the longest common run of words, and
    \<open>Euler_Load_Laws\<close> and \<open>Euler_Compose\<close> that the benchmark loads the generated manifest.

  Correspondence. A definition has the name of the Python function it models, without a
  leading underscore; a part of a function that is a definition of its own says so. A
  Python \<open>dict\<close> is an association list whose keys keep their order; a raised \<open>BenchError\<close> or
  \<open>WiringError\<close> is a constructor of the component's error type, in the order the code
  checks; a \<open>NamedTuple\<close> is a record. State is the file tree, passed and returned.

  What is a parameter. Git, the runner that executes an arm, the runner that executes a test,
  the MD5 digest, the clock, modification times, path resolution (links) and the search path
  are fields of \<open>driver\<close> or \<open>machine\<close>, or arguments; the judging model is a function of
  the job, the prompt and the seed. SHA-256, the tree document of a repository, the time stamp and
  the rendering of a GGUF value as JSON are arguments too; a download is driven by a list of
  events (a response opens, a block arrives, a connection fails), and a list that stops is a
  killed process. Hypotheses on them say what their
  documentation says: git writes below \<open>.git\<close> (\<open>git_local\<close>); an outcome is one that
  \<open>run_command\<close> returns (\<open>observed\<close>).

  Bounds of the model. Text is a list of characters below code point 256, read and written
  as UTF-8 with \<open>\n\<close> line ends; a write succeeds; times are integers in milliseconds where the
  code has seconds; a decimal number is a mantissa and an exponent. When the code raises,
  the value is the error and the tree it leaves is dropped. Loops over polled readings are
  recursive on the list of readings, so a run is a finite sequence of observations. A chunk is
  32 MiB and a header probe at most 96 MiB, as in the code; strings of a GGUF file keep the code
  points they decode to. The generated trees hold no symbolic link, and a gauge stays below
  the benchmark's size ceiling when numbers and answers have at most 1000 digits.

  Not modelled: spawning, signals and threads themselves, the command-line parsers, the terminal
  output, the report of the judge, the review of an epoch and the text around the cost tables, building llama.cpp and the console
  commands around the installer, timing models over HTTP, the TypeScript plugin, the C++ router
  and dashboard, and the corpus programs, among them what a gauge of the Euler set computes.
\<close>

end
